(* ===== verification/Prelude.thy ===== *)
theory Prelude
  imports
    Main
    "HOL-Library.Word"
    "HOL-Library.AList"
    "HOL-Library.Multiset"
    "HOL-Library.Char_ord"
    "HOL-Library.List_Lexorder"
    "HOL-Library.State_Monad"
begin

text \<open>
  The vocabulary the component theories share: names for the machine types of Go, the part of
  Go's standard library the sources use (\<open>strings\<close>, \<open>strconv\<close>, \<open>encoding/hex\<close>, \<open>math/big\<close>,
  \<open>sort\<close>), Go maps as association lists, and generic lemmas on lists, sums and the state monad.

  Conventions. A Go string is a byte sequence, so it is a \<open>string\<close> (a list of 8-bit \<open>char\<close>s)
  and Go's \<open><\<close> on strings is the lexicographic order of \<open>List_Lexorder\<close> over \<open>Char_ord\<close>. A
  fallible function returns \<open>error + 'a\<close> with the error in \<open>Inl\<close>. A pointer that may be nil is
  an \<open>option\<close>. A map is a list of (key, value) pairs with distinct keys, in one of the orders in
  which \<open>range\<close> may visit it; the theorems say when the result does not depend on that order.
  A \<open>time.Time\<close> is the number of nanoseconds since Go's zero time (1 January of year 1, UTC).
\<close>

named_theorems go_strings \<open>facts about formatting and parsing of Go strings\<close>
named_theorems go_sorts \<open>facts about the slices Go sorts\<close>

type_synonym byte = "8 word"
type_synonym uint64 = "64 word"
type_synonym gotime = int
type_synonym duration = int
type_synonym ('k, 'v) gomap = "('k \<times> 'v) list"

section \<open>Digits\<close>

definition digitChar :: "nat \<Rightarrow> char" where
  "digitChar n = char_of (if n < 10 then 48 + n else 87 + n)"

definition digitVal :: "char \<Rightarrow> nat option" where
  "digitVal c =
     (let n = of_char c :: nat in
      if 48 \<le> n \<and> n \<le> 57 then Some (n - 48)
      else if 97 \<le> n \<and> n \<le> 122 then Some (n - 87)
      else if 65 \<le> n \<and> n \<le> 90 then Some (n - 55)
      else None)"

definition lowerChar :: "char \<Rightarrow> char" where
  "lowerChar c = (let n = of_char c :: nat in if 65 \<le> n \<and> n \<le> 90 then char_of (n + 32) else c)"

lemma of_char_digitChar [simp]:
  "n < 36 \<Longrightarrow> (of_char (digitChar n) :: nat) = (if n < 10 then 48 + n else 87 + n)"
  by (auto simp: digitChar_def)

lemma digitVal_digitChar [simp]: "n < 36 \<Longrightarrow> digitVal (digitChar n) = Some n"
  by (auto simp: digitVal_def Let_def)

lemma digitChar_inj: "m < 36 \<Longrightarrow> n < 36 \<Longrightarrow> digitChar m = digitChar n \<longleftrightarrow> m = n"
  by (metis digitVal_digitChar option.inject)

lemma digitVal_lowerChar [simp]: "digitVal (lowerChar c) = digitVal c"
  by (auto simp: digitVal_def lowerChar_def Let_def)

lemma lowerChar_digitChar [simp]: "n < 36 \<Longrightarrow> lowerChar (digitChar n) = digitChar n"
  by (auto simp: lowerChar_def Let_def)

section \<open>Formatting: \<open>strconv.FormatUint\<close>, \<open>strconv.FormatInt\<close>, \<open>big.Int.String\<close>\<close>

fun fmtDigits :: "nat \<Rightarrow> nat \<Rightarrow> nat list" where
  "fmtDigits b n = (if n < b \<or> b < 2 then [n] else fmtDigits b (n div b) @ [n mod b])"

declare fmtDigits.simps [simp del]

definition FormatNat :: "nat \<Rightarrow> nat \<Rightarrow> string" where
  "FormatNat b n = map digitChar (fmtDigits b n)"

definition FormatInt :: "nat \<Rightarrow> int \<Rightarrow> string" where
  "FormatInt b i = (if i < 0 then CHR ''-'' # FormatNat b (nat (- i)) else FormatNat b (nat i))"

text \<open>Reading digits back, most significant first: \<open>None\<close> at the first character that is no
  digit of the base. The empty string has the value 0 here; the parsers reject it first.\<close>

fun parseDigits :: "nat \<Rightarrow> nat \<Rightarrow> string \<Rightarrow> nat option" where
  "parseDigits b acc [] = Some acc"
| "parseDigits b acc (c # cs) =
     (case digitVal c of
        None \<Rightarrow> None
      | Some v \<Rightarrow> if v < b then parseDigits b (acc * b + v) cs else None)"

lemma parseDigits_append:
  "parseDigits b acc (xs @ ys) =
     (case parseDigits b acc xs of None \<Rightarrow> None | Some a \<Rightarrow> parseDigits b a ys)"
  by (induction xs arbitrary: acc) (auto split: option.splits)

lemma fmtDigits_bounded: "2 \<le> b \<Longrightarrow> d \<in> set (fmtDigits b n) \<Longrightarrow> d < b"
proof (induction b n rule: fmtDigits.induct)
  case (1 b n)
  then show ?case by (subst (asm) (2) fmtDigits.simps) (auto split: if_splits)
qed

lemma fmtDigits_nonempty [simp]: "fmtDigits b n \<noteq> []"
  by (subst fmtDigits.simps) simp

lemma parseDigits_fmtDigits:
  "2 \<le> b \<Longrightarrow> b \<le> 36 \<Longrightarrow> parseDigits b 0 (map digitChar (fmtDigits b n)) = Some n"
proof (induction b n rule: fmtDigits.induct)
  case (1 b n)
  show ?case
  proof (cases "n < b")
    case True
    with "1.prems" show ?thesis by (simp add: fmtDigits.simps [of b n])
  next
    case False
    with 1 have "parseDigits b 0 (map digitChar (fmtDigits b (n div b))) = Some (n div b)"
      by simp
    moreover have "n mod b < b" using "1.prems" by simp
    moreover from this have "digitVal (digitChar (n mod b)) = Some (n mod b)"
      using "1.prems" by (intro digitVal_digitChar) linarith
    ultimately show ?thesis
      using "1.prems" False
      by (simp add: fmtDigits.simps [of b n] parseDigits_append)
  qed
qed

lemma parseDigits_FormatNat [go_strings]:
  "2 \<le> b \<Longrightarrow> b \<le> 36 \<Longrightarrow> parseDigits b 0 (FormatNat b n) = Some n"
  by (simp add: FormatNat_def parseDigits_fmtDigits)

lemma FormatNat_nonempty [simp]: "FormatNat b n \<noteq> []"
  by (simp add: FormatNat_def)

lemma FormatNat_inj: "2 \<le> b \<Longrightarrow> b \<le> 36 \<Longrightarrow> FormatNat b m = FormatNat b n \<longleftrightarrow> m = n"
  by (metis option.inject parseDigits_FormatNat)

section \<open>Parsing: \<open>strconv.ParseUint\<close>, \<open>big.Int.SetString\<close>\<close>

text \<open>\<open>strconv.ParseUint(s, base, 64)\<close>: the empty string and a non-digit are syntax errors, a
  value that does not fit 64 bits is a range error. Both are one error here.\<close>

definition ParseUint :: "nat \<Rightarrow> string \<Rightarrow> uint64 option" where
  "ParseUint b s =
     (if s = [] then None
      else case parseDigits b 0 s of
             None \<Rightarrow> None
           | Some v \<Rightarrow> if v < 2 ^ 64 then Some (word_of_nat v) else None)"

text \<open>\<open>big.Int.SetString(s, base)\<close> for a base other than 0: an optional sign, then at least one
  digit, and the whole string is consumed.\<close>

definition SetString :: "nat \<Rightarrow> string \<Rightarrow> int option" where
  "SetString b s =
     (case s of
        [] \<Rightarrow> None
      | c # cs \<Rightarrow>
          let neg = (c = CHR ''-'');
              ds = (if c = CHR ''-'' \<or> c = CHR ''+'' then cs else s)
          in if ds = [] then None
             else map_option (\<lambda>v. if neg then - int v else int v) (parseDigits b 0 ds))"

lemma ParseUint_FormatNat [go_strings]:
  "2 \<le> b \<Longrightarrow> b \<le> 36 \<Longrightarrow> ParseUint b (FormatNat b (unat (w :: uint64))) = Some w"
  using unsigned_less [of w] by (simp add: ParseUint_def parseDigits_FormatNat)

lemma FormatNat_hd_digit:
  assumes "2 \<le> b" "b \<le> 36"
  shows "\<exists>d < 36. \<exists>cs. FormatNat b n = digitChar d # cs"
proof -
  obtain d ds where ds: "fmtDigits b n = d # ds"
    by (cases "fmtDigits b n") auto
  then have "d < b" using fmtDigits_bounded [of b d n] assms by simp
  then show ?thesis using ds assms by (auto simp: FormatNat_def intro!: exI [of _ d])
qed

lemma digitChar_not_sign:
  "d < 36 \<Longrightarrow> digitChar d \<noteq> CHR ''-''" "d < 36 \<Longrightarrow> digitChar d \<noteq> CHR ''+''"
proof -
  have "digitVal (CHR ''-'') = None" "digitVal (CHR ''+'') = None"
    by (simp_all add: digitVal_def)
  then show "d < 36 \<Longrightarrow> digitChar d \<noteq> CHR ''-''" "d < 36 \<Longrightarrow> digitChar d \<noteq> CHR ''+''"
    by (metis digitVal_digitChar option.distinct(1))+
qed

lemma SetString_FormatInt [go_strings]:
  assumes "2 \<le> b" "b \<le> 36"
  shows "SetString b (FormatInt b i) = Some i"
proof (cases "i < 0")
  case True
  with assms show ?thesis
    by (simp add: SetString_def FormatInt_def parseDigits_FormatNat Let_def)
next
  case False
  obtain d cs where d: "d < 36" "FormatNat b (nat i) = digitChar d # cs"
    using FormatNat_hd_digit [OF assms] by blast
  have "SetString b (FormatInt b i) =
      map_option int (parseDigits b 0 (FormatNat b (nat i)))"
    using False d digitChar_not_sign [OF d(1)]
    by (simp add: SetString_def FormatInt_def Let_def)
  also have "\<dots> = Some i"
    using False assms by (simp add: parseDigits_FormatNat)
  finally show ?thesis .
qed

lemma FormatInt_inj: "FormatInt 10 i = FormatInt 10 j \<longleftrightarrow> i = j"
proof
  assume "FormatInt 10 i = FormatInt 10 j"
  then have "SetString 10 (FormatInt 10 i) = SetString 10 (FormatInt 10 j)" by (rule arg_cong)
  then show "i = j" by (simp add: SetString_FormatInt)
qed (rule arg_cong)

section \<open>Durations\<close>

text \<open>\<open>int64\<close> arithmetic: the value an \<open>int\<close> wraps around to.\<close>

definition wrap64 :: "int \<Rightarrow> int" where
  "wrap64 i = signed_take_bit 63 i"

lemma wrap64_id: "- (2 ^ 63) \<le> i \<Longrightarrow> i < 2 ^ 63 \<Longrightarrow> wrap64 i = i"
  by (simp add: wrap64_def signed_take_bit_int_eq_self)

text \<open>\<open>time.Duration.Milliseconds\<close>: a duration is a number of nanoseconds, and Go's division
  truncates towards zero.\<close>

definition milliseconds :: "duration \<Rightarrow> int" where
  "milliseconds d = (if d < 0 then - (- d div 1000000) else d div 1000000)"

section \<open>\<open>encoding/hex\<close> and the string helpers of \<open>strings\<close>\<close>

definition hexVal :: "char \<Rightarrow> nat option" where
  "hexVal c = (case digitVal c of Some v \<Rightarrow> if v < 16 then Some v else None | None \<Rightarrow> None)"

fun EncodeToString :: "byte list \<Rightarrow> string" where
  "EncodeToString [] = []"
| "EncodeToString (b # bs) =
     digitChar (unat b div 16) # digitChar (unat b mod 16) # EncodeToString bs"

text \<open>\<open>hex.Decode\<close>: pairs of hex digits of either case; an odd length or any other character
  is an error.\<close>

fun hexDecode :: "string \<Rightarrow> byte list option" where
  "hexDecode [] = Some []"
| "hexDecode [c] = None"
| "hexDecode (c # d # cs) =
     (case (hexVal c, hexVal d, hexDecode cs) of
        (Some h, Some l, Some bs) \<Rightarrow> Some (word_of_nat (16 * h + l) # bs)
      | _ \<Rightarrow> None)"

text \<open>\<open>strings.ToLower\<close> on the bytes of a string. Non-ASCII letters are left alone: none of them
  has a lower case form that is a hex digit, which is all the callers look at.\<close>

definition ToLower :: "string \<Rightarrow> string" where
  "ToLower = map lowerChar"

definition HasPrefix :: "string \<Rightarrow> string \<Rightarrow> bool" where
  "HasPrefix s p \<longleftrightarrow> take (length p) s = p"

lemma HasPrefix_append [simp]: "HasPrefix (p @ s) p"
  by (simp add: HasPrefix_def)

lemma length_EncodeToString [simp]: "length (EncodeToString bs) = 2 * length bs"
  by (induction bs) auto

lemma byte_split: "word_of_nat (16 * (unat (b :: byte) div 16) + unat b mod 16) = b"
  by simp

lemma unat_byte_less: "unat (b :: byte) < 256"
  using unsigned_less [of b, where 'a = nat] by simp

lemma unat_byte_of_nat: "n < 256 \<Longrightarrow> unat (word_of_nat n :: byte) = n"
  by (simp add: unsigned_of_nat take_bit_nat_eq_self)

lemma unat_uint64_of_nat: "n < 2 ^ 64 \<Longrightarrow> unat (word_of_nat n :: uint64) = n"
  by (simp add: unsigned_of_nat take_bit_nat_eq_self)

lemma unat_byte_div [simp]: "unat (b :: byte) div 16 < 16"
  using unat_byte_less [of b] by simp

lemma hexVal_digitChar [simp]: "n < 16 \<Longrightarrow> hexVal (digitChar n) = Some n"
  by (simp add: hexVal_def)

lemma hexVal_lowerChar [simp]: "hexVal (lowerChar c) = hexVal c"
  by (simp add: hexVal_def)

lemma hexDecode_EncodeToString [simp]: "hexDecode (EncodeToString bs) = Some bs"
  by (induction bs) (simp_all add: byte_split)

lemma hexDecode_ToLower [simp]: "hexDecode (ToLower s) = hexDecode s"
  by (induction s rule: hexDecode.induct) (simp_all add: ToLower_def)

lemma ToLower_EncodeToString [simp]: "ToLower (EncodeToString bs) = EncodeToString bs"
proof (induction bs)
  case (Cons b bs)
  have "unat b div 16 < 36" "unat b mod 16 < 36"
    using unat_byte_div [of b] by linarith+
  with Cons show ?case by (simp add: ToLower_def)
qed (simp add: ToLower_def)

lemma hexDecode_length: "hexDecode s = Some bs \<Longrightarrow> length s = 2 * length bs"
  by (induction s arbitrary: bs rule: hexDecode.induct) (auto split: option.splits)

lemma hexVal_lower_digitChar: "hexVal c = Some v \<Longrightarrow> digitChar v = lowerChar c \<and> v < 16"
  by (auto simp: hexVal_def digitVal_def digitChar_def lowerChar_def Let_def
      split: if_splits option.splits)

lemma EncodeToString_hexDecode: "hexDecode s = Some bs \<Longrightarrow> EncodeToString bs = ToLower s"
proof (induction s arbitrary: bs rule: hexDecode.induct)
  case (3 c d cs)
  then obtain h l bs' where *: "hexVal c = Some h" "hexVal d = Some l" "hexDecode cs = Some bs'"
    and bs: "bs = word_of_nat (16 * h + l) # bs'"
    by (auto split: option.splits)
  from * have "digitChar h = lowerChar c" "digitChar l = lowerChar d" "h < 16" "l < 16"
    by (auto dest: hexVal_lower_digitChar)
  moreover have "unat (word_of_nat (16 * h + l) :: byte) = 16 * h + l"
    using \<open>h < 16\<close> \<open>l < 16\<close> by (intro unat_byte_of_nat) linarith
  ultimately show ?case
    using "3.IH" [OF *(3)] bs by (simp add: ToLower_def)
qed (simp_all add: ToLower_def)

subsection \<open>White space\<close>

text \<open>The UTF-8 encodings of the code points \<open>unicode.IsSpace\<close> accepts. None of their first
  bytes is a continuation byte, so matching byte sequences finds exactly the runes.\<close>

definition unicodeSpaces :: "string list" where
  "unicodeSpaces =
     [[CHR 0x09], [CHR 0x0A], [CHR 0x0B], [CHR 0x0C], [CHR 0x0D], [CHR 0x20],
      [CHR 0xC2, CHR 0x85], [CHR 0xC2, CHR 0xA0], [CHR 0xE1, CHR 0x9A, CHR 0x80],
      [CHR 0xE2, CHR 0x80, CHR 0x80], [CHR 0xE2, CHR 0x80, CHR 0x81], [CHR 0xE2, CHR 0x80, CHR 0x82],
      [CHR 0xE2, CHR 0x80, CHR 0x83], [CHR 0xE2, CHR 0x80, CHR 0x84], [CHR 0xE2, CHR 0x80, CHR 0x85],
      [CHR 0xE2, CHR 0x80, CHR 0x86], [CHR 0xE2, CHR 0x80, CHR 0x87], [CHR 0xE2, CHR 0x80, CHR 0x88],
      [CHR 0xE2, CHR 0x80, CHR 0x89], [CHR 0xE2, CHR 0x80, CHR 0x8A], [CHR 0xE2, CHR 0x80, CHR 0xA8],
      [CHR 0xE2, CHR 0x80, CHR 0xA9], [CHR 0xE2, CHR 0x80, CHR 0xAF], [CHR 0xE2, CHR 0x81, CHR 0x9F],
      [CHR 0xE3, CHR 0x80, CHR 0x80]]"

definition matchLen :: "string list \<Rightarrow> string \<Rightarrow> nat" where
  "matchLen ws s = (case find (\<lambda>w. w \<noteq> [] \<and> HasPrefix s w) ws of None \<Rightarrow> 0 | Some w \<Rightarrow> length w)"

lemma matchLen_le: "matchLen ws s \<le> length s"
  by (auto simp: matchLen_def HasPrefix_def find_Some_iff split: option.splits)
    (metis length_take min.cobounded1)

lemma matchLen_Nil [simp]: "matchLen ws [] = 0"
  using matchLen_le [of ws "[]"] by simp

function trimWith :: "string list \<Rightarrow> string \<Rightarrow> string" where
  "trimWith ws s = (if matchLen ws s = 0 then s else trimWith ws (drop (matchLen ws s) s))"
  by pat_completeness auto
termination
proof (relation "measure (length \<circ> snd)")
  fix ws s
  assume "matchLen ws s \<noteq> 0"
  then show "((ws, drop (matchLen ws s) s), (ws, s)) \<in> measure (length \<circ> snd)"
    using matchLen_le [of ws s] by simp
qed simp

declare trimWith.simps [simp del]

text \<open>\<open>strings.TrimSpace\<close>.\<close>

definition TrimSpace :: "string \<Rightarrow> string" where
  "TrimSpace s =
     rev (trimWith (map rev unicodeSpaces) (rev (trimWith unicodeSpaces s)))"

lemma trimWith_id: "matchLen ws s = 0 \<Longrightarrow> trimWith ws s = s"
  by (subst trimWith.simps) simp

lemma trimWith_fixed: "matchLen ws (trimWith ws s) = 0"
proof (induction ws s rule: trimWith.induct)
  case (1 ws s)
  then show ?case by (subst trimWith.simps) simp
qed

text \<open>\<open>strings.Fields\<close>: the maximal runs of non-space runes. \<open>cur\<close> is the current field,
  reversed.\<close>

function fieldsAux :: "string \<Rightarrow> string \<Rightarrow> string list" where
  "fieldsAux cur s =
     (if s = [] then (if cur = [] then [] else [rev cur])
      else let k = matchLen unicodeSpaces s in
           if k = 0 then fieldsAux (hd s # cur) (tl s)
           else (if cur = [] then [] else [rev cur]) @ fieldsAux [] (drop k s))"
  by pat_completeness auto
termination
  by (relation "measure (length \<circ> snd)") auto

declare fieldsAux.simps [simp del]

definition Fields :: "string \<Rightarrow> string list" where
  "Fields s = fieldsAux [] s"

text \<open>\<open>strings.Join\<close>.\<close>

fun Join :: "string list \<Rightarrow> string \<Rightarrow> string" where
  "Join [] sep = []"
| "Join [x] sep = x"
| "Join (x # y # ys) sep = x @ sep @ Join (y # ys) sep"

section \<open>JSON values\<close>

text \<open>
  What \<open>json.Marshal\<close> writes and \<open>json.Unmarshal\<close> reads, as a tree: the byte syntax of JSON
  (quoting, escapes, layout) is left to the standard library on both sides. A number is its
  literal, because decoding into a Go integer type parses the literal.
\<close>

datatype json =
    JNull
  | JBool bool
  | JNum string
  | JStr string
  | JArr "json list"
  | JObj "(string \<times> json) list"

section \<open>Lists and maps\<close>

lemma sorted_mset_unique:
  assumes "sorted xs" "sorted ys" "mset xs = mset ys"
  shows "xs = ys"
proof -
  have "sort ys = xs" using assms(3,1) by (rule properties_for_sort)
  moreover have "sort ys = ys" using refl assms(2) by (rule properties_for_sort)
  ultimately show ?thesis by (rule trans [OF sym])
qed

lemma sort_mset_cong [go_sorts]: "mset xs = mset ys \<Longrightarrow> sort xs = sort ys"
  by (rule sorted_mset_unique) simp_all

text \<open>Sorting by a key that is injective on the elements does not depend on their order.\<close>

lemma filter_eq_replicate: "filter (\<lambda>x. x = k) zs = replicate (count (mset zs) k) k"
  by (induction zs) auto

lemma filter_key_eq:
  "inj_on f (set zs) \<Longrightarrow> k \<in> set zs \<Longrightarrow> filter (\<lambda>x. f k = f x) zs = filter (\<lambda>x. x = k) zs"
  by (intro filter_cong) (auto dest: inj_onD)

lemma sort_key_mset_cong [go_sorts]:
  assumes eq: "mset xs = mset ys" and inj: "inj_on f (set xs)"
  shows "sort_key f xs = sort_key f ys"
proof (rule properties_for_sort_key)
  show "mset (sort_key f ys) = mset xs" using eq by simp
  show "sorted (map f (sort_key f ys))" by simp
  fix k
  assume k: "k \<in> set (sort_key f ys)"
  have sets: "set (sort_key f ys) = set xs" using mset_eq_setD [OF eq] by simp
  have "filter (\<lambda>x. f k = f x) (sort_key f ys) = filter (\<lambda>x. x = k) (sort_key f ys)"
    using inj k sets by (intro filter_key_eq) simp_all
  also have "\<dots> = filter (\<lambda>x. x = k) xs"
    by (simp only: filter_eq_replicate mset_sort eq)
  also have "\<dots> = filter (\<lambda>x. f k = f x) xs"
    using inj k sets by (intro filter_key_eq [symmetric]) simp_all
  finally show "filter (\<lambda>x. f k = f x) (sort_key f ys) = filter (\<lambda>x. f k = f x) xs" .
qed

lemma distinct_keys_mset: "mset xs = mset ys \<Longrightarrow> distinct (map fst xs) = distinct (map fst ys)"
  by (metis mset_eq_imp_distinct_iff mset_map)

lemma distinct_keys_inj_fst: "distinct (map fst xs) \<Longrightarrow> inj_on fst (set xs)"
  by (simp add: distinct_map)

lemma map_of_mset_cong:
  "distinct (map fst xs) \<Longrightarrow> mset xs = mset ys \<Longrightarrow> map_of xs = map_of ys"
  by (metis distinct_keys_mset map_of_inject_set mset_eq_setD)

lemma Inr_map_sum: "map_sum f g x = Inr y \<longleftrightarrow> (\<exists>z. x = Inr z \<and> y = g z)"
  by (cases x) auto

section \<open>State machines\<close>

text \<open>
  The states a component can get into: a relation \<open>step\<close> on states, started anywhere \<open>init\<close>
  allows. The locale states what an invariant of such a machine owes; each interpretation
  discharges it for one component and receives the reachability theorem.
\<close>

inductive reachable :: "('s \<Rightarrow> bool) \<Rightarrow> ('s \<Rightarrow> 's \<Rightarrow> bool) \<Rightarrow> 's \<Rightarrow> bool" for init step where
  reachable_init: "init s \<Longrightarrow> reachable init step s"
| reachable_step: "reachable init step s \<Longrightarrow> step s t \<Longrightarrow> reachable init step t"

locale state_machine =
  fixes init :: "'s \<Rightarrow> bool"
    and step :: "'s \<Rightarrow> 's \<Rightarrow> bool"
    and inv :: "'s \<Rightarrow> bool"
  assumes init_inv: "init s \<Longrightarrow> inv s"
    and step_inv: "inv s \<Longrightarrow> step s t \<Longrightarrow> inv t"
begin

lemma reachable_inv: "reachable init step s \<Longrightarrow> inv s"
  by (induction rule: reachable.induct) (auto intro: init_inv step_inv)

lemma steps_inv: "step\<^sup>*\<^sup>* s t \<Longrightarrow> inv s \<Longrightarrow> inv t"
  by (induction rule: rtranclp_induct) (auto intro: step_inv)

end

text \<open>A state component that no step changes is the same after any number of steps.\<close>

lemma steps_preserve:
  assumes "step\<^sup>*\<^sup>* s t" and "\<And>s t. step s t \<Longrightarrow> f t = f s"
  shows "f t = f s"
  using assms(1) by (induction rule: rtranclp_induct) (auto simp: assms(2))

end
