(* ===== verification/Chain.thy ===== *)
theory Chain
  imports Prelude
begin

text \<open>
  The value objects of \<open>internal/chain\<close>: addresses with their EIP-55 checksum, 32-byte hashes,
  block numbers, chain ids and block ranges. The Keccak-256 function is third-party code
  (\<open>golang.org/x/crypto/sha3\<close>), so it is the parameter \<open>keccak\<close>; \<open>hasher.Sum\<close> returns 32 bytes
  and the code reads only the first 20 of them.
\<close>

unbundle bit_operations_syntax

section \<open>Addresses (\<open>address.go\<close>)\<close>

type_synonym address = "byte list"

definition wfAddress :: "address \<Rightarrow> bool" where
  "wfAddress a \<longleftrightarrow> length a = 20"

datatype addr_error =
    AddrMissingPrefix
  | AddrBadLength nat
  | AddrInvalidHex
  | AddrChecksum string
  | AddrNull
  | AddrNotString

definition zeroAddress :: address where
  "zeroAddress = replicate 20 0"

definition hasMixedCase :: "string \<Rightarrow> bool" where
  "hasMixedCase s \<longleftrightarrow>
     list_ex (\<lambda>c. CHR ''a'' \<le> c \<and> c \<le> CHR ''f'') s \<and>
     list_ex (\<lambda>c. CHR ''A'' \<le> c \<and> c \<le> CHR ''F'') s"

definition eip55Char :: "byte list \<Rightarrow> nat \<Rightarrow> char \<Rightarrow> char" where
  "eip55Char digest i c =
     (if CHR ''a'' \<le> c \<and> c \<le> CHR ''f'' then
        let nibble = (if i mod 2 = 0 then drop_bit 4 (digest ! (i div 2))
                      else (digest ! (i div 2)) AND 15)
        in if 8 \<le> nibble then char_of (of_char c - (97 :: nat) + 65) else c
      else c)"

fun eip55Loop :: "byte list \<Rightarrow> nat \<Rightarrow> string \<Rightarrow> string" where
  "eip55Loop digest i [] = []"
| "eip55Loop digest i (c # cs) = eip55Char digest i c # eip55Loop digest (Suc i) cs"

definition eip55Hex :: "(string \<Rightarrow> byte list) \<Rightarrow> address \<Rightarrow> string" where
  "eip55Hex keccak a =
     (let lower = EncodeToString a in ''0x'' @ eip55Loop (keccak lower) 0 lower)"

definition Address_Hex :: "(string \<Rightarrow> byte list) \<Rightarrow> address \<Rightarrow> string" where
  "Address_Hex keccak a = eip55Hex keccak a"

definition NewAddress :: "(string \<Rightarrow> byte list) \<Rightarrow> string \<Rightarrow> addr_error + address" where
  "NewAddress keccak s =
     (if \<not> HasPrefix s ''0x'' \<and> \<not> HasPrefix s ''0X'' then Inl AddrMissingPrefix
      else let hexPart = drop 2 s in
        if length hexPart \<noteq> 40 then Inl (AddrBadLength (length hexPart))
        else case hexDecode (ToLower hexPart) of
          None \<Rightarrow> Inl AddrInvalidHex
        | Some a \<Rightarrow>
            if hasMixedCase hexPart then
              (let canonical = eip55Hex keccak a in
               if ''0x'' @ hexPart \<noteq> canonical then Inl (AddrChecksum canonical) else Inr a)
            else Inr a)"

definition Address_IsZero :: "address \<Rightarrow> bool" where
  "Address_IsZero a \<longleftrightarrow> a = zeroAddress"

definition Address_MarshalJSON :: "(string \<Rightarrow> byte list) \<Rightarrow> address \<Rightarrow> json" where
  "Address_MarshalJSON keccak a = JStr (Address_Hex keccak a)"

definition Address_UnmarshalJSON :: "(string \<Rightarrow> byte list) \<Rightarrow> json \<Rightarrow> addr_error + address" where
  "Address_UnmarshalJSON keccak data =
     (case data of
        JNull \<Rightarrow> Inl AddrNull
      | JStr s \<Rightarrow> NewAddress keccak s
      | _ \<Rightarrow> Inl AddrNotString)"

section \<open>Hashes (\<open>hash.go\<close>)\<close>

type_synonym hash32 = "byte list"

datatype hash_error = HashMissingPrefix | HashBadLength nat | HashInvalidHex | HashNull | HashNotString

definition wfHash32 :: "hash32 \<Rightarrow> bool" where
  "wfHash32 h \<longleftrightarrow> length h = 32"

definition NewHash32 :: "string \<Rightarrow> hash_error + hash32" where
  "NewHash32 s =
     (if \<not> HasPrefix s ''0x'' \<and> \<not> HasPrefix s ''0X'' then Inl HashMissingPrefix
      else let hexPart = drop 2 s in
        if length hexPart \<noteq> 64 then Inl (HashBadLength (length hexPart))
        else case hexDecode (ToLower hexPart) of
               None \<Rightarrow> Inl HashInvalidHex
             | Some h \<Rightarrow> Inr h)"

definition Hash32_Hex :: "hash32 \<Rightarrow> string" where
  "Hash32_Hex h = ''0x'' @ EncodeToString h"

definition Hash32_IsZero :: "hash32 \<Rightarrow> bool" where
  "Hash32_IsZero h \<longleftrightarrow> h = replicate 32 0"

definition Hash32_MarshalJSON :: "hash32 \<Rightarrow> json" where
  "Hash32_MarshalJSON h = JStr (Hash32_Hex h)"

definition Hash32_UnmarshalJSON :: "json \<Rightarrow> hash_error + hash32" where
  "Hash32_UnmarshalJSON data =
     (case data of
        JNull \<Rightarrow> Inl HashNull
      | JStr s \<Rightarrow> NewHash32 s
      | _ \<Rightarrow> Inl HashNotString)"

section \<open>Block numbers (\<open>block.go\<close>)\<close>

type_synonym block_number = uint64

datatype block_error = BlockNull | BlockNotNumber | BlockMissingPrefix | BlockBadHex

definition BlockNumber_Hex :: "block_number \<Rightarrow> string" where
  "BlockNumber_Hex b = ''0x'' @ FormatNat 16 (unat b)"

definition BlockNumber_MarshalJSON :: "block_number \<Rightarrow> json" where
  "BlockNumber_MarshalJSON b = JStr (BlockNumber_Hex b)"

definition BlockNumber_UnmarshalJSON :: "json \<Rightarrow> block_error + block_number" where
  "BlockNumber_UnmarshalJSON data =
     (case data of
        JNull \<Rightarrow> Inl BlockNull
      | JNum lit \<Rightarrow> (case ParseUint 10 lit of None \<Rightarrow> Inl BlockNotNumber | Some n \<Rightarrow> Inr n)
      | JStr s \<Rightarrow>
          if \<not> HasPrefix s ''0x'' \<and> \<not> HasPrefix s ''0X'' then Inl BlockMissingPrefix
          else (case ParseUint 16 (drop 2 s) of None \<Rightarrow> Inl BlockBadHex | Some v \<Rightarrow> Inr v)
      | _ \<Rightarrow> Inl BlockNotNumber)"

section \<open>Chain ids (\<open>chain.go\<close>)\<close>

type_synonym chain_id = uint64

definition EthereumMainnet :: chain_id where "EthereumMainnet = 1"
definition OptimismMainnet :: chain_id where "OptimismMainnet = 10"

definition ChainID_IsKnown :: "chain_id \<Rightarrow> bool" where
  "ChainID_IsKnown c \<longleftrightarrow> c = EthereumMainnet \<or> c = OptimismMainnet"

definition ChainID_Slug :: "chain_id \<Rightarrow> string" where
  "ChainID_Slug c =
     (if c = EthereumMainnet then ''ethereum''
      else if c = OptimismMainnet then ''optimism'' else '''')"

definition ChainID_DisplayName :: "chain_id \<Rightarrow> string" where
  "ChainID_DisplayName c =
     (if c = EthereumMainnet then ''Ethereum''
      else if c = OptimismMainnet then ''Optimism'' else '''')"

definition ChainID_String :: "chain_id \<Rightarrow> string" where
  "ChainID_String c =
     (let slug = ChainID_Slug c in
      if slug \<noteq> '''' then slug else ''chain:'' @ FormatNat 10 (unat c))"

section \<open>Block ranges (\<open>range.go\<close>)\<close>

record block_range =
  rStart :: block_number
  rEnd :: block_number

datatype range_error = InvertedRange block_number block_number

definition NewBlockRange :: "block_number \<Rightarrow> block_number \<Rightarrow> range_error + block_range" where
  "NewBlockRange s e =
     (if s > e then Inl (InvertedRange s e) else Inr \<lparr>rStart = s, rEnd = e\<rparr>)"

definition BlockRange_Len :: "block_range \<Rightarrow> uint64" where
  "BlockRange_Len r = rEnd r - rStart r + 1"

definition BlockRange_Contains :: "block_range \<Rightarrow> block_number \<Rightarrow> bool" where
  "BlockRange_Contains r n \<longleftrightarrow> n \<ge> rStart r \<and> n \<le> rEnd r"

definition BlockRange_String :: "block_range \<Rightarrow> string" where
  "BlockRange_String r =
     ''['' @ FormatNat 10 (unat (rStart r)) @ ''..'' @ FormatNat 10 (unat (rEnd r)) @ '']''"

section \<open>Properties of addresses and hashes\<close>

lemma eip55Char_lower [simp]: "lowerChar (eip55Char d i c) = lowerChar c"
  by (auto simp: eip55Char_def lowerChar_def Let_def less_eq_char_def)

lemma eip55Loop_ToLower [simp]: "ToLower (eip55Loop d i s) = ToLower s"
  by (induction s arbitrary: i) (simp_all add: ToLower_def)

lemma eip55Loop_length [simp]: "length (eip55Loop d i s) = length s"
  by (induction s arbitrary: i) simp_all

lemma hexDecode_eip55Loop [simp]:
  "hexDecode (eip55Loop d i (EncodeToString a)) = Some a"
  by (metis ToLower_EncodeToString eip55Loop_ToLower hexDecode_EncodeToString hexDecode_ToLower)

lemma drop2_eip55Hex [simp]:
  "drop 2 (eip55Hex keccak a) = eip55Loop (keccak (EncodeToString a)) 0 (EncodeToString a)"
  by (simp add: eip55Hex_def Let_def)

lemma HasPrefix_0x [simp]: "HasPrefix (CHR ''0'' # CHR ''x'' # s) ''0x''"
  by (simp add: HasPrefix_def)

lemma HasPrefix_length: "HasPrefix s p \<Longrightarrow> length p \<le> length s"
  by (metis HasPrefix_def length_take min.cobounded1)

lemma HasPrefix_set: "HasPrefix s p \<Longrightarrow> set p \<subseteq> set s"
  by (metis HasPrefix_def set_take_subset)

text \<open>The strings \<open>NewAddress\<close> accepts, and what it returns for them.\<close>

lemma NewAddress_iff:
  "NewAddress keccak s = Inr a \<longleftrightarrow>
     (HasPrefix s ''0x'' \<or> HasPrefix s ''0X'') \<and> length s = 42 \<and>
     hexDecode (drop 2 s) = Some a \<and>
     (hasMixedCase (drop 2 s) \<longrightarrow> ''0x'' @ drop 2 s = Address_Hex keccak a)"
  by (auto simp: NewAddress_def Address_Hex_def Let_def split: option.splits
      dest: HasPrefix_length)

text \<open>
  Printing an address and parsing the result gives the address back, for every
  20-byte value and whatever the hash function is: the checksummed form \<open>Hex\<close> is always accepted
  by \<open>NewAddress\<close>, the mixed-case check included.
\<close>

theorem NewAddress_Hex_roundtrip:
  assumes "wfAddress a"
  shows "NewAddress keccak (Address_Hex keccak a) = Inr a"
  using assms by (simp add: NewAddress_iff Address_Hex_def wfAddress_def)
    (simp add: eip55Hex_def Let_def)

theorem NewAddress_Hex_roundtrip_witness:
  "NewAddress (\<lambda>_. replicate 32 0xF0) (Address_Hex (\<lambda>_. replicate 32 0xF0) (replicate 20 0xAB)) =
     Inr (replicate 20 0xAB)"
  by (rule NewAddress_Hex_roundtrip) (simp add: wfAddress_def)

lemma hasMixedCase_ToLower [simp]: "\<not> hasMixedCase (ToLower s)"
proof -
  have "\<not> (CHR ''A'' \<le> lowerChar c \<and> lowerChar c \<le> CHR ''F'')" for c
    by (auto simp: lowerChar_def Let_def less_eq_char_def)
  then show ?thesis by (auto simp: hasMixedCase_def ToLower_def list_ex_iff)
qed

text \<open>
  The checksum rule of EIP-55: every accepted string spells exactly one 20-byte
  value; a mixed-case spelling is accepted only when it is the canonical one, and the lower-case
  spelling of an accepted address is accepted too and means the same address.
\<close>

theorem NewAddress_checksum:
  assumes "NewAddress keccak s = Inr a"
  shows "wfAddress a \<and> ToLower (drop 2 s) = EncodeToString a \<and>
    (hasMixedCase (drop 2 s) \<longrightarrow> ''0x'' @ drop 2 s = Address_Hex keccak a) \<and>
    NewAddress keccak (''0x'' @ ToLower (drop 2 s)) = Inr a"
proof -
  from assms have *: "length s = 42" "hexDecode (drop 2 s) = Some a"
    "hasMixedCase (drop 2 s) \<longrightarrow> ''0x'' @ drop 2 s = Address_Hex keccak a"
    by (simp_all add: NewAddress_iff)
  have "wfAddress a" using hexDecode_length [OF *(2)] *(1) by (simp add: wfAddress_def)
  moreover have "ToLower (drop 2 s) = EncodeToString a"
    using EncodeToString_hexDecode [OF *(2)] by simp
  moreover have "NewAddress keccak (''0x'' @ ToLower (drop 2 s)) = Inr a"
    using * by (simp add: NewAddress_iff) (simp add: ToLower_def)
  ultimately show ?thesis using *(3) by blast
qed

definition sampleMixed :: string where
  "sampleMixed = ''0x'' @ concat (replicate 20 ''Ab'')"

theorem NewAddress_checksum_witness:
  "NewAddress (\<lambda>_. replicate 32 0xF0) sampleMixed = Inr (replicate 20 0xAB) \<and>
   hasMixedCase (drop 2 sampleMixed) \<and>
   sampleMixed = Address_Hex (\<lambda>_. replicate 32 0xF0) (replicate 20 0xAB)"
proof -
  have ok: "NewAddress (\<lambda>_. replicate 32 0xF0) sampleMixed = Inr (replicate 20 0xAB)"
    by code_simp
  have mixed: "hasMixedCase (drop 2 sampleMixed)" by code_simp
  have "sampleMixed = ''0x'' @ drop 2 sampleMixed" by (simp add: sampleMixed_def)
  also have "\<dots> = Address_Hex (\<lambda>_. replicate 32 0xF0) (replicate 20 0xAB)"
    using NewAddress_checksum [OF ok] mixed by blast
  finally show ?thesis using ok mixed by blast
qed

text \<open>
  Hashes carry no checksum: \<open>Hex\<close> is read back exactly, and parsing depends on the
  digits only, not on their case or on the case of the prefix.
\<close>

theorem NewHash32_roundtrip:
  assumes "wfHash32 h" and "ToLower t = EncodeToString h" and "p = ''0x'' \<or> p = ''0X''"
  shows "NewHash32 (Hash32_Hex h) = Inr h \<and> NewHash32 (p @ t) = Inr h"
proof -
  have "length t = 64" using assms(1,2)
    by (metis ToLower_def length_EncodeToString length_map mult_2 numeral_Bit0 wfHash32_def)
  moreover have "hexDecode t = Some h"
    by (metis assms(2) hexDecode_EncodeToString hexDecode_ToLower)
  ultimately show ?thesis
    using assms by (auto simp: NewHash32_def Hash32_Hex_def wfHash32_def HasPrefix_def)
qed

theorem NewHash32_roundtrip_witness:
  "NewHash32 (Hash32_Hex (replicate 32 0xAB)) = Inr (replicate 32 0xAB) \<and>
   NewHash32 (''0X'' @ concat (replicate 32 ''aB'')) = Inr (replicate 32 0xAB)"
proof -
  have "ToLower (concat (replicate 32 ''aB'')) = EncodeToString (replicate 32 0xAB)"
    by code_simp
  then show ?thesis
    using NewHash32_roundtrip [of "replicate 32 0xAB" "concat (replicate 32 ''aB'')" "''0X''"]
    by (simp add: wfHash32_def)
qed

section \<open>Properties of block numbers and ranges\<close>

text \<open>
  The JSON forms of a block number: the hex string the code writes and the decimal
  number an indexer writes both decode to the same height for every 64-bit value, while a quoted
  decimal is rejected.
\<close>

theorem BlockNumber_JSON_roundtrip:
  "BlockNumber_UnmarshalJSON (BlockNumber_MarshalJSON b) = Inr b \<and>
   BlockNumber_UnmarshalJSON (JNum (FormatNat 10 (unat b))) = Inr b \<and>
   BlockNumber_UnmarshalJSON (JStr (FormatNat 10 (unat b))) = Inl BlockMissingPrefix"
proof -
  have ds: "FormatNat 10 (unat b) = map digitChar (fmtDigits 10 (unat b))"
    by (simp add: FormatNat_def)
  have "CHR ''x'' \<notin> set (FormatNat 10 (unat b))" "CHR ''X'' \<notin> set (FormatNat 10 (unat b))"
  proof -
    have "d < 10 \<Longrightarrow> digitChar d \<noteq> CHR ''x'' \<and> digitChar d \<noteq> CHR ''X''" for d
      using of_char_digitChar [of d] by fastforce
    then show "CHR ''x'' \<notin> set (FormatNat 10 (unat b))" "CHR ''X'' \<notin> set (FormatNat 10 (unat b))"
      using fmtDigits_bounded [of 10] by (fastforce simp: ds)+
  qed
  then have "\<not> HasPrefix (FormatNat 10 (unat b)) ''0x''" "\<not> HasPrefix (FormatNat 10 (unat b)) ''0X''"
    by (auto dest: HasPrefix_set)
  then show ?thesis
    by (simp add: BlockNumber_UnmarshalJSON_def BlockNumber_MarshalJSON_def BlockNumber_Hex_def
        ParseUint_FormatNat)
qed

lemma card_word_interval:
  fixes s e :: uint64
  assumes "s \<le> e"
  shows "card {n. s \<le> n \<and> n \<le> e} = unat e - unat s + 1"
proof -
  have "bij_betw unat {n. s \<le> n \<and> n \<le> e} {unat s..unat e}"
  proof (rule bij_betw_byWitness [where f' = word_of_nat])
    show "unat ` {n. s \<le> n \<and> n \<le> e} \<subseteq> {unat s..unat e}"
      by (auto simp: word_le_nat_alt)
    have "unat (word_of_nat m :: uint64) = m" if "m \<le> unat e" for m
      using that unsigned_less [of e, where 'a = nat] by (intro unat_uint64_of_nat) simp
    then show "\<forall>m\<in>{unat s..unat e}. unat (word_of_nat m :: uint64) = m"
      and "word_of_nat ` {unat s..unat e} \<subseteq> {n. s \<le> n \<and> n \<le> e}"
      by (auto simp: word_le_nat_alt)
  qed simp
  then have "card {n. s \<le> n \<and> n \<le> e} = card {unat s..unat e}"
    by (rule bij_betw_same_card)
  with assms show ?thesis by (simp add: word_le_nat_alt)
qed

lemma BlockRange_Len_mod:
  assumes "rStart r \<le> rEnd r"
  shows "unat (BlockRange_Len r) = card {n. BlockRange_Contains r n} mod 2 ^ 64"
  using assms card_word_interval [OF assms]
  by (simp add: BlockRange_Len_def BlockRange_Contains_def unat_word_ariths
      unat_sub word_le_nat_alt)

text \<open>
  \<open>NewBlockRange\<close> rejects exactly the inverted bounds, and for an accepted range
  other than the whole 64-bit line \<open>Len\<close> is the number of heights \<open>Contains\<close> accepts.
\<close>

theorem NewBlockRange_Len:
  assumes "NewBlockRange s e = Inr r" and "\<not> (s = 0 \<and> e = - 1)"
  shows "s \<le> e \<and> unat (BlockRange_Len r) = card {n. BlockRange_Contains r n} \<and>
    (\<forall>n. BlockRange_Contains r n \<longleftrightarrow> s \<le> n \<and> n \<le> e)"
proof -
  from assms(1) have r: "s \<le> e" "r = \<lparr>rStart = s, rEnd = e\<rparr>"
    by (auto simp: NewBlockRange_def split: if_splits)
  have "unat e - unat s + 1 < 2 ^ 64"
  proof (cases "s = 0")
    case True
    with assms(2) have "e \<noteq> - 1" by simp
    then have "unat e \<noteq> unat (- 1 :: uint64)" using unsigned_word_eqI by blast
    then have "unat e \<noteq> 2 ^ 64 - 1" by (simp add: unsigned_minus_1_eq_mask mask_eq_exp_minus_1)
    with unsigned_less [of e, where 'a = nat] show ?thesis by simp
  next
    case False
    then have "0 < unat s" by (simp add: unat_gt_0)
    with unsigned_less [of e, where 'a = nat] show ?thesis by simp
  qed
  then show ?thesis
    using BlockRange_Len_mod [of r] card_word_interval [OF r(1)] r
    by (simp add: BlockRange_Contains_def)
qed

theorem NewBlockRange_Len_witness:
  "NewBlockRange 5 15 = Inr \<lparr>rStart = 5, rEnd = 15\<rparr> \<and>
   unat (BlockRange_Len \<lparr>rStart = 5, rEnd = 15\<rparr>) = 11"
proof -
  have ok: "NewBlockRange 5 15 = Inr \<lparr>rStart = 5, rEnd = 15\<rparr>" by (simp add: NewBlockRange_def)
  then show ?thesis
    using NewBlockRange_Len [OF ok] card_word_interval [of 5 15]
    by (simp add: BlockRange_Contains_def)
qed

text \<open>
  The comment on \<open>Len\<close> says that the count never overflows in a validated range.
  It does for one range: the whole 64-bit line is accepted by \<open>NewBlockRange\<close> and its \<open>Len\<close> is 0.
\<close>

theorem BlockRange_Len_full_wraps:
  "\<exists>r. NewBlockRange 0 (- 1) = Inr r \<and> BlockRange_Len r = 0 \<and> (\<forall>n. BlockRange_Contains r n)"
  by (simp add: NewBlockRange_def BlockRange_Len_def BlockRange_Contains_def)

end
