(* ===== verification/Source.thy ===== *)
theory Source
  imports Chain
begin

text \<open>
  The \<open>Source\<close> port of \<open>internal/source\<close>: capabilities and their tiers, block tags, queries,
  results, sentinel errors and the interface itself. An adapter talks to the network, so a
  \<open>Fetch\<close> method is a computation over a world of type \<open>'w\<close> (\<open>('w, 'a) state\<close>): the model
  fixes neither what a source answers nor how the answer changes over time.
\<close>

section \<open>Capabilities and tiers (\<open>capability.go\<close>, \<open>tier.go\<close>)\<close>

type_synonym source_id = string
type_synonym capability = string

definition CapBlockHash :: capability where "CapBlockHash = ''block.hash''"
definition CapBlockParentHash :: capability where "CapBlockParentHash = ''block.parent_hash''"
definition CapBlockTimestamp :: capability where "CapBlockTimestamp = ''block.timestamp''"
definition CapBlockTxCount :: capability where "CapBlockTxCount = ''block.tx_count''"
definition CapBlockGasUsed :: capability where "CapBlockGasUsed = ''block.gas_used''"
definition CapBlockStateRoot :: capability where "CapBlockStateRoot = ''block.state_root''"
definition CapBlockReceiptsRoot :: capability where "CapBlockReceiptsRoot = ''block.receipts_root''"
definition CapBlockTransactionsRoot :: capability where "CapBlockTransactionsRoot = ''block.transactions_root''"
definition CapBlockMiner :: capability where "CapBlockMiner = ''block.miner''"
definition CapBalanceAtLatest :: capability where "CapBalanceAtLatest = ''address.balance_at_latest''"
definition CapNonceAtLatest :: capability where "CapNonceAtLatest = ''address.nonce_at_latest''"
definition CapTxCountAtLatest :: capability where "CapTxCountAtLatest = ''address.tx_count_at_latest''"
definition CapBalanceAtBlock :: capability where "CapBalanceAtBlock = ''address.balance_at_block''"
definition CapNonceAtBlock :: capability where "CapNonceAtBlock = ''address.nonce_at_block''"
definition CapTotalAddressCount :: capability where "CapTotalAddressCount = ''snapshot.total_addresses''"
definition CapTotalTxCount :: capability where "CapTotalTxCount = ''snapshot.total_txs''"
definition CapERC20TokenCount :: capability where "CapERC20TokenCount = ''snapshot.erc20_token_count''"
definition CapTotalContractCount :: capability where "CapTotalContractCount = ''snapshot.total_contracts''"
definition CapERC20BalanceAtLatest :: capability where "CapERC20BalanceAtLatest = ''address.erc20_balance_at_latest''"
definition CapERC20HoldingsAtLatest :: capability where "CapERC20HoldingsAtLatest = ''address.erc20_holdings_at_latest''"
definition CapInternalTxByTx :: capability where "CapInternalTxByTx = ''trace.internal_tx_by_tx''"
definition CapInternalTxByBlock :: capability where "CapInternalTxByBlock = ''trace.internal_tx_by_block''"

lemmas cap_defs =
  CapBlockHash_def
  CapBlockParentHash_def
  CapBlockTimestamp_def
  CapBlockTxCount_def
  CapBlockGasUsed_def
  CapBlockStateRoot_def
  CapBlockReceiptsRoot_def
  CapBlockTransactionsRoot_def
  CapBlockMiner_def
  CapBalanceAtLatest_def
  CapNonceAtLatest_def
  CapTxCountAtLatest_def
  CapBalanceAtBlock_def
  CapNonceAtBlock_def
  CapTotalAddressCount_def
  CapTotalTxCount_def
  CapERC20TokenCount_def
  CapTotalContractCount_def
  CapERC20BalanceAtLatest_def
  CapERC20HoldingsAtLatest_def
  CapInternalTxByTx_def
  CapInternalTxByBlock_def

definition AllCapabilities :: "capability list" where
  "AllCapabilities =
     [CapBlockHash,
      CapBlockParentHash,
      CapBlockTimestamp,
      CapBlockTxCount,
      CapBlockGasUsed,
      CapBlockStateRoot,
      CapBlockReceiptsRoot,
      CapBlockTransactionsRoot,
      CapBlockMiner,
      CapBalanceAtLatest,
      CapNonceAtLatest,
      CapTxCountAtLatest,
      CapBalanceAtBlock,
      CapNonceAtBlock,
      CapTotalAddressCount,
      CapTotalTxCount,
      CapERC20TokenCount,
      CapTotalContractCount,
      CapERC20BalanceAtLatest,
      CapERC20HoldingsAtLatest,
      CapInternalTxByTx,
      CapInternalTxByBlock]"

type_synonym tier = "8 word"

definition TierUnknown :: tier where "TierUnknown = 0"
definition TierA :: tier where "TierA = 1"
definition TierB :: tier where "TierB = 2"
definition TierC :: tier where "TierC = 3"

definition Tier_String :: "tier \<Rightarrow> string" where
  "Tier_String t =
     (if t = TierA then ''A'' else if t = TierB then ''B'' else if t = TierC then ''C''
      else ''unknown'')"

definition Capability_Tier :: "capability \<Rightarrow> tier" where
  "Capability_Tier c =
     (if c \<in> set [CapBlockHash, CapBlockParentHash, CapBlockTimestamp, CapBlockTxCount,
                  CapBlockGasUsed, CapBlockStateRoot, CapBlockReceiptsRoot,
                  CapBlockTransactionsRoot, CapBlockMiner] then TierA
      else if c \<in> set [CapBalanceAtLatest, CapNonceAtLatest, CapTxCountAtLatest,
                       CapBalanceAtBlock, CapNonceAtBlock] then TierA
      else if c \<in> set [CapTotalAddressCount, CapTotalTxCount, CapTotalContractCount,
                       CapERC20TokenCount] then TierB
      else if c = CapERC20HoldingsAtLatest then TierB
      else if c = CapERC20BalanceAtLatest then TierC
      else if c \<in> set [CapInternalTxByTx, CapInternalTxByBlock] then TierC
      else TierUnknown)"

section \<open>Block tags (\<open>blocktag.go\<close>)\<close>

text \<open>The fields of \<open>BlockTag\<close> are private to the package, so the four kinds are all there are.\<close>

datatype block_tag_kind = BlockTagLatest | BlockTagSafe | BlockTagFinalized | BlockTagNumeric

record block_tag =
  btKind :: block_tag_kind
  btNum :: block_number

definition NewBlockTagLatest :: block_tag where
  "NewBlockTagLatest = \<lparr>btKind = BlockTagLatest, btNum = 0\<rparr>"

definition NewBlockTagSafe :: block_tag where
  "NewBlockTagSafe = \<lparr>btKind = BlockTagSafe, btNum = 0\<rparr>"

definition NewBlockTagFinalized :: block_tag where
  "NewBlockTagFinalized = \<lparr>btKind = BlockTagFinalized, btNum = 0\<rparr>"

definition BlockTagAt :: "block_number \<Rightarrow> block_tag" where
  "BlockTagAt n = \<lparr>btKind = BlockTagNumeric, btNum = n\<rparr>"

definition BlockTag_String :: "block_tag \<Rightarrow> string" where
  "BlockTag_String t =
     (case btKind t of
        BlockTagLatest \<Rightarrow> ''latest''
      | BlockTagSafe \<Rightarrow> ''safe''
      | BlockTagFinalized \<Rightarrow> ''finalized''
      | BlockTagNumeric \<Rightarrow> BlockNumber_Hex (btNum t))"

definition BlockTag_IsZero :: "block_tag \<Rightarrow> bool" where
  "BlockTag_IsZero t \<longleftrightarrow> btKind t = BlockTagLatest \<and> btNum t = 0"

section \<open>Errors, queries and results (\<open>errors.go\<close>, \<open>query.go\<close>, \<open>result.go\<close>)\<close>

datatype source_error =
    ErrUnsupported
  | ErrRateLimited
  | ErrSourceUnavailable
  | ErrNotFound
  | ErrInvalidResponse
  | ErrTransport string

record block_query =
  bqNumber :: block_number

record address_query =
  aqAddress :: address
  aqAnchor :: block_tag

record address_at_block_query =
  aabqAddress :: address
  aabqBlock :: block_number

record erc20_balance_query =
  ebqAddress :: address
  ebqToken :: address
  ebqAnchor :: block_tag

record erc20_holdings_query =
  ehqAddress :: address
  ehqAnchor :: block_tag

record block_result =
  brNumber :: block_number
  brHash :: "hash32 option"
  brParentHash :: "hash32 option"
  brTimestamp :: "gotime option"
  brTxCount :: "uint64 option"
  brGasUsed :: "uint64 option"
  brStateRoot :: "hash32 option"
  brReceiptsRoot :: "hash32 option"
  brTransactionsRoot :: "hash32 option"
  brMiner :: "address option"
  brSourceID :: source_id
  brFetchedAt :: gotime
  brRawResponse :: "byte list"

record address_latest_result =
  alBalance :: "int option"
  alNonce :: "uint64 option"
  alTxCount :: "uint64 option"
  alSourceID :: source_id
  alFetchedAt :: gotime
  alReflectedBlock :: "block_number option"
  alRawResponse :: "byte list"

record address_at_block_result =
  aabBalance :: "int option"
  aabNonce :: "uint64 option"
  aabBlock :: block_number
  aabSourceID :: source_id
  aabFetchedAt :: gotime
  aabReflectedBlock :: "block_number option"
  aabRawResponse :: "byte list"

record snapshot_result =
  snTotalAddressCount :: "uint64 option"
  snTotalTxCount :: "uint64 option"
  snTotalContractCount :: "uint64 option"
  snERC20TokenCount :: "uint64 option"
  snSnapshotAt :: gotime
  snSourceID :: source_id
  snFetchedAt :: gotime
  snReflectedBlock :: "block_number option"
  snRawResponse :: "byte list"

record erc20_balance_result =
  ebBalance :: "int option"
  ebDecimals :: byte
  ebSymbol :: string
  ebSourceID :: source_id
  ebFetchedAt :: gotime
  ebReflectedBlock :: "block_number option"
  ebRawResponse :: "byte list"

record token_holding =
  thContract :: address
  thName :: string
  thSymbol :: string
  thDecimals :: byte
  thBalance :: "int option"

record erc20_holdings_result =
  ehTokens :: "token_holding list"
  ehSourceID :: source_id
  ehFetchedAt :: gotime
  ehReflectedBlock :: "block_number option"
  ehRawResponse :: "byte list"

record internal_tx =
  itFrom :: address
  itTo :: address
  itValue :: "int option"
  itGasUsed :: uint64
  itCallType :: string
  itError :: string

record internal_tx_result =
  irTraces :: "internal_tx list"
  irSourceID :: source_id
  irFetchedAt :: gotime
  irReflectedBlock :: "block_number option"
  irRawResponse :: "byte list"

section \<open>The port (\<open>source.go\<close>)\<close>

record 'w source =
  srcID :: source_id
  srcChainID :: chain_id
  Supports :: "capability \<Rightarrow> bool"
  FetchBlock :: "block_query \<Rightarrow> ('w, source_error + block_result) state"
  FetchAddressLatest :: "address_query \<Rightarrow> ('w, source_error + address_latest_result) state"
  FetchAddressAtBlock ::
    "address_at_block_query \<Rightarrow> ('w, source_error + address_at_block_result) state"
  FetchSnapshot :: "('w, source_error + snapshot_result) state"
  FetchERC20Balance :: "erc20_balance_query \<Rightarrow> ('w, source_error + erc20_balance_result) state"
  FetchERC20Holdings :: "erc20_holdings_query \<Rightarrow> ('w, source_error + erc20_holdings_result) state"
  FetchInternalTxByTx :: "hash32 \<Rightarrow> ('w, source_error + internal_tx_result) state"
  FetchInternalTxByBlock :: "block_number \<Rightarrow> ('w, source_error + internal_tx_result) state"

section \<open>Properties\<close>

lemma AllCapabilities_distinct: "distinct AllCapabilities"
  by (simp add: AllCapabilities_def cap_defs)

text \<open>
  Every declared capability is classified, and by the classification the passes
  rely on: block fields and account state are tier A, counters and holdings tier B, single token
  balances and traces tier C. An unknown capability is never given a real tier.
\<close>

theorem Capability_Tier_complete:
  "(\<forall>c \<in> set AllCapabilities. Capability_Tier c \<in> {TierA, TierB, TierC}) \<and>
   (\<forall>c. c \<notin> set AllCapabilities \<longrightarrow> Capability_Tier c = TierUnknown) \<and>
   length (filter (\<lambda>c. Capability_Tier c = TierA) AllCapabilities) = 14 \<and>
   length (filter (\<lambda>c. Capability_Tier c = TierB) AllCapabilities) = 5 \<and>
   length (filter (\<lambda>c. Capability_Tier c = TierC) AllCapabilities) = 3"
proof (intro conjI)
  have "list_all (\<lambda>c. Capability_Tier c \<in> {TierA, TierB, TierC}) AllCapabilities"
    by code_simp
  then show "\<forall>c \<in> set AllCapabilities. Capability_Tier c \<in> {TierA, TierB, TierC}"
    by (simp only: list_all_iff)
  show "\<forall>c. c \<notin> set AllCapabilities \<longrightarrow> Capability_Tier c = TierUnknown"
    by (simp add: AllCapabilities_def Capability_Tier_def)
qed code_simp+

theorem Capability_Tier_complete_witness:
  "Capability_Tier ''block.miner'' \<in> {TierA, TierB, TierC} \<and>
   Capability_Tier ''block.uncles'' = TierUnknown"
proof -
  have "''block.miner'' \<in> set AllCapabilities" "''block.uncles'' \<notin> set AllCapabilities"
    by (simp_all add: AllCapabilities_def cap_defs)
  then show ?thesis using Capability_Tier_complete by blast
qed

text \<open>
  The string of a block tag determines the tag: adapters forward it to the upstream
  unchanged, so two different anchors are never sent as the same parameter.
\<close>

theorem BlockTag_String_inj:
  assumes "BlockTag_String s = BlockTag_String t"
    and "s \<in> {NewBlockTagLatest, NewBlockTagSafe, NewBlockTagFinalized} \<union> range BlockTagAt"
    and "t \<in> {NewBlockTagLatest, NewBlockTagSafe, NewBlockTagFinalized} \<union> range BlockTagAt"
  shows "s = t"
  using assms
  by (auto simp: BlockTag_String_def NewBlockTagLatest_def NewBlockTagSafe_def
      NewBlockTagFinalized_def BlockTagAt_def BlockNumber_Hex_def FormatNat_inj
      dest: unsigned_word_eqI)

theorem BlockTag_String_inj_witness:
  "BlockTag_String (BlockTagAt 42) = BlockTag_String (BlockTagAt (40 + 2)) \<and>
   BlockTagAt 42 = BlockTagAt (40 + 2)"
  using BlockTag_String_inj [of "BlockTagAt 42" "BlockTagAt (40 + 2)"] by simp

end
