(* ===== verification/Verification.thy ===== *)
theory Verification
  imports Source
begin

text \<open>
  The verification domain of \<open>internal/verification\<close> apart from the \<open>Run\<close> aggregate: metrics
  and their catalog, block sampling strategies, address and token sampling plans, triggers and
  cron schedules. Loops over 64-bit counters keep their wrap-around: a loop that may not end is a
  \<open>partial_function (option)\<close>, so that \<open>None\<close> means the Go call does not return.
\<close>

section \<open>Metrics (\<open>metric.go\<close>)\<close>

type_synonym metric_category = string

definition CatBlockImmutable :: metric_category where "CatBlockImmutable = ''block_immutable''"
definition CatAddressLatest :: metric_category where "CatAddressLatest = ''address_latest''"
definition CatAddressAtBlock :: metric_category where "CatAddressAtBlock = ''address_at_block''"
definition CatSnapshot :: metric_category where "CatSnapshot = ''snapshot''"

lemmas cat_defs = CatBlockImmutable_def CatAddressLatest_def CatAddressAtBlock_def CatSnapshot_def

definition AllCategories :: "metric_category list" where
  "AllCategories = [CatBlockImmutable, CatAddressLatest, CatAddressAtBlock, CatSnapshot]"

record metric =
  mKey :: string
  mCategory :: metric_category
  mCapability :: capability

definition MetricBlockHash :: metric where
  "MetricBlockHash = \<lparr>mKey = ''block.hash'', mCategory = CatBlockImmutable, mCapability = CapBlockHash\<rparr>"
definition MetricBlockParentHash :: metric where
  "MetricBlockParentHash = \<lparr>mKey = ''block.parent_hash'', mCategory = CatBlockImmutable, mCapability = CapBlockParentHash\<rparr>"
definition MetricBlockTimestamp :: metric where
  "MetricBlockTimestamp = \<lparr>mKey = ''block.timestamp'', mCategory = CatBlockImmutable, mCapability = CapBlockTimestamp\<rparr>"
definition MetricBlockTxCount :: metric where
  "MetricBlockTxCount = \<lparr>mKey = ''block.tx_count'', mCategory = CatBlockImmutable, mCapability = CapBlockTxCount\<rparr>"
definition MetricBlockGasUsed :: metric where
  "MetricBlockGasUsed = \<lparr>mKey = ''block.gas_used'', mCategory = CatBlockImmutable, mCapability = CapBlockGasUsed\<rparr>"
definition MetricBlockStateRoot :: metric where
  "MetricBlockStateRoot = \<lparr>mKey = ''block.state_root'', mCategory = CatBlockImmutable, mCapability = CapBlockStateRoot\<rparr>"
definition MetricBlockReceiptsRoot :: metric where
  "MetricBlockReceiptsRoot = \<lparr>mKey = ''block.receipts_root'', mCategory = CatBlockImmutable, mCapability = CapBlockReceiptsRoot\<rparr>"
definition MetricBlockTransactionsRoot :: metric where
  "MetricBlockTransactionsRoot = \<lparr>mKey = ''block.transactions_root'', mCategory = CatBlockImmutable, mCapability = CapBlockTransactionsRoot\<rparr>"
definition MetricBlockMiner :: metric where
  "MetricBlockMiner = \<lparr>mKey = ''block.miner'', mCategory = CatBlockImmutable, mCapability = CapBlockMiner\<rparr>"
definition MetricBalanceLatest :: metric where
  "MetricBalanceLatest = \<lparr>mKey = ''address.balance_latest'', mCategory = CatAddressLatest, mCapability = CapBalanceAtLatest\<rparr>"
definition MetricNonceLatest :: metric where
  "MetricNonceLatest = \<lparr>mKey = ''address.nonce_latest'', mCategory = CatAddressLatest, mCapability = CapNonceAtLatest\<rparr>"
definition MetricTxCountLatest :: metric where
  "MetricTxCountLatest = \<lparr>mKey = ''address.tx_count_latest'', mCategory = CatAddressLatest, mCapability = CapTxCountAtLatest\<rparr>"
definition MetricBalanceAtBlock :: metric where
  "MetricBalanceAtBlock = \<lparr>mKey = ''address.balance_at_block'', mCategory = CatAddressAtBlock, mCapability = CapBalanceAtBlock\<rparr>"
definition MetricNonceAtBlock :: metric where
  "MetricNonceAtBlock = \<lparr>mKey = ''address.nonce_at_block'', mCategory = CatAddressAtBlock, mCapability = CapNonceAtBlock\<rparr>"
definition MetricTotalAddressCount :: metric where
  "MetricTotalAddressCount = \<lparr>mKey = ''snapshot.total_addresses'', mCategory = CatSnapshot, mCapability = CapTotalAddressCount\<rparr>"
definition MetricTotalTxCount :: metric where
  "MetricTotalTxCount = \<lparr>mKey = ''snapshot.total_txs'', mCategory = CatSnapshot, mCapability = CapTotalTxCount\<rparr>"
definition MetricTotalContractCount :: metric where
  "MetricTotalContractCount = \<lparr>mKey = ''snapshot.total_contracts'', mCategory = CatSnapshot, mCapability = CapTotalContractCount\<rparr>"
definition MetricERC20TokenCount :: metric where
  "MetricERC20TokenCount = \<lparr>mKey = ''snapshot.erc20_token_count'', mCategory = CatSnapshot, mCapability = CapERC20TokenCount\<rparr>"
definition MetricERC20BalanceLatest :: metric where
  "MetricERC20BalanceLatest = \<lparr>mKey = ''address.erc20_balance_latest'', mCategory = CatAddressLatest, mCapability = CapERC20BalanceAtLatest\<rparr>"
definition MetricERC20HoldingsLatest :: metric where
  "MetricERC20HoldingsLatest = \<lparr>mKey = ''address.erc20_holdings_latest'', mCategory = CatAddressLatest, mCapability = CapERC20HoldingsAtLatest\<rparr>"
definition MetricInternalTxByTx :: metric where
  "MetricInternalTxByTx = \<lparr>mKey = ''trace.internal_tx_by_tx'', mCategory = CatBlockImmutable, mCapability = CapInternalTxByTx\<rparr>"
definition MetricInternalTxByBlock :: metric where
  "MetricInternalTxByBlock = \<lparr>mKey = ''trace.internal_tx_by_block'', mCategory = CatBlockImmutable, mCapability = CapInternalTxByBlock\<rparr>"

lemmas metric_defs =
  MetricBlockHash_def
  MetricBlockParentHash_def
  MetricBlockTimestamp_def
  MetricBlockTxCount_def
  MetricBlockGasUsed_def
  MetricBlockStateRoot_def
  MetricBlockReceiptsRoot_def
  MetricBlockTransactionsRoot_def
  MetricBlockMiner_def
  MetricBalanceLatest_def
  MetricNonceLatest_def
  MetricTxCountLatest_def
  MetricBalanceAtBlock_def
  MetricNonceAtBlock_def
  MetricTotalAddressCount_def
  MetricTotalTxCount_def
  MetricTotalContractCount_def
  MetricERC20TokenCount_def
  MetricERC20BalanceLatest_def
  MetricERC20HoldingsLatest_def
  MetricInternalTxByTx_def
  MetricInternalTxByBlock_def

definition AllMetrics :: "metric list" where
  "AllMetrics =
     [MetricBlockHash,
      MetricBlockParentHash,
      MetricBlockTimestamp,
      MetricBlockTxCount,
      MetricBlockGasUsed,
      MetricBlockStateRoot,
      MetricBlockReceiptsRoot,
      MetricBlockTransactionsRoot,
      MetricBlockMiner,
      MetricBalanceLatest,
      MetricNonceLatest,
      MetricTxCountLatest,
      MetricBalanceAtBlock,
      MetricNonceAtBlock,
      MetricTotalAddressCount,
      MetricTotalTxCount,
      MetricTotalContractCount,
      MetricERC20TokenCount,
      MetricERC20BalanceLatest,
      MetricERC20HoldingsLatest,
      MetricInternalTxByTx,
      MetricInternalTxByBlock]"

section \<open>Block sampling (\<open>sampling.go\<close>)\<close>

record sampling_context =
  scTipBlock :: block_number
  scNow :: gotime

text \<open>The four strategies of the package. \<open>N\<close>, \<open>Count\<close> are Go's \<open>uint\<close>, 64 bits wide on the
  supported platforms; \<open>Seed\<close> is an \<open>int64\<close>.\<close>

datatype sampling_strategy =
    FixedList (flNumbers: "block_number list")
  | LatestN (lnN: uint64)
  | Random (rndRange: block_range) (rndCount: uint64) (rndSeed: int)
  | SparseSteps (ssRange: block_range) (ssStep: uint64)

fun Strategy_Kind :: "sampling_strategy \<Rightarrow> string" where
  "Strategy_Kind (FixedList _) = ''fixed_list''"
| "Strategy_Kind (LatestN _) = ''latest_n''"
| "Strategy_Kind (Random _ _ _) = ''random''"
| "Strategy_Kind (SparseSteps _ _) = ''sparse_steps''"

text \<open>The loop \<open>for n := start; n <= tip; n++\<close> that both \<open>LatestN\<close> and \<open>Random\<close> run; \<open>n++\<close> wraps.\<close>

partial_function (option) countUp ::
  "uint64 \<Rightarrow> uint64 \<Rightarrow> block_number list \<Rightarrow> block_number list option" where
  "countUp n tip out = (if n \<le> tip then countUp (n + 1) tip (out @ [n]) else Some out)"

definition FixedList_Blocks :: "block_number list \<Rightarrow> block_number list" where
  "FixedList_Blocks numbers = numbers"

definition LatestN_Blocks :: "uint64 \<Rightarrow> sampling_context \<Rightarrow> block_number list option" where
  "LatestN_Blocks N ctx =
     (if N = 0 then Some []
      else let tip = scTipBlock ctx;
               cnt = (if N > tip + 1 then tip + 1 else N);
               start = tip - cnt + 1
           in countUp start tip [])"

text \<open>
  The generator \<open>rand.New(rand.NewPCG(s1, s2))\<close> is the standard library's: \<open>rng s1 s2 n\<close> is the
  infinite sequence of values its \<open>Uint64N(n)\<close> returns, a parameter of the model. The loop draws
  until \<open>Count\<close> distinct blocks are picked; \<open>i\<close> is the number of draws so far.
\<close>

type_synonym pcg = "uint64 \<Rightarrow> uint64 \<Rightarrow> uint64 \<Rightarrow> nat \<Rightarrow> uint64"

partial_function (option) randomLoop ::
  "(nat \<Rightarrow> uint64) \<Rightarrow> uint64 \<Rightarrow> nat \<Rightarrow> nat \<Rightarrow> block_number list \<Rightarrow> block_number list option" where
  "randomLoop draw start cnt i out =
     (if length out < cnt then
        (let n = start + draw i in
         if n \<in> set out then randomLoop draw start cnt (Suc i) out
         else randomLoop draw start cnt (Suc i) (out @ [n]))
      else Some out)"

definition Random_Blocks ::
  "pcg \<Rightarrow> block_range \<Rightarrow> uint64 \<Rightarrow> int \<Rightarrow> block_number list option" where
  "Random_Blocks rng r cnt seed =
     (if cnt = 0 \<or> BlockRange_Len r = 0 then Some []
      else let total = BlockRange_Len r in
        if cnt \<ge> total then countUp (rStart r) (rEnd r) []
        else let seedU = word_of_int seed :: uint64;
                 draw = rng seedU (seedU XOR 0x9E3779B97F4A7C15) total
             in map_option sort (randomLoop draw (rStart r) (unat cnt) 0 []))"

partial_function (option) sparseLoop ::
  "uint64 \<Rightarrow> uint64 \<Rightarrow> uint64 \<Rightarrow> block_number list \<Rightarrow> block_number list option" where
  "sparseLoop n hi step out =
     (if n \<le> hi then
        (let nxt = n + step in
         if nxt < n \<or> nxt > hi then Some (out @ [n])
         else sparseLoop nxt hi step (out @ [n]))
      else Some out)"

definition SparseSteps_Blocks :: "block_range \<Rightarrow> uint64 \<Rightarrow> block_number list option" where
  "SparseSteps_Blocks r step =
     (if step = 0 then Some [] else sparseLoop (rStart r) (rEnd r) step [])"

declare countUp.simps [code] randomLoop.simps [code] sparseLoop.simps [code]

fun Strategy_Blocks ::
  "pcg \<Rightarrow> sampling_strategy \<Rightarrow> sampling_context \<Rightarrow> block_number list option" where
  "Strategy_Blocks rng (FixedList numbers) ctx = Some (FixedList_Blocks numbers)"
| "Strategy_Blocks rng (LatestN N) ctx = LatestN_Blocks N ctx"
| "Strategy_Blocks rng (Random r cnt seed) ctx = Random_Blocks rng r cnt seed"
| "Strategy_Blocks rng (SparseSteps r step) ctx = SparseSteps_Blocks r step"

section \<open>Address and token plans (\<open>address_sampling.go\<close>, \<open>token_sampling.go\<close>)\<close>

datatype address_plan =
    KnownAddresses (kaAddresses: "address list")
  | TopNHolders (tnN: uint64)
  | RandomAddresses (raCount: uint64) (raSeed: int)
  | RecentlyActive (rcRecentBlocks: uint64) (rcCount: uint64) (rcSeed: int)

fun AddressPlan_Kind :: "address_plan \<Rightarrow> string" where
  "AddressPlan_Kind (KnownAddresses _) = ''known''"
| "AddressPlan_Kind (TopNHolders _) = ''top_n''"
| "AddressPlan_Kind (RandomAddresses _ _) = ''random''"
| "AddressPlan_Kind (RecentlyActive _ _ _) = ''recently_active''"

datatype token_plan = KnownTokens (ktTokens: "address list")

fun TokenPlan_Kind :: "token_plan \<Rightarrow> string" where
  "TokenPlan_Kind (KnownTokens _) = ''known_tokens''"

section \<open>Triggers (\<open>trigger.go\<close>)\<close>

datatype trigger =
    ManualTrigger (mtUser: string)
  | ScheduledTrigger (stCronExpr: string)
  | RealtimeTrigger (rtBlockNumber: block_number)

fun Trigger_Kind :: "trigger \<Rightarrow> string" where
  "Trigger_Kind (ManualTrigger _) = ''manual''"
| "Trigger_Kind (ScheduledTrigger _) = ''scheduled''"
| "Trigger_Kind (RealtimeTrigger _) = ''realtime''"

section \<open>Schedules (\<open>schedule.go\<close>)\<close>

text \<open>A loaded location is known by its name (\<open>Location.String\<close>); \<open>time.LoadLocation\<close> reads the
  system's time zone database and is the parameter \<open>loadLocation\<close>.\<close>

record schedule =
  schCronExpr :: string
  schTimezone :: "string option"

datatype schedule_error =
    SchedEmpty
  | SchedFieldCount nat
  | SchedFieldChars nat
  | SchedTimezone string

definition cronChar :: "char \<Rightarrow> bool" where
  "cronChar r \<longleftrightarrow>
     (CHR ''0'' \<le> r \<and> r \<le> CHR ''9'') \<or>
     r = CHR ''*'' \<or> r = CHR ''/'' \<or> r = CHR '','' \<or> r = CHR ''-'' \<or> r = CHR ''?''"

definition cronFieldChars :: "string \<Rightarrow> bool" where
  "cronFieldChars s \<longleftrightarrow> s \<noteq> [] \<and> list_all cronChar s"

fun checkFields :: "nat \<Rightarrow> string list \<Rightarrow> schedule_error option" where
  "checkFields i [] = None"
| "checkFields i (f # fs) =
     (if \<not> cronFieldChars f then Some (SchedFieldChars (Suc i)) else checkFields (Suc i) fs)"

definition validateCronShape :: "string \<Rightarrow> schedule_error option" where
  "validateCronShape expr =
     (let fields = Fields expr in
      if length fields \<noteq> 5 \<and> length fields \<noteq> 6 then Some (SchedFieldCount (length fields))
      else checkFields 0 fields)"

definition NewSchedule ::
  "(string \<Rightarrow> string option) \<Rightarrow> string \<Rightarrow> string \<Rightarrow> schedule_error + schedule" where
  "NewSchedule loadLocation cronExpr tz =
     (let cronExpr = TrimSpace cronExpr in
      if cronExpr = [] then Inl SchedEmpty
      else case validateCronShape cronExpr of
        Some e \<Rightarrow> Inl e
      | None \<Rightarrow>
          (case loadLocation tz of
             None \<Rightarrow> Inl (SchedTimezone tz)
           | Some loc \<Rightarrow> Inr \<lparr>schCronExpr = cronExpr, schTimezone = Some loc\<rparr>))"

definition Schedule_IsZero :: "schedule \<Rightarrow> bool" where
  "Schedule_IsZero s \<longleftrightarrow> schCronExpr s = [] \<and> schTimezone s = None"

section \<open>The metric catalog\<close>

lemma AllMetrics_keys_distinct: "distinct (map mKey AllMetrics)"
  by (simp add: AllMetrics_def metric_defs)

lemma mset_AllMetrics_caps: "mset (map mCapability AllMetrics) = mset AllCapabilities"
  by (simp add: AllMetrics_def AllCapabilities_def metric_defs cap_defs)

text \<open>
  The catalog covers the source contract: the built-in metrics have pairwise
  different keys, each declared capability is measured by exactly one of them, and each belongs
  to a declared category.
\<close>

theorem AllMetrics_catalog:
  "distinct (map mKey AllMetrics) \<and>
   mset (map mCapability AllMetrics) = mset AllCapabilities \<and> distinct AllCapabilities \<and>
   set (map mCategory AllMetrics) = set AllCategories"
proof (intro conjI)
  show "set (map mCategory AllMetrics) = set AllCategories"
    by (simp add: AllMetrics_def metric_defs AllCategories_def cat_defs insert_commute)
qed (rule AllMetrics_keys_distinct mset_AllMetrics_caps AllCapabilities_distinct)+

end
