(* ===== verification/Sampling.thy ===== *)
theory Sampling
  imports Verification
begin

text \<open>
  What the sampling strategies of \<open>internal/verification/sampling.go\<close> return, when they return:
  closed forms for \<open>LatestN\<close> and \<open>SparseSteps\<close>, the distinct sorted sample of \<open>Random\<close>, and the
  two inputs on which a counting loop never ends. Also the idempotence of cron normalisation.
\<close>

section \<open>The counting loop\<close>

lemma uint64_less: "unat (n :: uint64) < 2 ^ 64"
  using unsigned_less [of n, where 'a = nat] by simp

lemma uint64_max: "(n :: uint64) \<noteq> - 1 \<Longrightarrow> unat n < 2 ^ 64 - 1"
proof -
  assume "n \<noteq> - 1"
  then have "unat n \<noteq> unat (- 1 :: uint64)" using unsigned_word_eqI by blast
  then have "unat n \<noteq> 2 ^ 64 - 1" by (simp add: unsigned_minus_1_eq_mask mask_eq_exp_minus_1)
  with uint64_less [of n] show ?thesis by simp
qed

lemma unat_plus_no_wrap:
  "unat (a :: uint64) + unat b < 2 ^ 64 \<Longrightarrow> unat (a + b) = unat a + unat b"
  by (simp add: unat_word_ariths)

lemma countUp_Some:
  assumes "tip \<noteq> - 1"
  shows "countUp n tip out = Some (out @ map word_of_nat [unat n..<Suc (unat tip)])"
proof (induction "Suc (unat tip) - unat n" arbitrary: n out)
  case 0
  then have "\<not> n \<le> tip" by (simp add: word_le_nat_alt)
  with 0 show ?case by (simp add: countUp.simps [of n])
next
  case (Suc k)
  then have le: "n \<le> tip" by (simp add: word_le_nat_alt)
  have suc: "unat (n + 1) = Suc (unat n)"
    using le uint64_max [OF assms] unat_plus_no_wrap [of n 1] by (simp add: word_le_nat_alt)
  have "countUp n tip out = countUp (n + 1) tip (out @ [n])"
    using le by (simp add: countUp.simps [of n])
  also have "\<dots> = Some ((out @ [n]) @ map word_of_nat [Suc (unat n)..<Suc (unat tip)])"
    using Suc.hyps suc by (simp add: Suc.hyps(1) [of "n + 1"])
  also have "\<dots> = Some (out @ map word_of_nat [unat n..<Suc (unat tip)])"
    using le by (simp add: upt_conv_Cons word_le_nat_alt del: upt_Suc)
  finally show ?case .
qed

lemma countUp_returns_bound:
  assumes ret: "countUp n tip out = Some r"
  shows "tip \<noteq> - 1"
proof (rule countUp.raw_induct [where P = "\<lambda>n tip out r. tip \<noteq> - 1", OF _ ret])
  fix f :: "uint64 \<Rightarrow> uint64 \<Rightarrow> block_number list \<Rightarrow> block_number list option"
  fix n tip out r
  assume IH: "\<And>n tip out r. f n tip out = Some r \<Longrightarrow> tip \<noteq> - 1"
    and eq: "(if n \<le> tip then f (n + 1) tip (out @ [n]) else Some out) = Some r"
  show "tip \<noteq> - 1"
  proof (cases "n \<le> tip")
    case True
    with eq show ?thesis by (auto dest: IH)
  next
    case False
    moreover have "n \<le> - 1" by (rule word_n1_ge)
    ultimately show ?thesis by auto
  qed
qed

lemma countUp_diverges: "countUp n (- 1) out = None"
  using countUp_returns_bound [of n "- 1" out] by (cases "countUp n (- 1) out") auto

lemma set_word_upt:
  assumes "b < 2 ^ 64"
  shows "set (map (word_of_nat :: nat \<Rightarrow> uint64) [a..<Suc b]) = {n. a \<le> unat n \<and> unat n \<le> b}"
proof (intro equalityI subsetI)
  fix n :: uint64
  assume "n \<in> set (map word_of_nat [a..<Suc b])"
  then obtain k where "n = word_of_nat k" "a \<le> k" "k \<le> b" by auto
  with assms show "n \<in> {n. a \<le> unat n \<and> unat n \<le> b}"
    using unat_uint64_of_nat [of k] by simp
next
  fix n :: uint64
  assume "n \<in> {n. a \<le> unat n \<and> unat n \<le> b}"
  then have "unat n \<in> set [a..<Suc b]" by (auto simp del: upt_Suc)
  from imageI [OF this, of "word_of_nat :: nat \<Rightarrow> uint64"]
  show "n \<in> set (map word_of_nat [a..<Suc b])" by (simp del: upt_Suc set_upt)
qed

lemma sorted_word_upt:
  assumes "b < 2 ^ 64"
  shows "sorted_wrt (<) (map (word_of_nat :: nat \<Rightarrow> uint64) [a..<Suc b])"
proof -
  have "i < j \<Longrightarrow> j \<le> b \<Longrightarrow> (word_of_nat i :: uint64) < word_of_nat j" for i j
    using assms unat_uint64_of_nat [of i] unat_uint64_of_nat [of j] by (simp add: word_less_nat_alt)
  then show ?thesis
    by (auto simp: sorted_wrt_map intro: sorted_wrt_mono_rel [OF _ sorted_wrt_upt] simp del: upt_Suc)
qed

section \<open>\<open>LatestN\<close>\<close>

lemma LatestN_start:
  fixes tip N :: uint64
  assumes "tip \<noteq> - 1" and "N \<noteq> 0"
  defines "cnt \<equiv> if N > tip + 1 then tip + 1 else N"
  shows "unat (tip - cnt + 1) = unat tip + 1 - min (unat N) (unat tip + 1)"
proof -
  have t1: "unat (tip + 1) = unat tip + 1"
    using uint64_max [OF assms(1)] unat_plus_no_wrap [of tip 1] by simp
  have cnt: "unat cnt = min (unat N) (unat tip + 1)"
    using t1 by (simp add: cnt_def word_less_nat_alt min_def)
  have eq: "tip - cnt + 1 = (tip + 1) - cnt" by simp
  have "cnt \<le> tip + 1" using cnt t1 by (simp add: word_le_nat_alt)
  then show ?thesis unfolding eq using cnt t1 by (simp only: unat_sub)
qed

text \<open>
  For every tip below the largest 64-bit height, \<open>LatestN\<close> returns, in ascending
  order, exactly the heights at most \<open>N - 1\<close> below the tip, and its size is the smaller of \<open>N\<close>
  and the number of existing blocks: a shallow chain is clamped to \<open>[0, tip]\<close>.
\<close>

theorem LatestN_Blocks_spec:
  assumes "scTipBlock ctx \<noteq> - 1"
  shows "\<exists>out. Strategy_Blocks rng (LatestN N) ctx = Some out \<and> sorted_wrt (<) out \<and>
    length out = min (unat N) (unat (scTipBlock ctx) + 1) \<and>
    set out = {n. n \<le> scTipBlock ctx \<and> unat (scTipBlock ctx) < unat n + unat N}"
proof (cases "N = 0")
  case True
  then show ?thesis by (simp add: LatestN_Blocks_def word_le_nat_alt)
next
  case False
  let ?t = "unat (scTipBlock ctx)"
  let ?s = "?t + 1 - min (unat N) (?t + 1)"
  have "Strategy_Blocks rng (LatestN N) ctx = Some (map word_of_nat [?s..<Suc ?t])"
    using LatestN_start [OF assms False] False
    by (simp add: LatestN_Blocks_def Let_def countUp_Some [OF assms] del: upt_Suc)
  moreover have "{n. ?s \<le> unat n \<and> unat n \<le> ?t} =
      {n. n \<le> scTipBlock ctx \<and> ?t < unat n + unat N}"
    by (auto simp: word_le_nat_alt)
  ultimately show ?thesis
    using set_word_upt [OF uint64_less] sorted_word_upt [OF uint64_less]
    by (intro exI [of _ "map word_of_nat [?s..<Suc ?t]"]) (auto simp del: upt_Suc set_map)
qed

theorem LatestN_Blocks_spec_witness:
  "\<exists>out. Strategy_Blocks (\<lambda>_ _ _ _. 0) (LatestN 3) \<lparr>scTipBlock = 10, scNow = 0\<rparr> = Some out \<and>
     length out = 3 \<and> set out = {n. n \<le> 10 \<and> 10 < unat n + 3}"
  using LatestN_Blocks_spec [of "\<lparr>scTipBlock = 10, scNow = 0\<rparr>" "\<lambda>_ _ _ _. 0" 3] by auto



section \<open>\<open>SparseSteps\<close>\<close>

lemma sparse_stop_iff:
  fixes n step hi :: uint64
  assumes "step \<noteq> 0" "n \<le> hi"
  shows "(n + step < n \<or> n + step > hi) \<longleftrightarrow> unat hi < unat n + unat step"
proof (cases "unat n + unat step < 2 ^ 64")
  case True
  then show ?thesis
    using unat_plus_no_wrap [OF True] by (auto simp: word_less_nat_alt)
next
  case False
  have "unat (n + step) = unat n + unat step - 2 ^ 64"
    using False uint64_less [of n] uint64_less [of step]
    by (simp add: unat_word_ariths mod_if)
  then have "n + step < n"
    using False uint64_less [of step] by (simp add: word_less_nat_alt)
  moreover have "unat hi < unat n + unat step" using False uint64_less [of hi] by simp
  ultimately show ?thesis by blast
qed

lemma sparseLoop_Some:
  assumes "step \<noteq> 0" and "n \<le> hi"
  shows "sparseLoop n hi step out =
    Some (out @ map (\<lambda>k. word_of_nat (unat n + k * unat step))
                    [0..<Suc ((unat hi - unat n) div unat step)])"
  using assms(2)
proof (induction "unat hi - unat n" arbitrary: n out rule: less_induct)
  case less
  have pos: "0 < unat step" using assms(1) by (simp add: unat_gt_0)
  show ?case
  proof (cases "unat hi < unat n + unat step")
    case True
    then have "sparseLoop n hi step out = Some (out @ [n])"
      using sparse_stop_iff [OF assms(1) less.prems] less.prems
      by (simp add: sparseLoop.simps [of n] Let_def)
    moreover have "(unat hi - unat n) div unat step = 0"
      using True pos by (intro div_less) linarith
    ultimately show ?thesis by simp
  next
    case False
    have nx: "unat (n + step) = unat n + unat step"
      using False uint64_less [of hi] by (intro unat_plus_no_wrap) simp
    have nle: "n + step \<le> hi" using False nx by (simp add: word_le_nat_alt)
    have "sparseLoop n hi step out = sparseLoop (n + step) hi step (out @ [n])"
      using False sparse_stop_iff [OF assms(1) less.prems] less.prems
      by (simp add: sparseLoop.simps [of n] Let_def)
    also have "\<dots> = Some ((out @ [n]) @ map (\<lambda>k. word_of_nat (unat (n + step) + k * unat step))
        [0..<Suc ((unat hi - unat (n + step)) div unat step)])"
      using less.hyps [of "n + step" "out @ [n]"] nle nx pos False by simp
    also have "(unat hi - unat n) div unat step =
        Suc ((unat hi - unat (n + step)) div unat step)"
      using False nx pos le_div_geq [of "unat step" "unat hi - unat n"] by simp
    ultimately show ?thesis
      using nx by (simp add: map_upt_Suc algebra_simps del: upt_Suc)
  qed
qed

text \<open>
  \<open>SparseSteps\<close> always returns, also where \<open>n + Step\<close> would pass the end of the
  64-bit line: for a well-formed range it samples exactly \<open>Start, Start + Step, ...\<close> up to
  \<open>End\<close>, and a zero step or an inverted range gives no samples.
\<close>

theorem SparseSteps_Blocks_spec:
  "Strategy_Blocks rng (SparseSteps r step) ctx =
     Some (if step = 0 \<or> rEnd r < rStart r then []
           else map (\<lambda>k. word_of_nat (unat (rStart r) + k * unat step))
                    [0..<Suc ((unat (rEnd r) - unat (rStart r)) div unat step)])"
proof (cases "step = 0 \<or> rEnd r < rStart r")
  case True
  then show ?thesis
    by (auto simp: SparseSteps_Blocks_def sparseLoop.simps [of "rStart r"])
next
  case False
  then show ?thesis
    by (simp add: SparseSteps_Blocks_def sparseLoop_Some not_less del: upt_Suc)
qed

section \<open>\<open>Random\<close>\<close>

lemma randomLoop_returns:
  assumes "cnt \<le> card (set out \<union> (\<lambda>j. start + draw j) ` {i..<k})"
    and "distinct out" and "length out \<le> cnt"
  shows "\<exists>r. randomLoop draw start cnt i out = Some r \<and> distinct r \<and> length r = cnt \<and>
    set r \<subseteq> set out \<union> range (\<lambda>j. start + draw j)"
  using assms
proof (induction "k - i" arbitrary: i out)
  case 0
  then have "\<not> length out < cnt" by (simp add: distinct_card)
  with 0 show ?case by (auto simp: randomLoop.simps [of draw start cnt i out])
next
  case (Suc m)
  let ?n = "start + draw i"
  have ran: "{i..<k} = insert i {Suc i..<k}" using Suc.hyps(2) by auto
  show ?case
  proof (cases "length out < cnt")
    case False
    with Suc.prems show ?thesis by (auto simp: randomLoop.simps [of draw start cnt i out])
  next
    case True
    define out' where "out' = (if ?n \<in> set out then out else out @ [?n])"
    have step: "randomLoop draw start cnt i out = randomLoop draw start cnt (Suc i) out'"
      using True by (simp add: randomLoop.simps [of draw start cnt i out] out'_def Let_def)
    have sets: "set out' = insert ?n (set out)" by (auto simp: out'_def)
    have "cnt \<le> card (set out' \<union> (\<lambda>j. start + draw j) ` {Suc i..<k})"
      using Suc.prems(1) by (simp add: ran sets)
    moreover have "distinct out'" "length out' \<le> cnt"
      using Suc.prems True by (auto simp: out'_def)
    moreover have "m = k - Suc i" using Suc.hyps(2) by simp
    ultimately obtain r where "randomLoop draw start cnt (Suc i) out' = Some r" "distinct r"
        "length r = cnt" "set r \<subseteq> set out' \<union> range (\<lambda>j. start + draw j)"
      using Suc.hyps(1) [of "Suc i" out'] by blast
    then show ?thesis using step sets by auto
  qed
qed

lemma BlockRange_Len_unat:
  assumes "rStart r \<le> rEnd r" "rEnd r \<noteq> - 1"
  shows "unat (BlockRange_Len r) = Suc (unat (rEnd r)) - unat (rStart r)"
proof -
  have sub: "unat (rEnd r - rStart r) = unat (rEnd r) - unat (rStart r)"
    using assms(1) by (simp add: unat_sub)
  then have "unat (rEnd r - rStart r + 1) = unat (rEnd r) - unat (rStart r) + 1"
    using uint64_max [OF assms(2)] unat_plus_no_wrap [of "rEnd r - rStart r" 1] by simp
  then show ?thesis using assms(1) by (simp add: BlockRange_Len_def word_le_nat_alt Suc_diff_le)
qed

lemma range_offset:
  assumes "rStart r \<le> rEnd r" "rEnd r \<noteq> - 1" "d < BlockRange_Len r"
  shows "rStart r \<le> rStart r + d \<and> rStart r + d \<le> rEnd r"
proof -
  have "unat d < Suc (unat (rEnd r)) - unat (rStart r)"
    using assms BlockRange_Len_unat [OF assms(1,2)] by (simp add: word_less_nat_alt)
  then have "unat (rStart r) + unat d \<le> unat (rEnd r)" by linarith
  moreover from this have "unat (rStart r + d) = unat (rStart r) + unat d"
    using uint64_less [of "rEnd r"] by (intro unat_plus_no_wrap) linarith
  ultimately show ?thesis by (simp add: word_le_nat_alt)
qed

text \<open>
  For a well-formed range below the largest height \<open>Random\<close> returns
  \<open>min(Count, Len)\<close> pairwise different heights of the range in ascending order. The generator is
  relied on for two things: \<open>Uint64N(n)\<close> is below \<open>n\<close>, and its sequence eventually shows enough
  different values for the rejection loop to end.
\<close>

theorem Random_Blocks_spec:
  assumes wf: "rStart r \<le> rEnd r" "rEnd r \<noteq> - 1"
    and Uint64N_less: "\<And>s1 s2 n i. n \<noteq> 0 \<Longrightarrow> rng s1 s2 n i < n"
    and Uint64N_covers: "\<And>s1 s2 n. n \<noteq> 0 \<Longrightarrow> \<exists>k. unat n \<le> card (rng s1 s2 n ` {0..<k})"
  shows "\<exists>out. Strategy_Blocks rng (Random r cnt seed) ctx = Some out \<and> sorted_wrt (<) out \<and>
    length out = min (unat cnt) (unat (BlockRange_Len r)) \<and> set out \<subseteq> {rStart r..rEnd r}"
proof -
  let ?L = "BlockRange_Len r"
  have len: "unat ?L = Suc (unat (rEnd r)) - unat (rStart r)" by (rule BlockRange_Len_unat [OF wf])
  then have L0: "?L \<noteq> 0" using wf(1) by (auto simp: word_le_nat_alt)
  consider "cnt = 0" | "cnt \<noteq> 0" "?L \<le> cnt" | "cnt \<noteq> 0" "cnt < ?L" by force
  then show ?thesis
  proof cases
    case 1
    then show ?thesis by (simp add: Random_Blocks_def)
  next
    case 2
    let ?o = "map word_of_nat [unat (rStart r)..<Suc (unat (rEnd r))] :: uint64 list"
    have "Strategy_Blocks rng (Random r cnt seed) ctx = Some ?o"
      using 2 L0 by (simp add: Random_Blocks_def Let_def countUp_Some [OF wf(2)] del: upt_Suc)
    moreover have "set ?o \<subseteq> {rStart r..rEnd r}"
      unfolding set_word_upt [OF uint64_less] by (auto simp: word_le_nat_alt)
    ultimately show ?thesis
      using 2 len sorted_word_upt [OF uint64_less [of "rEnd r"]]
      by (intro exI [of _ ?o]) (simp add: word_le_nat_alt del: upt_Suc)
  next
    case 3
    define draw where "draw = rng (word_of_int seed) (word_of_int seed XOR 0x9E3779B97F4A7C15) ?L"
    obtain k where "unat ?L \<le> card (draw ` {0..<k})"
      using Uint64N_covers [OF L0] by (auto simp: draw_def)
    moreover have "card ((\<lambda>j. rStart r + draw j) ` {0..<k}) = card (draw ` {0..<k})"
      using card_image [of "(+) (rStart r)" "draw ` {0..<k}"] by (simp add: image_image)
    ultimately have "unat cnt \<le> card (set [] \<union> (\<lambda>j. rStart r + draw j) ` {0..<k})"
      using 3 by (simp add: word_less_nat_alt)
    from randomLoop_returns [OF this] obtain q where q:
      "randomLoop draw (rStart r) (unat cnt) 0 [] = Some q" "distinct q" "length q = unat cnt"
      "set q \<subseteq> range (\<lambda>j. rStart r + draw j)" by auto
    have "set q \<subseteq> {rStart r..rEnd r}"
      using q(4) range_offset [OF wf] Uint64N_less [OF L0] by (auto simp: draw_def)
    moreover have "Strategy_Blocks rng (Random r cnt seed) ctx = Some (sort q)"
      using 3 L0 q(1) by (auto simp: Random_Blocks_def Let_def draw_def)
    ultimately show ?thesis
      using 3 q by (intro exI [of _ "sort q"]) (simp add: strict_sorted_iff word_less_nat_alt)
  qed
qed

theorem Random_Blocks_spec_witness:
  "\<exists>out. Strategy_Blocks (\<lambda>s1 s2 n i. word_of_nat (i mod unat n))
       (Random \<lparr>rStart = 5, rEnd = 9\<rparr> 2 7) \<lparr>scTipBlock = 10, scNow = 0\<rparr> = Some out \<and>
     length out = 2 \<and> set out \<subseteq> {5..9}"
proof -
  let ?rng = "\<lambda>(s1 :: uint64) (s2 :: uint64) (n :: uint64) i. word_of_nat (i mod unat n) :: uint64"
  have small: "unat (word_of_nat (i mod unat n) :: uint64) = i mod unat n"
    if "n \<noteq> 0" for i and n :: uint64
  proof -
    have "i mod unat n < unat n" using that by (simp add: unat_gt_0)
    then have "i mod unat n < 2 ^ 64" using uint64_less [of n] by linarith
    then show ?thesis by (rule unat_uint64_of_nat)
  qed
  have less: "?rng s1 s2 n i < n" if "n \<noteq> 0" for s1 s2 n :: uint64 and i
    using small [OF that] that by (simp add: word_less_nat_alt unat_gt_0)
  have covers: "\<exists>k. unat n \<le> card (?rng s1 s2 n ` {0..<k})" if n: "n \<noteq> 0" for s1 s2 n :: uint64
  proof -
    have "inj_on (?rng s1 s2 n) {0..<unat n}"
      using small [OF n] by (intro inj_onI) (metis atLeastLessThan_iff mod_less)
    then have "card (?rng s1 s2 n ` {0..<unat n}) = unat n"
      by (simp only: card_image card_atLeastLessThan diff_zero)
    then show ?thesis by (intro exI [of _ "unat n"]) (simp only: le_refl)
  qed
  show ?thesis
    using Random_Blocks_spec [of "\<lparr>rStart = 5, rEnd = 9\<rparr>" ?rng 2 7 "\<lparr>scTipBlock = 10, scNow = 0\<rparr>",
        OF _ _ less covers]
    by (auto simp: BlockRange_Len_def)
qed

section \<open>Cron normalisation\<close>

lemma trimWith_suffix: "\<exists>p. s = p @ trimWith ws s"
proof (induction ws s rule: trimWith.induct)
  case (1 ws s)
  show ?case
  proof (cases "matchLen ws s = 0")
    case True
    then show ?thesis by (simp add: trimWith_id)
  next
    case False
    then obtain p where "drop (matchLen ws s) s = p @ trimWith ws s"
      using "1.IH" by (metis trimWith.simps)
    then show ?thesis by (metis append_assoc append_take_drop_id)
  qed
qed

lemma HasPrefix_extend: "HasPrefix s w \<Longrightarrow> HasPrefix (s @ t) w"
  by (metis HasPrefix_append HasPrefix_def append_assoc append_take_drop_id)

lemma matchLen_prefix:
  assumes "matchLen ws (s @ t) = 0" shows "matchLen ws s = 0"
proof -
  have "\<not> HasPrefix (s @ t) w" if "w \<in> set ws" "w \<noteq> []" for w
    using assms that by (auto simp: matchLen_def find_None_iff find_Some_iff split: option.splits)
  then have "\<not> HasPrefix s w" if "w \<in> set ws" "w \<noteq> []" for w
    using that HasPrefix_extend by blast
  then show ?thesis by (auto simp: matchLen_def find_Some_iff split: option.splits)
qed

lemma TrimSpace_idem: "TrimSpace (TrimSpace s) = TrimSpace s"
proof -
  define l where "l = trimWith unicodeSpaces s"
  define t where "t = trimWith (map rev unicodeSpaces) (rev l)"
  obtain p where "rev l = p @ t" using trimWith_suffix unfolding t_def by blast
  then have "l = rev t @ rev p" by (metis rev_append rev_rev_ident)
  then have "matchLen unicodeSpaces (rev t) = 0"
    using trimWith_fixed [of unicodeSpaces s] matchLen_prefix by (metis l_def)
  moreover have "matchLen (map rev unicodeSpaces) t = 0" by (simp add: t_def trimWith_fixed)
  ultimately show ?thesis by (simp add: TrimSpace_def trimWith_id flip: l_def t_def)
qed

lemma NewSchedule_again:
  assumes "NewSchedule loadLocation cron tz = Inr s"
    and "\<And>z loc. loadLocation z = Some loc \<Longrightarrow> loadLocation loc = Some loc"
  shows "\<exists>loc. schTimezone s = Some loc \<and> \<not> Schedule_IsZero s \<and>
    NewSchedule loadLocation (schCronExpr s) loc = Inr s"
proof -
  obtain loc where "s = \<lparr>schCronExpr = TrimSpace cron, schTimezone = Some loc\<rparr>"
      "loadLocation tz = Some loc" "TrimSpace cron \<noteq> []" "validateCronShape (TrimSpace cron) = None"
    using assms(1) by (auto simp: NewSchedule_def Let_def split: if_splits option.splits)
  with assms(2) show ?thesis
    by (intro exI [of _ loc]) (simp add: NewSchedule_def TrimSpace_idem Schedule_IsZero_def)
qed

text \<open>
  \<open>NewSchedule\<close> normalises once: a schedule it accepts is accepted again, with the
  same result, when it is rebuilt from its own stored cron expression and zone name, provided
  that loading a location by the name of a loaded one gives that location. This is what lets a
  stored schedule be read back.
\<close>

theorem NewSchedule_rebuild:
  assumes "NewSchedule loadLocation cron tz = Inr s"
    and "\<And>z loc. loadLocation z = Some loc \<Longrightarrow> loadLocation loc = Some loc"
  shows "\<exists>loc. schTimezone s = Some loc \<and> \<not> Schedule_IsZero s \<and>
    NewSchedule loadLocation (schCronExpr s) loc = Inr s"
  using assms by (rule NewSchedule_again)

theorem NewSchedule_rebuild_witness:
  "\<exists>loc. schTimezone \<lparr>schCronExpr = ''0 * * * *'', schTimezone = Some ''UTC''\<rparr> = Some loc \<and>
     NewSchedule (\<lambda>z. if z = [] \<or> z = ''UTC'' then Some ''UTC'' else None) ''0 * * * *'' loc =
       Inr \<lparr>schCronExpr = ''0 * * * *'', schTimezone = Some ''UTC''\<rparr>"
proof -
  let ?ll = "\<lambda>z. if z = [] \<or> z = ''UTC'' then Some ''UTC'' else None"
  let ?s = "\<lparr>schCronExpr = ''0 * * * *'', schTimezone = Some ''UTC''\<rparr>"
  have "NewSchedule ?ll '' 0 * * * * '' [] = Inr ?s" by code_simp
  moreover have "?ll loc = Some loc" if "?ll z = Some loc" for z loc
    using that by (auto split: if_splits)
  ultimately show ?thesis using NewSchedule_rebuild [of ?ll _ _ ?s] by fastforce
qed

end
