(* ===== verification/Run.thy ===== *)
theory Run
  imports Sampling
begin

text \<open>
  The \<open>Run\<close> aggregate of \<open>internal/verification\<close> (\<open>run.go\<close>, \<open>summary.go\<close>, \<open>rehydrate.go\<close>): its
  constructor and every method that changes it, the record of what a run compared, and the
  life cycle as a transition system with its invariant. A method with a pointer receiver takes
  the run and returns the changed run, or the error with the run left as it was. Interface and
  pointer arguments that the code checks against nil are options.
\<close>

section \<open>Subjects and summaries (\<open>summary.go\<close>)\<close>

definition SubjectKindBlock :: string where "SubjectKindBlock = ''block''"
definition SubjectKindAddressLatest :: string where "SubjectKindAddressLatest = ''address_latest''"
definition SubjectKindAddressAtBlock :: string where "SubjectKindAddressAtBlock = ''address_at_block''"
definition SubjectKindERC20Balance :: string where "SubjectKindERC20Balance = ''erc20_balance''"
definition SubjectKindERC20Holdings :: string where "SubjectKindERC20Holdings = ''erc20_holdings''"
definition SubjectKindSnapshot :: string where "SubjectKindSnapshot = ''snapshot''"

lemmas subject_kind_defs =
  SubjectKindBlock_def SubjectKindAddressLatest_def SubjectKindAddressAtBlock_def
  SubjectKindERC20Balance_def SubjectKindERC20Holdings_def SubjectKindSnapshot_def

record subject =
  sbKind :: string
  sbBlock :: "block_number option"
  sbAddress :: "address option"
  sbToken :: "address option"
  sbName :: string

datatype subject_error =
    SubjMissingField string
  | SubjKindEmpty
  | SubjKindUnknown string

definition Subject_Validate :: "subject \<Rightarrow> subject_error option" where
  "Subject_Validate s =
     (let k = sbKind s in
      if k = SubjectKindBlock then
        (if sbBlock s = None then Some (SubjMissingField k) else None)
      else if k = SubjectKindAddressLatest \<or> k = SubjectKindERC20Holdings then
        (if sbAddress s = None then Some (SubjMissingField k) else None)
      else if k = SubjectKindAddressAtBlock then
        (if sbAddress s = None \<or> sbBlock s = None then Some (SubjMissingField k) else None)
      else if k = SubjectKindERC20Balance then
        (if sbAddress s = None \<or> sbToken s = None then Some (SubjMissingField k) else None)
      else if k = SubjectKindSnapshot then
        (if sbName s = [] then Some (SubjMissingField k) else None)
      else if k = [] then Some SubjKindEmpty
      else Some (SubjKindUnknown k))"

record run_summary =
  rsAnchorBlock :: "block_number option"
  rsSubjects :: "subject list"
  rsSourcesUsed :: "string list"
  rsComparisonsCount :: int

definition zeroSummary :: run_summary where
  "zeroSummary = \<lparr>rsAnchorBlock = None, rsSubjects = [], rsSourcesUsed = [], rsComparisonsCount = 0\<rparr>"

definition RunSummary_IsZero :: "run_summary \<Rightarrow> bool" where
  "RunSummary_IsZero s \<longleftrightarrow>
     rsAnchorBlock s = None \<and> length (rsSubjects s) = 0 \<and> length (rsSourcesUsed s) = 0 \<and>
     rsComparisonsCount s = 0"

datatype summary_error =
    SumNegativeCount int
  | SumSubject nat subject_error
  | SumEmptySource nat

fun checkSubjects :: "nat \<Rightarrow> subject list \<Rightarrow> summary_error option" where
  "checkSubjects i [] = None"
| "checkSubjects i (s # ss) =
     (case Subject_Validate s of
        Some e \<Rightarrow> Some (SumSubject i e)
      | None \<Rightarrow> checkSubjects (Suc i) ss)"

fun checkSourcesUsed :: "nat \<Rightarrow> string list \<Rightarrow> summary_error option" where
  "checkSourcesUsed i [] = None"
| "checkSourcesUsed i (s # ss) =
     (if s = [] then Some (SumEmptySource i) else checkSourcesUsed (Suc i) ss)"

definition RunSummary_Validate :: "run_summary \<Rightarrow> summary_error option" where
  "RunSummary_Validate s =
     (if rsComparisonsCount s < 0 then Some (SumNegativeCount (rsComparisonsCount s))
      else case checkSubjects 0 (rsSubjects s) of
        Some e \<Rightarrow> Some e
      | None \<Rightarrow> checkSourcesUsed 0 (rsSourcesUsed s))"

section \<open>The aggregate (\<open>run.go\<close>)\<close>

type_synonym run_id = string
type_synonym status = string

definition StatusPending :: status where "StatusPending = ''pending''"
definition StatusRunning :: status where "StatusRunning = ''running''"
definition StatusCompleted :: status where "StatusCompleted = ''completed''"
definition StatusFailed :: status where "StatusFailed = ''failed''"
definition StatusCancelled :: status where "StatusCancelled = ''cancelled''"

lemmas status_defs =
  StatusPending_def StatusRunning_def StatusCompleted_def StatusFailed_def StatusCancelled_def

definition Status_IsTerminal :: "status \<Rightarrow> bool" where
  "Status_IsTerminal s \<longleftrightarrow> s = StatusCompleted \<or> s = StatusFailed \<or> s = StatusCancelled"

text \<open>\<open>NewRunID\<close> reads 16 bytes of \<open>crypto/rand\<close>; \<open>None\<close> is a failed read.\<close>

definition NewRunID :: "byte list option \<Rightarrow> run_id option" where
  "NewRunID buf = map_option EncodeToString buf"

record run =
  runId :: run_id
  runChainID :: chain_id
  runStrategy :: sampling_strategy
  runAddressPlans :: "address_plan list"
  runTokenPlans :: "token_plan list"
  runMetrics :: "metric list"
  runTrigger :: trigger
  runStatus :: status
  runCreatedAt :: gotime
  runStartedAt :: "gotime option"
  runFinishedAt :: "gotime option"
  runErrorMsg :: string
  runSummary :: run_summary

datatype run_error =
    RunIdEmpty
  | RunChainIdZero
  | RunStrategyNil
  | RunMetricsEmpty
  | RunTriggerNil
  | RunStatusEmpty
  | RunAddressPlanNil nat
  | RunTokenPlanNil nat
  | RunCannotSetTokenPlans status
  | RunCannotStart status
  | RunCannotComplete status
  | RunCannotFail status
  | RunCannotCancel status
  | RunCannotRecordSummary status
  | RunBadSummary summary_error

text \<open>The first nil entry of a list of interface values, by index.\<close>

fun firstNil :: "nat \<Rightarrow> 'a option list \<Rightarrow> nat option" where
  "firstNil i [] = None"
| "firstNil i (p # ps) = (if p = None then Some i else firstNil (Suc i) ps)"

definition NewRun ::
  "run_id \<Rightarrow> chain_id \<Rightarrow> sampling_strategy option \<Rightarrow> metric list \<Rightarrow> trigger option \<Rightarrow> gotime
   \<Rightarrow> address_plan option list \<Rightarrow> run_error + run" where
  "NewRun i cid strategy metrics trig createdAt addressPlans =
     (if i = [] then Inl RunIdEmpty
      else if cid = 0 then Inl RunChainIdZero
      else case strategy of None \<Rightarrow> Inl RunStrategyNil | Some strat \<Rightarrow>
        if length metrics = 0 then Inl RunMetricsEmpty
        else case trig of None \<Rightarrow> Inl RunTriggerNil | Some tr \<Rightarrow>
          (case firstNil 0 addressPlans of
             Some k \<Rightarrow> Inl (RunAddressPlanNil k)
           | None \<Rightarrow> Inr
               \<lparr>runId = i, runChainID = cid, runStrategy = strat,
                runAddressPlans = map the addressPlans, runTokenPlans = [],
                runMetrics = metrics, runTrigger = tr, runStatus = StatusPending,
                runCreatedAt = createdAt, runStartedAt = None, runFinishedAt = None,
                runErrorMsg = [], runSummary = zeroSummary\<rparr>))"

definition SetTokenPlans :: "token_plan option list \<Rightarrow> run \<Rightarrow> run_error + run" where
  "SetTokenPlans plans r =
     (if runStatus r \<noteq> StatusPending then Inl (RunCannotSetTokenPlans (runStatus r))
      else case firstNil 0 plans of
        Some k \<Rightarrow> Inl (RunTokenPlanNil k)
      | None \<Rightarrow> Inr (r\<lparr>runTokenPlans := map the plans\<rparr>))"

definition Run_Start :: "gotime \<Rightarrow> run \<Rightarrow> run_error + run" where
  "Run_Start now r =
     (if runStatus r \<noteq> StatusPending then Inl (RunCannotStart (runStatus r))
      else Inr (r\<lparr>runStatus := StatusRunning, runStartedAt := Some now\<rparr>))"

definition Run_Complete :: "gotime \<Rightarrow> run \<Rightarrow> run_error + run" where
  "Run_Complete now r =
     (if runStatus r \<noteq> StatusRunning then Inl (RunCannotComplete (runStatus r))
      else Inr (r\<lparr>runStatus := StatusCompleted, runFinishedAt := Some now\<rparr>))"

text \<open>\<open>Fail\<close> keeps only the text of the error: the argument is \<open>err.Error()\<close>, \<open>None\<close> for nil.\<close>

definition Run_Fail :: "gotime \<Rightarrow> string option \<Rightarrow> run \<Rightarrow> run_error + run" where
  "Run_Fail now err r =
     (if runStatus r \<noteq> StatusPending \<and> runStatus r \<noteq> StatusRunning
      then Inl (RunCannotFail (runStatus r))
      else let r' = r\<lparr>runStatus := StatusFailed, runFinishedAt := Some now\<rparr> in
           Inr (case err of None \<Rightarrow> r' | Some msg \<Rightarrow> r'\<lparr>runErrorMsg := msg\<rparr>))"

definition Run_Cancel :: "gotime \<Rightarrow> run \<Rightarrow> run_error + run" where
  "Run_Cancel now r =
     (if runStatus r \<noteq> StatusPending \<and> runStatus r \<noteq> StatusRunning
      then Inl (RunCannotCancel (runStatus r))
      else Inr (r\<lparr>runStatus := StatusCancelled, runFinishedAt := Some now\<rparr>))"

text \<open>The defensive copy of a summary: field by field, an empty slice becoming nil.\<close>

definition copySummary :: "run_summary \<Rightarrow> run_summary" where
  "copySummary s =
     (let out = zeroSummary\<lparr>rsComparisonsCount := rsComparisonsCount s\<rparr>;
          out = (case rsAnchorBlock s of None \<Rightarrow> out | Some b \<Rightarrow> out\<lparr>rsAnchorBlock := Some b\<rparr>);
          out = (if length (rsSubjects s) > 0 then out\<lparr>rsSubjects := rsSubjects s\<rparr> else out)
      in if length (rsSourcesUsed s) > 0 then out\<lparr>rsSourcesUsed := rsSourcesUsed s\<rparr> else out)"

definition Run_Summary :: "run \<Rightarrow> run_summary" where
  "Run_Summary r = copySummary (runSummary r)"

definition RecordSummary :: "run_summary \<Rightarrow> run \<Rightarrow> run_error + run" where
  "RecordSummary s r =
     (if runStatus r \<noteq> StatusRunning then Inl (RunCannotRecordSummary (runStatus r))
      else case RunSummary_Validate s of
        Some e \<Rightarrow> Inl (RunBadSummary e)
      | None \<Rightarrow> Inr (r\<lparr>runSummary := copySummary s\<rparr>))"

section \<open>Rebuilding a stored run (\<open>rehydrate.go\<close>)\<close>

definition Rehydrate ::
  "run_id \<Rightarrow> chain_id \<Rightarrow> sampling_strategy option \<Rightarrow> metric list \<Rightarrow> trigger option \<Rightarrow> status
   \<Rightarrow> gotime \<Rightarrow> gotime option \<Rightarrow> gotime option \<Rightarrow> string \<Rightarrow> address_plan list
   \<Rightarrow> token_plan list \<Rightarrow> run_summary \<Rightarrow> run_error + run" where
  "Rehydrate i cid strategy metrics trig st createdAt startedAt finishedAt errorMsg
     addressPlans tokenPlans smry =
     (if i = [] then Inl RunIdEmpty
      else if cid = 0 then Inl RunChainIdZero
      else case strategy of None \<Rightarrow> Inl RunStrategyNil | Some strat \<Rightarrow>
        if length metrics = 0 then Inl RunMetricsEmpty
        else case trig of None \<Rightarrow> Inl RunTriggerNil | Some tr \<Rightarrow>
          if st = [] then Inl RunStatusEmpty
          else Inr
            \<lparr>runId = i, runChainID = cid, runStrategy = strat,
             runAddressPlans = addressPlans, runTokenPlans = tokenPlans,
             runMetrics = metrics, runTrigger = tr, runStatus = st,
             runCreatedAt = createdAt, runStartedAt = startedAt, runFinishedAt = finishedAt,
             runErrorMsg = errorMsg, runSummary = copySummary smry\<rparr>)"

lemmas run_op_defs =
  SetTokenPlans_def Run_Start_def Run_Complete_def Run_Fail_def Run_Cancel_def RecordSummary_def

section \<open>The life cycle\<close>

text \<open>What the methods of \<open>Run\<close> can do to a run: one rule per successful call.\<close>

inductive run_step :: "run \<Rightarrow> run \<Rightarrow> bool" where
  step_tokens: "SetTokenPlans plans r = Inr r' \<Longrightarrow> run_step r r'"
| step_start: "Run_Start now r = Inr r' \<Longrightarrow> run_step r r'"
| step_record: "RecordSummary s r = Inr r' \<Longrightarrow> run_step r r'"
| step_complete: "Run_Complete now r = Inr r' \<Longrightarrow> run_step r r'"
| step_fail: "Run_Fail now err r = Inr r' \<Longrightarrow> run_step r r'"
| step_cancel: "Run_Cancel now r = Inr r' \<Longrightarrow> run_step r r'"

definition run_init :: "run \<Rightarrow> bool" where
  "run_init r \<longleftrightarrow> (\<exists>i cid s ms t at ps. NewRun i cid s ms t at ps = Inr r)"

text \<open>The facts every run of the system has, by status.\<close>

definition run_inv :: "run \<Rightarrow> bool" where
  "run_inv r \<longleftrightarrow>
     runId r \<noteq> [] \<and> runChainID r \<noteq> 0 \<and> runMetrics r \<noteq> [] \<and>
     runStatus r \<in> {StatusPending, StatusRunning, StatusCompleted, StatusFailed, StatusCancelled} \<and>
     (runFinishedAt r \<noteq> None \<longleftrightarrow> Status_IsTerminal (runStatus r)) \<and>
     (runStatus r = StatusPending \<longrightarrow> runStartedAt r = None) \<and>
     (runStatus r = StatusRunning \<or> runStatus r = StatusCompleted \<longrightarrow> runStartedAt r \<noteq> None) \<and>
     (runErrorMsg r \<noteq> [] \<longrightarrow> runStatus r = StatusFailed) \<and>
     (runStartedAt r = None \<longrightarrow> RunSummary_IsZero (runSummary r)) \<and>
     RunSummary_Validate (runSummary r) = None"

lemma status_distinct [simp]:
  "StatusPending \<noteq> StatusRunning" "StatusPending \<noteq> StatusCompleted" "StatusPending \<noteq> StatusFailed"
  "StatusPending \<noteq> StatusCancelled" "StatusRunning \<noteq> StatusPending" "StatusRunning \<noteq> StatusCompleted"
  "StatusRunning \<noteq> StatusFailed" "StatusRunning \<noteq> StatusCancelled" "StatusCompleted \<noteq> StatusPending"
  "StatusCompleted \<noteq> StatusRunning" "StatusCompleted \<noteq> StatusFailed" "StatusCompleted \<noteq> StatusCancelled"
  "StatusFailed \<noteq> StatusPending" "StatusFailed \<noteq> StatusRunning" "StatusFailed \<noteq> StatusCompleted"
  "StatusFailed \<noteq> StatusCancelled" "StatusCancelled \<noteq> StatusPending" "StatusCancelled \<noteq> StatusRunning"
  "StatusCancelled \<noteq> StatusCompleted" "StatusCancelled \<noteq> StatusFailed"
  by (simp_all add: status_defs)

lemma IsTerminal_simps [simp]:
  "\<not> Status_IsTerminal StatusPending" "\<not> Status_IsTerminal StatusRunning"
  "Status_IsTerminal StatusCompleted" "Status_IsTerminal StatusFailed"
  "Status_IsTerminal StatusCancelled"
  by (simp_all add: Status_IsTerminal_def)

lemma copySummary_id [simp]: "copySummary s = s"
  by (cases s) (simp add: copySummary_def zeroSummary_def Let_def split: option.splits)

lemma zeroSummary_facts [simp]:
  "RunSummary_IsZero zeroSummary" "RunSummary_Validate zeroSummary = None"
  by (simp_all add: zeroSummary_def RunSummary_IsZero_def RunSummary_Validate_def)

lemma run_init_inv: "run_init r \<Longrightarrow> run_inv r"
  by (auto simp: run_init_def NewRun_def run_inv_def split: if_splits option.splits)

text \<open>When each method succeeds, and with what run.\<close>

lemma SetTokenPlans_Inr:
  "SetTokenPlans plans r = Inr r' \<longleftrightarrow> runStatus r = StatusPending \<and> firstNil 0 plans = None \<and>
     r' = r\<lparr>runTokenPlans := map the plans\<rparr>"
  by (auto simp: SetTokenPlans_def split: option.splits)

lemma Run_Start_Inr:
  "Run_Start now r = Inr r' \<longleftrightarrow> runStatus r = StatusPending \<and>
     r' = r\<lparr>runStatus := StatusRunning, runStartedAt := Some now\<rparr>"
  by (auto simp: Run_Start_def)

lemma Run_Complete_Inr:
  "Run_Complete now r = Inr r' \<longleftrightarrow> runStatus r = StatusRunning \<and>
     r' = r\<lparr>runStatus := StatusCompleted, runFinishedAt := Some now\<rparr>"
  by (auto simp: Run_Complete_def)

lemma Run_Fail_Inr:
  "Run_Fail now err r = Inr r' \<longleftrightarrow> (runStatus r = StatusPending \<or> runStatus r = StatusRunning) \<and>
     r' = r\<lparr>runStatus := StatusFailed, runFinishedAt := Some now,
            runErrorMsg := (case err of None \<Rightarrow> runErrorMsg r | Some m \<Rightarrow> m)\<rparr>"
  by (auto simp: Run_Fail_def Let_def split: option.splits)

lemma Run_Cancel_Inr:
  "Run_Cancel now r = Inr r' \<longleftrightarrow> (runStatus r = StatusPending \<or> runStatus r = StatusRunning) \<and>
     r' = r\<lparr>runStatus := StatusCancelled, runFinishedAt := Some now\<rparr>"
  by (auto simp: Run_Cancel_def)

lemma RecordSummary_Inr:
  "RecordSummary s r = Inr r' \<longleftrightarrow> runStatus r = StatusRunning \<and> RunSummary_Validate s = None \<and>
     r' = r\<lparr>runSummary := s\<rparr>"
  by (auto simp: RecordSummary_def split: option.splits)

lemmas run_op_Inr =
  SetTokenPlans_Inr Run_Start_Inr Run_Complete_Inr Run_Fail_Inr Run_Cancel_Inr RecordSummary_Inr

lemma run_step_cases:
  assumes "run_step r r'"
  obtains (tokens) plans where "runStatus r = StatusPending" "r' = r\<lparr>runTokenPlans := plans\<rparr>"
  | (start) now where "runStatus r = StatusPending"
      "r' = r\<lparr>runStatus := StatusRunning, runStartedAt := Some now\<rparr>"
  | (summary) s where "runStatus r = StatusRunning" "RunSummary_Validate s = None"
      "r' = r\<lparr>runSummary := s\<rparr>"
  | (complete) now where "runStatus r = StatusRunning"
      "r' = r\<lparr>runStatus := StatusCompleted, runFinishedAt := Some now\<rparr>"
  | (fail) now msg where "runStatus r = StatusPending \<or> runStatus r = StatusRunning"
      "r' = r\<lparr>runStatus := StatusFailed, runFinishedAt := Some now, runErrorMsg := msg\<rparr>"
  | (cancel) now where "runStatus r = StatusPending \<or> runStatus r = StatusRunning"
      "r' = r\<lparr>runStatus := StatusCancelled, runFinishedAt := Some now\<rparr>"
  using assms
proof (cases rule: run_step.cases)
  case (step_tokens plans)
  then show ?thesis using tokens unfolding SetTokenPlans_Inr by blast
next
  case (step_start now)
  then show ?thesis using start unfolding Run_Start_Inr by blast
next
  case (step_record s)
  then show ?thesis using summary unfolding RecordSummary_Inr by blast
next
  case (step_complete now)
  then show ?thesis using complete unfolding Run_Complete_Inr by blast
next
  case (step_fail now err)
  then show ?thesis using fail unfolding Run_Fail_Inr by blast
next
  case (step_cancel now)
  then show ?thesis using cancel unfolding Run_Cancel_Inr by blast
qed

lemma run_step_inv: "run_inv r \<Longrightarrow> run_step r r' \<Longrightarrow> run_inv r'"
  by (erule run_step_cases) (auto simp: run_inv_def)

interpretation run_machine: state_machine run_init run_step run_inv
  by unfold_locales (fact run_init_inv, fact run_step_inv)

text \<open>
  Property C1. Every run that the constructor and any sequence of successful method calls can
  produce is well-formed: it has an id, a chain and metrics; it has a finish time exactly in a
  terminal status; it has a start time when running or completed and none when pending; only a
  failed run carries an error message; a run that never started has recorded no summary, and a
  recorded summary is structurally valid.
\<close>

theorem run_reachable_inv: "reachable run_init run_step r \<Longrightarrow> run_inv r"
  by (rule run_machine.reachable_inv)

text \<open>A concrete life: created, started, completed.\<close>

definition sampleRun :: run where
  "sampleRun =
     \<lparr>runId = ''r1'', runChainID = 1, runStrategy = LatestN 5, runAddressPlans = [],
      runTokenPlans = [], runMetrics = [MetricBlockHash], runTrigger = ManualTrigger ''op'',
      runStatus = StatusPending, runCreatedAt = 100, runStartedAt = None, runFinishedAt = None,
      runErrorMsg = [], runSummary = zeroSummary\<rparr>"

lemma sampleRun_NewRun:
  "NewRun ''r1'' 1 (Some (LatestN 5)) [MetricBlockHash] (Some (ManualTrigger ''op'')) 100 [] =
     Inr sampleRun"
  by (simp add: NewRun_def sampleRun_def)

lemma sampleRun_init: "run_init sampleRun"
  unfolding run_init_def using sampleRun_NewRun by blast

lemma sampleRun_reachable: "reachable run_init run_step sampleRun"
  by (rule reachable_init) (rule sampleRun_init)

lemma sampleRun_steps:
  "run_step\<^sup>*\<^sup>* sampleRun (sampleRun\<lparr>runStatus := StatusCompleted, runStartedAt := Some 110,
     runFinishedAt := Some 120\<rparr>)"
proof -
  let ?r1 = "sampleRun\<lparr>runStatus := StatusRunning, runStartedAt := Some 110\<rparr>"
  have "run_step sampleRun ?r1"
    by (rule step_start [of 110]) (simp add: Run_Start_def sampleRun_def)
  moreover have "run_step ?r1 (?r1\<lparr>runStatus := StatusCompleted, runFinishedAt := Some 120\<rparr>)"
    by (rule step_complete [of 120]) (simp add: Run_Complete_def)
  ultimately show ?thesis by (simp add: sampleRun_def)
qed

lemma reachable_steps: "step\<^sup>*\<^sup>* s t \<Longrightarrow> reachable init step s \<Longrightarrow> reachable init step t"
  by (induction rule: rtranclp_induct) (auto intro: reachable_step)

theorem run_reachable_inv_witness:
  "run_inv (sampleRun\<lparr>runStatus := StatusCompleted, runStartedAt := Some 110,
     runFinishedAt := Some 120\<rparr>)"
  by (rule run_reachable_inv) (rule reachable_steps [OF sampleRun_steps sampleRun_reachable])

text \<open>
  Property C2. A terminal status is final: once a run is completed, failed or cancelled, every
  method that could change it returns an error and no transition leaves the state.
\<close>

theorem run_terminal_absorbing:
  assumes "Status_IsTerminal (runStatus r)"
  shows "isl (Run_Start now r) \<and> isl (Run_Complete now r) \<and> isl (Run_Fail now err r) \<and>
    isl (Run_Cancel now r) \<and> isl (RecordSummary s r) \<and> isl (SetTokenPlans ps r) \<and>
    (run_step\<^sup>*\<^sup>* r r' \<longrightarrow> r' = r)"
proof -
  have st: "runStatus r \<noteq> StatusPending" "runStatus r \<noteq> StatusRunning"
    using assms by (auto simp: Status_IsTerminal_def)
  then have "\<not> run_step r t" for t by (auto elim: run_step_cases)
  then have "run_step\<^sup>*\<^sup>* r r' \<longrightarrow> r' = r" by (auto elim: converse_rtranclpE)
  with st show ?thesis by (simp add: run_op_defs)
qed

theorem run_terminal_absorbing_witness:
  "isl (Run_Cancel 130 (sampleRun\<lparr>runStatus := StatusCompleted\<rparr>))"
  using run_terminal_absorbing [of "sampleRun\<lparr>runStatus := StatusCompleted\<rparr>" 130] by simp

text \<open>
  What a run verifies never changes after construction: no sequence of method
  calls alters its id, chain, strategy, metrics, trigger, creation time or address plans, and
  once it has left the pending status its token plans are fixed too.
\<close>

theorem run_identity_immutable:
  assumes "run_step\<^sup>*\<^sup>* r r'"
  shows "runId r' = runId r \<and> runChainID r' = runChainID r \<and> runStrategy r' = runStrategy r \<and>
    runMetrics r' = runMetrics r \<and> runTrigger r' = runTrigger r \<and>
    runCreatedAt r' = runCreatedAt r \<and> runAddressPlans r' = runAddressPlans r \<and>
    (runStatus r \<noteq> StatusPending \<longrightarrow> runTokenPlans r' = runTokenPlans r)"
proof -
  have "runStatus r \<noteq> StatusPending \<longrightarrow>
      runStatus r' \<noteq> StatusPending \<and> runTokenPlans r' = runTokenPlans r"
    using assms by (induction rule: rtranclp_induct) (auto elim!: run_step_cases)
  moreover have "f r' = f r" if "\<And>s t. run_step s t \<Longrightarrow> f t = f s" for f :: "run \<Rightarrow> 'a"
    using assms that by (rule steps_preserve)
  ultimately show ?thesis
    using assms
    by (auto intro!: steps_preserve [OF assms] elim!: run_step_cases)
qed

theorem run_identity_immutable_witness:
  "runMetrics (sampleRun\<lparr>runStatus := StatusCompleted, runStartedAt := Some 110,
     runFinishedAt := Some 120\<rparr>) = [MetricBlockHash]"
  using run_identity_immutable [OF sampleRun_steps] by (simp add: sampleRun_def)

text \<open>The rank of a status in the life cycle: every status change raises it.\<close>

definition status_rank :: "status \<Rightarrow> nat" where
  "status_rank s = (if s = StatusPending then 0 else if s = StatusRunning then 1 else 2)"

lemma run_step_rank:
  "run_step r r' \<Longrightarrow> runStatus r' = runStatus r \<or> status_rank (runStatus r) < status_rank (runStatus r')"
  by (erule run_step_cases) (auto simp: status_rank_def)

lemma run_steps_rank:
  "run_step\<^sup>*\<^sup>* r r' \<Longrightarrow> runStatus r' = runStatus r \<or> status_rank (runStatus r) < status_rank (runStatus r')"
  by (induction rule: rtranclp_induct) (auto dest: run_step_rank)

text \<open>
  The life cycle has no cycle: a status that a run has left is never entered
  again, so a run changes status at most twice.
\<close>

theorem run_status_no_return:
  assumes "run_step\<^sup>*\<^sup>* r r'" "run_step\<^sup>*\<^sup>* r' r''" "runStatus r' \<noteq> runStatus r"
  shows "runStatus r'' \<noteq> runStatus r"
  using run_steps_rank [OF assms(1)] run_steps_rank [OF assms(2)] assms(3) by auto

theorem run_status_no_return_witness:
  "runStatus (sampleRun\<lparr>runStatus := StatusCompleted, runStartedAt := Some 110,
     runFinishedAt := Some 120\<rparr>) \<noteq> runStatus sampleRun"
  by (rule run_status_no_return [OF sampleRun_steps rtranclp.rtrancl_refl]) (simp add: sampleRun_def)

text \<open>
  The storage constructor is the inverse of taking a run apart: \<open>Rehydrate\<close> applied
  to the fields of any run that the aggregate can produce, in any status, gives that run back.
\<close>

theorem Rehydrate_roundtrip:
  assumes "reachable run_init run_step r"
  shows "Rehydrate (runId r) (runChainID r) (Some (runStrategy r)) (runMetrics r)
      (Some (runTrigger r)) (runStatus r) (runCreatedAt r) (runStartedAt r) (runFinishedAt r)
      (runErrorMsg r) (runAddressPlans r) (runTokenPlans r) (Run_Summary r) = Inr r"
  using run_machine.reachable_inv [OF assms]
  by (cases r) (auto simp: Rehydrate_def run_inv_def Run_Summary_def status_defs)

theorem Rehydrate_roundtrip_witness:
  "Rehydrate ''r1'' 1 (Some (LatestN 5)) [MetricBlockHash] (Some (ManualTrigger ''op''))
     StatusPending 100 None None [] [] [] zeroSummary = Inr sampleRun"
  using Rehydrate_roundtrip [OF sampleRun_reachable]
  by (simp add: sampleRun_def Run_Summary_def)

end
