(* ===== verification/Diff.thy ===== *)
theory Diff
  imports Run
begin

text \<open>
  The disagreement model of \<open>internal/diff\<close>: value snapshots, discrepancies and the tolerances
  that decide whether two values count as equal (\<open>discrepancy.go\<close>, \<open>tolerance.go\<close>). A Go map is
  its list of entries in one iteration order, with distinct keys.
\<close>

section \<open>Snapshots and discrepancies (\<open>discrepancy.go\<close>)\<close>

definition SubjectBlock :: string where "SubjectBlock = ''block''"
definition SubjectAddress :: string where "SubjectAddress = ''address''"
definition SubjectContract :: string where "SubjectContract = ''contract''"
definition SubjectChain :: string where "SubjectChain = ''chain''"

record diff_subject =
  dsType :: string
  dsAddress :: "address option"

text \<open>\<open>Typed\<close> has the Go type \<open>any\<close>; the code only compares it with nil, so an opaque text stands
  for a value.\<close>

record value_snapshot =
  vsRaw :: string
  vsTyped :: "string option"
  vsFetchedAt :: gotime
  vsReflectedBlock :: "block_number option"

definition ValueSnapshot_IsZero :: "value_snapshot \<Rightarrow> bool" where
  "ValueSnapshot_IsZero v \<longleftrightarrow>
     vsRaw v = [] \<and> vsTyped v = None \<and> vsFetchedAt v = 0 \<and> vsReflectedBlock v = None"

type_synonym snapshots = "(source_id, value_snapshot) gomap"

record discrepancy =
  dRunID :: run_id
  dMetric :: metric
  dBlock :: block_number
  dSubject :: diff_subject
  dValues :: snapshots
  dDetectedAt :: gotime

datatype discrepancy_error =
    DiscRunIdEmpty
  | DiscSubjectTypeEmpty
  | DiscTooFewValues nat
  | DiscSourceIdEmpty

definition NewDiscrepancy ::
  "run_id \<Rightarrow> metric \<Rightarrow> block_number \<Rightarrow> diff_subject \<Rightarrow> snapshots \<Rightarrow> gotime
   \<Rightarrow> discrepancy_error + discrepancy" where
  "NewDiscrepancy runID m block subj vals detectedAt =
     (if runID = [] then Inl DiscRunIdEmpty
      else if dsType subj = [] then Inl DiscSubjectTypeEmpty
      else if length vals < 2 then Inl (DiscTooFewValues (length vals))
      else if list_ex (\<lambda>(sid, _). sid = []) vals then Inl DiscSourceIdEmpty
      else Inr \<lparr>dRunID = runID, dMetric = m, dBlock = block, dSubject = subj,
                dValues = vals, dDetectedAt = detectedAt\<rparr>)"

section \<open>Tolerances (\<open>tolerance.go\<close>)\<close>

record compare_context =
  ccAnchor :: block_tag
  ccAnchorBlock :: block_number
  ccReflectedA :: "block_number option"
  ccReflectedB :: "block_number option"

text \<open>The implementations of the \<open>Tolerance\<close> interface. \<open>AbsoluteMax\<close> and \<open>Inner\<close> may be nil.\<close>

datatype tolerance =
    ExactMatch
  | NumericTolerance (ntAbsoluteMax: "int option") (ntRelativePPM: uint64)
  | AnchorWindowed (awInner: "tolerance option") (awTolBack: uint64) (awTolFwd: uint64)
  | Observational

definition parseBigInt :: "string \<Rightarrow> int option" where
  "parseBigInt s =
     (let s = TrimSpace s in
      if s = [] then None
      else if HasPrefix s ''0x'' \<or> HasPrefix s ''0X'' then SetString 16 (drop 2 s)
      else SetString 10 s)"

text \<open>A verdict is the pair \<open>(ok, needDiscard)\<close>.\<close>

definition ExactMatch_Judge :: "value_snapshot \<Rightarrow> value_snapshot \<Rightarrow> bool \<times> bool" where
  "ExactMatch_Judge a b = (vsRaw a = vsRaw b, False)"

definition NumericTolerance_Judge ::
  "int option \<Rightarrow> uint64 \<Rightarrow> value_snapshot \<Rightarrow> value_snapshot \<Rightarrow> bool \<times> bool" where
  "NumericTolerance_Judge absMax ppm a b =
     (case (parseBigInt (vsRaw a), parseBigInt (vsRaw b)) of
        (Some av, Some bv) \<Rightarrow>
          let d = \<bar>av - bv\<bar> in
          if absMax = None \<and> ppm = 0 then (d = 0, False)
          else if (case absMax of None \<Rightarrow> False | Some m \<Rightarrow> d \<le> m) then (True, False)
          else if ppm > 0 then
            let absA = \<bar>av\<bar>; absB = \<bar>bv\<bar>;
                maxAbs = (if absB > absA then absB else absA);
                lhs = d * 1000000;
                rhs = maxAbs * uint ppm
            in if lhs \<le> rhs then (True, False) else (False, False)
          else (False, False)
      | _ \<Rightarrow> (False, False))"

definition windowLo :: "uint64 \<Rightarrow> uint64 \<Rightarrow> uint64" where
  "windowLo anchor tolBack = (if tolBack > anchor then 0 else anchor - tolBack)"

definition windowHi :: "uint64 \<Rightarrow> uint64 \<Rightarrow> uint64" where
  "windowHi anchor tolFwd =
     (let hi = anchor + tolFwd in if hi < anchor then NOT 0 else hi)"

definition outsideWindow :: "uint64 \<Rightarrow> uint64 \<Rightarrow> block_number option \<Rightarrow> bool" where
  "outsideWindow lo hi rb = (case rb of None \<Rightarrow> False | Some n \<Rightarrow> n < lo \<or> n > hi)"

fun Tolerance_Judge ::
  "tolerance \<Rightarrow> value_snapshot \<Rightarrow> value_snapshot \<Rightarrow> metric \<Rightarrow> compare_context \<Rightarrow> bool \<times> bool" where
  "Tolerance_Judge ExactMatch a b m ctx = ExactMatch_Judge a b"
| "Tolerance_Judge (NumericTolerance absMax ppm) a b m ctx = NumericTolerance_Judge absMax ppm a b"
| "Tolerance_Judge (AnchorWindowed inner tolBack tolFwd) a b m ctx =
     (let lo = windowLo (ccAnchorBlock ctx) tolBack; hi = windowHi (ccAnchorBlock ctx) tolFwd in
      if outsideWindow lo hi (ccReflectedA ctx) then (False, True)
      else if outsideWindow lo hi (ccReflectedB ctx) then (False, True)
      else case inner of
        None \<Rightarrow> ExactMatch_Judge a b
      | Some t \<Rightarrow> Tolerance_Judge t a b m ctx)"
| "Tolerance_Judge Observational a b m ctx = (True, False)"

section \<open>Properties\<close>

lemma NewDiscrepancy_Inr:
  "NewDiscrepancy i m b s vals t = Inr d \<longleftrightarrow>
     i \<noteq> [] \<and> dsType s \<noteq> [] \<and> 2 \<le> length vals \<and> [] \<notin> fst ` set vals \<and>
     d = \<lparr>dRunID = i, dMetric = m, dBlock = b, dSubject = s, dValues = vals, dDetectedAt = t\<rparr>"
  by (force simp: NewDiscrepancy_def list_ex_iff image_iff not_less)

text \<open>A decimal literal is untouched by trimming and has no hexadecimal prefix, so the numeric
  tolerance reads back the very integer that was rendered.\<close>

definition decimalChars :: "char set" where
  "decimalChars = set ''-0123456789''"

lemma FormatNat_decimal: "set (FormatNat 10 n) \<subseteq> decimalChars"
proof -
  have "digitChar d \<in> decimalChars" if "d < 10" for d
  proof -
    have "list_all (\<lambda>d. digitChar d \<in> decimalChars) [0..<10]"
      unfolding decimalChars_def by code_simp
    then show ?thesis using that by (simp only: list_all_iff) auto
  qed
  then show ?thesis using fmtDigits_bounded [of 10 _ n] by (auto simp: FormatNat_def)
qed

lemma FormatInt_decimal: "set (FormatInt 10 i) \<subseteq> decimalChars"
  using FormatNat_decimal by (auto simp: FormatInt_def decimalChars_def)

lemma matchLen_hd:
  assumes "\<And>w. w \<in> set ws \<Longrightarrow> w \<noteq> [] \<Longrightarrow> hd w \<notin> set s"
  shows "matchLen ws s = 0"
proof -
  have "\<not> HasPrefix s w" if "w \<in> set ws" "w \<noteq> []" for w
    using assms [OF that] that by (cases w; cases s) (auto simp: HasPrefix_def)
  then show ?thesis by (auto simp: matchLen_def find_Some_iff split: option.splits)
qed

lemma TrimSpace_decimal:
  assumes "set s \<subseteq> decimalChars"
  shows "TrimSpace s = s"
proof -
  have "list_all (\<lambda>w. hd w \<notin> decimalChars) unicodeSpaces"
    "list_all (\<lambda>w. hd w \<notin> decimalChars) (map rev unicodeSpaces)"
    by (simp_all add: unicodeSpaces_def decimalChars_def)
  then have "matchLen unicodeSpaces s = 0" "matchLen (map rev unicodeSpaces) (rev s) = 0"
    using assms by (intro matchLen_hd; fastforce simp: list_all_iff)+
  then show ?thesis by (simp add: TrimSpace_def trimWith_id)
qed

lemma parseBigInt_FormatInt [simp]: "parseBigInt (FormatInt 10 i) = Some i"
proof -
  have "\<not> HasPrefix (FormatInt 10 i) ''0x''" "\<not> HasPrefix (FormatInt 10 i) ''0X''"
    using FormatInt_decimal [of i] HasPrefix_set [of "FormatInt 10 i"]
    by (fastforce simp: decimalChars_def)+
  moreover have "FormatInt 10 i \<noteq> []" by (simp add: FormatInt_def)
  ultimately show ?thesis
    by (simp add: parseBigInt_def TrimSpace_decimal [OF FormatInt_decimal] SetString_FormatInt)
qed

lemma NumericTolerance_Judge_sym:
  "NumericTolerance_Judge absMax ppm a b = NumericTolerance_Judge absMax ppm b a"
  by (auto simp: NumericTolerance_Judge_def Let_def abs_minus_commute split: option.splits)

definition swapContext :: "compare_context \<Rightarrow> compare_context" where
  "swapContext ctx = ctx\<lparr>ccReflectedA := ccReflectedB ctx, ccReflectedB := ccReflectedA ctx\<rparr>"

text \<open>
  Every tolerance is symmetric: exchanging the two values together with their
  reflected blocks gives the same verdict, through any nesting of anchor windows. So it does not
  matter which source of a pair comes first.
\<close>

theorem Tolerance_Judge_sym:
  "Tolerance_Judge tol a b m ctx = Tolerance_Judge tol b a m (swapContext ctx)"
proof (induction tol)
  case (AnchorWindowed inner tolBack tolFwd)
  then show ?case
    by (cases inner) (auto simp: swapContext_def ExactMatch_Judge_def Let_def)
qed (auto simp: ExactMatch_Judge_def intro: NumericTolerance_Judge_sym)

lemma windowLo_unat: "unat (windowLo anchor tolBack) = unat anchor - unat tolBack"
  by (auto simp: windowLo_def word_less_nat_alt unat_sub word_le_nat_alt)

lemma windowHi_unat:
  "unat (windowHi anchor tolFwd) = min (unat anchor + unat tolFwd) (2 ^ 64 - 1)"
proof (cases "unat anchor + unat tolFwd < 2 ^ 64")
  case True
  then show ?thesis
    using unat_plus_no_wrap [OF True] by (auto simp: windowHi_def Let_def word_less_nat_alt min_def)
next
  case False
  have "unat (anchor + tolFwd) = unat anchor + unat tolFwd - 2 ^ 64"
    using False uint64_less [of anchor] uint64_less [of tolFwd]
    by (simp add: unat_word_ariths mod_if)
  then have "anchor + tolFwd < anchor"
    using False uint64_less [of tolFwd] by (simp add: word_less_nat_alt)
  then show ?thesis
    using False by (simp add: windowHi_def unsigned_minus_1_eq_mask mask_eq_exp_minus_1)
qed

text \<open>
  The anchor window means what its integers say: a sample is discarded exactly when
  a reported reflected block lies below \<open>anchor - TolBack\<close> or above \<open>anchor + TolFwd\<close>, computed
  without wrap-around at either end of the 64-bit line; inside the window the verdict is that of
  the inner tolerance, and a missing reflected block never discards.
\<close>

theorem AnchorWindowed_window:
  "Tolerance_Judge (AnchorWindowed inner tolBack tolFwd) a b m ctx =
     (if \<exists>n \<in> set_option (ccReflectedA ctx) \<union> set_option (ccReflectedB ctx).
           uint n < uint (ccAnchorBlock ctx) - uint tolBack \<or>
           uint n > uint (ccAnchorBlock ctx) + uint tolFwd
      then (False, True)
      else case inner of None \<Rightarrow> Tolerance_Judge ExactMatch a b m ctx
                       | Some t \<Rightarrow> Tolerance_Judge t a b m ctx)"
proof -
  have "outsideWindow (windowLo anchor tolBack) (windowHi anchor tolFwd) rb \<longleftrightarrow>
      (\<exists>n \<in> set_option rb. uint n < uint anchor - uint tolBack \<or> uint n > uint anchor + uint tolFwd)"
    for anchor rb
  proof (cases rb)
    case (Some n)
    have "n < windowLo anchor tolBack \<longleftrightarrow> uint n < uint anchor - uint tolBack"
      unfolding word_less_nat_alt windowLo_unat uint_nat by linarith
    moreover have "n > windowHi anchor tolFwd \<longleftrightarrow> uint n > uint anchor + uint tolFwd"
      unfolding word_less_nat_alt windowHi_unat uint_nat using uint64_less [of n] by linarith
    ultimately show ?thesis using Some by (simp add: outsideWindow_def)
  qed (simp add: outsideWindow_def)
  then show ?thesis by (cases inner) (simp_all add: Let_def bex_Un)
qed

text \<open>A numeric tolerance with more slack: a larger absolute bound and a larger relative one.\<close>

definition looser :: "tolerance \<Rightarrow> tolerance \<Rightarrow> bool" where
  "looser t t' \<longleftrightarrow>
     (\<exists>m m' p p'. t = NumericTolerance (Some m) p \<and> t' = NumericTolerance (Some m') p' \<and>
        m \<le> m' \<and> p \<le> p')"

text \<open>
  Raising the absolute or the relative bound of a numeric tolerance never turns an
  accepted pair into a disagreement.
\<close>

theorem NumericTolerance_monotone:
  assumes "looser t t'" and "fst (Tolerance_Judge t a b m ctx)"
  shows "fst (Tolerance_Judge t' a b m ctx)"
proof -
  obtain n n' p p' where t: "t = NumericTolerance (Some n) p" "t' = NumericTolerance (Some n') p'"
    and le: "n \<le> n'" "p \<le> p'" using assms(1) unfolding looser_def by blast
  obtain av bv where v: "parseBigInt (vsRaw a) = Some av" "parseBigInt (vsRaw b) = Some bv"
    using assms(2) by (auto simp: t NumericTolerance_Judge_def split: option.splits)
  let ?M = "if \<bar>bv\<bar> > \<bar>av\<bar> then \<bar>bv\<bar> else \<bar>av\<bar>"
  have "?M * uint p \<le> ?M * uint p'"
    using le(2) by (intro mult_left_mono) (auto simp: word_le_def)
  moreover have "p > 0 \<Longrightarrow> p' > 0" using le(2) by auto
  ultimately show ?thesis
    using assms(2) le(1) by (auto simp: t v NumericTolerance_Judge_def Let_def split: if_splits)
qed

theorem NumericTolerance_monotone_witness:
  "fst (Tolerance_Judge (NumericTolerance (Some 9) 5)
     \<lparr>vsRaw = ''100'', vsTyped = None, vsFetchedAt = 0, vsReflectedBlock = None\<rparr>
     \<lparr>vsRaw = ''0x62'', vsTyped = None, vsFetchedAt = 0, vsReflectedBlock = None\<rparr>
     MetricBalanceLatest
     \<lparr>ccAnchor = NewBlockTagLatest, ccAnchorBlock = 7, ccReflectedA = None, ccReflectedB = None\<rparr>)"
proof (rule NumericTolerance_monotone [of "NumericTolerance (Some 3) 0"])
  show "looser (NumericTolerance (Some 3) 0) (NumericTolerance (Some 9) 5)"
    by (simp add: looser_def)
qed code_simp

text \<open>
  On rendered integers (the form balances and counters have) a numeric tolerance
  decides on the integers themselves: without bounds only equal values pass; otherwise a pair
  passes when the difference is within the absolute bound or, in parts per million of the larger
  magnitude, within the relative one. It never discards.
\<close>

theorem NumericTolerance_decimal:
  assumes "vsRaw a = FormatInt 10 x" and "vsRaw b = FormatInt 10 y"
  shows "Tolerance_Judge (NumericTolerance absMax ppm) a b m ctx =
    ((absMax = None \<and> ppm = 0 \<and> x = y) \<or>
     (\<exists>bnd. absMax = Some bnd \<and> \<bar>x - y\<bar> \<le> bnd) \<or>
     (ppm \<noteq> 0 \<and> \<bar>x - y\<bar> * 1000000 \<le> max \<bar>x\<bar> \<bar>y\<bar> * uint ppm), False)"
  using assms
  by (auto simp: NumericTolerance_Judge_def Let_def max_def word_gt_0 split: option.splits)

theorem NumericTolerance_decimal_witness:
  "Tolerance_Judge (NumericTolerance None 20000)
     \<lparr>vsRaw = FormatInt 10 100, vsTyped = None, vsFetchedAt = 0, vsReflectedBlock = None\<rparr>
     \<lparr>vsRaw = FormatInt 10 98, vsTyped = None, vsFetchedAt = 0, vsReflectedBlock = None\<rparr>
     MetricBalanceLatest
     \<lparr>ccAnchor = NewBlockTagLatest, ccAnchorBlock = 7, ccReflectedA = None, ccReflectedB = None\<rparr>
   = (True, False)"
  by (subst NumericTolerance_decimal [of _ 100 _ 98]) simp_all

end
