(* ===== verification/Judgement.thy ===== *)
theory Judgement
  imports Diff "HOL-Library.Product_Lexorder"
begin

text \<open>
  The default judgement policy of \<open>internal/diff/judgement.go\<close>: severity by metric category, the
  clustering of sources by the value they reported, and the choice of the trusted cluster. The
  code ranges over Go maps; the model takes their entries in one order, and the verdict is proved
  not to depend on it.
\<close>

section \<open>The policy (\<open>judgement.go\<close>)\<close>

type_synonym severity = string

definition SevInfo :: severity where "SevInfo = ''info''"
definition SevWarning :: severity where "SevWarning = ''warning''"
definition SevError :: severity where "SevError = ''error''"
definition SevCritical :: severity where "SevCritical = ''critical''"

lemmas sev_defs = SevInfo_def SevWarning_def SevError_def SevCritical_def

record judgement =
  jSeverity :: severity
  jTrustedSources :: "source_id list"
  jReasoning :: string

type_synonym judgement_policy = "discrepancy \<Rightarrow> judgement"

definition severityFor :: "metric_category \<Rightarrow> severity" where
  "severityFor c =
     (if c = CatBlockImmutable \<or> c = CatAddressAtBlock then SevCritical
      else if c = CatAddressLatest then SevWarning
      else if c = CatSnapshot then SevInfo
      else SevWarning)"

type_synonym groups = "(string, source_id list) gomap"

definition groupAppend :: "groups \<Rightarrow> source_id \<times> value_snapshot \<Rightarrow> groups" where
  "groupAppend g e =
     (case e of (sid, v) \<Rightarrow>
        AList.update (vsRaw v)
          ((case map_of g (vsRaw v) of None \<Rightarrow> [] | Some ids \<Rightarrow> ids) @ [sid]) g)"

definition groupByRaw :: "snapshots \<Rightarrow> groups" where
  "groupByRaw vals = map (\<lambda>(k, ids). (k, sort ids)) (foldl groupAppend [] vals)"

fun trustRankFrom :: "nat \<Rightarrow> source_id list \<Rightarrow> (source_id \<rightharpoonup> nat) \<Rightarrow> (source_id \<rightharpoonup> nat)" where
  "trustRankFrom i [] m = m"
| "trustRankFrom i (sid # sids) m = trustRankFrom (Suc i) sids (m(sid \<mapsto> i))"

definition trustRank :: "source_id list \<Rightarrow> (source_id \<rightharpoonup> nat)" where
  "trustRank trust = trustRankFrom 0 trust Map.empty"

text \<open>The inner loop body: \<open>best\<close> is the best rank so far with its cluster, if any.\<close>

definition pickStep ::
  "(source_id \<rightharpoonup> nat) \<Rightarrow> source_id list \<Rightarrow> (nat \<times> source_id list) option \<Rightarrow> source_id
   \<Rightarrow> (nat \<times> source_id list) option" where
  "pickStep rank g best sid =
     (case rank sid of
        None \<Rightarrow> best
      | Some r \<Rightarrow>
          (case best of
             None \<Rightarrow> Some (r, g)
           | Some (bestRank, bestCluster) \<Rightarrow>
               if r < bestRank then Some (r, g) else Some (bestRank, bestCluster)))"

definition pickRanked ::
  "(source_id \<rightharpoonup> nat) \<Rightarrow> groups \<Rightarrow> (nat \<times> source_id list) option" where
  "pickRanked rank groups =
     foldl (\<lambda>best e. foldl (pickStep rank (snd e)) best (snd e)) None groups"

definition entryKey :: "string \<times> source_id list \<Rightarrow> int \<times> string" where
  "entryKey e = (- int (length (snd e)), fst e)"

definition pickTrustedCluster :: "source_id list \<Rightarrow> groups \<Rightarrow> source_id list" where
  "pickTrustedCluster trust groups =
     (case pickRanked (trustRank trust) groups of
        Some (_, cluster) \<Rightarrow> cluster
      | None \<Rightarrow> snd (hd (sort_key entryKey groups)))"

definition sortedIDs :: "snapshots \<Rightarrow> source_id list" where
  "sortedIDs vals = sort (map fst vals)"

definition reasoning :: "groups \<Rightarrow> source_id list \<Rightarrow> string" where
  "reasoning groups trusted =
     (let parts = sort (map (\<lambda>(raw, ids). ''['' @ Join (sort ids) '','' @ '']='' @ raw) groups)
      in ''clusters '' @ Join parts '' '' @ ''; trusted=['' @ Join trusted '','' @ '']'')"

definition DefaultPolicy_Judge :: "source_id list \<Rightarrow> judgement_policy" where
  "DefaultPolicy_Judge trust d =
     (let groups = groupByRaw (dValues d);
          severity = severityFor (mCategory (dMetric d))
      in if length groups \<le> 1 then
           \<lparr>jSeverity = SevInfo, jTrustedSources = sortedIDs (dValues d),
            jReasoning = ''all sources agree''\<rparr>
         else
           let trusted = sort (pickTrustedCluster trust groups) in
           \<lparr>jSeverity = severity, jTrustedSources = trusted,
            jReasoning = reasoning groups trusted\<rparr>)"

section \<open>Clusters\<close>

text \<open>The sources that reported \<open>raw\<close>, and the values that were reported.\<close>

definition cluster :: "snapshots \<Rightarrow> string \<Rightarrow> source_id list" where
  "cluster vals raw = map fst (filter (\<lambda>(sid, v). vsRaw v = raw) vals)"

definition raws :: "snapshots \<Rightarrow> string set" where
  "raws vals = (vsRaw \<circ> snd) ` set vals"

lemma cluster_eq_Nil [simp]: "cluster vals raw = [] \<longleftrightarrow> raw \<notin> raws vals"
  by (auto simp: cluster_def raws_def filter_empty_conv split_beta)

lemma set_cluster: "set (cluster vals raw) = {sid. \<exists>v. (sid, v) \<in> set vals \<and> vsRaw v = raw}"
  by (force simp: cluster_def)

lemma distinct_groupAppend: "distinct (map fst g) \<Longrightarrow> distinct (map fst (groupAppend g e))"
  by (auto simp: groupAppend_def split_beta intro: distinct_update)

lemma foldl_groupAppend:
  "distinct (map fst (foldl groupAppend [] vals)) \<and>
   map_of (foldl groupAppend [] vals) =
     (\<lambda>raw. if raw \<in> raws vals then Some (cluster vals raw) else None)"
proof (induction vals rule: rev_induct)
  case Nil
  then show ?case by (auto simp: raws_def)
next
  case (snoc e vals)
  let ?g = "foldl groupAppend [] vals"
  have "map_of (groupAppend ?g e) =
      (map_of ?g)(vsRaw (snd e) \<mapsto> cluster vals (vsRaw (snd e)) @ [fst e])"
    using snoc unfolding groupAppend_def [of ?g] split_beta update_conv'
    by (cases "vsRaw (snd e) \<in> raws vals") (simp_all flip: cluster_eq_Nil)
  moreover have "cluster vals raw = []" if "raw \<notin> raws vals" for raw using that by simp
  ultimately show ?case
    using snoc distinct_groupAppend [of ?g e]
    by (auto simp: fun_eq_iff raws_def cluster_def split_beta)
qed

lemma groupByRaw_distinct: "distinct (map fst (groupByRaw vals))"
  using foldl_groupAppend [of vals] by (simp add: groupByRaw_def comp_def split_beta)

lemma groupByRaw_iff:
  "(raw, ids) \<in> set (groupByRaw vals) \<longleftrightarrow> raw \<in> raws vals \<and> ids = sort (cluster vals raw)"
proof -
  let ?g = "foldl groupAppend [] vals"
  have "(raw, c) \<in> set ?g \<longleftrightarrow> raw \<in> raws vals \<and> c = cluster vals raw" for c
    using foldl_groupAppend [of vals] by (auto simp: map_of_eq_Some_iff [symmetric])
  then show ?thesis by (force simp: groupByRaw_def)
qed

lemma groupByRaw_keys: "fst ` set (groupByRaw vals) = raws vals"
proof -
  have "raw \<in> fst ` set (groupByRaw vals) \<longleftrightarrow> (\<exists>ids. (raw, ids) \<in> set (groupByRaw vals))" for raw
    by force
  then show ?thesis by (auto simp: groupByRaw_iff)
qed

lemma length_groupByRaw: "length (groupByRaw vals) = card (raws vals)"
  using distinct_card [OF groupByRaw_distinct [of vals]] by (simp add: groupByRaw_keys)

lemma groupByRaw_mset:
  assumes "mset vals = mset vals'"
  shows "mset (groupByRaw vals) = mset (groupByRaw vals')"
proof -
  have "mset (cluster vals raw) = mset (cluster vals' raw)" for raw
    using assms by (simp add: cluster_def mset_filter)
  then have "sort (cluster vals raw) = sort (cluster vals' raw)" for raw by (rule sort_mset_cong)
  moreover have "raws vals = raws vals'" using mset_eq_setD [OF assms] by (simp add: raws_def)
  ultimately have "set (groupByRaw vals) = set (groupByRaw vals')"
    by (auto simp: groupByRaw_iff)
  moreover have "distinct (groupByRaw v)" for v
    using groupByRaw_distinct [of v] by (simp add: distinct_map)
  ultimately show ?thesis by (simp add: set_eq_iff_mset_eq_distinct)
qed

section \<open>Trust ranks\<close>

lemma trustRankFrom_Some:
  "trustRankFrom i trust m sid = Some r \<Longrightarrow>
     (i \<le> r \<and> r < i + length trust \<and> trust ! (r - i) = sid) \<or> m sid = Some r"
proof (induction trust arbitrary: i m)
  case (Cons t trust)
  have "(Suc i \<le> r \<and> r < Suc i + length trust \<and> trust ! (r - Suc i) = sid) \<or>
      (m(t \<mapsto> i)) sid = Some r" by (rule Cons.IH [OF Cons.prems [unfolded trustRankFrom.simps(2)]])
  then show ?case by (auto split: if_splits simp: nth_Cons' Suc_diff_le)
qed simp

lemma trustRank_nth: "trustRank trust sid = Some r \<Longrightarrow> r < length trust \<and> trust ! r = sid"
  using trustRankFrom_Some [of 0 trust Map.empty sid r] by (simp add: trustRank_def)

lemma trustRank_inj: "trustRank trust s = Some r \<Longrightarrow> trustRank trust s' = Some r \<Longrightarrow> s = s'"
  by (auto dest!: trustRank_nth)

lemma trustRankFrom_dom: "dom (trustRankFrom i trust m) = dom m \<union> set trust"
  by (induction trust arbitrary: i m) auto

lemma trustRank_dom: "(\<exists>r. trustRank trust sid = Some r) \<longleftrightarrow> sid \<in> set trust"
  using trustRankFrom_dom [of 0 trust Map.empty] by (auto simp: trustRank_def dom_def)

section \<open>The ranked choice\<close>

text \<open>All (source, cluster) pairs the two nested loops visit, in order.\<close>

definition visits :: "groups \<Rightarrow> (source_id \<times> source_id list) list" where
  "visits groups = concat (map (\<lambda>e. map (\<lambda>sid. (sid, snd e)) (snd e)) groups)"

lemma pickRanked_visits:
  "pickRanked rank groups = foldl (\<lambda>best (sid, g). pickStep rank g best sid) None (visits groups)"
proof -
  have "foldl (\<lambda>best e. foldl (pickStep rank (snd e)) best (snd e)) b groups =
      foldl (\<lambda>best (sid, g). pickStep rank g best sid) b (visits groups)" for b
    by (induction groups arbitrary: b) (simp_all add: visits_def foldl_map)
  then show ?thesis by (simp add: pickRanked_def)
qed

lemma foldl_pickStep:
  "case foldl (\<lambda>best (sid, g). pickStep rank g best sid) None ps of
     None \<Rightarrow> \<forall>(sid, g) \<in> set ps. rank sid = None
   | Some (r, c) \<Rightarrow> (\<exists>sid. (sid, c) \<in> set ps \<and> rank sid = Some r) \<and>
       (\<forall>(sid, g) \<in> set ps. \<forall>r'. rank sid = Some r' \<longrightarrow> r \<le> r')"
proof (induction ps rule: rev_induct)
  case (snoc p ps)
  then show ?case
    by (cases p) (fastforce simp: pickStep_def split: option.splits if_splits)
qed simp

text \<open>What the ranked choice returns: nothing when no source is ranked, and otherwise a cluster
  that contains the best-ranked source that is present.\<close>

lemma pickRanked_None:
  "pickRanked rank groups = None \<longleftrightarrow> (\<forall>e \<in> set groups. \<forall>sid \<in> set (snd e). rank sid = None)"
  using foldl_pickStep [where rank = rank and ps = "visits groups"]
  by (fastforce simp: pickRanked_visits visits_def split: option.splits)

lemma pickRanked_Some:
  assumes "pickRanked rank groups = Some (r, c)"
  shows "\<exists>raw sid. (raw, c) \<in> set groups \<and> sid \<in> set c \<and> rank sid = Some r \<and>
    (\<forall>e \<in> set groups. \<forall>sid' \<in> set (snd e). \<forall>r'. rank sid' = Some r' \<longrightarrow> r \<le> r')"
  using foldl_pickStep [where rank = rank and ps = "visits groups"] assms
  by (fastforce simp: pickRanked_visits visits_def split: option.splits)

lemma groupByRaw_disjoint:
  assumes "distinct (map fst vals)" "(k, c) \<in> set (groupByRaw vals)" "(k', c') \<in> set (groupByRaw vals)"
    and "sid \<in> set c" "sid \<in> set c'"
  shows "c = c'"
proof -
  have c: "c = sort (cluster vals k)" "c' = sort (cluster vals k')"
    using assms(2,3) by (simp_all add: groupByRaw_iff)
  then obtain v v' where "(sid, v) \<in> set vals" "vsRaw v = k" "(sid, v') \<in> set vals" "vsRaw v' = k'"
    using assms(4,5) by (auto simp: set_cluster)
  then have "k = k'" using eq_key_imp_eq_value [OF assms(1), of sid v v'] by simp
  with c show ?thesis by simp
qed

lemma pickRanked_mset:
  assumes "mset g' = mset (groupByRaw vals)" "distinct (map fst vals)"
  shows "pickRanked (trustRank trust) g' = pickRanked (trustRank trust) (groupByRaw vals)"
proof -
  let ?g = "groupByRaw vals" and ?R = "trustRank trust"
  have sets: "set g' = set ?g" by (rule mset_eq_setD [OF assms(1)])
  show ?thesis
  proof (cases "pickRanked ?R ?g")
    case None
    then have "pickRanked ?R g' = None" using sets by (simp only: pickRanked_None)
    with None show ?thesis by simp
  next
    case (Some p)
    obtain r c where p: "p = (r, c)" by (cases p)
    obtain r' c' where p': "pickRanked ?R g' = Some (r', c')"
      using Some pickRanked_None [of ?R g'] pickRanked_None [of ?R ?g] sets
      by (cases "pickRanked ?R g'") auto
    obtain raw s where c: "(raw, c) \<in> set ?g" "s \<in> set c" "?R s = Some r"
      and least: "\<forall>e \<in> set ?g. \<forall>sid \<in> set (snd e). \<forall>q. ?R sid = Some q \<longrightarrow> r \<le> q"
      using pickRanked_Some [OF Some [unfolded p]] by blast
    obtain raw' s' where c': "(raw', c') \<in> set ?g" "s' \<in> set c'" "?R s' = Some r'"
      and least': "\<forall>e \<in> set ?g. \<forall>sid \<in> set (snd e). \<forall>q. ?R sid = Some q \<longrightarrow> r' \<le> q"
      using pickRanked_Some [OF p', unfolded sets] by blast
    have "r \<le> r'" "r' \<le> r"
      using bspec [OF least c'(1)] bspec [OF least' c(1)] c c' by simp_all
    then have "r = r'" by simp
    then have "s = s'" using trustRank_inj [OF c(3)] c'(3) by simp
    then have "c = c'" using groupByRaw_disjoint [OF assms(2) c(1) c'(1)] c(2) c'(2) by simp
    then show ?thesis using Some p p' \<open>r = r'\<close> by simp
  qed
qed

lemma entryKey_inj: "distinct (map fst g) \<Longrightarrow> inj_on entryKey (set g)"
  by (auto simp: inj_on_def entryKey_def distinct_map)

lemma pickTrustedCluster_mset:
  assumes "mset g' = mset (groupByRaw vals)" "distinct (map fst vals)"
  shows "pickTrustedCluster trust g' = pickTrustedCluster trust (groupByRaw vals)"
proof -
  have "sort_key entryKey g' = sort_key entryKey (groupByRaw vals)"
    using sort_key_mset_cong [OF assms(1) [symmetric] entryKey_inj [OF groupByRaw_distinct]] by simp
  then show ?thesis by (simp only: pickTrustedCluster_def pickRanked_mset [OF assms])
qed

lemma reasoning_mset: "mset g = mset g' \<Longrightarrow> reasoning g t = reasoning g' t"
proof -
  assume "mset g = mset g'"
  then have "mset (map f g) = mset (map f g')" for f :: "string \<times> source_id list \<Rightarrow> string" by simp
  from sort_mset_cong [OF this] show ?thesis by (simp add: reasoning_def)
qed

lemma agree_iff: "(\<exists>raw. \<forall>e \<in> set vals. vsRaw (snd e) = raw) \<longleftrightarrow> card (raws vals) \<le> 1"
proof -
  have "card (raws vals) \<le> 1 \<longleftrightarrow> (\<forall>a \<in> set vals. \<forall>b \<in> set vals. vsRaw (snd a) = vsRaw (snd b))"
    using card_le_Suc0_iff_eq [of "raws vals"] by (simp add: raws_def)
  then show ?thesis by metis
qed

text \<open>The trusted cluster is one of the clusters.\<close>

lemma pickTrustedCluster_in:
  assumes "vals \<noteq> []"
  shows "\<exists>raw \<in> raws vals. pickTrustedCluster trust (groupByRaw vals) = sort (cluster vals raw)"
proof (cases "pickRanked (trustRank trust) (groupByRaw vals)")
  case None
  define e where "e = hd (sort_key entryKey (groupByRaw vals))"
  have "groupByRaw vals \<noteq> []"
    using assms groupByRaw_keys [of vals] by (auto simp: raws_def)
  then have "e \<in> set (groupByRaw vals)"
    unfolding e_def by (metis hd_in_set length_sort list.size(3) length_0_conv set_sort)
  then show ?thesis
    using None groupByRaw_iff [of "fst e" "snd e" vals] by (auto simp: pickTrustedCluster_def e_def)
next
  case (Some p)
  then show ?thesis
    using pickRanked_Some [of "trustRank trust" "groupByRaw vals" "fst p" "snd p"]
    by (auto simp: pickTrustedCluster_def groupByRaw_iff split: prod.splits)
qed

section \<open>Properties\<close>

text \<open>
  Property C37. A judgement does not depend on the iteration order of Go's maps: presenting the
  same source values in any other order gives the same severity, the same trusted sources and
  the same reasoning text, and within one judgement the clusters may be visited in any order.
\<close>

theorem Judge_order_independent:
  assumes "distinct (map fst (dValues d))" and "mset vals' = mset (dValues d)"
  shows "DefaultPolicy_Judge trust (d\<lparr>dValues := vals'\<rparr>) = DefaultPolicy_Judge trust d \<and>
    (\<forall>g. mset g = mset (groupByRaw (dValues d)) \<longrightarrow>
       pickTrustedCluster trust g = pickTrustedCluster trust (groupByRaw (dValues d)) \<and>
       (\<forall>t. reasoning g t = reasoning (groupByRaw (dValues d)) t))"
proof -
  have g: "mset (groupByRaw vals') = mset (groupByRaw (dValues d))"
    by (rule groupByRaw_mset [OF assms(2)])
  have dV: "dValues (d\<lparr>dValues := vals'\<rparr>) = vals'" and dM: "dMetric (d\<lparr>dValues := vals'\<rparr>) = dMetric d"
    by simp_all
  have "sortedIDs vals' = sortedIDs (dValues d)"
    using assms(2) by (simp add: sortedIDs_def sort_mset_cong)
  then have "DefaultPolicy_Judge trust (d\<lparr>dValues := vals'\<rparr>) = DefaultPolicy_Judge trust d"
    unfolding DefaultPolicy_Judge_def Let_def
    by (simp only: dV dM mset_eq_length [OF g] pickTrustedCluster_mset [OF g assms(1)]
        reasoning_mset [OF g])
  then show ?thesis using pickTrustedCluster_mset [OF _ assms(1)] reasoning_mset by blast
qed

definition sampleSnap :: "string \<Rightarrow> value_snapshot" where
  "sampleSnap raw = \<lparr>vsRaw = raw, vsTyped = None, vsFetchedAt = 0, vsReflectedBlock = None\<rparr>"

definition sampleDiscrepancy :: discrepancy where
  "sampleDiscrepancy =
     \<lparr>dRunID = ''r1'', dMetric = MetricBlockHash, dBlock = 9,
      dSubject = \<lparr>dsType = SubjectBlock, dsAddress = None\<rparr>,
      dValues = [(''rpc'', sampleSnap ''0xa''), (''blockscout'', sampleSnap ''0xb''), (''etherscan'', sampleSnap ''0xb'')],
      dDetectedAt = 5\<rparr>"

theorem Judge_order_independent_witness:
  "DefaultPolicy_Judge [''rpc''] (sampleDiscrepancy\<lparr>dValues := rev (dValues sampleDiscrepancy)\<rparr>) =
     DefaultPolicy_Judge [''rpc''] sampleDiscrepancy"
proof -
  have "distinct (map fst (dValues sampleDiscrepancy))" by (simp add: sampleDiscrepancy_def)
  from Judge_order_independent [OF this] show ?thesis by simp
qed

text \<open>
  Property C38. Severity and agreement: when all values coincide the verdict is informational and
  trusts every source; as soon as two different values are present the severity is the one of the
  metric's category (critical for immutable block data and historical account state), and the
  trusted sources are in ascending order, not empty, and all reported one and the same value,
  which no source outside the list reported.
\<close>

theorem Judge_verdict:
  assumes "dValues d \<noteq> []"
  shows "if \<exists>raw. \<forall>e \<in> set (dValues d). vsRaw (snd e) = raw
    then jSeverity (DefaultPolicy_Judge trust d) = SevInfo \<and>
      jTrustedSources (DefaultPolicy_Judge trust d) = sort (map fst (dValues d))
    else jSeverity (DefaultPolicy_Judge trust d) = severityFor (mCategory (dMetric d)) \<and>
      (\<exists>raw \<in> raws (dValues d).
         jTrustedSources (DefaultPolicy_Judge trust d) = sort (cluster (dValues d) raw) \<and>
         set (jTrustedSources (DefaultPolicy_Judge trust d)) =
           {sid. \<exists>v. (sid, v) \<in> set (dValues d) \<and> vsRaw v = raw})"
proof (cases "card (raws (dValues d)) \<le> 1")
  case True
  then show ?thesis
    using agree_iff [of "dValues d"]
    by (simp add: DefaultPolicy_Judge_def Let_def length_groupByRaw sortedIDs_def)
next
  case False
  obtain raw where raw: "raw \<in> raws (dValues d)"
      "pickTrustedCluster trust (groupByRaw (dValues d)) = sort (cluster (dValues d) raw)"
    using pickTrustedCluster_in [OF assms] by blast
  have "DefaultPolicy_Judge trust d =
      \<lparr>jSeverity = severityFor (mCategory (dMetric d)), jTrustedSources = sort (cluster (dValues d) raw),
       jReasoning = reasoning (groupByRaw (dValues d)) (sort (cluster (dValues d) raw))\<rparr>"
    using False raw(2)
    by (simp add: DefaultPolicy_Judge_def Let_def length_groupByRaw sorted_sort_id)
  then show ?thesis using False raw(1) agree_iff [of "dValues d"] by (auto simp: set_cluster)
qed

theorem Judge_verdict_witness:
  "jSeverity (DefaultPolicy_Judge [] sampleDiscrepancy) = SevCritical"
proof -
  have "jSeverity (DefaultPolicy_Judge [] sampleDiscrepancy) = severityFor CatBlockImmutable"
    using Judge_verdict [of sampleDiscrepancy "[]"]
    by (simp add: sampleDiscrepancy_def sampleSnap_def MetricBlockHash_def)
  then show ?thesis by (simp add: severityFor_def)
qed

lemma Judge_trusted:
  assumes "1 < card (raws (dValues d))"
  shows "jTrustedSources (DefaultPolicy_Judge trust d) =
    sort (pickTrustedCluster trust (groupByRaw (dValues d)))"
  using assms by (simp add: DefaultPolicy_Judge_def Let_def length_groupByRaw)

text \<open>
  When a source of the trust list takes part in a disagreement, the trusted cluster
  is the one of the best-ranked such source: it is trusted, together with exactly the sources
  that reported its value. (A source listed twice has the rank of its last occurrence.)
\<close>

theorem Judge_trusts_best_ranked:
  assumes "distinct (map fst (dValues d))" and "1 < card (raws (dValues d))"
    and "(best, v) \<in> set (dValues d)" and "trustRank trust best = Some r"
    and "\<forall>(sid, _) \<in> set (dValues d). \<forall>q. trustRank trust sid = Some q \<longrightarrow> r \<le> q"
  shows "best \<in> set (jTrustedSources (DefaultPolicy_Judge trust d)) \<and>
    set (jTrustedSources (DefaultPolicy_Judge trust d)) =
      {sid. \<exists>w. (sid, w) \<in> set (dValues d) \<and> vsRaw w = vsRaw v}"
proof -
  let ?g = "groupByRaw (dValues d)" and ?R = "trustRank trust"
  have mine: "(vsRaw v, sort (cluster (dValues d) (vsRaw v))) \<in> set ?g"
    using assms(3) by (force simp: groupByRaw_iff raws_def)
  have in_mine: "best \<in> set (sort (cluster (dValues d) (vsRaw v)))"
    using assms(3) by (auto simp: set_cluster)
  obtain q c where pick: "pickRanked ?R ?g = Some (q, c)"
    using pickRanked_None [of ?R ?g] mine in_mine assms(4) by fastforce
  obtain raw s where c: "(raw, c) \<in> set ?g" "s \<in> set c" "?R s = Some q"
    and least: "\<forall>e \<in> set ?g. \<forall>sid \<in> set (snd e). \<forall>q'. ?R sid = Some q' \<longrightarrow> q \<le> q'"
    using pickRanked_Some [OF pick] by blast
  have "q \<le> r" using bspec [OF least mine] in_mine assms(4) by simp
  moreover have "\<exists>w. (s, w) \<in> set (dValues d)" using c by (auto simp: groupByRaw_iff set_cluster)
  then have "r \<le> q" using assms(5) c(3) by blast
  ultimately have "s = best" using trustRank_inj [OF c(3)] assms(4) by simp
  then have "c = sort (cluster (dValues d) (vsRaw v))"
    using groupByRaw_disjoint [OF assms(1) c(1) mine] c(2) in_mine by simp
  then have "jTrustedSources (DefaultPolicy_Judge trust d) = sort (sort (cluster (dValues d) (vsRaw v)))"
    using pick by (simp add: Judge_trusted [OF assms(2)] pickTrustedCluster_def)
  then show ?thesis using in_mine by (simp add: set_cluster)
qed

lemma card_raws_sample: "card (raws (dValues sampleDiscrepancy)) = 2"
  by (simp add: raws_def sampleDiscrepancy_def sampleSnap_def)

theorem Judge_trusts_best_ranked_witness:
  "set (jTrustedSources (DefaultPolicy_Judge [''routescan'', ''rpc''] sampleDiscrepancy)) =
     {sid. \<exists>w. (sid, w) \<in> set (dValues sampleDiscrepancy) \<and> vsRaw w = ''0xa''}"
proof -
  have "1 < card (raws (dValues sampleDiscrepancy))" by (simp add: card_raws_sample)
  moreover have "trustRank [''routescan'', ''rpc''] ''rpc'' = Some 1" by (simp add: trustRank_def)
  moreover have "\<forall>(sid, _) \<in> set (dValues sampleDiscrepancy).
      \<forall>q. trustRank [''routescan'', ''rpc''] sid = Some q \<longrightarrow> 1 \<le> q"
    by (simp add: trustRank_def sampleDiscrepancy_def)
  ultimately show ?thesis
    using Judge_trusts_best_ranked [of sampleDiscrepancy "''rpc''" "sampleSnap ''0xa''"]
    by (simp add: sampleDiscrepancy_def) (simp add: sampleSnap_def)
qed

text \<open>
  When no source of the trust list takes part in a disagreement, the trusted
  cluster is a largest one, and among equally large clusters the one whose value comes first in
  byte order.
\<close>

theorem Judge_trusts_largest:
  assumes "1 < card (raws (dValues d))" and "set trust \<inter> fst ` set (dValues d) = {}"
  shows "\<exists>raw \<in> raws (dValues d).
    jTrustedSources (DefaultPolicy_Judge trust d) = sort (cluster (dValues d) raw) \<and>
    (\<forall>raw' \<in> raws (dValues d).
       length (cluster (dValues d) raw') < length (cluster (dValues d) raw) \<or>
       length (cluster (dValues d) raw') = length (cluster (dValues d) raw) \<and> raw \<le> raw')"
proof -
  let ?g = "groupByRaw (dValues d)"
  define es where "es = sort_key entryKey ?g"
  have none: "pickRanked (trustRank trust) ?g = None"
  proof -
    have "trustRank trust sid = None" if "sid \<in> set (snd e)" "e \<in> set ?g" for sid e
    proof -
      have "sid \<in> set (cluster (dValues d) (fst e))"
        using that groupByRaw_iff [of "fst e" "snd e" "dValues d"] by simp
      then have "sid \<in> fst ` set (dValues d)" by (force simp: set_cluster)
      then have "sid \<notin> set trust" using assms(2) by blast
      then show ?thesis using trustRank_dom [of trust sid] by auto
    qed
    then show ?thesis unfolding pickRanked_None by blast
  qed
  have sets: "set es = set ?g" by (simp add: es_def)
  have "es \<noteq> []" using assms(1) length_groupByRaw [of "dValues d"] sets by force
  then obtain e es' where es: "es = e # es'" by (cases es) auto
  have "sorted (map entryKey es)" by (simp add: es_def)
  then have le: "\<forall>f \<in> set ?g. entryKey e \<le> entryKey f"
    using es sets by auto
  have e: "fst e \<in> raws (dValues d)" "snd e = sort (cluster (dValues d) (fst e))"
    using sets es groupByRaw_iff [of "fst e" "snd e" "dValues d"] by auto
  have "jTrustedSources (DefaultPolicy_Judge trust d) = sort (cluster (dValues d) (fst e))"
    using none es e(2)
    by (simp add: Judge_trusted [OF assms(1)] pickTrustedCluster_def sorted_sort_id flip: es_def)
  moreover have "length (cluster (dValues d) raw') < length (cluster (dValues d) (fst e)) \<or>
      length (cluster (dValues d) raw') = length (cluster (dValues d) (fst e)) \<and> fst e \<le> raw'"
    if "raw' \<in> raws (dValues d)" for raw'
  proof -
    have "entryKey e \<le> entryKey (raw', sort (cluster (dValues d) raw'))"
      using le that by (simp add: groupByRaw_iff)
    then show ?thesis using e(2) by (auto simp: entryKey_def less_eq_prod_def)
  qed
  ultimately show ?thesis using e(1) by blast
qed

theorem Judge_trusts_largest_witness:
  "\<exists>raw \<in> raws (dValues sampleDiscrepancy).
     jTrustedSources (DefaultPolicy_Judge [] sampleDiscrepancy) =
       sort (cluster (dValues sampleDiscrepancy) raw)"
proof -
  have "1 < card (raws (dValues sampleDiscrepancy))" by (simp add: card_raws_sample)
  from Judge_trusts_largest [OF this, of "[]"] show ?thesis by fastforce
qed

end
