(* ===== verification/Extract.thy ===== *)
theory Extract
  imports Judgement
begin

text \<open>
  The canonical string forms of \<open>internal/application/extract.go\<close>: how each field of a fetched
  result is rendered before two sources are compared, and that the rendering loses nothing of
  what it compares.
\<close>

section \<open>Extractors (\<open>extract.go\<close>)\<close>

text \<open>\<open>Time.Unix\<close> for a time counted in nanoseconds from Go's zero time (year 1).\<close>

definition Unix :: "gotime \<Rightarrow> int" where
  "Unix t = t div 1000000000 - 62135596800"

definition extractBlockField ::
  "(string \<Rightarrow> byte list) \<Rightarrow> capability \<Rightarrow> block_result \<Rightarrow> string option" where
  "extractBlockField keccak c r =
     (if c = CapBlockHash then map_option Hash32_Hex (brHash r)
      else if c = CapBlockParentHash then map_option Hash32_Hex (brParentHash r)
      else if c = CapBlockStateRoot then map_option Hash32_Hex (brStateRoot r)
      else if c = CapBlockReceiptsRoot then map_option Hash32_Hex (brReceiptsRoot r)
      else if c = CapBlockTransactionsRoot then map_option Hash32_Hex (brTransactionsRoot r)
      else if c = CapBlockTimestamp then map_option (\<lambda>t. FormatInt 10 (Unix t)) (brTimestamp r)
      else if c = CapBlockTxCount then map_option (\<lambda>n. FormatNat 10 (unat n)) (brTxCount r)
      else if c = CapBlockGasUsed then map_option (\<lambda>n. FormatNat 10 (unat n)) (brGasUsed r)
      else if c = CapBlockMiner then map_option (Address_Hex keccak) (brMiner r)
      else None)"

definition extractAddressLatestField :: "capability \<Rightarrow> address_latest_result \<Rightarrow> string option" where
  "extractAddressLatestField c r =
     (if c = CapBalanceAtLatest then map_option (FormatInt 10) (alBalance r)
      else if c = CapNonceAtLatest then map_option (\<lambda>n. FormatNat 10 (unat n)) (alNonce r)
      else if c = CapTxCountAtLatest then map_option (\<lambda>n. FormatNat 10 (unat n)) (alTxCount r)
      else None)"

definition extractAddressAtBlockField ::
  "capability \<Rightarrow> address_at_block_result \<Rightarrow> string option" where
  "extractAddressAtBlockField c r =
     (if c = CapBalanceAtBlock then map_option (FormatInt 10) (aabBalance r)
      else if c = CapNonceAtBlock then map_option (\<lambda>n. FormatNat 10 (unat n)) (aabNonce r)
      else None)"

definition extractERC20BalanceField :: "capability \<Rightarrow> erc20_balance_result \<Rightarrow> string option" where
  "extractERC20BalanceField c r = map_option (FormatInt 10) (ebBalance r)"

definition holdingString :: "(string \<Rightarrow> byte list) \<Rightarrow> token_holding \<Rightarrow> string" where
  "holdingString keccak h =
     Address_Hex keccak (thContract h) @ ''='' @
     (case thBalance h of None \<Rightarrow> [] | Some b \<Rightarrow> FormatInt 10 b)"

text \<open>The builder writes \<open>;\<close> before every holding but the first, which is \<open>Join\<close>.\<close>

definition extractERC20HoldingsField ::
  "(string \<Rightarrow> byte list) \<Rightarrow> capability \<Rightarrow> erc20_holdings_result \<Rightarrow> string option" where
  "extractERC20HoldingsField keccak c r =
     (let holdings = sort_key thContract (ehTokens r)
      in Some (Join (map (holdingString keccak) holdings) '';''))"

section \<open>Canonical forms are faithful\<close>

lemma Address_Hex_decode [simp]: "hexDecode (drop 2 (Address_Hex keccak a)) = Some a"
  by (simp add: Address_Hex_def)

lemma Address_Hex_inj: "Address_Hex keccak a = Address_Hex keccak b \<longleftrightarrow> a = b"
  by (metis Address_Hex_decode option.inject)

lemma Address_Hex_length: "wfAddress a \<Longrightarrow> length (Address_Hex keccak a) = 42"
  by (simp add: Address_Hex_def eip55Hex_def wfAddress_def Let_def)

lemma Hash32_Hex_inj: "Hash32_Hex a = Hash32_Hex b \<longleftrightarrow> a = b"
  by (metis Hash32_Hex_def append_same_eq hexDecode_EncodeToString option.inject same_append_eq)

lemma FormatNat_uint64_inj: "FormatNat 10 (unat (m :: uint64)) = FormatNat 10 (unat n) \<longleftrightarrow> m = n"
  by (simp add: FormatNat_inj word_unat_eq_iff)

lemma map_option_inj: "(\<And>x y. f x = f y \<longleftrightarrow> x = y) \<Longrightarrow> map_option f a = map_option f b \<longleftrightarrow> a = b"
  by (cases a; cases b) auto

lemmas canonical_inj = map_option_inj [of Hash32_Hex, OF Hash32_Hex_inj]
  map_option_inj [of "FormatInt 10", OF FormatInt_inj]
  map_option_inj [of "\<lambda>n :: uint64. FormatNat 10 (unat n)", OF FormatNat_uint64_inj]

text \<open>
  Comparing canonical strings is comparing values: for each block capability that
  the engine extracts, two results have the same canonical form (or both none) exactly when they
  have the same field, timestamps being compared at whole seconds; and a capability that is not a
  block field yields no value at all.
\<close>

theorem extractBlockField_faithful:
  "(extractBlockField keccak CapBlockHash r = extractBlockField keccak CapBlockHash s \<longleftrightarrow>
      brHash r = brHash s) \<and>
   (extractBlockField keccak CapBlockParentHash r = extractBlockField keccak CapBlockParentHash s \<longleftrightarrow>
      brParentHash r = brParentHash s) \<and>
   (extractBlockField keccak CapBlockStateRoot r = extractBlockField keccak CapBlockStateRoot s \<longleftrightarrow>
      brStateRoot r = brStateRoot s) \<and>
   (extractBlockField keccak CapBlockReceiptsRoot r = extractBlockField keccak CapBlockReceiptsRoot s \<longleftrightarrow>
      brReceiptsRoot r = brReceiptsRoot s) \<and>
   (extractBlockField keccak CapBlockTransactionsRoot r =
      extractBlockField keccak CapBlockTransactionsRoot s \<longleftrightarrow>
      brTransactionsRoot r = brTransactionsRoot s) \<and>
   (extractBlockField keccak CapBlockTimestamp r = extractBlockField keccak CapBlockTimestamp s \<longleftrightarrow>
      map_option Unix (brTimestamp r) = map_option Unix (brTimestamp s)) \<and>
   (extractBlockField keccak CapBlockTxCount r = extractBlockField keccak CapBlockTxCount s \<longleftrightarrow>
      brTxCount r = brTxCount s) \<and>
   (extractBlockField keccak CapBlockGasUsed r = extractBlockField keccak CapBlockGasUsed s \<longleftrightarrow>
      brGasUsed r = brGasUsed s) \<and>
   (extractBlockField keccak CapBlockMiner r = extractBlockField keccak CapBlockMiner s \<longleftrightarrow>
      brMiner r = brMiner s) \<and>
   extractBlockField keccak CapInternalTxByBlock r = None"
proof -
  have ts: "map_option (\<lambda>t. FormatInt 10 (Unix t)) a = map_option (\<lambda>t. FormatInt 10 (Unix t)) b \<longleftrightarrow>
      map_option Unix a = map_option Unix b" for a b
    by (cases a; cases b) (simp_all add: FormatInt_inj)
  have miner: "map_option (Address_Hex keccak) a = map_option (Address_Hex keccak) b \<longleftrightarrow> a = b" for a b
    by (rule map_option_inj) (rule Address_Hex_inj)
  show ?thesis
    by (simp add: extractBlockField_def cap_defs canonical_inj ts miner)
qed

text \<open>Strings joined by a character that occurs in none of them can be split again.\<close>

lemma Join_Cons: "Join (x # xs) sep = x @ (if xs = [] then [] else sep @ Join xs sep)"
  by (cases xs) simp_all

lemma Join_inj:
  assumes "\<forall>x \<in> set xs. x \<noteq> [] \<and> c \<notin> set x" "\<forall>y \<in> set ys. y \<noteq> [] \<and> c \<notin> set y"
    and "Join xs [c] = Join ys [c]"
  shows "xs = ys"
  using assms
proof (induction xs arbitrary: ys)
  case Nil
  then show ?case by (cases ys) (auto simp: Join_Cons)
next
  case (Cons x xs)
  then obtain y ys' where ys: "ys = y # ys'" by (cases ys) (auto simp: Join_Cons)
  have tw: "takeWhile (\<lambda>d. d \<noteq> c) (z @ (if zs = [] then [] else [c] @ w)) = z"
    if "c \<notin> set z" for z w :: string and zs :: "string list"
    using that by (induction z) auto
  have "x = y"
    using arg_cong [OF Cons.prems(3), of "takeWhile (\<lambda>d. d \<noteq> c)"] Cons.prems(1,2) ys tw
    by (simp add: Join_Cons)
  moreover from this have "Join xs [c] = Join ys' [c]"
    using Cons.prems ys by (cases xs; cases ys') (auto simp: Join_Cons)
  ultimately show ?case using Cons.IH [of ys'] Cons.prems ys by simp
qed

lemma digitChar_no_semicolon: "n < 36 \<Longrightarrow> digitChar n \<noteq> CHR '';''"
proof -
  have "digitVal (CHR '';'') = None" by (simp add: digitVal_def)
  then show "n < 36 \<Longrightarrow> digitChar n \<noteq> CHR '';''" by (metis digitVal_digitChar option.distinct(1))
qed

lemma EncodeToString_no_semicolon: "CHR '';'' \<notin> set (EncodeToString bs)"
proof (induction bs)
  case (Cons b bs)
  have "unat b mod 16 < 36" "unat b div 16 < 36" using unat_byte_div [of b] by linarith+
  then show ?case using Cons digitChar_no_semicolon by fastforce
qed simp

lemma Address_Hex_no_semicolon: "CHR '';'' \<notin> set (Address_Hex keccak a)"
proof -
  have "lowerChar (CHR '';'') = CHR '';''" by (simp add: lowerChar_def)
  then have "CHR '';'' \<in> set s \<Longrightarrow> CHR '';'' \<in> set (ToLower s)" for s
    unfolding ToLower_def by (metis image_eqI list.set_map)
  then show ?thesis
    using EncodeToString_no_semicolon [of a]
    by (auto simp: Address_Hex_def eip55Hex_def Let_def) (metis ToLower_EncodeToString eip55Loop_ToLower)
qed

lemma holdingString_part: "holdingString keccak h \<noteq> [] \<and> CHR '';'' \<notin> set (holdingString keccak h)"
proof -
  have "CHR '';'' \<notin> set (FormatInt 10 b)" for b
    using FormatInt_decimal [of b] by (auto simp: decimalChars_def)
  then show ?thesis
    using Address_Hex_no_semicolon by (auto simp: holdingString_def split: option.splits)
qed

definition holdingPair :: "token_holding \<Rightarrow> address \<times> int option" where
  "holdingPair h = (thContract h, thBalance h)"

lemma holdingString_inj:
  assumes "wfAddress (thContract h)" "wfAddress (thContract k)"
  shows "holdingString keccak h = holdingString keccak k \<longleftrightarrow> holdingPair h = holdingPair k"
proof
  let ?b = "\<lambda>h. case thBalance h of None \<Rightarrow> [] | Some b \<Rightarrow> FormatInt 10 b"
  assume "holdingString keccak h = holdingString keccak k"
  then have "Address_Hex keccak (thContract h) = Address_Hex keccak (thContract k)" "?b h = ?b k"
    using assms by (auto simp: holdingString_def Address_Hex_length)
  moreover have "FormatInt 10 b \<noteq> []" for b by (simp add: FormatInt_def)
  moreover from this have "[] \<noteq> FormatInt 10 b" for b by metis
  ultimately show "holdingPair h = holdingPair k"
    by (auto simp: holdingPair_def Address_Hex_inj FormatInt_inj split: option.splits)
qed (simp add: holdingString_def holdingPair_def)

lemma sort_key_holdingPair:
  "map holdingPair (sort_key thContract hs) = sort_key fst (map holdingPair hs)"
proof -
  have "map holdingPair (insort_key thContract h xs) = insort_key fst (holdingPair h) (map holdingPair xs)"
    for h xs by (induction xs) (simp_all add: holdingPair_def)
  then show ?thesis by (induction hs) simp_all
qed

lemma map_eq_map_iff:
  assumes "\<And>x y. x \<in> set xs \<Longrightarrow> y \<in> set ys \<Longrightarrow> f x = f y \<longleftrightarrow> g x = g y"
  shows "map f xs = map f ys \<longleftrightarrow> map g xs = map g ys"
  using assms by (auto simp: list_eq_iff_nth_eq)

text \<open>
  The canonical form of a holdings list is order-independent and exact: for lists
  without repeated contracts, two sources are rendered to the same string exactly when they
  report the same set of (contract, balance) pairs; token names, symbols and decimals, and the
  order of the list, play no part.
\<close>

theorem extractERC20Holdings_canonical:
  assumes "distinct (map thContract (ehTokens r))" "distinct (map thContract (ehTokens s))"
    and wf: "\<forall>h \<in> set (ehTokens r) \<union> set (ehTokens s). wfAddress (thContract h)"
  shows "extractERC20HoldingsField keccak c r = extractERC20HoldingsField keccak c s \<longleftrightarrow>
    holdingPair ` set (ehTokens r) = holdingPair ` set (ehTokens s)"
proof -
  let ?R = "sort_key thContract (ehTokens r)" and ?S = "sort_key thContract (ehTokens s)"
  have "extractERC20HoldingsField keccak c r = extractERC20HoldingsField keccak c s \<longleftrightarrow>
      map (holdingString keccak) ?R = map (holdingString keccak) ?S"
    using holdingString_part Join_inj [of _ "CHR '';''"]
    by (auto simp: extractERC20HoldingsField_def)
  also have "\<dots> \<longleftrightarrow> map holdingPair ?R = map holdingPair ?S"
    using wf by (intro map_eq_map_iff holdingString_inj) auto
  also have "\<dots> \<longleftrightarrow> holdingPair ` set (ehTokens r) = holdingPair ` set (ehTokens s)"
  proof
    assume "map holdingPair ?R = map holdingPair ?S"
    from arg_cong [OF this, of set] show "holdingPair ` set (ehTokens r) = holdingPair ` set (ehTokens s)"
      by simp
  next
    have d: "distinct (map holdingPair (ehTokens q))" "inj_on fst (set (map holdingPair (ehTokens q)))"
      if "distinct (map thContract (ehTokens q))" for q
      using that by (auto simp: distinct_map inj_on_def holdingPair_def)
    assume "holdingPair ` set (ehTokens r) = holdingPair ` set (ehTokens s)"
    then have "mset (map holdingPair (ehTokens r)) = mset (map holdingPair (ehTokens s))"
      using d(1) [OF assms(1)] d(1) [OF assms(2)] by (simp only: set_eq_iff_mset_eq_distinct [symmetric] set_map)
    from sort_key_mset_cong [OF this d(2) [OF assms(1)]]
    show "map holdingPair ?R = map holdingPair ?S" by (simp add: sort_key_holdingPair)
  qed
  finally show ?thesis .
qed

definition sampleHolding :: "byte \<Rightarrow> string \<Rightarrow> int \<Rightarrow> token_holding" where
  "sampleHolding b name bal =
     \<lparr>thContract = replicate 20 b, thName = name, thSymbol = [], thDecimals = 18, thBalance = Some bal\<rparr>"

definition sampleHoldings :: "token_holding list \<Rightarrow> erc20_holdings_result" where
  "sampleHoldings ts =
     \<lparr>ehTokens = ts, ehSourceID = ''rpc'', ehFetchedAt = 0, ehReflectedBlock = None, ehRawResponse = []\<rparr>"

theorem extractERC20Holdings_canonical_witness:
  "extractERC20HoldingsField (\<lambda>_. replicate 32 0) CapERC20HoldingsAtLatest
     (sampleHoldings [sampleHolding 2 ''USDC'' 7, sampleHolding 1 [] 5]) =
   extractERC20HoldingsField (\<lambda>_. replicate 32 0) CapERC20HoldingsAtLatest
     (sampleHoldings [sampleHolding 1 ''DAI'' 5, sampleHolding 2 [] 7])"
  by (subst extractERC20Holdings_canonical)
    (auto simp: sampleHoldings_def sampleHolding_def wfAddress_def holdingPair_def)

end
