(* ===== verification/Ports.thy ===== *)
theory Ports
  imports Extract "HOL-Library.State_Monad" "HOL-Library.Monad_Syntax"
begin

text \<open>
  The boundary of the application layer: the error values of \<open>internal/application/errors.go\<close> and
  the ports of \<open>internal/application/ports.go\<close>. A port is a record of its methods. A method that
  reaches outside the process is a computation over a world of arbitrary type, so that the use
  cases are defined for every implementation of their ports; what they rely on is stated as a
  locale where a property needs it.
\<close>

section \<open>Errors (\<open>errors.go\<close>)\<close>

text \<open>
  The errors of the storage layer and of the database below it (a missing row, a violated unique
  constraint, anything else), the sentinels, the errors of the other layers and the ways \<open>fmt.Errorf\<close> builds and wraps them here:
  \<open>"<prefix>%w"\<close>, \<open>"%w<suffix>"\<close>, \<open>"%w: %w"\<close>, \<open>"<prefix>%q<suffix>"\<close> and \<open>"<prefix>%q<middle>%w"\<close>.
\<close>

datatype persist_error =
    PDecode string
  | PRange string
  | PUnknownType string
  | PUnknownKind string string
  | PUnknownMetric string
  | PRun run_error
  | PSchedule schedule_error

datatype db_error = ErrRecordNotFound | UniqueViolation string | DBError string

datatype app_error =
    ErrRunNotFound
  | ErrDiffNotFound
  | ErrDuplicateRun
  | ErrBudgetExhausted
  | ErrInvalidRun
  | ErrSourceNotFound
  | ErrDuplicateSource
  | ErrSkipRetry
  | ErrNew string
  | ErrDomain run_error
  | ErrDiscrepancy discrepancy_error
  | ErrFetch source_error
  | ErrPersist persist_error
  | ErrDB db_error
  | ErrQuoted string string string
  | Wrap string app_error
  | WrapSuffix app_error string
  | WrapBoth app_error app_error
  | WrapQuoted string string string app_error

fun errorsIs :: "app_error \<Rightarrow> app_error \<Rightarrow> bool" where
  "errorsIs (Wrap p e) target \<longleftrightarrow> Wrap p e = target \<or> errorsIs e target"
| "errorsIs (WrapSuffix e s) target \<longleftrightarrow> WrapSuffix e s = target \<or> errorsIs e target"
| "errorsIs (WrapBoth e f) target \<longleftrightarrow> WrapBoth e f = target \<or> errorsIs e target \<or> errorsIs f target"
| "errorsIs (WrapQuoted p q m e) target \<longleftrightarrow> WrapQuoted p q m e = target \<or> errorsIs e target"
| "errorsIs e target \<longleftrightarrow> e = target"

text \<open>\<open>err.Error()\<close>. The texts of the other layers' errors, which the code never inspects, are left
  to the function \<open>leaf\<close>, as is the quoting of \<open>%q\<close> (at \<open>ErrNew\<close>).\<close>

fun ErrorText :: "(app_error \<Rightarrow> string) \<Rightarrow> app_error \<Rightarrow> string" where
  "ErrorText leaf ErrRunNotFound = ''application: run not found''"
| "ErrorText leaf ErrDiffNotFound = ''application: diff not found''"
| "ErrorText leaf ErrDuplicateRun = ''application: duplicate run id''"
| "ErrorText leaf ErrBudgetExhausted = ''application: rate limit budget exhausted''"
| "ErrorText leaf ErrInvalidRun = ''application: invalid run''"
| "ErrorText leaf ErrSourceNotFound = ''application: source not found''"
| "ErrorText leaf ErrDuplicateSource = ''application: duplicate source for chain''"
| "ErrorText leaf (ErrNew s) = s"
| "ErrorText leaf (Wrap p e) = p @ ErrorText leaf e"
| "ErrorText leaf (WrapSuffix e s) = ErrorText leaf e @ s"
| "ErrorText leaf (WrapBoth e f) = ErrorText leaf e @ '': '' @ ErrorText leaf f"
| "ErrorText leaf (ErrQuoted p q m) = p @ leaf (ErrNew q) @ m"
| "ErrorText leaf (WrapQuoted p q m e) = p @ leaf (ErrNew q) @ m @ ErrorText leaf e"
| "ErrorText leaf e = leaf e"

section \<open>Records at the boundary (\<open>ports.go\<close>)\<close>

record time_range =
  trFrom :: gotime
  trTo :: gotime

record run_filter =
  rfChainID :: "chain_id option"
  rfStatus :: "status option"
  rfCreatedAt :: "time_range option"
  rfLimit :: int
  rfOffset :: int

type_synonym diff_id = string
type_synonym job_id = string

record diff_filter =
  dfRunID :: "run_id option"
  dfMetricKey :: "string option"
  dfSeverity :: "severity option"
  dfResolved :: "bool option"
  dfBlockRange :: "block_range option"
  dfLimit :: int
  dfOffset :: int

record diff_record =
  drID :: diff_id
  drDiscrepancy :: discrepancy
  drJudgement :: judgement
  drResolved :: bool
  drResolvedAt :: "gotime option"
  drTier :: tier
  drAnchorBlock :: block_number
  drSamplingSeed :: "int option"

record save_diff_meta =
  sdTier :: tier
  sdAnchorBlock :: block_number
  sdSamplingSeed :: "int option"

record schedule_payload =
  spChainID :: chain_id
  spMetrics :: "metric list"
  spStrategy :: "sampling_strategy option"
  spAddressPlans :: "address_plan option list"
  spTokenPlans :: "token_plan option list"

record schedule_record =
  srJobID :: job_id
  srChainID :: chain_id
  srSchedule :: schedule
  srStrategy :: "sampling_strategy option"
  srMetrics :: "metric list"
  srAddressPlans :: "address_plan option list"
  srTokenPlans :: "token_plan option list"
  srCreatedAt :: gotime
  srActive :: bool

section \<open>Ports (\<open>ports.go\<close>)\<close>

record 'w run_repository =
  RunRepo_Save :: "run \<Rightarrow> ('w, app_error option) state"
  RunRepo_FindByID :: "run_id \<Rightarrow> ('w, app_error + run) state"
  RunRepo_List :: "run_filter \<Rightarrow> ('w, app_error + run list \<times> int) state"

record 'w diff_repository =
  DiffRepo_Save :: "discrepancy \<Rightarrow> judgement \<Rightarrow> save_diff_meta \<Rightarrow> ('w, app_error + diff_id) state"
  DiffRepo_FindByRun :: "run_id \<Rightarrow> ('w, app_error + diff_record list) state"
  DiffRepo_FindByID :: "diff_id \<Rightarrow> ('w, app_error + diff_record) state"
  DiffRepo_List :: "diff_filter \<Rightarrow> ('w, app_error + diff_record list \<times> int) state"
  DiffRepo_MarkResolved :: "diff_id \<Rightarrow> gotime \<Rightarrow> ('w, app_error option) state"

record 'w source_gateway =
  Gateway_ForChain :: "chain_id \<Rightarrow> ('w, app_error + 'w source list) state"
  Gateway_Get :: "source_id \<Rightarrow> ('w, app_error + 'w source) state"

record 'w job_dispatcher =
  EnqueueRunExecution :: "run_id \<Rightarrow> ('w, app_error option) state"
  ScheduleRecurring :: "schedule \<Rightarrow> schedule_payload \<Rightarrow> ('w, app_error + job_id) state"
  CancelScheduled :: "job_id \<Rightarrow> ('w, app_error option) state"

record 'w schedule_repository =
  ScheduleRepo_Save :: "schedule_record \<Rightarrow> ('w, app_error option) state"
  ScheduleRepo_Deactivate :: "job_id \<Rightarrow> ('w, app_error option) state"
  ScheduleRepo_ListActive :: "('w, app_error + schedule_record list) state"

record 'w chain_head =
  ChainHead_Tip :: "chain_id \<Rightarrow> ('w, app_error + block_number) state"
  ChainHead_Finalized :: "chain_id \<Rightarrow> ('w, app_error + block_number) state"

record 'w rate_limit_budget =
  Budget_Reserve :: "source_id \<Rightarrow> int \<Rightarrow> ('w, app_error option) state"
  Budget_Refund :: "source_id \<Rightarrow> int \<Rightarrow> ('w, app_error option) state"

type_synonym 'w clock = "('w, gotime) state"
type_synonym tolerance_resolver = "metric \<Rightarrow> tolerance"
type_synonym 'w address_sampler =
  "chain_id \<Rightarrow> address_plan \<Rightarrow> block_number \<Rightarrow> ('w, app_error + address list) state"
type_synonym 'w token_sampler =
  "chain_id \<Rightarrow> token_plan \<Rightarrow> block_number \<Rightarrow> ('w, app_error + address list) state"

text \<open>\<open>ctx.Err()\<close>: nil, or why the context has ended. It may change from call to call.\<close>

type_synonym 'w context_err = "('w, app_error option) state"

section \<open>Effects of computations\<close>

text \<open>
  \<open>state_io_rel R m\<close> says that every run of \<open>m\<close> changes the world only in a way \<open>R\<close> allows. For a
  reflexive and transitive \<open>R\<close> this is preserved by sequencing and by loops, so an effect
  bound of a whole use case follows from bounds of the port calls it makes.
\<close>

named_theorems effects

lemma io_return [effects]: "reflp R \<Longrightarrow> state_io_rel R (State_Monad.return x)"
  by (simp add: state_io_rel_def reflp_def)

text \<open>Sequencing; the bound of the rest may use the value that the first part returned.\<close>

lemma io_bind_result:
  assumes "transp R" "state_io_rel R m"
    and "\<And>x s t. run_state m s = (x, t) \<Longrightarrow> state_io_rel R (f x)"
  shows "state_io_rel R (State_Monad.bind m f)"
  unfolding state_io_rel_def
proof
  fix s
  obtain a t where m: "run_state m s = (a, t)" by fastforce
  have "R s t" using assms(2) m by (simp add: state_io_rel_def) (metis snd_conv)
  moreover have "R t (snd (run_state (f a) t))" using assms(3) [OF m] by (simp add: state_io_rel_def)
  ultimately show "R s (snd (run_state (State_Monad.bind m f) s))"
    using assms(1) m by (simp add: transp_def)
qed

lemma io_bind [effects]:
  assumes "transp R" "state_io_rel R m" "\<And>x. state_io_rel R (f x)"
  shows "state_io_rel R (State_Monad.bind m f)"
  using assms by (intro io_bind_result) auto

lemma io_traverse [effects]:
  assumes "reflp R" "transp R" "\<And>x. x \<in> set xs \<Longrightarrow> state_io_rel R (f x)"
  shows "state_io_rel R (State_Monad.traverse_list f xs)"
  using assms(3) by (induction xs) (auto intro!: effects assms(1,2))

text \<open>The bound that says a part of the world is not touched.\<close>

definition same :: "('w \<Rightarrow> 'a) \<Rightarrow> 'w \<Rightarrow> 'w \<Rightarrow> bool" where
  "same f w w' \<longleftrightarrow> f w' = f w"

lemma same_refl [simp]: "reflp (same f)"
  by (simp add: reflp_def same_def)

lemma same_trans [simp]: "transp (same f)"
  by (simp add: transp_def same_def)

lemma io_sameD: "state_io_rel (same f) m \<Longrightarrow> run_state m w = (a, w') \<Longrightarrow> f w' = f w"
  by (metis state_io_relD same_def)

end
