(* ===== verification/Execute.thy ===== *)
theory Execute
  imports Ports
begin

text \<open>
  The verification engine of \<open>internal/application/execute_run.go\<close> with the default tolerance
  resolver: tolerance over a sample, the shared fan-out, compare and sampling helpers, the five
  passes, and \<open>Execute\<close>. A pass returns the summary accumulator it has extended, or the error that
  ends the run. The goroutines of a fan-out are taken in slice order.
\<close>

section \<open>Tolerance over a sample (\<open>applyTolerance\<close>, \<open>tolerance_resolver.go\<close>)\<close>

definition DefaultToleranceResolver_For :: "(string \<rightharpoonup> tolerance) option \<Rightarrow> tolerance_resolver" where
  "DefaultToleranceResolver_For overrides m =
     (case (case overrides of None \<Rightarrow> None | Some ov \<Rightarrow> ov (mKey m)) of
        Some t \<Rightarrow> t
      | None \<Rightarrow>
          if mCategory m = CatBlockImmutable \<or> mCategory m = CatAddressAtBlock then ExactMatch
          else if mCategory m = CatAddressLatest then AnchorWindowed (Some ExactMatch) 0 64
          else if mCategory m = CatSnapshot then Observational
          else ExactMatch)"

datatype tolerance_outcome = toleranceAgree | toleranceDisagree | toleranceDiscard

text \<open>The zero \<open>BlockTag\<close> that the composite literal leaves in \<open>Anchor\<close>.\<close>

definition pairContext :: "block_number \<Rightarrow> value_snapshot \<Rightarrow> value_snapshot \<Rightarrow> compare_context" where
  "pairContext anchor a b =
     \<lparr>ccAnchor = NewBlockTagLatest, ccAnchorBlock = anchor,
      ccReflectedA = vsReflectedBlock a, ccReflectedB = vsReflectedBlock b\<rparr>"

text \<open>The two nested loops: \<open>None\<close> when a pair asked to discard, otherwise \<open>allOK\<close>.\<close>

fun toleranceInner ::
  "tolerance \<Rightarrow> metric \<Rightarrow> block_number \<Rightarrow> value_snapshot \<Rightarrow> bool \<Rightarrow> (source_id \<times> value_snapshot) list
   \<Rightarrow> bool option" where
  "toleranceInner tol m anchor a allOK [] = Some allOK"
| "toleranceInner tol m anchor a allOK ((_, b) # rest) =
     (let (ok, discard) = Tolerance_Judge tol a b m (pairContext anchor a b) in
      if discard then None
      else toleranceInner tol m anchor a (if ok then allOK else False) rest)"

fun toleranceOuter ::
  "tolerance \<Rightarrow> metric \<Rightarrow> block_number \<Rightarrow> bool \<Rightarrow> (source_id \<times> value_snapshot) list \<Rightarrow> bool option" where
  "toleranceOuter tol m anchor allOK [] = Some allOK"
| "toleranceOuter tol m anchor allOK ((_, a) # rest) =
     (case toleranceInner tol m anchor a allOK rest of
        None \<Rightarrow> None
      | Some allOK \<Rightarrow> toleranceOuter tol m anchor allOK rest)"

definition applyTolerance ::
  "tolerance \<Rightarrow> metric \<Rightarrow> snapshots \<Rightarrow> block_number \<Rightarrow> tolerance_outcome" where
  "applyTolerance tol m snaps anchor =
     (case toleranceOuter tol m anchor True (sort_key fst snaps) of
        None \<Rightarrow> toleranceDiscard
      | Some allOK \<Rightarrow> if allOK then toleranceAgree else toleranceDisagree)"

section \<open>Filters and projectors\<close>

definition filterByCategory :: "metric list \<Rightarrow> metric_category \<Rightarrow> metric list" where
  "filterByCategory metrics c = filter (\<lambda>m. mCategory m = c) metrics"

definition filterByCapability :: "metric list \<Rightarrow> capability \<Rightarrow> metric list" where
  "filterByCapability metrics c = filter (\<lambda>m. mCapability m = c) metrics"

definition projectBlock ::
  "(string \<Rightarrow> byte list) \<Rightarrow> capability \<Rightarrow> block_result \<Rightarrow> value_snapshot option" where
  "projectBlock keccak c r =
     map_option (\<lambda>raw. \<lparr>vsRaw = raw, vsTyped = None, vsFetchedAt = brFetchedAt r,
                         vsReflectedBlock = None\<rparr>)
       (extractBlockField keccak c r)"

definition projectAddressLatest :: "capability \<Rightarrow> address_latest_result \<Rightarrow> value_snapshot option" where
  "projectAddressLatest c r =
     map_option (\<lambda>raw. \<lparr>vsRaw = raw, vsTyped = None, vsFetchedAt = alFetchedAt r,
                         vsReflectedBlock = alReflectedBlock r\<rparr>)
       (extractAddressLatestField c r)"

definition projectAddressAtBlock ::
  "capability \<Rightarrow> address_at_block_result \<Rightarrow> value_snapshot option" where
  "projectAddressAtBlock c r =
     map_option (\<lambda>raw. \<lparr>vsRaw = raw, vsTyped = None, vsFetchedAt = aabFetchedAt r,
                         vsReflectedBlock = aabReflectedBlock r\<rparr>)
       (extractAddressAtBlockField c r)"

definition projectERC20Balance :: "capability \<Rightarrow> erc20_balance_result \<Rightarrow> value_snapshot option" where
  "projectERC20Balance c r =
     map_option (\<lambda>raw. \<lparr>vsRaw = raw, vsTyped = None, vsFetchedAt = ebFetchedAt r,
                         vsReflectedBlock = ebReflectedBlock r\<rparr>)
       (extractERC20BalanceField c r)"

definition projectERC20Holdings ::
  "(string \<Rightarrow> byte list) \<Rightarrow> capability \<Rightarrow> erc20_holdings_result \<Rightarrow> value_snapshot option" where
  "projectERC20Holdings keccak c r =
     map_option (\<lambda>raw. \<lparr>vsRaw = raw, vsTyped = None, vsFetchedAt = ehFetchedAt r,
                         vsReflectedBlock = ehReflectedBlock r\<rparr>)
       (extractERC20HoldingsField keccak c r)"

section \<open>The summary accumulator\<close>

record summary_accumulator =
  accAnchor :: "block_number option"
  accSources :: "string list"
  accSubjects :: "subject list"
  accComparisons :: int

definition zeroAccumulator :: summary_accumulator where
  "zeroAccumulator = \<lparr>accAnchor = None, accSources = [], accSubjects = [], accComparisons = 0\<rparr>"

definition setSourcesFrom :: "'w source list \<Rightarrow> summary_accumulator \<Rightarrow> summary_accumulator" where
  "setSourcesFrom ss a = a\<lparr>accSources := map srcID ss\<rparr>"

definition setAnchor :: "block_number \<Rightarrow> summary_accumulator \<Rightarrow> summary_accumulator" where
  "setAnchor b a = a\<lparr>accAnchor := Some b\<rparr>"

definition addSubject :: "subject \<Rightarrow> summary_accumulator \<Rightarrow> summary_accumulator" where
  "addSubject s a = a\<lparr>accSubjects := accSubjects a @ [s]\<rparr>"

definition addBlock :: "block_number \<Rightarrow> summary_accumulator \<Rightarrow> summary_accumulator" where
  "addBlock b = addSubject
     \<lparr>sbKind = SubjectKindBlock, sbBlock = Some b, sbAddress = None, sbToken = None, sbName = []\<rparr>"

definition addAddressLatest :: "address \<Rightarrow> summary_accumulator \<Rightarrow> summary_accumulator" where
  "addAddressLatest addr = addSubject
     \<lparr>sbKind = SubjectKindAddressLatest, sbBlock = None, sbAddress = Some addr, sbToken = None,
      sbName = []\<rparr>"

definition addAddressAtBlock ::
  "address \<Rightarrow> block_number \<Rightarrow> summary_accumulator \<Rightarrow> summary_accumulator" where
  "addAddressAtBlock addr b = addSubject
     \<lparr>sbKind = SubjectKindAddressAtBlock, sbBlock = Some b, sbAddress = Some addr, sbToken = None,
      sbName = []\<rparr>"

definition addERC20Holdings :: "address \<Rightarrow> summary_accumulator \<Rightarrow> summary_accumulator" where
  "addERC20Holdings addr = addSubject
     \<lparr>sbKind = SubjectKindERC20Holdings, sbBlock = None, sbAddress = Some addr, sbToken = None,
      sbName = []\<rparr>"

definition addERC20Balance ::
  "address \<Rightarrow> address \<Rightarrow> summary_accumulator \<Rightarrow> summary_accumulator" where
  "addERC20Balance addr token = addSubject
     \<lparr>sbKind = SubjectKindERC20Balance, sbBlock = None, sbAddress = Some addr, sbToken = Some token,
      sbName = []\<rparr>"

definition addComparisons :: "nat \<Rightarrow> summary_accumulator \<Rightarrow> summary_accumulator" where
  "addComparisons n a = a\<lparr>accComparisons := accComparisons a + int n\<rparr>"

definition buildSummary :: "summary_accumulator \<Rightarrow> run_summary" where
  "buildSummary a =
     \<lparr>rsAnchorBlock = accAnchor a, rsSubjects = accSubjects a, rsSourcesUsed = accSources a,
      rsComparisonsCount = accComparisons a\<rparr>"

section \<open>The engine\<close>

record 'w execute_run =
  erRuns :: "'w run_repository"
  erDiffs :: "'w diff_repository"
  erSources :: "'w source_gateway"
  erChainHead :: "'w chain_head"
  erClock :: "'w clock"
  erPolicy :: judgement_policy
  erTolerance :: "tolerance_resolver option"
  erAddresses :: "'w address_sampler option"
  erTokens :: "'w token_sampler option"
  erBudget :: "'w rate_limit_budget option"

record 'w run_context =
  rcSources :: "'w source list"
  rcMetrics :: "metric list"
  rcAddressPlans :: "address_plan list"
  rcTokenPlans :: "token_plan list"
  rcResolver :: tolerance_resolver
  rcBlocks :: "block_number list"
  rcAnchor :: block_number

definition resolver :: "'w execute_run \<Rightarrow> tolerance_resolver" where
  "resolver uc =
     (case erTolerance uc of None \<Rightarrow> DefaultToleranceResolver_For None | Some t \<Rightarrow> t)"

record ('w, 'r) source_fetch_result =
  sfSource :: "'w source"
  sfOutcome :: "app_error + 'r"

text \<open>One goroutine of \<open>fanOutFetch\<close>: reserve, fetch, refund when the fetch failed.\<close>

definition fetchSlot ::
  "'w rate_limit_budget option \<Rightarrow> ('w source \<Rightarrow> ('w, source_error + 'r) state) \<Rightarrow> 'w source
   \<Rightarrow> ('w, ('w, 'r) source_fetch_result) state" where
  "fetchSlot budget fetch s =
     do {
       reserved \<leftarrow> (case budget of
                     None \<Rightarrow> State_Monad.return None
                   | Some b \<Rightarrow> Budget_Reserve b (srcID s) 1);
       (case reserved of
          Some err \<Rightarrow> State_Monad.return \<lparr>sfSource = s, sfOutcome = Inl err\<rparr>
        | None \<Rightarrow>
            do {
              r \<leftarrow> fetch s;
              (case r of
                 Inr x \<Rightarrow> State_Monad.return \<lparr>sfSource = s, sfOutcome = Inr x\<rparr>
               | Inl err \<Rightarrow>
                   do {
                     _ \<leftarrow> (case budget of
                            None \<Rightarrow> State_Monad.return None
                          | Some b \<Rightarrow> Budget_Refund b (srcID s) 1);
                     State_Monad.return \<lparr>sfSource = s, sfOutcome = Inl (ErrFetch err)\<rparr>
                   })
            })
     }"

definition fanOutFetch ::
  "'w source list \<Rightarrow> 'w rate_limit_budget option \<Rightarrow> ('w source \<Rightarrow> ('w, source_error + 'r) state)
   \<Rightarrow> ('w, ('w, 'r) source_fetch_result list) state" where
  "fanOutFetch sources budget fetch = State_Monad.traverse_list (fetchSlot budget fetch) sources"

text \<open>Adding what one plan returned: addresses seen before are skipped.\<close>

fun addUnseen :: "address list \<Rightarrow> address list \<Rightarrow> address list" where
  "addUnseen out [] = out"
| "addUnseen out (a # as) = (if a \<in> set out then addUnseen out as else addUnseen (out @ [a]) as)"

fun sampleLoop ::
  "('p \<Rightarrow> string) \<Rightarrow> ('p \<Rightarrow> ('w, app_error + address list) state) \<Rightarrow> 'p list \<Rightarrow> address list
   \<Rightarrow> ('w, app_error + address list) state" where
  "sampleLoop kind sample [] out = State_Monad.return (Inr out)"
| "sampleLoop kind sample (p # ps) out =
     do {
       got \<leftarrow> sample p;
       (case got of
          Inl err \<Rightarrow> State_Monad.return (Inl (Wrap (''plan \"'' @ kind p @ ''\": '') err))
        | Inr as \<Rightarrow> sampleLoop kind sample ps (addUnseen out as))
     }"

definition collectSampled ::
  "('p \<Rightarrow> string) \<Rightarrow> 'p list \<Rightarrow> ('p \<Rightarrow> ('w, app_error + address list) state)
   \<Rightarrow> ('w, app_error + address list) state" where
  "collectSampled kind plans sample =
     do {
       got \<leftarrow> sampleLoop kind sample plans [];
       State_Monad.return (map_sum id sort got)
     }"

definition collectAddresses ::
  "'w address_sampler \<Rightarrow> chain_id \<Rightarrow> address_plan list \<Rightarrow> block_number
   \<Rightarrow> ('w, app_error + address list) state" where
  "collectAddresses sampler cid plans anchor =
     collectSampled AddressPlan_Kind plans (\<lambda>p. sampler cid p anchor)"

definition collectTokens ::
  "'w token_sampler \<Rightarrow> chain_id \<Rightarrow> token_plan list \<Rightarrow> block_number
   \<Rightarrow> ('w, app_error + address list) state" where
  "collectTokens sampler cid plans anchor =
     collectSampled TokenPlan_Kind plans (\<lambda>p. sampler cid p anchor)"

text \<open>The snapshot map of one metric: failed slots, sources without the capability and missing
  fields are skipped; a later slot with the same source id overwrites.\<close>

definition snapshotStep ::
  "(capability \<Rightarrow> 'r \<Rightarrow> value_snapshot option) \<Rightarrow> capability \<Rightarrow> snapshots
   \<Rightarrow> ('w, 'r) source_fetch_result \<Rightarrow> snapshots" where
  "snapshotStep project c snaps fr =
     (case sfOutcome fr of
        Inl _ \<Rightarrow> snaps
      | Inr r \<Rightarrow>
          if \<not> Supports (sfSource fr) c then snaps
          else (case project c r of
                  None \<Rightarrow> snaps
                | Some snap \<Rightarrow> AList.update (srcID (sfSource fr)) snap snaps))"

definition collectSnapshots ::
  "(capability \<Rightarrow> 'r \<Rightarrow> value_snapshot option) \<Rightarrow> capability
   \<Rightarrow> ('w, 'r) source_fetch_result list \<Rightarrow> snapshots" where
  "collectSnapshots project c results = foldl (snapshotStep project c) [] results"

fun compareAndSave ::
  "'w execute_run \<Rightarrow> run \<Rightarrow> tolerance_resolver \<Rightarrow> metric list \<Rightarrow> ('w, 'r) source_fetch_result list
   \<Rightarrow> diff_subject \<Rightarrow> block_number \<Rightarrow> block_number \<Rightarrow> string
   \<Rightarrow> (capability \<Rightarrow> 'r \<Rightarrow> value_snapshot option) \<Rightarrow> ('w, app_error option) state" where
  "compareAndSave uc r res [] results subj recordBlock anchor saveKind project =
     State_Monad.return None"
| "compareAndSave uc r res (m # ms) results subj recordBlock anchor saveKind project =
     (let snaps = collectSnapshots project (mCapability m) results;
          continue = compareAndSave uc r res ms results subj recordBlock anchor saveKind project
      in if length snaps < 2 then continue
         else case applyTolerance (res m) m snaps anchor of
           toleranceAgree \<Rightarrow> continue
         | toleranceDiscard \<Rightarrow> continue
         | toleranceDisagree \<Rightarrow>
             do {
               now \<leftarrow> erClock uc;
               (case NewDiscrepancy (runId r) m recordBlock subj snaps now of
                  Inl _ \<Rightarrow> continue
                | Inr d \<Rightarrow>
                    do {
                      saved \<leftarrow> DiffRepo_Save (erDiffs uc) d (erPolicy uc d)
                                 \<lparr>sdTier = Capability_Tier (mCapability m),
                                  sdAnchorBlock = anchor, sdSamplingSeed = None\<rparr>;
                      (case saved of
                         Inl err \<Rightarrow> State_Monad.return
                           (Some (Wrap (''execute run: save diff ('' @ saveKind @ ''): '') err))
                       | Inr _ \<Rightarrow> continue)
                    })
             })"

text \<open>The loop every pass runs over its items: a context check, the comparison of one item, and
  the item's entry in the summary.\<close>

fun passLoop ::
  "'w context_err \<Rightarrow> ('i \<Rightarrow> ('w, app_error option) state)
   \<Rightarrow> ('i \<Rightarrow> summary_accumulator \<Rightarrow> summary_accumulator) \<Rightarrow> 'i list \<Rightarrow> summary_accumulator
   \<Rightarrow> ('w, app_error + summary_accumulator) state" where
  "passLoop ctxErr body note [] acc = State_Monad.return (Inr acc)"
| "passLoop ctxErr body note (i # is) acc =
     do {
       c \<leftarrow> ctxErr;
       (case c of
          Some err \<Rightarrow> State_Monad.return (Inl err)
        | None \<Rightarrow>
            do {
              e \<leftarrow> body i;
              (case e of
                 Some err \<Rightarrow> State_Monad.return (Inl err)
               | None \<Rightarrow> passLoop ctxErr body note is (note i acc))
            })
     }"

text \<open>The nested form: for each outer item a context check, then the loop over the inner items.\<close>

fun nestedLoop ::
  "'w context_err \<Rightarrow> ('a \<Rightarrow> 'i \<Rightarrow> ('w, app_error option) state)
   \<Rightarrow> ('a \<Rightarrow> 'i \<Rightarrow> summary_accumulator \<Rightarrow> summary_accumulator) \<Rightarrow> 'a list \<Rightarrow> 'i list
   \<Rightarrow> summary_accumulator \<Rightarrow> ('w, app_error + summary_accumulator) state" where
  "nestedLoop ctxErr body note [] inner acc = State_Monad.return (Inr acc)"
| "nestedLoop ctxErr body note (a # as) inner acc =
     do {
       c \<leftarrow> ctxErr;
       (case c of
          Some err \<Rightarrow> State_Monad.return (Inl err)
        | None \<Rightarrow>
            do {
              got \<leftarrow> passLoop ctxErr (body a) (note a) inner acc;
              (case got of
                 Inl err \<Rightarrow> State_Monad.return (Inl err)
               | Inr acc' \<Rightarrow> nestedLoop ctxErr body note as inner acc')
            })
     }"

definition addressSubject :: "address \<Rightarrow> diff_subject" where
  "addressSubject a = \<lparr>dsType = SubjectAddress, dsAddress = Some a\<rparr>"

definition runBlockPass ::
  "(string \<Rightarrow> byte list) \<Rightarrow> 'w context_err \<Rightarrow> 'w execute_run \<Rightarrow> run \<Rightarrow> 'w run_context
   \<Rightarrow> summary_accumulator \<Rightarrow> ('w, app_error + summary_accumulator) state" where
  "runBlockPass keccak ctxErr uc r rc acc =
     (let blockMetrics = filterByCategory (rcMetrics rc) CatBlockImmutable in
      if blockMetrics = [] then State_Monad.return (Inr acc)
      else passLoop ctxErr
        (\<lambda>block. do {
           results \<leftarrow> fanOutFetch (rcSources rc) None (\<lambda>s. FetchBlock s \<lparr>bqNumber = block\<rparr>);
           compareAndSave uc r (rcResolver rc) blockMetrics results
             \<lparr>dsType = SubjectBlock, dsAddress = None\<rparr> block (rcAnchor rc) ''block''
             (projectBlock keccak)
         })
        (\<lambda>block acc. addComparisons (length blockMetrics) (addBlock block acc))
        (rcBlocks rc) acc)"

definition runAddressLatestPass ::
  "'w context_err \<Rightarrow> 'w execute_run \<Rightarrow> run \<Rightarrow> 'w run_context
   \<Rightarrow> summary_accumulator \<Rightarrow> ('w, app_error + summary_accumulator) state" where
  "runAddressLatestPass ctxErr uc r rc acc =
     (case (rcAddressPlans rc, erAddresses uc) of
        (_ # _, Some sampler) \<Rightarrow>
          let metrics = filterByCategory (rcMetrics rc) CatAddressLatest in
          if metrics = [] then State_Monad.return (Inr acc)
          else do {
            got \<leftarrow> collectAddresses sampler (runChainID r) (rcAddressPlans rc) (rcAnchor rc);
            (case got of
               Inl err \<Rightarrow> State_Monad.return (Inl (Wrap ''execute run: address sampling: '' err))
             | Inr addrs \<Rightarrow> passLoop ctxErr
                 (\<lambda>a. do {
                    results \<leftarrow> fanOutFetch (rcSources rc) (erBudget uc)
                      (\<lambda>s. FetchAddressLatest s \<lparr>aqAddress = a, aqAnchor = NewBlockTagLatest\<rparr>);
                    compareAndSave uc r (rcResolver rc) metrics results (addressSubject a)
                      (rcAnchor rc) (rcAnchor rc) ''address'' projectAddressLatest
                  })
                 (\<lambda>a acc. addComparisons (length metrics) (addAddressLatest a acc)) addrs acc)
          }
      | _ \<Rightarrow> State_Monad.return (Inr acc))"

definition runAddressAtBlockPass ::
  "'w context_err \<Rightarrow> 'w execute_run \<Rightarrow> run \<Rightarrow> 'w run_context
   \<Rightarrow> summary_accumulator \<Rightarrow> ('w, app_error + summary_accumulator) state" where
  "runAddressAtBlockPass ctxErr uc r rc acc =
     (case (rcAddressPlans rc, erAddresses uc) of
        (_ # _, Some sampler) \<Rightarrow>
          let metrics = filterByCategory (rcMetrics rc) CatAddressAtBlock in
          if metrics = [] \<or> rcBlocks rc = [] then State_Monad.return (Inr acc)
          else do {
            got \<leftarrow> collectAddresses sampler (runChainID r) (rcAddressPlans rc) (rcAnchor rc);
            (case got of
               Inl err \<Rightarrow>
                 State_Monad.return (Inl (Wrap ''execute run: address-at-block sampling: '' err))
             | Inr addrs \<Rightarrow> nestedLoop ctxErr
                 (\<lambda>a b. do {
                    results \<leftarrow> fanOutFetch (rcSources rc) (erBudget uc)
                      (\<lambda>s. FetchAddressAtBlock s \<lparr>aabqAddress = a, aabqBlock = b\<rparr>);
                    compareAndSave uc r (rcResolver rc) metrics results (addressSubject a)
                      b (rcAnchor rc) ''address-at-block'' projectAddressAtBlock
                  })
                 (\<lambda>a b acc. addComparisons (length metrics) (addAddressAtBlock a b acc))
                 addrs (rcBlocks rc) acc)
          }
      | _ \<Rightarrow> State_Monad.return (Inr acc))"

definition runERC20HoldingsLatestPass ::
  "(string \<Rightarrow> byte list) \<Rightarrow> 'w context_err \<Rightarrow> 'w execute_run \<Rightarrow> run \<Rightarrow> 'w run_context
   \<Rightarrow> summary_accumulator \<Rightarrow> ('w, app_error + summary_accumulator) state" where
  "runERC20HoldingsLatestPass keccak ctxErr uc r rc acc =
     (case (rcAddressPlans rc, erAddresses uc) of
        (_ # _, Some sampler) \<Rightarrow>
          let metrics = filterByCapability (rcMetrics rc) CapERC20HoldingsAtLatest in
          if metrics = [] then State_Monad.return (Inr acc)
          else do {
            got \<leftarrow> collectAddresses sampler (runChainID r) (rcAddressPlans rc) (rcAnchor rc);
            (case got of
               Inl err \<Rightarrow>
                 State_Monad.return (Inl (Wrap ''execute run: erc20-holdings sampling: '' err))
             | Inr addrs \<Rightarrow> passLoop ctxErr
                 (\<lambda>a. do {
                    results \<leftarrow> fanOutFetch (rcSources rc) (erBudget uc)
                      (\<lambda>s. FetchERC20Holdings s \<lparr>ehqAddress = a, ehqAnchor = NewBlockTagLatest\<rparr>);
                    compareAndSave uc r (rcResolver rc) metrics results (addressSubject a)
                      (rcAnchor rc) (rcAnchor rc) ''erc20-holdings'' (projectERC20Holdings keccak)
                  })
                 (\<lambda>a acc. addComparisons (length metrics) (addERC20Holdings a acc)) addrs acc)
          }
      | _ \<Rightarrow> State_Monad.return (Inr acc))"

definition runERC20BalanceLatestPass ::
  "'w context_err \<Rightarrow> 'w execute_run \<Rightarrow> run \<Rightarrow> 'w run_context
   \<Rightarrow> summary_accumulator \<Rightarrow> ('w, app_error + summary_accumulator) state" where
  "runERC20BalanceLatestPass ctxErr uc r rc acc =
     (case (rcAddressPlans rc, rcTokenPlans rc, erAddresses uc, erTokens uc) of
        (_ # _, _ # _, Some sampler, Some tokenSampler) \<Rightarrow>
          let metrics = filterByCapability (rcMetrics rc) CapERC20BalanceAtLatest in
          if metrics = [] then State_Monad.return (Inr acc)
          else do {
            got \<leftarrow> collectAddresses sampler (runChainID r) (rcAddressPlans rc) (rcAnchor rc);
            (case got of
               Inl err \<Rightarrow>
                 State_Monad.return (Inl (Wrap ''execute run: erc20-balance address sampling: '' err))
             | Inr addrs \<Rightarrow>
                 do {
                   toks \<leftarrow> collectTokens tokenSampler (runChainID r) (rcTokenPlans rc) (rcAnchor rc);
                   (case toks of
                      Inl err \<Rightarrow> State_Monad.return
                        (Inl (Wrap ''execute run: erc20-balance token sampling: '' err))
                    | Inr tokens \<Rightarrow> nestedLoop ctxErr
                        (\<lambda>a t. do {
                           results \<leftarrow> fanOutFetch (rcSources rc) (erBudget uc)
                             (\<lambda>s. FetchERC20Balance s
                               \<lparr>ebqAddress = a, ebqToken = t, ebqAnchor = NewBlockTagLatest\<rparr>);
                           compareAndSave uc r (rcResolver rc) metrics results (addressSubject a)
                             (rcAnchor rc) (rcAnchor rc) ''erc20-balance'' projectERC20Balance
                         })
                        (\<lambda>a t acc. addComparisons (length metrics) (addERC20Balance a t acc))
                        addrs tokens acc)
                 })
          }
      | _ \<Rightarrow> State_Monad.return (Inr acc))"

text \<open>
  \<open>executeInner\<close> and \<open>Execute\<close>. \<open>Diverges\<close> is the call that does not return, because the block
  sampling loop does not end. On success \<open>executeInner\<close> returns the run with its summary
  recorded (or as it was, when the summary is rejected); on an error the run is as it was.
\<close>

datatype 'a outcome = Returns 'a | Diverges

fun passes ::
  "(summary_accumulator \<Rightarrow> ('w, app_error + summary_accumulator) state) list \<Rightarrow> summary_accumulator
   \<Rightarrow> ('w, app_error + summary_accumulator) state" where
  "passes [] acc = State_Monad.return (Inr acc)"
| "passes (p # ps) acc =
     do {
       got \<leftarrow> p acc;
       (case got of
          Inl err \<Rightarrow> State_Monad.return (Inl err)
        | Inr acc' \<Rightarrow> passes ps acc')
     }"

definition executeInner ::
  "(string \<Rightarrow> byte list) \<Rightarrow> pcg \<Rightarrow> 'w context_err \<Rightarrow> 'w execute_run \<Rightarrow> run
   \<Rightarrow> ('w, (app_error + run) outcome) state" where
  "executeInner keccak rng ctxErr uc r =
     do {
       gotSources \<leftarrow> Gateway_ForChain (erSources uc) (runChainID r);
       (case gotSources of
          Inl err \<Rightarrow> State_Monad.return (Returns (Inl (Wrap ''execute run: source gateway: '' err)))
        | Inr sources \<Rightarrow>
            if length sources < 2 then
              State_Monad.return
                (Returns (Inl (ErrNew ''execute run: need at least 2 sources for comparison'')))
            else do {
              gotAnchor \<leftarrow> ChainHead_Finalized (erChainHead uc) (runChainID r);
              (case gotAnchor of
                 Inl err \<Rightarrow> State_Monad.return (Returns (Inl (Wrap ''execute run: finalized: '' err)))
               | Inr anchor \<Rightarrow>
                   do {
                     gotTip \<leftarrow> ChainHead_Tip (erChainHead uc) (runChainID r);
                     (case gotTip of
                        Inl err \<Rightarrow> State_Monad.return (Returns (Inl (Wrap ''execute run: tip: '' err)))
                      | Inr tip \<Rightarrow>
                          do {
                            now \<leftarrow> erClock uc;
                            (case Strategy_Blocks rng (runStrategy r) \<lparr>scTipBlock = tip, scNow = now\<rparr> of
                               None \<Rightarrow> State_Monad.return Diverges
                             | Some blocks \<Rightarrow>
                                 let acc = setAnchor anchor (setSourcesFrom sources zeroAccumulator);
                                     rc = \<lparr>rcSources = sources, rcMetrics = runMetrics r,
                                           rcAddressPlans = runAddressPlans r,
                                           rcTokenPlans = runTokenPlans r,
                                           rcResolver = resolver uc, rcBlocks = blocks,
                                           rcAnchor = anchor\<rparr>
                                 in do {
                                      got \<leftarrow> passes
                                        [runBlockPass keccak ctxErr uc r rc,
                                         runAddressLatestPass ctxErr uc r rc,
                                         runAddressAtBlockPass ctxErr uc r rc,
                                         runERC20HoldingsLatestPass keccak ctxErr uc r rc,
                                         runERC20BalanceLatestPass ctxErr uc r rc] acc;
                                      State_Monad.return (Returns
                                        (case got of
                                           Inl err \<Rightarrow> Inl err
                                         | Inr acc' \<Rightarrow>
                                             Inr (case RecordSummary (buildSummary acc') r of
                                                    Inl _ \<Rightarrow> r
                                                  | Inr r' \<Rightarrow> r')))
                                    })
                          })
                   })
            })
     }"

text \<open>The end of \<open>Execute\<close>, once \<open>executeInner\<close> is back: the run is failed with the error's text, or
  completed, and saved. The result of saving a failed run is ignored.\<close>

definition finishExecution ::
  "(app_error \<Rightarrow> string) \<Rightarrow> 'w execute_run \<Rightarrow> run \<Rightarrow> (app_error + run) outcome
   \<Rightarrow> ('w, app_error option outcome) state" where
  "finishExecution text uc r inner =
     (case inner of
        Diverges \<Rightarrow> State_Monad.return Diverges
      | Returns (Inl innerErr) \<Rightarrow>
          do {
            now \<leftarrow> erClock uc;
            _ \<leftarrow> RunRepo_Save (erRuns uc)
                   (case Run_Fail now (Some (text innerErr)) r of Inl _ \<Rightarrow> r | Inr failed \<Rightarrow> failed);
            State_Monad.return (Returns (Some innerErr))
          }
      | Returns (Inr r1) \<Rightarrow>
          do {
            now \<leftarrow> erClock uc;
            (case Run_Complete now r1 of
               Inl e \<Rightarrow> State_Monad.return
                 (Returns (Some (Wrap ''execute run: complete: '' (ErrDomain e))))
             | Inr r2 \<Rightarrow>
                 do {
                   saved \<leftarrow> RunRepo_Save (erRuns uc) r2;
                   State_Monad.return (Returns
                     (map_option (Wrap ''execute run: save completed: '') saved))
                 })
          })"

definition ExecuteRun_Execute ::
  "(string \<Rightarrow> byte list) \<Rightarrow> pcg \<Rightarrow> (app_error \<Rightarrow> string) \<Rightarrow> 'w context_err \<Rightarrow> 'w execute_run \<Rightarrow> run_id
   \<Rightarrow> ('w, app_error option outcome) state" where
  "ExecuteRun_Execute keccak rng text ctxErr uc runID =
     do {
       found \<leftarrow> RunRepo_FindByID (erRuns uc) runID;
       (case found of
          Inl err \<Rightarrow> State_Monad.return (Returns (Some err))
        | Inr r0 \<Rightarrow>
            do {
              now \<leftarrow> erClock uc;
              (case Run_Start now r0 of
                 Inl e \<Rightarrow>
                   State_Monad.return (Returns (Some (Wrap ''execute run: start: '' (ErrDomain e))))
               | Inr r \<Rightarrow>
                   do {
                     saved \<leftarrow> RunRepo_Save (erRuns uc) r;
                     (case saved of
                        Some err \<Rightarrow>
                          State_Monad.return (Returns (Some (Wrap ''execute run: save started: '' err)))
                      | None \<Rightarrow>
                          do {
                            inner \<leftarrow> executeInner keccak rng ctxErr uc r;
                            finishExecution text uc r inner
                          })
                   })
            })
     }"

end
