(* ===== verification/UseCases.thy ===== *)
theory UseCases
  imports Execute
begin

text \<open>
  The use cases beside the engine (\<open>schedule_run.go\<close>, \<open>cancel_run.go\<close>, \<open>replay_diff.go\<close> and the query
  files of \<open>internal/application\<close>), over the ports. The random bytes of a generated run id are a
  computation \<open>rand\<close> that may fail.
\<close>

section \<open>Scheduling (\<open>schedule_run.go\<close>)\<close>

record schedule_run_input =
  siID :: run_id
  siChainID :: chain_id
  siStrategy :: "sampling_strategy option"
  siMetrics :: "metric list"
  siTrigger :: "trigger option"
  siSchedule :: schedule
  siAddressPlans :: "address_plan option list"
  siTokenPlans :: "token_plan option list"

record schedule_run_result =
  resRunID :: run_id
  resJobID :: "job_id option"

record 'w schedule_run =
  suRuns :: "'w run_repository"
  suDispatcher :: "'w job_dispatcher"
  suClock :: "'w clock"

definition isScheduled :: "trigger option \<Rightarrow> bool" where
  "isScheduled t = (case t of Some (ScheduledTrigger _) \<Rightarrow> True | _ \<Rightarrow> False)"

text \<open>The id of the new run: the given one, or a generated one.\<close>

definition chooseID ::
  "('w, byte list option) state \<Rightarrow> run_id \<Rightarrow> ('w, run_id option) state" where
  "chooseID rand i =
     (if i = [] then do { buf \<leftarrow> rand; State_Monad.return (NewRunID buf) }
      else State_Monad.return (Some i))"

text \<open>The run of an input: the constructor, then the token plans when there are any.\<close>

definition buildRun :: "schedule_run_input \<Rightarrow> run_id \<Rightarrow> gotime \<Rightarrow> run_error + run" where
  "buildRun inp i now =
     (case NewRun i (siChainID inp) (siStrategy inp) (siMetrics inp) (siTrigger inp) now (siAddressPlans inp) of
        Inl e \<Rightarrow> Inl e
      | Inr r \<Rightarrow> if 0 < length (siTokenPlans inp) then SetTokenPlans (siTokenPlans inp) r else Inr r)"

definition dispatchRun ::
  "'w schedule_run \<Rightarrow> schedule_run_input \<Rightarrow> run_id \<Rightarrow> ('w, app_error + schedule_run_result) state" where
  "dispatchRun uc inp i =
     (case siTrigger inp of
        Some (ManualTrigger _) \<Rightarrow>
          do {
            err \<leftarrow> EnqueueRunExecution (suDispatcher uc) i;
            State_Monad.return
              (case err of
                 Some e \<Rightarrow> Inl (Wrap ''schedule run: enqueue: '' e)
               | None \<Rightarrow> Inr \<lparr>resRunID = i, resJobID = None\<rparr>)
          }
      | Some (ScheduledTrigger _) \<Rightarrow>
          do {
            got \<leftarrow> ScheduleRecurring (suDispatcher uc) (siSchedule inp)
              \<lparr>spChainID = siChainID inp, spMetrics = siMetrics inp, spStrategy = siStrategy inp,
               spAddressPlans = siAddressPlans inp, spTokenPlans = siTokenPlans inp\<rparr>;
            State_Monad.return
              (case got of
                 Inl e \<Rightarrow> Inl (Wrap ''schedule run: schedule: '' e)
               | Inr job \<Rightarrow> Inr \<lparr>resRunID = i, resJobID = Some job\<rparr>)
          }
      | Some (RealtimeTrigger _) \<Rightarrow> State_Monad.return (Inr \<lparr>resRunID = i, resJobID = None\<rparr>)
      | None \<Rightarrow> State_Monad.return (Inl (ErrNew ''schedule run: unknown trigger type <nil>'')))"

definition ScheduleRun_Execute ::
  "('w, byte list option) state \<Rightarrow> 'w schedule_run \<Rightarrow> schedule_run_input
   \<Rightarrow> ('w, app_error + schedule_run_result) state" where
  "ScheduleRun_Execute rand uc inp =
     (if isScheduled (siTrigger inp) \<and> Schedule_IsZero (siSchedule inp)
      then State_Monad.return (Inl (ErrNew ''schedule run: scheduled trigger requires a Schedule''))
      else do {
        chosen \<leftarrow> chooseID rand (siID inp);
        (case chosen of
           None \<Rightarrow> State_Monad.return (Inl (Wrap ''schedule run: generate id: ''
             (Wrap ''new run id: '' (ErrNew ''crypto/rand''))))
         | Some i \<Rightarrow>
             do {
               found \<leftarrow> RunRepo_FindByID (suRuns uc) i;
               (case found of
                  Inr _ \<Rightarrow> State_Monad.return (Inl (WrapSuffix ErrDuplicateRun ('': '' @ i)))
                | Inl err \<Rightarrow>
                    if \<not> errorsIs err ErrRunNotFound
                    then State_Monad.return (Inl (Wrap ''schedule run: check existing: '' err))
                    else do {
                      now \<leftarrow> suClock uc;
                      (case buildRun inp i now of
                         Inl e \<Rightarrow> State_Monad.return (Inl (WrapBoth ErrInvalidRun (ErrDomain e)))
                       | Inr r \<Rightarrow>
                           do {
                             saved \<leftarrow> RunRepo_Save (suRuns uc) r;
                             (case saved of
                                Some e \<Rightarrow> State_Monad.return (Inl (Wrap ''schedule run: save: '' e))
                              | None \<Rightarrow> dispatchRun uc inp i)
                           })
                    })
             })
      })"

section \<open>Cancelling (\<open>cancel_run.go\<close>)\<close>

record 'w cancel_run =
  cuRuns :: "'w run_repository"
  cuClock :: "'w clock"

definition CancelRun_Execute :: "'w cancel_run \<Rightarrow> run_id \<Rightarrow> ('w, app_error option) state" where
  "CancelRun_Execute uc i =
     do {
       found \<leftarrow> RunRepo_FindByID (cuRuns uc) i;
       (case found of
          Inl err \<Rightarrow> State_Monad.return (Some err)
        | Inr r \<Rightarrow>
            do {
              now \<leftarrow> cuClock uc;
              (case Run_Cancel now r of
                 Inl e \<Rightarrow> State_Monad.return (Some (WrapBoth ErrInvalidRun (ErrDomain e)))
               | Inr r' \<Rightarrow>
                   do {
                     saved \<leftarrow> RunRepo_Save (cuRuns uc) r';
                     State_Monad.return (map_option (Wrap ''cancel run: save: '') saved)
                   })
            })
     }"

section \<open>Replaying (\<open>replay_diff.go\<close>)\<close>

record replay_result =
  rrOriginalDiffID :: diff_id
  rrResolved :: bool
  rrNewDiffID :: "diff_id option"

record 'w replay_diff =
  rdDiffs :: "'w diff_repository"
  rdSources :: "'w source_gateway"
  rdClock :: "'w clock"
  rdPolicy :: judgement_policy
  rdTolerance :: "tolerance_resolver option"

text \<open>The sources named in the record, in the order the map is visited.\<close>

fun resolveSources ::
  "'w source_gateway \<Rightarrow> source_id list \<Rightarrow> ('w, app_error + 'w source list) state" where
  "resolveSources gw [] = State_Monad.return (Inr [])"
| "resolveSources gw (sid # sids) =
     do {
       got \<leftarrow> Gateway_Get gw sid;
       (case got of
          Inl e \<Rightarrow> State_Monad.return (Inl (WrapQuoted ''replay diff: resolve source '' sid '': '' e))
        | Inr s \<Rightarrow>
            do {
              rest \<leftarrow> resolveSources gw sids;
              State_Monad.return (map_sum id ((#) s) rest)
            })
     }"

definition replayMeta :: "diff_record \<Rightarrow> save_diff_meta" where
  "replayMeta rec =
     \<lparr>sdTier = (if drTier rec = 0 then Capability_Tier (mCapability (dMetric (drDiscrepancy rec))) else drTier rec),
      sdAnchorBlock = drAnchorBlock rec, sdSamplingSeed = drSamplingSeed rec\<rparr>"

definition replayTolerance :: "'w replay_diff \<Rightarrow> tolerance_resolver" where
  "replayTolerance uc = (case rdTolerance uc of None \<Rightarrow> DefaultToleranceResolver_For None | Some t \<Rightarrow> t)"

text \<open>What is done with the fresh values of the record's sources.\<close>

definition replayDecide ::
  "'w replay_diff \<Rightarrow> diff_id \<Rightarrow> diff_record \<Rightarrow> snapshots \<Rightarrow> ('w, app_error + replay_result) state" where
  "replayDecide uc i rec snaps =
     (let d0 = drDiscrepancy rec in
      if length snaps < 2
      then State_Monad.return (Inl (ErrNew ''replay diff: fewer than 2 sources returned a value''))
      else if applyTolerance (replayTolerance uc (dMetric d0)) (dMetric d0) snaps (drAnchorBlock rec) \<noteq> toleranceDisagree
      then do {
        now \<leftarrow> rdClock uc;
        err \<leftarrow> DiffRepo_MarkResolved (rdDiffs uc) i now;
        State_Monad.return
          (case err of
             Some e \<Rightarrow> Inl (Wrap ''replay diff: mark resolved: '' e)
           | None \<Rightarrow> Inr \<lparr>rrOriginalDiffID = i, rrResolved = True, rrNewDiffID = None\<rparr>)
      }
      else do {
        now \<leftarrow> rdClock uc;
        (case NewDiscrepancy (dRunID d0) (dMetric d0) (dBlock d0) (dSubject d0) snaps now of
           Inl e \<Rightarrow> State_Monad.return (Inl (Wrap ''replay diff: build discrepancy: '' (ErrDiscrepancy e)))
         | Inr d \<Rightarrow>
             do {
               saved \<leftarrow> DiffRepo_Save (rdDiffs uc) d (rdPolicy uc d) (replayMeta rec);
               State_Monad.return
                 (case saved of
                    Inl e \<Rightarrow> Inl (Wrap ''replay diff: save: '' e)
                  | Inr n \<Rightarrow> Inr \<lparr>rrOriginalDiffID = i, rrResolved = False, rrNewDiffID = Some n\<rparr>)
             })
      })"

definition ReplayDiff_Execute ::
  "(string \<Rightarrow> byte list) \<Rightarrow> 'w replay_diff \<Rightarrow> diff_id \<Rightarrow> ('w, app_error + replay_result) state" where
  "ReplayDiff_Execute keccak uc i =
     do {
       found \<leftarrow> DiffRepo_FindByID (rdDiffs uc) i;
       (case found of
          Inl err \<Rightarrow> State_Monad.return (Inl err)
        | Inr rec \<Rightarrow>
            let d0 = drDiscrepancy rec in
            if mCategory (dMetric d0) \<noteq> CatBlockImmutable
            then State_Monad.return
                   (Inl (ErrQuoted ''replay diff: category '' (mCategory (dMetric d0)) '' not supported in MVP''))
            else do {
              got \<leftarrow> resolveSources (rdSources uc) (map fst (dValues d0));
              (case got of
                 Inl err \<Rightarrow> State_Monad.return (Inl err)
               | Inr sources \<Rightarrow>
                   do {
                     results \<leftarrow> fanOutFetch sources None (\<lambda>s. FetchBlock s \<lparr>bqNumber = dBlock d0\<rparr>);
                     replayDecide uc i rec
                       (collectSnapshots (projectBlock keccak) (mCapability (dMetric d0)) results)
                   })
            })
     }"

section \<open>Queries (\<open>query_runs.go\<close>, \<open>query_diffs.go\<close>, \<open>query_schedules.go\<close>)\<close>

definition QueryRuns_Get :: "'w run_repository \<Rightarrow> run_id \<Rightarrow> ('w, app_error + run) state" where
  "QueryRuns_Get runs i = RunRepo_FindByID runs i"

definition QueryRuns_List :: "'w run_repository \<Rightarrow> run_filter \<Rightarrow> ('w, app_error + run list \<times> int) state" where
  "QueryRuns_List runs f = RunRepo_List runs f"

definition QueryDiffs_Get :: "'w diff_repository \<Rightarrow> diff_id \<Rightarrow> ('w, app_error + diff_record) state" where
  "QueryDiffs_Get diffs i = DiffRepo_FindByID diffs i"

definition QueryDiffs_List ::
  "'w diff_repository \<Rightarrow> diff_filter \<Rightarrow> ('w, app_error + diff_record list \<times> int) state" where
  "QueryDiffs_List diffs f = DiffRepo_List diffs f"

definition QueryDiffs_ByRun :: "'w diff_repository \<Rightarrow> run_id \<Rightarrow> ('w, app_error + diff_record list) state" where
  "QueryDiffs_ByRun diffs i = DiffRepo_FindByRun diffs i"

definition QuerySchedules_ListActive ::
  "'w schedule_repository \<Rightarrow> ('w, app_error + schedule_record list) state" where
  "QuerySchedules_ListActive schedules = ScheduleRepo_ListActive schedules"

end
