(* ===== verification/Serialize.thy ===== *)
theory Serialize
  imports Ports
begin

text \<open>
  The storage format of \<open>internal/infrastructure/persistence/serialize.go\<close>: triggers, strategies,
  plans, subjects and value snapshots as JSON. Writing and reading JSON text is the standard
  library's; the model works on JSON trees, with \<open>encoding/json\<close>'s rules for filling a struct: an
  absent key leaves the zero value, \<open>null\<close> does too (and is nil for a pointer or a slice), unknown
  keys are ignored, the last of several matching keys wins, and keys match up to letter case. A
  type with an \<open>UnmarshalJSON\<close> method decodes itself.
\<close>

section \<open>Decoding structs\<close>

text \<open>Decoders return \<open>None\<close> where \<open>json.Unmarshal\<close> returns an error.\<close>

definition asObject :: "json \<Rightarrow> (string \<times> json) list option" where
  "asObject j = (case j of JObj o' \<Rightarrow> Some o' | JNull \<Rightarrow> Some [] | _ \<Rightarrow> None)"

definition jget :: "string \<Rightarrow> (string \<times> json) list \<Rightarrow> json option" where
  "jget k obj = map_option snd (find (\<lambda>(n, _). ToLower n = ToLower k) (rev obj))"

definition fieldOr :: "'a \<Rightarrow> (json \<Rightarrow> 'a option) \<Rightarrow> string \<Rightarrow> (string \<times> json) list \<Rightarrow> 'a option" where
  "fieldOr zero dec k obj = (case jget k obj of None \<Rightarrow> Some zero | Some j \<Rightarrow> dec j)"

definition decString :: "json \<Rightarrow> string option" where
  "decString j = (case j of JStr s \<Rightarrow> Some s | JNull \<Rightarrow> Some [] | _ \<Rightarrow> None)"

definition decUint :: "json \<Rightarrow> uint64 option" where
  "decUint j = (case j of JNum lit \<Rightarrow> ParseUint 10 lit | JNull \<Rightarrow> Some 0 | _ \<Rightarrow> None)"

definition inInt64 :: "int \<Rightarrow> bool" where
  "inInt64 i \<longleftrightarrow> - (2 ^ 63) \<le> i \<and> i < 2 ^ 63"

text \<open>\<open>strconv.ParseInt(s, 10, 64)\<close>.\<close>

definition ParseInt :: "string \<Rightarrow> int option" where
  "ParseInt s =
     (case SetString 10 s of
        Some i \<Rightarrow> if inInt64 i then Some i else None
      | None \<Rightarrow> None)"

definition decInt64 :: "json \<Rightarrow> int option" where
  "decInt64 j =
     (case j of
        JNum lit \<Rightarrow> (case SetString 10 lit of
                       Some i \<Rightarrow> if inInt64 i then Some i else None
                     | None \<Rightarrow> None)
      | JNull \<Rightarrow> Some 0
      | _ \<Rightarrow> None)"

definition sumOption :: "'e + 'a \<Rightarrow> 'a option" where
  "sumOption x = (case x of Inl _ \<Rightarrow> None | Inr a \<Rightarrow> Some a)"

definition decBlockNumber :: "json \<Rightarrow> block_number option" where
  "decBlockNumber j = sumOption (BlockNumber_UnmarshalJSON j)"

definition decAddress :: "(string \<Rightarrow> byte list) \<Rightarrow> json \<Rightarrow> address option" where
  "decAddress keccak j = sumOption (Address_UnmarshalJSON keccak j)"

text \<open>A pointer field: \<open>null\<close> is nil, and nil is left out when encoding (\<open>omitempty\<close>).\<close>

definition decPtr :: "(json \<Rightarrow> 'a option) \<Rightarrow> json \<Rightarrow> 'a option option" where
  "decPtr dec j = (if j = JNull then Some None else map_option Some (dec j))"

fun decAll :: "(json \<Rightarrow> 'a option) \<Rightarrow> json list \<Rightarrow> 'a list option" where
  "decAll dec [] = Some []"
| "decAll dec (j # js) =
     (case dec j of
        None \<Rightarrow> None
      | Some x \<Rightarrow> map_option ((#) x) (decAll dec js))"

definition decSlice :: "(json \<Rightarrow> 'a option) \<Rightarrow> json \<Rightarrow> 'a list option" where
  "decSlice dec j = (case j of JArr js \<Rightarrow> decAll dec js | JNull \<Rightarrow> Some [] | _ \<Rightarrow> None)"

definition encUint :: "uint64 \<Rightarrow> json" where
  "encUint n = JNum (FormatNat 10 (unat n))"

definition encInt64 :: "int \<Rightarrow> json" where
  "encInt64 i = JNum (FormatInt 10 i)"

text \<open>A nil or empty slice: \<open>null\<close> for nil. The domain only hands over slices as lists, so an empty
  one may be written either way and is read back the same.\<close>

definition encSlice :: "('a \<Rightarrow> json) \<Rightarrow> 'a list \<Rightarrow> json" where
  "encSlice enc xs = JArr (map enc xs)"

section \<open>Triggers\<close>

fun marshalTrigger :: "trigger \<Rightarrow> json" where
  "marshalTrigger (ManualTrigger u) = JObj [(''user'', JStr u)]"
| "marshalTrigger (ScheduledTrigger c) = JObj [(''cron_expr'', JStr c)]"
| "marshalTrigger (RealtimeTrigger b) = JObj [(''block_number'', BlockNumber_MarshalJSON b)]"

definition unmarshalTrigger :: "string \<Rightarrow> json \<Rightarrow> persist_error + trigger" where
  "unmarshalTrigger kind data =
     (if kind = ''manual'' then
        (case Option.bind (asObject data) (fieldOr [] decString ''user'') of
           None \<Rightarrow> Inl (PDecode ''manual trigger'') | Some u \<Rightarrow> Inr (ManualTrigger u))
      else if kind = ''scheduled'' then
        (case Option.bind (asObject data) (fieldOr [] decString ''cron_expr'') of
           None \<Rightarrow> Inl (PDecode ''scheduled trigger'') | Some c \<Rightarrow> Inr (ScheduledTrigger c))
      else if kind = ''realtime'' then
        (case Option.bind (asObject data) (fieldOr 0 decBlockNumber ''block_number'') of
           None \<Rightarrow> Inl (PDecode ''realtime trigger'') | Some b \<Rightarrow> Inr (RealtimeTrigger b))
      else Inl (PUnknownKind ''trigger'' kind))"

section \<open>Strategies\<close>

definition encRange :: "block_range \<Rightarrow> json" where
  "encRange r = JObj [(''start'', BlockNumber_MarshalJSON (rStart r)),
                      (''end'', BlockNumber_MarshalJSON (rEnd r))]"

definition decRange :: "json \<Rightarrow> (block_number \<times> block_number) option" where
  "decRange j =
     (case asObject j of
        None \<Rightarrow> None
      | Some obj \<Rightarrow>
          (case (fieldOr 0 decBlockNumber ''start'' obj, fieldOr 0 decBlockNumber ''end'' obj) of
             (Some s, Some e) \<Rightarrow> Some (s, e)
           | _ \<Rightarrow> None))"

definition marshalStrategy :: "sampling_strategy option \<Rightarrow> persist_error + json" where
  "marshalStrategy s =
     (case s of
        None \<Rightarrow> Inl (PUnknownType ''strategy'')
      | Some (FixedList ns) \<Rightarrow> Inr (JObj [(''numbers'', encSlice BlockNumber_MarshalJSON ns)])
      | Some (LatestN n) \<Rightarrow> Inr (JObj [(''n'', encUint n)])
      | Some (Random r cnt seed) \<Rightarrow>
          Inr (JObj [(''range'', encRange r), (''count'', encUint cnt), (''seed'', encInt64 seed)])
      | Some (SparseSteps r step) \<Rightarrow> Inr (JObj [(''range'', encRange r), (''step'', encUint step)]))"

definition unmarshalStrategy :: "string \<Rightarrow> json \<Rightarrow> persist_error + sampling_strategy" where
  "unmarshalStrategy kind data =
     (if kind = ''fixed_list'' then
        (case Option.bind (asObject data) (fieldOr [] (decSlice decBlockNumber) ''numbers'') of
           None \<Rightarrow> Inl (PDecode ''fixed_list'') | Some ns \<Rightarrow> Inr (FixedList ns))
      else if kind = ''latest_n'' then
        (case Option.bind (asObject data) (fieldOr 0 decUint ''n'') of
           None \<Rightarrow> Inl (PDecode ''latest_n'') | Some n \<Rightarrow> Inr (LatestN n))
      else if kind = ''random'' then
        (case asObject data of
           None \<Rightarrow> Inl (PDecode ''random'')
         | Some obj \<Rightarrow>
             (case (fieldOr (0, 0) decRange ''range'' obj, fieldOr 0 decUint ''count'' obj,
                    fieldOr 0 decInt64 ''seed'' obj) of
                (Some (s, e), Some cnt, Some seed) \<Rightarrow>
                  (case NewBlockRange s e of
                     Inl _ \<Rightarrow> Inl (PRange ''random'')
                   | Inr br \<Rightarrow> Inr (Random br cnt seed))
              | _ \<Rightarrow> Inl (PDecode ''random'')))
      else if kind = ''sparse_steps'' then
        (case asObject data of
           None \<Rightarrow> Inl (PDecode ''sparse_steps'')
         | Some obj \<Rightarrow>
             (case (fieldOr (0, 0) decRange ''range'' obj, fieldOr 0 decUint ''step'' obj) of
                (Some (s, e), Some step) \<Rightarrow>
                  (case NewBlockRange s e of
                     Inl _ \<Rightarrow> Inl (PRange ''sparse_steps'')
                   | Inr br \<Rightarrow> Inr (SparseSteps br step))
              | _ \<Rightarrow> Inl (PDecode ''sparse_steps'')))
      else Inl (PUnknownKind ''strategy'' kind))"

section \<open>Address and token plans\<close>

fun marshalAddressPlanData :: "(string \<Rightarrow> byte list) \<Rightarrow> address_plan \<Rightarrow> json" where
  "marshalAddressPlanData keccak (KnownAddresses as) =
     JObj [(''addresses'', encSlice (Address_MarshalJSON keccak) as)]"
| "marshalAddressPlanData keccak (TopNHolders n) = JObj [(''n'', encUint n)]"
| "marshalAddressPlanData keccak (RandomAddresses cnt seed) =
     JObj [(''count'', encUint cnt), (''seed'', encInt64 seed)]"
| "marshalAddressPlanData keccak (RecentlyActive recent cnt seed) =
     JObj [(''recent_blocks'', encUint recent), (''count'', encUint cnt), (''seed'', encInt64 seed)]"

definition envelope :: "string \<Rightarrow> json \<Rightarrow> json" where
  "envelope kind data = JObj [(''kind'', JStr kind), (''data'', data)]"

text \<open>Marshalling a list of plans: the first nil entry is the error of its type switch.\<close>

fun marshalPlans :: "string \<Rightarrow> ('p \<Rightarrow> json) \<Rightarrow> 'p option list \<Rightarrow> persist_error + json list" where
  "marshalPlans what enc [] = Inr []"
| "marshalPlans what enc (p # ps) =
     (case p of
        None \<Rightarrow> Inl (PUnknownType what)
      | Some q \<Rightarrow> map_sum id ((#) (enc q)) (marshalPlans what enc ps))"

definition marshalAddressPlans ::
  "(string \<Rightarrow> byte list) \<Rightarrow> address_plan option list \<Rightarrow> persist_error + json" where
  "marshalAddressPlans keccak plans =
     (if length plans = 0 then Inr (JArr [])
      else map_sum id JArr
        (marshalPlans ''address plan''
           (\<lambda>p. envelope (AddressPlan_Kind p) (marshalAddressPlanData keccak p)) plans))"

definition unmarshalAddressPlan ::
  "(string \<Rightarrow> byte list) \<Rightarrow> string \<Rightarrow> json \<Rightarrow> persist_error + address_plan" where
  "unmarshalAddressPlan keccak kind data =
     (if kind = ''known'' then
        (case Option.bind (asObject data) (fieldOr [] (decSlice (decAddress keccak)) ''addresses'') of
           None \<Rightarrow> Inl (PDecode ''known addresses'') | Some as \<Rightarrow> Inr (KnownAddresses as))
      else if kind = ''top_n'' then
        (case Option.bind (asObject data) (fieldOr 0 decUint ''n'') of
           None \<Rightarrow> Inl (PDecode ''top_n_holders'') | Some n \<Rightarrow> Inr (TopNHolders n))
      else if kind = ''random'' then
        (case asObject data of
           None \<Rightarrow> Inl (PDecode ''random_addresses'')
         | Some obj \<Rightarrow>
             (case (fieldOr 0 decUint ''count'' obj, fieldOr 0 decInt64 ''seed'' obj) of
                (Some cnt, Some seed) \<Rightarrow> Inr (RandomAddresses cnt seed)
              | _ \<Rightarrow> Inl (PDecode ''random_addresses'')))
      else if kind = ''recently_active'' then
        (case asObject data of
           None \<Rightarrow> Inl (PDecode ''recently_active'')
         | Some obj \<Rightarrow>
             (case (fieldOr 0 decUint ''recent_blocks'' obj, fieldOr 0 decUint ''count'' obj,
                    fieldOr 0 decInt64 ''seed'' obj) of
                (Some recent, Some cnt, Some seed) \<Rightarrow> Inr (RecentlyActive recent cnt seed)
              | _ \<Rightarrow> Inl (PDecode ''recently_active'')))
      else Inl (PUnknownKind ''address plan'' kind))"

text \<open>An envelope: its kind, and its data as the raw JSON value, empty when the key is absent. Empty
  data is not a JSON value, so decoding it fails.\<close>

definition decEnvelope :: "json \<Rightarrow> (string \<times> json option) option" where
  "decEnvelope j =
     (case asObject j of
        None \<Rightarrow> None
      | Some obj \<Rightarrow> map_option (\<lambda>kind. (kind, jget ''data'' obj)) (fieldOr [] decString ''kind'' obj))"

fun unmarshalPlans ::
  "(string \<Rightarrow> json option \<Rightarrow> persist_error + 'p) \<Rightarrow> (string \<times> json option) list
   \<Rightarrow> persist_error + 'p list" where
  "unmarshalPlans dec [] = Inr []"
| "unmarshalPlans dec ((kind, data) # es) =
     (case dec kind data of
        Inl e \<Rightarrow> Inl e
      | Inr p \<Rightarrow> map_sum id ((#) p) (unmarshalPlans dec es))"

definition withData ::
  "string \<Rightarrow> string list \<Rightarrow> (string \<Rightarrow> json \<Rightarrow> persist_error + 'p) \<Rightarrow> string \<Rightarrow> json option
   \<Rightarrow> persist_error + 'p" where
  "withData what kinds dec kind data =
     (case data of
        Some d \<Rightarrow> dec kind d
      | None \<Rightarrow> if kind \<in> set kinds then Inl (PDecode kind) else Inl (PUnknownKind what kind))"

text \<open>The column: \<open>None\<close> is an empty value (SQL NULL).\<close>

definition unmarshalAddressPlans ::
  "(string \<Rightarrow> byte list) \<Rightarrow> json option \<Rightarrow> persist_error + address_plan list" where
  "unmarshalAddressPlans keccak data =
     (case data of
        None \<Rightarrow> Inr []
      | Some d \<Rightarrow>
          if d = JNull \<or> d = JArr [] then Inr []
          else (case decSlice decEnvelope d of
                  None \<Rightarrow> Inl (PDecode ''address plans'')
                | Some envs \<Rightarrow>
                    unmarshalPlans
                      (withData ''address plan'' [''known'', ''top_n'', ''random'', ''recently_active'']
                         (unmarshalAddressPlan keccak)) envs))"

fun marshalTokenPlanData :: "(string \<Rightarrow> byte list) \<Rightarrow> token_plan \<Rightarrow> json" where
  "marshalTokenPlanData keccak (KnownTokens ts) =
     JObj [(''tokens'', encSlice (Address_MarshalJSON keccak) ts)]"

definition marshalTokenPlans ::
  "(string \<Rightarrow> byte list) \<Rightarrow> token_plan option list \<Rightarrow> persist_error + json" where
  "marshalTokenPlans keccak plans =
     (if length plans = 0 then Inr (JArr [])
      else map_sum id JArr
        (marshalPlans ''token plan''
           (\<lambda>p. envelope (TokenPlan_Kind p) (marshalTokenPlanData keccak p)) plans))"

definition unmarshalTokenPlan ::
  "(string \<Rightarrow> byte list) \<Rightarrow> string \<Rightarrow> json \<Rightarrow> persist_error + token_plan" where
  "unmarshalTokenPlan keccak kind data =
     (if kind = ''known_tokens'' then
        (case Option.bind (asObject data) (fieldOr [] (decSlice (decAddress keccak)) ''tokens'') of
           None \<Rightarrow> Inl (PDecode ''known_tokens'') | Some ts \<Rightarrow> Inr (KnownTokens ts))
      else Inl (PUnknownKind ''token plan'' kind))"

definition unmarshalTokenPlans ::
  "(string \<Rightarrow> byte list) \<Rightarrow> json option \<Rightarrow> persist_error + token_plan list" where
  "unmarshalTokenPlans keccak data =
     (case data of
        None \<Rightarrow> Inr []
      | Some d \<Rightarrow>
          if d = JNull \<or> d = JArr [] then Inr []
          else (case decSlice decEnvelope d of
                  None \<Rightarrow> Inl (PDecode ''token plans'')
                | Some envs \<Rightarrow>
                    unmarshalPlans
                      (withData ''token plan'' [''known_tokens''] (unmarshalTokenPlan keccak)) envs))"

section \<open>Subjects\<close>

definition omitPtr :: "string \<Rightarrow> ('a \<Rightarrow> json) \<Rightarrow> 'a option \<Rightarrow> (string \<times> json) list" where
  "omitPtr k enc x = (case x of None \<Rightarrow> [] | Some v \<Rightarrow> [(k, enc v)])"

definition encSubject :: "(string \<Rightarrow> byte list) \<Rightarrow> subject \<Rightarrow> json" where
  "encSubject keccak s =
     JObj ([(''k'', JStr (sbKind s))]
           @ omitPtr ''b'' BlockNumber_MarshalJSON (sbBlock s)
           @ omitPtr ''a'' (Address_MarshalJSON keccak) (sbAddress s)
           @ omitPtr ''t'' (Address_MarshalJSON keccak) (sbToken s)
           @ (if sbName s = [] then [] else [(''n'', JStr (sbName s))]))"

definition decSubject :: "(string \<Rightarrow> byte list) \<Rightarrow> json \<Rightarrow> subject option" where
  "decSubject keccak j =
     (case asObject j of
        None \<Rightarrow> None
      | Some obj \<Rightarrow>
          (case (fieldOr [] decString ''k'' obj, fieldOr None (decPtr decBlockNumber) ''b'' obj,
                 fieldOr None (decPtr (decAddress keccak)) ''a'' obj,
                 fieldOr None (decPtr (decAddress keccak)) ''t'' obj,
                 fieldOr [] decString ''n'' obj) of
             (Some k, Some b, Some a, Some t, Some n) \<Rightarrow>
               Some \<lparr>sbKind = k, sbBlock = b, sbAddress = a, sbToken = t, sbName = n\<rparr>
           | _ \<Rightarrow> None))"

definition marshalSubjects :: "(string \<Rightarrow> byte list) \<Rightarrow> subject list \<Rightarrow> json" where
  "marshalSubjects keccak ss =
     (if length ss = 0 then JArr [] else JArr (map (encSubject keccak) ss))"

definition unmarshalSubjects ::
  "(string \<Rightarrow> byte list) \<Rightarrow> json option \<Rightarrow> persist_error + subject list" where
  "unmarshalSubjects keccak data =
     (case data of
        None \<Rightarrow> Inr []
      | Some d \<Rightarrow>
          if d = JNull \<or> d = JArr [] then Inr []
          else (case decSlice (decSubject keccak) d of
                  None \<Rightarrow> Inl (PDecode ''subjects'')
                | Some ss \<Rightarrow> Inr ss))"

section \<open>Value snapshots\<close>

text \<open>\<open>time.Time\<close> encodes itself in RFC 3339 form; the codec of the standard library is a pair of
  functions with the property that a written time is read back.\<close>

record time_codec =
  tcFormat :: "gotime \<Rightarrow> string"
  tcParse :: "string \<Rightarrow> gotime option"

definition decTime :: "time_codec \<Rightarrow> json \<Rightarrow> gotime option" where
  "decTime tc j = (case j of JStr s \<Rightarrow> tcParse tc s | JNull \<Rightarrow> Some 0 | _ \<Rightarrow> None)"

definition encSnapshot :: "time_codec \<Rightarrow> value_snapshot \<Rightarrow> json" where
  "encSnapshot tc v =
     JObj ([(''raw'', JStr (vsRaw v)), (''fetched_at'', JStr (tcFormat tc (vsFetchedAt v)))]
           @ omitPtr ''reflected_block'' BlockNumber_MarshalJSON (vsReflectedBlock v))"

definition decSnapshot :: "time_codec \<Rightarrow> json \<Rightarrow> value_snapshot option" where
  "decSnapshot tc j =
     (case asObject j of
        None \<Rightarrow> None
      | Some obj \<Rightarrow>
          (case (fieldOr [] decString ''raw'' obj, fieldOr 0 (decTime tc) ''fetched_at'' obj,
                 fieldOr None (decPtr decBlockNumber) ''reflected_block'' obj) of
             (Some raw, Some at, Some rb) \<Rightarrow>
               Some \<lparr>vsRaw = raw, vsTyped = None, vsFetchedAt = at, vsReflectedBlock = rb\<rparr>
           | _ \<Rightarrow> None))"

definition marshalValues :: "time_codec \<Rightarrow> snapshots \<Rightarrow> json" where
  "marshalValues tc vals = JObj (map (\<lambda>(sid, v). (sid, encSnapshot tc v)) (sort_key fst vals))"

text \<open>A JSON object read into a map: a repeated key overwrites.\<close>

fun decEntries :: "(json \<Rightarrow> 'a option) \<Rightarrow> (string \<times> json) list \<Rightarrow> (string, 'a) gomap option" where
  "decEntries dec [] = Some []"
| "decEntries dec ((k, j) # es) =
     (case dec j of
        None \<Rightarrow> None
      | Some x \<Rightarrow>
          map_option (\<lambda>m. if k \<in> fst ` set m then m else (k, x) # m) (decEntries dec es))"

definition unmarshalValues :: "time_codec \<Rightarrow> json \<Rightarrow> persist_error + snapshots" where
  "unmarshalValues tc data =
     (case Option.bind (asObject data) (decEntries (decSnapshot tc)) of
        None \<Rightarrow> Inl (PDecode ''values'')
      | Some vals \<Rightarrow> Inr vals)"

section \<open>Round trips\<close>

named_theorems json_rt

lemma jget_simps [json_rt]:
  "jget k [] = None"
  "jget k (obj @ [(n, j)]) = (if ToLower n = ToLower k then Some j else jget k obj)"
  by (simp_all add: jget_def)

lemma jget_Cons:
  "jget k ((n, j) # obj) =
     (case jget k obj of Some x \<Rightarrow> Some x | None \<Rightarrow> if ToLower n = ToLower k then Some j else None)"
proof -
  have "find P (xs @ [x]) = (case find P xs of Some y \<Rightarrow> Some y | None \<Rightarrow> if P x then Some x else None)"
    for P and xs :: "(string \<times> json) list" and x
    by (induction xs) auto
  then show ?thesis by (auto simp: jget_def split: option.splits)
qed

lemma decString_JStr [json_rt]: "decString (JStr s) = Some s"
  by (simp add: decString_def)

lemma decUint_encUint [json_rt]: "decUint (encUint n) = Some n"
  by (simp add: decUint_def encUint_def ParseUint_FormatNat)

lemma decInt64_encInt64 [json_rt]: "inInt64 i \<Longrightarrow> decInt64 (encInt64 i) = Some i"
  by (simp add: decInt64_def encInt64_def SetString_FormatInt)

lemma HasPrefix_0x_hex: "HasPrefix (BlockNumber_Hex b) ''0x''"
  by (simp add: BlockNumber_Hex_def)

lemma decBlockNumber_Marshal [json_rt]: "decBlockNumber (BlockNumber_MarshalJSON b) = Some b"
  using HasPrefix_0x_hex [of b]
  by (simp add: decBlockNumber_def sumOption_def BlockNumber_MarshalJSON_def
      BlockNumber_UnmarshalJSON_def BlockNumber_Hex_def ParseUint_FormatNat)

lemma decAddress_Marshal [json_rt]:
  "wfAddress a \<Longrightarrow> decAddress keccak (Address_MarshalJSON keccak a) = Some a"
proof -
  assume "wfAddress a"
  then have "NewAddress keccak (Address_Hex keccak a) = Inr a"
    by (simp add: NewAddress_iff Address_Hex_def eip55Hex_def wfAddress_def Let_def)
  then show ?thesis
    by (simp add: decAddress_def sumOption_def Address_MarshalJSON_def Address_UnmarshalJSON_def)
qed

lemma decAll_map: "(\<And>x. x \<in> set xs \<Longrightarrow> dec (enc x) = Some x) \<Longrightarrow> decAll dec (map enc xs) = Some xs"
  by (induction xs) auto

lemma decSlice_encSlice [json_rt]:
  "(\<And>x. x \<in> set xs \<Longrightarrow> dec (enc x) = Some x) \<Longrightarrow> decSlice dec (encSlice enc xs) = Some xs"
  by (simp add: decSlice_def encSlice_def decAll_map)

lemma asObject_JObj [json_rt]: "asObject (JObj obj) = Some obj"
  by (simp add: asObject_def)

lemma trigger_roundtrip: "unmarshalTrigger (Trigger_Kind t) (marshalTrigger t) = Inr t"
  by (cases t) (simp_all add: unmarshalTrigger_def fieldOr_def jget_Cons json_rt)

text \<open>The strategies and plans that the storage format can represent: their ranges are not
  inverted, their addresses are 20 bytes long and their seeds are \<open>int64\<close> values.\<close>

fun wfStrategy :: "sampling_strategy \<Rightarrow> bool" where
  "wfStrategy (Random r cnt seed) \<longleftrightarrow> rStart r \<le> rEnd r \<and> inInt64 seed"
| "wfStrategy (SparseSteps r step) \<longleftrightarrow> rStart r \<le> rEnd r"
| "wfStrategy _ \<longleftrightarrow> True"

fun wfAddressPlan :: "address_plan \<Rightarrow> bool" where
  "wfAddressPlan (KnownAddresses as) \<longleftrightarrow> (\<forall>a \<in> set as. wfAddress a)"
| "wfAddressPlan (RandomAddresses cnt seed) \<longleftrightarrow> inInt64 seed"
| "wfAddressPlan (RecentlyActive recent cnt seed) \<longleftrightarrow> inInt64 seed"
| "wfAddressPlan (TopNHolders n) \<longleftrightarrow> True"

fun wfTokenPlan :: "token_plan \<Rightarrow> bool" where
  "wfTokenPlan (KnownTokens ts) \<longleftrightarrow> (\<forall>t \<in> set ts. wfAddress t)"

definition wfSubject :: "subject \<Rightarrow> bool" where
  "wfSubject s \<longleftrightarrow> (\<forall>a \<in> set_option (sbAddress s) \<union> set_option (sbToken s). wfAddress a)"

lemma decRange_encRange [json_rt]: "decRange (encRange r) = Some (rStart r, rEnd r)"
  by (simp add: decRange_def encRange_def fieldOr_def jget_Cons json_rt ToLower_def lowerChar_def)

lemma strategy_roundtrip:
  assumes "wfStrategy s"
  shows "\<exists>j. marshalStrategy (Some s) = Inr j \<and> unmarshalStrategy (Strategy_Kind s) j = Inr s"
  using assms
  by (cases s)
    (auto simp: marshalStrategy_def unmarshalStrategy_def fieldOr_def jget_Cons json_rt
      ToLower_def lowerChar_def NewBlockRange_def)

lemma address_plan_roundtrip:
  "wfAddressPlan p \<Longrightarrow> unmarshalAddressPlan keccak (AddressPlan_Kind p) (marshalAddressPlanData keccak p) = Inr p"
  by (cases p)
    (auto simp: unmarshalAddressPlan_def fieldOr_def jget_Cons json_rt ToLower_def lowerChar_def)

lemma token_plan_roundtrip:
  "wfTokenPlan p \<Longrightarrow> unmarshalTokenPlan keccak (TokenPlan_Kind p) (marshalTokenPlanData keccak p) = Inr p"
  by (cases p) (auto simp: unmarshalTokenPlan_def fieldOr_def jget_Cons json_rt)

lemma decEnvelope_envelope [json_rt]: "decEnvelope (envelope k d) = Some (k, Some d)"
  by (simp add: decEnvelope_def envelope_def fieldOr_def jget_Cons json_rt ToLower_def lowerChar_def)

lemma marshalPlans_Some: "marshalPlans what enc (map Some ps) = Inr (map enc ps)"
  by (induction ps) auto

lemma unmarshalPlans_map:
  "(\<And>p. p \<in> set ps \<Longrightarrow> dec (k p) (Some (d p)) = Inr p) \<Longrightarrow>
     unmarshalPlans dec (map (\<lambda>p. (k p, Some (d p))) ps) = Inr ps"
  by (induction ps) auto

lemma decAll_envelopes: "decAll decEnvelope (map (\<lambda>p. envelope (k p) (d p)) ps) = Some (map (\<lambda>p. (k p, Some (d p))) ps)"
  by (induction ps) (auto simp: json_rt)

lemma address_plans_roundtrip:
  assumes "\<forall>p \<in> set ps. wfAddressPlan p"
  shows "\<exists>j. marshalAddressPlans keccak (map Some ps) = Inr j \<and> unmarshalAddressPlans keccak (Some j) = Inr ps"
proof (cases "ps = []")
  case False
  have "unmarshalPlans (withData what kinds (unmarshalAddressPlan keccak))
      (map (\<lambda>p. (AddressPlan_Kind p, Some (marshalAddressPlanData keccak p))) ps) = Inr ps" for what kinds
    using assms address_plan_roundtrip by (intro unmarshalPlans_map) (auto simp: withData_def)
  with False show ?thesis
    by (simp add: marshalAddressPlans_def unmarshalAddressPlans_def marshalPlans_Some decSlice_def decAll_envelopes)
qed (simp add: marshalAddressPlans_def unmarshalAddressPlans_def)

lemma token_plans_roundtrip:
  assumes "\<forall>p \<in> set ps. wfTokenPlan p"
  shows "\<exists>j. marshalTokenPlans keccak (map Some ps) = Inr j \<and> unmarshalTokenPlans keccak (Some j) = Inr ps"
proof (cases "ps = []")
  case False
  have "unmarshalPlans (withData what kinds (unmarshalTokenPlan keccak))
      (map (\<lambda>p. (TokenPlan_Kind p, Some (marshalTokenPlanData keccak p))) ps) = Inr ps" for what kinds
    using assms token_plan_roundtrip by (intro unmarshalPlans_map) (auto simp: withData_def)
  with False show ?thesis
    by (simp add: marshalTokenPlans_def unmarshalTokenPlans_def marshalPlans_Some decSlice_def decAll_envelopes)
qed (simp add: marshalTokenPlans_def unmarshalTokenPlans_def)

lemma decPtr_Some [json_rt]: "dec (enc x) = Some x \<Longrightarrow> enc x \<noteq> JNull \<Longrightarrow> decPtr dec (enc x) = Some (Some x)"
  by (simp add: decPtr_def)

lemma enc_not_null [json_rt]:
  "BlockNumber_MarshalJSON b \<noteq> JNull" "Address_MarshalJSON keccak a \<noteq> JNull"
  by (simp_all add: BlockNumber_MarshalJSON_def Address_MarshalJSON_def)

lemma subject_roundtrip: "wfSubject s \<Longrightarrow> decSubject keccak (encSubject keccak s) = Some s"
  by (cases s)
    (auto simp: decSubject_def encSubject_def fieldOr_def jget_Cons json_rt ToLower_def lowerChar_def
      omitPtr_def wfSubject_def split: option.splits)

lemma subjects_roundtrip:
  assumes "\<forall>s \<in> set ss. wfSubject s"
  shows "unmarshalSubjects keccak (Some (marshalSubjects keccak ss)) = Inr ss"
  using assms subject_roundtrip decAll_map [of ss "decSubject keccak" "encSubject keccak"]
  by (simp add: marshalSubjects_def unmarshalSubjects_def decSlice_def)

lemma snapshot_roundtrip:
  assumes "tcParse tc (tcFormat tc (vsFetchedAt v)) = Some (vsFetchedAt v)" "vsTyped v = None"
  shows "decSnapshot tc (encSnapshot tc v) = Some v"
  using assms
  by (cases v)
    (auto simp: decSnapshot_def encSnapshot_def fieldOr_def jget_Cons json_rt ToLower_def lowerChar_def
      omitPtr_def decTime_def split: option.splits)

lemma decEntries_map:
  "distinct (map fst vals) \<Longrightarrow> (\<And>v. v \<in> snd ` set vals \<Longrightarrow> dec (enc v) = Some v) \<Longrightarrow>
     decEntries dec (map (\<lambda>(k, v). (k, enc v)) vals) = Some vals"
proof (induction vals)
  case (Cons e vals)
  then have "decEntries dec (map (\<lambda>(k, v). (k, enc v)) vals) = Some vals" by simp
  then show ?case using Cons.prems by (cases e) (auto simp: image_iff)
qed simp

lemma values_roundtrip:
  assumes "\<forall>v \<in> snd ` set vals. tcParse tc (tcFormat tc (vsFetchedAt v)) = Some (vsFetchedAt v)"
    and "\<forall>v \<in> snd ` set vals. vsTyped v = None"
    and "distinct (map fst vals)"
  shows "unmarshalValues tc (marshalValues tc vals) = Inr (sort_key fst vals)"
proof -
  have "distinct (map fst (sort_key fst vals))" using assms(3) distinct_keys_mset [of "sort_key fst vals" vals] by simp
  then have "decEntries (decSnapshot tc) (map (\<lambda>(k, v). (k, encSnapshot tc v)) (sort_key fst vals)) =
      Some (sort_key fst vals)"
    using assms(1,2) snapshot_roundtrip by (intro decEntries_map) auto
  then show ?thesis by (simp add: unmarshalValues_def marshalValues_def asObject_def)
qed

end
