(* ===== verification/Mapper.thy ===== *)
theory Mapper
  imports Serialize
begin

text \<open>
  Rows and their mapping to the domain (\<open>models.go\<close>, \<open>mapper.go\<close> of
  \<open>internal/infrastructure/persistence\<close>). A JSONB column is a JSON tree, \<open>None\<close> for an empty one; a
  BIGINT column is an \<open>int64\<close>, to which block heights are converted by reinterpretation.
\<close>

section \<open>Rows (\<open>models.go\<close>)\<close>

record run_model =
  rmID :: string
  rmChainID :: uint64
  rmStatus :: string
  rmTriggerType :: string
  rmTriggerData :: json
  rmStrategyKind :: string
  rmStrategyData :: json
  rmAddressPlans :: "json option"
  rmTokenPlans :: "json option"
  rmMetrics :: "string list"
  rmErrorMsg :: string
  rmCreatedAt :: gotime
  rmStartedAt :: "gotime option"
  rmFinishedAt :: "gotime option"
  rmAnchorBlock :: "int option"
  rmSubjects :: "json option"
  rmSourcesUsed :: "string list"
  rmComparisonsCount :: int

record diff_model =
  dmID :: int
  dmRunID :: string
  dmMetricKey :: string
  dmMetricCategory :: string
  dmBlockNumber :: int
  dmSubjectType :: string
  dmSubjectAddr :: "byte list"
  dmValues :: json
  dmSeverity :: string
  dmTrustedSources :: "string list"
  dmReasoning :: string
  dmResolved :: bool
  dmResolvedAt :: "gotime option"
  dmDetectedAt :: gotime
  dmTier :: "int option"
  dmAnchorBlock :: "int option"
  dmSamplingSeed :: "int option"

record schedule_model =
  smJobID :: string
  smChainID :: uint64
  smCronExpr :: string
  smTimezone :: string
  smStrategyKind :: string
  smStrategyData :: json
  smAddressPlans :: "json option"
  smTokenPlans :: "json option"
  smMetrics :: "string list"
  smActive :: bool
  smCreatedAt :: gotime

section \<open>Mapping (\<open>mapper.go\<close>)\<close>

definition metricByKey :: "string \<rightharpoonup> metric" where
  "metricByKey = foldl (\<lambda>out m. out(mKey m \<mapsto> m)) Map.empty AllMetrics"

definition int64OfBlock :: "block_number \<Rightarrow> int" where
  "int64OfBlock b = sint b"

definition blockOfInt64 :: "int \<Rightarrow> block_number" where
  "blockOfInt64 i = word_of_int i"

definition toRunModel :: "(string \<Rightarrow> byte list) \<Rightarrow> run \<Rightarrow> persist_error + run_model" where
  "toRunModel keccak r =
     (let trigData = marshalTrigger (runTrigger r) in
      case marshalStrategy (Some (runStrategy r)) of Inl e \<Rightarrow> Inl e | Inr stratData \<Rightarrow>
      (case marshalAddressPlans keccak (map Some (runAddressPlans r)) of Inl e \<Rightarrow> Inl e | Inr addrData \<Rightarrow>
      (case marshalTokenPlans keccak (map Some (runTokenPlans r)) of Inl e \<Rightarrow> Inl e | Inr tokenData \<Rightarrow>
        let keys = map mKey (runMetrics r);
            summary = Run_Summary r;
            subjectsData = marshalSubjects keccak (rsSubjects summary)
        in Inr \<lparr>rmID = runId r, rmChainID = runChainID r, rmStatus = runStatus r,
                rmTriggerType = Trigger_Kind (runTrigger r), rmTriggerData = trigData,
                rmStrategyKind = Strategy_Kind (runStrategy r), rmStrategyData = stratData,
                rmAddressPlans = Some addrData, rmTokenPlans = Some tokenData, rmMetrics = keys,
                rmErrorMsg = runErrorMsg r, rmCreatedAt = runCreatedAt r,
                rmStartedAt = runStartedAt r, rmFinishedAt = runFinishedAt r,
                rmAnchorBlock = map_option int64OfBlock (rsAnchorBlock summary),
                rmSubjects = Some subjectsData, rmSourcesUsed = rsSourcesUsed summary,
                rmComparisonsCount = rsComparisonsCount summary\<rparr>)))"

fun metricsOfKeys :: "string list \<Rightarrow> persist_error + metric list" where
  "metricsOfKeys [] = Inr []"
| "metricsOfKeys (k # ks) =
     (case metricByKey k of
        None \<Rightarrow> Inl (PUnknownMetric k)
      | Some m \<Rightarrow> map_sum id ((#) m) (metricsOfKeys ks))"

definition toRun :: "(string \<Rightarrow> byte list) \<Rightarrow> run_model \<Rightarrow> persist_error + run" where
  "toRun keccak m =
     (case unmarshalTrigger (rmTriggerType m) (rmTriggerData m) of Inl e \<Rightarrow> Inl e | Inr trig \<Rightarrow>
     (case unmarshalStrategy (rmStrategyKind m) (rmStrategyData m) of Inl e \<Rightarrow> Inl e | Inr strat \<Rightarrow>
     (case unmarshalAddressPlans keccak (rmAddressPlans m) of Inl e \<Rightarrow> Inl e | Inr addressPlans \<Rightarrow>
     (case unmarshalTokenPlans keccak (rmTokenPlans m) of Inl e \<Rightarrow> Inl e | Inr tokenPlans \<Rightarrow>
     (case metricsOfKeys (rmMetrics m) of Inl e \<Rightarrow> Inl e | Inr metrics \<Rightarrow>
     (case unmarshalSubjects keccak (rmSubjects m) of Inl e \<Rightarrow> Inl e | Inr subjects \<Rightarrow>
        let summary = \<lparr>rsAnchorBlock = map_option blockOfInt64 (rmAnchorBlock m), rsSubjects = subjects,
                       rsSourcesUsed = rmSourcesUsed m, rsComparisonsCount = rmComparisonsCount m\<rparr>
        in map_sum PRun id
             (Rehydrate (rmID m) (rmChainID m) (Some strat) metrics (Some trig) (rmStatus m)
                (rmCreatedAt m) (rmStartedAt m) (rmFinishedAt m) (rmErrorMsg m)
                addressPlans tokenPlans summary)))))))"

definition toDiffModel ::
  "time_codec \<Rightarrow> discrepancy \<Rightarrow> judgement \<Rightarrow> save_diff_meta \<Rightarrow> diff_model" where
  "toDiffModel tc d j meta =
     (let tier0 = uint (sdTier meta);
          tier = (if tier0 = 0 then uint (Capability_Tier (mCapability (dMetric d))) else tier0)
      in \<lparr>dmID = 0, dmRunID = dRunID d, dmMetricKey = mKey (dMetric d),
          dmMetricCategory = mCategory (dMetric d), dmBlockNumber = int64OfBlock (dBlock d),
          dmSubjectType = dsType (dSubject d),
          dmSubjectAddr = (case dsAddress (dSubject d) of None \<Rightarrow> [] | Some a \<Rightarrow> a),
          dmValues = marshalValues tc (dValues d), dmSeverity = jSeverity j,
          dmTrustedSources = jTrustedSources j, dmReasoning = jReasoning j,
          dmResolved = False, dmResolvedAt = None, dmDetectedAt = dDetectedAt d,
          dmTier = (if tier \<noteq> 0 then Some tier else None),
          dmAnchorBlock = (if sdAnchorBlock meta \<noteq> 0 then Some (int64OfBlock (sdAnchorBlock meta)) else None),
          dmSamplingSeed = sdSamplingSeed meta\<rparr>)"

definition toDiffRecord :: "time_codec \<Rightarrow> diff_model \<Rightarrow> persist_error + diff_record" where
  "toDiffRecord tc m =
     (case unmarshalValues tc (dmValues m) of Inl e \<Rightarrow> Inl e | Inr vals \<Rightarrow>
      (let subj = \<lparr>dsType = dmSubjectType m,
                   dsAddress = (if length (dmSubjectAddr m) = 20 then Some (dmSubjectAddr m) else None)\<rparr>
       in case metricByKey (dmMetricKey m) of
            None \<Rightarrow> Inl (PUnknownMetric (dmMetricKey m))
          | Some metric \<Rightarrow> Inr
              \<lparr>drID = FormatInt 10 (dmID m),
               drDiscrepancy =
                 \<lparr>dRunID = dmRunID m, dMetric = metric, dBlock = blockOfInt64 (dmBlockNumber m),
                  dSubject = subj, dValues = vals, dDetectedAt = dmDetectedAt m\<rparr>,
               drJudgement =
                 \<lparr>jSeverity = dmSeverity m, jTrustedSources = dmTrustedSources m,
                  jReasoning = dmReasoning m\<rparr>,
               drResolved = dmResolved m, drResolvedAt = dmResolvedAt m,
               drTier = (case dmTier m of
                           Some t \<Rightarrow> if 0 \<le> t \<and> t \<le> 255 then word_of_int t else 0
                         | None \<Rightarrow> 0),
               drAnchorBlock = (case dmAnchorBlock m of Some a \<Rightarrow> blockOfInt64 a | None \<Rightarrow> 0),
               drSamplingSeed = dmSamplingSeed m\<rparr>))"

definition toScheduleModel ::
  "(string \<Rightarrow> byte list) \<Rightarrow> schedule_record \<Rightarrow> persist_error + schedule_model" where
  "toScheduleModel keccak s =
     (case marshalStrategy (srStrategy s) of Inl e \<Rightarrow> Inl e | Inr stratData \<Rightarrow>
     (case marshalAddressPlans keccak (srAddressPlans s) of Inl e \<Rightarrow> Inl e | Inr addrData \<Rightarrow>
     (case marshalTokenPlans keccak (srTokenPlans s) of Inl e \<Rightarrow> Inl e | Inr tokenData \<Rightarrow>
        Inr \<lparr>smJobID = srJobID s, smChainID = srChainID s,
             smCronExpr = schCronExpr (srSchedule s),
             smTimezone = (case schTimezone (srSchedule s) of None \<Rightarrow> ''UTC'' | Some tz \<Rightarrow> tz),
             smStrategyKind = Strategy_Kind (the (srStrategy s)), smStrategyData = stratData,
             smAddressPlans = Some addrData, smTokenPlans = Some tokenData,
             smMetrics = map mKey (srMetrics s), smActive = srActive s,
             smCreatedAt = srCreatedAt s\<rparr>)))"

definition toScheduleRecord ::
  "(string \<Rightarrow> byte list) \<Rightarrow> (string \<Rightarrow> string option) \<Rightarrow> schedule_model
   \<Rightarrow> persist_error + schedule_record" where
  "toScheduleRecord keccak loadLocation m =
     (case NewSchedule loadLocation (smCronExpr m) (smTimezone m) of Inl e \<Rightarrow> Inl (PSchedule e) | Inr sch \<Rightarrow>
     (case unmarshalStrategy (smStrategyKind m) (smStrategyData m) of Inl e \<Rightarrow> Inl e | Inr strat \<Rightarrow>
     (case unmarshalAddressPlans keccak (smAddressPlans m) of Inl e \<Rightarrow> Inl e | Inr addressPlans \<Rightarrow>
     (case unmarshalTokenPlans keccak (smTokenPlans m) of Inl e \<Rightarrow> Inl e | Inr tokenPlans \<Rightarrow>
     (case metricsOfKeys (smMetrics m) of Inl e \<Rightarrow> Inl e | Inr metrics \<Rightarrow>
        Inr \<lparr>srJobID = smJobID m, srChainID = smChainID m, srSchedule = sch,
             srStrategy = Some strat, srMetrics = metrics,
             srAddressPlans = map Some addressPlans, srTokenPlans = map Some tokenPlans,
             srCreatedAt = smCreatedAt m, srActive = smActive m\<rparr>)))))"

section \<open>The catalog index\<close>

lemma metricByKey_map_of: "metricByKey = map_of (map (\<lambda>m. (mKey m, m)) AllMetrics)"
proof -
  have "foldl (\<lambda>out m. out(mKey m \<mapsto> m)) acc ms = acc ++ map_of (map (\<lambda>m. (mKey m, m)) ms)"
    if "distinct (map mKey ms)" for acc :: "string \<rightharpoonup> metric" and ms
    using that
  proof (induction ms arbitrary: acc)
    case (Cons m ms)
    then have "map_of (map (\<lambda>m. (mKey m, m)) ms) (mKey m) = None"
      by (auto simp: map_of_eq_None_iff)
    with Cons show ?case by (auto simp: map_add_def fun_eq_iff split: option.splits)
  qed simp
  from this [OF AllMetrics_keys_distinct, of Map.empty] show ?thesis by (simp add: metricByKey_def)
qed

lemma metricByKey_iff: "metricByKey k = Some m \<longleftrightarrow> m \<in> set AllMetrics \<and> mKey m = k"
proof -
  have "distinct (map fst (map (\<lambda>m. (mKey m, m)) AllMetrics))"
    using AllMetrics_keys_distinct by (simp add: comp_def)
  from map_of_eq_Some_iff [OF this] show ?thesis by (auto simp: metricByKey_map_of)
qed

lemma metricsOfKeys_map: "set ms \<subseteq> set AllMetrics \<Longrightarrow> metricsOfKeys (map mKey ms) = Inr ms"
proof (induction ms)
  case (Cons m ms)
  then have "metricByKey (mKey m) = Some m" by (simp add: metricByKey_iff)
  with Cons show ?case by simp
qed simp

lemma metricsOfKeys_catalog: "metricsOfKeys ks = Inr ms \<Longrightarrow> set ms \<subseteq> set AllMetrics"
  by (induction ks arbitrary: ms) (auto simp: metricByKey_iff Inr_map_sum split: option.splits)

section \<open>What can be stored\<close>

text \<open>The runs the schema represents: structurally valid, on catalog metrics, with ranges, seeds and
  addresses of the right shape.\<close>

definition representable :: "run \<Rightarrow> bool" where
  "representable r \<longleftrightarrow>
     runId r \<noteq> [] \<and> runChainID r \<noteq> 0 \<and> runMetrics r \<noteq> [] \<and> runStatus r \<noteq> [] \<and>
     set (runMetrics r) \<subseteq> set AllMetrics \<and> wfStrategy (runStrategy r) \<and>
     (\<forall>p \<in> set (runAddressPlans r). wfAddressPlan p) \<and> (\<forall>p \<in> set (runTokenPlans r). wfTokenPlan p) \<and>
     (\<forall>s \<in> set (rsSubjects (runSummary r)). wfSubject s)"

text \<open>A database may keep timestamps at a coarser resolution: \<open>dbTime\<close> is what a time reads back as.\<close>

definition storedRow :: "(gotime \<Rightarrow> gotime) \<Rightarrow> run_model \<Rightarrow> run_model" where
  "storedRow dbTime m =
     m\<lparr>rmCreatedAt := dbTime (rmCreatedAt m), rmStartedAt := map_option dbTime (rmStartedAt m),
       rmFinishedAt := map_option dbTime (rmFinishedAt m)\<rparr>"

definition storedRun :: "(gotime \<Rightarrow> gotime) \<Rightarrow> run \<Rightarrow> run" where
  "storedRun dbTime r =
     r\<lparr>runCreatedAt := dbTime (runCreatedAt r), runStartedAt := map_option dbTime (runStartedAt r),
       runFinishedAt := map_option dbTime (runFinishedAt r)\<rparr>"

lemma blockOfInt64_int64OfBlock [simp]: "blockOfInt64 (int64OfBlock b) = b"
  by (simp add: blockOfInt64_def int64OfBlock_def)

lemma run_row_roundtrip:
  assumes "representable r"
  shows "\<exists>m. toRunModel keccak r = Inr m \<and> rmID m = runId r \<and>
    toRun keccak (storedRow dbTime m) = Inr (storedRun dbTime r)"
proof -
  obtain strat addrs toks where
    s: "marshalStrategy (Some (runStrategy r)) = Inr strat"
      "unmarshalStrategy (Strategy_Kind (runStrategy r)) strat = Inr (runStrategy r)" and
    a: "marshalAddressPlans keccak (map Some (runAddressPlans r)) = Inr addrs"
      "unmarshalAddressPlans keccak (Some addrs) = Inr (runAddressPlans r)" and
    t: "marshalTokenPlans keccak (map Some (runTokenPlans r)) = Inr toks"
      "unmarshalTokenPlans keccak (Some toks) = Inr (runTokenPlans r)"
    using assms strategy_roundtrip address_plans_roundtrip token_plans_roundtrip
    unfolding representable_def by metis
  have sub: "unmarshalSubjects keccak (Some (marshalSubjects keccak (rsSubjects (runSummary r)))) =
      Inr (rsSubjects (runSummary r))"
    using assms by (intro subjects_roundtrip) (simp add: representable_def)
  have anc: "map_option (blockOfInt64 \<circ> int64OfBlock) x = x" for x by (cases x) simp_all
  show ?thesis
    using assms
    by (cases r)
      (use s a t sub in \<open>simp add: toRunModel_def toRun_def storedRow_def storedRun_def Let_def
        trigger_roundtrip metricsOfKeys_map Rehydrate_def representable_def Run_Summary_def
        option.map_comp anc\<close>)
qed

lemma decAddress_wf: "decAddress keccak j = Some a \<Longrightarrow> wfAddress a"
proof -
  assume "decAddress keccak j = Some a"
  then obtain s where "NewAddress keccak s = Inr a"
    by (auto simp: decAddress_def sumOption_def Address_UnmarshalJSON_def split: sum.splits json.splits)
  then have "length s = 42" "hexDecode (drop 2 s) = Some a" by (auto simp: NewAddress_iff)
  then show ?thesis using hexDecode_length [of "drop 2 s" a] by (simp add: wfAddress_def)
qed

lemma decAll_elem: "decAll dec js = Some xs \<Longrightarrow> x \<in> set xs \<Longrightarrow> \<exists>j \<in> set js. dec j = Some x"
  by (induction js arbitrary: xs) (auto split: option.splits)

lemma decSlice_wf: "decSlice (decAddress keccak) j = Some as \<Longrightarrow> a \<in> set as \<Longrightarrow> wfAddress a"
  by (auto simp: decSlice_def split: json.splits dest!: decAll_elem decAddress_wf)

lemma fieldOr_wf: "fieldOr zero dec k obj = Some x \<Longrightarrow> x = zero \<or> (\<exists>j. dec j = Some x)"
  by (auto simp: fieldOr_def split: option.splits)

lemma decInt64_in: "fieldOr 0 decInt64 k obj = Some i \<Longrightarrow> inInt64 i"
  by (auto dest!: fieldOr_wf simp: decInt64_def inInt64_def split: json.splits option.splits if_splits)

lemma unmarshalStrategy_wf: "unmarshalStrategy kind data = Inr s \<Longrightarrow> wfStrategy s"
  by (auto simp: unmarshalStrategy_def NewBlockRange_def dest!: decInt64_in
      split: if_splits option.splits prod.splits)

lemma unmarshalAddressPlan_wf: "unmarshalAddressPlan keccak kind data = Inr p \<Longrightarrow> wfAddressPlan p"
  by (auto simp: unmarshalAddressPlan_def Option.bind_eq_Some_conv dest!: decInt64_in
      split: if_splits option.splits prod.splits)
    (metis decSlice_wf empty_iff fieldOr_wf list.set(1))

lemma unmarshalTokenPlan_wf: "unmarshalTokenPlan keccak kind data = Inr p \<Longrightarrow> wfTokenPlan p"
  by (auto simp: unmarshalTokenPlan_def Option.bind_eq_Some_conv split: if_splits option.splits)
    (metis decSlice_wf empty_iff fieldOr_wf list.set(1))

lemma unmarshalPlans_wf:
  "unmarshalPlans dec es = Inr ps \<Longrightarrow> (\<And>k d p. dec k d = Inr p \<Longrightarrow> W p) \<Longrightarrow> \<forall>p \<in> set ps. W p"
  by (induction es arbitrary: ps) (auto simp: Inr_map_sum split: sum.splits prod.splits)

lemma unmarshalAddressPlans_wf: "unmarshalAddressPlans keccak data = Inr ps \<Longrightarrow> \<forall>p \<in> set ps. wfAddressPlan p"
  by (auto simp: unmarshalAddressPlans_def withData_def split: option.splits if_splits
      dest!: unmarshalPlans_wf [where W = wfAddressPlan] intro: unmarshalAddressPlan_wf)

lemma unmarshalTokenPlans_wf: "unmarshalTokenPlans keccak data = Inr ps \<Longrightarrow> \<forall>p \<in> set ps. wfTokenPlan p"
  by (auto simp: unmarshalTokenPlans_def withData_def split: option.splits if_splits
      dest!: unmarshalPlans_wf [where W = wfTokenPlan] intro: unmarshalTokenPlan_wf)

lemma decPtr_wf: "fieldOr None (decPtr (decAddress keccak)) k obj = Some (Some a) \<Longrightarrow> wfAddress a"
  by (auto dest!: fieldOr_wf simp: decPtr_def split: if_splits dest: decAddress_wf)

lemma decSubject_wf: "decSubject keccak j = Some s \<Longrightarrow> wfSubject s"
  by (auto simp: decSubject_def wfSubject_def split: option.splits dest!: decPtr_wf)

lemma unmarshalSubjects_wf: "unmarshalSubjects keccak data = Inr ss \<Longrightarrow> \<forall>s \<in> set ss. wfSubject s"
  by (auto simp: unmarshalSubjects_def decSlice_def split: option.splits if_splits json.splits
      dest!: decAll_elem decSubject_wf)

text \<open>Whatever a row decodes to can be stored again.\<close>

lemma toRun_representable:
  assumes "toRun keccak m = Inr r"
  shows "representable r \<and> runId r = rmID m"
proof -
  from assms obtain strat addrs toks metrics subs where
    "unmarshalStrategy (rmStrategyKind m) (rmStrategyData m) = Inr strat"
    "unmarshalAddressPlans keccak (rmAddressPlans m) = Inr addrs"
    "unmarshalTokenPlans keccak (rmTokenPlans m) = Inr toks"
    "metricsOfKeys (rmMetrics m) = Inr metrics"
    "unmarshalSubjects keccak (rmSubjects m) = Inr subs"
    "runStrategy r = strat" "runAddressPlans r = addrs" "runTokenPlans r = toks"
    "runMetrics r = metrics" "rsSubjects (runSummary r) = subs" "runId r = rmID m" "rmID m \<noteq> []"
    "runChainID r \<noteq> 0" "runMetrics r \<noteq> []" "runStatus r \<noteq> []"
    by (auto simp: toRun_def Let_def Rehydrate_def Inr_map_sum split: sum.splits if_splits)
  then show ?thesis
    using unmarshalStrategy_wf unmarshalAddressPlans_wf unmarshalTokenPlans_wf metricsOfKeys_catalog
      unmarshalSubjects_wf
    unfolding representable_def by metis
qed

text \<open>A stored diff, read back.\<close>

lemma diff_row_roundtrip:
  assumes codec: "\<forall>v \<in> snd ` set (dValues d). tcParse tc (tcFormat tc (vsFetchedAt v)) = Some (vsFetchedAt v)"
    and "dMetric d \<in> set AllMetrics" and "distinct (map fst (dValues d))"
    and "\<forall>v \<in> snd ` set (dValues d). vsTyped v = None"
    and "\<forall>a \<in> set_option (dsAddress (dSubject d)). wfAddress a"
  shows "toDiffRecord tc ((toDiffModel tc d j meta)\<lparr>dmID := n\<rparr>) = Inr
    \<lparr>drID = FormatInt 10 n, drDiscrepancy = d\<lparr>dValues := sort_key fst (dValues d)\<rparr>, drJudgement = j,
     drResolved = False, drResolvedAt = None,
     drTier = (if sdTier meta = 0 then Capability_Tier (mCapability (dMetric d)) else sdTier meta),
     drAnchorBlock = sdAnchorBlock meta, drSamplingSeed = sdSamplingSeed meta\<rparr>"
proof -
  have key: "metricByKey (mKey (dMetric d)) = Some (dMetric d)" using assms(2) by (simp add: metricByKey_iff)
  have vals: "unmarshalValues tc (marshalValues tc (dValues d)) = Inr (sort_key fst (dValues d))"
    by (rule values_roundtrip [OF codec assms(4,3)])
  have tier: "word_of_int (uint t) = t" "0 \<le> uint t" "uint t \<le> 255" "uint t = 0 \<longleftrightarrow> t = 0" for t :: tier
    using unsigned_less [of t, where 'a = int] by (auto simp: unsigned_eq_0_iff)
  show ?thesis
  proof (cases "dsAddress (dSubject d)")
    case None
    then have "dSubject d = \<lparr>dsType = dsType (dSubject d), dsAddress = None\<rparr>" by simp
    then obtain ty where "dSubject d = \<lparr>dsType = ty, dsAddress = None\<rparr>" by blast
    then show ?thesis
      by (cases d) (use key vals tier in \<open>auto simp: toDiffRecord_def toDiffModel_def Let_def\<close>)
  next
    case (Some a)
    then have "dSubject d = \<lparr>dsType = dsType (dSubject d), dsAddress = Some a\<rparr>" by simp
    then obtain ty where "dSubject d = \<lparr>dsType = ty, dsAddress = Some a\<rparr>" by blast
    moreover have "length a = 20" using assms(5) Some by (simp add: wfAddress_def)
    ultimately show ?thesis
      by (cases d) (use key vals tier in \<open>auto simp: toDiffRecord_def toDiffModel_def Let_def\<close>)
  qed
qed

section \<open>Properties\<close>

text \<open>
  Property C39. Storing loses nothing of a run: every run on catalog metrics, in any status,
  whose seeds, ranges and addresses have the shape Go's types and constructors give them, is
  encoded without error, and the row (with its times at the database's resolution) decodes to
  the run with exactly those times.
\<close>

theorem run_storage_roundtrip:
  assumes "representable r"
  shows "\<exists>m. toRunModel keccak r = Inr m \<and> toRun keccak (storedRow dbTime m) = Inr (storedRun dbTime r)"
  using run_row_roundtrip [OF assms] by blast

theorem run_storage_roundtrip_witness:
  "\<exists>m. toRunModel (\<lambda>_. replicate 32 0) sampleRun = Inr m \<and>
     toRun (\<lambda>_. replicate 32 0) (storedRow (\<lambda>t. t div 1000 * 1000) m) =
       Inr (storedRun (\<lambda>t. t div 1000 * 1000) sampleRun)"
  by (rule run_storage_roundtrip)
    (simp add: representable_def sampleRun_def status_defs AllMetrics_def zeroSummary_def)

text \<open>
  Storing loses nothing of a diff either: the stored record has the same
  discrepancy (its values as the same map, in key order), the same judgement, anchor and seed; it
  is unresolved, and its tier is the given one, or the metric's own when none was given. The
  typed value, which no source of the repository sets, is the one thing the format does not keep.
  The one law about the time codec is that it reads back the fetch times it wrote.
\<close>

theorem diff_storage_roundtrip:
  assumes codec: "\<forall>v \<in> snd ` set (dValues d). tcParse tc (tcFormat tc (vsFetchedAt v)) = Some (vsFetchedAt v)"
    and "dMetric d \<in> set AllMetrics" and "distinct (map fst (dValues d))"
    and "\<forall>v \<in> snd ` set (dValues d). vsTyped v = None"
    and "\<forall>a \<in> set_option (dsAddress (dSubject d)). wfAddress a"
  shows "toDiffRecord tc ((toDiffModel tc d j meta)\<lparr>dmID := n\<rparr>) = Inr
    \<lparr>drID = FormatInt 10 n, drDiscrepancy = d\<lparr>dValues := sort_key fst (dValues d)\<rparr>, drJudgement = j,
     drResolved = False, drResolvedAt = None,
     drTier = (if sdTier meta = 0 then Capability_Tier (mCapability (dMetric d)) else sdTier meta),
     drAnchorBlock = sdAnchorBlock meta, drSamplingSeed = sdSamplingSeed meta\<rparr>"
  using assms by (rule diff_row_roundtrip)

theorem diff_storage_roundtrip_witness:
  "toDiffRecord \<lparr>tcFormat = FormatInt 10, tcParse = parseBigInt\<rparr>
     ((toDiffModel \<lparr>tcFormat = FormatInt 10, tcParse = parseBigInt\<rparr> sampleDiscrepancy
        \<lparr>jSeverity = SevCritical, jTrustedSources = [''rpc''], jReasoning = ''r''\<rparr>
        \<lparr>sdTier = 0, sdAnchorBlock = 9, sdSamplingSeed = None\<rparr>)\<lparr>dmID := 41\<rparr>) = Inr
    \<lparr>drID = FormatInt 10 41,
     drDiscrepancy = sampleDiscrepancy\<lparr>dValues := sort_key fst (dValues sampleDiscrepancy)\<rparr>,
     drJudgement = \<lparr>jSeverity = SevCritical, jTrustedSources = [''rpc''], jReasoning = ''r''\<rparr>,
     drResolved = False, drResolvedAt = None, drTier = TierA, drAnchorBlock = 9, drSamplingSeed = None\<rparr>"
  by (subst diff_storage_roundtrip)
    (simp_all add: sampleDiscrepancy_def sampleSnap_def AllMetrics_def,
     simp add: MetricBlockHash_def Capability_Tier_def)

text \<open>
  A schedule survives storage: a record with an accepted schedule, catalog metrics
  and well-formed strategy and plans is encoded without error and decoded to itself, provided that
  loading a location by the name of a loaded one gives that location.
\<close>

theorem schedule_storage_roundtrip:
  assumes "NewSchedule loadLocation cron tz = Inr (srSchedule s)"
    and "\<And>z loc. loadLocation z = Some loc \<Longrightarrow> loadLocation loc = Some loc"
    and "srStrategy s = Some strat" and "wfStrategy strat" and "set (srMetrics s) \<subseteq> set AllMetrics"
    and "srAddressPlans s = map Some addrs" and "\<forall>p \<in> set addrs. wfAddressPlan p"
    and "srTokenPlans s = map Some toks" and "\<forall>p \<in> set toks. wfTokenPlan p"
  shows "\<exists>m. toScheduleModel keccak s = Inr m \<and> toScheduleRecord keccak loadLocation m = Inr s"
proof -
  obtain loc where loc: "schTimezone (srSchedule s) = Some loc"
      "NewSchedule loadLocation (schCronExpr (srSchedule s)) loc = Inr (srSchedule s)"
    using NewSchedule_again [OF assms(1)] assms(2) by blast
  obtain js ja jt where
    "marshalStrategy (Some strat) = Inr js" "unmarshalStrategy (Strategy_Kind strat) js = Inr strat"
    "marshalAddressPlans keccak (map Some addrs) = Inr ja" "unmarshalAddressPlans keccak (Some ja) = Inr addrs"
    "marshalTokenPlans keccak (map Some toks) = Inr jt" "unmarshalTokenPlans keccak (Some jt) = Inr toks"
    using strategy_roundtrip [OF assms(4)] address_plans_roundtrip [OF assms(7)]
      token_plans_roundtrip [OF assms(9)] by metis
  with loc assms show ?thesis
    by (cases s) (simp add: toScheduleModel_def toScheduleRecord_def metricsOfKeys_map)
qed

theorem schedule_storage_roundtrip_witness:
  "\<exists>m s. srActive s \<and> srMetrics s = AllMetrics \<and> toScheduleModel (\<lambda>_. replicate 32 0) s = Inr m \<and>
     toScheduleRecord (\<lambda>_. replicate 32 0) (\<lambda>z. if z = [] \<or> z = ''UTC'' then Some ''UTC'' else None) m = Inr s"
proof -
  let ?ll = "\<lambda>z. if z = [] \<or> z = ''UTC'' then Some ''UTC'' else None"
  let ?sch = "\<lparr>schCronExpr = ''0 * * * *'', schTimezone = Some ''UTC''\<rparr>"
  let ?s = "\<lparr>srJobID = ''j'', srChainID = 10, srSchedule = ?sch, srStrategy = Some (LatestN 5),
    srMetrics = AllMetrics, srAddressPlans = map Some [], srTokenPlans = map Some [],
    srCreatedAt = 3, srActive = True\<rparr>"
  have "NewSchedule ?ll '' 0 * * * * '' [] = Inr ?sch" by code_simp
  then have sch: "NewSchedule ?ll '' 0 * * * * '' [] = Inr (srSchedule ?s)" by simp
  have loc: "?ll loc = Some loc" if "?ll z = Some loc" for z loc
    using that by (auto split: if_splits)
  have "\<exists>m. toScheduleModel (\<lambda>_. replicate 32 0) ?s = Inr m \<and>
      toScheduleRecord (\<lambda>_. replicate 32 0) ?ll m = Inr ?s"
    using schedule_storage_roundtrip [OF sch, of "LatestN 5" "[]" "[]"] loc by simp
  then obtain m where "toScheduleModel (\<lambda>_. replicate 32 0) ?s = Inr m \<and>
      toScheduleRecord (\<lambda>_. replicate 32 0) ?ll m = Inr ?s" ..
  then show ?thesis by (intro exI [of _ m] exI [of _ "?s"]) simp
qed

end
