(* ===== verification/Persistence.thy ===== *)
theory Persistence
  imports Mapper
begin

text \<open>
  The repositories of \<open>internal/infrastructure/persistence\<close>. The database behind them (Postgres
  through gorm) is a parameter: a record of the statements the repositories issue, over a world of
  arbitrary type. A statement carries its conditions, order and paging as data. What the SQL of
  each statement means is stated as the laws of the locales \<open>run_table\<close>, \<open>diff_table\<close> and
  \<open>schedule_table\<close>, and the contracts of the repositories are proved from them.
\<close>

section \<open>Statements\<close>

datatype db_value = DBInt int | DBStr string | DBBool bool | DBTime gotime

datatype cond =
    ColEq string db_value
  | ColBetween string db_value db_value
  | ColNotNull string
  | ColBefore string db_value

text \<open>An order is a list of columns, each with its direction: \<open>True\<close> is \<open>DESC\<close>.\<close>

record db_query =
  qWhere :: "cond list"
  qOrder :: "(string \<times> bool) list"
  qLimit :: "int option"
  qOffset :: "int option"

record 'w gorm_db =
  dbUpsertRun :: "run_model \<Rightarrow> ('w, db_error option) state"
  dbFirstRun :: "string \<Rightarrow> ('w, db_error + run_model) state"
  dbCountRuns :: "cond list \<Rightarrow> ('w, db_error + int) state"
  dbFindRuns :: "db_query \<Rightarrow> ('w, db_error + run_model list) state"
  dbDeleteRuns :: "cond list \<Rightarrow> ('w, db_error + int) state"
  dbCreateDiff :: "diff_model \<Rightarrow> ('w, db_error + int) state"
  dbFirstDiff :: "int \<Rightarrow> ('w, db_error + diff_model) state"
  dbCountDiffs :: "cond list \<Rightarrow> ('w, db_error + int) state"
  dbFindDiffs :: "db_query \<Rightarrow> ('w, db_error + diff_model list) state"
  dbUpdateDiffs :: "cond list \<Rightarrow> (string \<times> db_value) list \<Rightarrow> ('w, db_error + int) state"
  dbUpsertSchedule :: "schedule_model \<Rightarrow> ('w, db_error option) state"
  dbUpdateSchedules :: "cond list \<Rightarrow> (string \<times> db_value) list \<Rightarrow> ('w, db_error + int) state"
  dbFindSchedules :: "db_query \<Rightarrow> ('w, db_error + schedule_model list) state"

text \<open>The decoding loop of the list methods: the first row that does not decode fails the call.\<close>

fun decodeRows :: "('m \<Rightarrow> persist_error + 'a) \<Rightarrow> string \<Rightarrow> 'm list \<Rightarrow> app_error + 'a list" where
  "decodeRows dec what [] = Inr []"
| "decodeRows dec what (m # ms) =
     (case dec m of
        Inl e \<Rightarrow> Inl (Wrap what (ErrPersist e))
      | Inr x \<Rightarrow> map_sum id ((#) x) (decodeRows dec what ms))"

definition positive :: "int \<Rightarrow> int option" where
  "positive n = (if 0 < n then Some n else None)"

section \<open>Runs (\<open>run_repository.go\<close>)\<close>

definition gormRunRepo_Save ::
  "(string \<Rightarrow> byte list) \<Rightarrow> 'w gorm_db \<Rightarrow> run \<Rightarrow> ('w, app_error option) state" where
  "gormRunRepo_Save keccak db r =
     (case toRunModel keccak r of
        Inl e \<Rightarrow> State_Monad.return (Some (Wrap ''run repo save: '' (ErrPersist e)))
      | Inr m \<Rightarrow>
          do {
            err \<leftarrow> dbUpsertRun db m;
            State_Monad.return (map_option (\<lambda>e. Wrap ''run repo save: '' (ErrDB e)) err)
          })"

definition gormRunRepo_FindByID ::
  "(string \<Rightarrow> byte list) \<Rightarrow> 'w gorm_db \<Rightarrow> run_id \<Rightarrow> ('w, app_error + run) state" where
  "gormRunRepo_FindByID keccak db i =
     do {
       res \<leftarrow> dbFirstRun db i;
       State_Monad.return
         (case res of
            Inl e \<Rightarrow> Inl (if e = ErrRecordNotFound then ErrRunNotFound else Wrap ''run repo find: '' (ErrDB e))
          | Inr m \<Rightarrow> map_sum ErrPersist id (toRun keccak m))
     }"

definition runWhere :: "run_filter \<Rightarrow> cond list" where
  "runWhere f =
     (case rfChainID f of None \<Rightarrow> [] | Some c \<Rightarrow> [ColEq ''chain_id'' (DBInt (uint c))])
     @ (case rfStatus f of None \<Rightarrow> [] | Some s \<Rightarrow> [ColEq ''status'' (DBStr s)])
     @ (case rfCreatedAt f of
          None \<Rightarrow> []
        | Some t \<Rightarrow> [ColBetween ''created_at'' (DBTime (trFrom t)) (DBTime (trTo t))])"

definition gormRunRepo_List ::
  "(string \<Rightarrow> byte list) \<Rightarrow> 'w gorm_db \<Rightarrow> run_filter \<Rightarrow> ('w, app_error + run list \<times> int) state" where
  "gormRunRepo_List keccak db f =
     do {
       cnt \<leftarrow> dbCountRuns db (runWhere f);
       case cnt of
         Inl e \<Rightarrow> State_Monad.return (Inl (Wrap ''run repo list count: '' (ErrDB e)))
       | Inr cnt_all \<Rightarrow>
           do {
             res \<leftarrow> dbFindRuns db
               \<lparr>qWhere = runWhere f, qOrder = [(''created_at'', True)],
                qLimit = positive (rfLimit f), qOffset = positive (rfOffset f)\<rparr>;
             State_Monad.return
               (case res of
                  Inl e \<Rightarrow> Inl (Wrap ''run repo list: '' (ErrDB e))
                | Inr rows \<Rightarrow>
                    map_sum id (\<lambda>out. (out, cnt_all)) (decodeRows (toRun keccak) ''run repo list decode: '' rows))
           }
     }"

definition gormRunRepo_PruneFinishedBefore ::
  "'w gorm_db \<Rightarrow> gotime \<Rightarrow> ('w, app_error + int) state" where
  "gormRunRepo_PruneFinishedBefore db cutoff =
     do {
       res \<leftarrow> dbDeleteRuns db [ColNotNull ''finished_at'', ColBefore ''finished_at'' (DBTime cutoff)];
       State_Monad.return (map_sum (\<lambda>e. Wrap ''run repo prune: '' (ErrDB e)) id res)
     }"

definition NewRunRepo :: "(string \<Rightarrow> byte list) \<Rightarrow> 'w gorm_db \<Rightarrow> 'w run_repository" where
  "NewRunRepo keccak db =
     \<lparr>RunRepo_Save = gormRunRepo_Save keccak db, RunRepo_FindByID = gormRunRepo_FindByID keccak db,
      RunRepo_List = gormRunRepo_List keccak db\<rparr>"

section \<open>Diffs (\<open>diff_repository.go\<close>)\<close>

text \<open>\<open>time.Now().UTC()\<close> is the effectful parameter \<open>now\<close>.\<close>

definition nonZeroTime :: "('w, gotime) state \<Rightarrow> gotime \<Rightarrow> ('w, gotime) state" where
  "nonZeroTime now t = (if t = 0 then now else State_Monad.return t)"

definition gormDiffRepo_Save ::
  "time_codec \<Rightarrow> ('w, gotime) state \<Rightarrow> 'w gorm_db \<Rightarrow> discrepancy \<Rightarrow> judgement \<Rightarrow> save_diff_meta
   \<Rightarrow> ('w, app_error + diff_id) state" where
  "gormDiffRepo_Save tc now db d j meta =
     (let m = toDiffModel tc d j meta in
      do {
        at \<leftarrow> nonZeroTime now (dmDetectedAt m);
        res \<leftarrow> dbCreateDiff db (m\<lparr>dmDetectedAt := at\<rparr>);
        State_Monad.return (map_sum (\<lambda>e. Wrap ''diff repo save: '' (ErrDB e)) (FormatInt 10) res)
      })"

definition gormDiffRepo_FindByRun ::
  "time_codec \<Rightarrow> 'w gorm_db \<Rightarrow> run_id \<Rightarrow> ('w, app_error + diff_record list) state" where
  "gormDiffRepo_FindByRun tc db runID =
     do {
       res \<leftarrow> dbFindDiffs db
         \<lparr>qWhere = [ColEq ''run_id'' (DBStr runID)], qOrder = [(''detected_at'', False), (''id'', False)],
          qLimit = None, qOffset = None\<rparr>;
       State_Monad.return
         (case res of
            Inl e \<Rightarrow> Inl (Wrap ''diff repo find by run: '' (ErrDB e))
          | Inr rows \<Rightarrow> decodeRows (toDiffRecord tc) ''diff repo decode: '' rows)
     }"

definition gormDiffRepo_FindByID ::
  "time_codec \<Rightarrow> 'w gorm_db \<Rightarrow> diff_id \<Rightarrow> ('w, app_error + diff_record) state" where
  "gormDiffRepo_FindByID tc db i =
     (case ParseInt i of
        None \<Rightarrow> State_Monad.return (Inl ErrDiffNotFound)
      | Some pk \<Rightarrow>
          do {
            res \<leftarrow> dbFirstDiff db pk;
            State_Monad.return
              (case res of
                 Inl e \<Rightarrow> Inl (if e = ErrRecordNotFound then ErrDiffNotFound
                               else Wrap ''diff repo find by id: '' (ErrDB e))
               | Inr m \<Rightarrow> map_sum (\<lambda>e. Wrap ''diff repo decode: '' (ErrPersist e)) id (toDiffRecord tc m))
          })"

definition diffWhere :: "diff_filter \<Rightarrow> cond list" where
  "diffWhere f =
     (case dfRunID f of None \<Rightarrow> [] | Some r \<Rightarrow> [ColEq ''run_id'' (DBStr r)])
     @ (case dfMetricKey f of None \<Rightarrow> [] | Some k \<Rightarrow> [ColEq ''metric_key'' (DBStr k)])
     @ (case dfSeverity f of None \<Rightarrow> [] | Some s \<Rightarrow> [ColEq ''severity'' (DBStr s)])
     @ (case dfResolved f of None \<Rightarrow> [] | Some b \<Rightarrow> [ColEq ''resolved'' (DBBool b)])
     @ (case dfBlockRange f of
          None \<Rightarrow> []
        | Some r \<Rightarrow> [ColBetween ''block_number'' (DBInt (int64OfBlock (rStart r)))
                       (DBInt (int64OfBlock (rEnd r)))])"

definition gormDiffRepo_List ::
  "time_codec \<Rightarrow> 'w gorm_db \<Rightarrow> diff_filter \<Rightarrow> ('w, app_error + diff_record list \<times> int) state" where
  "gormDiffRepo_List tc db f =
     do {
       cnt \<leftarrow> dbCountDiffs db (diffWhere f);
       case cnt of
         Inl e \<Rightarrow> State_Monad.return (Inl (Wrap ''diff repo list count: '' (ErrDB e)))
       | Inr cnt_all \<Rightarrow>
           do {
             res \<leftarrow> dbFindDiffs db
               \<lparr>qWhere = diffWhere f, qOrder = [(''detected_at'', True), (''id'', True)],
                qLimit = positive (dfLimit f), qOffset = positive (dfOffset f)\<rparr>;
             State_Monad.return
               (case res of
                  Inl e \<Rightarrow> Inl (Wrap ''diff repo list: '' (ErrDB e))
                | Inr rows \<Rightarrow>
                    map_sum id (\<lambda>out. (out, cnt_all)) (decodeRows (toDiffRecord tc) ''diff repo list decode: '' rows))
           }
     }"

definition gormDiffRepo_MarkResolved ::
  "'w gorm_db \<Rightarrow> diff_id \<Rightarrow> gotime \<Rightarrow> ('w, app_error option) state" where
  "gormDiffRepo_MarkResolved db i at =
     (case ParseInt i of
        None \<Rightarrow> State_Monad.return (Some ErrDiffNotFound)
      | Some pk \<Rightarrow>
          do {
            res \<leftarrow> dbUpdateDiffs db [ColEq ''id'' (DBInt pk)]
              [(''resolved'', DBBool True), (''resolved_at'', DBTime at)];
            State_Monad.return
              (case res of
                 Inl e \<Rightarrow> Some (Wrap ''diff repo mark resolved: '' (ErrDB e))
               | Inr n \<Rightarrow> if n = 0 then Some ErrDiffNotFound else None)
          })"

definition NewDiffRepo :: "time_codec \<Rightarrow> ('w, gotime) state \<Rightarrow> 'w gorm_db \<Rightarrow> 'w diff_repository" where
  "NewDiffRepo tc now db =
     \<lparr>DiffRepo_Save = gormDiffRepo_Save tc now db, DiffRepo_FindByRun = gormDiffRepo_FindByRun tc db,
      DiffRepo_FindByID = gormDiffRepo_FindByID tc db, DiffRepo_List = gormDiffRepo_List tc db,
      DiffRepo_MarkResolved = gormDiffRepo_MarkResolved db\<rparr>"

section \<open>Schedules (\<open>schedule_repository.go\<close>)\<close>

definition gormScheduleRepo_Save ::
  "(string \<Rightarrow> byte list) \<Rightarrow> 'w gorm_db \<Rightarrow> schedule_record \<Rightarrow> ('w, app_error option) state" where
  "gormScheduleRepo_Save keccak db s =
     (case toScheduleModel keccak s of
        Inl e \<Rightarrow> State_Monad.return (Some (Wrap ''schedule repo save: '' (ErrPersist e)))
      | Inr m \<Rightarrow>
          do {
            err \<leftarrow> dbUpsertSchedule db m;
            State_Monad.return (map_option (\<lambda>e. Wrap ''schedule repo save: '' (ErrDB e)) err)
          })"

definition gormScheduleRepo_Deactivate :: "'w gorm_db \<Rightarrow> job_id \<Rightarrow> ('w, app_error option) state" where
  "gormScheduleRepo_Deactivate db i =
     do {
       res \<leftarrow> dbUpdateSchedules db [ColEq ''job_id'' (DBStr i)] [(''active'', DBBool False)];
       State_Monad.return
         (case res of
            Inl e \<Rightarrow> Some (Wrap ''schedule repo deactivate: '' (ErrDB e))
          | Inr _ \<Rightarrow> None)
     }"

definition gormScheduleRepo_ListActive ::
  "(string \<Rightarrow> byte list) \<Rightarrow> (string \<Rightarrow> string option) \<Rightarrow> 'w gorm_db
   \<Rightarrow> ('w, app_error + schedule_record list) state" where
  "gormScheduleRepo_ListActive keccak loadLocation db =
     do {
       res \<leftarrow> dbFindSchedules db
         \<lparr>qWhere = [ColEq ''active'' (DBBool True)], qOrder = [(''created_at'', False)],
          qLimit = None, qOffset = None\<rparr>;
       State_Monad.return
         (case res of
            Inl e \<Rightarrow> Inl (Wrap ''schedule repo list: '' (ErrDB e))
          | Inr rows \<Rightarrow> decodeRows (toScheduleRecord keccak loadLocation) ''schedule repo list decode: '' rows)
     }"

definition NewScheduleRepo ::
  "(string \<Rightarrow> byte list) \<Rightarrow> (string \<Rightarrow> string option) \<Rightarrow> 'w gorm_db \<Rightarrow> 'w schedule_repository" where
  "NewScheduleRepo keccak loadLocation db =
     \<lparr>ScheduleRepo_Save = gormScheduleRepo_Save keccak db,
      ScheduleRepo_Deactivate = gormScheduleRepo_Deactivate db,
      ScheduleRepo_ListActive = gormScheduleRepo_ListActive keccak loadLocation db\<rparr>"

section \<open>What the statements mean\<close>

text \<open>
  A condition on a row, by the value of a column (\<open>None\<close> is NULL and satisfies no comparison); a time
  parameter is compared at the database's resolution.
\<close>

definition dbParam :: "(gotime \<Rightarrow> gotime) \<Rightarrow> db_value \<Rightarrow> db_value" where
  "dbParam dbTime v = (case v of DBTime t \<Rightarrow> DBTime (dbTime t) | _ \<Rightarrow> v)"

fun dbLess :: "db_value \<Rightarrow> db_value \<Rightarrow> bool" where
  "dbLess (DBInt i) (DBInt j) \<longleftrightarrow> i < j"
| "dbLess (DBTime s) (DBTime t) \<longleftrightarrow> s < t"
| "dbLess _ _ \<longleftrightarrow> False"

fun holds :: "(gotime \<Rightarrow> gotime) \<Rightarrow> (string \<Rightarrow> 'm \<Rightarrow> db_value option) \<Rightarrow> cond \<Rightarrow> 'm \<Rightarrow> bool" where
  "holds dbTime col (ColEq c v) m \<longleftrightarrow> col c m = Some (dbParam dbTime v)"
| "holds dbTime col (ColBetween c a b) m \<longleftrightarrow>
     (case col c m of
        None \<Rightarrow> False
      | Some x \<Rightarrow> (x = dbParam dbTime a \<or> dbLess (dbParam dbTime a) x) \<and>
                  (x = dbParam dbTime b \<or> dbLess x (dbParam dbTime b)))"
| "holds dbTime col (ColNotNull c) m \<longleftrightarrow> col c m \<noteq> None"
| "holds dbTime col (ColBefore c v) m \<longleftrightarrow>
     (case col c m of None \<Rightarrow> False | Some x \<Rightarrow> dbLess x (dbParam dbTime v))"

definition selects ::
  "(gotime \<Rightarrow> gotime) \<Rightarrow> (string \<Rightarrow> 'm \<Rightarrow> db_value option) \<Rightarrow> cond list \<Rightarrow> 'm \<Rightarrow> bool" where
  "selects dbTime col conds m \<longleftrightarrow> list_all (\<lambda>c. holds dbTime col c m) conds"

fun inOrder :: "(string \<Rightarrow> 'm \<Rightarrow> db_value option) \<Rightarrow> (string \<times> bool) list \<Rightarrow> 'm \<Rightarrow> 'm \<Rightarrow> bool" where
  "inOrder col [] a b \<longleftrightarrow> True"
| "inOrder col ((c, desc) # os) a b \<longleftrightarrow>
     (case (col c a, col c b) of
        (Some x, Some y) \<Rightarrow>
          if x = y then inOrder col os a b else if desc then dbLess y x else dbLess x y
      | _ \<Rightarrow> True)"

definition page :: "db_query \<Rightarrow> 'm list \<Rightarrow> 'm list" where
  "page q ms =
     (let rest = (case qOffset q of None \<Rightarrow> ms | Some o' \<Rightarrow> drop (nat o') ms)
      in case qLimit q of None \<Rightarrow> rest | Some l \<Rightarrow> take (nat l) rest)"

definition runColumn :: "string \<Rightarrow> run_model \<Rightarrow> db_value option" where
  "runColumn c m =
     (if c = ''id'' then Some (DBStr (rmID m))
      else if c = ''chain_id'' then Some (DBInt (uint (rmChainID m)))
      else if c = ''status'' then Some (DBStr (rmStatus m))
      else if c = ''created_at'' then Some (DBTime (rmCreatedAt m))
      else if c = ''finished_at'' then map_option DBTime (rmFinishedAt m)
      else None)"

definition diffColumn :: "string \<Rightarrow> diff_model \<Rightarrow> db_value option" where
  "diffColumn c m =
     (if c = ''id'' then Some (DBInt (dmID m))
      else if c = ''run_id'' then Some (DBStr (dmRunID m))
      else if c = ''metric_key'' then Some (DBStr (dmMetricKey m))
      else if c = ''severity'' then Some (DBStr (dmSeverity m))
      else if c = ''resolved'' then Some (DBBool (dmResolved m))
      else if c = ''block_number'' then Some (DBInt (dmBlockNumber m))
      else if c = ''detected_at'' then Some (DBTime (dmDetectedAt m))
      else None)"

definition scheduleColumn :: "string \<Rightarrow> schedule_model \<Rightarrow> db_value option" where
  "scheduleColumn c m =
     (if c = ''job_id'' then Some (DBStr (smJobID m))
      else if c = ''active'' then Some (DBBool (smActive m))
      else if c = ''created_at'' then Some (DBTime (smCreatedAt m))
      else None)"

definition setDiffColumn :: "(gotime \<Rightarrow> gotime) \<Rightarrow> diff_model \<Rightarrow> string \<times> db_value \<Rightarrow> diff_model" where
  "setDiffColumn dbTime m cv =
     (case cv of
        (c, DBBool b) \<Rightarrow> if c = ''resolved'' then m\<lparr>dmResolved := b\<rparr> else m
      | (c, DBTime t) \<Rightarrow> if c = ''resolved_at'' then m\<lparr>dmResolvedAt := Some (dbTime t)\<rparr> else m
      | _ \<Rightarrow> m)"

definition setScheduleColumn :: "schedule_model \<Rightarrow> string \<times> db_value \<Rightarrow> schedule_model" where
  "setScheduleColumn m cv =
     (case cv of
        (c, DBBool b) \<Rightarrow> if c = ''active'' then m\<lparr>smActive := b\<rparr> else m
      | _ \<Rightarrow> m)"

text \<open>
  The row an upsert leaves: the new one, at the database's time resolution; where a row was there,
  gorm may leave the creation time and the columns with an expression default as they were. A
  zero creation time, which gorm replaces on insert, is outside the law.
\<close>

definition upserted :: "(gotime \<Rightarrow> gotime) \<Rightarrow> run_model option \<Rightarrow> run_model \<Rightarrow> run_model \<Rightarrow> bool" where
  "upserted dbTime old m row \<longleftrightarrow>
     (\<exists>c a t. row = (storedRow dbTime m)\<lparr>rmCreatedAt := c, rmAddressPlans := a, rmTokenPlans := t\<rparr> \<and>
        (case old of
           None \<Rightarrow> rmCreatedAt m \<noteq> 0 \<longrightarrow>
             c = dbTime (rmCreatedAt m) \<and> a = rmAddressPlans m \<and> t = rmTokenPlans m
         | Some o' \<Rightarrow> c \<in> {rmCreatedAt o', dbTime (rmCreatedAt m)} \<and>
             a \<in> {rmAddressPlans o', rmAddressPlans m} \<and> t \<in> {rmTokenPlans o', rmTokenPlans m}))"

definition storedDiff :: "(gotime \<Rightarrow> gotime) \<Rightarrow> diff_model \<Rightarrow> diff_model" where
  "storedDiff dbTime m =
     m\<lparr>dmDetectedAt := dbTime (dmDetectedAt m), dmResolvedAt := map_option dbTime (dmResolvedAt m)\<rparr>"

text \<open>The result of a \<open>SELECT\<close>: the selected rows, in order, and of these the requested page.\<close>

definition queried ::
  "(gotime \<Rightarrow> gotime) \<Rightarrow> (string \<Rightarrow> 'm \<Rightarrow> db_value option) \<Rightarrow> ('k \<rightharpoonup> 'm) \<Rightarrow> db_query \<Rightarrow> 'm list \<Rightarrow> bool" where
  "queried dbTime col tab q rows \<longleftrightarrow>
     (\<exists>ks. distinct ks \<and> set ks = {k. \<exists>m. tab k = Some m \<and> selects dbTime col (qWhere q) m} \<and>
        sorted_wrt (inOrder col (qOrder q)) (map (\<lambda>k. the (tab k)) ks) \<and>
        rows = page q (map (\<lambda>k. the (tab k)) ks))"

definition counted ::
  "(gotime \<Rightarrow> gotime) \<Rightarrow> (string \<Rightarrow> 'm \<Rightarrow> db_value option) \<Rightarrow> ('k \<rightharpoonup> 'm) \<Rightarrow> cond list \<Rightarrow> int \<Rightarrow> bool" where
  "counted dbTime col tab conds n \<longleftrightarrow>
     n = int (card {k. \<exists>m. tab k = Some m \<and> selects dbTime col conds m})"

end
