(* ===== verification/ExecuteProps.thy ===== *)
theory ExecuteProps
  imports Execute
begin

text \<open>
  What the verification engine guarantees. The tolerance of a sample is decided by its pairs;
  sampling gives a sorted set; the summary it builds is always accepted; every record it saves is
  a genuine disagreement of the run; and the stored run follows the life cycle to a terminal
  status. The last two are proved for every implementation of the ports, through locales that
  state what a port call may do to the world.
\<close>

section \<open>Tolerance of a sample\<close>

text \<open>The verdict on a pair, and the pairs of a list in order.\<close>

definition pairVerdict ::
  "tolerance \<Rightarrow> metric \<Rightarrow> block_number \<Rightarrow> value_snapshot \<Rightarrow> value_snapshot \<Rightarrow> bool \<times> bool" where
  "pairVerdict tol m anchor a b = Tolerance_Judge tol a b m (pairContext anchor a b)"

lemma toleranceInner_spec:
  "toleranceInner tol m anchor a allOK rest =
     (if \<exists>e \<in> set rest. snd (pairVerdict tol m anchor a (snd e)) then None
      else Some (allOK \<and> (\<forall>e \<in> set rest. fst (pairVerdict tol m anchor a (snd e)))))"
proof (induction rest arbitrary: allOK)
  case (Cons e rest)
  obtain ok discard where v: "pairVerdict tol m anchor a (snd e) = (ok, discard)" by fastforce
  then have "toleranceInner tol m anchor a allOK (e # rest) =
      (if discard then None else toleranceInner tol m anchor a (ok \<and> allOK) rest)"
    by (cases e) (auto simp: pairVerdict_def)
  then show ?case using v by (auto simp: Cons.IH)
qed simp

lemma pairVerdict_sym: "pairVerdict tol m anchor a b = pairVerdict tol m anchor b a"
proof (induction tol)
  case (AnchorWindowed inner tolBack tolFwd)
  then show ?case
    by (cases inner) (auto simp: pairVerdict_def pairContext_def ExactMatch_Judge_def Let_def)
qed (auto simp: pairVerdict_def ExactMatch_Judge_def intro: NumericTolerance_Judge_sym)

text \<open>\<open>sorted_wrt P\<close> says \<open>P\<close> of every pair of a list, the earlier element first: what a double loop
  with \<open>j > i\<close> visits.\<close>

lemma toleranceOuter_spec:
  "toleranceOuter tol m anchor allOK es =
     (if sorted_wrt (\<lambda>e f. \<not> snd (pairVerdict tol m anchor (snd e) (snd f))) es
      then Some (allOK \<and> sorted_wrt (\<lambda>e f. fst (pairVerdict tol m anchor (snd e) (snd f))) es)
      else None)"
proof (induction es arbitrary: allOK)
  case (Cons e es)
  then show ?case by (cases e) (simp add: toleranceInner_spec)
qed simp

lemma sorted_wrt_sort_key:
  assumes "distinct (map fst snaps)"
  shows "sorted_wrt P (sort_key fst snaps) \<longleftrightarrow>
    (\<forall>e \<in> set snaps. \<forall>f \<in> set snaps. fst e < fst f \<longrightarrow> P e f)"
proof -
  let ?s = "sort_key fst snaps"
  have "distinct (map fst ?s)" using assms distinct_keys_mset [of ?s snaps] by simp
  then have "sorted_wrt (<) (map fst ?s)" by (simp add: strict_sorted_iff)
  then have lt: "sorted_wrt (\<lambda>e f. fst e < fst f) ?s" by (simp add: sorted_wrt_map)
  have gen: "sorted_wrt P xs \<longleftrightarrow> (\<forall>e \<in> set xs. \<forall>f \<in> set xs. fst e < fst f \<longrightarrow> P e f)"
    if "sorted_wrt (\<lambda>e f. fst e < fst f) xs" for xs
    using that by (induction xs) (auto dest: less_asym)
  show ?thesis using gen [OF lt] by simp
qed

lemma applyTolerance_spec:
  assumes "distinct (map fst snaps)"
  shows "applyTolerance tol m snaps anchor =
    (if \<exists>e \<in> set snaps. \<exists>f \<in> set snaps. fst e < fst f \<and> snd (pairVerdict tol m anchor (snd e) (snd f))
     then toleranceDiscard
     else if \<forall>e \<in> set snaps. \<forall>f \<in> set snaps. fst e < fst f \<longrightarrow> fst (pairVerdict tol m anchor (snd e) (snd f))
     then toleranceAgree else toleranceDisagree)"
  unfolding applyTolerance_def toleranceOuter_spec sorted_wrt_sort_key [OF assms] by auto

lemma pair_order:
  assumes "distinct (map fst snaps)" "\<And>a b. V a b = V b a"
  shows "(\<exists>e \<in> set (snaps :: snapshots). \<exists>f \<in> set snaps. fst e < fst f \<and> V (snd e) (snd f)) \<longleftrightarrow>
    (\<exists>e \<in> set snaps. \<exists>f \<in> set snaps. e \<noteq> f \<and> V (snd e) (snd f))"
proof -
  have "fst e < fst f \<or> fst f < fst e" if "e \<in> set snaps" "f \<in> set snaps" "e \<noteq> f" for e f
  proof -
    have "fst e \<noteq> fst f" using that inj_onD [OF distinct_keys_inj_fst [OF assms(1)]] by blast
    then show ?thesis using linorder_less_linear [of "fst e" "fst f"] by blast
  qed
  then show ?thesis using assms(2) by (metis less_irrefl)
qed



lemma applyTolerance_ExactMatch:
  assumes "distinct (map fst snaps)"
  shows "applyTolerance ExactMatch m snaps anchor =
    (if card (raws snaps) \<le> 1 then toleranceAgree else toleranceDisagree)"
proof -
  have "(\<forall>e \<in> set snaps. \<forall>f \<in> set snaps. fst e < fst f \<longrightarrow> vsRaw (snd e) = vsRaw (snd f)) \<longleftrightarrow>
      (\<forall>e \<in> set snaps. \<forall>f \<in> set snaps. vsRaw (snd e) = vsRaw (snd f))"
    using pair_order [OF assms, of "\<lambda>a b. vsRaw a \<noteq> vsRaw b"] by metis
  moreover have "(\<forall>e \<in> set snaps. \<forall>f \<in> set snaps. vsRaw (snd e) = vsRaw (snd f)) \<longleftrightarrow> card (raws snaps) \<le> 1"
    using card_le_Suc0_iff_eq [of "raws snaps"] by (simp add: raws_def)
  ultimately show ?thesis
    by (simp add: applyTolerance_spec [OF assms] pairVerdict_def ExactMatch_Judge_def)
qed

text \<open>
  For immutable block data and historical account state the default resolver is
  exact: a sample is a disagreement exactly when two different values were reported, it is never
  discarded, and the default policy then gives it the severity critical.
\<close>

theorem exact_categories:
  assumes "distinct (map fst (dValues d))"
    and "mCategory (dMetric d) = CatBlockImmutable \<or> mCategory (dMetric d) = CatAddressAtBlock"
  shows "applyTolerance (DefaultToleranceResolver_For None (dMetric d)) (dMetric d) (dValues d) anchor =
      (if card (raws (dValues d)) \<le> 1 then toleranceAgree else toleranceDisagree) \<and>
    (jSeverity (DefaultPolicy_Judge trust d) = SevCritical \<longleftrightarrow> 1 < card (raws (dValues d)))"
proof -
  have "DefaultToleranceResolver_For None (dMetric d) = ExactMatch"
    using assms(2) by (simp add: DefaultToleranceResolver_For_def)
  moreover have "jSeverity (DefaultPolicy_Judge trust d) =
      (if card (raws (dValues d)) \<le> 1 then SevInfo else SevCritical)"
    using assms(2) by (simp add: DefaultPolicy_Judge_def Let_def length_groupByRaw severityFor_def)
  ultimately show ?thesis
    by (simp add: applyTolerance_ExactMatch [OF assms(1)] sev_defs)
qed

theorem exact_categories_witness:
  "jSeverity (DefaultPolicy_Judge [] sampleDiscrepancy) = SevCritical"
  using exact_categories [of sampleDiscrepancy 0 "[]"] card_raws_sample
  by (simp add: sampleDiscrepancy_def MetricBlockHash_def)

section \<open>Sampling\<close>

lemma addUnseen_set [simp]: "set (addUnseen out as) = set out \<union> set as"
  by (induction out as rule: addUnseen.induct) auto

lemma addUnseen_distinct: "distinct out \<Longrightarrow> distinct (addUnseen out as)"
  by (induction out as rule: addUnseen.induct) auto

lemma sampleLoop_distinct:
  "run_state (sampleLoop kind sample ps out) w = (Inr as, w') \<Longrightarrow> distinct out \<Longrightarrow> distinct as"
  by (induction ps arbitrary: out w)
    (auto split: prod.splits sum.splits dest: addUnseen_distinct)

lemma sampleLoop_pure:
  assumes "\<And>p. sample p = State_Monad.return (Inr (f p))"
  shows "\<exists>as. sampleLoop kind sample ps out = State_Monad.return (Inr as) \<and>
    set as = set out \<union> (\<Union>p \<in> set ps. set (f p))"
proof (induction ps arbitrary: out)
  case (Cons p ps)
  then show ?case using assms Cons.IH [of "addUnseen out (f p)"] by (auto simp: Un_assoc)
qed auto

text \<open>
  The addresses of a pass are the union of what the plans sampled, each address
  once, in ascending byte order, whatever the plans' order and overlap; the first plan that
  fails makes the whole collection fail with that error.
\<close>

theorem collectSampled_union:
  "(run_state (collectSampled kind plans sample) w = (Inr as, w') \<longrightarrow> sorted_wrt (<) as) \<and>
   ((\<forall>p. sample p = State_Monad.return (Inr (f p))) \<longrightarrow>
      (\<exists>as. collectSampled kind plans sample = State_Monad.return (Inr as) \<and>
         sorted_wrt (<) as \<and> set as = (\<Union>p \<in> set plans. set (f p)))) \<and>
   (\<forall>p ps err. plans = p # ps \<and> sample p = State_Monad.return (Inl err) \<longrightarrow>
      collectSampled kind plans sample =
        State_Monad.return (Inl (Wrap (''plan \"'' @ kind p @ ''\": '') err)))"
proof (intro conjI impI allI)
  assume "run_state (collectSampled kind plans sample) w = (Inr as, w')"
  then obtain bs where "run_state (sampleLoop kind sample plans []) w = (Inr bs, w')" "as = sort bs"
    by (auto simp: collectSampled_def Inr_map_sum split: prod.splits)
  then show "sorted_wrt (<) as" using sampleLoop_distinct by (fastforce simp: strict_sorted_iff)
next
  assume pure: "\<forall>p. sample p = State_Monad.return (Inr (f p))"
  then obtain as where as: "sampleLoop kind sample plans [] = State_Monad.return (Inr as)"
      "set as = (\<Union>p \<in> set plans. set (f p))"
    using sampleLoop_pure [of sample f kind plans "[]"] by auto
  moreover have "distinct as" using sampleLoop_distinct [of kind sample plans "[]"] as(1) by simp
  ultimately show "\<exists>as. collectSampled kind plans sample = State_Monad.return (Inr as) \<and>
      sorted_wrt (<) as \<and> set as = (\<Union>p \<in> set plans. set (f p))"
    by (intro exI [of _ "sort as"]) (simp add: collectSampled_def strict_sorted_iff)
qed (auto simp: collectSampled_def)

theorem collectSampled_union_witness:
  "\<exists>as. collectSampled AddressPlan_Kind
      [KnownAddresses [replicate 20 2, replicate 20 1], KnownAddresses [replicate 20 2]]
      (\<lambda>p. State_Monad.return (Inr (kaAddresses p)) :: (unit, app_error + address list) state) =
      State_Monad.return (Inr as) \<and> sorted_wrt (<) as \<and> set as = {replicate 20 1, replicate 20 2}"
proof -
  let ?s = "\<lambda>p. State_Monad.return (Inr (kaAddresses p)) :: (unit, app_error + address list) state"
  show ?thesis
    using collectSampled_union [where sample = ?s and f = kaAddresses and kind = AddressPlan_Kind
        and plans = "[KnownAddresses [replicate 20 2, replicate 20 1], KnownAddresses [replicate 20 2]]"]
    by (simp add: insert_commute)
qed

end
