(* ===== verification/Effects.thy ===== *)
theory Effects
  imports ExecuteProps
begin

text \<open>
  What one execution may do to the world. The locale \<open>engine_ports\<close> collects what is asked of
  the ports that are only read or counted: every call they answer stays within a relation \<open>R\<close>.
  Its extension \<open>engine_effects\<close> asks the same of saving a diff, for the diffs the engine is
  entitled to save. Inside it the whole of \<open>executeInner\<close> is shown
  to stay within \<open>R\<close>, whatever the ports return.
\<close>

definition source_effect :: "('w \<Rightarrow> 'w \<Rightarrow> bool) \<Rightarrow> 'w source \<Rightarrow> bool" where
  "source_effect R s \<longleftrightarrow>
     (\<forall>q. state_io_rel R (FetchBlock s q)) \<and> (\<forall>q. state_io_rel R (FetchAddressLatest s q)) \<and>
     (\<forall>q. state_io_rel R (FetchAddressAtBlock s q)) \<and> (\<forall>q. state_io_rel R (FetchERC20Balance s q)) \<and>
     (\<forall>q. state_io_rel R (FetchERC20Holdings s q))"

text \<open>The diffs an execution of run \<open>i\<close> with metrics \<open>ms\<close> may save: a real disagreement between at
  least two sources on one of the run's metrics, judged by the configured policy, with the tier
  of the metric.\<close>

definition engine_diff ::
  "'w execute_run \<Rightarrow> run_id \<Rightarrow> metric list \<Rightarrow> discrepancy \<Rightarrow> judgement \<Rightarrow> save_diff_meta \<Rightarrow> bool" where
  "engine_diff uc i ms d j meta \<longleftrightarrow>
     dRunID d = i \<and> dMetric d \<in> set ms \<and>
     2 \<le> length (dValues d) \<and> distinct (map fst (dValues d)) \<and> [] \<notin> fst ` set (dValues d) \<and>
     applyTolerance (resolver uc (dMetric d)) (dMetric d) (dValues d) (sdAnchorBlock meta) =
       toleranceDisagree \<and>
     j = erPolicy uc d \<and> sdTier meta = Capability_Tier (mCapability (dMetric d))"

lemma snapshotStep_distinct:
  "distinct (map fst snaps) \<Longrightarrow> distinct (map fst (snapshotStep project c snaps fr))"
  by (auto simp: snapshotStep_def split: sum.splits option.splits intro: distinct_update)

lemma collectSnapshots_distinct: "distinct (map fst (collectSnapshots project c results))"
proof -
  have "distinct (map fst snaps) \<Longrightarrow> distinct (map fst (foldl (snapshotStep project c) snaps results))"
    for snaps
    by (induction results arbitrary: snaps) (auto intro: snapshotStep_distinct)
  then show ?thesis by (simp add: collectSnapshots_def)
qed

lemma filterByCategory_subset: "set (filterByCategory ms c) \<subseteq> set ms"
  by (auto simp: filterByCategory_def)

lemma filterByCapability_subset: "set (filterByCapability ms c) \<subseteq> set ms"
  by (auto simp: filterByCapability_def)

locale engine_ports =
  fixes R :: "'w \<Rightarrow> 'w \<Rightarrow> bool"
    and uc :: "'w execute_run"
    and ctxErr :: "'w context_err"
  assumes R_refl: "reflp R"
    and R_trans: "transp R"
    and clock_io: "state_io_rel R (erClock uc)"
    and ctx_io: "state_io_rel R ctxErr"
    and forChain_io: "state_io_rel R (Gateway_ForChain (erSources uc) c)"
    and sources_io: "run_state (Gateway_ForChain (erSources uc) c) w = (Inr ss, w') \<Longrightarrow>
          s \<in> set ss \<Longrightarrow> source_effect R s"
    and head_io: "state_io_rel R (ChainHead_Finalized (erChainHead uc) c)"
          "state_io_rel R (ChainHead_Tip (erChainHead uc) c)"
    and addresses_io: "erAddresses uc = Some f \<Longrightarrow> state_io_rel R (f c p b)"
    and tokens_io: "erTokens uc = Some g \<Longrightarrow> state_io_rel R (g c q b)"
    and budget_io: "erBudget uc = Some bud \<Longrightarrow> state_io_rel R (Budget_Reserve bud sid n)"
          "erBudget uc = Some bud \<Longrightarrow> state_io_rel R (Budget_Refund bud sid n)"
begin

lemmas R_io = io_return [OF R_refl] io_bind [OF R_trans]

lemma fanOutFetch_io:
  assumes "budget = None \<or> budget = erBudget uc"
    and "\<And>s. s \<in> set sources \<Longrightarrow> state_io_rel R (fetch s)"
  shows "state_io_rel R (fanOutFetch sources budget fetch)"
  unfolding fanOutFetch_def
proof (rule io_traverse [OF R_refl R_trans])
  fix s
  assume "s \<in> set sources"
  then have "state_io_rel R (fetch s)" by (rule assms(2))
  moreover have "state_io_rel R (Budget_Reserve b sid n)" "state_io_rel R (Budget_Refund b sid n)"
    if "budget = Some b" for b sid n
    using assms(1) that budget_io by auto
  ultimately show "state_io_rel R (fetchSlot budget fetch s)"
    unfolding fetchSlot_def by (auto intro!: R_io split: option.splits sum.splits)
qed

lemma passLoop_io:
  "(\<And>x. x \<in> set xs \<Longrightarrow> state_io_rel R (body x)) \<Longrightarrow> state_io_rel R (passLoop ctxErr body note xs acc)"
  by (induction xs arbitrary: acc) (auto intro!: R_io ctx_io split: option.splits)

lemma nestedLoop_io:
  "(\<And>x y. state_io_rel R (body x y)) \<Longrightarrow> state_io_rel R (nestedLoop ctxErr body note xs ys acc)"
  by (induction xs arbitrary: acc) (auto intro!: R_io ctx_io passLoop_io split: option.splits sum.splits)

lemma collectSampled_io:
  "(\<And>p. state_io_rel R (sample p)) \<Longrightarrow> state_io_rel R (collectSampled kind plans sample)"
proof -
  assume s: "\<And>p. state_io_rel R (sample p)"
  have "state_io_rel R (sampleLoop kind sample plans out)" for out
    by (induction plans arbitrary: out) (auto intro!: R_io s split: sum.splits)
  then show ?thesis by (auto simp: collectSampled_def intro!: R_io)
qed

lemma collectAddresses_io:
  "erAddresses uc = Some f \<Longrightarrow> state_io_rel R (collectAddresses f c plans b)"
  unfolding collectAddresses_def by (rule collectSampled_io) (rule addresses_io)

lemma collectTokens_io:
  "erTokens uc = Some g \<Longrightarrow> state_io_rel R (collectTokens g c plans b)"
  unfolding collectTokens_def by (rule collectSampled_io) (rule tokens_io)

lemma passes_io: "(\<And>p acc. p \<in> set ps \<Longrightarrow> state_io_rel R (p acc)) \<Longrightarrow> state_io_rel R (passes ps acc)"
  by (induction ps arbitrary: acc) (auto intro!: R_io split: sum.splits)

end

locale engine_effects = engine_ports R uc ctxErr
  for R and uc :: "'w execute_run" and ctxErr :: "'w context_err" +
  fixes i :: run_id
    and ms :: "metric list"
  assumes save_io: "engine_diff uc i ms d j meta \<Longrightarrow> state_io_rel R (DiffRepo_Save (erDiffs uc) d j meta)"
begin

lemma compareAndSave_io:
  assumes "runId r = i" "set metrics \<subseteq> set ms" "dsType subj \<noteq> []"
  shows "state_io_rel R (compareAndSave uc r (resolver uc) metrics results subj b anchor kind project)"
  using assms(2)
proof (induction metrics)
  case (Cons m metrics)
  let ?snaps = "collectSnapshots project (mCapability m) results"
  have rest: "state_io_rel R (compareAndSave uc r (resolver uc) metrics results subj b anchor kind project)"
    using Cons by simp
  have "state_io_rel R (DiffRepo_Save (erDiffs uc) d (erPolicy uc d)
        \<lparr>sdTier = Capability_Tier (mCapability m), sdAnchorBlock = anchor, sdSamplingSeed = None\<rparr>)"
    if "applyTolerance (resolver uc m) m ?snaps anchor = toleranceDisagree"
      "NewDiscrepancy (runId r) m b subj ?snaps now = Inr d" for d now
    using that assms(1) Cons.prems collectSnapshots_distinct
    by (intro save_io) (auto simp: engine_diff_def NewDiscrepancy_Inr)
  then show ?case
    using rest clock_io
    by (auto simp: Let_def intro!: R_io split: tolerance_outcome.splits sum.splits)
qed (simp add: R_io)

lemma subjects_typed: "dsType (addressSubject a) \<noteq> []" "SubjectBlock \<noteq> []"
  by (simp_all add: addressSubject_def SubjectAddress_def SubjectBlock_def)

lemma passes_all_io:
  assumes r: "runId r = i" "rcMetrics rc = ms" "rcResolver rc = resolver uc"
    and srcs: "\<And>s. s \<in> set (rcSources rc) \<Longrightarrow> source_effect R s"
  shows "state_io_rel R (runBlockPass keccak ctxErr uc r rc acc)"
    and "state_io_rel R (runAddressLatestPass ctxErr uc r rc acc)"
    and "state_io_rel R (runAddressAtBlockPass ctxErr uc r rc acc)"
    and "state_io_rel R (runERC20HoldingsLatestPass keccak ctxErr uc r rc acc)"
    and "state_io_rel R (runERC20BalanceLatestPass ctxErr uc r rc acc)"
proof -
  have sub: "set (filterByCategory (rcMetrics rc) c) \<subseteq> set ms"
    "set (filterByCapability (rcMetrics rc) c) \<subseteq> set ms" for c
    using r(2) filterByCategory_subset filterByCapability_subset by auto
  have fetch: "state_io_rel R (FetchBlock s q1)" "state_io_rel R (FetchAddressLatest s q2)"
    "state_io_rel R (FetchAddressAtBlock s q3)" "state_io_rel R (FetchERC20Balance s q4)"
    "state_io_rel R (FetchERC20Holdings s q5)" if "s \<in> set (rcSources rc)" for s q1 q2 q3 q4 q5
    using srcs [OF that] by (auto simp: source_effect_def)
  show "state_io_rel R (runBlockPass keccak ctxErr uc r rc acc)"
    unfolding runBlockPass_def r(3)
    by (auto simp: Let_def subjects_typed intro!: R_io passLoop_io fanOutFetch_io compareAndSave_io r(1) sub fetch)
  show "state_io_rel R (runAddressLatestPass ctxErr uc r rc acc)"
    unfolding runAddressLatestPass_def r(3)
    by (auto simp: Let_def subjects_typed split: list.splits option.splits sum.splits
        intro!: R_io passLoop_io fanOutFetch_io compareAndSave_io r(1) sub fetch collectAddresses_io)
  show "state_io_rel R (runAddressAtBlockPass ctxErr uc r rc acc)"
    unfolding runAddressAtBlockPass_def r(3)
    by (auto simp: Let_def subjects_typed split: list.splits option.splits sum.splits
        intro!: R_io nestedLoop_io fanOutFetch_io compareAndSave_io r(1) sub fetch collectAddresses_io)
  show "state_io_rel R (runERC20HoldingsLatestPass keccak ctxErr uc r rc acc)"
    unfolding runERC20HoldingsLatestPass_def r(3)
    by (auto simp: Let_def subjects_typed split: list.splits option.splits sum.splits
        intro!: R_io passLoop_io fanOutFetch_io compareAndSave_io r(1) sub fetch collectAddresses_io)
  show "state_io_rel R (runERC20BalanceLatestPass ctxErr uc r rc acc)"
    unfolding runERC20BalanceLatestPass_def r(3)
    by (auto simp: Let_def subjects_typed split: list.splits option.splits sum.splits
        intro!: R_io nestedLoop_io fanOutFetch_io compareAndSave_io r(1) sub fetch collectAddresses_io collectTokens_io)
qed

lemma executeInner_io:
  assumes "runId r = i" "runMetrics r = ms"
  shows "state_io_rel R (executeInner keccak rng ctxErr uc r)"
proof -
  have srcs: "source_effect R q"
    if "run_state (Gateway_ForChain (erSources uc) (runChainID r)) s = (Inr sources, t)" "q \<in> set sources"
    for s t sources q
    using that by (rule sources_io)
  show ?thesis
    unfolding executeInner_def
    by (rule io_bind_result [OF R_trans forChain_io])
      ((auto simp: Let_def assms(2) split: sum.splits option.splits
          intro!: R_io head_io clock_io passes_all_io assms(1)), (erule (1) srcs)+)
qed

end

end
