(* ===== verification/Engine.thy ===== *)
theory Engine
  imports Effects Serialize
begin

text \<open>
  The two guarantees of one execution. First, the summary: the accumulator that the passes build
  is always acceptable to \<open>RecordSummary\<close>, and its comparison count is exactly the number of
  (subject, metric) combinations visited. Second, the stored run: the locale \<open>run_store\<close> states
  what the run repository promises, and inside it \<open>Execute\<close> is shown to move the stored run along
  its life cycle and to touch no other run.
\<close>

section \<open>The recorded summary\<close>

text \<open>How many metrics each kind of subject is compared on.\<close>

definition metricsFor :: "metric list \<Rightarrow> string \<Rightarrow> nat" where
  "metricsFor ms kind =
     (if kind = SubjectKindBlock then length (filterByCategory ms CatBlockImmutable)
      else if kind = SubjectKindAddressLatest then length (filterByCategory ms CatAddressLatest)
      else if kind = SubjectKindAddressAtBlock then length (filterByCategory ms CatAddressAtBlock)
      else if kind = SubjectKindERC20Holdings then length (filterByCapability ms CapERC20HoldingsAtLatest)
      else if kind = SubjectKindERC20Balance then length (filterByCapability ms CapERC20BalanceAtLatest)
      else 0)"

definition comparisonsOf :: "metric list \<Rightarrow> subject list \<Rightarrow> nat" where
  "comparisonsOf ms subs = sum_list (map (metricsFor ms \<circ> sbKind) subs)"

definition acc_ok ::
  "metric list \<Rightarrow> block_number \<Rightarrow> string list \<Rightarrow> summary_accumulator \<Rightarrow> bool" where
  "acc_ok ms anchor ids acc \<longleftrightarrow>
     accAnchor acc = Some anchor \<and> accSources acc = ids \<and>
     (\<forall>s \<in> set (accSubjects acc). Subject_Validate s = None \<and> wfSubject s) \<and>
     accComparisons acc = int (comparisonsOf ms (accSubjects acc))"

lemma acc_ok_add:
  "acc_ok ms anchor ids acc \<Longrightarrow> Subject_Validate s = None \<Longrightarrow> wfSubject s \<Longrightarrow>
     acc_ok ms anchor ids (addComparisons (metricsFor ms (sbKind s)) (addSubject s acc))"
  by (auto simp: acc_ok_def addComparisons_def addSubject_def comparisonsOf_def)

lemma acc_ok_notes:
  assumes "acc_ok ms anchor ids acc" and "wfAddress a" and "wfAddress t"
  shows "acc_ok ms anchor ids
      (addComparisons (length (filterByCategory ms CatBlockImmutable)) (addBlock b acc))"
    and "acc_ok ms anchor ids
      (addComparisons (length (filterByCategory ms CatAddressLatest)) (addAddressLatest a acc))"
    and "acc_ok ms anchor ids
      (addComparisons (length (filterByCategory ms CatAddressAtBlock)) (addAddressAtBlock a b acc))"
    and "acc_ok ms anchor ids
      (addComparisons (length (filterByCapability ms CapERC20HoldingsAtLatest)) (addERC20Holdings a acc))"
    and "acc_ok ms anchor ids
      (addComparisons (length (filterByCapability ms CapERC20BalanceAtLatest)) (addERC20Balance a t acc))"
  using acc_ok_add [OF assms(1), of
      "\<lparr>sbKind = SubjectKindBlock, sbBlock = Some b, sbAddress = None, sbToken = None, sbName = []\<rparr>"]
    acc_ok_add [OF assms(1), of
      "\<lparr>sbKind = SubjectKindAddressLatest, sbBlock = None, sbAddress = Some a, sbToken = None, sbName = []\<rparr>"]
    acc_ok_add [OF assms(1), of
      "\<lparr>sbKind = SubjectKindAddressAtBlock, sbBlock = Some b, sbAddress = Some a, sbToken = None, sbName = []\<rparr>"]
    acc_ok_add [OF assms(1), of
      "\<lparr>sbKind = SubjectKindERC20Holdings, sbBlock = None, sbAddress = Some a, sbToken = None, sbName = []\<rparr>"]
    acc_ok_add [OF assms(1), of
      "\<lparr>sbKind = SubjectKindERC20Balance, sbBlock = None, sbAddress = Some a, sbToken = Some t, sbName = []\<rparr>"]
  by (simp_all add: assms(2,3) wfSubject_def Subject_Validate_def metricsFor_def subject_kind_defs addBlock_def
      addAddressLatest_def addAddressAtBlock_def addERC20Holdings_def addERC20Balance_def)

text \<open>Every value that a computation can return satisfies \<open>P\<close>.\<close>

definition gives :: "('a \<Rightarrow> bool) \<Rightarrow> ('w, app_error + 'a) state \<Rightarrow> bool" where
  "gives P m \<longleftrightarrow> (\<forall>w acc w'. run_state m w = (Inr acc, w') \<longrightarrow> P acc)"

lemma gives_return [simp]: "gives P (State_Monad.return x) \<longleftrightarrow> (\<forall>acc. x = Inr acc \<longrightarrow> P acc)"
  by (auto simp: gives_def)

lemma gives_bind: "(\<And>x. gives P (f x)) \<Longrightarrow> gives P (State_Monad.bind m f)"
  by (auto simp: gives_def split: prod.splits)

lemma gives_bind_acc:
  "gives Q m \<Longrightarrow> (\<And>acc. Q acc \<Longrightarrow> gives P (f (Inr acc))) \<Longrightarrow> (\<And>e. gives P (f (Inl e))) \<Longrightarrow>
     gives P (State_Monad.bind m f)"
  unfolding gives_def run_state_bind
  by (auto split: prod.splits) (metis sum.exhaust)

lemma passLoop_gives:
  assumes "\<And>x acc. x \<in> set xs \<Longrightarrow> P acc \<Longrightarrow> P (note x acc)"
  shows "P acc \<Longrightarrow> gives P (passLoop ctxErr body note xs acc)"
  using assms
proof (induction xs arbitrary: acc)
  case (Cons x xs)
  then have "gives P (passLoop ctxErr body note xs (note x acc))" by simp
  then show ?case by (auto intro!: gives_bind split: option.splits)
qed simp

lemma nestedLoop_gives:
  assumes "\<And>x y acc. x \<in> set xs \<Longrightarrow> y \<in> set ys \<Longrightarrow> P acc \<Longrightarrow> P (note x y acc)"
  shows "P acc \<Longrightarrow> gives P (nestedLoop ctxErr body note xs ys acc)"
  using assms
proof (induction xs arbitrary: acc)
  case (Cons x xs)
  have "gives P (passLoop ctxErr (body x) (note x) ys acc)"
    using Cons.prems by (intro passLoop_gives) simp_all
  then have "gives P (State_Monad.bind (passLoop ctxErr (body x) (note x) ys acc)
      (\<lambda>got. case got of Inl err \<Rightarrow> State_Monad.return (Inl err)
         | Inr acc' \<Rightarrow> nestedLoop ctxErr body note xs ys acc'))"
    by (rule gives_bind_acc) (use Cons.IH Cons.prems in simp_all)
  then show ?case by (auto intro!: gives_bind split: option.splits)
qed simp

text \<open>An address is 20 bytes in Go by its type; here the samplers are asked to return such.\<close>

definition samplers_wf :: "'w execute_run \<Rightarrow> bool" where
  "samplers_wf uc \<longleftrightarrow>
     (\<forall>f c p b. erAddresses uc = Some f \<longrightarrow> gives (\<lambda>as. \<forall>a \<in> set as. wfAddress a) (f c p b)) \<and>
     (\<forall>f c p b. erTokens uc = Some f \<longrightarrow> gives (\<lambda>as. \<forall>a \<in> set as. wfAddress a) (f c p b))"

lemma collectSampled_gives:
  assumes "\<And>p. gives (\<lambda>as. \<forall>a \<in> set as. wfAddress a) (sample p)"
  shows "gives (\<lambda>as. \<forall>a \<in> set as. wfAddress a) (collectSampled kind plans sample)"
proof -
  have "gives (\<lambda>as. \<forall>a \<in> set as. wfAddress a) (sampleLoop kind sample plans out)"
    if "\<forall>a \<in> set out. wfAddress a" for out
    using that
  proof (induction plans arbitrary: out)
    case (Cons p plans)
    show ?case
      unfolding sampleLoop.simps
      by (rule gives_bind_acc [OF assms]) (use Cons in \<open>auto intro!: Cons.IH\<close>)
  qed simp
  then show ?thesis
    unfolding collectSampled_def by (intro gives_bind_acc [where Q = "\<lambda>as. \<forall>a \<in> set as. wfAddress a"]) auto
qed

lemma collect_gives:
  assumes "samplers_wf uc"
  shows "erAddresses uc = Some f \<Longrightarrow> gives (\<lambda>as. \<forall>a \<in> set as. wfAddress a) (collectAddresses f c ps b)"
    and "erTokens uc = Some g \<Longrightarrow> gives (\<lambda>as. \<forall>a \<in> set as. wfAddress a) (collectTokens g c qs b)"
  using assms unfolding collectAddresses_def collectTokens_def samplers_wf_def
  by (auto intro!: collectSampled_gives)

lemma passes_gives:
  "(\<And>p acc. p \<in> set ps \<Longrightarrow> P acc \<Longrightarrow> gives P (p acc)) \<Longrightarrow> P acc \<Longrightarrow> gives P (passes ps acc)"
  by (induction ps arbitrary: acc) (auto intro!: gives_bind_acc [where Q = P])

lemma pass_gives:
  assumes ms: "rcMetrics rc = ms" and acc: "acc_ok ms anchor ids acc" and wf: "samplers_wf uc"
  shows "gives (acc_ok ms anchor ids) (runBlockPass keccak ctxErr uc r rc acc)"
    and "gives (acc_ok ms anchor ids) (runAddressLatestPass ctxErr uc r rc acc)"
    and "gives (acc_ok ms anchor ids) (runAddressAtBlockPass ctxErr uc r rc acc)"
    and "gives (acc_ok ms anchor ids) (runERC20HoldingsLatestPass keccak ctxErr uc r rc acc)"
    and "gives (acc_ok ms anchor ids) (runERC20BalanceLatestPass ctxErr uc r rc acc)"
proof -
  have z: "wfAddress zeroAddress" by (simp add: wfAddress_def zeroAddress_def)
  note coll = gives_bind_acc [OF collect_gives(1) [OF wf]] gives_bind_acc [OF collect_gives(2) [OF wf]]
  show "gives (acc_ok ms anchor ids) (runBlockPass keccak ctxErr uc r rc acc)"
    unfolding runBlockPass_def Let_def using ms acc acc_ok_notes(1) [OF _ z z]
    by (auto intro!: passLoop_gives)
  show "gives (acc_ok ms anchor ids) (runAddressLatestPass ctxErr uc r rc acc)"
    unfolding runAddressLatestPass_def Let_def using ms acc acc_ok_notes(2) [OF _ _ z]
    by (auto split: list.splits option.splits intro!: coll passLoop_gives)
  show "gives (acc_ok ms anchor ids) (runAddressAtBlockPass ctxErr uc r rc acc)"
    unfolding runAddressAtBlockPass_def Let_def using ms acc acc_ok_notes(3) [OF _ _ z]
    by (auto split: list.splits option.splits intro!: coll nestedLoop_gives)
  show "gives (acc_ok ms anchor ids) (runERC20HoldingsLatestPass keccak ctxErr uc r rc acc)"
    unfolding runERC20HoldingsLatestPass_def Let_def using ms acc acc_ok_notes(4) [OF _ _ z]
    by (auto split: list.splits option.splits intro!: coll passLoop_gives)
  show "gives (acc_ok ms anchor ids) (runERC20BalanceLatestPass ctxErr uc r rc acc)"
    unfolding runERC20BalanceLatestPass_def Let_def using ms acc acc_ok_notes(5)
    by (auto split: list.splits option.splits intro!: coll nestedLoop_gives)
qed

lemma checkSubjects_None: "checkSubjects i ss = None \<longleftrightarrow> (\<forall>s \<in> set ss. Subject_Validate s = None)"
  by (induction ss arbitrary: i) (auto split: option.splits)

lemma checkSourcesUsed_None: "checkSourcesUsed i ss = None \<longleftrightarrow> [] \<notin> set ss"
  by (induction ss arbitrary: i) auto

lemma acc_ok_Validate:
  assumes "acc_ok ms anchor ids acc" "[] \<notin> set ids"
  shows "RunSummary_Validate (buildSummary acc) = None"
  using assms
  by (auto simp: acc_ok_def buildSummary_def RunSummary_Validate_def checkSourcesUsed_None
      split: option.splits) (metis checkSubjects_None option.distinct(1))

lemma executeInner_result:
  assumes "run_state (executeInner keccak rng ctxErr uc r) w = (Returns (Inr r1), w')"
    and wf: "samplers_wf uc"
  shows "\<exists>sources w1 anchor acc.
    run_state (Gateway_ForChain (erSources uc) (runChainID r)) w = (Inr sources, w1) \<and>
    2 \<le> length sources \<and> acc_ok (runMetrics r) anchor (map srcID sources) acc \<and>
    r1 = (case RecordSummary (buildSummary acc) r of Inl _ \<Rightarrow> r | Inr r' \<Rightarrow> r')"
proof -
  obtain x w1 where fc: "run_state (Gateway_ForChain (erSources uc) (runChainID r)) w = (x, w1)"
    by fastforce
  with assms(1) obtain sources where x: "x = Inr sources" "\<not> length sources < 2"
    by (auto simp: executeInner_def split: sum.splits if_splits)
  obtain y w2 where fin: "run_state (ChainHead_Finalized (erChainHead uc) (runChainID r)) w1 = (y, w2)"
    by fastforce
  with assms(1) fc x obtain anchor where y: "y = Inr anchor"
    by (auto simp: executeInner_def split: sum.splits)
  obtain z w3 where tip: "run_state (ChainHead_Tip (erChainHead uc) (runChainID r)) w2 = (z, w3)"
    by fastforce
  with assms(1) fc x fin y obtain tp where z: "z = Inr tp"
    by (auto simp: executeInner_def split: sum.splits)
  obtain now w4 where clk: "run_state (erClock uc) w3 = (now, w4)" by fastforce
  obtain blocks where bl: "Strategy_Blocks rng (runStrategy r) \<lparr>scTipBlock = tp, scNow = now\<rparr> = Some blocks"
    using assms(1) fc x fin y tip z clk by (auto simp: executeInner_def split: option.splits)
  define rc where "rc = \<lparr>rcSources = sources, rcMetrics = runMetrics r,
    rcAddressPlans = runAddressPlans r, rcTokenPlans = runTokenPlans r,
    rcResolver = resolver uc, rcBlocks = blocks, rcAnchor = anchor\<rparr>"
  define ps where "ps = [runBlockPass keccak ctxErr uc r rc, runAddressLatestPass ctxErr uc r rc,
    runAddressAtBlockPass ctxErr uc r rc, runERC20HoldingsLatestPass keccak ctxErr uc r rc,
    runERC20BalanceLatestPass ctxErr uc r rc]"
  define acc0 where "acc0 = setAnchor anchor (setSourcesFrom sources zeroAccumulator)"
  obtain g w5 where g: "run_state (passes ps acc0) w4 = (g, w5)" by fastforce
  have "(Returns (case g of Inl err \<Rightarrow> Inl err
      | Inr acc' \<Rightarrow> Inr (case RecordSummary (buildSummary acc') r of Inl _ \<Rightarrow> r | Inr r' \<Rightarrow> r')), w5) =
      (Returns (Inr r1), w')"
    using assms(1) fc x fin y tip z clk bl g
    by (simp add: executeInner_def Let_def rc_def [symmetric] ps_def [symmetric] acc0_def [symmetric]
        del: passes.simps)
  then obtain acc where acc: "g = Inr acc"
      "r1 = (case RecordSummary (buildSummary acc) r of Inl _ \<Rightarrow> r | Inr r' \<Rightarrow> r')"
    by (auto split: sum.splits)
  have "acc_ok (runMetrics r) anchor (map srcID sources) acc0"
    by (simp add: acc_ok_def acc0_def setAnchor_def setSourcesFrom_def zeroAccumulator_def comparisonsOf_def)
  moreover have "gives (acc_ok (runMetrics r) anchor (map srcID sources)) (p a)"
    if "p \<in> set ps" "acc_ok (runMetrics r) anchor (map srcID sources) a" for p a
    using that by (auto simp: ps_def rc_def intro!: pass_gives wf)
  ultimately have "gives (acc_ok (runMetrics r) anchor (map srcID sources)) (passes ps acc0)"
    by (rule passes_gives [rotated])
  then have "acc_ok (runMetrics r) anchor (map srcID sources) acc"
    using g acc(1) by (auto simp: gives_def)
  then show ?thesis using fc x acc(2) by auto
qed

section \<open>The stored run\<close>

text \<open>The run after an execution: its status tells the result apart.\<close>

definition execution_end :: "(app_error \<Rightarrow> string) \<Rightarrow> run \<Rightarrow> app_error option outcome \<Rightarrow> run \<Rightarrow> bool" where
  "execution_end text r0 out r' \<longleftrightarrow>
     run_step\<^sup>*\<^sup>* r0 r' \<and> runStatus r' \<in> {StatusRunning, StatusCompleted, StatusFailed} \<and>
     (out = Returns None \<longrightarrow> runStatus r' = StatusCompleted) \<and>
     (runStatus r' = StatusCompleted \<longrightarrow> out = Returns None) \<and>
     (runStatus r' = StatusFailed \<longrightarrow> (\<exists>e. out = Returns (Some e) \<and> runErrorMsg r' = text e))"

text \<open>The columns an upsert need not overwrite, because no method changes them once a run is stored.\<close>

definition fixedPart :: "run \<Rightarrow> gotime \<times> address_plan list \<times> token_plan list" where
  "fixedPart r = (runCreatedAt r, runAddressPlans r, runTokenPlans r)"

text \<open>
  What \<open>Execute\<close> asks of the run repository and its neighbours. \<open>runsOf\<close> is the content of the
  repository in a world; \<open>ok r\<close> says that the store can represent \<open>r\<close>, and \<open>stored r\<close> is what it then
  reads back as (a store may round timestamps, but keeps id, status and message). A successful save of
  a run that is already there replaces it, provided that its fixed part is the stored one. No other
  port writes runs.
\<close>

locale run_store =
  fixes uc :: "'w execute_run"
    and ctxErr :: "'w context_err"
    and runsOf :: "'w \<Rightarrow> run_id \<rightharpoonup> run"
    and stored :: "run \<Rightarrow> run"
    and ok :: "run \<Rightarrow> bool"
  assumes find_keeps: "run_state (RunRepo_FindByID (erRuns uc) i) w = (x, w') \<Longrightarrow> runsOf w' = runsOf w"
    and find_returns: "run_state (RunRepo_FindByID (erRuns uc) i) w = (Inr r, w') \<Longrightarrow> runsOf w i = Some r"
    and runs_keyed: "runsOf w i = Some r \<Longrightarrow> runId r = i"
    and found_ok: "runsOf w i = Some r \<Longrightarrow> ok r"
    and ok_status: "ok r \<Longrightarrow> st \<noteq> [] \<Longrightarrow>
          ok (r\<lparr>runStatus := st, runStartedAt := sa, runFinishedAt := fa, runErrorMsg := msg\<rparr>)"
    and ok_summary: "ok r \<Longrightarrow> \<forall>s \<in> set (rsSubjects sm). wfSubject s \<Longrightarrow> ok (r\<lparr>runSummary := sm\<rparr>)"
    and samplers: "samplers_wf uc"
    and save_stores: "ok r \<Longrightarrow> runsOf w (runId r) = Some r0 \<Longrightarrow> fixedPart r0 = fixedPart r \<Longrightarrow>
          run_state (RunRepo_Save (erRuns uc) r) w = (None, w') \<Longrightarrow>
          runsOf w' = (runsOf w)(runId r \<mapsto> stored r)"
    and save_fails: "run_state (RunRepo_Save (erRuns uc) r) w = (Some e, w') \<Longrightarrow> runsOf w' = runsOf w"
    and stored_fixed: "runsOf w i = Some r0 \<Longrightarrow> fixedPart r0 = fixedPart r \<Longrightarrow> fixedPart (stored r) = fixedPart r"
    and stored_status: "runStatus (stored r) = runStatus r"
    and stored_msg: "runErrorMsg (stored r) = runErrorMsg r"
    and others_keep: "engine_effects (same runsOf) uc ctxErr i ms"
begin

lemma clock_keeps: "run_state (erClock uc) w = (t, w') \<Longrightarrow> runsOf w' = runsOf w"
  using engine_ports.clock_io [OF engine_effects.axioms(1) [OF others_keep]] by (rule io_sameD)

lemma inner_keeps:
  "run_state (executeInner keccak rng ctxErr uc r) w = (x, w') \<Longrightarrow> runsOf w' = runsOf w"
  using engine_effects.executeInner_io [OF others_keep refl refl] by (rule io_sameD)

lemma ok_changed:
  assumes "ok r" "st \<noteq> []"
  shows "ok (r\<lparr>runStatus := st, runStartedAt := sa\<rparr>)" "ok (r\<lparr>runStatus := st, runFinishedAt := fa\<rparr>)"
    "ok (r\<lparr>runStatus := st, runFinishedAt := fa, runErrorMsg := msg\<rparr>)"
  using ok_status [OF assms, where sa = sa and fa = "runFinishedAt r" and msg = "runErrorMsg r"]
    ok_status [OF assms, where sa = "runStartedAt r" and fa = fa and msg = "runErrorMsg r"]
    ok_status [OF assms, where sa = "runStartedAt r" and fa = fa and msg = msg]
  by simp_all

lemma inner_run:
  assumes "run_state (executeInner keccak rng ctxErr uc r) w = (Returns (Inr r1), w')" "ok r"
  shows "run_step\<^sup>*\<^sup>* r r1 \<and> runStatus r1 = runStatus r \<and> runId r1 = runId r \<and> ok r1 \<and> fixedPart r1 = fixedPart r"
proof -
  obtain anchor ids acc where acc: "acc_ok (runMetrics r) anchor ids acc"
    and r1: "r1 = (case RecordSummary (buildSummary acc) r of Inl _ \<Rightarrow> r | Inr r' \<Rightarrow> r')"
    using executeInner_result [OF assms(1) samplers] by blast
  show ?thesis
  proof (cases "RecordSummary (buildSummary acc) r")
    case (Inr r')
    then have "r1 = r'" "r' = r\<lparr>runSummary := buildSummary acc\<rparr>"
      using r1 by (simp_all, auto simp: RecordSummary_Inr)
    moreover have "ok (r\<lparr>runSummary := buildSummary acc\<rparr>)"
      using acc assms(2) by (intro ok_summary) (auto simp: acc_ok_def buildSummary_def)
    ultimately show ?thesis using step_record [OF Inr] by (auto simp: fixedPart_def)
  qed (simp add: r1 assms(2))
qed

text \<open>What the last save of an execution leaves in the store.\<close>

lemma save_leaves:
  assumes "run_state (RunRepo_Save (erRuns uc) r') w = (x, w')" and "runsOf w = rs(runId r' \<mapsto> stored r)"
    and "ok r'" and "fixedPart (stored r) = fixedPart r'"
  shows "runsOf w' = rs(runId r' \<mapsto> stored (if x = None then r' else r))"
  using assms save_stores [of r' w "stored r" w'] save_fails by (cases x) auto

lemma execution_tail:
  assumes fin: "run_state (finishExecution text uc r inn) w = (out, w')"
    and rs: "runsOf w = rs(i \<mapsto> stored r)"
    and r: "runStatus r = StatusRunning" "runId r = i" "run_step r0 r" "ok r" "fixedPart (stored r) = fixedPart r"
    and inn: "\<And>r1. inn = Returns (Inr r1) \<Longrightarrow>
      run_step\<^sup>*\<^sup>* r r1 \<and> runStatus r1 = StatusRunning \<and> runId r1 = i \<and> ok r1 \<and> fixedPart r1 = fixedPart r"
  shows "\<exists>r'. runsOf w' = rs(i \<mapsto> stored r') \<and> execution_end text r0 out r' \<and>
    (out \<noteq> Diverges \<and> (\<forall>q v. fst (run_state (RunRepo_Save (erRuns uc) q) v) = None) \<longrightarrow>
       runStatus r' \<noteq> StatusRunning)"
proof -
  obtain t v where c: "run_state (erClock uc) w = (t, v)" by fastforce
  have kept: "runsOf v = rs(i \<mapsto> stored r)" using clock_keeps [OF c] rs by simp
  have running: "execution_end text r0 o' r" if "o' \<noteq> Returns None" for o'
    using that r by (auto simp: execution_end_def)
  consider "inn = Diverges" | e where "inn = Returns (Inl e)" | r1 where "inn = Returns (Inr r1)"
    by (metis outcome.exhaust sum.exhaust)
  then show ?thesis
  proof cases
    case 1
    then show ?thesis using fin rs running by (auto simp: finishExecution_def)
  next
    case (2 e)
    obtain r' where f: "Run_Fail t (Some (text e)) r = Inr r'" "runId r' = i"
        "runStatus r' = StatusFailed" "runErrorMsg r' = text e" "ok r'" "fixedPart (stored r) = fixedPart r'"
      using r(1,2,5) ok_changed(3) [OF r(4)] by (auto simp: Run_Fail_Inr status_defs fixedPart_def)
    obtain x v' where s: "run_state (RunRepo_Save (erRuns uc) r') v = (x, v')" by fastforce
    then have "out = Returns (Some e)" "w' = v'" using fin 2 c f(1) by (auto simp: finishExecution_def)
    moreover have "run_step\<^sup>*\<^sup>* r0 r'"
      using r(3) step_fail [OF f(1)] by (meson r_into_rtranclp rtranclp.rtrancl_into_rtrancl)
    moreover have "x = None" if "\<forall>q v. fst (run_state (RunRepo_Save (erRuns uc) q) v) = None"
      using that s by (metis fst_conv)
    ultimately show ?thesis
      using save_leaves [OF s, of rs r] kept f running
      by (intro exI [of _ "if x = None then r' else r"]) (auto simp: execution_end_def)
  next
    case (3 r1)
    then have r1: "run_step\<^sup>*\<^sup>* r r1" "runStatus r1 = StatusRunning" "runId r1 = i" "ok r1"
        "fixedPart r1 = fixedPart r"
      using inn by auto
    obtain r2 where f: "Run_Complete t r1 = Inr r2" "runId r2 = i" "runStatus r2 = StatusCompleted" "ok r2"
        "fixedPart (stored r) = fixedPart r2"
      using r1 r(5) ok_changed(2) [OF r1(4)] by (auto simp: Run_Complete_Inr status_defs fixedPart_def)
    obtain x v' where s: "run_state (RunRepo_Save (erRuns uc) r2) v = (x, v')" by fastforce
    then have "out = Returns (map_option (Wrap ''execute run: save completed: '') x)" "w' = v'"
      using fin 3 c f(1) by (auto simp: finishExecution_def)
    moreover have "run_step\<^sup>*\<^sup>* r0 r2"
      using r(3) r1(1) step_complete [OF f(1)]
      by (meson converse_rtranclp_into_rtranclp rtranclp.rtrancl_into_rtrancl)
    moreover have "x = None" if "\<forall>q v. fst (run_state (RunRepo_Save (erRuns uc) q) v) = None"
      using that s by (metis fst_conv)
    ultimately show ?thesis
      using save_leaves [OF s, of rs r] kept f running
      by (intro exI [of _ "if x = None then r2 else r"]) (auto simp: execution_end_def)
  qed
qed

lemma lifecycle_of:
  assumes "run_state (ExecuteRun_Execute keccak rng text ctxErr uc i) w = (out, w')"
  shows "(runsOf w' = runsOf w \<and> (\<exists>e. out = Returns (Some e))) \<or>
    (\<exists>r0 r'. runsOf w i = Some r0 \<and> runStatus r0 = StatusPending \<and>
       runsOf w' = (runsOf w)(i \<mapsto> stored r') \<and> execution_end text r0 out r' \<and>
    (out \<noteq> Diverges \<and> (\<forall>q v. fst (run_state (RunRepo_Save (erRuns uc) q) v) = None) \<longrightarrow>
       runStatus r' \<noteq> StatusRunning))"
proof -
  obtain x w1 where f: "run_state (RunRepo_FindByID (erRuns uc) i) w = (x, w1)" by fastforce
  note keep1 = find_keeps [OF f]
  show ?thesis
  proof (cases x)
    case (Inl e)
    then show ?thesis using assms f keep1 by (auto simp: ExecuteRun_Execute_def)
  next
    case (Inr r0)
    then have r0: "runsOf w i = Some r0" "runId r0 = i" using f find_returns runs_keyed by blast+
    obtain t0 w2 where c0: "run_state (erClock uc) w1 = (t0, w2)" by fastforce
    note keep2 = clock_keeps [OF c0]
    show ?thesis
    proof (cases "Run_Start t0 r0")
      case (Inl e)
      then show ?thesis using assms f c0 \<open>x = Inr r0\<close> keep1 keep2 by (auto simp: ExecuteRun_Execute_def)
    next
      case start: (Inr r)
      then have r: "runStatus r0 = StatusPending" "runStatus r = StatusRunning" "runId r = i"
        "run_step r0 r" "ok r" "fixedPart r0 = fixedPart r"
        using r0 ok_changed(1) [OF found_ok [OF r0(1)]]
        by (auto simp: Run_Start_Inr status_defs fixedPart_def intro: step_start)
      note stf = stored_fixed [OF r0(1) r(6)]
      obtain sv w3 where s1: "run_state (RunRepo_Save (erRuns uc) r) w2 = (sv, w3)" by fastforce
      show ?thesis
      proof (cases sv)
        case (Some e)
        then show ?thesis using assms f c0 s1 start \<open>x = Inr r0\<close> keep1 keep2 save_fails [of r w2 e w3]
          by (auto simp: ExecuteRun_Execute_def)
      next
        case None
        have keep3: "runsOf w3 = (runsOf w)(i \<mapsto> stored r)"
          using save_stores [of r w2 r0 w3] s1 None keep1 keep2 r(3,5,6) r0(1) by simp
        obtain inn w4 where inn: "run_state (executeInner keccak rng ctxErr uc r) w3 = (inn, w4)" by fastforce
        have keep4: "runsOf w4 = (runsOf w)(i \<mapsto> stored r)" using inner_keeps [OF inn] keep3 by simp
        have "run_state (finishExecution text uc r inn) w4 = (out, w')"
          using assms f c0 s1 start None \<open>x = Inr r0\<close> inn by (simp add: ExecuteRun_Execute_def)
        from execution_tail [OF this keep4 r(2,3,4,5) stf] inn inner_run r
        show ?thesis using r0 r(1) by (metis (no_types, lifting))
      qed
    qed
  qed
qed

end

text \<open>An execution returns unless its sampling loop does not.\<close>

lemma executeInner_returns:
  assumes "\<And>ctx. Strategy_Blocks rng (runStrategy r) ctx \<noteq> None"
  shows "\<exists>x. fst (run_state (executeInner keccak rng ctxErr uc r) w) = Returns x"
proof -
  have "fst (run_state (executeInner keccak rng ctxErr uc r) w) \<noteq> Diverges"
    using assms unfolding executeInner_def
    by (auto simp: Let_def split: sum.splits prod.splits option.splits) (metis option.discI)
  then show ?thesis by (cases "fst (run_state (executeInner keccak rng ctxErr uc r) w)") auto
qed

lemma finishExecution_returns:
  assumes "inner \<noteq> Diverges"
  shows "\<exists>x. fst (run_state (finishExecution text uc r inner) w) = Returns x"
proof -
  have "fst (run_state (finishExecution text uc r inner) w) \<noteq> Diverges"
    using assms unfolding finishExecution_def
    by (auto split: sum.splits prod.splits outcome.splits)
  then show ?thesis by (cases "fst (run_state (finishExecution text uc r inner) w)") auto
qed

text \<open>A repository whose saves do not fail and that finds what it holds.\<close>

locale reliable_run_store = run_store +
  assumes save_total: "fst (run_state (RunRepo_Save (erRuns uc) r) w) = None"
    and find_total: "runsOf w i = Some r \<Longrightarrow> \<exists>w'. run_state (RunRepo_FindByID (erRuns uc) i) w = (Inr r, w')"
begin

lemma terminal_of:
  assumes exec: "run_state (ExecuteRun_Execute keccak rng text ctxErr uc i) w = (Returns res, w')"
    and r0: "runsOf w i = Some r0" "runStatus r0 = StatusPending"
  shows "\<exists>r'. runsOf w' = (runsOf w)(i \<mapsto> stored r') \<and> run_step\<^sup>*\<^sup>* r0 r' \<and>
    (case res of None \<Rightarrow> runStatus r' = StatusCompleted
               | Some e \<Rightarrow> runStatus r' = StatusFailed \<and> runErrorMsg r' = text e)"
proof -
  have "runsOf w' \<noteq> runsOf w"
  proof
    assume same: "runsOf w' = runsOf w"
    obtain w1 where f: "run_state (RunRepo_FindByID (erRuns uc) i) w = (Inr r0, w1)"
      using find_total [OF r0(1)] by blast
    obtain t w2 where c: "run_state (erClock uc) w1 = (t, w2)" by fastforce
    obtain r where r: "Run_Start t r0 = Inr r" using r0(2) by (simp add: Run_Start_def)
    obtain w3 where s: "run_state (RunRepo_Save (erRuns uc) r) w2 = (None, w3)"
      using save_total [of r w2] by (metis prod.collapse)
    obtain inn w4 where inn: "run_state (executeInner keccak rng ctxErr uc r) w3 = (inn, w4)" by fastforce
    have rid: "runId r = i" "runStatus r = StatusRunning" "run_step r0 r" "ok r" "fixedPart r0 = fixedPart r"
      using r runs_keyed [OF r0(1)] ok_changed(1) [OF found_ok [OF r0(1)]]
      by (auto simp: Run_Start_Inr status_defs fixedPart_def intro: step_start)
    have w2: "runsOf w2 (runId r) = Some r0" using clock_keeps [OF c] find_keeps [OF f] r0(1) rid(1) by simp
    have w4: "runsOf w4 = (runsOf w)(i \<mapsto> stored r)"
      using inner_keeps [OF inn] save_stores [OF rid(4) w2 rid(5) s] clock_keeps [OF c] find_keeps [OF f] rid by simp
    have fin: "run_state (finishExecution text uc r inn) w4 = (Returns res, w')"
      using exec f c r s inn by (simp add: ExecuteRun_Execute_def)
    obtain r' where "runsOf w' = (runsOf w)(i \<mapsto> stored r')" "execution_end text r0 (Returns res) r'"
      using execution_tail [OF fin w4 rid(2,1,3,4) stored_fixed [OF r0(1) rid(5)]] inn inner_run rid by metis
    then have "stored r' = r0" using same r0(1) by (metis fun_upd_same option.inject)
    moreover have "runStatus r' \<noteq> StatusPending"
      using \<open>execution_end text r0 (Returns res) r'\<close> by (auto simp: execution_end_def)
    ultimately show False using r0(2) stored_status [of r'] by simp
  qed
  then obtain r' where r': "runsOf w' = (runsOf w)(i \<mapsto> stored r')"
      "execution_end text r0 (Returns res) r'" "runStatus r' \<noteq> StatusRunning"
    using lifecycle_of [OF exec] r0(1) save_total by auto
  then show ?thesis by (auto simp: execution_end_def split: option.splits)
qed

lemma execute_returns:
  assumes r0: "runsOf w i = Some r0" "runStatus r0 = StatusPending"
    and blocks: "\<And>ctx. Strategy_Blocks rng (runStrategy r0) ctx \<noteq> None"
  shows "\<exists>res w'. run_state (ExecuteRun_Execute keccak rng text ctxErr uc i) w = (Returns res, w')"
proof -
  obtain w1 where f: "run_state (RunRepo_FindByID (erRuns uc) i) w = (Inr r0, w1)"
    using find_total [OF r0(1)] by blast
  obtain t w2 where c: "run_state (erClock uc) w1 = (t, w2)" by fastforce
  obtain r where r: "Run_Start t r0 = Inr r" using r0(2) by (simp add: Run_Start_def)
  then have st: "runStrategy r = runStrategy r0" by (auto simp: Run_Start_Inr)
  obtain w3 where s: "run_state (RunRepo_Save (erRuns uc) r) w2 = (None, w3)"
    using save_total [of r w2] by (metis prod.collapse)
  obtain x w4 where inn: "run_state (executeInner keccak rng ctxErr uc r) w3 = (Returns x, w4)"
    using executeInner_returns [of rng r keccak ctxErr uc w3] blocks st by (metis prod.collapse)
  obtain res w' where "run_state (finishExecution text uc r (Returns x)) w4 = (Returns res, w')"
    using finishExecution_returns [of "Returns x" "text" uc r w4] by (metis outcome.distinct(1) prod.collapse)
  then show ?thesis using f c r s inn by (simp add: ExecuteRun_Execute_def)
qed

end

end
