(* ===== verification/Repositories.thy ===== *)
theory Repositories
  imports Persistence Engine
begin

text \<open>
  The laws of the database tables, as locales, and the contracts of the repositories, proved inside
  them. The run repository is shown to be the run store that \<open>ExecuteRun\<close> asks for.
\<close>

lemma Inl_map_sum: "map_sum f g x = Inl e \<longleftrightarrow> (\<exists>a. x = Inl a \<and> f a = e)"
  by (cases x) auto

section \<open>The runs table\<close>

locale run_table =
  fixes db :: "'w gorm_db"
    and runRows :: "'w \<Rightarrow> string \<rightharpoonup> run_model"
    and dbTime :: "gotime \<Rightarrow> gotime"
  assumes upsert_ok: "run_state (dbUpsertRun db m) w = (None, w') \<Longrightarrow>
        \<exists>row. upserted dbTime (runRows w (rmID m)) m row \<and> runRows w' = (runRows w)(rmID m \<mapsto> row)"
    and upsert_err: "run_state (dbUpsertRun db m) w = (Some e, w') \<Longrightarrow> runRows w' = runRows w"
    and first_ok: "run_state (dbFirstRun db i) w = (Inr m, w') \<Longrightarrow> runRows w i = Some m"
    and first_missing: "run_state (dbFirstRun db i) w = (Inl ErrRecordNotFound, w') \<Longrightarrow> runRows w i = None"
    and first_keeps: "run_state (dbFirstRun db i) w = (x, w') \<Longrightarrow> runRows w' = runRows w"
    and count_ok: "run_state (dbCountRuns db conds) w = (Inr n, w') \<Longrightarrow>
        counted dbTime runColumn (runRows w) conds n"
    and count_keeps: "run_state (dbCountRuns db conds) w = (y, w') \<Longrightarrow> runRows w' = runRows w"
    and find_ok: "run_state (dbFindRuns db q) w = (Inr rows, w') \<Longrightarrow> fst ` set (qOrder q) \<subseteq> {''created_at''} \<Longrightarrow>
        queried dbTime runColumn (runRows w) q rows"
    and find_keeps: "run_state (dbFindRuns db q) w = (z, w') \<Longrightarrow> runRows w' = runRows w"
    and delete_ok: "run_state (dbDeleteRuns db conds) w = (Inr n, w') \<Longrightarrow>
        runRows w' = runRows w |` {i. \<exists>m. runRows w i = Some m \<and> \<not> selects dbTime runColumn conds m} \<and>
        counted dbTime runColumn (runRows w) conds n"
    and delete_err: "run_state (dbDeleteRuns db conds) w = (Inl e', w') \<Longrightarrow> runRows w' = runRows w"
    and rows_keyed: "runRows w i = Some m \<Longrightarrow> rmID m = i"
    and rows_time: "runRows w i = Some m \<Longrightarrow> storedRow dbTime m = m"

text \<open>The runs a table holds: the rows that decode.\<close>

definition decodedRuns :: "(string \<Rightarrow> byte list) \<Rightarrow> (string \<rightharpoonup> run_model) \<Rightarrow> run_id \<rightharpoonup> run" where
  "decodedRuns keccak rows i =
     (case rows i of
        None \<Rightarrow> None
      | Some m \<Rightarrow> (case toRun keccak m of Inl _ \<Rightarrow> None | Inr r \<Rightarrow> Some r))"

lemma decodedRuns_Some:
  "decodedRuns keccak rows i = Some r \<longleftrightarrow> (\<exists>m. rows i = Some m \<and> toRun keccak m = Inr r)"
  by (auto simp: decodedRuns_def split: option.splits sum.splits)

lemma toRun_fields:
  assumes "toRun keccak m = Inr r"
  shows "unmarshalAddressPlans keccak (rmAddressPlans m) = Inr (runAddressPlans r)"
    "unmarshalTokenPlans keccak (rmTokenPlans m) = Inr (runTokenPlans r)"
    "runId r = rmID m" "runChainID r = rmChainID m" "runStatus r = rmStatus m"
    "runCreatedAt r = rmCreatedAt m" "runFinishedAt r = rmFinishedAt m"
  using assms by (auto simp: toRun_def Let_def Rehydrate_def Inr_map_sum split: sum.splits if_splits)

lemma toRun_replace:
  assumes "toRun keccak m = Inr r"
    and "unmarshalAddressPlans keccak a = Inr (runAddressPlans r)"
    and "unmarshalTokenPlans keccak t = Inr (runTokenPlans r)"
  shows "toRun keccak (m\<lparr>rmCreatedAt := c, rmAddressPlans := a, rmTokenPlans := t\<rparr>) =
    Inr (r\<lparr>runCreatedAt := c\<rparr>)"
  using assms by (auto simp: toRun_def Let_def Rehydrate_def Inr_map_sum split: sum.splits if_splits)

context run_table
begin

lemma repo_find_keeps:
  "run_state (gormRunRepo_FindByID keccak db i) w = (x, w') \<Longrightarrow> runRows w' = runRows w"
  by (auto simp: gormRunRepo_FindByID_def split: prod.splits dest: first_keeps)

lemma repo_find_returns:
  "run_state (gormRunRepo_FindByID keccak db i) w = (Inr r, w') \<Longrightarrow> decodedRuns keccak (runRows w) i = Some r"
  by (auto simp: gormRunRepo_FindByID_def decodedRuns_Some Inr_map_sum dest!: first_ok
      split: prod.splits sum.splits if_splits)

lemma repo_find_missing:
  "run_state (gormRunRepo_FindByID keccak db i) w = (Inl ErrRunNotFound, w') \<Longrightarrow> runRows w i = None"
  by (auto simp: gormRunRepo_FindByID_def Inl_map_sum dest!: first_missing
      split: prod.splits sum.splits if_splits)

lemma repo_save_fails:
  "run_state (gormRunRepo_Save keccak db r) w = (Some e, w') \<Longrightarrow> runRows w' = runRows w"
  by (auto simp: gormRunRepo_Save_def dest!: upsert_err split: prod.splits sum.splits)

lemma repo_save_stores:
  assumes "representable r" "decodedRuns keccak (runRows w) (runId r) = Some r0" "fixedPart r0 = fixedPart r"
    and "run_state (gormRunRepo_Save keccak db r) w = (None, w')"
  shows "decodedRuns keccak (runRows w') = (decodedRuns keccak (runRows w))(runId r \<mapsto> storedRun dbTime r)"
proof -
  obtain m where m: "toRunModel keccak r = Inr m" "rmID m = runId r"
      "toRun keccak (storedRow dbTime m) = Inr (storedRun dbTime r)"
    using run_row_roundtrip [OF assms(1)] by blast
  obtain old where old: "runRows w (runId r) = Some old" "toRun keccak old = Inr r0"
    using assms(2) by (auto simp: decodedRuns_Some)
  have "run_state (dbUpsertRun db m) w = (None, w')"
    using assms(4) m by (auto simp: gormRunRepo_Save_def split: prod.splits)
  from upsert_ok [OF this] obtain c a t where
    row: "runRows w' = (runRows w)(runId r \<mapsto>
        (storedRow dbTime m)\<lparr>rmCreatedAt := c, rmAddressPlans := a, rmTokenPlans := t\<rparr>)" and
    alt: "c \<in> {rmCreatedAt old, dbTime (rmCreatedAt m)}" "a \<in> {rmAddressPlans old, rmAddressPlans m}"
      "t \<in> {rmTokenPlans old, rmTokenPlans m}"
    using m(2) old(1) by (auto simp: upserted_def)
  note o' = toRun_fields [OF old(2)] and n = toRun_fields [OF m(3)]
  have fixed: "runCreatedAt r0 = runCreatedAt r" "runAddressPlans r0 = runAddressPlans r"
      "runTokenPlans r0 = runTokenPlans r"
    using assms(3) by (simp_all add: fixedPart_def)
  have "dbTime (rmCreatedAt old) = rmCreatedAt old"
    using arg_cong [OF rows_time [OF old(1)], of rmCreatedAt] by (simp add: storedRow_def)
  then have c: "c = runCreatedAt (storedRun dbTime r)"
    using alt(1) o'(6) n(6) fixed(1) by (auto simp: storedRow_def storedRun_def)
  have "unmarshalAddressPlans keccak a = Inr (runAddressPlans (storedRun dbTime r))"
      "unmarshalTokenPlans keccak t = Inr (runTokenPlans (storedRun dbTime r))"
    using alt(2,3) o'(1,2) n(1,2) fixed(2,3) by (auto simp: storedRow_def storedRun_def)
  from toRun_replace [OF m(3) this, of c] c have
    "toRun keccak ((storedRow dbTime m)\<lparr>rmCreatedAt := c, rmAddressPlans := a, rmTokenPlans := t\<rparr>) =
      Inr (storedRun dbTime r)" by simp
  with row show ?thesis by (auto simp: decodedRuns_def fun_eq_iff)
qed

lemma repo_save_creates:
  assumes "representable r" "runRows w (runId r) = None" "runCreatedAt r \<noteq> 0"
    and "run_state (gormRunRepo_Save keccak db r) w = (None, w')"
  shows "decodedRuns keccak (runRows w') = (decodedRuns keccak (runRows w))(runId r \<mapsto> storedRun dbTime r)"
proof -
  obtain m where m: "toRunModel keccak r = Inr m" "rmID m = runId r"
      "toRun keccak (storedRow dbTime m) = Inr (storedRun dbTime r)"
    using run_row_roundtrip [OF assms(1)] by blast
  have c: "rmCreatedAt m = runCreatedAt r"
    using m(1) by (auto simp: toRunModel_def Let_def split: sum.splits)
  have "run_state (dbUpsertRun db m) w = (None, w')"
    using assms(4) m by (auto simp: gormRunRepo_Save_def split: prod.splits)
  from upsert_ok [OF this] m(2) assms(2,3) c
  have "runRows w' = (runRows w)(runId r \<mapsto> storedRow dbTime m)"
    by (auto simp: upserted_def storedRow_def)
  with m(3) show ?thesis by (auto simp: decodedRuns_def fun_eq_iff)
qed

end

lemma page_set: "set (page q ms) \<subseteq> set ms"
  by (auto simp: page_def Let_def split: option.splits dest: in_set_takeD in_set_dropD)

lemma page_sorted: "sorted_wrt P ms \<Longrightarrow> sorted_wrt P (page q ms)"
  by (auto simp: page_def Let_def sorted_wrt_take sorted_wrt_drop split: option.splits)

lemma list_all2_right: "list_all2 P xs ys \<Longrightarrow> y \<in> set ys \<Longrightarrow> \<exists>x \<in> set xs. P x y"
  by (induction rule: list_all2_induct) auto

lemma list_all2_left: "list_all2 P xs ys \<Longrightarrow> x \<in> set xs \<Longrightarrow> \<exists>y \<in> set ys. P x y"
  by (induction rule: list_all2_induct) auto

lemma list_all2_map_eq:
  "list_all2 P xs ys \<Longrightarrow> (\<And>x y. P x y \<Longrightarrow> f y = g x) \<Longrightarrow> map f ys = map g xs"
  by (induction rule: list_all2_induct) auto

lemma decodeRows_Inr:
  "decodeRows dec what ms = Inr xs \<longleftrightarrow> list_all2 (\<lambda>m x. dec m = Inr x) ms xs"
  by (induction ms arbitrary: xs) (auto simp: Inr_map_sum list_all2_Cons1 split: sum.splits)

text \<open>The runs a filter accepts; times are compared at the database's resolution.\<close>

definition acceptsRun :: "(gotime \<Rightarrow> gotime) \<Rightarrow> run_filter \<Rightarrow> run \<Rightarrow> bool" where
  "acceptsRun dbTime f r \<longleftrightarrow>
     (\<forall>c. rfChainID f = Some c \<longrightarrow> runChainID r = c) \<and> (\<forall>s. rfStatus f = Some s \<longrightarrow> runStatus r = s) \<and>
     (\<forall>t. rfCreatedAt f = Some t \<longrightarrow> dbTime (trFrom t) \<le> runCreatedAt r \<and> runCreatedAt r \<le> dbTime (trTo t))"

lemma selects_run:
  assumes "toRun keccak m = Inr r"
  shows "selects dbTime runColumn (runWhere f) m \<longleftrightarrow> acceptsRun dbTime f r"
  using toRun_fields [OF assms]
  by (auto simp: selects_def runWhere_def acceptsRun_def runColumn_def dbParam_def uint_word_of_int
      word_uint_eq_iff split: option.splits)

context run_table
begin

lemma repo_list:
  assumes "run_state (gormRunRepo_List keccak db f) w = (Inr (rs, n), w')"
  shows "runRows w' = runRows w"
    and "\<And>r. r \<in> set rs \<Longrightarrow> decodedRuns keccak (runRows w) (runId r) = Some r \<and> acceptsRun dbTime f r"
    and "sorted_wrt (\<lambda>a b. runCreatedAt b \<le> runCreatedAt a) rs"
    and "n = int (card {i. \<exists>m. runRows w i = Some m \<and> selects dbTime runColumn (runWhere f) m})"
    and "0 < rfLimit f \<Longrightarrow> int (length rs) \<le> rfLimit f"
    and "rfLimit f \<le> 0 \<Longrightarrow> rfOffset f \<le> 0 \<Longrightarrow> n = int (length rs) \<and>
      (\<forall>i r. decodedRuns keccak (runRows w) i = Some r \<and> acceptsRun dbTime f r \<longrightarrow> r \<in> set rs)"
proof -
  let ?q = "\<lparr>qWhere = runWhere f, qOrder = [(''created_at'', True)],
      qLimit = positive (rfLimit f), qOffset = positive (rfOffset f)\<rparr>"
  obtain w1 rows where c: "run_state (dbCountRuns db (runWhere f)) w = (Inr n, w1)"
    and q: "run_state (dbFindRuns db ?q) w1 = (Inr rows, w')"
    and d: "list_all2 (\<lambda>m x. toRun keccak m = Inr x) rows rs"
    using assms
    by (auto simp: gormRunRepo_List_def Inr_map_sum decodeRows_Inr split: prod.splits sum.splits)
  have keep: "runRows w1 = runRows w" using count_keeps [OF c] .
  show "runRows w' = runRows w" using find_keeps [OF q] keep by simp
  show n: "n = int (card {i. \<exists>m. runRows w i = Some m \<and> selects dbTime runColumn (runWhere f) m})"
    using count_ok [OF c] by (simp add: counted_def)
  obtain ks where ks: "distinct ks"
      "set ks = {i. \<exists>m. runRows w i = Some m \<and> selects dbTime runColumn (runWhere f) m}"
      "sorted_wrt (inOrder runColumn [(''created_at'', True)]) (map (\<lambda>k. the (runRows w k)) ks)"
      "rows = page ?q (map (\<lambda>k. the (runRows w k)) ks)"
    using find_ok [OF q] keep by (auto simp: queried_def)
  have row: "\<exists>i. runRows w i = Some m \<and> selects dbTime runColumn (runWhere f) m" if "m \<in> set rows" for m
    using that ks(2,4) page_set [of ?q] by fastforce
  show "decodedRuns keccak (runRows w) (runId r) = Some r \<and> acceptsRun dbTime f r" if r: "r \<in> set rs" for r
  proof -
    obtain m where m: "m \<in> set rows" "toRun keccak m = Inr r"
      using list_all2_right [OF d r] by blast
    obtain i where i: "runRows w i = Some m" "selects dbTime runColumn (runWhere f) m" using row [OF m(1)] by blast
    then show ?thesis
      using rows_keyed [OF i(1)] toRun_fields(3) [OF m(2)] selects_run [OF m(2)] m(2)
      by (auto simp: decodedRuns_Some)
  qed
  have "sorted_wrt (\<lambda>a b. rmCreatedAt b \<le> rmCreatedAt a) rows"
    unfolding ks(4)
    by (rule page_sorted, rule sorted_wrt_mono_rel [OF _ ks(3)])
      (auto simp: runColumn_def split: if_splits)
  then have "sorted_wrt (\<lambda>x y. y \<le> x) (map rmCreatedAt rows)" by (simp add: sorted_wrt_map)
  moreover have "map runCreatedAt rs = map rmCreatedAt rows"
    by (rule list_all2_map_eq [OF d]) (rule toRun_fields(6))
  ultimately have "sorted_wrt (\<lambda>x y. y \<le> x) (map runCreatedAt rs)" by simp
  then show "sorted_wrt (\<lambda>a b. runCreatedAt b \<le> runCreatedAt a) rs" by (simp add: sorted_wrt_map)
  show "int (length rs) \<le> rfLimit f" if "0 < rfLimit f"
    using that list_all2_lengthD [OF d] ks(4) by (auto simp: page_def Let_def positive_def)
  show "n = int (length rs) \<and>
      (\<forall>i r. decodedRuns keccak (runRows w) i = Some r \<and> acceptsRun dbTime f r \<longrightarrow> r \<in> set rs)"
    if "rfLimit f \<le> 0" "rfOffset f \<le> 0"
  proof -
    have rows: "rows = map (\<lambda>k. the (runRows w k)) ks"
      using that ks(4) by (simp add: page_def positive_def)
    have "r \<in> set rs" if r: "decodedRuns keccak (runRows w) i = Some r" "acceptsRun dbTime f r" for i r
    proof -
      obtain m where m: "runRows w i = Some m" "toRun keccak m = Inr r" using r(1) by (auto simp: decodedRuns_Some)
      then have "i \<in> set ks" using r(2) ks(2) selects_run [OF m(2)] by blast
      then have "m \<in> set rows" using rows m(1) by force
      then show ?thesis using list_all2_left [OF d] m(2) by force
    qed
    then show ?thesis using n ks(1,2) rows list_all2_lengthD [OF d] by (metis distinct_card length_map)
  qed
qed

lemma repo_prune:
  assumes "run_state (gormRunRepo_PruneFinishedBefore db cutoff) w = (Inr n, w')"
  shows "runRows w' = runRows w |` {i. \<exists>m. runRows w i = Some m \<and>
      (\<forall>t. rmFinishedAt m = Some t \<longrightarrow> dbTime cutoff \<le> t)}"
    and "n = int (card {i. \<exists>m t. runRows w i = Some m \<and> rmFinishedAt m = Some t \<and> t < dbTime cutoff})"
proof -
  have sel: "selects dbTime runColumn [ColNotNull ''finished_at'', ColBefore ''finished_at'' (DBTime cutoff)] m \<longleftrightarrow>
      (\<exists>t. rmFinishedAt m = Some t \<and> t < dbTime cutoff)" for m
    by (auto simp: selects_def runColumn_def dbParam_def split: option.splits)
  have del: "run_state (dbDeleteRuns db [ColNotNull ''finished_at'', ColBefore ''finished_at'' (DBTime cutoff)]) w
      = (Inr n, w')"
    using assms by (auto simp: gormRunRepo_PruneFinishedBefore_def Inr_map_sum split: prod.splits)
  show "runRows w' = runRows w |` {i. \<exists>m. runRows w i = Some m \<and>
      (\<forall>t. rmFinishedAt m = Some t \<longrightarrow> dbTime cutoff \<le> t)}"
    using delete_ok [OF del] unfolding sel by (simp add: not_less)
  show "n = int (card {i. \<exists>m t. runRows w i = Some m \<and> rmFinishedAt m = Some t \<and> t < dbTime cutoff})"
    using delete_ok [OF del] unfolding sel counted_def by (simp add: conj_commute)
qed

end

section \<open>The engine on this store\<close>

lemma io_mono: "state_io_rel R m \<Longrightarrow> (\<And>w w'. R w w' \<Longrightarrow> S w w') \<Longrightarrow> state_io_rel S m"
  by (simp add: state_io_rel_def)

lemma source_effect_mono: "source_effect R s \<Longrightarrow> (\<And>w w'. R w w' \<Longrightarrow> S w w') \<Longrightarrow> source_effect S s"
  unfolding source_effect_def by (meson io_mono)

lemma engine_ports_mono:
  assumes "engine_ports R uc ctxErr" and "reflp S" "transp S" and RS: "\<And>w w'. R w w' \<Longrightarrow> S w w'"
  shows "engine_ports S uc ctxErr"
proof -
  note io = io_mono [OF _ RS]
  note e = engine_ports.clock_io [OF assms(1)] engine_ports.ctx_io [OF assms(1)]
    engine_ports.forChain_io [OF assms(1)] engine_ports.head_io [OF assms(1)]
    engine_ports.addresses_io [OF assms(1)] engine_ports.tokens_io [OF assms(1)]
    engine_ports.budget_io [OF assms(1)]
  show ?thesis
  proof
    show "source_effect S s"
      if "run_state (Gateway_ForChain (erSources uc) c) w = (Inr ss, w')" "s \<in> set ss" for c w ss w' s
      using engine_ports.sources_io [OF assms(1) that] by (rule source_effect_mono) (rule RS)
  qed (use assms(2,3) in \<open>auto intro: io e\<close>)
qed

lemma engine_effects_mono:
  assumes "engine_effects R uc ctxErr i ms" and "reflp S" "transp S" and RS: "\<And>w w'. R w w' \<Longrightarrow> S w w'"
  shows "engine_effects S uc ctxErr i ms"
proof (rule engine_effects.intro)
  show "engine_ports S uc ctxErr"
    by (rule engine_ports_mono [OF engine_effects.axioms(1) [OF assms(1)] assms(2,3) RS])
  show "engine_effects_axioms S uc i ms"
    using engine_effects.save_io [OF assms(1)] by unfold_locales (rule io_mono [OF _ RS])
qed

text \<open>The engine wired to the run repository over a database, its other ports not writing runs.\<close>

locale gorm_engine = run_table db runRows dbTime
  for db :: "'w gorm_db" and runRows and dbTime +
  fixes uc :: "'w execute_run"
    and ctxErr :: "'w context_err"
    and keccak :: "string \<Rightarrow> byte list"
  assumes wired: "erRuns uc = NewRunRepo keccak db"
    and samplers_ok: "samplers_wf uc"
    and ports_keep: "engine_effects (same runRows) uc ctxErr i ms"

lemma representable_status:
  "representable r \<Longrightarrow> st \<noteq> [] \<Longrightarrow>
     representable (r\<lparr>runStatus := st, runStartedAt := sa, runFinishedAt := fa, runErrorMsg := msg\<rparr>)"
  by (simp add: representable_def)

lemma representable_summary:
  "representable r \<Longrightarrow> \<forall>s \<in> set (rsSubjects sm). wfSubject s \<Longrightarrow> representable (r\<lparr>runSummary := sm\<rparr>)"
  by (simp add: representable_def)

lemma NewRunRepo_sel [simp]:
  "RunRepo_Save (NewRunRepo keccak db) = gormRunRepo_Save keccak db"
  "RunRepo_FindByID (NewRunRepo keccak db) = gormRunRepo_FindByID keccak db"
  "RunRepo_List (NewRunRepo keccak db) = gormRunRepo_List keccak db"
  by (simp_all add: NewRunRepo_def)

sublocale gorm_engine \<subseteq> store: run_store uc ctxErr "\<lambda>w. decodedRuns keccak (runRows w)" "storedRun dbTime" representable
proof (rule run_store.intro)
  show "samplers_wf uc" by (rule samplers_ok)
  show "decodedRuns keccak (runRows w') = decodedRuns keccak (runRows w)"
    if "run_state (RunRepo_FindByID (erRuns uc) i) w = (x, w')" for i w x w'
    using that repo_find_keeps [of keccak i w x w'] by (simp add: wired)
  show "decodedRuns keccak (runRows w) i = Some r"
    if "run_state (RunRepo_FindByID (erRuns uc) i) w = (Inr r, w')" for i w r w'
    using that repo_find_returns [of keccak i w r w'] by (simp add: wired)
  show "runId r = i" "representable r" if "decodedRuns keccak (runRows w) i = Some r" for w i r
    using that rows_keyed toRun_representable by (fastforce simp: decodedRuns_Some)+
  show "decodedRuns keccak (runRows w') = (decodedRuns keccak (runRows w))(runId r \<mapsto> storedRun dbTime r)"
    if "representable r" "decodedRuns keccak (runRows w) (runId r) = Some r0" "fixedPart r0 = fixedPart r"
      "run_state (RunRepo_Save (erRuns uc) r) w = (None, w')" for r w r0 w'
    using that repo_save_stores [of r keccak w r0 w'] by (simp add: wired)
  show "decodedRuns keccak (runRows w') = decodedRuns keccak (runRows w)"
    if "run_state (RunRepo_Save (erRuns uc) r) w = (Some e, w')" for r w e w'
    using that repo_save_fails [of keccak r w e w'] by (simp add: wired)
  show "fixedPart (storedRun dbTime r) = fixedPart r"
    if "decodedRuns keccak (runRows w) i = Some r0" "fixedPart r0 = fixedPart r" for w i r0 r
  proof -
    obtain m where m: "runRows w i = Some m" "toRun keccak m = Inr r0"
      using \<open>decodedRuns keccak (runRows w) i = Some r0\<close> by (auto simp: decodedRuns_Some)
    have "dbTime (rmCreatedAt m) = rmCreatedAt m"
      using arg_cong [OF rows_time [OF m(1)], of rmCreatedAt] by (simp add: storedRow_def)
    then show ?thesis using toRun_fields(6) [OF m(2)] \<open>fixedPart r0 = fixedPart r\<close>
      by (simp add: fixedPart_def storedRun_def)
  qed
  show "engine_effects (same (\<lambda>w. decodedRuns keccak (runRows w))) uc ctxErr i ms" for i ms
    by (rule engine_effects_mono [OF ports_keep]) (auto simp: same_def reflp_def transp_def)
qed (simp_all add: representable_status representable_summary storedRun_def)

text \<open>The same engine on a database whose statements on the runs table do not fail.\<close>

locale reliable_gorm_engine = gorm_engine +
  assumes upsert_total: "fst (run_state (dbUpsertRun db m) w) = None"
    and first_total: "runRows w i = Some m \<Longrightarrow> \<exists>w'. run_state (dbFirstRun db i) w = (Inr m, w')"

lemma marshalPlans_total: "\<exists>js. marshalPlans what enc (map Some ps) = Inr js"
  by (induction ps) auto

lemma toRunModel_total: "\<exists>m. toRunModel keccak r = Inr m"
proof -
  have "\<exists>j. marshalStrategy (Some (runStrategy r)) = Inr j"
    by (cases "runStrategy r") (simp_all add: marshalStrategy_def)
  moreover have "\<exists>j. marshalAddressPlans keccak (map Some (runAddressPlans r)) = Inr j"
      "\<exists>j. marshalTokenPlans keccak (map Some (runTokenPlans r)) = Inr j"
    unfolding marshalAddressPlans_def marshalTokenPlans_def
    by (metis marshalPlans_total map_sum.simps(2))+
  ultimately show ?thesis by (auto simp: toRunModel_def Let_def)
qed

sublocale reliable_gorm_engine \<subseteq> reliable: reliable_run_store uc ctxErr "\<lambda>w. decodedRuns keccak (runRows w)"
  "storedRun dbTime" representable
proof
  show "fst (run_state (RunRepo_Save (erRuns uc) r) w) = None" for r w
    using toRunModel_total [of keccak r] upsert_total [of _ w]
    by (auto simp: wired gormRunRepo_Save_def split: prod.splits) (metis fst_conv option.discI)
  show "\<exists>w'. run_state (RunRepo_FindByID (erRuns uc) i) w = (Inr r, w')"
    if "decodedRuns keccak (runRows w) i = Some r" for w i r
  proof -
    obtain m where m: "runRows w i = Some m" "toRun keccak m = Inr r"
      using \<open>decodedRuns keccak (runRows w) i = Some r\<close> by (auto simp: decodedRuns_Some)
    from first_total [OF m(1)] m(2) show ?thesis by (auto simp: wired gormRunRepo_FindByID_def)
  qed
qed

section \<open>The discrepancies table\<close>

locale diff_table =
  fixes db :: "'w gorm_db"
    and diffRows :: "'w \<Rightarrow> int \<rightharpoonup> diff_model"
    and dbTime :: "gotime \<Rightarrow> gotime"
    and now :: "('w, gotime) state"
  assumes create_ok: "run_state (dbCreateDiff db m) w = (Inr n, w') \<Longrightarrow> dmID m = 0 \<Longrightarrow>
        inInt64 n \<and> diffRows w n = None \<and> diffRows w' = (diffRows w)(n \<mapsto> storedDiff dbTime (m\<lparr>dmID := n\<rparr>))"
    and create_err: "run_state (dbCreateDiff db m) w = (Inl e, w') \<Longrightarrow> diffRows w' = diffRows w"
    and dfirst_ok: "run_state (dbFirstDiff db k) w = (Inr m, w') \<Longrightarrow> diffRows w k = Some m"
    and dfirst_missing: "run_state (dbFirstDiff db k) w = (Inl ErrRecordNotFound, w') \<Longrightarrow> diffRows w k = None"
    and dfirst_keeps: "run_state (dbFirstDiff db k) w = (x, w') \<Longrightarrow> diffRows w' = diffRows w"
    and dcount_ok: "run_state (dbCountDiffs db conds) w = (Inr n, w') \<Longrightarrow>
        counted dbTime diffColumn (diffRows w) conds n"
    and dcount_keeps: "run_state (dbCountDiffs db conds) w = (y, w') \<Longrightarrow> diffRows w' = diffRows w"
    and dfind_ok: "run_state (dbFindDiffs db q) w = (Inr rows, w') \<Longrightarrow> fst ` set (qOrder q) \<subseteq> {''detected_at'', ''id''} \<Longrightarrow>
        queried dbTime diffColumn (diffRows w) q rows"
    and dfind_keeps: "run_state (dbFindDiffs db q) w = (z, w') \<Longrightarrow> diffRows w' = diffRows w"
    and update_ok: "run_state (dbUpdateDiffs db conds sets) w = (Inr n, w') \<Longrightarrow>
        diffRows w' = (\<lambda>k. map_option (\<lambda>m. if selects dbTime diffColumn conds m
           then foldl (setDiffColumn dbTime) m sets else m) (diffRows w k)) \<and>
        counted dbTime diffColumn (diffRows w) conds n"
    and update_err: "run_state (dbUpdateDiffs db conds sets) w = (Inl e, w') \<Longrightarrow> diffRows w' = diffRows w"
    and drows_keyed: "diffRows w k = Some m \<Longrightarrow> dmID m = k"
    and now_keeps: "run_state now w = (t, w') \<Longrightarrow> diffRows w' = diffRows w"

text \<open>The records a table holds, by their ids.\<close>

definition decodedDiffs :: "time_codec \<Rightarrow> (int \<rightharpoonup> diff_model) \<Rightarrow> diff_id \<rightharpoonup> diff_record" where
  "decodedDiffs tc rows i =
     (case ParseInt i of
        None \<Rightarrow> None
      | Some k \<Rightarrow>
          (case rows k of
             None \<Rightarrow> None
           | Some m \<Rightarrow> (case toDiffRecord tc m of Inl _ \<Rightarrow> None | Inr r \<Rightarrow> Some r)))"

lemma ParseInt_FormatInt [simp]: "inInt64 n \<Longrightarrow> ParseInt (FormatInt 10 n) = Some n"
  by (simp add: ParseInt_def SetString_FormatInt)

text \<open>Updating the rows with a given key is updating one row.\<close>

lemma map_update_keyed:
  assumes "\<And>k' m. tab k' = Some m \<Longrightarrow> key m = k'"
  shows "(\<lambda>k'. map_option (\<lambda>m. if key m = k then f m else m) (tab k')) =
    (case tab k of None \<Rightarrow> tab | Some m \<Rightarrow> tab(k \<mapsto> f m))"
proof
  fix k'
  show "map_option (\<lambda>m. if key m = k then f m else m) (tab k') =
      (case tab k of None \<Rightarrow> tab | Some m \<Rightarrow> tab(k \<mapsto> f m)) k'"
  proof (cases "tab k'")
    case (Some m)
    then show ?thesis using assms [OF Some] by (cases "k' = k") (auto split: option.splits)
  qed (auto split: option.splits)
qed

lemma toDiffRecord_resolved:
  "toDiffRecord tc (m\<lparr>dmResolved := True, dmResolvedAt := t\<rparr>) =
     map_sum id (\<lambda>r. r\<lparr>drResolved := True, drResolvedAt := t\<rparr>) (toDiffRecord tc m)"
  by (cases "unmarshalValues tc (dmValues m)"; cases "metricByKey (dmMetricKey m)")
    (simp_all add: toDiffRecord_def Let_def)

lemma toDiffRecord_id: "toDiffRecord tc m = Inr r \<Longrightarrow> drID r = FormatInt 10 (dmID m)"
  by (auto simp: toDiffRecord_def Let_def split: sum.splits option.splits)

context diff_table
begin

lemma repo_diff_find:
  assumes "run_state (gormDiffRepo_FindByID tc db i) w = (x, w')"
  shows "diffRows w' = diffRows w"
    and "\<And>r. x = Inr r \<Longrightarrow> decodedDiffs tc (diffRows w) i = Some r"
    and "x = Inl ErrDiffNotFound \<Longrightarrow> decodedDiffs tc (diffRows w) i = None"
  using assms dfirst_ok dfirst_missing dfirst_keeps
  by (fastforce simp: gormDiffRepo_FindByID_def decodedDiffs_def Inr_map_sum Inl_map_sum
      split: option.splits prod.splits sum.splits if_splits)+

lemma repo_diff_found:
  assumes "run_state (gormDiffRepo_FindByID tc db i) w = (x, w')"
    and "decodedDiffs tc (diffRows w) i = Some r"
  shows "x = Inr r \<or> (\<exists>e. x = Inl (Wrap ''diff repo find by id: '' (ErrDB e)))"
proof -
  obtain k m where k: "ParseInt i = Some k" "diffRows w k = Some m" "toDiffRecord tc m = Inr r"
    using assms(2) by (auto simp: decodedDiffs_def split: option.splits sum.splits)
  obtain res where res: "run_state (dbFirstDiff db k) w = (res, w')"
    and x: "x = (case res of
                 Inl e \<Rightarrow> Inl (if e = ErrRecordNotFound then ErrDiffNotFound
                               else Wrap ''diff repo find by id: '' (ErrDB e))
               | Inr m \<Rightarrow> map_sum (\<lambda>e. Wrap ''diff repo decode: '' (ErrPersist e)) id (toDiffRecord tc m))"
    using assms(1) k(1) by (auto simp: gormDiffRepo_FindByID_def split: prod.splits)
  show ?thesis
  proof (cases res)
    case (Inl e)
    then show ?thesis using x res k(2) dfirst_missing by auto
  next
    case (Inr m')
    then show ?thesis using x res k(2,3) dfirst_ok by fastforce
  qed
qed

lemma repo_diff_save:
  assumes "run_state (gormDiffRepo_Save tc now db d j meta) w = (Inr i, w')"
  shows "\<exists>k t w1. i = FormatInt 10 k \<and> inInt64 k \<and> diffRows w k = None \<and>
    run_state (nonZeroTime now (dDetectedAt d)) w = (t, w1) \<and>
    diffRows w' = (diffRows w)(k \<mapsto> storedDiff dbTime ((toDiffModel tc (d\<lparr>dDetectedAt := t\<rparr>) j meta)\<lparr>dmID := k\<rparr>))"
proof -
  let ?m = "toDiffModel tc d j meta"
  have fld: "dmID (?m\<lparr>dmDetectedAt := t\<rparr>) = 0" "dmDetectedAt ?m = dDetectedAt d"
      "?m\<lparr>dmDetectedAt := t\<rparr> = toDiffModel tc (d\<lparr>dDetectedAt := t\<rparr>) j meta" for t
    by (simp_all add: toDiffModel_def Let_def)
  obtain t w1 k where t: "run_state (nonZeroTime now (dDetectedAt d)) w = (t, w1)"
    and c: "run_state (dbCreateDiff db (?m\<lparr>dmDetectedAt := t\<rparr>)) w1 = (Inr k, w')" and i: "i = FormatInt 10 k"
    using assms by (auto simp: gormDiffRepo_Save_def Let_def Inr_map_sum fld(2) split: prod.splits)
  have "diffRows w1 = diffRows w"
    using t now_keeps by (auto simp: nonZeroTime_def split: if_splits)
  with create_ok [OF c fld(1)] t i show ?thesis unfolding fld(3) by auto
qed

lemma repo_diff_save_fails:
  "run_state (gormDiffRepo_Save tc now db d j meta) w = (Inl e, w') \<Longrightarrow> diffRows w' = diffRows w"
  using now_keeps create_err
  by (fastforce simp: gormDiffRepo_Save_def nonZeroTime_def Let_def Inl_map_sum split: prod.splits if_splits)

text \<open>The three ways \<open>MarkResolved\<close> can end.\<close>

lemma repo_mark_resolved:
  assumes "run_state (gormDiffRepo_MarkResolved db i at) w = (x, w')"
  shows "(\<exists>k m. x = None \<and> ParseInt i = Some k \<and> diffRows w k = Some m \<and>
      diffRows w' = (diffRows w)(k \<mapsto> m\<lparr>dmResolved := True, dmResolvedAt := Some (dbTime at)\<rparr>)) \<or>
    (x = Some ErrDiffNotFound \<and> (\<forall>k. ParseInt i = Some k \<longrightarrow> diffRows w k = None) \<and> diffRows w' = diffRows w) \<or>
    (\<exists>e. x = Some (Wrap ''diff repo mark resolved: '' (ErrDB e)) \<and> diffRows w' = diffRows w)"
proof (cases "ParseInt i")
  case None
  then show ?thesis using assms by (auto simp: gormDiffRepo_MarkResolved_def)
next
  case (Some k)
  let ?c = "[ColEq ''id'' (DBInt k)]" and ?s = "[(''resolved'', DBBool True), (''resolved_at'', DBTime at)]"
  obtain res where res: "run_state (dbUpdateDiffs db ?c ?s) w = (res, w')"
    and x: "x = (case res of Inl e \<Rightarrow> Some (Wrap ''diff repo mark resolved: '' (ErrDB e))
             | Inr n \<Rightarrow> if n = 0 then Some ErrDiffNotFound else None)"
    using assms Some by (auto simp: gormDiffRepo_MarkResolved_def split: prod.splits)
  have sel: "selects dbTime diffColumn ?c m \<longleftrightarrow> dmID m = k" for m
    by (auto simp: selects_def diffColumn_def dbParam_def)
  have sets: "foldl (setDiffColumn dbTime) m ?s = m\<lparr>dmResolved := True, dmResolvedAt := Some (dbTime at)\<rparr>" for m
    by (simp add: setDiffColumn_def)
  show ?thesis
  proof (cases res)
    case (Inl e)
    then show ?thesis using update_err res x by auto
  next
    case (Inr n)
    note u = update_ok [OF res [unfolded Inr]]
    have "{k'. \<exists>m. diffRows w k' = Some m \<and> selects dbTime diffColumn ?c m} =
        (if diffRows w k = None then {} else {k})"
      unfolding sel using drows_keyed by (auto split: if_splits)
    then have n: "n = (if diffRows w k = None then 0 else 1)"
      using u by (simp add: counted_def)
    have "diffRows w' = (\<lambda>k'. map_option (\<lambda>m. if dmID m = k
        then m\<lparr>dmResolved := True, dmResolvedAt := Some (dbTime at)\<rparr> else m) (diffRows w k'))"
      using u unfolding sel sets by simp
    also have "\<dots> = (case diffRows w k of None \<Rightarrow> diffRows w
        | Some m \<Rightarrow> (diffRows w)(k \<mapsto> m\<lparr>dmResolved := True, dmResolvedAt := Some (dbTime at)\<rparr>))"
      by (rule map_update_keyed) (rule drows_keyed)
    finally show ?thesis using x Inr n Some by (cases "diffRows w k") auto
  qed
qed

end

section \<open>The schedules table\<close>

definition storedSchedule :: "(gotime \<Rightarrow> gotime) \<Rightarrow> schedule_model \<Rightarrow> schedule_model" where
  "storedSchedule dbTime m = m\<lparr>smCreatedAt := dbTime (smCreatedAt m)\<rparr>"

text \<open>An insert keeps the row as given when it is active and has a creation time: gorm fills in the
  default of a false flag and of a zero time. What an upsert does to a row that is there is left
  open, up to its key.\<close>

locale schedule_table =
  fixes db :: "'w gorm_db"
    and schedRows :: "'w \<Rightarrow> string \<rightharpoonup> schedule_model"
    and dbTime :: "gotime \<Rightarrow> gotime"
  assumes supsert_ok: "run_state (dbUpsertSchedule db m) w = (None, w') \<Longrightarrow>
        \<exists>row. smJobID row = smJobID m \<and> schedRows w' = (schedRows w)(smJobID m \<mapsto> row) \<and>
          (schedRows w (smJobID m) = None \<and> smActive m \<and> smCreatedAt m \<noteq> 0 \<longrightarrow> row = storedSchedule dbTime m)"
    and supsert_err: "run_state (dbUpsertSchedule db m) w = (Some e, w') \<Longrightarrow> schedRows w' = schedRows w"
    and sfind_ok: "run_state (dbFindSchedules db q) w = (Inr rows, w') \<Longrightarrow> fst ` set (qOrder q) \<subseteq> {''created_at''} \<Longrightarrow>
        queried dbTime scheduleColumn (schedRows w) q rows"
    and sfind_keeps: "run_state (dbFindSchedules db q) w = (z, w') \<Longrightarrow> schedRows w' = schedRows w"
    and supdate_ok: "run_state (dbUpdateSchedules db conds sets) w = (Inr n, w') \<Longrightarrow>
        schedRows w' = (\<lambda>k. map_option (\<lambda>m. if selects dbTime scheduleColumn conds m
           then foldl setScheduleColumn m sets else m) (schedRows w k))"
    and supdate_err: "run_state (dbUpdateSchedules db conds sets) w = (Inl e', w') \<Longrightarrow> schedRows w' = schedRows w"
    and srows_keyed: "schedRows w k = Some m \<Longrightarrow> smJobID m = k"
begin

lemma repo_schedule_save:
  assumes "run_state (gormScheduleRepo_Save keccak db s) w = (None, w')"
    and "schedRows w (srJobID s) = None" "srActive s" "srCreatedAt s \<noteq> 0"
  shows "\<exists>m. toScheduleModel keccak s = Inr m \<and> schedRows w' = (schedRows w)(srJobID s \<mapsto> storedSchedule dbTime m)"
proof -
  obtain m where m: "toScheduleModel keccak s = Inr m" "run_state (dbUpsertSchedule db m) w = (None, w')"
    using assms(1) by (auto simp: gormScheduleRepo_Save_def split: sum.splits prod.splits)
  then have "smJobID m = srJobID s" "smActive m = srActive s" "smCreatedAt m = srCreatedAt s"
    by (auto simp: toScheduleModel_def split: sum.splits)
  with supsert_ok [OF m(2)] m(1) assms(2-4) show ?thesis by auto
qed

lemma repo_deactivate:
  assumes "run_state (gormScheduleRepo_Deactivate db i) w = (x, w')"
  shows "x = None \<Longrightarrow> schedRows w' =
      (case schedRows w i of None \<Rightarrow> schedRows w | Some m \<Rightarrow> (schedRows w)(i \<mapsto> m\<lparr>smActive := False\<rparr>))"
    and "x \<noteq> None \<Longrightarrow> schedRows w' = schedRows w"
proof -
  let ?c = "[ColEq ''job_id'' (DBStr i)]" and ?s = "[(''active'', DBBool False)]"
  obtain res where res: "run_state (dbUpdateSchedules db ?c ?s) w = (res, w')"
    and x: "x = None \<longleftrightarrow> (\<exists>n. res = Inr n)"
    using assms by (auto simp: gormScheduleRepo_Deactivate_def split: prod.splits sum.splits)
  have sel: "selects dbTime scheduleColumn ?c m \<longleftrightarrow> smJobID m = i" for m
    by (auto simp: selects_def scheduleColumn_def dbParam_def)
  have sets: "foldl setScheduleColumn m ?s = m\<lparr>smActive := False\<rparr>" for m
    by (simp add: setScheduleColumn_def)
  show "schedRows w' =
      (case schedRows w i of None \<Rightarrow> schedRows w | Some m \<Rightarrow> (schedRows w)(i \<mapsto> m\<lparr>smActive := False\<rparr>))" if "x = None"
  proof -
    obtain n where "res = Inr n" using \<open>x = None\<close> x by blast
    then have "schedRows w' = (\<lambda>k. map_option (\<lambda>m. if smJobID m = i then m\<lparr>smActive := False\<rparr> else m) (schedRows w k))"
      using supdate_ok [of ?c ?s w n w'] res unfolding sel sets by simp
    also have "\<dots> = (case schedRows w i of None \<Rightarrow> schedRows w | Some m \<Rightarrow> (schedRows w)(i \<mapsto> m\<lparr>smActive := False\<rparr>))"
      by (rule map_update_keyed) (rule srows_keyed)
    finally show ?thesis .
  qed
  show "schedRows w' = schedRows w" if "x \<noteq> None"
    using that x res supdate_err by (cases res) auto
qed

lemma repo_list_active:
  assumes "run_state (gormScheduleRepo_ListActive keccak loadLocation db) w = (Inr ss, w')"
  shows "set ss = {s. \<exists>k m. schedRows w k = Some m \<and> smActive m \<and> toScheduleRecord keccak loadLocation m = Inr s}"
    and "\<And>k m. schedRows w k = Some m \<Longrightarrow> smActive m \<Longrightarrow> \<exists>s. toScheduleRecord keccak loadLocation m = Inr s"
    and "schedRows w' = schedRows w"
proof -
  let ?q = "\<lparr>qWhere = [ColEq ''active'' (DBBool True)], qOrder = [(''created_at'', False)],
      qLimit = None, qOffset = None\<rparr>"
  obtain rows where q: "run_state (dbFindSchedules db ?q) w = (Inr rows, w')"
    and d: "list_all2 (\<lambda>m s. toScheduleRecord keccak loadLocation m = Inr s) rows ss"
    using assms by (auto simp: gormScheduleRepo_ListActive_def decodeRows_Inr split: prod.splits sum.splits)
  have sel: "selects dbTime scheduleColumn [ColEq ''active'' (DBBool True)] m \<longleftrightarrow> smActive m" for m
    by (auto simp: selects_def scheduleColumn_def dbParam_def)
  obtain ks where ks: "set ks = {k. \<exists>m. schedRows w k = Some m \<and> smActive m}"
      "rows = map (\<lambda>k. the (schedRows w k)) ks"
    using sfind_ok [OF q] by (auto simp: queried_def sel page_def)
  have rows: "m \<in> set rows \<longleftrightarrow> (\<exists>k. schedRows w k = Some m \<and> smActive m)" for m
    using ks by force
  show "\<exists>s. toScheduleRecord keccak loadLocation m = Inr s" if "schedRows w k = Some m" "smActive m" for k m
    using that rows list_all2_left [OF d] by blast
  show "set ss = {s. \<exists>k m. schedRows w k = Some m \<and> smActive m \<and> toScheduleRecord keccak loadLocation m = Inr s}"
  proof (intro set_eqI iffI)
    fix s
    assume "s \<in> set ss"
    then obtain m where "m \<in> set rows" "toScheduleRecord keccak loadLocation m = Inr s"
      using list_all2_right [OF d] by blast
    then show "s \<in> {s. \<exists>k m. schedRows w k = Some m \<and> smActive m \<and> toScheduleRecord keccak loadLocation m = Inr s}"
      using rows by blast
  next
    fix s
    assume "s \<in> {s. \<exists>k m. schedRows w k = Some m \<and> smActive m \<and> toScheduleRecord keccak loadLocation m = Inr s}"
    then obtain m where "m \<in> set rows" "toScheduleRecord keccak loadLocation m = Inr s" using rows by blast
    then show "s \<in> set ss" using list_all2_left [OF d, of m] by auto
  qed
  show "schedRows w' = schedRows w" using sfind_keeps [OF q] .
qed

end

end
