(* ===== verification/Memory.thy ===== *)
theory Memory
  imports Repositories
begin

text \<open>
  A database in memory: association lists for the three tables, with the statements executed on
  them, and the laws of the tables proved for it. It is the concrete instance on which the
  properties that speak about a database are evaluated.
\<close>

section \<open>Tables\<close>

record memory =
  memRuns :: "(string \<times> run_model) list"
  memDiffs :: "(int \<times> diff_model) list"
  memSchedules :: "(string \<times> schedule_model) list"
  memClock :: gotime

text \<open>Timestamps have microsecond resolution.\<close>

definition micros :: "gotime \<Rightarrow> gotime" where
  "micros t = t div 1000 * 1000"

definition runTable :: "memory \<Rightarrow> string \<rightharpoonup> run_model" where
  "runTable w i = map_option (\<lambda>m. storedRow micros (m\<lparr>rmID := i\<rparr>)) (map_of (memRuns w) i)"

definition diffTable :: "memory \<Rightarrow> int \<rightharpoonup> diff_model" where
  "diffTable w k = map_option (\<lambda>m. storedDiff micros (m\<lparr>dmID := k\<rparr>)) (map_of (memDiffs w) k)"

definition scheduleTable :: "memory \<Rightarrow> string \<rightharpoonup> schedule_model" where
  "scheduleTable w k = map_option (\<lambda>m. storedSchedule micros (m\<lparr>smJobID := k\<rparr>)) (map_of (memSchedules w) k)"

section \<open>Statements\<close>

text \<open>Rows are ordered by the vector of their order columns, negated where the order is descending.\<close>

definition orderKey :: "(string \<Rightarrow> 'm \<Rightarrow> db_value option) \<Rightarrow> (string \<times> bool) list \<Rightarrow> 'm \<Rightarrow> int list" where
  "orderKey col ord m =
     map (\<lambda>(c, desc). let v = (case col c m of Some (DBInt i) \<Rightarrow> i | Some (DBTime t) \<Rightarrow> t | _ \<Rightarrow> 0)
                      in if desc then - v else v) ord"

definition selectedKeys ::
  "(string \<Rightarrow> 'm \<Rightarrow> db_value option) \<Rightarrow> 'k list \<Rightarrow> ('k \<rightharpoonup> 'm) \<Rightarrow> cond list \<Rightarrow> 'k list" where
  "selectedKeys col ks tab conds =
     filter (\<lambda>k. case tab k of None \<Rightarrow> False | Some m \<Rightarrow> selects micros col conds m) (remdups ks)"

definition memFind ::
  "(string \<Rightarrow> 'm \<Rightarrow> db_value option) \<Rightarrow> 'k list \<Rightarrow> ('k \<rightharpoonup> 'm) \<Rightarrow> db_query \<Rightarrow> 'm list" where
  "memFind col ks tab q =
     page q (map (\<lambda>k. the (tab k))
       (sort_key (\<lambda>k. orderKey col (qOrder q) (the (tab k))) (selectedKeys col ks tab (qWhere q))))"

definition freshID :: "(int \<times> diff_model) list \<Rightarrow> int" where
  "freshID ds = foldr max (map fst ds) 0 + 1"

definition memDB :: "memory gorm_db" where
  "memDB =
     \<lparr>dbUpsertRun = (\<lambda>m. State (\<lambda>w. (None, w\<lparr>memRuns := AList.update (rmID m) m (memRuns w)\<rparr>))),
      dbFirstRun = (\<lambda>i. State (\<lambda>w. (case runTable w i of None \<Rightarrow> Inl ErrRecordNotFound | Some m \<Rightarrow> Inr m, w))),
      dbCountRuns = (\<lambda>conds. State (\<lambda>w.
        (Inr (int (length (selectedKeys runColumn (map fst (memRuns w)) (runTable w) conds))), w))),
      dbFindRuns = (\<lambda>q. State (\<lambda>w. (Inr (memFind runColumn (map fst (memRuns w)) (runTable w) q), w))),
      dbDeleteRuns = (\<lambda>conds. State (\<lambda>w.
        let ks = selectedKeys runColumn (map fst (memRuns w)) (runTable w) conds
        in (Inr (int (length ks)), w\<lparr>memRuns := filter (\<lambda>(k, _). k \<notin> set ks) (memRuns w)\<rparr>))),
      dbCreateDiff = (\<lambda>m. State (\<lambda>w.
        let n = freshID (memDiffs w)
        in if inInt64 n then (Inr n, w\<lparr>memDiffs := AList.update n m (memDiffs w)\<rparr>)
           else (Inl (DBError ''nextval: reached maximum value of sequence''), w))),
      dbFirstDiff = (\<lambda>k. State (\<lambda>w. (case diffTable w k of None \<Rightarrow> Inl ErrRecordNotFound | Some m \<Rightarrow> Inr m, w))),
      dbCountDiffs = (\<lambda>conds. State (\<lambda>w.
        (Inr (int (length (selectedKeys diffColumn (map fst (memDiffs w)) (diffTable w) conds))), w))),
      dbFindDiffs = (\<lambda>q. State (\<lambda>w. (Inr (memFind diffColumn (map fst (memDiffs w)) (diffTable w) q), w))),
      dbUpdateDiffs = (\<lambda>conds sets. State (\<lambda>w.
        let ks = selectedKeys diffColumn (map fst (memDiffs w)) (diffTable w) conds
        in (Inr (int (length ks)),
            w\<lparr>memDiffs := map (\<lambda>(k, m). (k, if k \<in> set ks then foldl (setDiffColumn micros) m sets else m))
               (memDiffs w)\<rparr>))),
      dbUpsertSchedule = (\<lambda>m. State (\<lambda>w. (None, w\<lparr>memSchedules := AList.update (smJobID m) m (memSchedules w)\<rparr>))),
      dbUpdateSchedules = (\<lambda>conds sets. State (\<lambda>w.
        let ks = selectedKeys scheduleColumn (map fst (memSchedules w)) (scheduleTable w) conds
        in (Inr (int (length ks)),
            w\<lparr>memSchedules := map (\<lambda>(k, m). (k, if k \<in> set ks then foldl setScheduleColumn m sets else m))
               (memSchedules w)\<rparr>))),
      dbFindSchedules = (\<lambda>q. State (\<lambda>w.
        (Inr (memFind scheduleColumn (map fst (memSchedules w)) (scheduleTable w) q), w)))\<rparr>"

text \<open>A clock that moves on at every reading.\<close>

definition memNow :: "(memory, gotime) state" where
  "memNow = State (\<lambda>w. (memClock w, w\<lparr>memClock := memClock w + 1000\<rparr>))"

section \<open>The laws\<close>

lemma selectedKeys_set:
  assumes "\<And>k. k \<notin> set ks \<Longrightarrow> tab k = None"
  shows "set (selectedKeys col ks tab conds) = {k. \<exists>m. tab k = Some m \<and> selects micros col conds m}"
  using assms by (auto simp: selectedKeys_def split: option.splits) (metis option.discI)

lemma selectedKeys_counted:
  assumes "\<And>k. k \<notin> set ks \<Longrightarrow> tab k = None"
  shows "counted micros col tab conds (int (length (selectedKeys col ks tab conds)))"
proof -
  have "distinct (selectedKeys col ks tab conds)" by (simp add: selectedKeys_def)
  moreover have "set (selectedKeys col ks tab conds) = {k. \<exists>m. tab k = Some m \<and> selects micros col conds m}"
    by (rule selectedKeys_set) (rule assms)
  ultimately show ?thesis using distinct_card [of "selectedKeys col ks tab conds"] by (simp add: counted_def)
qed

lemma orderKey_inOrder:
  assumes "\<And>c desc. (c, desc) \<in> set ord \<Longrightarrow>
      (\<exists>i j. col c a = Some (DBInt i) \<and> col c b = Some (DBInt j)) \<or>
      (\<exists>s t. col c a = Some (DBTime s) \<and> col c b = Some (DBTime t))"
    and "orderKey col ord a \<le> orderKey col ord b"
  shows "inOrder col ord a b"
  using assms
proof (induction ord)
  case (Cons e ord)
  obtain c desc where e: "e = (c, desc)" by fastforce
  have col: "(\<exists>i j. col c a = Some (DBInt i) \<and> col c b = Some (DBInt j)) \<or>
      (\<exists>s t. col c a = Some (DBTime s) \<and> col c b = Some (DBTime t))"
    using Cons.prems(1) [of c desc] e by simp
  have ih: "orderKey col ord a \<le> orderKey col ord b \<Longrightarrow> inOrder col ord a b"
    using Cons.prems(1) by (intro Cons.IH) (blast intro: list.set_intros)+
  show ?case
    using col Cons.prems(2) ih unfolding e by (auto simp: orderKey_def Let_def split: if_splits)
qed simp

lemma memFind_queried:
  assumes tab: "\<And>k. k \<notin> set ks \<Longrightarrow> tab k = None"
    and ord: "\<And>c desc a b. (c, desc) \<in> set (qOrder q) \<Longrightarrow>
      (\<exists>i j. col c a = Some (DBInt i) \<and> col c b = Some (DBInt j)) \<or>
      (\<exists>s t. col c a = Some (DBTime s) \<and> col c b = Some (DBTime t))"
  shows "queried micros col tab q (memFind col ks tab q)"
proof -
  let ?key = "\<lambda>k. orderKey col (qOrder q) (the (tab k))"
  let ?ks = "sort_key ?key (selectedKeys col ks tab (qWhere q))"
  have "sorted_wrt (\<lambda>k l. inOrder col (qOrder q) (the (tab k)) (the (tab l))) ?ks"
  proof (rule sorted_wrt_mono_rel)
    show "sorted_wrt (\<lambda>k l. ?key k \<le> ?key l) ?ks"
      using sorted_sort_key [of ?key] by (simp add: sorted_wrt_map)
    show "inOrder col (qOrder q) (the (tab k)) (the (tab l))" if "?key k \<le> ?key l" for k l
      using ord that by (intro orderKey_inOrder) blast+
  qed
  moreover have "distinct ?ks" by (simp add: selectedKeys_def)
  moreover have "set ?ks = {k. \<exists>m. tab k = Some m \<and> selects micros col (qWhere q) m}"
    using selectedKeys_set [of ks tab col "qWhere q"] tab by simp
  ultimately show ?thesis
    unfolding queried_def memFind_def by (intro exI [of _ ?ks]) (simp add: sorted_wrt_map)
qed

lemma tables_outside:
  "i \<notin> set (map fst (memRuns w)) \<Longrightarrow> runTable w i = None"
  "k \<notin> set (map fst (memDiffs w)) \<Longrightarrow> diffTable w k = None"
  "j \<notin> set (map fst (memSchedules w)) \<Longrightarrow> scheduleTable w j = None"
  by (simp_all add: runTable_def diffTable_def scheduleTable_def map_of_eq_None_iff)

lemma counted_tables:
  "counted micros runColumn (runTable w) conds
     (int (length (selectedKeys runColumn (map fst (memRuns w)) (runTable w) conds)))"
  "counted micros diffColumn (diffTable w) conds
     (int (length (selectedKeys diffColumn (map fst (memDiffs w)) (diffTable w) conds)))"
  by (rule selectedKeys_counted, rule tables_outside, assumption)+

lemma selected_tables:
  "i \<in> set (selectedKeys runColumn (map fst (memRuns w)) (runTable w) conds) \<longleftrightarrow>
     (\<exists>m. runTable w i = Some m \<and> selects micros runColumn conds m)"
  "k \<in> set (selectedKeys diffColumn (map fst (memDiffs w)) (diffTable w) conds) \<longleftrightarrow>
     (\<exists>m. diffTable w k = Some m \<and> selects micros diffColumn conds m)"
  "j \<in> set (selectedKeys scheduleColumn (map fst (memSchedules w)) (scheduleTable w) conds) \<longleftrightarrow>
     (\<exists>m. scheduleTable w j = Some m \<and> selects micros scheduleColumn conds m)"
  using selectedKeys_set [of "map fst (memRuns w)" "runTable w" runColumn conds]
    selectedKeys_set [of "map fst (memDiffs w)" "diffTable w" diffColumn conds]
    selectedKeys_set [of "map fst (memSchedules w)" "scheduleTable w" scheduleColumn conds]
    tables_outside [of _ w] by auto

lemma micros_idem [simp]: "micros (micros t) = micros t"
  by (simp add: micros_def)

lemma storedRow_idem [simp]: "storedRow micros (storedRow micros m) = storedRow micros m"
  by (simp add: storedRow_def option.map_comp comp_def)

lemma upserted_new: "rmID m = i \<Longrightarrow> upserted micros old m (storedRow micros (m\<lparr>rmID := i\<rparr>))"
  by (cases m)
    (auto simp: upserted_def storedRow_def split: option.splits)

lemma order_columns:
  "runColumn ''created_at'' m = Some (DBTime (rmCreatedAt m))"
  "diffColumn ''detected_at'' d = Some (DBTime (dmDetectedAt d))"
  "diffColumn ''id'' d = Some (DBInt (dmID d))"
  "scheduleColumn ''created_at'' s = Some (DBTime (smCreatedAt s))"
  by (simp_all add: runColumn_def diffColumn_def scheduleColumn_def)

interpretation memory_runs: run_table memDB runTable micros
proof
  show "\<exists>row. upserted micros (runTable w (rmID m)) m row \<and> runTable w' = (runTable w)(rmID m \<mapsto> row)"
    if "run_state (dbUpsertRun memDB m) w = (None, w')" for m w w'
    using that
    by (intro exI [of _ "storedRow micros (m\<lparr>rmID := rmID m\<rparr>)"] conjI upserted_new)
      (auto simp: memDB_def runTable_def fun_eq_iff update_conv')
  show "queried micros runColumn (runTable w) q rows"
    if "run_state (dbFindRuns memDB q) w = (Inr rows, w')" "fst ` set (qOrder q) \<subseteq> {''created_at''}"
    for q w rows w'
  proof -
    have "rows = memFind runColumn (map fst (memRuns w)) (runTable w) q"
      using that(1) by (auto simp: memDB_def)
    moreover have "queried micros runColumn (runTable w) q (memFind runColumn (map fst (memRuns w)) (runTable w) q)"
    proof (rule memFind_queried)
      fix c desc and a b :: run_model
      assume "(c, desc) \<in> set (qOrder q)"
      then have "c = ''created_at''" using that(2) by force
      then show "(\<exists>i j. runColumn c a = Some (DBInt i) \<and> runColumn c b = Some (DBInt j)) \<or>
          (\<exists>s t. runColumn c a = Some (DBTime s) \<and> runColumn c b = Some (DBTime t))" by (simp add: order_columns)
    qed (rule tables_outside)
    ultimately show ?thesis by simp
  qed
  show "counted micros runColumn (runTable w) conds n"
    if "run_state (dbCountRuns memDB conds) w = (Inr n, w')" for conds w n w'
    using that counted_tables(1) by (auto simp: memDB_def)
  show "runTable w' = runTable w |` {i. \<exists>m. runTable w i = Some m \<and> \<not> selects micros runColumn conds m} \<and>
      counted micros runColumn (runTable w) conds n"
    if "run_state (dbDeleteRuns memDB conds) w = (Inr n, w')" for conds w n w'
  proof
    let ?ks = "selectedKeys runColumn (map fst (memRuns w)) (runTable w) conds"
    have w': "n = int (length ?ks)" "w' = w\<lparr>memRuns := filter (\<lambda>(k, _). k \<notin> set ?ks) (memRuns w)\<rparr>"
      using that by (auto simp: memDB_def Let_def)
    show "counted micros runColumn (runTable w) conds n"
      unfolding w' by (rule counted_tables)
    have "map_of (filter (\<lambda>(k, _). k \<notin> set ?ks) xs) i = (if i \<in> set ?ks then None else map_of xs i)"
      for xs :: "(string \<times> run_model) list" and i
      by (induction xs) auto
    then have "runTable w' i = (if i \<in> set ?ks then None else runTable w i)" for i
      by (simp add: w'(2) runTable_def)
    then show "runTable w' = runTable w |` {i. \<exists>m. runTable w i = Some m \<and> \<not> selects micros runColumn conds m}"
      by (auto simp: fun_eq_iff restrict_map_def selected_tables(1))
  qed
qed (auto simp: memDB_def runTable_def storedRow_def option.map_comp comp_def Let_def split: option.splits)

text \<open>An update of the selected entries of an association list, seen through the table.\<close>

lemma map_of_update_selected:
  "map_of (map (\<lambda>(k, m). (k, if k \<in> S then f m else m)) xs) k =
     map_option (\<lambda>m. if k \<in> S then f m else m) (map_of xs k)"
  by (induction xs) auto

lemma setDiffColumn_stored:
  "storedDiff micros (setDiffColumn micros m cv) = setDiffColumn micros (storedDiff micros m) cv"
  "(setDiffColumn micros m cv)\<lparr>dmID := k\<rparr> = setDiffColumn micros (m\<lparr>dmID := k\<rparr>) cv"
  by (auto simp: setDiffColumn_def storedDiff_def split: prod.splits db_value.splits)

lemma setDiffColumns_stored:
  "storedDiff micros ((foldl (setDiffColumn micros) m sets)\<lparr>dmID := k\<rparr>) =
     foldl (setDiffColumn micros) (storedDiff micros (m\<lparr>dmID := k\<rparr>)) sets"
  by (induction sets arbitrary: m) (simp_all add: setDiffColumn_stored)

lemma setScheduleColumn_stored:
  "storedSchedule micros (setScheduleColumn m cv) = setScheduleColumn (storedSchedule micros m) cv"
  "(setScheduleColumn m cv)\<lparr>smJobID := k\<rparr> = setScheduleColumn (m\<lparr>smJobID := k\<rparr>) cv"
  by (auto simp: setScheduleColumn_def storedSchedule_def split: prod.splits db_value.splits)

lemma setScheduleColumns_stored:
  "storedSchedule micros ((foldl setScheduleColumn m sets)\<lparr>smJobID := k\<rparr>) =
     foldl setScheduleColumn (storedSchedule micros (m\<lparr>smJobID := k\<rparr>)) sets"
  by (induction sets arbitrary: m) (simp_all add: setScheduleColumn_stored)

lemma freshID_fresh: "k \<in> set (map fst ds) \<Longrightarrow> k < freshID ds"
proof -
  have "k \<in> set ks \<Longrightarrow> k \<le> foldr max ks 0" for ks :: "int list"
    by (induction ks) (auto simp: le_max_iff_disj)
  then show "k \<in> set (map fst ds) \<Longrightarrow> k < freshID ds" by (fastforce simp: freshID_def)
qed

interpretation memory_diffs: diff_table memDB diffTable micros memNow
proof
  show "inInt64 n \<and> diffTable w n = None \<and>
      diffTable w' = (diffTable w)(n \<mapsto> storedDiff micros (m\<lparr>dmID := n\<rparr>))"
    if "run_state (dbCreateDiff memDB m) w = (Inr n, w')" for m w n w'
  proof -
    have n: "n = freshID (memDiffs w)" "inInt64 n" "w' = w\<lparr>memDiffs := AList.update n m (memDiffs w)\<rparr>"
      using that by (auto simp: memDB_def Let_def split: if_splits)
    then have "n \<notin> set (map fst (memDiffs w))" using freshID_fresh [of n "memDiffs w"] by blast
    with n show ?thesis
      by (auto simp: tables_outside(2)) (auto simp: diffTable_def fun_eq_iff update_conv')
  qed
  show "queried micros diffColumn (diffTable w) q rows"
    if "run_state (dbFindDiffs memDB q) w = (Inr rows, w')" "fst ` set (qOrder q) \<subseteq> {''detected_at'', ''id''}"
    for q w rows w'
  proof -
    have "rows = memFind diffColumn (map fst (memDiffs w)) (diffTable w) q"
      using that(1) by (auto simp: memDB_def)
    moreover have "queried micros diffColumn (diffTable w) q (memFind diffColumn (map fst (memDiffs w)) (diffTable w) q)"
    proof (rule memFind_queried)
      fix c desc and a b :: diff_model
      assume "(c, desc) \<in> set (qOrder q)"
      then have "c = ''detected_at'' \<or> c = ''id''" using that(2) by force
      then show "(\<exists>i j. diffColumn c a = Some (DBInt i) \<and> diffColumn c b = Some (DBInt j)) \<or>
          (\<exists>s t. diffColumn c a = Some (DBTime s) \<and> diffColumn c b = Some (DBTime t))" by (auto simp: order_columns)
    qed (rule tables_outside)
    ultimately show ?thesis by simp
  qed
  show "counted micros diffColumn (diffTable w) conds n"
    if "run_state (dbCountDiffs memDB conds) w = (Inr n, w')" for conds w n w'
    using that counted_tables(2) by (auto simp: memDB_def)
  show "diffTable w' = (\<lambda>k. map_option (\<lambda>m. if selects micros diffColumn conds m
        then foldl (setDiffColumn micros) m sets else m) (diffTable w k)) \<and>
      counted micros diffColumn (diffTable w) conds n"
    if "run_state (dbUpdateDiffs memDB conds sets) w = (Inr n, w')" for conds sets w n w'
  proof
    let ?ks = "selectedKeys diffColumn (map fst (memDiffs w)) (diffTable w) conds"
    have w': "n = int (length ?ks)" "w' = w\<lparr>memDiffs :=
        map (\<lambda>(k, m). (k, if k \<in> set ?ks then foldl (setDiffColumn micros) m sets else m)) (memDiffs w)\<rparr>"
      using that by (auto simp: memDB_def Let_def)
    show "counted micros diffColumn (diffTable w) conds n" unfolding w' by (rule counted_tables)
    have "diffTable w' k = map_option (\<lambda>m. if k \<in> set ?ks then foldl (setDiffColumn micros) m sets else m) (diffTable w k)" for k
    proof -
      define S where "S = set ?ks"
      show ?thesis
        unfolding w'(2) S_def [symmetric] diffTable_def
        by (cases "k \<in> S") (simp_all add: map_of_update_selected option.map_comp comp_def setDiffColumns_stored)
    qed
    then show "diffTable w' = (\<lambda>k. map_option (\<lambda>m. if selects micros diffColumn conds m
        then foldl (setDiffColumn micros) m sets else m) (diffTable w k))"
      by (auto simp: fun_eq_iff selected_tables(2) split: option.splits intro!: option.map_cong0)
  qed
qed (auto simp: memDB_def diffTable_def memNow_def storedDiff_def Let_def split: option.splits if_splits)

interpretation memory_schedules: schedule_table memDB scheduleTable micros
proof
  show "\<exists>row. smJobID row = smJobID m \<and> scheduleTable w' = (scheduleTable w)(smJobID m \<mapsto> row) \<and>
      (scheduleTable w (smJobID m) = None \<and> smActive m \<and> smCreatedAt m \<noteq> 0 \<longrightarrow> row = storedSchedule micros m)"
    if "run_state (dbUpsertSchedule memDB m) w = (None, w')" for m w w'
    using that
    by (intro exI [of _ "storedSchedule micros (m\<lparr>smJobID := smJobID m\<rparr>)"])
      (auto simp: memDB_def scheduleTable_def storedSchedule_def fun_eq_iff update_conv')
  show "queried micros scheduleColumn (scheduleTable w) q rows"
    if "run_state (dbFindSchedules memDB q) w = (Inr rows, w')" "fst ` set (qOrder q) \<subseteq> {''created_at''}"
    for q w rows w'
  proof -
    have "rows = memFind scheduleColumn (map fst (memSchedules w)) (scheduleTable w) q"
      using that(1) by (auto simp: memDB_def)
    moreover have "queried micros scheduleColumn (scheduleTable w) q
        (memFind scheduleColumn (map fst (memSchedules w)) (scheduleTable w) q)"
    proof (rule memFind_queried)
      fix c desc and a b :: schedule_model
      assume "(c, desc) \<in> set (qOrder q)"
      then have "c = ''created_at''" using that(2) by force
      then show "(\<exists>i j. scheduleColumn c a = Some (DBInt i) \<and> scheduleColumn c b = Some (DBInt j)) \<or>
          (\<exists>s t. scheduleColumn c a = Some (DBTime s) \<and> scheduleColumn c b = Some (DBTime t))"
        by (simp add: order_columns)
    qed (rule tables_outside)
    ultimately show ?thesis by simp
  qed
  show "scheduleTable w' = (\<lambda>k. map_option (\<lambda>m. if selects micros scheduleColumn conds m
        then foldl setScheduleColumn m sets else m) (scheduleTable w k))"
    if "run_state (dbUpdateSchedules memDB conds sets) w = (Inr n, w')" for conds sets w n w'
  proof -
    let ?ks = "selectedKeys scheduleColumn (map fst (memSchedules w)) (scheduleTable w) conds"
    have w': "w' = w\<lparr>memSchedules :=
        map (\<lambda>(k, m). (k, if k \<in> set ?ks then foldl setScheduleColumn m sets else m)) (memSchedules w)\<rparr>"
      using that by (auto simp: memDB_def Let_def)
    have "scheduleTable w' k = map_option (\<lambda>m. if k \<in> set ?ks then foldl setScheduleColumn m sets else m)
        (scheduleTable w k)" for k
    proof -
      define S where "S = set ?ks"
      show ?thesis
        unfolding w' S_def [symmetric] scheduleTable_def
        by (cases "k \<in> S") (simp_all add: map_of_update_selected option.map_comp comp_def setScheduleColumns_stored)
    qed
    then show ?thesis
      by (auto simp: fun_eq_iff selected_tables(3) split: option.splits intro!: option.map_cong0)
  qed
qed (auto simp: memDB_def scheduleTable_def storedSchedule_def Let_def split: option.splits if_splits)

end
