(* ===== verification/EngineStore.thy ===== *)
theory EngineStore
  imports Memory
begin

text \<open>
  The engine over the database: what an execution leaves in the runs and the discrepancies tables.
  The laws of the ports are the locales \<open>gorm_engine\<close>, \<open>reliable_gorm_engine\<close> and \<open>diff_engine\<close>,
  interpreted here on the in-memory database with two sources that disagree.
\<close>

section \<open>The diffs of an execution\<close>

text \<open>One content of the discrepancies table extends another by diffs that the engine may save.\<close>

definition addsEngineDiffs ::
  "time_codec \<Rightarrow> (gotime \<Rightarrow> gotime) \<Rightarrow> 'w execute_run \<Rightarrow> run_id \<Rightarrow> metric list
   \<Rightarrow> (int \<rightharpoonup> diff_model) \<Rightarrow> (int \<rightharpoonup> diff_model) \<Rightarrow> bool" where
  "addsEngineDiffs tc dbTime uc i ms rows rows' \<longleftrightarrow>
     (\<forall>k m. rows k = Some m \<longrightarrow> rows' k = Some m) \<and>
     (\<forall>k m. rows' k = Some m \<and> rows k = None \<longrightarrow>
        (\<exists>d j meta t. engine_diff uc i ms d j meta \<and>
           m = storedDiff dbTime ((toDiffModel tc (d\<lparr>dDetectedAt := t\<rparr>) j meta)\<lparr>dmID := k\<rparr>)))"

locale diff_engine = diff_table db diffRows dbTime now
  for db :: "'w gorm_db" and diffRows and dbTime and now +
  fixes uc :: "'w execute_run"
    and ctxErr :: "'w context_err"
    and tc :: time_codec
  assumes diffs_wired: "erDiffs uc = NewDiffRepo tc now db"
    and diffs_kept: "engine_ports (same diffRows) uc ctxErr"
begin

abbreviation grows :: "run_id \<Rightarrow> metric list \<Rightarrow> 'w \<Rightarrow> 'w \<Rightarrow> bool" where
  "grows i ms w w' \<equiv> addsEngineDiffs tc dbTime uc i ms (diffRows w) (diffRows w')"

lemma grows_refl: "reflp (grows i ms)"
  by (auto simp: reflp_def addsEngineDiffs_def)

lemma grows_trans: "transp (grows i ms)"
proof (rule transpI)
  fix u v w
  assume uv: "grows i ms u v" and vw: "grows i ms v w"
  show "grows i ms u w"
    unfolding addsEngineDiffs_def
  proof (intro conjI allI impI)
    fix k m
    assume "diffRows w k = Some m \<and> diffRows u k = None"
    then show "\<exists>d j meta t. engine_diff uc i ms d j meta \<and>
        m = storedDiff dbTime ((toDiffModel tc (d\<lparr>dDetectedAt := t\<rparr>) j meta)\<lparr>dmID := k\<rparr>)"
      using uv vw by (cases "diffRows v k") (simp_all add: addsEngineDiffs_def)
  qed (use uv vw in \<open>simp add: addsEngineDiffs_def\<close>)
qed

lemma inner_effects: "engine_effects (grows i ms) uc ctxErr i ms"
proof (rule engine_effects.intro)
  show "engine_ports (grows i ms) uc ctxErr"
    by (rule engine_ports_mono [OF diffs_kept grows_refl grows_trans])
      (auto simp: same_def addsEngineDiffs_def)
  show "engine_effects_axioms (grows i ms) uc i ms"
  proof
    fix d j meta
    assume ok: "engine_diff uc i ms d j meta"
    have "grows i ms w w'" if s: "run_state (gormDiffRepo_Save tc now db d j meta) w = (x, w')" for w x w'
    proof (cases x)
      case (Inl e)
      then show ?thesis using repo_diff_save_fails s by (auto simp: addsEngineDiffs_def)
    next
      case (Inr k)
      from repo_diff_save [OF s [unfolded Inr]] ok show ?thesis
        unfolding addsEngineDiffs_def by (auto split: if_splits) blast
    qed
    then show "state_io_rel (grows i ms) (DiffRepo_Save (erDiffs uc) d j meta)"
      by (simp add: diffs_wired NewDiffRepo_def state_io_rel_def) (metis prod.collapse)
  qed
qed

lemma inner_adds:
  "run_state (executeInner keccak rng ctxErr uc r) w = (x, w') \<Longrightarrow> grows (runId r) (runMetrics r) w w'"
  using engine_effects.executeInner_io [OF inner_effects refl refl] by (metis state_io_relD)

end

section \<open>The engine on the in-memory database\<close>

definition memCodec :: time_codec where
  "memCodec = \<lparr>tcFormat = FormatInt 10, tcParse = parseBigInt\<rparr>"

definition memKeccak :: "string \<Rightarrow> byte list" where
  "memKeccak _ = replicate 32 0"

definition memSource :: "source_id \<Rightarrow> byte \<Rightarrow> memory source" where
  "memSource sid b =
     \<lparr>srcID = sid, srcChainID = 1, Supports = (\<lambda>c. c = CapBlockHash),
      FetchBlock = (\<lambda>q. State_Monad.return (Inr
        \<lparr>brNumber = bqNumber q, brHash = Some (replicate 32 b), brParentHash = None, brTimestamp = None,
         brTxCount = None, brGasUsed = None, brStateRoot = None, brReceiptsRoot = None,
         brTransactionsRoot = None, brMiner = None, brSourceID = sid, brFetchedAt = 5000,
         brRawResponse = []\<rparr>)),
      FetchAddressLatest = (\<lambda>_. State_Monad.return (Inl ErrUnsupported)),
      FetchAddressAtBlock = (\<lambda>_. State_Monad.return (Inl ErrUnsupported)),
      FetchSnapshot = State_Monad.return (Inl ErrUnsupported),
      FetchERC20Balance = (\<lambda>_. State_Monad.return (Inl ErrUnsupported)),
      FetchERC20Holdings = (\<lambda>_. State_Monad.return (Inl ErrUnsupported)),
      FetchInternalTxByTx = (\<lambda>_. State_Monad.return (Inl ErrUnsupported)),
      FetchInternalTxByBlock = (\<lambda>_. State_Monad.return (Inl ErrUnsupported))\<rparr>"

definition memUC :: "memory execute_run" where
  "memUC =
     \<lparr>erRuns = NewRunRepo memKeccak memDB, erDiffs = NewDiffRepo memCodec memNow memDB,
      erSources = \<lparr>Gateway_ForChain = (\<lambda>_. State_Monad.return (Inr [memSource ''rpc'' 1, memSource ''blockscout'' 2])),
                   Gateway_Get = (\<lambda>_. State_Monad.return (Inl ErrSourceNotFound))\<rparr>,
      erChainHead = \<lparr>ChainHead_Tip = (\<lambda>_. State_Monad.return (Inr 20)),
                     ChainHead_Finalized = (\<lambda>_. State_Monad.return (Inr 10))\<rparr>,
      erClock = memNow, erPolicy = DefaultPolicy_Judge [''rpc''], erTolerance = None,
      erAddresses = None, erTokens = None, erBudget = None\<rparr>"

definition memCtx :: "memory context_err" where
  "memCtx = State_Monad.return None"

lemma memory_ports:
  assumes "\<And>w t. f (w\<lparr>memClock := t\<rparr>) = f w"
  shows "engine_ports (same f) memUC memCtx"
proof
  have src: "source_effect (same f) (memSource sid b)" for sid b
    by (simp add: source_effect_def memSource_def io_return)
  then show "source_effect (same f) s"
    if "run_state (Gateway_ForChain (erSources memUC) c) w = (Inr ss, w')" "s \<in> set ss" for c w ss w' s
    using that by (auto simp: memUC_def)
qed (simp_all add: memUC_def memCtx_def io_return, simp add: memNow_def state_io_rel_def same_def assms)

interpretation memory_engine: reliable_gorm_engine memDB runTable micros memUC memCtx memKeccak
proof (unfold reliable_gorm_engine_def gorm_engine_def, intro conjI)
  show "run_table memDB runTable micros" ..
  show "gorm_engine_axioms memDB runTable memUC memCtx memKeccak"
  proof (rule gorm_engine_axioms.intro)
    show "engine_effects (same runTable) memUC memCtx i ms" for i ms
    proof (rule engine_effects.intro)
      show "engine_ports (same runTable) memUC memCtx" by (rule memory_ports) (simp add: runTable_def fun_eq_iff)
      have "runTable w' = runTable w" if "run_state (gormDiffRepo_Save memCodec memNow memDB d j meta) w = (x, w')"
        for d j meta w x w'
        using that
        by (auto simp: gormDiffRepo_Save_def nonZeroTime_def memNow_def memDB_def Let_def runTable_def fun_eq_iff
            split: if_splits)
      then show "engine_effects_axioms (same runTable) memUC i ms"
        by unfold_locales (simp add: memUC_def NewDiffRepo_def state_io_rel_def same_def, metis prod.collapse)
    qed
  qed (simp_all add: memUC_def samplers_wf_def)
  show "reliable_gorm_engine_axioms memDB runTable"
    by unfold_locales (simp_all add: memDB_def)
qed

interpretation memory_diff_engine: diff_engine memDB diffTable micros memNow memUC memCtx memCodec
proof (rule diff_engine.intro)
  show "diff_table memDB diffTable micros memNow" ..
  show "diff_engine_axioms memDB diffTable memNow memUC memCtx memCodec"
    by (rule diff_engine_axioms.intro)
      (simp_all add: memUC_def [THEN arg_cong, of erDiffs] memory_ports diffTable_def fun_eq_iff)
qed

definition memRun :: run where
  "memRun = sampleRun\<lparr>runStrategy := FixedList [7], runCreatedAt := 1000\<rparr>"

definition memStart :: memory where
  "memStart =
     \<lparr>memRuns = (case toRunModel memKeccak memRun of Inr m \<Rightarrow> [(''r1'', m)] | Inl _ \<Rightarrow> []),
      memDiffs = [], memSchedules = [], memClock = 2000\<rparr>"

lemma memRun_representable: "representable memRun"
  by (simp add: memRun_def representable_def sampleRun_def status_defs AllMetrics_def zeroSummary_def)

lemma memStart_runs: "decodedRuns memKeccak (runTable memStart) ''r1'' = Some memRun"
proof -
  obtain m where m: "toRunModel memKeccak memRun = Inr m" "rmID m = runId memRun"
      "toRun memKeccak (storedRow micros m) = Inr (storedRun micros memRun)"
    using run_row_roundtrip [OF memRun_representable] by blast
  have "storedRun micros memRun = memRun" by (simp add: storedRun_def memRun_def micros_def sampleRun_def)
  moreover have "m\<lparr>rmID := ''r1''\<rparr> = m" using m(2) by (simp add: memRun_def sampleRun_def)
  ultimately show ?thesis using m by (simp add: decodedRuns_def runTable_def memStart_def)
qed

section \<open>Properties\<close>

context gorm_engine
begin

lemmas engine_lifecycle = store.lifecycle_of

end

context reliable_gorm_engine
begin

lemmas engine_terminal = reliable.terminal_of
lemmas engine_returns = reliable.execute_returns

end

text \<open>
  Property C4. What \<open>ExecuteRun\<close> does to the runs table, in every case: either the table is
  unchanged and an error is returned, or the run was pending and its row, the only one that
  changes, has advanced through transitions of the run's state machine to running, completed
  or failed. It is completed exactly when \<open>Execute\<close> returns nil, failed only with the returned
  error as its message, and it is left running only when the process stopped or a save failed.
\<close>

theorem execute_lifecycle:
  assumes "gorm_engine db runRows dbTime uc ctxErr keccak"
    and "run_state (ExecuteRun_Execute keccak rng text ctxErr uc i) w = (out, w')"
  shows "(decodedRuns keccak (runRows w') = decodedRuns keccak (runRows w) \<and> (\<exists>e. out = Returns (Some e))) \<or>
    (\<exists>r0 r'. decodedRuns keccak (runRows w) i = Some r0 \<and> runStatus r0 = StatusPending \<and>
       decodedRuns keccak (runRows w') = (decodedRuns keccak (runRows w))(i \<mapsto> storedRun dbTime r') \<and>
       execution_end text r0 out r' \<and>
       (out \<noteq> Diverges \<and> (\<forall>q v. fst (run_state (RunRepo_Save (erRuns uc) q) v) = None) \<longrightarrow>
          runStatus r' \<noteq> StatusRunning))"
  using assms(2) by (rule gorm_engine.engine_lifecycle [OF assms(1)])

lemma memory_gorm_engine: "gorm_engine memDB runTable micros memUC memCtx memKeccak" ..

lemma memory_reliable: "reliable_gorm_engine memDB runTable micros memUC memCtx memKeccak" ..

theorem execute_lifecycle_witness:
  "\<exists>out w'. run_state (ExecuteRun_Execute memKeccak (\<lambda>_ _ _ _. 0) (ErrorText (\<lambda>_. [])) memCtx memUC ''r1'') memStart
       = (out, w') \<and>
     ((decodedRuns memKeccak (runTable w') = decodedRuns memKeccak (runTable memStart) \<and> (\<exists>e. out = Returns (Some e))) \<or>
      (\<exists>r'. decodedRuns memKeccak (runTable w') ''r1'' = Some (storedRun micros r') \<and>
         execution_end (ErrorText (\<lambda>_. [])) memRun out r'))"
proof -
  let ?m = "ExecuteRun_Execute memKeccak (\<lambda>_ _ _ _. 0) (ErrorText (\<lambda>_. [])) memCtx memUC ''r1''"
  obtain out w' where e: "run_state ?m memStart = (out, w')" by fastforce
  from execute_lifecycle [OF memory_gorm_engine e] memStart_runs show ?thesis
    by (intro exI [of _ out] exI [of _ w'] conjI e) auto
qed



text \<open>
  Property C5. The engine reports only what it found: whatever the ports answer, an execution
  leaves every stored diff as it is, and each row it adds to the discrepancies table is a
  disagreement between at least two sources, beyond the configured tolerance, on a metric
  of the run, carrying the policy's judgement and the metric's tier.
\<close>

theorem executeInner_diffs:
  assumes "diff_engine db diffRows dbTime now uc ctxErr tc"
    and "run_state (executeInner keccak rng ctxErr uc r) w = (x, w')"
  shows "addsEngineDiffs tc dbTime uc (runId r) (runMetrics r) (diffRows w) (diffRows w')"
  using assms(2) by (rule diff_engine.inner_adds [OF assms(1)])

theorem executeInner_diffs_witness:
  "addsEngineDiffs memCodec micros memUC ''r1'' [MetricBlockHash] (diffTable memStart)
     (diffTable (snd (run_state (executeInner memKeccak (\<lambda>_ _ _ _. 0) memCtx memUC memRun) memStart)))"
proof -
  have "diff_engine memDB diffTable micros memNow memUC memCtx memCodec" ..
  from executeInner_diffs [OF this, of memKeccak "\<lambda>_ _ _ _. 0" memRun memStart] show ?thesis
    by (metis (no_types, lifting) memRun_def sampleRun_def prod.collapse run.select_convs(1,6) run.update_convs(3,9))
qed

end
