(* ===== verification/StoreProps.thy ===== *)
theory StoreProps
  imports EngineStore
begin

text \<open>
  Properties of the engine's summary and of the repositories: what listing, pruning, saving,
  resolving and deactivating do, for every database that satisfies the laws of its tables.
\<close>

section \<open>The summary\<close>


definition summaryRun :: run where
  "summaryRun = memRun\<lparr>runMetrics := [MetricBlockTimestamp], runStatus := StatusRunning\<rparr>"

lemma summaryRun_inner:
  "\<exists>r1 w'. run_state (executeInner memKeccak (\<lambda>_ _ _ _. 0) memCtx memUC summaryRun) w = (Returns (Inr r1), w')"
  by (simp add: executeInner_def memUC_def summaryRun_def memRun_def sampleRun_def memCtx_def memNow_def Let_def
      FixedList_Blocks_def runBlockPass_def runAddressLatestPass_def runAddressAtBlockPass_def
      runERC20HoldingsLatestPass_def runERC20BalanceLatestPass_def filterByCategory_def MetricBlockTimestamp_def
      fanOutFetch_def fetchSlot_def memSource_def collectSnapshots_def snapshotStep_def CapBlockTimestamp_def
      CapBlockHash_def)


section \<open>Runs\<close>

text \<open>
  Listing runs: the runs returned are stored runs accepted by every given criterion
  of the filter, newest first, at most the limit; the count is that of all matching rows before
  paging; without limit and offset every accepted run is returned. Nothing is written.
\<close>

theorem runs_list:
  assumes "run_table db runRows dbTime"
    and "run_state (gormRunRepo_List keccak db f) w = (Inr (rs, n), w')"
  shows "runRows w' = runRows w \<and>
    (\<forall>r \<in> set rs. decodedRuns keccak (runRows w) (runId r) = Some r \<and> acceptsRun dbTime f r) \<and>
    sorted_wrt (\<lambda>a b. runCreatedAt b \<le> runCreatedAt a) rs \<and>
    n = int (card {i. \<exists>m. runRows w i = Some m \<and> selects dbTime runColumn (runWhere f) m}) \<and>
    (0 < rfLimit f \<longrightarrow> int (length rs) \<le> rfLimit f) \<and>
    (rfLimit f \<le> 0 \<and> rfOffset f \<le> 0 \<longrightarrow> n = int (length rs) \<and>
      (\<forall>i r. decodedRuns keccak (runRows w) i = Some r \<and> acceptsRun dbTime f r \<longrightarrow> r \<in> set rs))"
  using run_table.repo_list [OF assms] by (intro conjI) blast+

definition anyRun :: run_filter where
  "anyRun = \<lparr>rfChainID = Some 1, rfStatus = None, rfCreatedAt = None, rfLimit = 0, rfOffset = 0\<rparr>"

lemma memory_run_table: "run_table memDB runTable micros" ..

lemma memFind_rows: "m \<in> set (memFind col ks tab q) \<Longrightarrow> \<exists>k. tab k = Some m"
proof -
  have "set (memFind col ks tab q) \<subseteq> (\<lambda>k. the (tab k)) ` set (selectedKeys col ks tab (qWhere q))"
    unfolding memFind_def by (rule subset_trans [OF page_set]) auto
  also have "\<dots> \<subseteq> {m. \<exists>k. tab k = Some m}" by (auto simp: selectedKeys_def split: option.splits)
  finally show "m \<in> set (memFind col ks tab q) \<Longrightarrow> \<exists>k. tab k = Some m" by blast
qed

lemma memStart_list: "\<exists>rs n w'. run_state (gormRunRepo_List memKeccak memDB anyRun) memStart = (Inr (rs, n), w')"
proof -
  obtain m where m: "toRunModel memKeccak memRun = Inr m" "rmID m = runId memRun"
      "toRun memKeccak (storedRow micros m) = Inr (storedRun micros memRun)"
    using run_row_roundtrip [OF memRun_representable] by blast
  have "m\<lparr>rmID := ''r1''\<rparr> = m" using m(2) by (simp add: memRun_def sampleRun_def)
  then have row: "runTable memStart i = (if i = ''r1'' then Some (storedRow micros m) else None)" for i
    using m(1) by (simp add: runTable_def memStart_def)
  have "set (memFind runColumn (map fst (memRuns memStart)) (runTable memStart) q) \<subseteq> {storedRow micros m}" for q
  proof
    fix m'
    assume "m' \<in> set (memFind runColumn (map fst (memRuns memStart)) (runTable memStart) q)"
    from memFind_rows [OF this] obtain k where "runTable memStart k = Some m'" ..
    then show "m' \<in> {storedRow micros m}" by (simp add: row split: if_splits)
  qed
  moreover have "\<exists>xs. decodeRows (toRun memKeccak) what ms = Inr xs" if "set ms \<subseteq> {storedRow micros m}" for ms what
    using that m(3) by (induction ms) auto
  ultimately obtain out where "decodeRows (toRun memKeccak) ''run repo list decode: ''
      (memFind runColumn (map fst (memRuns memStart)) (runTable memStart)
        \<lparr>qWhere = runWhere anyRun, qOrder = [(''created_at'', True)],
         qLimit = positive (rfLimit anyRun), qOffset = positive (rfOffset anyRun)\<rparr>) = Inr out" by blast
  then show ?thesis by (simp add: gormRunRepo_List_def memDB_def)
qed

theorem runs_list_witness:
  "\<exists>rs n w'. run_state (gormRunRepo_List memKeccak memDB anyRun) memStart = (Inr (rs, n), w') \<and>
     n = int (length rs) \<and> memRun \<in> set rs"
proof -
  obtain rs n w' where l: "run_state (gormRunRepo_List memKeccak memDB anyRun) memStart = (Inr (rs, n), w')"
    using memStart_list by blast
  have "acceptsRun micros anyRun memRun" by (simp add: acceptsRun_def anyRun_def memRun_def sampleRun_def)
  with runs_list [OF memory_run_table l] memStart_runs l show ?thesis
    by (intro exI [of _ rs] exI [of _ n] exI [of _ w']) (auto simp: anyRun_def)
qed

text \<open>
  Pruning never touches work in flight: it removes exactly the rows that finished
  strictly before the cutoff, reports how many, and keeps every other row; in particular every stored run
  that satisfies the run invariant and is not terminal stays.
\<close>

theorem runs_prune:
  assumes "run_table db runRows dbTime"
    and "run_state (gormRunRepo_PruneFinishedBefore db cutoff) w = (Inr n, w')"
  shows "n = int (card {i. \<exists>m t. runRows w i = Some m \<and> rmFinishedAt m = Some t \<and> t < dbTime cutoff}) \<and>
    (\<forall>i r. decodedRuns keccak (runRows w') i = Some r \<longleftrightarrow>
       decodedRuns keccak (runRows w) i = Some r \<and>
       (\<forall>t. runFinishedAt r = Some t \<longrightarrow> dbTime cutoff \<le> t)) \<and>
    (\<forall>i r. decodedRuns keccak (runRows w) i = Some r \<and> run_inv r \<and> \<not> Status_IsTerminal (runStatus r) \<longrightarrow>
       decodedRuns keccak (runRows w') i = Some r)"
proof -
  note p = run_table.repo_prune [OF assms]
  have dec: "decodedRuns keccak (runRows w') i = Some r \<longleftrightarrow>
      decodedRuns keccak (runRows w) i = Some r \<and> (\<forall>t. runFinishedAt r = Some t \<longrightarrow> dbTime cutoff \<le> t)" for i r
    using toRun_fields(7) [of keccak _ r]
    by (auto simp: p(1) decodedRuns_Some restrict_map_def split: if_splits)
  have "runFinishedAt r = None" if "run_inv r" "\<not> Status_IsTerminal (runStatus r)" for r
    using that by (auto simp: run_inv_def)
  with dec p(2) show ?thesis by auto
qed

theorem runs_prune_witness:
  "\<exists>n w'. run_state (gormRunRepo_PruneFinishedBefore memDB 5000) memStart = (Inr n, w') \<and>
     decodedRuns memKeccak (runTable w') ''r1'' = Some memRun"
proof -
  obtain n w' where p: "run_state (gormRunRepo_PruneFinishedBefore memDB 5000) memStart = (Inr n, w')"
    by (simp add: gormRunRepo_PruneFinishedBefore_def memDB_def Let_def)
  have "runFinishedAt memRun = None" by (simp add: memRun_def sampleRun_def)
  with runs_prune [OF memory_run_table p, of memKeccak] memStart_runs p show ?thesis by auto
qed

section \<open>Diffs\<close>

text \<open>
  A diff that is saved is found: after a successful save, looking the returned id up
  gives the discrepancy (values in key order, detection time at the database's resolution, the
  current time if none was given), its judgement and its metadata, unresolved; the lookup can fail only
  with the database's own error. Every diff stored before is still found, unchanged.
\<close>

theorem diff_save_find:
  assumes "diff_table db diffRows dbTime now"
    and "run_state (gormDiffRepo_Save tc now db d j meta) w = (Inr i, w1)"
    and "run_state (gormDiffRepo_FindByID tc db i) w1 = (x, w2)"
    and "\<forall>v \<in> snd ` set (dValues d). tcParse tc (tcFormat tc (vsFetchedAt v)) = Some (vsFetchedAt v)"
    and "dMetric d \<in> set AllMetrics" and "distinct (map fst (dValues d))"
    and "\<forall>v \<in> snd ` set (dValues d). vsTyped v = None"
    and "\<forall>a \<in> set_option (dsAddress (dSubject d)). wfAddress a"
  shows "(\<exists>t. (dDetectedAt d \<noteq> 0 \<longrightarrow> t = dDetectedAt d) \<and>
      x = Inr \<lparr>drID = i, drDiscrepancy = d\<lparr>dValues := sort_key fst (dValues d), dDetectedAt := dbTime t\<rparr>,
        drJudgement = j, drResolved = False, drResolvedAt = None,
        drTier = (if sdTier meta = 0 then Capability_Tier (mCapability (dMetric d)) else sdTier meta),
        drAnchorBlock = sdAnchorBlock meta, drSamplingSeed = sdSamplingSeed meta\<rparr> \<or>
      (\<exists>e. x = Inl (Wrap ''diff repo find by id: '' (ErrDB e)))) \<and>
    (\<forall>i' rec. decodedDiffs tc (diffRows w) i' = Some rec \<longrightarrow> decodedDiffs tc (diffRows w1) i' = Some rec)"
proof -
  obtain k t w0 where k: "i = FormatInt 10 k" "inInt64 k" "diffRows w k = None"
    and t: "run_state (nonZeroTime now (dDetectedAt d)) w = (t, w0)"
    and rows: "diffRows w1 = (diffRows w)(k \<mapsto> storedDiff dbTime ((toDiffModel tc (d\<lparr>dDetectedAt := t\<rparr>) j meta)\<lparr>dmID := k\<rparr>))"
    using diff_table.repo_diff_save [OF assms(1,2)] by blast
  let ?rec = "\<lparr>drID = i, drDiscrepancy = d\<lparr>dValues := sort_key fst (dValues d), dDetectedAt := dbTime t\<rparr>,
        drJudgement = j, drResolved = False, drResolvedAt = None,
        drTier = (if sdTier meta = 0 then Capability_Tier (mCapability (dMetric d)) else sdTier meta),
        drAnchorBlock = sdAnchorBlock meta, drSamplingSeed = sdSamplingSeed meta\<rparr>"
  have stored: "storedDiff dbTime ((toDiffModel tc (d\<lparr>dDetectedAt := t\<rparr>) j meta)\<lparr>dmID := k\<rparr>) =
      (toDiffModel tc (d\<lparr>dDetectedAt := dbTime t\<rparr>) j meta)\<lparr>dmID := k\<rparr>"
    by (simp add: storedDiff_def toDiffModel_def Let_def)
  have rec: "toDiffRecord tc ((toDiffModel tc (d\<lparr>dDetectedAt := dbTime t\<rparr>) j meta)\<lparr>dmID := k\<rparr>) = Inr ?rec"
    using diff_row_roundtrip [where d = "d\<lparr>dDetectedAt := dbTime t\<rparr>" and j = j and meta = meta and n = k]
      assms(4-8) k(1) by simp
  have found: "decodedDiffs tc (diffRows w1) i = Some ?rec"
    using k(1,2) rec by (simp add: decodedDiffs_def rows stored)
  have "dDetectedAt d \<noteq> 0 \<longrightarrow> t = dDetectedAt d" using t by (auto simp: nonZeroTime_def)
  moreover have "x = Inr ?rec \<or> (\<exists>e. x = Inl (Wrap ''diff repo find by id: '' (ErrDB e)))"
    by (rule diff_table.repo_diff_found [OF assms(1,3) found])
  moreover have "decodedDiffs tc (diffRows w1) i' = Some r'" if "decodedDiffs tc (diffRows w) i' = Some r'" for i' r'
    using that k(3) by (auto simp: decodedDiffs_def rows split: option.splits)
  ultimately show ?thesis by blast
qed

lemma memory_diff_table: "diff_table memDB diffTable micros memNow" ..

definition sampleJudgement :: judgement where
  "sampleJudgement = \<lparr>jSeverity = SevCritical, jTrustedSources = [''rpc''], jReasoning = ''r''\<rparr>"

definition sampleMeta :: save_diff_meta where
  "sampleMeta = \<lparr>sdTier = 0, sdAnchorBlock = 9, sdSamplingSeed = None\<rparr>"

lemma memStart_save:
  "\<exists>i w1. run_state (gormDiffRepo_Save memCodec memNow memDB sampleDiscrepancy sampleJudgement sampleMeta) memStart
     = (Inr i, w1)"
  by (simp add: gormDiffRepo_Save_def nonZeroTime_def memNow_def memDB_def Let_def freshID_def memStart_def inInt64_def)

theorem diff_save_find_witness:
  "\<exists>i w1 x w2 t.
     run_state (gormDiffRepo_Save memCodec memNow memDB sampleDiscrepancy sampleJudgement sampleMeta) memStart = (Inr i, w1) \<and>
     run_state (gormDiffRepo_FindByID memCodec memDB i) w1 = (x, w2) \<and>
     (x = Inr \<lparr>drID = i,
        drDiscrepancy = sampleDiscrepancy\<lparr>dValues := sort_key fst (dValues sampleDiscrepancy), dDetectedAt := micros t\<rparr>,
        drJudgement = sampleJudgement, drResolved = False, drResolvedAt = None, drTier = TierA,
        drAnchorBlock = 9, drSamplingSeed = None\<rparr> \<or>
      (\<exists>e. x = Inl (Wrap ''diff repo find by id: '' (ErrDB e))))"
proof -
  obtain i w1 where s: "run_state (gormDiffRepo_Save memCodec memNow memDB sampleDiscrepancy sampleJudgement sampleMeta)
      memStart = (Inr i, w1)" using memStart_save by blast
  obtain x w2 where f: "run_state (gormDiffRepo_FindByID memCodec memDB i) w1 = (x, w2)" by fastforce
  have "\<forall>v \<in> snd ` set (dValues sampleDiscrepancy).
      tcParse memCodec (tcFormat memCodec (vsFetchedAt v)) = Some (vsFetchedAt v)"
    by (simp add: memCodec_def)
  moreover have "dMetric sampleDiscrepancy \<in> set AllMetrics" "distinct (map fst (dValues sampleDiscrepancy))"
      "\<forall>v \<in> snd ` set (dValues sampleDiscrepancy). vsTyped v = None"
      "\<forall>a \<in> set_option (dsAddress (dSubject sampleDiscrepancy)). wfAddress a"
    by (simp_all add: sampleDiscrepancy_def sampleSnap_def AllMetrics_def)
  ultimately obtain t where "x = Inr \<lparr>drID = i,
        drDiscrepancy = sampleDiscrepancy\<lparr>dValues := sort_key fst (dValues sampleDiscrepancy), dDetectedAt := micros t\<rparr>,
        drJudgement = sampleJudgement, drResolved = False, drResolvedAt = None,
        drTier = Capability_Tier (mCapability (dMetric sampleDiscrepancy)),
        drAnchorBlock = 9, drSamplingSeed = None\<rparr> \<or>
      (\<exists>e. x = Inl (Wrap ''diff repo find by id: '' (ErrDB e)))"
    using diff_save_find [OF memory_diff_table s f] by (auto simp: sampleMeta_def)
  moreover have "Capability_Tier (mCapability (dMetric sampleDiscrepancy)) = TierA"
    by (simp add: sampleDiscrepancy_def MetricBlockHash_def Capability_Tier_def)
  ultimately show ?thesis using s f by metis
qed

text \<open>
  Resolving a diff: when \<open>MarkResolved\<close> succeeds, the diff is stored, and is the only
  one to change; it is then resolved at the given time and otherwise as before. When it fails,
  nothing has changed, and it reports a missing diff exactly for an id that is no number or names
  no row.
\<close>

theorem diff_mark_resolved:
  assumes "diff_table db diffRows dbTime now"
    and "run_state (gormDiffRepo_MarkResolved db i at) w = (x, w')"
  shows "(x = None \<and> (\<exists>k m. ParseInt i = Some k \<and> diffRows w k = Some m \<and>
        (\<forall>k'. k' \<noteq> k \<longrightarrow> diffRows w' k' = diffRows w k')) \<and>
      decodedDiffs tc (diffRows w') i = map_option (\<lambda>r. r\<lparr>drResolved := True, drResolvedAt := Some (dbTime at)\<rparr>)
        (decodedDiffs tc (diffRows w) i)) \<or>
    (x = Some ErrDiffNotFound \<and> (\<forall>k. ParseInt i = Some k \<longrightarrow> diffRows w k = None) \<and> diffRows w' = diffRows w) \<or>
    (\<exists>e. x = Some (Wrap ''diff repo mark resolved: '' (ErrDB e)) \<and> diffRows w' = diffRows w)"
  using diff_table.repo_mark_resolved [OF assms]
proof (elim disjE exE conjE)
  fix k row
  assume x: "x = None" and k: "ParseInt i = Some k" "diffRows w k = Some row"
    and rows: "diffRows w' = (diffRows w)(k \<mapsto> row\<lparr>dmResolved := True, dmResolvedAt := Some (dbTime at)\<rparr>)"
  have "decodedDiffs tc (diffRows w') i = map_option (\<lambda>r. r\<lparr>drResolved := True, drResolvedAt := Some (dbTime at)\<rparr>)
      (decodedDiffs tc (diffRows w) i)"
    using k rows by (cases "toDiffRecord tc row") (simp_all add: decodedDiffs_def toDiffRecord_resolved)
  with x k rows show ?thesis by auto
qed blast+

theorem diff_mark_resolved_witness:
  "\<exists>i w1 w2.
     run_state (gormDiffRepo_Save memCodec memNow memDB sampleDiscrepancy sampleJudgement sampleMeta) memStart = (Inr i, w1) \<and>
     run_state (gormDiffRepo_MarkResolved memDB i 7000) w1 = (None, w2) \<and>
     decodedDiffs memCodec (diffTable w2) i = map_option (\<lambda>r. r\<lparr>drResolved := True, drResolvedAt := Some 7000\<rparr>)
       (decodedDiffs memCodec (diffTable w1) i)"
proof -
  obtain i w1 where s: "run_state (gormDiffRepo_Save memCodec memNow memDB sampleDiscrepancy sampleJudgement sampleMeta)
      memStart = (Inr i, w1)" using memStart_save by blast
  then obtain k where k: "ParseInt i = Some k" "diffTable w1 k \<noteq> None"
    using memory_diffs.repo_diff_save [OF s] by auto
  obtain x w2 where m: "run_state (gormDiffRepo_MarkResolved memDB i 7000) w1 = (x, w2)" by fastforce
  have "x \<noteq> Some (Wrap p (ErrDB e))" for p e
    using m k(1) by (auto simp: gormDiffRepo_MarkResolved_def memDB_def Let_def split: if_splits)
  with diff_mark_resolved [OF memory_diff_table m, of memCodec] k s m show ?thesis
    by (auto simp: micros_def)
qed

section \<open>Schedules\<close>

text \<open>
  Cancelling a schedule: after \<open>Deactivate\<close> has succeeded, \<open>ListActive\<close> no longer
  returns a schedule with that id and returns exactly the other active schedules; deactivating an
  id that is not stored changes nothing.
\<close>

theorem schedule_deactivated:
  assumes "schedule_table db schedRows dbTime"
    and "run_state (gormScheduleRepo_Deactivate db i) w = (None, w1)"
    and "run_state (gormScheduleRepo_ListActive keccak loadLocation db) w1 = (Inr ss, w2)"
  shows "set ss = {s. \<exists>k m. k \<noteq> i \<and> schedRows w k = Some m \<and> smActive m \<and> toScheduleRecord keccak loadLocation m = Inr s} \<and>
    i \<notin> srJobID ` set ss \<and> (schedRows w i = None \<longrightarrow> schedRows w1 = schedRows w)"
proof -
  note d = schedule_table.repo_deactivate(1) [OF assms(1,2) refl]
  have act: "schedRows w1 k = Some m \<and> smActive m \<longleftrightarrow> k \<noteq> i \<and> schedRows w k = Some m \<and> smActive m" for k m
    by (auto simp: d split: option.splits if_splits)
  have ss: "set ss = {s. \<exists>k m. k \<noteq> i \<and> schedRows w k = Some m \<and> smActive m \<and> toScheduleRecord keccak loadLocation m = Inr s}"
    unfolding schedule_table.repo_list_active(1) [OF assms(1,3)] using act by blast
  moreover have "srJobID s = smJobID m" if "toScheduleRecord keccak loadLocation m = Inr s" for m s
    using that by (auto simp: toScheduleRecord_def split: sum.splits)
  ultimately have "i \<notin> srJobID ` set ss" using schedule_table.srows_keyed [OF assms(1)] by fastforce
  with ss d show ?thesis by simp
qed

definition memSchedule :: "job_id \<Rightarrow> schedule_model" where
  "memSchedule j =
     \<lparr>smJobID = j, smChainID = 1, smCronExpr = ''0 * * * *'', smTimezone = ''UTC'', smStrategyKind = ''latest_n'',
      smStrategyData = JObj [(''n'', encUint 5)], smAddressPlans = None, smTokenPlans = None,
      smMetrics = [], smActive = True, smCreatedAt = 1000\<rparr>"

definition memScheduled :: memory where
  "memScheduled =
     \<lparr>memRuns = [], memDiffs = [], memSchedules = [(''a'', memSchedule ''a''), (''b'', memSchedule ''b'')], memClock = 0\<rparr>"

definition onlyUTC :: "string \<Rightarrow> string option" where
  "onlyUTC z = (if z = [] \<or> z = ''UTC'' then Some ''UTC'' else None)"

lemma memSchedule_record:
  "\<exists>s. toScheduleRecord memKeccak onlyUTC ((memSchedule j)\<lparr>smActive := b\<rparr>) = Inr s \<and> srJobID s = j"
proof -
  have "NewSchedule onlyUTC ''0 * * * *'' ''UTC'' = Inr \<lparr>schCronExpr = ''0 * * * *'', schTimezone = Some ''UTC''\<rparr>"
    by code_simp
  moreover have "unmarshalStrategy ''latest_n'' (JObj [(''n'', encUint 5)]) = Inr (LatestN 5)"
    using strategy_roundtrip [of "LatestN 5"] by (simp add: marshalStrategy_def)
  ultimately show ?thesis
    by (simp add: toScheduleRecord_def memSchedule_def unmarshalAddressPlans_def unmarshalTokenPlans_def)
qed

lemma scheduleTable_memScheduled:
  "scheduleTable memScheduled k = (if k = ''a'' \<or> k = ''b'' then Some (memSchedule k) else None)"
  by (simp add: scheduleTable_def memScheduled_def memSchedule_def storedSchedule_def micros_def)

theorem schedule_deactivated_witness:
  "\<exists>w1 ss w2 s. run_state (gormScheduleRepo_Deactivate memDB ''a'') memScheduled = (None, w1) \<and>
     run_state (gormScheduleRepo_ListActive memKeccak onlyUTC memDB) w1 = (Inr ss, w2) \<and>
     s \<in> set ss \<and> srJobID s = ''b'' \<and> ''a'' \<notin> srJobID ` set ss"
proof -
  have tab: "schedule_table memDB scheduleTable micros" ..
  obtain w1 where d: "run_state (gormScheduleRepo_Deactivate memDB ''a'') memScheduled = (None, w1)"
    by (simp add: gormScheduleRepo_Deactivate_def memDB_def Let_def)
  have "\<exists>j b. m = (memSchedule j)\<lparr>smActive := b\<rparr>" if "scheduleTable w1 k = Some m" for k m
  proof (cases "k = ''a''")
    case False
    then have "m = (memSchedule k)\<lparr>smActive := True\<rparr>"
      using that memory_schedules.repo_deactivate(1) [OF d refl]
      by (auto simp: scheduleTable_memScheduled memSchedule_def split: if_splits)
    then show ?thesis by blast
  next
    case True
    then show ?thesis
      using that memory_schedules.repo_deactivate(1) [OF d refl] by (auto simp: scheduleTable_memScheduled)
  qed
  then have rows: "\<exists>j b. m = (memSchedule j)\<lparr>smActive := b\<rparr>"
    if "m \<in> set (memFind scheduleColumn (map fst (memSchedules w1)) (scheduleTable w1) q)" for m q
    using memFind_rows [OF that] by blast
  have dec: "\<exists>ss. decodeRows (toScheduleRecord memKeccak onlyUTC) what ms = Inr ss"
    if "\<And>m. m \<in> set ms \<Longrightarrow> \<exists>j b. m = (memSchedule j)\<lparr>smActive := b\<rparr>" for ms what
    using that
  proof (induction ms)
    case (Cons m ms)
    obtain j b where "m = (memSchedule j)\<lparr>smActive := b\<rparr>" using Cons.prems [of m] by auto
    moreover obtain ss where "decodeRows (toScheduleRecord memKeccak onlyUTC) what ms = Inr ss"
      using Cons.IH Cons.prems by auto
    ultimately show ?case using memSchedule_record [of b j] by auto
  qed simp
  have "\<exists>ss. decodeRows (toScheduleRecord memKeccak onlyUTC) what
      (memFind scheduleColumn (map fst (memSchedules w1)) (scheduleTable w1) q) = Inr ss" for what q
    by (rule dec) (rule rows)
  then obtain ss where l: "run_state (gormScheduleRepo_ListActive memKeccak onlyUTC memDB) w1 = (Inr ss, w1)"
    by (simp add: gormScheduleRepo_ListActive_def memDB_def) blast
  obtain s where s: "toScheduleRecord memKeccak onlyUTC (memSchedule ''b'') = Inr s" "srJobID s = ''b''"
    using memSchedule_record [of True "''b''"] by (auto simp: memSchedule_def)
  note r = schedule_deactivated [OF tab d l]
  have "smActive (memSchedule ''b'')" by (simp add: memSchedule_def)
  then have "s \<in> set ss"
    unfolding conjunct1 [OF r]
    by (intro CollectI exI [of _ "''b''"] exI [of _ "memSchedule ''b''"]) (simp add: scheduleTable_memScheduled s(1))
  with r d l s(2) show ?thesis by blast
qed

end
