(* ===== verification/UseCaseProps.thy ===== *)
theory UseCaseProps
  imports UseCases StoreProps
begin

text \<open>
  What the use cases leave in the database: scheduling, cancelling and replaying over the gorm
  repositories, for every database that satisfies the laws of its tables and every dispatcher,
  clock and gateway that do not write those tables.
\<close>

section \<open>Cancelling\<close>

locale run_clients = run_table db runRows dbTime
  for db :: "'w gorm_db" and runRows and dbTime +
  fixes clock :: "'w clock"
    and keccak :: "string \<Rightarrow> byte list"
  assumes clock_keeps: "run_state clock w = (t, w') \<Longrightarrow> runRows w' = runRows w"
begin

abbreviation runsIn :: "'w \<Rightarrow> run_id \<rightharpoonup> run" where
  "runsIn w \<equiv> decodedRuns keccak (runRows w)"

lemma find_terminal_error:
  assumes "run_state (gormRunRepo_FindByID keccak db i) w = (Inl e, w')"
  shows "runRows w i = None \<and> e = ErrRunNotFound \<or> (\<exists>d. e = Wrap ''run repo find: '' (ErrDB d)) \<or>
    runsIn w i = None"
  using assms first_ok first_missing
  by (fastforce simp: gormRunRepo_FindByID_def decodedRuns_def Inl_map_sum split: prod.splits sum.splits if_splits)

lemma cancel_outcome:
  assumes "run_state (CancelRun_Execute \<lparr>cuRuns = NewRunRepo keccak db, cuClock = clock\<rparr> i) w = (x, w')"
  shows "(x = None \<and> (\<exists>r t. runsIn w i = Some r \<and> runStatus r \<in> {StatusPending, StatusRunning} \<and>
      runsIn w' = (runsIn w)(i \<mapsto> storedRun dbTime (r\<lparr>runStatus := StatusCancelled, runFinishedAt := Some t\<rparr>)))) \<or>
    (\<exists>e. x = Some e \<and> runsIn w' = runsIn w \<and>
      (\<forall>r. runsIn w i = Some r \<and> Status_IsTerminal (runStatus r) \<longrightarrow>
         errorsIs e ErrInvalidRun \<or> (\<exists>d. e = Wrap ''run repo find: '' (ErrDB d))))"
proof -
  obtain f w1 where f: "run_state (gormRunRepo_FindByID keccak db i) w = (f, w1)" by fastforce
  note k1 = repo_find_keeps [OF f]
  show ?thesis
  proof (cases f)
    case (Inl e)
    then show ?thesis
      using assms f k1 find_terminal_error [of i w e w1] by (auto simp: CancelRun_Execute_def decodedRuns_def)
  next
    case (Inr r)
    have r: "runsIn w i = Some r" using repo_find_returns [OF f [unfolded Inr]] .
    then obtain m where m: "runRows w i = Some m" "toRun keccak m = Inr r" by (auto simp: decodedRuns_Some)
    have rid: "runId r = i" "representable r" using toRun_representable [OF m(2)] rows_keyed [OF m(1)] by auto
    obtain t w2 where c: "run_state clock w1 = (t, w2)" by fastforce
    note k2 = clock_keeps [OF c]
    show ?thesis
    proof (cases "Run_Cancel t r")
      case (Inl e)
      then show ?thesis using assms f Inr c k1 k2 by (auto simp: CancelRun_Execute_def)
    next
      case canc: (Inr r')
      then have r': "runStatus r \<in> {StatusPending, StatusRunning}"
          "r' = r\<lparr>runStatus := StatusCancelled, runFinishedAt := Some t\<rparr>"
        by (auto simp: Run_Cancel_Inr)
      obtain s w3 where s: "run_state (gormRunRepo_Save keccak db r') w2 = (s, w3)" by fastforce
      have x: "x = map_option (Wrap ''cancel run: save: '') s" "w' = w3"
        using assms f Inr c canc s by (auto simp: CancelRun_Execute_def)
      show ?thesis
      proof (cases s)
        case None
        have "runsIn w3 = (runsIn w2)(runId r' \<mapsto> storedRun dbTime r')"
        proof (rule repo_save_stores)
          show "representable r'" using rid(2) by (simp add: r'(2) representable_def status_defs)
          show "runsIn w2 (runId r') = Some r" using r k1 k2 rid(1) by (simp add: r'(2))
          show "fixedPart r = fixedPart r'" by (simp add: r'(2) fixedPart_def)
        qed (use s None in simp)
        then show ?thesis using x None r r' rid k1 k2 by auto
      next
        case (Some e)
        then show ?thesis using x repo_save_fails [of keccak r' w2 e w3] s k1 k2 r r'(1) by auto
      qed
    qed
  qed
qed

end

text \<open>
  Cancelling a run: when \<open>CancelRun\<close> returns nil the run was pending or running and is
  now stored as cancelled with a finish time, every other run being untouched; when it returns an error
  nothing has changed, and for a run that had already ended the error is \<open>ErrInvalidRun\<close> (unless the
  lookup itself failed in the database).
\<close>

theorem cancel_run_outcome:
  assumes "run_clients db runRows dbTime clock"
    and "run_state (CancelRun_Execute \<lparr>cuRuns = NewRunRepo keccak db, cuClock = clock\<rparr> i) w = (x, w')"
  shows "(x = None \<and> (\<exists>r t. decodedRuns keccak (runRows w) i = Some r \<and>
      runStatus r \<in> {StatusPending, StatusRunning} \<and>
      decodedRuns keccak (runRows w') = (decodedRuns keccak (runRows w))(i \<mapsto>
        storedRun dbTime (r\<lparr>runStatus := StatusCancelled, runFinishedAt := Some t\<rparr>)))) \<or>
    (\<exists>e. x = Some e \<and> decodedRuns keccak (runRows w') = decodedRuns keccak (runRows w) \<and>
      (\<forall>r. decodedRuns keccak (runRows w) i = Some r \<and> Status_IsTerminal (runStatus r) \<longrightarrow>
         errorsIs e ErrInvalidRun \<or> (\<exists>d. e = Wrap ''run repo find: '' (ErrDB d))))"
  using assms(2) by (rule run_clients.cancel_outcome [OF assms(1)])

interpretation memory_clients: run_clients memDB runTable micros memNow memKeccak
  by unfold_locales (auto simp: memNow_def runTable_def fun_eq_iff)

lemma memory_run_clients: "run_clients memDB runTable micros memNow" ..

lemma memory_find:
  "decodedRuns memKeccak (runTable w) i = Some r \<Longrightarrow> run_state (gormRunRepo_FindByID memKeccak memDB i) w = (Inr r, w)"
  by (auto simp: decodedRuns_Some gormRunRepo_FindByID_def memDB_def)

lemmas memStart_find = memory_find [OF memStart_runs]

lemma memory_save: "\<exists>w'. run_state (gormRunRepo_Save memKeccak memDB r) w = (None, w')"
  using toRunModel_total [of memKeccak r] by (auto simp: gormRunRepo_Save_def memDB_def)

theorem cancel_run_outcome_witness:
  "\<exists>w' r. run_state (CancelRun_Execute \<lparr>cuRuns = NewRunRepo memKeccak memDB, cuClock = memNow\<rparr> ''r1'') memStart
       = (None, w') \<and>
     decodedRuns memKeccak (runTable w') ''r1'' = Some r \<and> runStatus r = StatusCancelled"
proof -
  have st: "runStatus memRun = StatusPending" by (simp add: memRun_def sampleRun_def)
  have clk: "memClock memStart = 2000" by (simp add: memStart_def)
  obtain w' where e: "run_state (CancelRun_Execute \<lparr>cuRuns = NewRunRepo memKeccak memDB, cuClock = memNow\<rparr> ''r1'') memStart
      = (None, w')"
    using memory_save [of "memRun\<lparr>runStatus := StatusCancelled, runFinishedAt := Some 2000\<rparr>" "memStart\<lparr>memClock := 3000\<rparr>"]
    by (auto simp: CancelRun_Execute_def memStart_find memNow_def Run_Cancel_def st clk)
  from cancel_run_outcome [OF memory_run_clients e] e show ?thesis
    by (fastforce simp: storedRun_def)
qed

section \<open>Scheduling\<close>

text \<open>The inputs whose run the schema can represent.\<close>

definition storableInput :: "schedule_run_input \<Rightarrow> bool" where
  "storableInput inp \<longleftrightarrow>
     set (siMetrics inp) \<subseteq> set AllMetrics \<and> (\<forall>s. siStrategy inp = Some s \<longrightarrow> wfStrategy s) \<and>
     (\<forall>p. Some p \<in> set (siAddressPlans inp) \<longrightarrow> wfAddressPlan p) \<and>
     (\<forall>p. Some p \<in> set (siTokenPlans inp) \<longrightarrow> wfTokenPlan p)"

lemma firstNil_None: "firstNil n ps = None \<longleftrightarrow> None \<notin> set ps"
  by (induction ps arbitrary: n) (auto split: option.splits)

lemma the_mem: "None \<notin> set ps \<Longrightarrow> p \<in> the ` set ps \<Longrightarrow> Some p \<in> set ps"
  by (metis image_iff option.collapse)

lemma buildRun_fields:
  assumes "buildRun inp i t = Inr r"
  shows "runId r = i" "runStatus r = StatusPending" "runCreatedAt r = t"
    and "storableInput inp \<Longrightarrow> representable r"
  using assms
  by (auto simp: buildRun_def NewRun_def SetTokenPlans_def storableInput_def representable_def firstNil_None
      zeroSummary_def status_defs dest: the_mem split: sum.splits if_splits option.splits)

locale run_scheduler = run_clients db runRows dbTime clock keccak
  for db :: "'w gorm_db" and runRows and dbTime and clock :: "'w clock" and keccak +
  fixes dispatcher :: "'w job_dispatcher"
    and rand :: "('w, byte list option) state"
  assumes enqueue_keeps: "run_state (EnqueueRunExecution dispatcher i) w = (e, w') \<Longrightarrow> runRows w' = runRows w"
    and recur_keeps: "run_state (ScheduleRecurring dispatcher sch p) w = (j, w') \<Longrightarrow> runRows w' = runRows w"
    and rand_keeps: "run_state rand w = (b, w') \<Longrightarrow> runRows w' = runRows w"
    and clock_set: "run_state clock w = (t, w') \<Longrightarrow> t \<noteq> 0"
begin

abbreviation scheduler :: "'w schedule_run" where
  "scheduler \<equiv> \<lparr>suRuns = NewRunRepo keccak db, suDispatcher = dispatcher, suClock = clock\<rparr>"

lemma dispatch_keeps: "run_state (dispatchRun scheduler inp i) w = (x, w') \<Longrightarrow> runRows w' = runRows w"
  by (auto simp: dispatchRun_def split: option.splits trigger.splits prod.splits dest: enqueue_keeps recur_keeps)

lemma dispatch_result:
  assumes "run_state (dispatchRun scheduler inp i) w = (x, w')" "siTrigger inp \<noteq> None"
  shows "(\<exists>res. x = Inr res \<and> resRunID res = i \<and> (resJobID res \<noteq> None \<longleftrightarrow> isScheduled (siTrigger inp))) \<or>
    (\<exists>e. x = Inl (Wrap ''schedule run: enqueue: '' e) \<or> x = Inl (Wrap ''schedule run: schedule: '' e))"
  using assms
  by (auto simp: dispatchRun_def isScheduled_def split: option.splits trigger.splits prod.splits sum.splits)

lemma find_missing_error:
  assumes "run_state (gormRunRepo_FindByID keccak db i) w = (Inl e, w')" "errorsIs e ErrRunNotFound"
  shows "runRows w i = None"
proof -
  have "e = ErrRunNotFound"
    using assms by (auto simp: gormRunRepo_FindByID_def Inl_map_sum split: prod.splits sum.splits if_splits)
  then show ?thesis using repo_find_missing assms(1) by blast
qed

lemma schedule_outcome:
  assumes "run_state (ScheduleRun_Execute rand scheduler inp) w = (x, w')" and "storableInput inp"
  shows "(\<exists>i t r. buildRun inp i t = Inr r \<and> runRows w i = None \<and>
      runsIn w' = (runsIn w)(i \<mapsto> storedRun dbTime r) \<and>
      ((\<exists>res. x = Inr res \<and> resRunID res = i \<and> (resJobID res \<noteq> None \<longleftrightarrow> isScheduled (siTrigger inp))) \<or>
       (\<exists>e. x = Inl (Wrap ''schedule run: enqueue: '' e) \<or> x = Inl (Wrap ''schedule run: schedule: '' e)))) \<or>
    ((\<exists>e. x = Inl e) \<and> runRows w' = runRows w)"
proof (cases "isScheduled (siTrigger inp) \<and> Schedule_IsZero (siSchedule inp)")
  case True
  then show ?thesis using assms(1) by (auto simp: ScheduleRun_Execute_def)
next
  case guard: False
  obtain ch w0 where ch: "run_state (chooseID rand (siID inp)) w = (ch, w0)" by fastforce
  have k0: "runRows w0 = runRows w"
    using ch rand_keeps by (auto simp: chooseID_def split: if_splits prod.splits)
  show ?thesis
  proof (cases ch)
    case None
    then show ?thesis using assms(1) guard ch k0 by (auto simp: ScheduleRun_Execute_def)
  next
    case (Some i)
    obtain f w1 where f: "run_state (gormRunRepo_FindByID keccak db i) w0 = (f, w1)" by fastforce
    have k1: "runRows w1 = runRows w" using repo_find_keeps [OF f] k0 by simp
    consider r where "f = Inr r" | e where "f = Inl e" "\<not> errorsIs e ErrRunNotFound"
      | e where "f = Inl e" "errorsIs e ErrRunNotFound" by (cases f) auto
    then show ?thesis
    proof cases
      case (3 e)
      have absent: "runRows w i = None" using find_missing_error [of i w0 e w1] f 3 k0 by simp
      obtain t w2 where c: "run_state clock w1 = (t, w2)" by fastforce
      have k2: "runRows w2 = runRows w" using clock_keeps [OF c] k1 by simp
      show ?thesis
      proof (cases "buildRun inp i t")
        case (Inl e')
        then show ?thesis using assms(1) guard ch Some f 3 c k2 by (auto simp: ScheduleRun_Execute_def)
      next
        case (Inr r)
        note b = buildRun_fields [OF Inr]
        have trig: "siTrigger inp \<noteq> None"
          using Inr by (auto simp: buildRun_def NewRun_def split: option.splits if_splits)
        obtain sv w3 where s: "run_state (gormRunRepo_Save keccak db r) w2 = (sv, w3)" by fastforce
        show ?thesis
        proof (cases sv)
          case (Some e')
          then show ?thesis
            using assms(1) guard ch \<open>ch = Some i\<close> f 3 c Inr s k2 repo_save_fails [of keccak r w2 e' w3]
            by (auto simp: ScheduleRun_Execute_def)
        next
          case None
          have saved: "runsIn w3 = (runsIn w)(i \<mapsto> storedRun dbTime r)"
            using repo_save_creates [of r w2 keccak w3] b(1,3) b(4) [OF assms(2)] absent k2 s None clock_set [OF c]
            by simp
          have d: "run_state (dispatchRun scheduler inp i) w3 = (x, w')"
            using assms(1) guard ch \<open>ch = Some i\<close> f 3 c Inr s None by (auto simp: ScheduleRun_Execute_def)
          have "runsIn w' = (runsIn w)(i \<mapsto> storedRun dbTime r)" using dispatch_keeps [OF d] saved by simp
          with dispatch_result [OF d trig] Inr absent show ?thesis by blast
        qed
      qed
    qed (use assms(1) guard ch Some f k1 in \<open>auto simp: ScheduleRun_Execute_def\<close>)
  qed
qed

lemma schedule_duplicate:
  assumes "run_state (ScheduleRun_Execute rand scheduler inp) w = (x, w')"
    and "siID inp \<noteq> []" "runsIn w (siID inp) = Some r"
    and "\<not> (isScheduled (siTrigger inp) \<and> Schedule_IsZero (siSchedule inp))"
  shows "runRows w' = runRows w \<and> (\<exists>e. x = Inl e \<and>
    (errorsIs e ErrDuplicateRun \<or> (\<exists>d. e = Wrap ''schedule run: check existing: '' (Wrap ''run repo find: '' (ErrDB d)))))"
proof -
  obtain f w1 where f: "run_state (gormRunRepo_FindByID keccak db (siID inp)) w = (f, w1)" by fastforce
  have k: "runRows w1 = runRows w" using repo_find_keeps [OF f] .
  show ?thesis
  proof (cases f)
    case (Inl e)
    have "runRows w (siID inp) \<noteq> None" using assms(3) by (auto simp: decodedRuns_Some)
    then have "\<exists>d. e = Wrap ''run repo find: '' (ErrDB d) \<and> d \<noteq> ErrRecordNotFound"
      using find_terminal_error [of "siID inp" w e w1] f Inl assms(3)
      by (auto simp: gormRunRepo_FindByID_def Inl_map_sum split: prod.splits sum.splits if_splits)
    then show ?thesis using assms f Inl k by (auto simp: ScheduleRun_Execute_def chooseID_def)
  next
    case (Inr r')
    then show ?thesis using assms f k by (auto simp: ScheduleRun_Execute_def chooseID_def)
  qed
qed

end


text \<open>
  An id is never reused: scheduling with the id of a stored run changes nothing and
  returns \<open>ErrDuplicateRun\<close>, unless the lookup failed in the database.
\<close>

theorem schedule_run_duplicate:
  assumes "run_scheduler db runRows dbTime clock dispatcher rand"
    and "run_state (ScheduleRun_Execute rand
           \<lparr>suRuns = NewRunRepo keccak db, suDispatcher = dispatcher, suClock = clock\<rparr> inp) w = (x, w')"
    and "siID inp \<noteq> []" and "decodedRuns keccak (runRows w) (siID inp) = Some r"
    and "\<not> (isScheduled (siTrigger inp) \<and> Schedule_IsZero (siSchedule inp))"
  shows "runRows w' = runRows w \<and> (\<exists>e. x = Inl e \<and>
    (errorsIs e ErrDuplicateRun \<or> (\<exists>d. e = Wrap ''schedule run: check existing: '' (Wrap ''run repo find: '' (ErrDB d)))))"
  by (rule run_scheduler.schedule_duplicate [OF assms])

definition memDispatcher :: "memory job_dispatcher" where
  "memDispatcher =
     \<lparr>EnqueueRunExecution = (\<lambda>_. State_Monad.return None),
      ScheduleRecurring = (\<lambda>_ _. State_Monad.return (Inr ''job'')),
      CancelScheduled = (\<lambda>_. State_Monad.return None)\<rparr>"

text \<open>The clock of the memory, kept off Go's zero time.\<close>

definition memTick :: "memory clock" where
  "memTick = State (\<lambda>w. (\<bar>memClock w\<bar> + 1000, w\<lparr>memClock := \<bar>memClock w\<bar> + 1000\<rparr>))"

definition memRand :: "(memory, byte list option) state" where
  "memRand = State_Monad.return (Some (replicate 16 7))"

interpretation memory_scheduler: run_scheduler memDB runTable micros memTick memKeccak memDispatcher memRand
  by unfold_locales (auto simp: memTick_def memDispatcher_def memRand_def runTable_def fun_eq_iff)

lemma memory_run_scheduler: "run_scheduler memDB runTable micros memTick memDispatcher memRand" ..

definition memInput :: "run_id \<Rightarrow> schedule_run_input" where
  "memInput i =
     \<lparr>siID = i, siChainID = 1, siStrategy = Some (LatestN 5), siMetrics = [MetricBlockHash],
      siTrigger = Some (ManualTrigger ''op''), siSchedule = \<lparr>schCronExpr = [], schTimezone = None\<rparr>,
      siAddressPlans = [], siTokenPlans = []\<rparr>"


theorem schedule_run_duplicate_witness:
  "\<exists>e w'. run_state (ScheduleRun_Execute memRand
       \<lparr>suRuns = NewRunRepo memKeccak memDB, suDispatcher = memDispatcher, suClock = memTick\<rparr> (memInput ''r1'')) memStart
       = (Inl e, w') \<and> runTable w' = runTable memStart \<and> errorsIs e ErrDuplicateRun"
proof -
  let ?uc = "\<lparr>suRuns = NewRunRepo memKeccak memDB, suDispatcher = memDispatcher, suClock = memTick\<rparr>"
  have e: "run_state (ScheduleRun_Execute memRand ?uc (memInput ''r1'')) memStart =
      (Inl (WrapSuffix ErrDuplicateRun ('': '' @ ''r1'')), memStart)"
    using memStart_find by (simp add: ScheduleRun_Execute_def memInput_def chooseID_def isScheduled_def)
  have "siID (memInput ''r1'') \<noteq> []" "decodedRuns memKeccak (runTable memStart) (siID (memInput ''r1'')) = Some memRun"
      "\<not> (isScheduled (siTrigger (memInput ''r1'')) \<and> Schedule_IsZero (siSchedule (memInput ''r1'')))"
    using memStart_runs by (simp_all add: memInput_def isScheduled_def)
  from schedule_run_duplicate [OF memory_run_scheduler e this] e show ?thesis by auto
qed

section \<open>Replaying\<close>

text \<open>What a replay of the record \<open>rec\<close> of diff \<open>i\<close> may do to the table: nothing with an error; resolve
  the diff; or add one new diff, of the same run, metric, block and subject, on which at least
  two sources still disagree, with the record's anchor and seed.\<close>

definition replayed ::
  "time_codec \<Rightarrow> (gotime \<Rightarrow> gotime) \<Rightarrow> 'w replay_diff \<Rightarrow> diff_id \<Rightarrow> diff_record
   \<Rightarrow> (int \<rightharpoonup> diff_model) \<Rightarrow> app_error + replay_result \<Rightarrow> (int \<rightharpoonup> diff_model) \<Rightarrow> bool" where
  "replayed tc dbTime uc i rec rows x rows' \<longleftrightarrow>
     (case x of
        Inl _ \<Rightarrow> rows' = rows
      | Inr res \<Rightarrow> rrOriginalDiffID res = i \<and>
          (if rrResolved res
           then rrNewDiffID res = None \<and> (\<exists>k m t. ParseInt i = Some k \<and> rows k = Some m \<and>
             rows' = rows(k \<mapsto> m\<lparr>dmResolved := True, dmResolvedAt := Some (dbTime t)\<rparr>))
           else \<exists>n d t. rrNewDiffID res = Some (FormatInt 10 n) \<and> rows n = None \<and>
             dRunID d = dRunID (drDiscrepancy rec) \<and> dMetric d = dMetric (drDiscrepancy rec) \<and>
             dBlock d = dBlock (drDiscrepancy rec) \<and> dSubject d = dSubject (drDiscrepancy rec) \<and>
             2 \<le> length (dValues d) \<and>
             applyTolerance (replayTolerance uc (dMetric d)) (dMetric d) (dValues d) (drAnchorBlock rec) = toleranceDisagree \<and>
             rows' = rows(n \<mapsto> storedDiff dbTime
               ((toDiffModel tc (d\<lparr>dDetectedAt := t\<rparr>) (rdPolicy uc d) (replayMeta rec))\<lparr>dmID := n\<rparr>))))"

locale diff_replayer = diff_table db diffRows dbTime now
  for db :: "'w gorm_db" and diffRows and dbTime and now +
  fixes uc :: "'w replay_diff"
    and tc :: time_codec
  assumes replay_wired: "rdDiffs uc = NewDiffRepo tc now db"
    and rclock_keeps: "state_io_rel (same diffRows) (rdClock uc)"
    and get_keeps: "state_io_rel (same diffRows) (Gateway_Get (rdSources uc) sid)"
    and fetch_keeps: "run_state (Gateway_Get (rdSources uc) sid) w = (Inr s, w') \<Longrightarrow> source_effect (same diffRows) s"
begin

lemma resolveSources_keeps: "state_io_rel (same diffRows) (resolveSources (rdSources uc) sids)"
  by (induction sids) (auto intro!: io_return io_bind get_keeps split: sum.splits)

lemma resolveSources_effect:
  "run_state (resolveSources (rdSources uc) sids) w = (Inr ss, w') \<Longrightarrow> s \<in> set ss \<Longrightarrow> source_effect (same diffRows) s"
proof (induction sids arbitrary: w ss w')
  case (Cons sid sids)
  then show ?case
    by (auto simp: Inr_map_sum split: prod.splits sum.splits dest: fetch_keeps)
qed simp

lemma fetch_all_keeps:
  assumes "\<And>s. s \<in> set ss \<Longrightarrow> source_effect (same diffRows) s"
  shows "state_io_rel (same diffRows) (fanOutFetch ss None (\<lambda>s. FetchBlock s q))"
  unfolding fanOutFetch_def
proof (rule io_traverse [OF same_refl same_trans])
  fix s
  assume "s \<in> set ss"
  then have "state_io_rel (same diffRows) (FetchBlock s q)" using assms by (simp add: source_effect_def)
  then show "state_io_rel (same diffRows) (fetchSlot None (\<lambda>s. FetchBlock s q) s)"
    by (auto simp: fetchSlot_def intro!: io_return io_bind split: sum.splits)
qed

lemma NewDiffRepo_sel:
  "DiffRepo_Save (rdDiffs uc) = gormDiffRepo_Save tc now db"
  "DiffRepo_FindByID (rdDiffs uc) = gormDiffRepo_FindByID tc db"
  "DiffRepo_MarkResolved (rdDiffs uc) = gormDiffRepo_MarkResolved db"
  by (simp_all add: replay_wired NewDiffRepo_def)

lemma replayDecide_outcome:
  assumes "run_state (replayDecide uc i rec snaps) w = (x, w')"
  shows "replayed tc dbTime uc i rec (diffRows w) x (diffRows w')"
proof -
  let ?d0 = "drDiscrepancy rec"
  obtain t w1 where c: "run_state (rdClock uc) w = (t, w1)" by fastforce
  have k: "diffRows w1 = diffRows w" using io_sameD [OF rclock_keeps c] .
  let ?tol = "applyTolerance (replayTolerance uc (dMetric ?d0)) (dMetric ?d0) snaps (drAnchorBlock rec)"
  consider "length snaps < 2" | "2 \<le> length snaps" "?tol \<noteq> toleranceDisagree"
    | "2 \<le> length snaps" "?tol = toleranceDisagree" by linarith
  then show ?thesis
  proof cases
    case 1
    then show ?thesis using assms by (auto simp: replayDecide_def replayed_def Let_def)
  next
    case 2
    obtain e w2 where m: "run_state (gormDiffRepo_MarkResolved db i t) w1 = (e, w2)" by fastforce
    have "w' = w2" "x = (case e of Some e \<Rightarrow> Inl (Wrap ''replay diff: mark resolved: '' e)
           | None \<Rightarrow> Inr \<lparr>rrOriginalDiffID = i, rrResolved = True, rrNewDiffID = None\<rparr>)"
      using assms 2 c m by (auto simp: replayDecide_def Let_def NewDiffRepo_sel)
    then show ?thesis
      using repo_mark_resolved [OF m] k by (cases e) (auto simp: replayed_def)
  next
    case 3
    show ?thesis
    proof (cases "NewDiscrepancy (dRunID ?d0) (dMetric ?d0) (dBlock ?d0) (dSubject ?d0) snaps t")
      case (Inl e)
      then show ?thesis using assms 3 c k by (auto simp: replayDecide_def replayed_def Let_def)
    next
      case (Inr d)
      obtain sv w2 where s: "run_state (gormDiffRepo_Save tc now db d (rdPolicy uc d) (replayMeta rec)) w1 = (sv, w2)"
        by fastforce
      have x: "w' = w2" "x = (case sv of Inl e \<Rightarrow> Inl (Wrap ''replay diff: save: '' e)
           | Inr n \<Rightarrow> Inr \<lparr>rrOriginalDiffID = i, rrResolved = False, rrNewDiffID = Some n\<rparr>)"
        using assms 3 c Inr s by (auto simp: replayDecide_def Let_def NewDiffRepo_sel)
      have d: "dRunID d = dRunID ?d0" "dMetric d = dMetric ?d0" "dBlock d = dBlock ?d0" "dSubject d = dSubject ?d0"
          "dValues d = snaps" using Inr by (auto simp: NewDiscrepancy_Inr)
      show ?thesis
      proof (cases sv)
        case (Inl e)
        then show ?thesis using x repo_diff_save_fails s k by (auto simp: replayed_def)
      next
        case (Inr n)
        from repo_diff_save [OF s [unfolded Inr]] obtain n' t' where
          "n = FormatInt 10 n'" "diffRows w1 n' = None"
          "diffRows w2 = (diffRows w1)(n' \<mapsto> storedDiff dbTime
             ((toDiffModel tc (d\<lparr>dDetectedAt := t'\<rparr>) (rdPolicy uc d) (replayMeta rec))\<lparr>dmID := n'\<rparr>))" by blast
        then have "rrNewDiffID (\<lparr>rrOriginalDiffID = i, rrResolved = False, rrNewDiffID = Some n\<rparr>) = Some (FormatInt 10 n') \<and>
            diffRows w n' = None \<and> diffRows w' = (diffRows w)(n' \<mapsto> storedDiff dbTime
             ((toDiffModel tc (d\<lparr>dDetectedAt := t'\<rparr>) (rdPolicy uc d) (replayMeta rec))\<lparr>dmID := n'\<rparr>))"
          using x k by simp
        then show ?thesis
          unfolding replayed_def x(2) Inr sum.case
          by (simp, intro exI [of _ n'] conjI, simp, simp, intro exI [of _ d])
            (use d 3 in simp, intro exI [of _ t'], simp)
      qed
    qed
  qed
qed

lemma replay_outcome:
  assumes "run_state (ReplayDiff_Execute keccak uc i) w = (x, w')"
  shows "(\<exists>rec. decodedDiffs tc (diffRows w) i = Some rec \<and> mCategory (dMetric (drDiscrepancy rec)) = CatBlockImmutable \<and>
      replayed tc dbTime uc i rec (diffRows w) x (diffRows w')) \<or> ((\<exists>e. x = Inl e) \<and> diffRows w' = diffRows w)"
proof -
  obtain f w1 where f: "run_state (gormDiffRepo_FindByID tc db i) w = (f, w1)" by fastforce
  note fk = repo_diff_find(1) [OF f]
  show ?thesis
  proof (cases f)
    case (Inl e)
    then show ?thesis using assms f fk by (auto simp: ReplayDiff_Execute_def NewDiffRepo_sel)
  next
    case (Inr rec)
    have rec: "decodedDiffs tc (diffRows w) i = Some rec" using repo_diff_find(2) [OF f Inr] .
    let ?d0 = "drDiscrepancy rec"
    show ?thesis
    proof (cases "mCategory (dMetric ?d0) = CatBlockImmutable")
      case False
      then show ?thesis using assms f Inr fk by (auto simp: ReplayDiff_Execute_def NewDiffRepo_sel Let_def)
    next
      case True
      obtain g w2 where g: "run_state (resolveSources (rdSources uc) (map fst (dValues ?d0))) w1 = (g, w2)" by fastforce
      have gk: "diffRows w2 = diffRows w" using io_sameD [OF resolveSources_keeps g] fk by simp
      show ?thesis
      proof (cases g)
        case (Inl e)
        then show ?thesis using assms f Inr True g gk by (auto simp: ReplayDiff_Execute_def NewDiffRepo_sel Let_def)
      next
        case (Inr ss)
        obtain rs w3 where r: "run_state (fanOutFetch ss None (\<lambda>s. FetchBlock s \<lparr>bqNumber = dBlock ?d0\<rparr>)) w2 = (rs, w3)"
          by fastforce
        have rk: "diffRows w3 = diffRows w"
          using io_sameD [OF fetch_all_keeps r] resolveSources_effect g Inr gk by auto
        have "run_state (replayDecide uc i rec
            (collectSnapshots (projectBlock keccak) (mCapability (dMetric ?d0)) rs)) w3 = (x, w')"
          using assms f \<open>f = Inr rec\<close> True g Inr r by (auto simp: ReplayDiff_Execute_def NewDiffRepo_sel Let_def)
        from replayDecide_outcome [OF this] have "replayed tc dbTime uc i rec (diffRows w) x (diffRows w')"
          by (simp only: rk)
        then show ?thesis using rec True by blast
      qed
    qed
  qed
qed

end


definition memReplay :: "memory replay_diff" where
  "memReplay =
     \<lparr>rdDiffs = NewDiffRepo memCodec memNow memDB,
      rdSources = \<lparr>Gateway_ForChain = (\<lambda>_. State_Monad.return (Inr [])),
                   Gateway_Get = (\<lambda>sid. State_Monad.return (Inr (memSource sid (if sid = ''rpc'' then 1 else 2))))\<rparr>,
      rdClock = memNow, rdPolicy = DefaultPolicy_Judge [], rdTolerance = None\<rparr>"

interpretation memory_replayer: diff_replayer memDB diffTable micros memNow memReplay memCodec
proof
  show "source_effect (same diffTable) s"
    if "run_state (Gateway_Get (rdSources memReplay) sid) w = (Inr s, w')" for sid w s w'
    using that by (auto simp: memReplay_def source_effect_def memSource_def io_return)
qed (simp_all add: memReplay_def io_return, simp add: memNow_def state_io_rel_def same_def diffTable_def fun_eq_iff)


section \<open>Cancelling a run that is being executed\<close>

context reliable_gorm_engine
begin

lemma finish_overwrites:
  assumes "run_state (executeInner keccak rng ctxErr uc r) w = (Returns (Inr r1), w1)"
    and "run_state (finishExecution text uc r (Returns (Inr r1))) w1 = (out, w')"
    and "representable r" "runStatus r = StatusRunning"
    and "decodedRuns keccak (runRows w) (runId r) = Some rc" "fixedPart rc = fixedPart r"
  shows "out = Returns None \<and> (\<exists>r2. decodedRuns keccak (runRows w') (runId r) = Some r2 \<and> runStatus r2 = StatusCompleted)"
proof -
  have r1: "runStatus r1 = StatusRunning" "runId r1 = runId r" "representable r1" "fixedPart r1 = fixedPart r"
    using store.inner_run [OF assms(1,3)] assms(4) by simp_all
  obtain t v where c: "run_state (erClock uc) w1 = (t, v)" by fastforce
  obtain r2 where r2: "Run_Complete t r1 = Inr r2" "runId r2 = runId r" "runStatus r2 = StatusCompleted" "representable r2"
      "fixedPart r2 = fixedPart r"
    using r1 store.ok_changed(2) [OF r1(3)] by (auto simp: Run_Complete_Inr status_defs fixedPart_def)
  obtain v' where s: "run_state (RunRepo_Save (erRuns uc) r2) v = (None, v')"
    using reliable.save_total [of r2 v] by (metis prod.collapse)
  have "decodedRuns keccak (runRows v) (runId r2) = Some rc"
    using store.clock_keeps [OF c] store.inner_keeps [OF assms(1)] assms(5) r2(2) by simp
  from store.save_stores [OF r2(4) this _ s] assms(6) r2(2,3,5)
  have "decodedRuns keccak (runRows v') (runId r) = Some (storedRun dbTime r2)" by simp
  moreover have "out = Returns None" "w' = v'" using assms(2) c r2(1) s by (auto simp: finishExecution_def)
  ultimately show ?thesis using r2(3) by (auto simp: storedRun_def)
qed

end

text \<open>
  Property C7. A cancellation of a run that a worker is executing is lost: \<open>CancelRun\<close> reports success and
  the run is stored as cancelled, but the worker holds its own copy of the run and its final save
  overwrites the row, so that the run ends as completed. The state machine of the aggregate forbids
  leaving a terminal status; the stored run leaves it, since a save does not look at the stored status.
\<close>

theorem cancel_lost:
  assumes "reliable_gorm_engine db runRows dbTime uc ctxErr keccak"
    and "run_clients db runRows dbTime clock"
    and "representable r" and "runStatus r = StatusRunning" and "runId r = i"
    and "decodedRuns keccak (runRows w) i = Some r0" and "fixedPart r0 = fixedPart r"
    and "run_state (CancelRun_Execute \<lparr>cuRuns = NewRunRepo keccak db, cuClock = clock\<rparr> i) w = (None, w1)"
    and "run_state (executeInner keccak rng ctxErr uc r) w1 = (Returns (Inr r1), w2)"
    and "run_state (finishExecution text uc r (Returns (Inr r1))) w2 = (out, w3)"
  shows "(\<exists>rc. decodedRuns keccak (runRows w1) i = Some rc \<and> runStatus rc = StatusCancelled) \<and>
    out = Returns None \<and> (\<exists>r2. decodedRuns keccak (runRows w3) i = Some r2 \<and> runStatus r2 = StatusCompleted)"
proof -
  obtain rx t where "decodedRuns keccak (runRows w) i = Some rx"
    and "decodedRuns keccak (runRows w1) i =
      Some (storedRun dbTime (rx\<lparr>runStatus := StatusCancelled, runFinishedAt := Some t\<rparr>))"
    using run_clients.cancel_outcome [OF assms(2,8)] by auto
  then have rc: "decodedRuns keccak (runRows w1) i =
      Some (storedRun dbTime (r0\<lparr>runStatus := StatusCancelled, runFinishedAt := Some t\<rparr>))" using assms(6) by simp
  have tab: "run_table db runRows dbTime" using assms(2) by (simp add: run_clients_def)
  obtain m where m: "runRows w i = Some m" "toRun keccak m = Inr r0" using assms(6) by (auto simp: decodedRuns_Some)
  have "dbTime (rmCreatedAt m) = rmCreatedAt m"
    using arg_cong [OF run_table.rows_time [OF tab m(1)], of rmCreatedAt] by (simp add: storedRow_def)
  then have "fixedPart (storedRun dbTime (r0\<lparr>runStatus := StatusCancelled, runFinishedAt := Some t\<rparr>)) = fixedPart r"
    using toRun_fields(6) [OF m(2)] assms(7) by (simp add: fixedPart_def storedRun_def)
  from reliable_gorm_engine.finish_overwrites [OF assms(1,9,10,3,4) rc [folded assms(5)] this] rc assms(5)
  show ?thesis by (auto simp: storedRun_def)
qed

definition memRunning :: memory where
  "memRunning =
     memStart\<lparr>memRuns := (case toRunModel memKeccak summaryRun of Inr m \<Rightarrow> [(''r1'', m)] | Inl _ \<Rightarrow> [])\<rparr>"

lemma summaryRun_representable: "representable summaryRun"
  using memRun_representable by (simp add: summaryRun_def representable_def status_defs AllMetrics_def)

lemma memRunning_runs: "decodedRuns memKeccak (runTable memRunning) ''r1'' = Some summaryRun"
proof -
  obtain m where m: "toRunModel memKeccak summaryRun = Inr m" "rmID m = runId summaryRun"
      "toRun memKeccak (storedRow micros m) = Inr (storedRun micros summaryRun)"
    using run_row_roundtrip [OF summaryRun_representable] by blast
  have "storedRun micros summaryRun = summaryRun"
    by (simp add: storedRun_def summaryRun_def memRun_def micros_def sampleRun_def)
  moreover have "m\<lparr>rmID := ''r1''\<rparr> = m" using m(2) by (simp add: summaryRun_def memRun_def sampleRun_def)
  ultimately show ?thesis using m by (simp add: decodedRuns_def runTable_def memRunning_def)
qed

theorem cancel_lost_witness:
  "\<exists>w1 r1 w2 out w3 rc r2.
     run_state (CancelRun_Execute \<lparr>cuRuns = NewRunRepo memKeccak memDB, cuClock = memNow\<rparr> ''r1'') memRunning = (None, w1) \<and>
     run_state (executeInner memKeccak (\<lambda>_ _ _ _. 0) memCtx memUC summaryRun) w1 = (Returns (Inr r1), w2) \<and>
     run_state (finishExecution (ErrorText (\<lambda>_. [])) memUC summaryRun (Returns (Inr r1))) w2 = (out, w3) \<and>
     decodedRuns memKeccak (runTable w1) ''r1'' = Some rc \<and> runStatus rc = StatusCancelled \<and>
     decodedRuns memKeccak (runTable w3) ''r1'' = Some r2 \<and> runStatus r2 = StatusCompleted"
proof -
  have st: "runStatus summaryRun = StatusRunning" "runId summaryRun = ''r1''"
    by (simp_all add: summaryRun_def memRun_def sampleRun_def)
  have clk: "memClock memRunning = 2000" by (simp add: memRunning_def memStart_def)
  obtain w1 where c: "run_state (CancelRun_Execute \<lparr>cuRuns = NewRunRepo memKeccak memDB, cuClock = memNow\<rparr> ''r1'') memRunning
      = (None, w1)"
    using memory_save [of "summaryRun\<lparr>runStatus := StatusCancelled, runFinishedAt := Some 2000\<rparr>" "memRunning\<lparr>memClock := 3000\<rparr>"]
    by (auto simp: CancelRun_Execute_def memory_find [OF memRunning_runs] memNow_def Run_Cancel_def st clk)
  obtain r1 w2 where e: "run_state (executeInner memKeccak (\<lambda>_ _ _ _. 0) memCtx memUC summaryRun) w1 = (Returns (Inr r1), w2)"
    using summaryRun_inner by blast
  obtain out w3 where f: "run_state (finishExecution (ErrorText (\<lambda>_. [])) memUC summaryRun (Returns (Inr r1))) w2 = (out, w3)"
    by fastforce
  from cancel_lost [OF memory_reliable memory_run_clients summaryRun_representable st memRunning_runs refl c e f] c e f
  show ?thesis by blast
qed

end
