(* ===== verification/Float64.thy ===== *)
theory Float64
  imports Complex_Main "HOL-Library.Log_Nat"
begin

text \<open>
  Go's \<open>float64\<close>, as far as the probe evaluator computes with it: IEEE 754 binary64 numbers with
  rounding to nearest, ties to even. A finite number is the rational it stands for (so the two
  zeros are one value, which no comparison can tell apart); the infinities and NaN are separate
  constructors. The lemmas are the three facts the evaluator's arithmetic needs: the relative error
  of a rounding, the exactness on integers of up to 53 bits, and that rounding never passes an
  integer.
\<close>

datatype float64 = Finite rat | PosInf | NegInf | NaN

section \<open>Rounding\<close>

text \<open>The binary exponent of a positive rational: \<open>2 powi expo x \<le> x < 2 powi (expo x + 1)\<close>.\<close>

definition expo :: "rat \<Rightarrow> int" where
  "expo x = (let (a, b) = quotient_of x; k = bitlen a - bitlen b
             in if 2 powi k \<le> x then k else k - 1)"

definition roundEven :: "rat \<Rightarrow> int" where
  "roundEven q =
     (let f = \<lfloor>q\<rfloor>; d = q - of_int f in
      if d < 1 / 2 then f else if 1 / 2 < d then f + 1 else if even f then f else f + 1)"

text \<open>The unit in the last place: 53 significant bits, and never below the subnormal step.\<close>

definition ulpExp :: "rat \<Rightarrow> int" where
  "ulpExp x = max (expo \<bar>x\<bar> - 52) (- 1074)"

definition roundRat :: "rat \<Rightarrow> rat" where
  "roundRat x =
     (if x = 0 then 0 else of_int (roundEven (x / 2 powi ulpExp x)) * 2 powi ulpExp x)"

definition f64 :: "rat \<Rightarrow> float64" where
  "f64 x =
     (let r = roundRat x in
      if 2 ^ 1024 \<le> r then PosInf else if r \<le> - (2 ^ 1024) then NegInf else Finite r)"

section \<open>The operators\<close>

fun f64_lt :: "float64 \<Rightarrow> float64 \<Rightarrow> bool" where
  "f64_lt (Finite a) (Finite b) \<longleftrightarrow> a < b"
| "f64_lt (Finite _) PosInf \<longleftrightarrow> True"
| "f64_lt NegInf (Finite _) \<longleftrightarrow> True"
| "f64_lt NegInf PosInf \<longleftrightarrow> True"
| "f64_lt _ _ \<longleftrightarrow> False"

definition f64_eq :: "float64 \<Rightarrow> float64 \<Rightarrow> bool" where
  "f64_eq a b \<longleftrightarrow> a \<noteq> NaN \<and> a = b"

definition f64_le :: "float64 \<Rightarrow> float64 \<Rightarrow> bool" where
  "f64_le a b \<longleftrightarrow> f64_lt a b \<or> f64_eq a b"

text \<open>\<open>float64(i)\<close> and \<open>int(x)\<close>. The language leaves open what \<open>int(x)\<close> gives for a value that no
  \<open>int\<close> represents; \<open>cvt\<close> is the platform's choice.\<close>

definition f64_ofInt :: "int \<Rightarrow> float64" where
  "f64_ofInt i = f64 (of_int i)"

definition truncRat :: "rat \<Rightarrow> int" where
  "truncRat q = (if 0 \<le> q then \<lfloor>q\<rfloor> else \<lceil>q\<rceil>)"

definition f64_toInt :: "(float64 \<Rightarrow> int) \<Rightarrow> float64 \<Rightarrow> int" where
  "f64_toInt cvt x =
     (case x of
        Finite q \<Rightarrow> if - (2 ^ 63) \<le> truncRat q \<and> truncRat q < 2 ^ 63 then truncRat q else cvt x
      | _ \<Rightarrow> cvt x)"

text \<open>Products, quotients and \<open>math.Ceil\<close>, on the finite operands the evaluator forms; with
  another operand the result is not needed and given as NaN.\<close>

fun f64_mul :: "float64 \<Rightarrow> float64 \<Rightarrow> float64" where
  "f64_mul (Finite a) (Finite b) = f64 (a * b)"
| "f64_mul _ _ = NaN"

fun f64_div :: "float64 \<Rightarrow> float64 \<Rightarrow> float64" where
  "f64_div (Finite a) (Finite b) = (if b = 0 then NaN else f64 (a / b))"
| "f64_div _ _ = NaN"

fun f64_ceil :: "float64 \<Rightarrow> float64" where
  "f64_ceil (Finite a) = Finite (of_int \<lceil>a\<rceil>)"
| "f64_ceil x = x"

section \<open>Facts on rounding\<close>

lemma bitlen_powi:
  assumes "0 < (a :: int)"
  shows "(2 :: rat) powi (bitlen a - 1) \<le> of_int a" "(of_int a :: rat) < 2 powi bitlen a"
proof -
  have b: "2 ^ nat (bitlen a - 1) \<le> a" "a < 2 ^ nat (bitlen a)" and "1 \<le> bitlen a"
    using bitlen_bounds [OF assms] bitlen_eq_zero_iff [of a] bitlen_nonneg [of a] assms by linarith+
  then have p: "(2 :: rat) powi (bitlen a - 1) = of_int (2 ^ nat (bitlen a - 1))"
    "(2 :: rat) powi bitlen a = of_int (2 ^ nat (bitlen a))"
    by (simp_all add: power_int_nonneg_exp)
  show "(2 :: rat) powi (bitlen a - 1) \<le> of_int a" "(of_int a :: rat) < 2 powi bitlen a"
    unfolding p using b by (simp_all only: of_int_le_iff of_int_less_iff)
qed

lemma expo_bounds:
  assumes "0 < x"
  shows "2 powi expo x \<le> x" "x < 2 powi (expo x + 1)"
proof -
  obtain a b where q: "quotient_of x = (a, b)" by force
  then have x: "x = of_int a / of_int b" and b: "0 < b"
    using quotient_of_div quotient_of_denom_pos by auto
  then have a: "0 < a" using assms by (simp add: zero_less_divide_iff)
  define k where "k = bitlen a - bitlen b"
  have rb: "(0 :: rat) < of_int b" using b by simp
  have "x < 2 powi bitlen a / 2 powi (bitlen b - 1)"
    unfolding x using bitlen_powi [OF a] bitlen_powi [OF b] rb a by (intro frac_less) auto
  also have "\<dots> = 2 powi (k + 1)" by (simp add: k_def algebra_simps flip: power_int_diff)
  finally have hi: "x < 2 powi (k + 1)" .
  have "2 powi (k - 1) = (2 powi (bitlen a - 1) / 2 powi bitlen b :: rat)"
    by (simp add: k_def algebra_simps flip: power_int_diff)
  also have "\<dots> \<le> x"
    unfolding x using bitlen_powi [OF a] bitlen_powi [OF b] rb a by (intro frac_le) auto
  finally have lo: "2 powi (k - 1) \<le> x" .
  have e: "expo x = (if 2 powi k \<le> x then k else k - 1)" by (simp add: expo_def q k_def Let_def)
  show "2 powi expo x \<le> x" "x < 2 powi (expo x + 1)" using lo hi by (auto simp: e)
qed

lemma expo_less:
  assumes "0 < x" and "x < 2 powi k"
  shows "expo x < k"
proof (rule ccontr)
  assume "\<not> expo x < k"
  then have "(2 :: rat) powi k \<le> 2 powi expo x" by (intro power_int_increasing) auto
  with expo_bounds [OF assms(1)] assms(2) show False by simp
qed

lemma expo_ge:
  assumes "2 powi k \<le> x"
  shows "k \<le> expo x"
proof (rule ccontr)
  assume "\<not> k \<le> expo x"
  then have "(2 :: rat) powi (expo x + 1) \<le> 2 powi k" by (intro power_int_increasing) auto
  moreover have "0 < x" using assms by (meson less_le_trans zero_less_numeral zero_less_power_int)
  ultimately show False using expo_bounds [of x] assms by simp
qed

lemma expo_eq: "2 powi k \<le> x \<Longrightarrow> x < 2 powi (k + 1) \<Longrightarrow> expo x = k"
  using expo_ge [of k x] expo_less [of x "k + 1"]
  by (meson antisym less_le_trans zero_less_numeral zero_less_power_int zle_add1_eq_le)

lemma roundEven_near: "\<bar>of_int (roundEven q) - q\<bar> \<le> 1 / 2"
proof -
  define d where "d = q - of_int \<lfloor>q\<rfloor>"
  have d: "0 \<le> d" "d < 1" using floor_correct [of q] unfolding d_def by linarith+
  have r: "of_int (roundEven q) - q = - d \<or> of_int (roundEven q) - q = 1 - d \<and> 1 / 2 \<le> d"
    "d \<le> 1 / 2 \<or> of_int (roundEven q) - q = 1 - d"
    by (auto simp: roundEven_def Let_def d_def)
  then show ?thesis using d by (auto simp: abs_if)
qed

lemma roundEven_of_int [simp]: "roundEven (of_int i) = i"
  by (simp add: roundEven_def Let_def)

lemma roundEven_unique:
  assumes "\<bar>of_int i - q\<bar> < 1 / 2"
  shows "roundEven q = i"
proof -
  have "\<bar>of_int (roundEven q) - of_int i :: rat\<bar> < 1"
    using assms roundEven_near [of q] by (simp only: abs_if split: if_splits; linarith)
  then have "\<bar>of_int (roundEven q - i) :: rat\<bar> < of_int 1" by simp
  then show ?thesis by (simp only: of_int_less_iff flip: of_int_abs)
qed

lemma roundEven_le:
  assumes "q \<le> of_int i"
  shows "roundEven q \<le> i"
proof (cases "q = of_int i")
  case False
  then have "\<lfloor>q\<rfloor> + 1 \<le> i" using assms floor_less_iff [of q i] by simp
  then show ?thesis by (auto simp: roundEven_def Let_def)
qed simp

lemma roundEven_ge:
  assumes "of_int i \<le> q"
  shows "i \<le> roundEven q"
proof -
  have "i \<le> \<lfloor>q\<rfloor>" using assms by (simp add: le_floor_iff)
  then show ?thesis by (auto simp: roundEven_def Let_def)
qed

lemma ulpExp_normal: "2 powi (- 1022) \<le> \<bar>x\<bar> \<Longrightarrow> ulpExp x = expo \<bar>x\<bar> - 52"
  using expo_ge [of "- 1022" "\<bar>x\<bar>"] by (simp add: ulpExp_def)

lemma roundRat_error:
  assumes "2 powi (- 1022) \<le> \<bar>x\<bar>"
  shows "\<bar>roundRat x - x\<bar> \<le> \<bar>x\<bar> / 2 ^ 53"
proof -
  define e where "e = ulpExp x"
  have "(0 :: rat) < 2 powi (- 1022)" by (rule zero_less_power_int) simp
  then have x: "0 < \<bar>x\<bar>" using assms by linarith
  have u: "(0 :: rat) < 2 powi e" by (rule zero_less_power_int) simp
  have "\<bar>roundRat x - x\<bar> = \<bar>of_int (roundEven (x / 2 powi e)) - x / 2 powi e\<bar> * 2 powi e"
    using x u abs_mult [of "of_int (roundEven (x / 2 powi e)) - x / 2 powi e" "2 powi e"]
    by (simp add: roundRat_def left_diff_distrib flip: e_def)
  also have "\<dots> \<le> 1 / 2 * 2 powi e"
    using u by (intro mult_right_mono roundEven_near) auto
  also have "\<dots> = 2 powi expo \<bar>x\<bar> / 2 ^ 53"
    by (simp add: e_def ulpExp_normal [OF assms] power_int_diff)
  also have "\<dots> \<le> \<bar>x\<bar> / 2 ^ 53" using expo_bounds(1) [OF x] by (simp add: divide_right_mono)
  finally show ?thesis .
qed

lemma ulpExp_nonpos:
  assumes "\<bar>x\<bar> < 2 ^ 53"
  shows "x = 0 \<or> ulpExp x \<le> 0"
proof (cases "x = 0")
  case False
  have "\<bar>x\<bar> < 2 powi 53" using assms by simp
  with False expo_less [of "\<bar>x\<bar>" 53] show ?thesis by (auto simp: ulpExp_def)
qed simp

lemma int_grid: "e \<le> 0 \<Longrightarrow> (of_int k :: rat) / 2 powi e = of_int (k * 2 ^ nat (- e))"
  using power_int_minus [of "2 :: rat" "- e"] by (simp add: power_int_nonneg_exp divide_inverse)

lemma roundRat_int [simp]:
  assumes "\<bar>k\<bar> < 2 ^ 53"
  shows "roundRat (of_int k) = of_int k"
proof (cases "k = 0")
  case False
  have "\<bar>of_int k :: rat\<bar> < of_int (2 ^ 53)"
    using assms by (simp only: of_int_less_iff flip: of_int_abs)
  then have e: "ulpExp (of_int k) \<le> 0" using ulpExp_nonpos [of "of_int k"] False by simp
  show ?thesis
    using False unfolding roundRat_def int_grid [OF e] roundEven_of_int
    by (simp only: int_grid [OF e, symmetric]) simp
qed (simp add: roundRat_def)

lemma roundRat_le_int:
  assumes "0 \<le> x" and "x \<le> of_int k" and "k < 2 ^ 53"
  shows "roundRat x \<le> of_int k"
proof (cases "x = 0")
  case False
  have u: "(0 :: rat) < 2 powi ulpExp x" by (rule zero_less_power_int) simp
  have "of_int k < (of_int (2 ^ 53) :: rat)" using assms(3) by (simp only: of_int_less_iff)
  then have "\<bar>x\<bar> < 2 ^ 53" using assms by simp
  then have e: "ulpExp x \<le> 0" using ulpExp_nonpos False by blast
  have "x / 2 powi ulpExp x \<le> of_int (k * 2 ^ nat (- ulpExp x))"
    unfolding int_grid [OF e, symmetric] using assms(2) u by (intro divide_right_mono) auto
  then have "of_int (roundEven (x / 2 powi ulpExp x)) \<le> (of_int k / 2 powi ulpExp x :: rat)"
    unfolding int_grid [OF e] by (simp only: of_int_le_iff roundEven_le)
  then show ?thesis using False u by (simp add: roundRat_def pos_le_divide_eq)
qed (use assms in \<open>simp add: roundRat_def\<close>)

lemma roundRat_nonneg: "0 \<le> x \<Longrightarrow> 0 \<le> roundRat x"
  using roundEven_ge [of 0 "x / 2 powi ulpExp x"]
  by (auto simp: roundRat_def intro!: mult_nonneg_nonneg)

lemma f64_finite: "\<bar>roundRat x\<bar> < 2 ^ 1024 \<Longrightarrow> f64 x = Finite (roundRat x)"
  by (auto simp: f64_def Let_def abs_less_iff)

lemma f64_ofInt_exact:
  assumes "\<bar>k\<bar> < 2 ^ 53"
  shows "f64_ofInt k = Finite (of_int k)"
proof -
  have "\<bar>of_int k :: rat\<bar> < of_int (2 ^ 53)"
    using assms by (simp only: of_int_less_iff flip: of_int_abs)
  also have "\<dots> \<le> 2 ^ 1024" by simp
  finally show ?thesis using assms by (simp add: f64_ofInt_def f64_finite)
qed

end
