(* ===== verification/Probe.thy ===== *)
theory Probe
  imports Prelude Float64
begin

text \<open>
  The probe domain, \<open>internal/probe\<close>: probes with their targets, schedules and thresholds
  (\<open>probe.go\<close>), single measurements (\<open>observation.go\<close>) and incidents with their life cycle
  (\<open>incident.go\<close>). Two things the source takes from elsewhere are arguments: \<open>parseURL\<close>, what
  \<open>url.Parse\<close> returns (scheme and host, or nothing for an error), and \<open>cvt\<close>, the conversion of a
  \<open>float64\<close> that no \<open>int\<close> represents. The defensive copies of slices and maps are the values
  themselves here.
\<close>

section \<open>Probes (\<open>probe.go\<close>)\<close>

type_synonym probe_id = string
type_synonym target_kind = string
type_synonym threshold_metric = string

definition TargetHTTP :: target_kind where "TargetHTTP = ''http''"
definition TargetRPC :: target_kind where "TargetRPC = ''rpc''"
definition TargetGraphQL :: target_kind where "TargetGraphQL = ''graphql''"

definition TargetKind_Valid :: "target_kind \<Rightarrow> bool" where
  "TargetKind_Valid k \<longleftrightarrow> k = TargetHTTP \<or> k = TargetRPC \<or> k = TargetGraphQL"

record probe_target =
  ptKind :: target_kind
  ptURL :: string
  ptMethod :: string
  ptHeaders :: "(string, string) gomap option"
  ptBody :: "byte list option"

record probe_schedule =
  psCronExpr :: string
  psInterval :: duration

record threshold =
  thMetric :: threshold_metric
  thValue :: float64
  thWindowSec :: int
  thLabel :: string

datatype probe_error =
    TargetInvalidKind target_kind
  | TargetURLEmpty
  | TargetURLParse string
  | TargetScheme string
  | TargetNoHost
  | TargetHTTPMethod
  | TargetRPCMethod
  | ScheduleEmpty
  | ScheduleBoth
  | ScheduleTooShort duration
  | ThresholdInvalidMetric threshold_metric
  | ThresholdNegative float64
  | ThresholdLatencyZero
  | ThresholdLatencyWindow
  | ThresholdRateRange float64
  | ThresholdRateWindow
  | ThresholdNotPositiveInt float64
  | ProbeIdEmpty
  | ProbeNoThreshold
  | ProbeThreshold nat probe_error
  | ProbeDuplicateMetric threshold_metric

definition ProbeTarget_Validate ::
  "(string \<Rightarrow> (string \<times> string) option) \<Rightarrow> probe_target \<Rightarrow> probe_error option" where
  "ProbeTarget_Validate parseURL t =
     (if \<not> TargetKind_Valid (ptKind t) then Some (TargetInvalidKind (ptKind t))
      else if TrimSpace (ptURL t) = [] then Some TargetURLEmpty
      else case parseURL (ptURL t) of
        None \<Rightarrow> Some (TargetURLParse (ptURL t))
      | Some (scheme, host) \<Rightarrow>
          if scheme \<noteq> ''http'' \<and> scheme \<noteq> ''https'' then Some (TargetScheme scheme)
          else if host = [] then Some TargetNoHost
          else if ptKind t = TargetHTTP \<and> TrimSpace (ptMethod t) = [] then Some TargetHTTPMethod
          else if ptKind t = TargetRPC \<and> TrimSpace (ptMethod t) = [] then Some TargetRPCMethod
          else None)"

definition second :: duration where "second = 1000000000"

definition ProbeSchedule_Validate :: "probe_schedule \<Rightarrow> probe_error option" where
  "ProbeSchedule_Validate s =
     (let hasCron = (TrimSpace (psCronExpr s) \<noteq> []); hasInterval = (psInterval s > 0) in
      if \<not> hasCron \<and> \<not> hasInterval then Some ScheduleEmpty
      else if hasCron \<and> hasInterval then Some ScheduleBoth
      else if hasInterval \<and> psInterval s < second then Some (ScheduleTooShort (psInterval s))
      else None)"

definition ThresholdLatencyP95Ms :: threshold_metric where "ThresholdLatencyP95Ms = ''latency_p95_ms''"
definition ThresholdLatencyP99Ms :: threshold_metric where "ThresholdLatencyP99Ms = ''latency_p99_ms''"
definition ThresholdErrorRatePct :: threshold_metric where "ThresholdErrorRatePct = ''error_rate_pct''"
definition ThresholdConsecutiveFailures :: threshold_metric where
  "ThresholdConsecutiveFailures = ''consecutive_failures''"

lemmas threshold_metric_defs =
  ThresholdLatencyP95Ms_def ThresholdLatencyP99Ms_def ThresholdErrorRatePct_def
  ThresholdConsecutiveFailures_def

definition ThresholdMetric_Valid :: "threshold_metric \<Rightarrow> bool" where
  "ThresholdMetric_Valid m \<longleftrightarrow>
     m = ThresholdLatencyP95Ms \<or> m = ThresholdLatencyP99Ms \<or> m = ThresholdErrorRatePct \<or>
     m = ThresholdConsecutiveFailures"

definition Threshold_Validate :: "(float64 \<Rightarrow> int) \<Rightarrow> threshold \<Rightarrow> probe_error option" where
  "Threshold_Validate cvt t =
     (let m = thMetric t; v = thValue t in
      if \<not> ThresholdMetric_Valid m then Some (ThresholdInvalidMetric m)
      else if f64_lt v (Finite 0) then Some (ThresholdNegative v)
      else if m = ThresholdLatencyP95Ms \<or> m = ThresholdLatencyP99Ms then
        (if f64_eq v (Finite 0) then Some ThresholdLatencyZero
         else if thWindowSec t \<le> 0 then Some ThresholdLatencyWindow
         else None)
      else if m = ThresholdErrorRatePct then
        (if f64_lt (Finite 100) v then Some (ThresholdRateRange v)
         else if thWindowSec t \<le> 0 then Some ThresholdRateWindow
         else None)
      else
        (if f64_le v (Finite 0) \<or> \<not> f64_eq v (f64_ofInt (f64_toInt cvt v))
         then Some (ThresholdNotPositiveInt v)
         else None))"

record probe =
  probeId :: probe_id
  probeTarget :: probe_target
  probeSchedule :: probe_schedule
  probeThresholds :: "threshold list"
  probeEnabled :: bool

text \<open>The loop over the thresholds: index, and the metrics seen so far.\<close>

fun checkThresholds ::
  "(float64 \<Rightarrow> int) \<Rightarrow> nat \<Rightarrow> threshold_metric list \<Rightarrow> threshold list \<Rightarrow> probe_error option" where
  "checkThresholds cvt i seen [] = None"
| "checkThresholds cvt i seen (th # ths) =
     (case Threshold_Validate cvt th of
        Some e \<Rightarrow> Some (ProbeThreshold i e)
      | None \<Rightarrow>
          if thMetric th \<in> set seen then Some (ProbeDuplicateMetric (thMetric th))
          else checkThresholds cvt (Suc i) (thMetric th # seen) ths)"

definition NewProbe ::
  "(string \<Rightarrow> (string \<times> string) option) \<Rightarrow> (float64 \<Rightarrow> int) \<Rightarrow> probe_id \<Rightarrow> probe_target
   \<Rightarrow> probe_schedule \<Rightarrow> threshold list \<Rightarrow> bool \<Rightarrow> probe_error + probe" where
  "NewProbe parseURL cvt i target sched thresholds enabled =
     (if TrimSpace i = [] then Inl ProbeIdEmpty
      else case ProbeTarget_Validate parseURL target of Some e \<Rightarrow> Inl e | None \<Rightarrow>
        (case ProbeSchedule_Validate sched of Some e \<Rightarrow> Inl e | None \<Rightarrow>
          if length thresholds = 0 then Inl ProbeNoThreshold
          else case checkThresholds cvt 0 [] thresholds of
            Some e \<Rightarrow> Inl e
          | None \<Rightarrow> Inr
              \<lparr>probeId = i, probeTarget = target, probeSchedule = sched,
               probeThresholds = thresholds, probeEnabled = enabled\<rparr>))"

definition RehydrateProbe ::
  "probe_id \<Rightarrow> probe_target \<Rightarrow> probe_schedule \<Rightarrow> threshold list \<Rightarrow> bool \<Rightarrow> probe" where
  "RehydrateProbe i target sched thresholds enabled =
     \<lparr>probeId = i, probeTarget = target, probeSchedule = sched, probeThresholds = thresholds,
      probeEnabled = enabled\<rparr>"

section \<open>Observations (\<open>observation.go\<close>)\<close>

text \<open>\<open>ErrorClass\<close> is an \<open>int\<close> with six named values.\<close>

type_synonym error_class = int

definition ErrorNone :: error_class where "ErrorNone = 0"
definition ErrorNetwork :: error_class where "ErrorNetwork = 1"
definition ErrorTimeout :: error_class where "ErrorTimeout = 2"
definition ErrorHTTP4xx :: error_class where "ErrorHTTP4xx = 3"
definition ErrorHTTP5xx :: error_class where "ErrorHTTP5xx = 4"
definition ErrorProtocol :: error_class where "ErrorProtocol = 5"

lemmas error_class_defs =
  ErrorNone_def ErrorNetwork_def ErrorTimeout_def ErrorHTTP4xx_def ErrorHTTP5xx_def
  ErrorProtocol_def

definition ErrorClass_String :: "error_class \<Rightarrow> string" where
  "ErrorClass_String e =
     (if e = ErrorNone then ''none''
      else if e = ErrorNetwork then ''network''
      else if e = ErrorTimeout then ''timeout''
      else if e = ErrorHTTP4xx then ''http_4xx''
      else if e = ErrorHTTP5xx then ''http_5xx''
      else if e = ErrorProtocol then ''protocol''
      else ''unknown('' @ FormatInt 10 e @ '')'')"

definition ErrorClass_IsError :: "error_class \<Rightarrow> bool" where
  "ErrorClass_IsError e \<longleftrightarrow> e \<noteq> ErrorNone"

text \<open>The error of \<open>ParseErrorClass\<close> quotes the string.\<close>

definition ParseErrorClass :: "string \<Rightarrow> string + error_class" where
  "ParseErrorClass s =
     (if s = ''none'' then Inr ErrorNone
      else if s = ''network'' then Inr ErrorNetwork
      else if s = ''timeout'' then Inr ErrorTimeout
      else if s = ''http_4xx'' then Inr ErrorHTTP4xx
      else if s = ''http_5xx'' then Inr ErrorHTTP5xx
      else if s = ''protocol'' then Inr ErrorProtocol
      else Inl s)"

record observation =
  obProbeID :: probe_id
  obAt :: gotime
  obElapsedMS :: int
  obStatusCode :: int
  obErrorClass :: error_class
  obErrorMsg :: string

definition ErrMsgMaxLen :: nat where "ErrMsgMaxLen = 512"

datatype observation_error =
    ObsProbeIdEmpty
  | ObsTimeZero
  | ObsElapsedNegative int
  | ObsStatusRange int
  | ObsClassStatus error_class int

definition NewObservation ::
  "probe_id \<Rightarrow> gotime \<Rightarrow> int \<Rightarrow> int \<Rightarrow> error_class \<Rightarrow> string \<Rightarrow> observation_error + observation" where
  "NewObservation pid tm elapsedMS statusCode cls errMsg =
     (if pid = [] then Inl ObsProbeIdEmpty
      else if tm = 0 then Inl ObsTimeZero
      else if elapsedMS < 0 then Inl (ObsElapsedNegative elapsedMS)
      else if statusCode \<noteq> 0 \<and> (statusCode < 100 \<or> statusCode > 599)
      then Inl (ObsStatusRange statusCode)
      else if cls = ErrorHTTP4xx \<and> (statusCode < 400 \<or> statusCode \<ge> 500)
      then Inl (ObsClassStatus cls statusCode)
      else if cls = ErrorHTTP5xx \<and> (statusCode < 500 \<or> statusCode \<ge> 600)
      then Inl (ObsClassStatus cls statusCode)
      else if (cls = ErrorNetwork \<or> cls = ErrorTimeout) \<and> statusCode \<noteq> 0
      then Inl (ObsClassStatus cls statusCode)
      else Inr
        \<lparr>obProbeID = pid, obAt = tm, obElapsedMS = elapsedMS, obStatusCode = statusCode,
         obErrorClass = cls,
         obErrorMsg = (if length errMsg > ErrMsgMaxLen then take ErrMsgMaxLen errMsg else errMsg)\<rparr>)"

section \<open>Incidents (\<open>incident.go\<close>)\<close>

type_synonym incident_id = string
type_synonym incident_status = string

record breach =
  brMetric :: threshold_metric
  brThreshold :: float64
  brObserved :: float64
  brWindowSec :: int

datatype incident_error =
    BreachInvalidMetric threshold_metric
  | BreachNegative float64
  | BreachWindow
  | BreachNotExceeded float64 float64
  | IncIdEmpty
  | IncProbeIdEmpty
  | IncOpenedZero
  | IncBreach incident_error
  | IncAlreadyClosed
  | IncClosedZero
  | IncClosedBefore gotime gotime

definition Breach_Validate :: "breach \<Rightarrow> incident_error option" where
  "Breach_Validate b =
     (if \<not> ThresholdMetric_Valid (brMetric b) then Some (BreachInvalidMetric (brMetric b))
      else if f64_lt (brThreshold b) (Finite 0) then Some (BreachNegative (brThreshold b))
      else if brMetric b \<noteq> ThresholdConsecutiveFailures \<and> brWindowSec b \<le> 0 then Some BreachWindow
      else if f64_lt (brObserved b) (brThreshold b)
      then Some (BreachNotExceeded (brObserved b) (brThreshold b))
      else None)"

definition StatusOpen :: incident_status where "StatusOpen = ''open''"
definition StatusClosed :: incident_status where "StatusClosed = ''closed''"

record incident =
  incId :: incident_id
  incProbeID :: probe_id
  incOpenedAt :: gotime
  incClosedAt :: "gotime option"
  incBreach :: breach
  incEvidence :: "observation list"

definition NewIncident ::
  "incident_id \<Rightarrow> probe_id \<Rightarrow> gotime \<Rightarrow> breach \<Rightarrow> observation list \<Rightarrow> incident_error + incident" where
  "NewIncident i pid openedAt b evidence =
     (if i = [] then Inl IncIdEmpty
      else if pid = [] then Inl IncProbeIdEmpty
      else if openedAt = 0 then Inl IncOpenedZero
      else case Breach_Validate b of
        Some e \<Rightarrow> Inl (IncBreach e)
      | None \<Rightarrow> Inr
          \<lparr>incId = i, incProbeID = pid, incOpenedAt = openedAt, incClosedAt = None,
           incBreach = b, incEvidence = evidence\<rparr>)"

definition RehydrateIncident ::
  "incident_id \<Rightarrow> probe_id \<Rightarrow> gotime \<Rightarrow> gotime option \<Rightarrow> breach \<Rightarrow> observation list \<Rightarrow> incident" where
  "RehydrateIncident i pid openedAt closedAt b evidence =
     \<lparr>incId = i, incProbeID = pid, incOpenedAt = openedAt, incClosedAt = closedAt,
      incBreach = b, incEvidence = evidence\<rparr>"

definition Incident_Close :: "gotime \<Rightarrow> incident \<Rightarrow> incident_error + incident" where
  "Incident_Close tm i =
     (if incClosedAt i \<noteq> None then Inl IncAlreadyClosed
      else if tm = 0 then Inl IncClosedZero
      else if tm < incOpenedAt i then Inl (IncClosedBefore tm (incOpenedAt i))
      else Inr (i\<lparr>incClosedAt := Some tm\<rparr>))"

definition Incident_Status :: "incident \<Rightarrow> incident_status" where
  "Incident_Status i = (if incClosedAt i = None then StatusOpen else StatusClosed)"

text \<open>\<open>time.Time.Sub\<close> returns the maximal duration where the difference does not fit 64 bits.\<close>

definition timeSub :: "gotime \<Rightarrow> gotime \<Rightarrow> duration" where
  "timeSub t u = max (- (2 ^ 63)) (min (2 ^ 63 - 1) (t - u))"

definition Incident_Duration :: "gotime \<Rightarrow> incident \<Rightarrow> duration" where
  "Incident_Duration now i =
     (let upto = (case incClosedAt i of None \<Rightarrow> now | Some c \<Rightarrow> c) in
      if upto < incOpenedAt i then 0 else timeSub upto (incOpenedAt i))"

section \<open>Correctness of the constructors\<close>

lemma threshold_metric_distinct [simp]:
  "ThresholdLatencyP95Ms \<noteq> ThresholdLatencyP99Ms" "ThresholdLatencyP95Ms \<noteq> ThresholdErrorRatePct"
  "ThresholdLatencyP95Ms \<noteq> ThresholdConsecutiveFailures"
  "ThresholdLatencyP99Ms \<noteq> ThresholdLatencyP95Ms" "ThresholdLatencyP99Ms \<noteq> ThresholdErrorRatePct"
  "ThresholdLatencyP99Ms \<noteq> ThresholdConsecutiveFailures"
  "ThresholdErrorRatePct \<noteq> ThresholdLatencyP95Ms" "ThresholdErrorRatePct \<noteq> ThresholdLatencyP99Ms"
  "ThresholdErrorRatePct \<noteq> ThresholdConsecutiveFailures"
  "ThresholdConsecutiveFailures \<noteq> ThresholdLatencyP95Ms"
  "ThresholdConsecutiveFailures \<noteq> ThresholdLatencyP99Ms"
  "ThresholdConsecutiveFailures \<noteq> ThresholdErrorRatePct"
  by (simp_all add: threshold_metric_defs)

lemma ThresholdMetric_Valid_simps [simp]:
  "ThresholdMetric_Valid ThresholdLatencyP95Ms" "ThresholdMetric_Valid ThresholdLatencyP99Ms"
  "ThresholdMetric_Valid ThresholdErrorRatePct" "ThresholdMetric_Valid ThresholdConsecutiveFailures"
  by (simp_all add: ThresholdMetric_Valid_def)

text \<open>
  The textual form of an error class is read back: \<open>ParseErrorClass\<close> accepts exactly
  the strings that \<open>String\<close> gives to the six named classes, and returns the class that has the
  string; every other string is rejected instead of being taken for \<open>ErrorNone\<close>.
\<close>

theorem ErrorClass_roundtrip:
  "ParseErrorClass s = Inr c \<longleftrightarrow> 0 \<le> c \<and> c \<le> 5 \<and> ErrorClass_String c = s"
proof
  assume "ParseErrorClass s = Inr c"
  then show "0 \<le> c \<and> c \<le> 5 \<and> ErrorClass_String c = s"
    by (auto simp: ParseErrorClass_def ErrorClass_String_def error_class_defs split: if_splits)
next
  assume c: "0 \<le> c \<and> c \<le> 5 \<and> ErrorClass_String c = s"
  then have "c = 0 \<or> c = 1 \<or> c = 2 \<or> c = 3 \<or> c = 4 \<or> c = 5" by linarith
  then show "ParseErrorClass s = Inr c"
    using c by (auto simp: ParseErrorClass_def ErrorClass_String_def error_class_defs)
qed

lemma checkThresholds_None:
  "checkThresholds cvt i seen ths = None \<longleftrightarrow>
     list_all (\<lambda>th. Threshold_Validate cvt th = None) ths \<and> distinct (map thMetric ths) \<and>
     set (map thMetric ths) \<inter> set seen = {}"
  by (induction ths arbitrary: i seen) (auto split: option.splits)

text \<open>What a threshold that passes \<open>Validate\<close> is, metric by metric.\<close>

definition sound_threshold :: "threshold \<Rightarrow> bool" where
  "sound_threshold t \<longleftrightarrow>
     (thMetric t \<in> {ThresholdLatencyP95Ms, ThresholdLatencyP99Ms} \<and> 0 < thWindowSec t \<and>
        (f64_lt (Finite 0) (thValue t) \<or> thValue t = NaN)) \<or>
     (thMetric t = ThresholdErrorRatePct \<and> 0 < thWindowSec t \<and>
        (f64_le (Finite 0) (thValue t) \<and> f64_le (thValue t) (Finite 100) \<or> thValue t = NaN)) \<or>
     (thMetric t = ThresholdConsecutiveFailures \<and> f64_lt (Finite 0) (thValue t))"

lemma f64_trichotomy: "a = NaN \<or> b = NaN \<or> f64_lt a b \<or> f64_eq a b \<or> f64_lt b a"
  by (cases a; cases b) (auto simp: f64_eq_def)

lemma f64_lt_asym: "f64_lt a b \<Longrightarrow> \<not> f64_lt b a \<and> a \<noteq> b"
  by (cases a; cases b) auto

lemma Threshold_Validate_sound: "Threshold_Validate cvt t = None \<Longrightarrow> sound_threshold t"
  using f64_trichotomy [of "thValue t" "Finite 0"] f64_trichotomy [of "thValue t" "Finite 100"]
  by (auto simp: Threshold_Validate_def sound_threshold_def ThresholdMetric_Valid_def f64_le_def
      f64_eq_def Let_def split: if_splits)

text \<open>
  \<open>NewProbe\<close> accepts exactly a non-blank id, a valid target, a valid schedule and a
  non-empty list of valid thresholds on pairwise distinct metrics, and returns the probe with
  these parts.
\<close>

theorem NewProbe_accepts:
  "NewProbe parseURL cvt i target sched ths enabled = Inr p \<longleftrightarrow>
     TrimSpace i \<noteq> [] \<and> ProbeTarget_Validate parseURL target = None \<and>
     ProbeSchedule_Validate sched = None \<and> ths \<noteq> [] \<and>
     list_all (\<lambda>th. Threshold_Validate cvt th = None) ths \<and> distinct (map thMetric ths) \<and>
     p = RehydrateProbe i target sched ths enabled"
  using checkThresholds_None [of cvt 0 "[]" ths]
  by (auto simp: NewProbe_def RehydrateProbe_def split: option.splits if_splits)

text \<open>What the constructor of observations accepts, and what it builds.\<close>

definition consistent_status :: "error_class \<Rightarrow> int \<Rightarrow> bool" where
  "consistent_status cls sc \<longleftrightarrow>
     \<not> (sc \<noteq> 0 \<and> (sc < 100 \<or> sc > 599)) \<and>
     \<not> (cls = ErrorHTTP4xx \<and> (sc < 400 \<or> sc \<ge> 500)) \<and>
     \<not> (cls = ErrorHTTP5xx \<and> (sc < 500 \<or> sc \<ge> 600)) \<and>
     \<not> ((cls = ErrorNetwork \<or> cls = ErrorTimeout) \<and> sc \<noteq> 0)"

lemma if_Inl_Inr: "(if b then Inl e else r) = Inr x \<longleftrightarrow> \<not> b \<and> r = Inr x"
  by simp

lemma NewObservation_Inr:
  "NewObservation pid tm e sc cls msg = Inr ob \<longleftrightarrow>
     pid \<noteq> [] \<and> tm \<noteq> 0 \<and> 0 \<le> e \<and> consistent_status cls sc \<and>
     ob = \<lparr>obProbeID = pid, obAt = tm, obElapsedMS = e, obStatusCode = sc, obErrorClass = cls,
           obErrorMsg = take ErrMsgMaxLen msg\<rparr>"
proof -
  have "(if length msg > ErrMsgMaxLen then take ErrMsgMaxLen msg else msg) = take ErrMsgMaxLen msg"
    by simp
  then show ?thesis
    unfolding NewObservation_def consistent_status_def if_Inl_Inr sum.inject by auto
qed

section \<open>The life cycle of an incident\<close>

inductive incident_step :: "incident \<Rightarrow> incident \<Rightarrow> bool" where
  close: "Incident_Close tm i = Inr j \<Longrightarrow> incident_step i j"

inductive_cases incident_stepE [elim!]: "incident_step i j"

lemma Incident_Close_Inr:
  "Incident_Close tm i = Inr j \<longleftrightarrow>
     incClosedAt i = None \<and> tm \<noteq> 0 \<and> incOpenedAt i \<le> tm \<and> j = i\<lparr>incClosedAt := Some tm\<rparr>"
  by (auto simp: Incident_Close_def)

lemma NewIncident_Inr:
  "NewIncident i pid opened b ev = Inr x \<longleftrightarrow>
     i \<noteq> [] \<and> pid \<noteq> [] \<and> opened \<noteq> 0 \<and> Breach_Validate b = None \<and>
     x = RehydrateIncident i pid opened None b ev"
  by (auto simp: NewIncident_def RehydrateIncident_def split: option.splits)

lemma incident_steps:
  "incident_step\<^sup>*\<^sup>* i j \<Longrightarrow> incClosedAt i = None \<Longrightarrow>
     j = i \<or> (\<exists>tm. tm \<noteq> 0 \<and> incOpenedAt i \<le> tm \<and> j = i\<lparr>incClosedAt := Some tm\<rparr>)"
  by (induction rule: rtranclp_induct) (auto simp: Incident_Close_Inr)

text \<open>
  An incident is opened by a breach whose measured value is not below the threshold,
  and is closed at most once: whatever is called on it later, it is either still the incident that
  was opened or that incident with one closing time, not before the opening, and then every
  further \<open>Close\<close> is refused.
\<close>

theorem incident_lifecycle:
  assumes "NewIncident i pid opened b ev = Inr x" and "incident_step\<^sup>*\<^sup>* x y"
  shows "\<not> f64_lt (brObserved b) (brThreshold b) \<and>
    (y = x \<and> Incident_Status y = StatusOpen \<or>
     (\<exists>tm. opened \<le> tm \<and> y = x\<lparr>incClosedAt := Some tm\<rparr> \<and> Incident_Status y = StatusClosed \<and>
       (\<forall>t. Incident_Close t y = Inl IncAlreadyClosed)))"
proof (rule conjI)
  have x: "x = RehydrateIncident i pid opened None b ev" "Breach_Validate b = None"
    using assms(1) by (simp_all add: NewIncident_Inr)
  then show "\<not> f64_lt (brObserved b) (brThreshold b)"
    by (auto simp: Breach_Validate_def split: if_splits)
  show "y = x \<and> Incident_Status y = StatusOpen \<or>
     (\<exists>tm. opened \<le> tm \<and> y = x\<lparr>incClosedAt := Some tm\<rparr> \<and> Incident_Status y = StatusClosed \<and>
       (\<forall>t. Incident_Close t y = Inl IncAlreadyClosed))"
    using incident_steps [OF assms(2)]
    by (auto simp: x(1) RehydrateIncident_def Incident_Status_def Incident_Close_def)
qed

theorem incident_lifecycle_witness:
  "let b = \<lparr>brMetric = ThresholdErrorRatePct, brThreshold = Finite 50, brObserved = Finite 75,
            brWindowSec = 60\<rparr>;
       x = RehydrateIncident ''inc-1'' ''p'' 10 None b []
   in \<not> f64_lt (brObserved b) (brThreshold b) \<and>
      NewIncident ''inc-1'' ''p'' 10 b [] = Inr x \<and> Incident_Close 5 x = Inl (IncClosedBefore 5 10) \<and>
      incident_step\<^sup>*\<^sup>* x (x\<lparr>incClosedAt := Some 12\<rparr>) \<and>
      Incident_Close 13 (x\<lparr>incClosedAt := Some 12\<rparr>) = Inl IncAlreadyClosed"
proof -
  define b where "b = \<lparr>brMetric = ThresholdErrorRatePct, brThreshold = Finite 50,
    brObserved = Finite 75, brWindowSec = 60\<rparr>"
  define x where "x = RehydrateIncident ''inc-1'' ''p'' 10 None b []"
  have new: "NewIncident ''inc-1'' ''p'' 10 b [] = Inr x"
    by (simp add: NewIncident_Inr x_def Breach_Validate_def b_def)
  have "Incident_Close 12 x = Inr (x\<lparr>incClosedAt := Some 12\<rparr>)"
    by (simp add: Incident_Close_Inr x_def RehydrateIncident_def)
  then have step: "incident_step\<^sup>*\<^sup>* x (x\<lparr>incClosedAt := Some 12\<rparr>)"
    by (intro r_into_rtranclp incident_step.intros)
  moreover have "Incident_Close 13 (x\<lparr>incClosedAt := Some 12\<rparr>) = Inl IncAlreadyClosed"
    using incident_lifecycle [OF new step] by (auto simp: x_def RehydrateIncident_def)
  moreover have "Incident_Close 5 x = Inl (IncClosedBefore 5 10)"
    by (simp add: Incident_Close_def x_def RehydrateIncident_def)
  ultimately show ?thesis
    using new incident_lifecycle [OF new step] unfolding Let_def b_def x_def by blast
qed

end
