(* ===== verification/ProbeApp.thy ===== *)
theory ProbeApp
  imports Probe "HOL-Library.State_Monad" "HOL-Library.Monad_Syntax"
begin

text \<open>
  The probe use cases, \<open>internal/application/probe\<close>: the ports (\<open>ports.go\<close>), one probe call
  (\<open>run_probe.go\<close>), the evaluation of a probe's thresholds over a window of observations
  (\<open>evaluate_window.go\<close>) and the queries (\<open>query.go\<close>). A port is a record of computations over a
  world of arbitrary type. \<open>sort.Slice\<close> is not stable, so the order it gives observations with
  one timestamp is open: \<open>srt\<close> is the sorting by time, of which the properties assume only that
  it permutes and sorts.
\<close>

section \<open>Errors and ports (\<open>errors.go\<close>, \<open>ports.go\<close>)\<close>

datatype probe_app_error =
    ErrProbeNotFound
  | ErrIncidentNotFound
  | ErrProbeDisabled
  | ErrInvalidProbe
  | ErrObservation observation_error
  | ErrIncident incident_error
  | ErrStore string
  | WrapProbe string probe_app_error

record probe_filter =
  pfEnabledOnly :: bool
  pfLimit :: int
  pfOffset :: int

record incident_filter =
  ifProbeID :: "probe_id option"
  ifStatus :: "incident_status option"
  ifOpenedFrom :: "gotime option"
  ifOpenedTo :: "gotime option"
  ifLimit :: int
  ifOffset :: int

record probe_result =
  prElapsedMS :: int
  prStatusCode :: int
  prErrorClass :: error_class
  prErrorMsg :: string

record 'w probe_repository =
  ProbeRepo_Save :: "probe \<Rightarrow> ('w, probe_app_error option) state"
  ProbeRepo_FindByID :: "probe_id \<Rightarrow> ('w, probe_app_error + probe) state"
  ProbeRepo_List :: "probe_filter \<Rightarrow> ('w, probe_app_error + probe list \<times> int) state"
  ProbeRepo_Delete :: "probe_id \<Rightarrow> ('w, probe_app_error option) state"

record 'w observation_repository =
  ObsRepo_Save :: "observation \<Rightarrow> ('w, probe_app_error option) state"
  ObsRepo_SaveBatch :: "observation list \<Rightarrow> ('w, probe_app_error option) state"
  ObsRepo_ListWindow ::
    "probe_id \<Rightarrow> gotime \<Rightarrow> gotime \<Rightarrow> ('w, probe_app_error + observation list) state"
  ObsRepo_PruneBefore :: "gotime \<Rightarrow> ('w, probe_app_error + int) state"

record 'w incident_repository =
  IncRepo_Save :: "incident \<Rightarrow> ('w, probe_app_error option) state"
  IncRepo_FindOpen ::
    "probe_id \<Rightarrow> threshold_metric \<Rightarrow> ('w, probe_app_error + incident option) state"
  IncRepo_List :: "incident_filter \<Rightarrow> ('w, probe_app_error + incident list \<times> int) state"
  IncRepo_CloseAt :: "incident_id \<Rightarrow> gotime \<Rightarrow> ('w, probe_app_error option) state"

type_synonym 'w http_prober = "probe_target \<Rightarrow> duration \<Rightarrow> ('w, probe_result) state"

section \<open>One probe call (\<open>run_probe.go\<close>)\<close>

definition DefaultProbeTimeout :: duration where "DefaultProbeTimeout = 10 * second"

record 'w run_probe =
  rpProbes :: "'w probe_repository"
  rpObservations :: "'w observation_repository"
  rpProber :: "'w http_prober"
  rpClock :: "('w, gotime) state"
  rpTimeout :: duration

text \<open>Like the source, a failed save still hands the observation to the caller: the result is the
  pair of the observation (\<open>None\<close> for the zero value) and the error.\<close>

definition RunProbe_Execute ::
  "'w run_probe \<Rightarrow> probe_id \<Rightarrow> ('w, observation option \<times> probe_app_error option) state" where
  "RunProbe_Execute uc i =
     do {
       found \<leftarrow> ProbeRepo_FindByID (rpProbes uc) i;
       (case found of
          Inl err \<Rightarrow> State_Monad.return (None, Some err)
        | Inr p \<Rightarrow>
            if \<not> probeEnabled p then State_Monad.return (None, Some ErrProbeDisabled)
            else do {
              result \<leftarrow> rpProber uc (probeTarget p)
                (if rpTimeout uc = 0 then DefaultProbeTimeout else rpTimeout uc);
              now \<leftarrow> rpClock uc;
              (case NewObservation (probeId p) now (prElapsedMS result) (prStatusCode result)
                      (prErrorClass result) (prErrorMsg result) of
                 Inl e \<Rightarrow> State_Monad.return
                   (None, Some (WrapProbe ''probeapp: build observation: '' (ErrObservation e)))
               | Inr obs \<Rightarrow>
                   do {
                     saved \<leftarrow> ObsRepo_Save (rpObservations uc) obs;
                     State_Monad.return
                       (Some obs, map_option (WrapProbe ''probeapp: save observation: '') saved)
                   })
            })
     }"

section \<open>Metrics over a window (\<open>evaluate_window.go\<close>)\<close>

definition percentileMS ::
  "(float64 \<Rightarrow> int) \<Rightarrow> observation list \<Rightarrow> float64 \<Rightarrow> float64 option" where
  "percentileMS cvt obs p =
     (if length obs = 0 then None
      else let xs = sort (map obElapsedMS obs);
               rank = f64_toInt cvt (f64_ceil (f64_mul p (f64_ofInt (int (length xs)))));
               rank = (if rank < 1 then 1 else rank);
               rank = (if rank > int (length xs) then int (length xs) else rank)
           in Some (f64_ofInt (xs ! nat (rank - 1))))"

definition errorRatePct :: "observation list \<Rightarrow> float64 option" where
  "errorRatePct obs =
     (if length obs = 0 then None
      else let errs = foldl (\<lambda>n ob. if ErrorClass_IsError (obErrorClass ob) then n + 1 else n) 0 obs
           in Some (f64_mul (f64_div (f64_ofInt errs) (f64_ofInt (int (length obs)))) (Finite 100)))"

text \<open>The backwards loop: the run length of errors at the end of the sorted slice.\<close>

fun trailingErrors :: "int \<Rightarrow> observation list \<Rightarrow> int" where
  "trailingErrors cnt [] = cnt"
| "trailingErrors cnt (ob # obs) =
     (if \<not> ErrorClass_IsError (obErrorClass ob) then cnt else trailingErrors (cnt + 1) obs)"

definition consecutiveFailures ::
  "(observation list \<Rightarrow> observation list) \<Rightarrow> observation list \<Rightarrow> int \<Rightarrow> float64 option" where
  "consecutiveFailures srt obs n =
     (if n \<le> 0 then None
      else if int (length obs) < n then None
      else Some (f64_ofInt (trailingErrors 0 (rev (srt obs)))))"

definition computeMetric ::
  "(float64 \<Rightarrow> int) \<Rightarrow> (observation list \<Rightarrow> observation list) \<Rightarrow> threshold_metric \<Rightarrow> int
   \<Rightarrow> observation list \<Rightarrow> float64 option" where
  "computeMetric cvt srt metric n obs =
     (if metric = ThresholdLatencyP95Ms then percentileMS cvt obs (f64 (95 / 100))
      else if metric = ThresholdLatencyP99Ms then percentileMS cvt obs (f64 (99 / 100))
      else if metric = ThresholdErrorRatePct then errorRatePct obs
      else if metric = ThresholdConsecutiveFailures then consecutiveFailures srt obs n
      else None)"

definition truncateObservations ::
  "(observation list \<Rightarrow> observation list) \<Rightarrow> observation list \<Rightarrow> int \<Rightarrow> observation list" where
  "truncateObservations srt obs mx =
     (if mx \<le> 0 \<or> int (length obs) \<le> mx then obs
      else let sorted = srt obs in drop (length sorted - nat mx) sorted)"

section \<open>Evaluation (\<open>evaluate_window.go\<close>)\<close>

definition DefaultEvidenceMax :: int where "DefaultEvidenceMax = 20"

record 'w evaluate_window =
  ewProbes :: "'w probe_repository"
  ewObservations :: "'w observation_repository"
  ewIncidents :: "'w incident_repository"
  ewIDGen :: "('w, incident_id) state"
  ewClock :: "('w, gotime) state"
  ewEvidenceMax :: int

definition evidenceMax :: "'w evaluate_window \<Rightarrow> int" where
  "evidenceMax uc = (if ewEvidenceMax uc > 0 then ewEvidenceMax uc else DefaultEvidenceMax)"

definition windowStart :: "(float64 \<Rightarrow> int) \<Rightarrow> threshold \<Rightarrow> gotime \<Rightarrow> gotime" where
  "windowStart cvt th now =
     (let since = now + wrap64 (wrap64 (- thWindowSec th) * second) in
      if thMetric th = ThresholdConsecutiveFailures then
        (let since' = now + wrap64 (wrap64 (- wrap64 (f64_toInt cvt (thValue th) * 10)) * second) in
         if thWindowSec th > 0 then now + wrap64 (wrap64 (- thWindowSec th) * second) else since')
      else since)"

text \<open>The last part of \<open>evaluateThreshold\<close>: the switch on the outcome and the open incident.\<close>

definition transition ::
  "(observation list \<Rightarrow> observation list) \<Rightarrow> 'w evaluate_window \<Rightarrow> probe_id \<Rightarrow> threshold \<Rightarrow> gotime
   \<Rightarrow> observation list \<Rightarrow> float64 \<Rightarrow> incident option \<Rightarrow> ('w, probe_app_error option) state" where
  "transition srt uc pid th now obs observed open_inc =
     (let tripped = f64_le (thValue th) observed in
      case open_inc of
        None \<Rightarrow>
          if tripped then
            do {
              i \<leftarrow> ewIDGen uc;
              (case NewIncident i pid now
                      \<lparr>brMetric = thMetric th, brThreshold = thValue th, brObserved = observed,
                       brWindowSec = thWindowSec th\<rparr>
                      (truncateObservations srt obs (evidenceMax uc)) of
                 Inl e \<Rightarrow> State_Monad.return (Some (WrapProbe ''build incident: '' (ErrIncident e)))
               | Inr inc \<Rightarrow> IncRepo_Save (ewIncidents uc) inc)
            }
          else State_Monad.return None
      | Some inc \<Rightarrow>
          if \<not> tripped then IncRepo_CloseAt (ewIncidents uc) (incId inc) now
          else State_Monad.return None)"

definition evaluateThreshold ::
  "(float64 \<Rightarrow> int) \<Rightarrow> (observation list \<Rightarrow> observation list) \<Rightarrow> 'w evaluate_window \<Rightarrow> probe_id
   \<Rightarrow> threshold \<Rightarrow> gotime \<Rightarrow> ('w, probe_app_error option) state" where
  "evaluateThreshold cvt srt uc pid th now =
     do {
       got \<leftarrow> ObsRepo_ListWindow (ewObservations uc) pid (windowStart cvt th now) now;
       (case got of
          Inl err \<Rightarrow> State_Monad.return (Some err)
        | Inr obs \<Rightarrow>
            (case computeMetric cvt srt (thMetric th) (f64_toInt cvt (thValue th)) obs of
               None \<Rightarrow> State_Monad.return None
             | Some observed \<Rightarrow>
                 do {
                   found \<leftarrow> IncRepo_FindOpen (ewIncidents uc) pid (thMetric th);
                   (case found of
                      Inl err \<Rightarrow> State_Monad.return (Some err)
                    | Inr open_inc \<Rightarrow> transition srt uc pid th now obs observed open_inc)
                 }))
     }"

text \<open>The loop of \<open>Execute\<close> over the probe's thresholds.\<close>

fun evaluateAll ::
  "(float64 \<Rightarrow> int) \<Rightarrow> (observation list \<Rightarrow> observation list) \<Rightarrow> 'w evaluate_window \<Rightarrow> probe_id
   \<Rightarrow> gotime \<Rightarrow> threshold list \<Rightarrow> ('w, probe_app_error option) state" where
  "evaluateAll cvt srt uc pid now [] = State_Monad.return None"
| "evaluateAll cvt srt uc pid now (th # ths) =
     do {
       err \<leftarrow> evaluateThreshold cvt srt uc pid th now;
       (case err of
          Some e \<Rightarrow> State_Monad.return (Some (WrapProbe (''probeapp: evaluate '' @ thMetric th @ '': '') e))
        | None \<Rightarrow> evaluateAll cvt srt uc pid now ths)
     }"

definition EvaluateWindow_Execute ::
  "(float64 \<Rightarrow> int) \<Rightarrow> (observation list \<Rightarrow> observation list) \<Rightarrow> 'w evaluate_window \<Rightarrow> probe_id
   \<Rightarrow> ('w, probe_app_error option) state" where
  "EvaluateWindow_Execute cvt srt uc i =
     do {
       found \<leftarrow> ProbeRepo_FindByID (ewProbes uc) i;
       (case found of
          Inl err \<Rightarrow> State_Monad.return (Some err)
        | Inr p \<Rightarrow>
            do {
              now \<leftarrow> ewClock uc;
              evaluateAll cvt srt uc (probeId p) now (probeThresholds p)
            })
     }"

section \<open>Queries (\<open>query.go\<close>)\<close>

definition QueryProbes_Get ::
  "'w probe_repository \<Rightarrow> probe_id \<Rightarrow> ('w, probe_app_error + probe) state" where
  "QueryProbes_Get probes i = ProbeRepo_FindByID probes i"

definition QueryProbes_List ::
  "'w probe_repository \<Rightarrow> probe_filter \<Rightarrow> ('w, probe_app_error + probe list \<times> int) state" where
  "QueryProbes_List probes f = ProbeRepo_List probes f"

definition QueryIncidents_List ::
  "'w incident_repository \<Rightarrow> incident_filter \<Rightarrow> ('w, probe_app_error + incident list \<times> int) state" where
  "QueryIncidents_List incs f = IncRepo_List incs f"

end
