(* ===== verification/ProbeMetrics.thy ===== *)
theory ProbeMetrics
  imports ProbeApp
begin

text \<open>
  What the window metrics of \<open>evaluate_window.go\<close> compute, down to the rounding of \<open>float64\<close>: the
  latency percentile is the nearest-rank percentile, the error rate is the true rate up to a
  rounding error that never moves it across 0 or 100, and the failure count trips exactly when the
  most recent observations all failed. The bound of \<open>2 ^ 40\<close> observations in a window (more than
  any window of the service can hold in memory) is what keeps the roundings from mattering.
\<close>

section \<open>The rank of a percentile\<close>

lemma f64_percent_literals:
  "f64 (95 / 100) = Finite (8556839292003942 / 2 ^ 53)"
  "f64 (99 / 100) = Finite (8917127262193582 / 2 ^ 53)"
proof -
  have e: "ulpExp (19 / 20) = - 53" "ulpExp (99 / 100) = - 53"
    using expo_eq [of "- 1" "19 / 20"] expo_eq [of "- 1" "99 / 100"]
    by (simp_all add: ulpExp_def power_int_minus)
  have "roundEven (19 / 20 / 2 powi (- 53)) = 8556839292003942"
    "roundEven (99 / 100 / 2 powi (- 53)) = 8917127262193582"
    by (rule roundEven_unique, simp add: power_int_minus)+
  then have "roundRat (19 / 20) = 8556839292003942 / 2 ^ 53"
    "roundRat (99 / 100) = 8917127262193582 / 2 ^ 53"
    by (simp_all only: roundRat_def e) (simp_all add: power_int_minus)
  then show "f64 (95 / 100) = Finite (8556839292003942 / 2 ^ 53)"
    "f64 (99 / 100) = Finite (8917127262193582 / 2 ^ 53)"
    by (simp_all add: f64_def)
qed

text \<open>The percentiles as the source writes them, with what their binary values satisfy.\<close>

definition near_percent :: "int \<Rightarrow> rat \<Rightarrow> bool" where
  "near_percent c p \<longleftrightarrow> 0 < c \<and> c < 100 \<and> p \<le> of_int c / 100 \<and> of_int c / 100 - 1 / 2 ^ 53 \<le> p"

lemma percent_literals_near:
  "near_percent 95 (8556839292003942 / 2 ^ 53)" "near_percent 99 (8917127262193582 / 2 ^ 53)"
  by (simp_all add: near_percent_def)

lemma rank_exact:
  assumes "near_percent c p" and "0 < n" and "n < 2 ^ 40"
  shows "f64_toInt cvt (f64_ceil (f64_mul (Finite p) (f64_ofInt n))) = \<lceil>of_int (c * n) / (100 :: rat)\<rceil>"
proof -
  define q :: rat where "q = of_int (c * n) / 100"
  define x :: rat where "x = p * of_int n"
  define k where "k = \<lceil>q\<rceil>"
  have n: "(0 :: rat) < of_int n" "of_int n < (2 ^ 40 :: rat)"
    using assms(2) of_int_less_iff [of n "2 ^ 40", where 'a = rat] assms(3)
    by (simp_all only: of_int_0_less_iff of_int_power of_int_numeral)
  have c: "(1 :: rat) \<le> of_int c" "of_int c < (100 :: rat)" "p \<le> of_int c / 100"
    "of_int c / 100 - 1 / 2 ^ 53 \<le> p" and c0: "0 < c" "c < 100"
    using assms(1) by (auto simp: near_percent_def)
  have xq: "x \<le> q" "q - of_int n / 2 ^ 53 \<le> x"
    using mult_right_mono [OF c(3), of "of_int n"] mult_right_mono [OF c(4), of "of_int n"] n
    by (simp_all add: q_def x_def field_simps)
  have p: "1 / 200 \<le> p" using c by simp
  then have x: "1 / 200 \<le> x" using mult_mono [of "1 / 200" p 1 "of_int n"] assms(2) by (simp add: x_def)
  have "q < of_int n" using c n by (simp add: q_def field_simps)
  then have kn: "k \<le> n" by (simp add: k_def ceiling_le_iff)
  have qk: "q \<le> of_int k" "of_int k < q + 1" unfolding k_def by (simp_all add: ceiling_correct, linarith)
  have "of_int (100 * (k - 1)) < (of_int (c * n) :: rat)" using qk by (simp add: q_def)
  then have "100 * (k - 1) < c * n" by (simp only: of_int_less_iff)
  then have "100 * (k - 1) + 1 \<le> c * n" by simp
  then have "of_int (100 * (k - 1) + 1) \<le> (of_int (c * n) :: rat)" by (simp only: of_int_le_iff)
  then have qlo: "of_int k - 1 + 1 / 100 \<le> q" by (simp add: q_def)
  have hi: "roundRat x \<le> of_int k"
    using xq qk x kn assms by (intro roundRat_le_int) auto
  have "(2 :: rat) powi (- 1022) \<le> 2 powi (- 10)" by (intro power_int_increasing) auto
  then have "2 powi (- 1022) \<le> \<bar>x\<bar>" using x by (simp add: power_int_minus)
  then have "x - x / 2 ^ 53 \<le> roundRat x" using roundRat_error [of x] x by (simp add: abs_if split: if_splits)
  moreover have "x / 2 ^ 53 \<le> 1 / 2 ^ 13" "of_int n / 2 ^ 53 \<le> (1 / 2 ^ 13 :: rat)"
    using xq \<open>q < of_int n\<close> n by simp_all
  ultimately have lo: "of_int k - 1 < roundRat x" using xq qlo by simp
  have ceil: "\<lceil>roundRat x\<rceil> = k" using hi lo by (simp add: ceiling_eq_iff)
  have "(of_int k :: rat) < 2 ^ 40" using kn n by (meson le_less_trans of_int_le_iff)
  then have fin: "\<bar>roundRat x\<bar> < 2 ^ 1024"
    using hi roundRat_nonneg [of x] x by (simp add: abs_if)
  have "1 \<le> k" using qk c n by (smt (verit) c0 assms(2) of_int_less_iff q_def divide_pos_pos mult_pos_pos of_int_0_less_iff zero_less_numeral of_int_0 less_le_trans)
  have "f64_ceil (f64_mul (Finite p) (f64_ofInt n)) = Finite (of_int k)"
    using assms fin by (simp add: f64_ofInt_exact f64_finite ceil flip: x_def)
  moreover have "f64_toInt cvt (Finite (of_int k)) = k"
    using kn \<open>1 \<le> k\<close> assms(3) by (simp add: f64_toInt_def truncRat_def)
  ultimately show ?thesis by (simp only: k_def q_def)
qed

section \<open>The nearest-rank percentile\<close>

lemma sorted_filter_le_nth:
  assumes "sorted xs" and "r < length xs"
  shows "Suc r \<le> length (filter (\<lambda>x. x \<le> xs ! r) xs)"
proof -
  have "filter (\<lambda>x. x \<le> xs ! r) (take (Suc r) xs) = take (Suc r) xs"
    using assms by (auto simp: filter_id_conv in_set_conv_nth less_Suc_eq_le intro!: sorted_nth_mono)
  then have "length (filter (\<lambda>x. x \<le> xs ! r) (take (Suc r) xs)) = Suc r" using assms(2) by simp
  moreover have "length (filter P (take (Suc r) xs)) \<le> length (filter P xs)" for P
    by (metis append_take_drop_id filter_append le_add1 length_append)
  ultimately show ?thesis by metis
qed

lemma sorted_filter_less_nth:
  assumes "sorted xs" and "r < length xs" and "y < xs ! r"
  shows "length (filter (\<lambda>x. x \<le> y) xs) \<le> r"
proof -
  have "xs ! r \<le> x" if "x \<in> set (drop r xs)" for x
    using that assms by (auto simp: in_set_conv_nth intro!: sorted_nth_mono)
  then have "filter (\<lambda>x. x \<le> y) (drop r xs) = []"
    using assms(3) by (force simp: filter_empty_conv)
  then have "length (filter (\<lambda>x. x \<le> y) xs) = length (filter (\<lambda>x. x \<le> y) (take r xs))"
    by (metis append_Nil2 append_take_drop_id filter_append)
  also have "\<dots> \<le> length (take r xs)" by (rule length_filter_le)
  finally show ?thesis by simp
qed

lemma filter_sort_length: "length (filter P (sort xs)) = length (filter P xs)"
  by (metis mset_filter mset_sort size_mset)

text \<open>How many observations of a window took at most \<open>e\<close> milliseconds.\<close>

definition countWithin :: "observation list \<Rightarrow> int \<Rightarrow> int" where
  "countWithin obs e = int (length (filter (\<lambda>ob. obElapsedMS ob \<le> e) obs))"

lemma countWithin_sort: "countWithin obs e = int (length (filter (\<lambda>x. x \<le> e) (sort (map obElapsedMS obs))))"
  by (simp add: countWithin_def filter_sort_length filter_map comp_def)

lemma percentileMS_nearest_rank:
  assumes "near_percent c p" and "obs \<noteq> []" and "int (length obs) < 2 ^ 40"
  shows "\<exists>e \<in> obElapsedMS ` set obs. percentileMS cvt obs (Finite p) = Some (f64_ofInt e) \<and>
           c * int (length obs) \<le> 100 * countWithin obs e \<and>
           (\<forall>e' < e. 100 * countWithin obs e' < c * int (length obs))"
proof -
  define n xs k where "n = int (length obs)" and "xs = sort (map obElapsedMS obs)"
    and "k = \<lceil>of_int (c * n) / (100 :: rat)\<rceil>"
  have n: "0 < n" "n < 2 ^ 40" and len: "int (length xs) = n" using assms by (simp_all add: n_def xs_def)
  have c: "0 < c" "c < 100" using assms(1) by (simp_all add: near_percent_def)
  have "of_int (c * n) / 100 \<le> (of_int k :: rat)" "of_int k < (of_int (c * n) / 100 + 1 :: rat)"
    using ceiling_correct [of "of_int (c * n) / 100 :: rat"] unfolding k_def by linarith+
  then have "(of_int (c * n) :: rat) \<le> of_int (100 * k)" "(of_int (100 * k) :: rat) < of_int (c * n + 100)"
    by simp_all
  then have k: "c * n \<le> 100 * k" "100 * k < c * n + 100"
    by (simp_all only: of_int_le_iff of_int_less_iff)
  have "0 < c * n" "c * n < 100 * n" using c n by simp_all
  then have kb: "1 \<le> k" "k \<le> n" using k by linarith+
  define r where "r = nat (k - 1)"
  have r: "r < length xs" "int (Suc r) = k" using kb len by (simp_all add: r_def)
  have rank: "f64_toInt cvt (f64_ceil (f64_mul (Finite p) (f64_ofInt n))) = k"
    unfolding k_def by (rule rank_exact [OF assms(1) n])
  have "percentileMS cvt obs (Finite p) = Some (f64_ofInt (xs ! r))"
    using assms(2) kb rank len unfolding percentileMS_def xs_def [symmetric] Let_def len
    by (simp add: r_def n_def)
  moreover have "xs ! r \<in> obElapsedMS ` set obs"
    using nth_mem [OF r(1)] by (simp add: xs_def)
  moreover have "c * n \<le> 100 * countWithin obs (xs ! r)"
    using sorted_filter_le_nth [of xs r] r k by (simp add: countWithin_sort xs_def)
  moreover have "\<forall>e' < xs ! r. 100 * countWithin obs e' < c * n"
    using sorted_filter_less_nth [of xs r] r k by (fastforce simp: countWithin_sort xs_def)
  ultimately show ?thesis unfolding n_def by blast
qed

text \<open>
  Property C35. The latency metrics are nearest-rank percentiles: on a non-empty window the metric
  \<open>latency_p95_ms\<close> (\<open>latency_p99_ms\<close>) is the latency of one of the observations, at least 95 (99)
  percent of the observations took no longer, and no smaller latency has this property. The
  \<open>float64\<close> product \<open>p * n\<close> and its \<open>Ceil\<close> always give the exact rank.
\<close>

theorem latency_percentile:
  assumes "(m, c) \<in> {(ThresholdLatencyP95Ms, 95), (ThresholdLatencyP99Ms, 99)}"
    and "obs \<noteq> []" and "int (length obs) < 2 ^ 40"
  shows "\<exists>e \<in> obElapsedMS ` set obs. computeMetric cvt srt m k obs = Some (f64_ofInt e) \<and>
           c * int (length obs) \<le> 100 * countWithin obs e \<and>
           (\<forall>e' < e. 100 * countWithin obs e' < c * int (length obs))"
proof -
  have m: "computeMetric cvt srt ThresholdLatencyP95Ms k obs =
      percentileMS cvt obs (Finite (8556839292003942 / 2 ^ 53))"
    "computeMetric cvt srt ThresholdLatencyP99Ms k obs =
      percentileMS cvt obs (Finite (8917127262193582 / 2 ^ 53))"
    unfolding computeMetric_def f64_percent_literals by simp_all
  consider "m = ThresholdLatencyP95Ms" "c = 95" | "m = ThresholdLatencyP99Ms" "c = 99"
    using assms(1) by blast
  then show ?thesis
    by cases (simp_all only: m percentileMS_nearest_rank [OF percent_literals_near(1) assms(2,3)]
        percentileMS_nearest_rank [OF percent_literals_near(2) assms(2,3)])
qed

text \<open>Observations of a witness: one per latency, a failed call for each negative entry.\<close>

definition sampleObs :: "int \<Rightarrow> int \<Rightarrow> observation" where
  "sampleObs tm ms =
     \<lparr>obProbeID = ''p'', obAt = tm, obElapsedMS = \<bar>ms\<bar>, obStatusCode = (if ms < 0 then 0 else 200),
      obErrorClass = (if ms < 0 then ErrorNetwork else ErrorNone), obErrorMsg = []\<rparr>"

theorem latency_percentile_witness:
  "\<exists>e \<in> obElapsedMS ` set [sampleObs 1 30, sampleObs 2 10, sampleObs 3 20].
     computeMetric (\<lambda>_. 0) (sort_key obAt) ThresholdLatencyP95Ms 0
       [sampleObs 1 30, sampleObs 2 10, sampleObs 3 20] = Some (f64_ofInt e) \<and>
     95 * int (length [sampleObs 1 30, sampleObs 2 10, sampleObs 3 20])
       \<le> 100 * countWithin [sampleObs 1 30, sampleObs 2 10, sampleObs 3 20] e \<and>
     (\<forall>e' < e. 100 * countWithin [sampleObs 1 30, sampleObs 2 10, sampleObs 3 20] e'
       < 95 * int (length [sampleObs 1 30, sampleObs 2 10, sampleObs 3 20]))"
  by (rule latency_percentile) simp_all

section \<open>The error rate\<close>

definition failures :: "observation list \<Rightarrow> int" where
  "failures obs = int (length (filter (\<lambda>ob. ErrorClass_IsError (obErrorClass ob)) obs))"

lemma foldl_failures:
  "foldl (\<lambda>n ob. if ErrorClass_IsError (obErrorClass ob) then n + 1 else n) a obs = a + failures obs"
  by (induction obs arbitrary: a) (auto simp: failures_def)

lemma failures_le: "0 \<le> failures obs" "failures obs \<le> int (length obs)"
  by (simp_all add: failures_def)

lemma roundRat_normal:
  assumes "1 / 2 ^ 50 \<le> x"
  shows "x - x / 2 ^ 53 \<le> roundRat x" "roundRat x \<le> x + x / 2 ^ 53"
proof -
  have "(2 :: rat) powi (- 1022) \<le> 2 powi (- 50)" by (intro power_int_increasing) auto
  then have "2 powi (- 1022) \<le> \<bar>x\<bar>" using assms by (simp add: power_int_minus)
  then have "\<bar>roundRat x - x\<bar> \<le> x / 2 ^ 53" using roundRat_error [of x] assms by simp
  then show "x - x / 2 ^ 53 \<le> roundRat x" "roundRat x \<le> x + x / 2 ^ 53"
    unfolding abs_le_iff by linarith+
qed

lemma percent_rounding:
  fixes q :: rat
  assumes "1 / 2 ^ 40 \<le> q" and "q \<le> 1"
  shows "0 < roundRat (roundRat q * 100)" "roundRat (roundRat q * 100) \<le> 100"
    "\<bar>roundRat (roundRat q * 100) - 100 * q\<bar> \<le> 1 / 2 ^ 45"
    "0 \<le> roundRat q" "roundRat q \<le> 1"
proof -
  have p: "q - q / 2 ^ 53 \<le> roundRat q" "roundRat q \<le> q + q / 2 ^ 53"
    using roundRat_normal [of q] assms by simp_all
  show p1: "roundRat q \<le> 1" "0 \<le> roundRat q"
    using roundRat_le_int [of q 1] roundRat_nonneg [of q] assms by simp_all
  define w where "w = roundRat q * 100"
  have w: "1 / 2 ^ 40 \<le> w" "w \<le> 100" using p p1 assms by (simp_all add: w_def)
  then have v: "w - w / 2 ^ 53 \<le> roundRat w" "roundRat w \<le> w + w / 2 ^ 53"
    using roundRat_normal [of w] by simp_all
  show "0 < roundRat (roundRat q * 100)" using v w unfolding w_def [symmetric] by simp
  show "roundRat (roundRat q * 100) \<le> 100"
    using roundRat_le_int [of w 100] w unfolding w_def [symmetric] by simp
  show "\<bar>roundRat (roundRat q * 100) - 100 * q\<bar> \<le> 1 / 2 ^ 45"
    using v w p assms unfolding w_def [symmetric] abs_le_iff by (simp add: w_def)
qed

lemma errorRatePct_value:
  assumes "obs \<noteq> []" and "int (length obs) < 2 ^ 40"
  shows "errorRatePct obs =
    Some (Finite (roundRat (roundRat (of_int (failures obs) / of_int (int (length obs))) * 100)))"
proof -
  define k n where "k = failures obs" and "n = int (length obs)"
  define q :: rat where "q = of_int k / of_int n"
  have kn: "0 \<le> k" "k \<le> n" "0 < n" "n < 2 ^ 40"
    using failures_le [of obs] assms by (simp_all add: k_def n_def)
  then have q: "0 \<le> q" "q \<le> 1" by (simp_all add: q_def)
  have p: "0 \<le> roundRat q" "roundRat q \<le> 1"
    using roundRat_nonneg [of q] roundRat_le_int [of q 1] q by simp_all
  then have "0 \<le> roundRat (roundRat q * 100)" "roundRat (roundRat q * 100) \<le> 100"
    using roundRat_nonneg [of "roundRat q * 100"] roundRat_le_int [of "roundRat q * 100" 100] by simp_all
  moreover have "f64_ofInt k = Finite (of_int k)" "f64_ofInt n = Finite (of_int n)"
    using kn by (simp_all add: f64_ofInt_exact)
  ultimately show ?thesis
    using assms(1) kn p
    by (simp add: errorRatePct_def foldl_failures f64_finite q_def flip: k_def n_def)
qed

text \<open>
  The error rate of a non-empty window is a number between 0 and 100 within
  \<open>2 ^ -45\<close> of the true percentage, and the rounding of \<open>float64\<close> never hides a failure or a
  success: it is 0 exactly when no observation failed and 100 exactly when all of them did.
\<close>

theorem error_rate_bounds:
  assumes "obs \<noteq> []" and "int (length obs) < 2 ^ 40"
  shows "\<exists>v. computeMetric cvt srt ThresholdErrorRatePct k obs = Some (Finite v) \<and>
           0 \<le> v \<and> v \<le> 100 \<and>
           \<bar>v - 100 * of_int (failures obs) / of_int (int (length obs))\<bar> \<le> 1 / 2 ^ 45 \<and>
           (v = 0 \<longleftrightarrow> failures obs = 0) \<and> (v = 100 \<longleftrightarrow> failures obs = int (length obs))"
proof -
  define f n where "f = failures obs" and "n = int (length obs)"
  define q :: rat where "q = of_int f / of_int n"
  define v where "v = roundRat (roundRat q * 100)"
  have fn: "0 \<le> f" "f \<le> n" "0 < n" "n < 2 ^ 40"
    using failures_le [of obs] assms by (simp_all add: f_def n_def)
  have val: "computeMetric cvt srt ThresholdErrorRatePct k obs = Some (Finite v)"
    using errorRatePct_value [OF assms] by (simp add: computeMetric_def v_def q_def f_def n_def)
  consider "f = 0" | "f = n" | "0 < f" "f < n" using fn by linarith
  then have "0 \<le> v \<and> v \<le> 100 \<and> \<bar>v - 100 * q\<bar> \<le> 1 / 2 ^ 45 \<and> (v = 0 \<longleftrightarrow> f = 0) \<and> (v = 100 \<longleftrightarrow> f = n)"
  proof cases
    case 1 then show ?thesis using fn by (simp add: v_def q_def roundRat_def)
  next
    case 2
    then have "q = of_int 1" using fn by (simp add: q_def)
    then have "v = of_int 100" using roundRat_int [of 1] roundRat_int [of 100] by (simp add: v_def)
    then show ?thesis using 2 fn \<open>q = of_int 1\<close> by simp
  next
    case 3
    have n: "(of_int n :: rat) < of_int (2 ^ 40)" using fn(4) by (simp only: of_int_less_iff)
    have n0: "(0 :: rat) < of_int n" using fn by simp
    have "(1 :: rat) \<le> of_int f" "(of_int f :: rat) \<le> of_int n - 1"
      using 3 of_int_le_iff [of f "n - 1", where 'a = rat] by simp_all
    then have q: "1 / of_int n \<le> q" "q \<le> 1 - 1 / of_int n" using n0 by (simp_all add: q_def field_simps)
    have "1 / 2 ^ 40 \<le> (1 / of_int n :: rat)" using n n0 by (simp add: frac_le)
    then have b: "1 / 2 ^ 40 \<le> q" "q \<le> 1 - 1 / 2 ^ 40" using q by linarith+
    then have r: "0 < v" "v \<le> 100" "\<bar>v - 100 * q\<bar> \<le> 1 / 2 ^ 45"
      using percent_rounding [of q] by (simp_all add: v_def)
    then have "v < 100" using b(2) unfolding abs_le_iff by simp
    then show ?thesis using 3 r by simp
  qed
  then show ?thesis using val by (simp add: q_def f_def n_def)
qed

theorem error_rate_bounds_witness:
  "\<exists>v. computeMetric (\<lambda>_. 0) (sort_key obAt) ThresholdErrorRatePct 0 [sampleObs 1 5, sampleObs 2 (- 5), sampleObs 3 7]
       = Some (Finite v) \<and> 0 < v \<and> v < 100 \<and> \<bar>v - 100 / 3\<bar> \<le> 1 / 2 ^ 45"
proof -
  have f: "failures [sampleObs 1 5, sampleObs 2 (- 5), sampleObs 3 7] = 1"
    by (simp add: failures_def sampleObs_def ErrorClass_IsError_def error_class_defs)
  show ?thesis
    using error_rate_bounds [of "[sampleObs 1 5, sampleObs 2 (- 5), sampleObs 3 7]" "\<lambda>_. 0" "sort_key obAt" 0]
    by (auto simp: f)
qed

section \<open>Consecutive failures\<close>

lemma trailingErrors_takeWhile:
  "trailingErrors c obs =
     c + int (length (takeWhile (\<lambda>ob. ErrorClass_IsError (obErrorClass ob)) obs))"
  by (induction obs arbitrary: c) auto

lemma f64_le_Finite: "f64_le (Finite a) (Finite b) \<longleftrightarrow> a \<le> b"
  by (auto simp: f64_le_def f64_eq_def)

lemma takeWhile_length_ge:
  "n \<le> length xs \<Longrightarrow> n \<le> length (takeWhile P xs) \<longleftrightarrow> list_all P (take n xs)"
proof (induction xs arbitrary: n)
  case (Cons x xs)
  then show ?case by (cases n) auto
qed simp

text \<open>
  The consecutive-failures metric trips exactly when the most recent \<open>n\<close>
  observations all failed: with an integral threshold \<open>n\<close> and at least \<open>n\<close> observations, the
  measured value reaches the threshold if and only if the last \<open>n\<close> entries of the observations in
  order of time are errors. With fewer observations nothing is measured.
\<close>

theorem consecutive_failures_trip:
  assumes "mset (srt obs) = mset obs" and "sorted (map obAt (srt obs))"
    and "0 < n" and "int (length obs) < 2 ^ 53"
  shows "if int (length obs) < n
         then computeMetric cvt srt ThresholdConsecutiveFailures n obs = None
         else \<exists>v. computeMetric cvt srt ThresholdConsecutiveFailures n obs = Some v \<and>
           (f64_le (f64_ofInt n) v \<longleftrightarrow>
            list_all (\<lambda>ob. ErrorClass_IsError (obErrorClass ob)) (drop (length obs - nat n) (srt obs)))"
proof (cases "int (length obs) < n")
  case True then show ?thesis using assms(3) by (simp add: computeMetric_def consecutiveFailures_def)
next
  case False
  define c where "c = length (takeWhile (\<lambda>ob. ErrorClass_IsError (obErrorClass ob)) (rev (srt obs)))"
  have len: "length (srt obs) = length obs" using assms(1) by (metis size_mset)
  have "c \<le> length obs" unfolding c_def using length_takeWhile_le [of _ "rev (srt obs)"] len by simp
  then have ex: "f64_ofInt (int c) = Finite (of_int (int c))" "f64_ofInt n = Finite (of_int n)"
    using assms(3,4) False by (simp_all add: f64_ofInt_exact)
  have "f64_le (f64_ofInt n) (f64_ofInt (int c)) \<longleftrightarrow> nat n \<le> c"
    unfolding ex f64_le_Finite of_int_le_iff using assms(3) by linarith
  also have "\<dots> \<longleftrightarrow> list_all (\<lambda>ob. ErrorClass_IsError (obErrorClass ob)) (take (nat n) (rev (srt obs)))"
    unfolding c_def using False len by (intro takeWhile_length_ge) simp
  also have "\<dots> \<longleftrightarrow> list_all (\<lambda>ob. ErrorClass_IsError (obErrorClass ob)) (drop (length obs - nat n) (srt obs))"
    by (simp add: take_rev len)
  finally show ?thesis
    using False assms(3)
    by (simp add: computeMetric_def consecutiveFailures_def trailingErrors_takeWhile c_def)
qed

theorem consecutive_failures_trip_witness:
  "\<exists>v. computeMetric (\<lambda>_. 0) (sort_key obAt) ThresholdConsecutiveFailures 2
         [sampleObs 3 (- 5), sampleObs 1 7, sampleObs 2 (- 4)] = Some v \<and> f64_le (f64_ofInt 2) v"
  using consecutive_failures_trip
    [of "sort_key obAt" "[sampleObs 3 (- 5), sampleObs 1 7, sampleObs 2 (- 4)]" 2 "\<lambda>_. 0"]
  by (simp add: sampleObs_def ErrorClass_IsError_def error_class_defs)

section \<open>Thresholds at the edge\<close>

text \<open>An accepted error-rate threshold of 0 trips on every window, also one without failures.\<close>

theorem zero_rate_trips:
  assumes "obs \<noteq> []" and "int (length obs) < 2 ^ 40" and "0 < window"
  defines "th \<equiv> \<lparr>thMetric = ThresholdErrorRatePct, thValue = Finite 0, thWindowSec = window, thLabel = []\<rparr>"
  shows "Threshold_Validate cvt th = None"
    "\<exists>v. computeMetric cvt srt (thMetric th) k obs = Some v \<and> f64_le (thValue th) v"
proof -
  show "Threshold_Validate cvt th = None" using assms(3) by (simp add: th_def Threshold_Validate_def)
  have "0 \<le> roundRat (roundRat (of_int (failures obs) / of_int (int (length obs))) * 100)"
    using failures_le [of obs] by (intro roundRat_nonneg mult_nonneg_nonneg) simp_all
  then show "\<exists>v. computeMetric cvt srt (thMetric th) k obs = Some v \<and> f64_le (thValue th) v"
    by (simp add: th_def computeMetric_def errorRatePct_value [OF assms(1,2)] f64_le_Finite)
qed

text \<open>A NaN threshold is accepted for the window metrics and never trips.\<close>

theorem nan_threshold_silent:
  "Threshold_Validate cvt \<lparr>thMetric = ThresholdLatencyP95Ms, thValue = NaN, thWindowSec = 60, thLabel = l\<rparr> = None"
  "\<not> f64_le NaN v"
  by (simp_all add: Threshold_Validate_def f64_le_def f64_eq_def)

end
