(* ===== verification/ProbeStore.thy ===== *)
theory ProbeStore
  imports ProbeMetrics "HOL-Library.DAList"
begin

unbundle bit_operations_syntax

text \<open>
  The implementations of the probe ports the repository has: the in-memory repositories, id
  generator and prober of \<open>internal/application/probe/testsupport/fakes.go\<close>, and the HTTP prober of
  \<open>adapters/httpprobe/prober.go\<close>. The mutable fields of the fakes, each under its mutex, are the
  fields of one world record, together with the time of the clock; the two Go maps are association
  lists with distinct keys (\<open>DAList\<close>).
\<close>

section \<open>The in-memory repositories (\<open>fakes.go\<close>)\<close>

record probe_world =
  pwProbes :: "(probe_id, probe) alist"
  pwRows :: "observation list"
  pwIncidents :: "(incident_id, incident) alist"
  pwMinted :: int
  pwStatic :: "probe_result option"
  pwSequence :: "probe_result list"
  pwIdx :: nat
  pwCalls :: int
  pwNow :: gotime

text \<open>The pagination at the end of both \<open>List\<close> methods.\<close>

definition pageSlice :: "int \<Rightarrow> int \<Rightarrow> 'a list \<Rightarrow> 'a list" where
  "pageSlice offset limit xs =
     (if offset > 0 \<and> offset \<ge> int (length xs) then []
      else let xs = (if offset > 0 then drop (nat offset) xs else xs)
           in if limit > 0 \<and> limit < int (length xs) then take (nat limit) xs else xs)"

definition FakeProbeRepo_Save :: "probe \<Rightarrow> (probe_world, probe_app_error option) state" where
  "FakeProbeRepo_Save p =
     State (\<lambda>w. (None, w\<lparr>pwProbes := DAList.update (probeId p) p (pwProbes w)\<rparr>))"

definition FakeProbeRepo_FindByID :: "probe_id \<Rightarrow> (probe_world, probe_app_error + probe) state" where
  "FakeProbeRepo_FindByID i =
     State (\<lambda>w. (case DAList.lookup (pwProbes w) i of None \<Rightarrow> Inl ErrProbeNotFound | Some p \<Rightarrow> Inr p, w))"

definition FakeProbeRepo_List ::
  "probe_filter \<Rightarrow> (probe_world, probe_app_error + probe list \<times> int) state" where
  "FakeProbeRepo_List flt =
     State (\<lambda>w.
       (let found = sort_key probeId
              (filter (\<lambda>p. \<not> (pfEnabledOnly flt \<and> \<not> probeEnabled p)) (map snd (DAList.impl_of (pwProbes w))))
        in (Inr (pageSlice (pfOffset flt) (pfLimit flt) found, int (length found)), w)))"

definition FakeProbeRepo_Delete :: "probe_id \<Rightarrow> (probe_world, probe_app_error option) state" where
  "FakeProbeRepo_Delete i = State (\<lambda>w. (None, w\<lparr>pwProbes := DAList.delete i (pwProbes w)\<rparr>))"

definition FakeObservationRepo_Save ::
  "observation \<Rightarrow> (probe_world, probe_app_error option) state" where
  "FakeObservationRepo_Save ob = State (\<lambda>w. (None, w\<lparr>pwRows := pwRows w @ [ob]\<rparr>))"

definition FakeObservationRepo_SaveBatch ::
  "observation list \<Rightarrow> (probe_world, probe_app_error option) state" where
  "FakeObservationRepo_SaveBatch obs = State (\<lambda>w. (None, w\<lparr>pwRows := pwRows w @ obs\<rparr>))"

definition FakeObservationRepo_ListWindow ::
  "(observation list \<Rightarrow> observation list) \<Rightarrow> probe_id \<Rightarrow> gotime \<Rightarrow> gotime
   \<Rightarrow> (probe_world, probe_app_error + observation list) state" where
  "FakeObservationRepo_ListWindow srt pid since until =
     State (\<lambda>w. (Inr (srt (filter (\<lambda>ob. obProbeID ob = pid \<and> \<not> (obAt ob < since \<or> until < obAt ob))
                            (pwRows w))), w))"

definition FakeObservationRepo_PruneBefore ::
  "gotime \<Rightarrow> (probe_world, probe_app_error + int) state" where
  "FakeObservationRepo_PruneBefore cutoff =
     State (\<lambda>w.
       (let (kept, pruned) = foldl (\<lambda>(kept, pruned) ob.
              if obAt ob < cutoff then (kept, pruned + 1) else (kept @ [ob], pruned)) ([], 0) (pwRows w)
        in (Inr pruned, w\<lparr>pwRows := kept\<rparr>)))"

definition FakeIncidentRepo_Save :: "incident \<Rightarrow> (probe_world, probe_app_error option) state" where
  "FakeIncidentRepo_Save x =
     State (\<lambda>w. (None, w\<lparr>pwIncidents := DAList.update (incId x) x (pwIncidents w)\<rparr>))"

definition FakeIncidentRepo_FindOpen ::
  "probe_id \<Rightarrow> threshold_metric \<Rightarrow> (probe_world, probe_app_error + incident option) state" where
  "FakeIncidentRepo_FindOpen pid m =
     State (\<lambda>w. (Inr (find (\<lambda>x. incProbeID x = pid \<and> brMetric (incBreach x) = m \<and>
                               Incident_Status x = StatusOpen) (map snd (DAList.impl_of (pwIncidents w)))), w))"

text \<open>\<open>srti\<close> is the sorting by descending opening time.\<close>

definition FakeIncidentRepo_List ::
  "(incident list \<Rightarrow> incident list) \<Rightarrow> incident_filter
   \<Rightarrow> (probe_world, probe_app_error + incident list \<times> int) state" where
  "FakeIncidentRepo_List srti flt =
     State (\<lambda>w.
       (let found = srti (filter (\<lambda>x.
              (case ifProbeID flt of None \<Rightarrow> True | Some p \<Rightarrow> incProbeID x = p) \<and>
              (case ifStatus flt of None \<Rightarrow> True | Some s \<Rightarrow> Incident_Status x = s) \<and>
              (case ifOpenedFrom flt of None \<Rightarrow> True | Some t \<Rightarrow> \<not> incOpenedAt x < t) \<and>
              (case ifOpenedTo flt of None \<Rightarrow> True | Some t \<Rightarrow> \<not> t < incOpenedAt x))
              (map snd (DAList.impl_of (pwIncidents w))))
        in (Inr (pageSlice (ifOffset flt) (ifLimit flt) found, int (length found)), w)))"

definition FakeIncidentRepo_CloseAt ::
  "incident_id \<Rightarrow> gotime \<Rightarrow> (probe_world, probe_app_error option) state" where
  "FakeIncidentRepo_CloseAt i tm =
     State (\<lambda>w.
       (case DAList.lookup (pwIncidents w) i of
          None \<Rightarrow> (Some ErrIncidentNotFound, w)
        | Some x \<Rightarrow>
            (case Incident_Close tm x of
               Inl e \<Rightarrow> (Some (ErrIncident e), w)
             | Inr y \<Rightarrow> (None, w\<lparr>pwIncidents := DAList.update i y (pwIncidents w)\<rparr>))))"

definition FakeHTTPProber_Probe :: "probe_world http_prober" where
  "FakeHTTPProber_Probe target timeout =
     State (\<lambda>w.
       (let w = w\<lparr>pwCalls := pwCalls w + 1\<rparr> in
        case pwStatic w of
          Some r \<Rightarrow> (r, w)
        | None \<Rightarrow>
            if length (pwSequence w) = 0
            then (\<lparr>prElapsedMS = 0, prStatusCode = 200, prErrorClass = ErrorNone, prErrorMsg = []\<rparr>, w)
            else (pwSequence w ! (pwIdx w mod length (pwSequence w)), w\<lparr>pwIdx := pwIdx w + 1\<rparr>)))"

definition mintedID :: "int \<Rightarrow> incident_id" where
  "mintedID n = ''inc-'' @ FormatInt 10 n"

definition FakeIDGen_NewIncidentID :: "(probe_world, incident_id) state" where
  "FakeIDGen_NewIncidentID =
     State (\<lambda>w. (mintedID (pwMinted w + 1), w\<lparr>pwMinted := pwMinted w + 1\<rparr>))"

section \<open>The HTTP prober (\<open>prober.go\<close>)\<close>

text \<open>
  A request, and what \<open>http.Client.Do\<close> returns: a response, or an error of which the code asks
  whether it wraps the context's errors, whether it is a \<open>net.Error\<close> that timed out, whether it is a
  \<open>url.Error\<close>, and its text. \<open>http.NewRequestWithContext\<close> (which may refuse the method or URL),
  \<open>Header.Set\<close> and the transport are arguments.
\<close>

record http_request =
  reqMethod :: string
  reqURL :: string
  reqBody :: "byte list option"
  reqHeader :: "(string, string) gomap"

datatype ctx_error = CtxDeadlineExceeded | CtxCanceled

record transport_error =
  teDeadline :: bool
  teCanceled :: bool
  teNetTimeout :: bool
  teURLError :: bool
  teText :: string

record http_response =
  respStatusCode :: int
  respStatus :: string

record http_call =
  hcResult :: "transport_error + http_response"
  hcCtxErr :: "ctx_error option"
  hcElapsed :: duration

definition buildRequest ::
  "(string \<Rightarrow> string \<Rightarrow> string option)
   \<Rightarrow> (string \<Rightarrow> string \<Rightarrow> (string, string) gomap \<Rightarrow> (string, string) gomap)
   \<Rightarrow> probe_target \<Rightarrow> string + http_request" where
  "buildRequest newRequest headerSet t =
     (let meth = (if ptMethod t = [] then ''GET'' else ptMethod t);
          body = (case ptBody t of Some b \<Rightarrow> if length b > 0 then Some b else None | None \<Rightarrow> None)
      in case newRequest meth (ptURL t) of
           Some err \<Rightarrow> Inl err
         | None \<Rightarrow> Inr
             \<lparr>reqMethod = meth, reqURL = ptURL t, reqBody = body,
              reqHeader = foldl (\<lambda>h (k, v). headerSet k v h) []
                (case ptHeaders t of None \<Rightarrow> [] | Some hs \<Rightarrow> hs)\<rparr>)"

definition contByte :: "char \<Rightarrow> bool" where
  "contByte c \<longleftrightarrow> (of_char c :: nat) AND 192 = 128"

fun runeStart :: "string \<Rightarrow> nat \<Rightarrow> nat" where
  "runeStart s 0 = 0"
| "runeStart s (Suc e) = (if contByte (s ! Suc e) then runeStart s e else Suc e)"

definition truncateMsg :: "string \<Rightarrow> string" where
  "truncateMsg s =
     (if length s \<le> ErrMsgMaxLen then s
      else rev (dropWhile (\<lambda>c. c = CHR 0x00) (rev (take (runeStart s ErrMsgMaxLen) s))))"

definition classifyResponse :: "http_response \<Rightarrow> duration \<Rightarrow> probe_result" where
  "classifyResponse resp elapsed =
     (let sc = respStatusCode resp;
          out = \<lparr>prElapsedMS = milliseconds elapsed, prStatusCode = sc, prErrorClass = ErrorNone,
                 prErrorMsg = []\<rparr>
      in if sc \<ge> 200 \<and> sc < 400 then out
         else if sc \<ge> 400 \<and> sc < 500 then
           out\<lparr>prErrorClass := ErrorHTTP4xx, prErrorMsg := truncateMsg (''HTTP '' @ respStatus resp)\<rparr>
         else if sc \<ge> 500 \<and> sc < 600 then
           out\<lparr>prErrorClass := ErrorHTTP5xx, prErrorMsg := truncateMsg (''HTTP '' @ respStatus resp)\<rparr>
         else
           out\<lparr>prErrorClass := ErrorProtocol,
               prErrorMsg := truncateMsg (''unexpected status '' @ respStatus resp)\<rparr>)"

definition classifyTransportError :: "ctx_error option \<Rightarrow> transport_error \<Rightarrow> error_class" where
  "classifyTransportError ctxErr err =
     (if ctxErr = Some CtxDeadlineExceeded \<or> teDeadline err \<or> ctxErr = Some CtxCanceled \<or>
         teCanceled err
      then ErrorTimeout
      else if teNetTimeout err then ErrorTimeout
      else if teURLError err then ErrorNetwork
      else ErrorNetwork)"

definition Prober_Probe ::
  "(string \<Rightarrow> string \<Rightarrow> string option)
   \<Rightarrow> (string \<Rightarrow> string \<Rightarrow> (string, string) gomap \<Rightarrow> (string, string) gomap)
   \<Rightarrow> (http_request \<Rightarrow> duration \<Rightarrow> ('w, http_call) state) \<Rightarrow> 'w http_prober" where
  "Prober_Probe newRequest headerSet transport target timeout =
     (case buildRequest newRequest headerSet target of
        Inl err \<Rightarrow> State_Monad.return
          \<lparr>prElapsedMS = 0, prStatusCode = 0, prErrorClass = ErrorNetwork,
           prErrorMsg = truncateMsg (''build request: '' @ err)\<rparr>
      | Inr req \<Rightarrow>
          do {
            call \<leftarrow> transport req timeout;
            State_Monad.return
              (case hcResult call of
                 Inl err \<Rightarrow>
                   \<lparr>prElapsedMS = milliseconds (hcElapsed call), prStatusCode = 0,
                    prErrorClass = classifyTransportError (hcCtxErr call) err,
                    prErrorMsg = truncateMsg (teText err)\<rparr>
               | Inr resp \<Rightarrow> classifyResponse resp (hcElapsed call))
          })"

end
