(* ===== verification/ProbeEval.thy ===== *)
theory ProbeEval
  imports ProbeStore
begin

text \<open>
  The evaluation of thresholds against the incident store. The locale \<open>incident_store\<close> states what
  \<open>EvaluateWindow\<close> relies on: reads change nothing and depend only on the part of the world the
  evaluation does not write, \<open>FindOpen\<close> is sound and complete, \<open>Save\<close> and \<open>CloseAt\<close> change one
  incident or fail without effect, and a minted id is new. From these laws it follows that the
  store never has two open incidents for one probe and metric, that an evaluation settles every
  threshold, and that repeating it changes nothing. The repositories of \<open>fakes.go\<close> satisfy the laws.
\<close>

section \<open>What the store holds\<close>

definition open_for :: "probe_id \<Rightarrow> threshold_metric \<Rightarrow> incident \<Rightarrow> bool" where
  "open_for pid m x \<longleftrightarrow>
     incProbeID x = pid \<and> brMetric (incBreach x) = m \<and> incClosedAt x = None"

definition opens :: "(incident_id \<rightharpoonup> incident) \<Rightarrow> probe_id \<Rightarrow> threshold_metric \<Rightarrow> incident set" where
  "opens incs pid m = {x \<in> ran incs. open_for pid m x}"

definition well_kept :: "(incident_id \<rightharpoonup> incident) \<Rightarrow> incident_id set \<Rightarrow> bool" where
  "well_kept incs issued \<longleftrightarrow>
     (\<forall>k x. incs k = Some x \<longrightarrow> incId x = k \<and> k \<in> issued) \<and>
     (\<forall>pid m x y. x \<in> opens incs pid m \<longrightarrow> y \<in> opens incs pid m \<longrightarrow> x = y)"

lemma opens_insert:
  "k \<notin> dom incs \<Longrightarrow>
   opens (incs(k \<mapsto> x)) pid m = (if open_for pid m x then insert x (opens incs pid m) else opens incs pid m)"
  by (auto simp: opens_def)

lemma opens_replace:
  assumes key: "\<forall>k x. incs k = Some x \<longrightarrow> incId x = k" and "incs k = Some x"
    and "\<not> open_for pid m y"
  shows "opens (incs(k \<mapsto> y)) pid m = opens incs pid m - {x}"
proof -
  have "(\<exists>j. j \<noteq> k \<and> incs j = Some z) \<longleftrightarrow> z \<in> ran incs \<and> z \<noteq> x" for z
  proof
    assume "\<exists>j. j \<noteq> k \<and> incs j = Some z"
    then obtain j where j: "j \<noteq> k" "incs j = Some z" by blast
    then have "incId z = j" "incId x = k" using key assms(2) by blast+
    then show "z \<in> ran incs \<and> z \<noteq> x" using j by (blast intro: ranI)
  next
    assume z: "z \<in> ran incs \<and> z \<noteq> x"
    then obtain j where j: "incs j = Some z" by (auto simp: ran_def)
    have "j \<noteq> k" proof
      assume "j = k"
      with j assms(2) z show False by simp
    qed
    then show "\<exists>j. j \<noteq> k \<and> incs j = Some z" using j by blast
  qed
  moreover have "z \<in> ran (incs(k \<mapsto> y)) \<longleftrightarrow> z = y \<or> (\<exists>j. j \<noteq> k \<and> incs j = Some z)" for z
    unfolding ran_def fun_upd_apply by auto
  ultimately have r: "z \<in> ran (incs(k \<mapsto> y)) \<longleftrightarrow> z = y \<or> z \<in> ran incs \<and> z \<noteq> x" for z
    by simp
  show ?thesis
    unfolding opens_def set_eq_iff mem_Collect_eq Diff_iff singleton_iff r using assms(3) by blast
qed

lemma well_kept_insert:
  assumes "well_kept incs issued" and "incId x \<notin> issued"
    and "opens incs (incProbeID x) (brMetric (incBreach x)) = {}"
  shows "well_kept (incs(incId x \<mapsto> x)) (insert (incId x) issued)"
proof -
  have k: "incId x \<notin> dom incs" using assms(1,2) by (auto simp: well_kept_def)
  show ?thesis
    using assms unfolding well_kept_def opens_insert [OF k]
    by (auto simp: open_for_def split: if_splits)
qed

lemma well_kept_close:
  assumes "well_kept incs issued" and "incs k = Some x" and "Incident_Close tm x = Inr y"
  shows "well_kept (incs(k \<mapsto> y)) issued"
    "opens (incs(k \<mapsto> y)) pid m = opens incs pid m - {x}"
proof -
  have key: "\<forall>k x. incs k = Some x \<longrightarrow> incId x = k" using assms(1) by (simp add: well_kept_def)
  have y: "incId y = k" "\<not> open_for pid m y" for pid m
    using assms(2,3) key by (auto simp: Incident_Close_Inr open_for_def)
  show o: "opens (incs(k \<mapsto> y)) pid m = opens incs pid m - {x}" for pid m
    by (rule opens_replace [OF key assms(2) y(2)])
  show "well_kept (incs(k \<mapsto> y)) issued"
    using assms(1,2) y(1) unfolding well_kept_def o by (auto split: if_splits)
qed

section \<open>The contract of the ports\<close>

locale incident_store =
  fixes uc :: "'w evaluate_window"
    and incs :: "'w \<Rightarrow> incident_id \<rightharpoonup> incident"
    and issued :: "'w \<Rightarrow> incident_id set"
    and view :: "'w \<Rightarrow> 'v"
  assumes reads:
      "snd (run_state (ProbeRepo_FindByID (ewProbes uc) i) w) = w"
      "snd (run_state (ObsRepo_ListWindow (ewObservations uc) i since until) w) = w"
      "snd (run_state (IncRepo_FindOpen (ewIncidents uc) i m) w) = w"
      "snd (run_state (ewClock uc) w) = w"
    and stable: "view w = view v \<Longrightarrow>
        fst (run_state (ProbeRepo_FindByID (ewProbes uc) i) w) =
        fst (run_state (ProbeRepo_FindByID (ewProbes uc) i) v)"
      "view w = view v \<Longrightarrow>
        fst (run_state (ObsRepo_ListWindow (ewObservations uc) i since until) w) =
        fst (run_state (ObsRepo_ListWindow (ewObservations uc) i since until) v)"
      "view w = view v \<Longrightarrow> fst (run_state (ewClock uc) w) = fst (run_state (ewClock uc) v)"
      "view w = view v \<Longrightarrow>
        isl (fst (run_state (IncRepo_FindOpen (ewIncidents uc) i m) w)) =
        isl (fst (run_state (IncRepo_FindOpen (ewIncidents uc) i m) v))"
    and find_none: "fst (run_state (IncRepo_FindOpen (ewIncidents uc) i m) w) = Inr None \<Longrightarrow>
        opens (incs w) i m = {}"
    and find_some: "fst (run_state (IncRepo_FindOpen (ewIncidents uc) i m) w) = Inr (Some x) \<Longrightarrow>
        x \<in> opens (incs w) i m"
    and save: "run_state (IncRepo_Save (ewIncidents uc) x) w = (r, w') \<Longrightarrow>
        view w' = view w \<and> issued w' = issued w \<and>
        incs w' = (if r = None then (incs w)(incId x \<mapsto> x) else incs w)"
    and close_at: "run_state (IncRepo_CloseAt (ewIncidents uc) k tm) w = (r, w') \<Longrightarrow>
        view w' = view w \<and> issued w' = issued w \<and>
        (if r = None
         then \<exists>x y. incs w k = Some x \<and> Incident_Close tm x = Inr y \<and> incs w' = (incs w)(k \<mapsto> y)
         else incs w' = incs w)"
    and mint: "run_state (ewIDGen uc) w = (k, w') \<Longrightarrow>
        view w' = view w \<and> incs w' = incs w \<and> k \<notin> issued w \<and> issued w' = insert k (issued w)"
begin

definition kept :: "'w \<Rightarrow> bool" where
  "kept w \<longleftrightarrow> well_kept (incs w) (issued w)"

text \<open>What a threshold of a probe measures in a world: nothing after a failed read.\<close>

definition measured ::
  "(float64 \<Rightarrow> int) \<Rightarrow> (observation list \<Rightarrow> observation list) \<Rightarrow> probe_id \<Rightarrow> gotime \<Rightarrow> 'w \<Rightarrow> threshold
   \<Rightarrow> float64 option" where
  "measured cvt srt pid now w th =
     (case fst (run_state (ObsRepo_ListWindow (ewObservations uc) pid (windowStart cvt th now) now) w) of
        Inl _ \<Rightarrow> None
      | Inr obs \<Rightarrow> computeMetric cvt srt (thMetric th) (f64_toInt cvt (thValue th)) obs)"

definition settled ::
  "(float64 \<Rightarrow> int) \<Rightarrow> (observation list \<Rightarrow> observation list) \<Rightarrow> probe_id \<Rightarrow> gotime \<Rightarrow> 'w \<Rightarrow> threshold
   \<Rightarrow> bool" where
  "settled cvt srt pid now w th \<longleftrightarrow>
     (case measured cvt srt pid now w th of
        None \<Rightarrow> True
      | Some v \<Rightarrow> opens (incs w) pid (thMetric th) \<noteq> {} \<longleftrightarrow> f64_le (thValue th) v)"

lemma find_iff:
  "fst (run_state (IncRepo_FindOpen (ewIncidents uc) i m) w) = Inr found \<Longrightarrow>
     found = None \<longleftrightarrow> opens (incs w) i m = {}"
  using find_none [of i m w] find_some [of i m w] by (cases found) auto

lemma transition_effect:
  assumes "run_state (transition srt uc pid th now obs v found) w = (r, w')"
    and "fst (run_state (IncRepo_FindOpen (ewIncidents uc) pid (thMetric th)) w) = Inr found"
    and "kept w"
  shows "kept w' \<and> view w' = view w \<and>
    (\<forall>p m. (p, m) \<noteq> (pid, thMetric th) \<longrightarrow> opens (incs w') p m = opens (incs w) p m) \<and>
    (r = None \<longrightarrow> (opens (incs w') pid (thMetric th) \<noteq> {} \<longleftrightarrow> f64_le (thValue th) v))"
proof (cases found)
  case None
  then have none: "opens (incs w) pid (thMetric th) = {}" using find_none assms(2) by blast
  show ?thesis
  proof (cases "f64_le (thValue th) v")
    case False
    then show ?thesis using assms(1,3) None none by (simp add: transition_def)
  next
    case True
    obtain k w1 where gen: "run_state (ewIDGen uc) w = (k, w1)" by force
    let ?b = "\<lparr>brMetric = thMetric th, brThreshold = thValue th, brObserved = v,
      brWindowSec = thWindowSec th\<rparr>"
    have m: "view w1 = view w" "incs w1 = incs w" "k \<notin> issued w" "issued w1 = insert k (issued w)"
      using mint [OF gen] by auto
    have k1: "kept w1" using assms(3) m by (auto simp: kept_def well_kept_def)
    show ?thesis
    proof (cases "NewIncident k pid now ?b (truncateObservations srt obs (evidenceMax uc))")
      case (Inl e)
      then have "r \<noteq> None" "w' = w1"
        using assms(1) None True gen by (auto simp: transition_def)
      then show ?thesis using k1 m by auto
    next
      case (Inr x)
      then have run: "run_state (IncRepo_Save (ewIncidents uc) x) w1 = (r, w')"
        using assms(1) None True gen by (simp add: transition_def)
      have x: "incId x = k" "incProbeID x = pid" "incBreach x = ?b" "incClosedAt x = None"
        using Inr by (auto simp: NewIncident_Inr RehydrateIncident_def)
      have wk: "well_kept ((incs w)(k \<mapsto> x)) (insert k (issued w))"
        using well_kept_insert [of "incs w" "issued w" x] assms(3) m(3) none x by (simp add: kept_def)
      have "k \<notin> dom (incs w)" using assms(3) m(3) by (auto simp: kept_def well_kept_def)
      then have op: "opens ((incs w)(k \<mapsto> x)) p q =
          (if open_for p q x then insert x (opens (incs w) p q) else opens (incs w) p q)" for p q
        by (rule opens_insert)
      show ?thesis
        using save [OF run] wk k1 m x True op by (cases r) (auto simp: kept_def open_for_def)
    qed
  qed
next
  case (Some x)
  then have x: "x \<in> opens (incs w) pid (thMetric th)" using find_some assms(2) by blast
  show ?thesis
  proof (cases "f64_le (thValue th) v")
    case True
    then show ?thesis using assms(1,3) Some x by (auto simp: transition_def)
  next
    case False
    then have run: "run_state (IncRepo_CloseAt (ewIncidents uc) (incId x) now) w = (r, w')"
      using assms(1) Some by (simp add: transition_def)
    note c = close_at [OF run]
    have key: "incs w (incId x) = Some x" and only: "opens (incs w) pid (thMetric th) = {x}"
      using x assms(3) unfolding kept_def well_kept_def by (auto simp: opens_def ran_def, blast)
    show ?thesis
    proof (cases r)
      case None
      then obtain y where y: "Incident_Close now x = Inr y" "incs w' = (incs w)(incId x \<mapsto> y)"
        using c key by auto
      have "well_kept (incs w') (issued w)" "opens (incs w') p m = opens (incs w) p m - {x}" for p m
        using well_kept_close [OF assms(3) [unfolded kept_def] key y(1)] y(2) by simp_all
      moreover have "x \<notin> opens (incs w) p m" if "(p, m) \<noteq> (pid, thMetric th)" for p m
        using x that by (auto simp: opens_def open_for_def)
      ultimately show ?thesis using c only False by (auto simp: kept_def)
    next
      case (Some e)
      then show ?thesis using c assms(3) by (simp add: kept_def)
    qed
  qed
qed

text \<open>The effect of one evaluated threshold, and that a settled threshold is left alone.\<close>

lemma evaluateThreshold_effect:
  assumes "run_state (evaluateThreshold cvt srt uc pid th now) w = (r, w')" and "kept w"
  shows "kept w' \<and> view w' = view w \<and>
    (\<forall>p m. (p, m) \<noteq> (pid, thMetric th) \<longrightarrow> opens (incs w') p m = opens (incs w) p m) \<and>
    (r = None \<longrightarrow> settled cvt srt pid now w' th)"
proof -
  let ?L = "ObsRepo_ListWindow (ewObservations uc) pid (windowStart cvt th now) now"
  let ?F = "IncRepo_FindOpen (ewIncidents uc) pid (thMetric th)"
  obtain got where got: "run_state ?L w = (got, w)" using reads(2) by (metis prod.collapse)
  obtain found where found: "run_state ?F w = (found, w)" using reads(3) by (metis prod.collapse)
  have run: "run_state (evaluateThreshold cvt srt uc pid th now) w =
      (case got of Inl e \<Rightarrow> (Some e, w)
       | Inr obs \<Rightarrow> (case computeMetric cvt srt (thMetric th) (f64_toInt cvt (thValue th)) obs of
           None \<Rightarrow> (None, w)
         | Some v \<Rightarrow> (case found of Inl e \<Rightarrow> (Some e, w)
             | Inr fo \<Rightarrow> run_state (transition srt uc pid th now obs v fo) w)))"
    by (simp add: evaluateThreshold_def got found split: sum.split option.split)
  have meas: "measured cvt srt pid now v th = (case got of Inl _ \<Rightarrow> None
      | Inr obs \<Rightarrow> computeMetric cvt srt (thMetric th) (f64_toInt cvt (thValue th)) obs)"
    if "view v = view w" for v
    using stable(2) [OF that] got by (simp add: measured_def)
  show ?thesis
  proof (cases "\<exists>obs v fo. got = Inr obs \<and> found = Inr fo \<and>
      computeMetric cvt srt (thMetric th) (f64_toInt cvt (thValue th)) obs = Some v")
    case True
    then obtain obs v fo where c: "got = Inr obs" "found = Inr fo"
      "computeMetric cvt srt (thMetric th) (f64_toInt cvt (thValue th)) obs = Some v" by blast
    then have "run_state (transition srt uc pid th now obs v fo) w = (r, w')"
      using assms(1) run by simp
    from transition_effect [OF this _ assms(2)] found c show ?thesis
      by (simp add: settled_def meas)
  next
    case False
    then have "w' = w \<and> (r = None \<longrightarrow> measured cvt srt pid now w th = None)"
      using assms(1) unfolding run meas [OF refl] by (auto split: sum.splits option.splits)
    then show ?thesis using assms(2) by (simp add: settled_def)
  qed
qed

lemma evaluateThreshold_settled:
  assumes "settled cvt srt pid now w th"
    and "run_state (evaluateThreshold cvt srt uc pid th now) w = (r, w')"
  shows "w' = w"
proof -
  let ?L = "ObsRepo_ListWindow (ewObservations uc) pid (windowStart cvt th now) now"
  let ?F = "IncRepo_FindOpen (ewIncidents uc) pid (thMetric th)"
  obtain got where got: "run_state ?L w = (got, w)" using reads(2) by (metis prod.collapse)
  obtain found where found: "run_state ?F w = (found, w)" using reads(3) by (metis prod.collapse)
  have fo: "found = Inr y \<Longrightarrow> y = None \<longleftrightarrow> opens (incs w) pid (thMetric th) = {}" for y
    using find_iff found by simp
  show ?thesis
    using assms found got fo
    by (auto simp: evaluateThreshold_def settled_def measured_def transition_def
        split: sum.splits option.splits)
qed

lemma settled_cong:
  "view v = view w \<Longrightarrow> opens (incs v) pid (thMetric th) = opens (incs w) pid (thMetric th) \<Longrightarrow>
     settled cvt srt pid now v th \<longleftrightarrow> settled cvt srt pid now w th"
  using stable(2) [of v w pid "windowStart cvt th now" now]
  by (simp add: settled_def measured_def split: option.split)

lemma evaluateThreshold_again:
  assumes "run_state (evaluateThreshold cvt srt uc pid th now) w = (None, w')"
    and "view v = view w" and "settled cvt srt pid now v th"
  shows "run_state (evaluateThreshold cvt srt uc pid th now) v = (None, v)"
proof -
  let ?L = "ObsRepo_ListWindow (ewObservations uc) pid (windowStart cvt th now) now"
  let ?F = "IncRepo_FindOpen (ewIncidents uc) pid (thMetric th)"
  obtain got found found' where w: "run_state ?L w = (got, w)" "run_state ?F w = (found, w)"
    and v: "run_state ?F v = (found', v)" using reads(2,3) by (metis prod.collapse)
  have v': "run_state ?L v = (got, v)"
    using stable(2) [OF assms(2), of pid "windowStart cvt th now" now] w(1) reads(2) by (metis fst_conv prod.collapse)
  have isl: "isl found' = isl found" using stable(4) [OF assms(2), of pid "thMetric th"] w v by simp
  obtain r v1 where run: "run_state (evaluateThreshold cvt srt uc pid th now) v = (r, v1)" by force
  have "v1 = v" by (rule evaluateThreshold_settled [OF assms(3) run])
  moreover have "r = None"
  proof -
    have fo: "found' = Inr y \<Longrightarrow> y = None \<longleftrightarrow> opens (incs v) pid (thMetric th) = {}" for y
      using find_iff v by simp
    show ?thesis
      using assms(1,3) run w v v' isl fo
      by (auto simp: evaluateThreshold_def settled_def measured_def transition_def isl_def
          split: sum.splits option.splits)
  qed
  ultimately show ?thesis using run by simp
qed

lemma evaluateAll_effect:
  "run_state (evaluateAll cvt srt uc pid now ths) w = (r, w') \<Longrightarrow> kept w \<Longrightarrow>
   kept w' \<and> view w' = view w \<and>
   (\<forall>p m. p \<noteq> pid \<or> m \<notin> thMetric ` set ths \<longrightarrow> opens (incs w') p m = opens (incs w) p m) \<and>
   (r = None \<longrightarrow> distinct (map thMetric ths) \<longrightarrow> (\<forall>th \<in> set ths. settled cvt srt pid now w' th))"
proof (induction ths arbitrary: w)
  case (Cons th ths)
  obtain e w1 where one: "run_state (evaluateThreshold cvt srt uc pid th now) w = (e, w1)" by force
  note eff = evaluateThreshold_effect [OF one Cons.prems(2)]
  show ?case
  proof (cases e)
    case None
    then have run: "run_state (evaluateAll cvt srt uc pid now ths) w1 = (r, w')"
      using Cons.prems(1) one by simp
    note IH = Cons.IH [OF run conjunct1 [OF eff]]
    have "settled cvt srt pid now w' th" if "thMetric th \<notin> thMetric ` set ths"
      using eff None IH that settled_cong [of w' w1 pid th cvt srt now] by simp
    then show ?thesis using IH eff by auto
  next
    case (Some x)
    then show ?thesis using Cons.prems(1) one eff by auto
  qed
qed simp

lemma evaluateAll_again:
  "run_state (evaluateAll cvt srt uc pid now ths) w = (None, w') \<Longrightarrow> kept w \<Longrightarrow> view v = view w \<Longrightarrow>
   \<forall>th \<in> set ths. settled cvt srt pid now v th \<Longrightarrow>
   run_state (evaluateAll cvt srt uc pid now ths) v = (None, v)"
proof (induction ths arbitrary: w)
  case (Cons th ths)
  obtain e w1 where one: "run_state (evaluateThreshold cvt srt uc pid th now) w = (e, w1)" by force
  then have e: "e = None" and run: "run_state (evaluateAll cvt srt uc pid now ths) w1 = (None, w')"
    using Cons.prems(1) by (auto split: option.splits)
  have "kept w1" "view v = view w1" using evaluateThreshold_effect [OF one Cons.prems(2)] Cons.prems(3) by simp_all
  then show ?case
    using Cons.IH [OF run] evaluateThreshold_again [OF one [unfolded e] Cons.prems(3)] Cons.prems(4)
    by simp
qed simp

text \<open>The probe an evaluation works on, and the time it takes.\<close>

lemma execute_run:
  "run_state (EvaluateWindow_Execute cvt srt uc i) w =
     (case fst (run_state (ProbeRepo_FindByID (ewProbes uc) i) w) of
        Inl e \<Rightarrow> (Some e, w)
      | Inr p \<Rightarrow> run_state (evaluateAll cvt srt uc (probeId p)
                    (fst (run_state (ewClock uc) w)) (probeThresholds p)) w)"
proof -
  obtain found where "run_state (ProbeRepo_FindByID (ewProbes uc) i) w = (found, w)"
    using reads(1) by (metis prod.collapse)
  moreover obtain now where "run_state (ewClock uc) w = (now, w)" using reads(4) by (metis prod.collapse)
  ultimately show ?thesis by (simp add: EvaluateWindow_Execute_def split: sum.split)
qed

lemma execute_keeps:
  assumes "run_state (EvaluateWindow_Execute cvt srt uc i) w = (r, w')" and "kept w"
  shows "kept w' \<and> view w' = view w"
  using assms evaluateAll_effect unfolding execute_run by (auto split: sum.splits)

lemma execute_settles:
  assumes "run_state (EvaluateWindow_Execute cvt srt uc i) w = (None, w')" and "kept w"
    and "fst (run_state (ProbeRepo_FindByID (ewProbes uc) i) w) = Inr p"
    and "distinct (map thMetric (probeThresholds p))" and "th \<in> set (probeThresholds p)"
  shows "settled cvt srt (probeId p) (fst (run_state (ewClock uc) w)) w' th"
  using assms evaluateAll_effect unfolding execute_run by fastforce

lemma execute_again:
  assumes "run_state (EvaluateWindow_Execute cvt srt uc i) w = (None, w')" and "kept w"
    and "fst (run_state (ProbeRepo_FindByID (ewProbes uc) i) w) = Inr p"
    and "distinct (map thMetric (probeThresholds p))"
  shows "run_state (EvaluateWindow_Execute cvt srt uc i) w' = (None, w')"
proof -
  let ?now = "fst (run_state (ewClock uc) w)"
  have v: "view w' = view w" using execute_keeps [OF assms(1,2)] by simp
  have run: "run_state (evaluateAll cvt srt uc (probeId p) ?now (probeThresholds p)) w = (None, w')"
    using assms(1,3) by (simp add: execute_run)
  have "\<forall>th \<in> set (probeThresholds p). settled cvt srt (probeId p) ?now w' th"
    using execute_settles [OF assms] by blast
  from evaluateAll_again [OF run assms(2) v this] show ?thesis
    using stable(1,3) [OF v] assms(3) by (simp add: execute_run)
qed

end

section \<open>The in-memory repositories satisfy the contract\<close>

definition fakeProbeRepo :: "probe_world probe_repository" where
  "fakeProbeRepo =
     \<lparr>ProbeRepo_Save = FakeProbeRepo_Save, ProbeRepo_FindByID = FakeProbeRepo_FindByID,
      ProbeRepo_List = FakeProbeRepo_List, ProbeRepo_Delete = FakeProbeRepo_Delete\<rparr>"

definition fakeObservationRepo ::
  "(observation list \<Rightarrow> observation list) \<Rightarrow> probe_world observation_repository" where
  "fakeObservationRepo srt =
     \<lparr>ObsRepo_Save = FakeObservationRepo_Save, ObsRepo_SaveBatch = FakeObservationRepo_SaveBatch,
      ObsRepo_ListWindow = FakeObservationRepo_ListWindow srt,
      ObsRepo_PruneBefore = FakeObservationRepo_PruneBefore\<rparr>"

definition fakeIncidentRepo ::
  "(incident list \<Rightarrow> incident list) \<Rightarrow> probe_world incident_repository" where
  "fakeIncidentRepo srti =
     \<lparr>IncRepo_Save = FakeIncidentRepo_Save, IncRepo_FindOpen = FakeIncidentRepo_FindOpen,
      IncRepo_List = FakeIncidentRepo_List srti, IncRepo_CloseAt = FakeIncidentRepo_CloseAt\<rparr>"

definition fakeEvaluate ::
  "(observation list \<Rightarrow> observation list) \<Rightarrow> (incident list \<Rightarrow> incident list) \<Rightarrow> int
   \<Rightarrow> probe_world evaluate_window" where
  "fakeEvaluate srt srti evMax =
     \<lparr>ewProbes = fakeProbeRepo, ewObservations = fakeObservationRepo srt,
      ewIncidents = fakeIncidentRepo srti, ewIDGen = FakeIDGen_NewIncidentID,
      ewClock = State (\<lambda>w. (pwNow w, w)), ewEvidenceMax = evMax\<rparr>"

definition incidentsOf :: "probe_world \<Rightarrow> incident_id \<rightharpoonup> incident" where
  "incidentsOf w = DAList.lookup (pwIncidents w)"

definition issuedIDs :: "probe_world \<Rightarrow> incident_id set" where
  "issuedIDs w = mintedID ` {k. k \<le> pwMinted w}"

lemmas fake_defs =
  fakeEvaluate_def fakeProbeRepo_def fakeObservationRepo_def fakeIncidentRepo_def
  FakeProbeRepo_FindByID_def FakeObservationRepo_ListWindow_def FakeIncidentRepo_FindOpen_def
  FakeIncidentRepo_Save_def FakeIncidentRepo_CloseAt_def FakeIDGen_NewIncidentID_def

lemma mintedID_inj: "mintedID a = mintedID b \<longleftrightarrow> a = b"
  by (simp add: mintedID_def FormatInt_inj)

lemma ran_lookup: "ran (DAList.lookup a) = snd ` set (DAList.impl_of a)"
  by (simp add: DAList.lookup.rep_eq ran_distinct)

lemma FindOpen_find:
  "fst (run_state (FakeIncidentRepo_FindOpen i m) w) =
     Inr (find (open_for i m) (map snd (DAList.impl_of (pwIncidents w))))"
proof -
  have "(\<lambda>x. incProbeID x = i \<and> brMetric (incBreach x) = m \<and> Incident_Status x = StatusOpen) = open_for i m"
    by (auto simp: fun_eq_iff open_for_def Incident_Status_def StatusOpen_def StatusClosed_def)
  then show ?thesis by (simp add: FakeIncidentRepo_FindOpen_def)
qed

lemma find_SomeD: "find P xs = Some x \<Longrightarrow> x \<in> set xs \<and> P x"
  by (induction xs) (auto split: if_splits)

lemma opens_incidentsOf:
  "opens (incidentsOf w) i m = {x \<in> set (map snd (DAList.impl_of (pwIncidents w))). open_for i m x}"
  by (simp add: opens_def incidentsOf_def ran_lookup)

interpretation fake: incident_store "fakeEvaluate srt srti evMax" incidentsOf issuedIDs
  "\<lambda>w. (pwProbes w, pwRows w, pwNow w)"
proof (unfold_locales, goal_cases)
  case (9 i m w)
  then show ?case
    by (auto simp: fakeEvaluate_def fakeIncidentRepo_def FindOpen_find opens_incidentsOf find_None_iff)
next
  case (10 i m w x)
  then show ?case
    by (auto simp: fakeEvaluate_def fakeIncidentRepo_def FindOpen_find opens_incidentsOf
        dest!: find_SomeD)
next
  case (11 x w r w')
  then show ?case by (auto simp: fake_defs incidentsOf_def issuedIDs_def DAList.lookup_update)
next
  case (12 k tm w r w')
  then show ?case
    by (auto simp: fake_defs incidentsOf_def issuedIDs_def DAList.lookup_update
        split: option.splits sum.splits)
next
  case (13 w k w')
  then have w: "k = mintedID (pwMinted w + 1)" "w' = w\<lparr>pwMinted := pwMinted w + 1\<rparr>"
    by (auto simp: fake_defs)
  have "{k. k \<le> pwMinted w + 1} = insert (pwMinted w + 1) {k. k \<le> pwMinted w}" by auto
  then show ?case using w by (auto simp: incidentsOf_def issuedIDs_def mintedID_inj)
qed (auto simp: fake_defs)

end
