(* ===== verification/ProbeProps.thy ===== *)
theory ProbeProps
  imports ProbeEval
begin

text \<open>
  The probe system as a whole: probes are saved and deleted, called over HTTP and evaluated, and
  old observations are pruned, in any order, over the in-memory repositories. The step relation
  \<open>probe_system\<close> collects the reachable worlds; the properties hold in all of them.
\<close>

section \<open>The system\<close>

definition fakeRunProbe ::
  "(observation list \<Rightarrow> observation list) \<Rightarrow> probe_world http_prober \<Rightarrow> duration \<Rightarrow> probe_world run_probe" where
  "fakeRunProbe srt prober timeout =
     \<lparr>rpProbes = fakeProbeRepo, rpObservations = fakeObservationRepo srt, rpProber = prober,
      rpClock = State (\<lambda>w. (pwNow w, w)), rpTimeout = timeout\<rparr>"

text \<open>A prober leaves the stores and the clock as they are; the calls of the HTTP prober over any
  transport with this property, and of the fake prober, are of this kind.\<close>

definition remote :: "probe_world http_prober \<Rightarrow> bool" where
  "remote prober \<longleftrightarrow> (\<forall>t d w. let v = snd (run_state (prober t d) w) in
     pwProbes v = pwProbes w \<and> pwRows v = pwRows w \<and> pwIncidents v = pwIncidents w \<and>
     pwMinted v = pwMinted w \<and> pwNow v = pwNow w)"

inductive probe_system :: "(float64 \<Rightarrow> int) \<Rightarrow> probe_world \<Rightarrow> bool" for cvt where
  start: "pwProbes w = DAList.empty \<Longrightarrow> pwRows w = [] \<Longrightarrow> pwIncidents w = DAList.empty \<Longrightarrow>
    probe_system cvt w"
| tick: "probe_system cvt w \<Longrightarrow> probe_system cvt (w\<lparr>pwNow := t\<rparr>)"
| save: "probe_system cvt w \<Longrightarrow> NewProbe parseURL cvt i target sched ths enabled = Inr p \<Longrightarrow>
    probe_system cvt (snd (run_state (FakeProbeRepo_Save p) w))"
| delete: "probe_system cvt w \<Longrightarrow> probe_system cvt (snd (run_state (FakeProbeRepo_Delete i) w))"
| call: "probe_system cvt w \<Longrightarrow> remote prober \<Longrightarrow>
    probe_system cvt (snd (run_state (RunProbe_Execute (fakeRunProbe srt prober timeout) i) w))"
| evaluate: "probe_system cvt w \<Longrightarrow>
    probe_system cvt (snd (run_state (EvaluateWindow_Execute cvt srt (fakeEvaluate srt srti n) i) w))"
| prune: "probe_system cvt w \<Longrightarrow>
    probe_system cvt (snd (run_state (FakeObservationRepo_PruneBefore cutoff) w))"

text \<open>An observation that its constructor would accept again, unchanged.\<close>

definition genuine :: "observation \<Rightarrow> bool" where
  "genuine ob \<longleftrightarrow>
     NewObservation (obProbeID ob) (obAt ob) (obElapsedMS ob) (obStatusCode ob) (obErrorClass ob)
       (obErrorMsg ob) = Inr ob"

definition probe_inv :: "(float64 \<Rightarrow> int) \<Rightarrow> probe_world \<Rightarrow> bool" where
  "probe_inv cvt w \<longleftrightarrow>
     well_kept (incidentsOf w) (issuedIDs w) \<and>
     (\<forall>ob \<in> set (pwRows w). genuine ob) \<and>
     (\<forall>i p. DAList.lookup (pwProbes w) i = Some p \<longrightarrow>
        probeId p = i \<and> distinct (map thMetric (probeThresholds p)) \<and>
        (\<forall>th \<in> set (probeThresholds p). sound_threshold th))"

lemma NewObservation_genuine: "NewObservation pid tm e sc cls msg = Inr ob \<Longrightarrow> genuine ob"
  by (auto simp: NewObservation_Inr genuine_def)

lemma probe_inv_frame:
  "pwProbes v = pwProbes w \<Longrightarrow> set (pwRows v) \<subseteq> set (pwRows w) \<Longrightarrow> pwIncidents v = pwIncidents w \<Longrightarrow>
   pwMinted v = pwMinted w \<Longrightarrow> probe_inv cvt w \<Longrightarrow> probe_inv cvt v"
  by (auto simp: probe_inv_def incidentsOf_def issuedIDs_def)

lemma prune_rows:
  "foldl (\<lambda>(kept, pruned) ob. if obAt ob < cutoff then (kept, pruned + 1) else (kept @ [ob], pruned))
     (k0, n0 :: int) rows =
   (k0 @ filter (\<lambda>ob. \<not> obAt ob < cutoff) rows, n0 + int (length (filter (\<lambda>ob. obAt ob < cutoff) rows)))"
  by (induction rows arbitrary: k0 n0) auto

lemma PruneBefore_run:
  "run_state (FakeObservationRepo_PruneBefore cutoff) w =
     (Inr (int (length (filter (\<lambda>ob. obAt ob < cutoff) (pwRows w)))),
      w\<lparr>pwRows := filter (\<lambda>ob. \<not> obAt ob < cutoff) (pwRows w)\<rparr>)"
  by (simp add: FakeObservationRepo_PruneBefore_def prune_rows)

text \<open>One probe call over the in-memory repositories, case by case.\<close>

lemma run_probe_run:
  assumes "remote prober"
  shows "run_state (RunProbe_Execute (fakeRunProbe srt prober timeout) i) w =
    (case DAList.lookup (pwProbes w) i of
       None \<Rightarrow> ((None, Some ErrProbeNotFound), w)
     | Some p \<Rightarrow>
         if \<not> probeEnabled p then ((None, Some ErrProbeDisabled), w)
         else let (res, v) = run_state (prober (probeTarget p)
                    (if timeout = 0 then DefaultProbeTimeout else timeout)) w in
           (case NewObservation (probeId p) (pwNow w) (prElapsedMS res) (prStatusCode res)
                   (prErrorClass res) (prErrorMsg res) of
              Inl e \<Rightarrow> ((None, Some (WrapProbe ''probeapp: build observation: '' (ErrObservation e))), v)
            | Inr ob \<Rightarrow> ((Some ob, None), v\<lparr>pwRows := pwRows w @ [ob]\<rparr>)))"
proof -
  have "pwNow v = pwNow w \<and> pwRows v = pwRows w" if "run_state (prober t d) w = (res, v)" for t d res v
    using assms that unfolding remote_def Let_def by (metis snd_conv)
  then show ?thesis
    by (auto simp: RunProbe_Execute_def fakeRunProbe_def fakeProbeRepo_def fakeObservationRepo_def
        FakeProbeRepo_FindByID_def FakeObservationRepo_Save_def Let_def
        split: option.split sum.split prod.split)
qed

lemma run_probe_inv:
  assumes "remote prober" and "probe_inv cvt w"
  shows "probe_inv cvt (snd (run_state (RunProbe_Execute (fakeRunProbe srt prober timeout) i) w))"
proof -
  have step: "probe_inv cvt v \<and> (genuine ob \<longrightarrow> probe_inv cvt (v\<lparr>pwRows := pwRows w @ [ob]\<rparr>))"
    if "run_state (prober t d) w = (res, v)" for t d res v ob
  proof -
    have v: "pwProbes v = pwProbes w" "pwRows v = pwRows w" "pwIncidents v = pwIncidents w"
      "pwMinted v = pwMinted w"
      using assms(1) that unfolding remote_def Let_def by (metis snd_conv)+
    then show ?thesis using assms(2) by (auto simp: probe_inv_def incidentsOf_def issuedIDs_def)
  qed
  show ?thesis
    unfolding run_probe_run [OF assms(1)]
    using assms(2) step
    by (auto simp: Let_def split: option.split sum.split prod.split dest: NewObservation_genuine)
qed

lemma evaluate_run_inv:
  assumes "run_state (EvaluateWindow_Execute cvt srt (fakeEvaluate srt srti n) i) w = (r, w')"
    and "probe_inv cvt w"
  shows "probe_inv cvt w'"
proof -
  have "fake.kept w" using assms(2) by (simp add: fake.kept_def probe_inv_def)
  from fake.execute_keeps [OF assms(1) this] show ?thesis
    using assms(2) by (auto simp: fake.kept_def probe_inv_def)
qed

lemma save_probe_inv:
  assumes "NewProbe parseURL cvt i target sched ths enabled = Inr p" and "probe_inv cvt w"
  shows "probe_inv cvt (snd (run_state (FakeProbeRepo_Save p) w))"
proof -
  have "list_all (\<lambda>th. Threshold_Validate cvt th = None) ths" "distinct (map thMetric ths)"
    "p = RehydrateProbe i target sched ths enabled"
    using assms(1) checkThresholds_None [of cvt 0 "[]" ths]
    by (auto simp: NewProbe_def RehydrateProbe_def split: option.splits if_splits)
  then have "distinct (map thMetric (probeThresholds p))"
    "\<forall>th \<in> set (probeThresholds p). sound_threshold th"
    using Threshold_Validate_sound by (auto simp: RehydrateProbe_def list_all_iff)
  then show ?thesis
    using assms(2)
    by (auto simp: probe_inv_def FakeProbeRepo_Save_def DAList.lookup_update incidentsOf_def
        issuedIDs_def)
qed

lemma probe_system_inv: "probe_system cvt w \<Longrightarrow> probe_inv cvt w"
proof (induction rule: probe_system.induct)
  case (start w)
  then show ?case by (simp add: probe_inv_def well_kept_def incidentsOf_def opens_def ran_def)
next
  case (delete w i)
  then show ?case
    by (auto simp: probe_inv_def FakeProbeRepo_Delete_def incidentsOf_def issuedIDs_def split: if_splits)
next
  case (evaluate w srt srti n i)
  then show ?case by (metis evaluate_run_inv surjective_pairing)
next
  case (prune w cutoff)
  then show ?case by (auto simp: PruneBefore_run intro: probe_inv_frame [rotated -1])
next
  case (tick w t)
  then show ?case by (auto intro: probe_inv_frame [rotated -1])
qed (simp_all add: save_probe_inv run_probe_inv)

section \<open>Incidents\<close>

text \<open>
  Property C31. In every reachable world of the probe system there is at most one open incident for
  a probe and a metric, every stored incident is filed under an id that was minted for it, every
  stored observation is one its constructor accepts, and every stored probe has sound thresholds on
  distinct metrics.
\<close>

theorem probe_system_reachable:
  assumes "probe_system cvt w"
  shows "well_kept (incidentsOf w) (issuedIDs w) \<and> list_all genuine (pwRows w) \<and>
    (\<forall>i p. DAList.lookup (pwProbes w) i = Some p \<longrightarrow> probeId p = i \<and>
       distinct (map thMetric (probeThresholds p)) \<and> list_all sound_threshold (probeThresholds p))"
  using probe_system_inv [OF assms] by (auto simp: probe_inv_def list_all_iff)

text \<open>What a threshold of a probe measures in a world of the in-memory repositories.\<close>

definition windowMetric ::
  "(float64 \<Rightarrow> int) \<Rightarrow> (observation list \<Rightarrow> observation list) \<Rightarrow> probe_world \<Rightarrow> probe_id \<Rightarrow> threshold
   \<Rightarrow> float64 option" where
  "windowMetric cvt srt w pid th =
     computeMetric cvt srt (thMetric th) (f64_toInt cvt (thValue th))
       (srt (filter (\<lambda>ob. obProbeID ob = pid \<and> windowStart cvt th (pwNow w) \<le> obAt ob \<and> obAt ob \<le> pwNow w)
          (pwRows w)))"

lemma windowMetric_measured:
  assumes "pwRows w' = pwRows w"
  shows "fake.measured srt srti n cvt srt pid (pwNow w) w' th = windowMetric cvt srt w pid th"
  using assms unfolding fake.measured_def windowMetric_def
  by (simp add: fakeEvaluate_def fakeObservationRepo_def
      FakeObservationRepo_ListWindow_def linorder_not_less)

section \<open>A concrete run\<close>

text \<open>A probe that fires after one failure, called once against an unreachable host.\<close>

definition demoThreshold :: threshold where
  "demoThreshold = \<lparr>thMetric = ThresholdConsecutiveFailures, thValue = Finite 1, thWindowSec = 10,
     thLabel = []\<rparr>"

definition demoTarget :: probe_target where
  "demoTarget = \<lparr>ptKind = TargetHTTP, ptURL = ''http://h'', ptMethod = ''GET'', ptHeaders = None,
     ptBody = None\<rparr>"

definition demoProbe :: probe where
  "demoProbe = RehydrateProbe ''p'' demoTarget \<lparr>psCronExpr = [], psInterval = 1000000000\<rparr>
     [demoThreshold] True"

definition demoStart :: probe_world where
  "demoStart = \<lparr>pwProbes = DAList.empty, pwRows = [], pwIncidents = DAList.empty, pwMinted = 0,
     pwStatic = Some \<lparr>prElapsedMS = 7, prStatusCode = 0, prErrorClass = ErrorNetwork, prErrorMsg = []\<rparr>,
     pwSequence = [], pwIdx = 0, pwCalls = 0, pwNow = 100000000000\<rparr>"

definition demoObs :: observation where
  "demoObs = \<lparr>obProbeID = ''p'', obAt = 100000000000, obElapsedMS = 7, obStatusCode = 0,
     obErrorClass = ErrorNetwork, obErrorMsg = []\<rparr>"

definition demoWorld :: probe_world where
  "demoWorld = demoStart\<lparr>pwProbes := DAList.update ''p'' demoProbe DAList.empty, pwRows := [demoObs],
     pwCalls := 1\<rparr>"

lemma remote_fake: "remote FakeHTTPProber_Probe"
  by (auto simp: remote_def FakeHTTPProber_Probe_def Let_def split: option.splits)

lemma demoProbe_new:
  "NewProbe (\<lambda>_. Some (''http'', ''h'')) cvt ''p'' demoTarget \<lparr>psCronExpr = [], psInterval = 1000000000\<rparr>
     [demoThreshold] True = Inr demoProbe"
proof -
  have t: "TrimSpace ''p'' \<noteq> []" "TrimSpace ''http://h'' \<noteq> []" "TrimSpace ''GET'' \<noteq> []" "TrimSpace [] = []"
    by code_simp+
  have f: "f64_ofInt (f64_toInt cvt (Finite 1)) = Finite 1"
    using f64_ofInt_exact [of 1] by (simp add: f64_toInt_def truncRat_def)
  have "Threshold_Validate cvt demoThreshold = None"
    using f by (simp add: demoThreshold_def Threshold_Validate_def f64_le_def f64_eq_def)
  then show ?thesis
    using t by (simp add: NewProbe_def ProbeTarget_Validate_def ProbeSchedule_Validate_def demoTarget_def
        TargetKind_Valid_def TargetHTTP_def TargetRPC_def second_def demoProbe_def RehydrateProbe_def)
qed

lemma demoWorld_reached: "probe_system cvt demoWorld"
proof -
  have "probe_system cvt demoStart" by (rule probe_system.start) (simp_all add: demoStart_def)
  from probe_system.save [OF this demoProbe_new]
  have s: "probe_system cvt (demoStart\<lparr>pwProbes := DAList.update ''p'' demoProbe DAList.empty\<rparr>)"
    by (simp add: FakeProbeRepo_Save_def demoStart_def demoProbe_def RehydrateProbe_def)
  have "run_state (RunProbe_Execute (fakeRunProbe (sort_key obAt) FakeHTTPProber_Probe 0) ''p'')
      (demoStart\<lparr>pwProbes := DAList.update ''p'' demoProbe DAList.empty\<rparr>) = ((Some demoObs, None), demoWorld)"
    unfolding run_probe_run [OF remote_fake]
    by (simp add: demoStart_def demoProbe_def RehydrateProbe_def FakeHTTPProber_Probe_def NewObservation_def
        error_class_defs demoObs_def demoWorld_def)
  with probe_system.call [OF s remote_fake, of "sort_key obAt" 0 "''p''"] show ?thesis by simp
qed

lemma demo_metric: "windowMetric cvt (sort_key obAt) demoWorld ''p'' demoThreshold = Some (Finite 1)"
proof -
  have "f64_ofInt 1 = Finite 1" using f64_ofInt_exact [of 1] by simp
  then show ?thesis
    by (simp add: windowMetric_def demoWorld_def demoStart_def demoObs_def demoThreshold_def
        windowStart_def wrap64_id second_def computeMetric_def consecutiveFailures_def f64_toInt_def
        truncRat_def ErrorClass_IsError_def error_class_defs)
qed

lemma demo_evaluates:
  "\<exists>w'. run_state (EvaluateWindow_Execute cvt (sort_key obAt) (fakeEvaluate (sort_key obAt) id 0) ''p'')
     demoWorld = (None, w')"
proof -
  let ?uc = "fakeEvaluate (sort_key obAt) id 0"
  have look: "DAList.lookup (pwProbes demoWorld) ''p'' = Some demoProbe" by (simp add: demoWorld_def)
  have obs: "fst (run_state (ObsRepo_ListWindow (ewObservations ?uc) ''p''
      (windowStart cvt demoThreshold 100000000000) 100000000000) demoWorld) = Inr [demoObs]"
    by (simp add: fake_defs demoWorld_def demoStart_def demoObs_def demoThreshold_def windowStart_def
        wrap64_id second_def)
  have m: "computeMetric cvt (sort_key obAt) (thMetric demoThreshold)
      (f64_toInt cvt (thValue demoThreshold)) [demoObs] = Some (Finite 1)"
    using demo_metric [of cvt]
    by (simp add: windowMetric_def demoWorld_def demoStart_def demoObs_def demoThreshold_def
        windowStart_def wrap64_id second_def)
  have l: "run_state (ObsRepo_ListWindow (ewObservations ?uc) ''p''
      (windowStart cvt demoThreshold 100000000000) 100000000000) demoWorld = (Inr [demoObs], demoWorld)"
    using obs fake.reads(2) by (metis prod.collapse)
  have f: "run_state (IncRepo_FindOpen (ewIncidents ?uc) ''p'' (thMetric demoThreshold)) demoWorld =
      (Inr None, demoWorld)"
    by (simp add: fake_defs demoWorld_def demoStart_def DAList.empty.rep_eq)
  have tr: "f64_le (thValue demoThreshold) (Finite 1)"
    by (simp add: demoThreshold_def f64_le_def f64_eq_def)
  have "\<exists>w'. run_state (transition (sort_key obAt) ?uc ''p'' demoThreshold 100000000000 [demoObs] (Finite 1) None)
      demoWorld = (None, w')"
    using tr by (simp add: transition_def fake_defs NewIncident_def Breach_Validate_def mintedID_def
        demoThreshold_def)
  then have "\<exists>w'. run_state (evaluateThreshold cvt (sort_key obAt) ?uc ''p'' demoThreshold 100000000000)
      demoWorld = (None, w')"
    by (simp add: evaluateThreshold_def l f m)
  moreover have "probeId demoProbe = ''p''" "probeThresholds demoProbe = [demoThreshold]"
    by (simp_all add: demoProbe_def RehydrateProbe_def)
  moreover have "fst (run_state (ewClock ?uc) demoWorld) = 100000000000"
    "fst (run_state (ProbeRepo_FindByID (ewProbes ?uc) ''p'') demoWorld) = Inr demoProbe"
    using look by (simp_all add: fake_defs) (simp add: demoWorld_def demoStart_def)
  ultimately show ?thesis unfolding fake.execute_run by auto
qed

theorem probe_system_reachable_witness:
  "well_kept (incidentsOf demoWorld) (issuedIDs demoWorld) \<and> genuine demoObs \<and>
   probeThresholds demoProbe = [demoThreshold]"
  using probe_system_reachable [OF demoWorld_reached]
  by (simp add: demoWorld_def demoProbe_def RehydrateProbe_def)

text \<open>
  Property C32. A successful evaluation settles every threshold of the probe: where the window has
  enough observations to measure, afterwards an incident is open for the probe and the metric if
  and only if the measured value reaches the threshold. The evaluation reads but does not change
  probes, observations and the clock.
\<close>

theorem evaluate_settles:
  assumes "probe_system cvt w"
    and "run_state (EvaluateWindow_Execute cvt srt (fakeEvaluate srt srti n) i) w = (None, w')"
    and "DAList.lookup (pwProbes w) i = Some p" and "th \<in> set (probeThresholds p)"
    and "windowMetric cvt srt w i th = Some v"
  shows "(opens (incidentsOf w') i (thMetric th) \<noteq> {} \<longleftrightarrow> f64_le (thValue th) v) \<and>
    pwProbes w' = pwProbes w \<and> pwRows w' = pwRows w \<and> pwNow w' = pwNow w"
proof -
  have inv: "fake.kept w" "probeId p = i" "distinct (map thMetric (probeThresholds p))"
    using probe_system_inv [OF assms(1)] assms(3) by (auto simp: fake.kept_def probe_inv_def)
  have same: "pwProbes w' = pwProbes w \<and> pwRows w' = pwRows w \<and> pwNow w' = pwNow w"
    using fake.execute_keeps [OF assms(2) inv(1)] by simp
  have "fst (run_state (ProbeRepo_FindByID (ewProbes (fakeEvaluate srt srti n)) i) w) = Inr p"
    using assms(3) by (simp add: fakeEvaluate_def fakeProbeRepo_def FakeProbeRepo_FindByID_def)
  from fake.execute_settles [OF assms(2) inv(1) this inv(3) assms(4)]
  have "fake.settled srt srti n cvt srt i (pwNow w) w' th"
    by (simp add: inv(2) fakeEvaluate_def)
  then show ?thesis
    using same assms(5) windowMetric_measured [of w' w] by (simp add: fake.settled_def)
qed

text \<open>
  Property C33. Evaluating is idempotent: after a successful evaluation, evaluating the same probe
  again at the same time succeeds and changes nothing at all, so that no duplicate incident is
  opened however often the scheduler fires.
\<close>

theorem evaluate_idempotent:
  assumes "probe_system cvt w"
    and "run_state (EvaluateWindow_Execute cvt srt (fakeEvaluate srt srti n) i) w = (None, w')"
  shows "run_state (EvaluateWindow_Execute cvt srt (fakeEvaluate srt srti n) i) w' = (None, w')"
proof -
  have find: "fst (run_state (ProbeRepo_FindByID (ewProbes (fakeEvaluate srt srti n)) i) w) =
      (case DAList.lookup (pwProbes w) i of None \<Rightarrow> Inl ErrProbeNotFound | Some p \<Rightarrow> Inr p)"
    by (simp add: fakeEvaluate_def fakeProbeRepo_def FakeProbeRepo_FindByID_def)
  then obtain p where p: "DAList.lookup (pwProbes w) i = Some p"
    using assms(2) unfolding fake.execute_run by (cases "DAList.lookup (pwProbes w) i") auto
  have inv: "fake.kept w" "distinct (map thMetric (probeThresholds p))"
    using probe_system_inv [OF assms(1)] p by (auto simp: fake.kept_def probe_inv_def)
  show ?thesis
    by (rule fake.execute_again [OF assms(2) inv(1) _ inv(2)]) (simp add: find p)
qed

theorem evaluate_settles_witness:
  "\<exists>w'. run_state (EvaluateWindow_Execute (\<lambda>_. 0) (sort_key obAt) (fakeEvaluate (sort_key obAt) id 0) ''p'')
       demoWorld = (None, w') \<and>
     opens (incidentsOf w') ''p'' ThresholdConsecutiveFailures \<noteq> {} \<and> pwRows w' = [demoObs]"
proof -
  obtain w' where run: "run_state (EvaluateWindow_Execute (\<lambda>_. 0) (sort_key obAt)
      (fakeEvaluate (sort_key obAt) id 0) ''p'') demoWorld = (None, w')"
    using demo_evaluates by blast
  have "DAList.lookup (pwProbes demoWorld) ''p'' = Some demoProbe" by (simp add: demoWorld_def)
  moreover have "demoThreshold \<in> set (probeThresholds demoProbe)"
    by (simp add: demoProbe_def RehydrateProbe_def)
  ultimately have "(opens (incidentsOf w') ''p'' (thMetric demoThreshold) \<noteq> {} \<longleftrightarrow>
      f64_le (thValue demoThreshold) (Finite 1)) \<and> pwProbes w' = pwProbes demoWorld \<and>
      pwRows w' = pwRows demoWorld \<and> pwNow w' = pwNow demoWorld"
    using demo_metric by (intro evaluate_settles [OF demoWorld_reached run])
  then show ?thesis using run by (auto simp: demoThreshold_def f64_le_Finite demoWorld_def)
qed

theorem evaluate_idempotent_witness:
  "\<exists>w'. run_state (EvaluateWindow_Execute (\<lambda>_. 0) (sort_key obAt) (fakeEvaluate (sort_key obAt) id 0) ''p'')
       demoWorld = (None, w') \<and>
     run_state (EvaluateWindow_Execute (\<lambda>_. 0) (sort_key obAt) (fakeEvaluate (sort_key obAt) id 0) ''p'')
       w' = (None, w')"
proof -
  obtain w' where run: "run_state (EvaluateWindow_Execute (\<lambda>_. 0) (sort_key obAt)
      (fakeEvaluate (sort_key obAt) id 0) ''p'') demoWorld = (None, w')"
    using demo_evaluates by blast
  with evaluate_idempotent [OF demoWorld_reached run] show ?thesis by blast
qed

section \<open>The HTTP prober\<close>

lemma runeStart_le: "runeStart s e \<le> e"
  by (induction e) (auto intro: le_SucI)

lemma runeStart_stops: "runeStart s e = 0 \<or> \<not> contByte (s ! runeStart s e)"
  by (induction e) auto

lemma runeStart_skipped: "runeStart s e < j \<Longrightarrow> j \<le> e \<Longrightarrow> contByte (s ! j)"
  by (induction e) (auto simp: le_Suc_eq split: if_splits)

text \<open>
  The message of a failed call is at most 512 bytes, a message that fits is kept
  whole, and a longer one is cut to one of its beginnings without splitting a UTF-8 sequence: the
  cut (before trailing NUL bytes are dropped) is at most at byte 512, the byte after it is not a
  continuation byte, and everything between it and byte 512 is.
\<close>

theorem truncate_message:
  "length (truncateMsg s) \<le> ErrMsgMaxLen \<and>
   (if length s \<le> ErrMsgMaxLen then truncateMsg s = s
    else \<exists>e \<le> ErrMsgMaxLen. truncateMsg s = rev (dropWhile (\<lambda>c. c = CHR 0x00) (rev (take e s))) \<and>
      (e = 0 \<or> \<not> contByte (s ! e)) \<and> list_all contByte (map ((!) s) [Suc e..<Suc ErrMsgMaxLen]))"
proof (cases "length s \<le> ErrMsgMaxLen")
  case False
  let ?e = "runeStart s ErrMsgMaxLen"
  have "length (truncateMsg s) \<le> ?e"
    using False length_dropWhile_le [of "\<lambda>c. c = CHR 0x00" "rev (take ?e s)"]
    by (simp add: truncateMsg_def)
  then have "length (truncateMsg s) \<le> ErrMsgMaxLen" using runeStart_le [of s ErrMsgMaxLen] by linarith
  moreover have "list_all contByte (map ((!) s) [Suc ?e..<Suc ErrMsgMaxLen])"
    using runeStart_skipped [of s ErrMsgMaxLen] by (auto simp: list_all_iff)
  ultimately show ?thesis
    using False runeStart_le [of s ErrMsgMaxLen] runeStart_stops [of s ErrMsgMaxLen]
    by (auto simp: truncateMsg_def)
qed (simp add: truncateMsg_def)

theorem truncate_message_witness:
  "length (truncateMsg (replicate 600 CHR ''x'')) \<le> ErrMsgMaxLen"
  using truncate_message [of "replicate 600 CHR ''x''"] by blast

lemma truncate_length: "length (truncateMsg s) \<le> ErrMsgMaxLen"
  using length_dropWhile_le [of "\<lambda>c. c = CHR 0x00" "rev (take (runeStart s ErrMsgMaxLen) s)"]
    runeStart_le [of s ErrMsgMaxLen]
  by (auto simp: truncateMsg_def)

lemma classifyResponse_consistent:
  "consistent_status (prErrorClass (classifyResponse resp d)) (respStatusCode resp) \<longleftrightarrow>
     respStatusCode resp = 0 \<or> 100 \<le> respStatusCode resp \<and> respStatusCode resp \<le> 599"
  by (auto simp: classifyResponse_def consistent_status_def error_class_defs Let_def)

lemma classifyResponse_parts [simp]:
  "prStatusCode (classifyResponse resp d) = respStatusCode resp"
  "prElapsedMS (classifyResponse resp d) = milliseconds d"
  "length (prErrorMsg (classifyResponse resp d)) \<le> ErrMsgMaxLen"
  by (simp_all add: classifyResponse_def Let_def truncate_length)

text \<open>What the HTTP prober returns, whatever the transport did.\<close>

lemma Prober_Probe_result:
  assumes "run_state (Prober_Probe newRequest headerSet transport t d) w = (res, v)"
    and "\<And>req d w. 0 \<le> hcElapsed (fst (run_state (transport req d) w))"
  shows "0 \<le> prElapsedMS res" "length (prErrorMsg res) \<le> ErrMsgMaxLen"
    "consistent_status (prErrorClass res) (prStatusCode res) \<longleftrightarrow>
       prStatusCode res = 0 \<or> 100 \<le> prStatusCode res \<and> prStatusCode res \<le> 599"
proof -
  have "0 \<le> prElapsedMS res \<and> length (prErrorMsg res) \<le> ErrMsgMaxLen \<and>
    (consistent_status (prErrorClass res) (prStatusCode res) \<longleftrightarrow>
       prStatusCode res = 0 \<or> 100 \<le> prStatusCode res \<and> prStatusCode res \<le> 599)"
  proof (cases "buildRequest newRequest headerSet t")
    case (Inl err)
    then show ?thesis
      using assms(1) by (auto simp: Prober_Probe_def truncate_length consistent_status_def error_class_defs)
  next
    case (Inr req)
    obtain c v' where c: "run_state (transport req d) w = (c, v')" by force
    have "0 \<le> hcElapsed c" using assms(2) [of req d w] c by simp
    then have ms: "0 \<le> milliseconds (hcElapsed c)" by (simp add: milliseconds_def)
    show ?thesis
    proof (cases "hcResult c")
      case (Inl err)
      then have "res = \<lparr>prElapsedMS = milliseconds (hcElapsed c), prStatusCode = 0,
          prErrorClass = classifyTransportError (hcCtxErr c) err, prErrorMsg = truncateMsg (teText err)\<rparr>"
        using assms(1) Inr c by (auto simp: Prober_Probe_def)
      then show ?thesis
        using ms by (simp add: truncate_length consistent_status_def classifyTransportError_def error_class_defs)
    next
      case (Inr resp)
      then have "res = classifyResponse resp (hcElapsed c)"
        using assms(1) \<open>buildRequest newRequest headerSet t = Inr req\<close> c by (auto simp: Prober_Probe_def)
      then show ?thesis using ms classifyResponse_consistent by simp
    qed
  qed
  then show "0 \<le> prElapsedMS res" "length (prErrorMsg res) \<le> ErrMsgMaxLen"
    "consistent_status (prErrorClass res) (prStatusCode res) \<longleftrightarrow>
       prStatusCode res = 0 \<or> 100 \<le> prStatusCode res \<and> prStatusCode res \<le> 599" by simp_all
qed

text \<open>A status code the observation constructor refuses for its range.\<close>

lemma NewObservation_range:
  "pid \<noteq> [] \<Longrightarrow> tm \<noteq> 0 \<Longrightarrow> 0 \<le> e \<Longrightarrow> \<not> (sc = 0 \<or> 100 \<le> sc \<and> sc \<le> 599) \<Longrightarrow>
   NewObservation pid tm e sc cls msg = Inl (ObsStatusRange sc)"
  by (auto simp: NewObservation_def)

text \<open>
  A call of an enabled probe over the HTTP prober never produces an inconsistent
  observation: on every transport failure, and on every response with a status from 100 to 599,
  exactly one observation is stored and returned, with the prober's status, class and message
  unchanged. A response with another status (a server may send 600 to 999) is not stored: the call
  returns an error instead.
\<close>

theorem http_probe_recorded:
  assumes "remote (Prober_Probe newRequest headerSet transport)"
    and "\<And>req d w. 0 \<le> hcElapsed (fst (run_state (transport req d) w))"
    and "DAList.lookup (pwProbes w) i = Some p" and "probeEnabled p" and "probeId p \<noteq> []"
    and "pwNow w \<noteq> 0" and "timeout \<noteq> 0"
    and "run_state (Prober_Probe newRequest headerSet transport (probeTarget p) timeout) w = (res, v)"
    and "run_state (RunProbe_Execute
           (fakeRunProbe srt (Prober_Probe newRequest headerSet transport) timeout) i) w = (out, w')"
  shows "if prStatusCode res = 0 \<or> 100 \<le> prStatusCode res \<and> prStatusCode res \<le> 599
    then let ob = \<lparr>obProbeID = probeId p, obAt = pwNow w, obElapsedMS = prElapsedMS res,
                   obStatusCode = prStatusCode res, obErrorClass = prErrorClass res,
                   obErrorMsg = prErrorMsg res\<rparr>
         in out = (Some ob, None) \<and> pwRows w' = pwRows w @ [ob]
    else out = (None, Some (WrapProbe ''probeapp: build observation: ''
           (ErrObservation (ObsStatusRange (prStatusCode res))))) \<and> pwRows w' = pwRows w"
proof -
  note res = Prober_Probe_result [OF assms(8,2)]
  have rows: "pwRows v = pwRows w"
    using assms(1,8) unfolding remote_def Let_def by (metis snd_conv)
  show ?thesis
  proof (cases "prStatusCode res = 0 \<or> 100 \<le> prStatusCode res \<and> prStatusCode res \<le> 599")
    case True
    then have "NewObservation (probeId p) (pwNow w) (prElapsedMS res) (prStatusCode res)
        (prErrorClass res) (prErrorMsg res) =
      Inr \<lparr>obProbeID = probeId p, obAt = pwNow w, obElapsedMS = prElapsedMS res,
           obStatusCode = prStatusCode res, obErrorClass = prErrorClass res, obErrorMsg = prErrorMsg res\<rparr>"
      using res assms(5,6) by (simp add: NewObservation_Inr)
    then show ?thesis
      using True assms(3,4,7,8,9) by (auto simp: run_probe_run [OF assms(1)] Let_def)
  next
    case False
    then have "NewObservation (probeId p) (pwNow w) (prElapsedMS res) (prStatusCode res)
        (prErrorClass res) (prErrorMsg res) = Inl (ObsStatusRange (prStatusCode res))"
      using res(1) assms(5,6) by (intro NewObservation_range) auto
    then show ?thesis
      using False assms(3,4,7,8,9) rows by (simp add: run_probe_run [OF assms(1)])
  qed
qed

text \<open>A server that answers with status 666.\<close>

definition oddServer :: "http_request \<Rightarrow> duration \<Rightarrow> (probe_world, http_call) state" where
  "oddServer req d = State_Monad.return
     \<lparr>hcResult = Inr \<lparr>respStatusCode = 666, respStatus = ''666''\<rparr>, hcCtxErr = None, hcElapsed = 3000000\<rparr>"

theorem http_probe_recorded_witness:
  "\<exists>w'. run_state (RunProbe_Execute (fakeRunProbe (sort_key obAt)
       (Prober_Probe (\<lambda>_ _. None) (\<lambda>k v h. h) oddServer) 5) ''p'') demoWorld =
     ((None, Some (WrapProbe ''probeapp: build observation: '' (ErrObservation (ObsStatusRange 666)))), w') \<and>
     pwRows w' = [demoObs]"
proof -
  let ?P = "Prober_Probe (\<lambda>_ _. None) (\<lambda>k v h. h) oddServer"
  let ?uc = "fakeRunProbe (sort_key obAt) ?P 5"
  have P: "run_state (?P t d) w = (classifyResponse \<lparr>respStatusCode = 666, respStatus = ''666''\<rparr> 3000000, w)"
    for t d w by (simp add: Prober_Probe_def buildRequest_def oddServer_def Let_def)
  have remote: "remote ?P" unfolding remote_def Let_def P by simp
  have elapsed: "\<And>req d w. 0 \<le> hcElapsed (fst (run_state (oddServer req d) w))"
    by (simp add: oddServer_def)
  have p: "DAList.lookup (pwProbes demoWorld) ''p'' = Some demoProbe" "probeEnabled demoProbe"
    "probeId demoProbe \<noteq> []" "pwNow demoWorld \<noteq> 0"
    by (simp_all add: demoWorld_def demoStart_def demoProbe_def RehydrateProbe_def)
  obtain out w' where run: "run_state (RunProbe_Execute ?uc ''p'') demoWorld = (out, w')" by (rule prod.exhaust)
  have "pwRows demoWorld = [demoObs]" by (simp add: demoWorld_def)
  with http_probe_recorded [OF remote elapsed p _ P run] run show ?thesis by simp
qed

end
