(* ===== verification/Budget.thy ===== *)
theory Budget
  imports Ports
begin

text \<open>
  The rate-limit budget of \<open>internal/infrastructure/queue/budget.go\<close>: a fixed-window counter per
  source, kept in Redis. The two Lua scripts are translated command by command. Redis is an argument:
  a record of the commands the scripts call and of the transport \<open>EVAL\<close>, which runs a script as one
  atomic step but may fail before or after it. The numbers of Lua and Redis are integers here, exact
  below \<open>2 ^ 53\<close>.
\<close>

section \<open>Policies\<close>

record budget_policy =
  bpWindow :: duration
  bpLimit :: int

definition BudgetPolicy_IsZero :: "budget_policy \<Rightarrow> bool" where
  "BudgetPolicy_IsZero p \<longleftrightarrow> bpWindow p = 0 \<and> bpLimit p = 0"

type_synonym budget_config = "(source_id, budget_policy) gomap"

definition policyFor :: "budget_config \<Rightarrow> source_id \<Rightarrow> budget_policy option" where
  "policyFor cfg sid =
     (case map_of cfg sid of
        None \<Rightarrow> None
      | Some p \<Rightarrow> if BudgetPolicy_IsZero p then None else Some p)"

section \<open>Redis and the scripts\<close>

record 'w redis =
  rGET :: "string \<Rightarrow> ('w, int option) state"
  rINCRBY :: "string \<Rightarrow> int \<Rightarrow> ('w, int) state"
  rPEXPIRE :: "string \<Rightarrow> int \<Rightarrow> ('w, unit) state"
  rDEL :: "string \<Rightarrow> ('w, unit) state"
  rSETKEEP :: "string \<Rightarrow> int \<Rightarrow> ('w, unit) state"
  rEVAL :: "('w, int) state \<Rightarrow> ('w, string + int) state"

definition orZero :: "int option \<Rightarrow> int" where
  "orZero v = (case v of None \<Rightarrow> 0 | Some n \<Rightarrow> n)"

definition reserveScript :: "'w redis \<Rightarrow> string \<Rightarrow> int \<Rightarrow> int \<Rightarrow> int \<Rightarrow> ('w, int) state" where
  "reserveScript r key n limit ttl =
     do {
       got \<leftarrow> rGET r key;
       (let current = orZero got in
        if current + n > limit then State_Monad.return (- 1)
        else do {
          newval \<leftarrow> rINCRBY r key n;
          _ \<leftarrow> (if current = 0 then rPEXPIRE r key ttl else State_Monad.return ());
          State_Monad.return newval
        })
     }"

definition refundScript :: "'w redis \<Rightarrow> string \<Rightarrow> int \<Rightarrow> ('w, int) state" where
  "refundScript r key n =
     do {
       got \<leftarrow> rGET r key;
       (let newval = orZero got - n in
        if newval \<le> 0 then do { _ \<leftarrow> rDEL r key; State_Monad.return 0 }
        else do { _ \<leftarrow> rSETKEEP r key newval; State_Monad.return newval })
     }"

section \<open>\<open>RedisBudget\<close>\<close>

record 'w redis_budget =
  rbClient :: "'w redis"
  rbConfig :: budget_config
  rbKeyPrefix :: string
  rbNow :: "('w, gotime) state"

definition NewRedisBudget :: "'w redis \<Rightarrow> ('w, gotime) state \<Rightarrow> budget_config \<Rightarrow> 'w redis_budget" where
  "NewRedisBudget client now cfg =
     \<lparr>rbClient = client, rbConfig = cfg, rbKeyPrefix = ''csw:budget:'', rbNow = now\<rparr>"

definition WithKeyPrefix :: "string \<Rightarrow> 'w redis_budget \<Rightarrow> 'w redis_budget" where
  "WithKeyPrefix prefix b = b\<lparr>rbKeyPrefix := prefix\<rparr>"

text \<open>\<open>time.Time.Truncate\<close> rounds down to a multiple of the duration since the zero time; a duration
  that is not positive leaves the time. \<open>Unix\<close> counts seconds since 1970.\<close>

definition timeTruncate :: "gotime \<Rightarrow> duration \<Rightarrow> gotime" where
  "timeTruncate t d = (if d \<le> 0 then t else t - t mod d)"

definition timeUnix :: "gotime \<Rightarrow> int" where
  "timeUnix t = t div 1000000000 - 62135596800"

definition budgetKey :: "string \<Rightarrow> source_id \<Rightarrow> duration \<Rightarrow> gotime \<Rightarrow> string" where
  "budgetKey prefix sid window t =
     prefix @ sid @ '':'' @ FormatInt 10 (timeUnix (timeTruncate t window))"

definition currentKey :: "'w redis_budget \<Rightarrow> source_id \<Rightarrow> duration \<Rightarrow> ('w, string) state" where
  "currentKey b sid window =
     do {
       t \<leftarrow> rbNow b;
       State_Monad.return (budgetKey (rbKeyPrefix b) sid window t)
     }"

definition RedisBudget_Reserve :: "'w redis_budget \<Rightarrow> source_id \<Rightarrow> int \<Rightarrow> ('w, app_error option) state" where
  "RedisBudget_Reserve b sid n =
     (if n \<le> 0 then State_Monad.return None
      else if sid = [] then State_Monad.return (Some (ErrNew ''budget reserve: empty source id''))
      else case policyFor (rbConfig b) sid of
        None \<Rightarrow> State_Monad.return None
      | Some p \<Rightarrow>
          do {
            key \<leftarrow> currentKey b sid (bpWindow p);
            got \<leftarrow> rEVAL (rbClient b)
              (reserveScript (rbClient b) key n (bpLimit p) (milliseconds (bpWindow p) + 1000));
            State_Monad.return
              (case got of
                 Inl e \<Rightarrow> Some (Wrap ''budget reserve: '' (ErrNew e))
               | Inr result \<Rightarrow> if result = - 1 then Some ErrBudgetExhausted else None)
          })"

definition RedisBudget_Refund :: "'w redis_budget \<Rightarrow> source_id \<Rightarrow> int \<Rightarrow> ('w, app_error option) state" where
  "RedisBudget_Refund b sid n =
     (if n \<le> 0 then State_Monad.return None
      else if sid = [] then State_Monad.return (Some (ErrNew ''budget refund: empty source id''))
      else case policyFor (rbConfig b) sid of
        None \<Rightarrow> State_Monad.return None
      | Some p \<Rightarrow>
          do {
            key \<leftarrow> currentKey b sid (bpWindow p);
            got \<leftarrow> rEVAL (rbClient b) (refundScript (rbClient b) key n);
            State_Monad.return
              (case got of
                 Inl e \<Rightarrow> Some (Wrap ''budget refund: '' (ErrNew e))
               | Inr _ \<Rightarrow> None)
          })"

definition RedisBudget_Remaining :: "'w redis_budget \<Rightarrow> source_id \<Rightarrow> ('w, int) state" where
  "RedisBudget_Remaining b sid =
     (case policyFor (rbConfig b) sid of
        None \<Rightarrow> State_Monad.return (- 1)
      | Some p \<Rightarrow>
          do {
            key \<leftarrow> currentKey b sid (bpWindow p);
            got \<leftarrow> rGET (rbClient b) key;
            State_Monad.return (case got of None \<Rightarrow> bpLimit p | Some val \<Rightarrow> bpLimit p - val)
          })"

definition redisBudgetPort :: "'w redis_budget \<Rightarrow> 'w rate_limit_budget" where
  "redisBudgetPort b = \<lparr>Budget_Reserve = RedisBudget_Reserve b, Budget_Refund = RedisBudget_Refund b\<rparr>"

section \<open>What the commands do\<close>

text \<open>
  The documented effect of the commands on the live keys and their expiry, \<open>None\<close> for a key without
  one. \<open>INCRBY\<close> starts from 0 and keeps the expiry of a live key; \<open>SET\<close> with \<open>KEEPTTL\<close> keeps it.
\<close>

locale redis_server =
  fixes client :: "'w redis"
    and cells :: "'w \<Rightarrow> string \<rightharpoonup> int \<times> gotime option"
    and clockOf :: "'w \<Rightarrow> gotime"
  assumes get: "run_state (rGET client k) w = (map_option fst (cells w k), w)"
    and incrby: "run_state (rINCRBY client k n) w = (v, w') \<Longrightarrow>
        v = orZero (map_option fst (cells w k)) + n \<and> clockOf w' = clockOf w \<and>
        cells w' = (cells w)(k \<mapsto> (v, case cells w k of None \<Rightarrow> None | Some (_, e) \<Rightarrow> e))"
    and pexpire: "run_state (rPEXPIRE client k ttl) w = (u, w') \<Longrightarrow> 0 < ttl \<Longrightarrow>
        clockOf w' = clockOf w \<and>
        cells w' = (case cells w k of None \<Rightarrow> cells w
          | Some (v, _) \<Rightarrow> (cells w)(k \<mapsto> (v, Some (clockOf w + ttl * 1000000))))"
    and del: "run_state (rDEL client k) w = (u, w') \<Longrightarrow>
        clockOf w' = clockOf w \<and> cells w' = (cells w)(k := None)"
    and setkeep: "run_state (rSETKEEP client k v) w = (u, w') \<Longrightarrow>
        clockOf w' = clockOf w \<and>
        cells w' = (cells w)(k \<mapsto> (v, case cells w k of None \<Rightarrow> None | Some (_, e) \<Rightarrow> e))"
    and eval_ok: "run_state (rEVAL client s) w = (Inr v, w') \<Longrightarrow> run_state s w = (v, w')"
    and eval_err: "run_state (rEVAL client s) w = (Inl e, w') \<Longrightarrow> w' = w \<or> w' = snd (run_state s w)"
begin

definition value_at :: "'w \<Rightarrow> string \<Rightarrow> int" where
  "value_at w k = orZero (map_option fst (cells w k))"

lemma reserve_script_run:
  assumes "run_state (reserveScript client k n limit ttl) w = (v, w')" and "0 < ttl"
  shows "clockOf w' = clockOf w"
    and "if value_at w k + n > limit then v = - 1 \<and> cells w' = cells w
     else v = value_at w k + n \<and>
       cells w' = (cells w)(k \<mapsto> (value_at w k + n,
         if value_at w k = 0 then Some (clockOf w + ttl * 1000000)
         else case cells w k of None \<Rightarrow> None | Some (_, e) \<Rightarrow> e))"
proof -
  obtain v1 w1 where i: "run_state (rINCRBY client k n) w = (v1, w1)" by (rule prod.exhaust)
  obtain u w2 where p: "run_state (rPEXPIRE client k ttl) w1 = (u, w2)" by (rule prod.exhaust)
  note inc = incrby [OF i] and pex = pexpire [OF p assms(2)]
  have "clockOf w' = clockOf w \<and> (if value_at w k + n > limit then v = - 1 \<and> cells w' = cells w
     else v = value_at w k + n \<and>
       cells w' = (cells w)(k \<mapsto> (value_at w k + n,
         if value_at w k = 0 then Some (clockOf w + ttl * 1000000)
         else case cells w k of None \<Rightarrow> None | Some (_, e) \<Rightarrow> e)))"
    using assms(1) i p inc pex
    by (auto simp: reserveScript_def get value_at_def Let_def split: if_splits)
  then show "clockOf w' = clockOf w" and "if value_at w k + n > limit then v = - 1 \<and> cells w' = cells w
     else v = value_at w k + n \<and>
       cells w' = (cells w)(k \<mapsto> (value_at w k + n,
         if value_at w k = 0 then Some (clockOf w + ttl * 1000000)
         else case cells w k of None \<Rightarrow> None | Some (_, e) \<Rightarrow> e))" by simp_all
qed

lemma refund_script_run:
  assumes "run_state (refundScript client k n) w = (v, w')"
  shows "clockOf w' = clockOf w \<and>
    cells w' = (if value_at w k - n \<le> 0 then (cells w)(k := None)
      else (cells w)(k \<mapsto> (value_at w k - n, case cells w k of None \<Rightarrow> None | Some (_, e) \<Rightarrow> e)))"
proof -
  obtain u1 w1 where d: "run_state (rDEL client k) w = (u1, w1)" by (rule prod.exhaust)
  obtain u2 w2 where s: "run_state (rSETKEEP client k (value_at w k - n)) w = (u2, w2)" by (rule prod.exhaust)
  show ?thesis
    using assms d s del [OF d] setkeep [OF s]
    by (auto simp: refundScript_def get value_at_def Let_def split: if_splits)
qed

end

end
