(* ===== verification/BudgetProps.thy ===== *)
theory BudgetProps
  imports Budget
begin

text \<open>
  The budget over a Redis server with a clock: keys expire by themselves when their time has come.
  The trace relation lets any number of workers reserve and refund, for any source, while the clock
  moves on inside one window; the limit of a source is never exceeded, because the key of a window
  outlives it.
\<close>

section \<open>A Redis server\<close>

record redis_world =
  rwKeys :: "string \<rightharpoonup> int \<times> gotime option"
  rwNow :: gotime

definition liveCells :: "redis_world \<Rightarrow> string \<rightharpoonup> int \<times> gotime option" where
  "liveCells w k =
     (case rwKeys w k of
        None \<Rightarrow> None
      | Some (v, None) \<Rightarrow> Some (v, None)
      | Some (v, Some e) \<Rightarrow> if rwNow w < e then Some (v, Some e) else None)"

definition memIncr :: "string \<Rightarrow> int \<Rightarrow> redis_world \<Rightarrow> int \<times> redis_world" where
  "memIncr k n w =
     (let v = orZero (map_option fst (liveCells w k)) + n
      in (v, w\<lparr>rwKeys := (rwKeys w)(k \<mapsto> (v, case liveCells w k of None \<Rightarrow> None | Some (_, e) \<Rightarrow> e))\<rparr>))"

definition memExpire :: "string \<Rightarrow> int \<Rightarrow> redis_world \<Rightarrow> unit \<times> redis_world" where
  "memExpire k ttl w =
     (case liveCells w k of
        None \<Rightarrow> ((), w)
      | Some (v, _) \<Rightarrow> ((), w\<lparr>rwKeys := (rwKeys w)(k \<mapsto> (v, Some (rwNow w + ttl * 1000000)))\<rparr>))"

definition memSet :: "string \<Rightarrow> int \<Rightarrow> redis_world \<Rightarrow> unit \<times> redis_world" where
  "memSet k v w =
     ((), w\<lparr>rwKeys := (rwKeys w)(k \<mapsto> (v, case liveCells w k of None \<Rightarrow> None | Some (_, e) \<Rightarrow> e))\<rparr>)"

text \<open>The transport never fails here; failures are among the steps of the trace below.\<close>

definition memRedis :: "redis_world redis" where
  "memRedis =
     \<lparr>rGET = (\<lambda>k. State (\<lambda>w. (map_option fst (liveCells w k), w))),
      rINCRBY = (\<lambda>k n. State (memIncr k n)),
      rPEXPIRE = (\<lambda>k ttl. State (memExpire k ttl)),
      rDEL = (\<lambda>k. State (\<lambda>w. ((), w\<lparr>rwKeys := (rwKeys w)(k := None)\<rparr>))),
      rSETKEEP = (\<lambda>k v. State (memSet k v)),
      rEVAL = (\<lambda>s. State (\<lambda>w. (case run_state s w of (v, w') \<Rightarrow> (Inr v, w'))))\<rparr>"

lemma liveCells_upd:
  "(\<And>x. e = Some x \<Longrightarrow> rwNow w < x) \<Longrightarrow>
     liveCells (w\<lparr>rwKeys := (rwKeys w)(k \<mapsto> (v, e))\<rparr>) = (liveCells w)(k \<mapsto> (v, e))"
  by (cases e) (auto simp: fun_eq_iff liveCells_def split: option.split)

lemma liveCells_del: "liveCells (w\<lparr>rwKeys := (rwKeys w)(k := None)\<rparr>) = (liveCells w)(k := None)"
  by (auto simp: fun_eq_iff liveCells_def split: option.split)

lemma liveCells_later: "liveCells w k = Some (v, Some x) \<Longrightarrow> rwNow w < x"
  by (auto simp: liveCells_def split: option.splits if_splits)

lemma liveCells_keep:
  "liveCells (w\<lparr>rwKeys := (rwKeys w)(k \<mapsto> (v, case liveCells w k of None \<Rightarrow> None | Some (_, e) \<Rightarrow> e))\<rparr>) =
     (liveCells w)(k \<mapsto> (v, case liveCells w k of None \<Rightarrow> None | Some (_, e) \<Rightarrow> e))"
  by (rule liveCells_upd) (auto dest: liveCells_later split: option.splits)

interpretation mem: redis_server memRedis liveCells rwNow
proof (unfold_locales, goal_cases)
  case (3 k ttl w u w')
  then show ?case
    by (auto simp: memRedis_def memExpire_def split: option.splits intro!: liveCells_upd)
qed (auto simp: memRedis_def memIncr_def memSet_def liveCells_keep liveCells_del Let_def
    split: prod.splits)

section \<open>One window\<close>

lemma FormatInt_no_colon: "CHR '':'' \<notin> set (FormatInt 10 i)"
proof -
  have "digitChar d \<noteq> CHR '':''" if "d < 10" for d
  proof -
    have "digitVal (digitChar d) = Some d" using that by simp
    moreover have "digitVal CHR '':'' = None" by (simp add: digitVal_def)
    ultimately show ?thesis by auto
  qed
  then have "CHR '':'' \<notin> set (FormatNat 10 n)" for n
    using fmtDigits_bounded [of 10 _ n] by (fastforce simp: FormatNat_def)
  then show ?thesis by (simp add: FormatInt_def)
qed

lemma budgetKey_source: "budgetKey prefix s d t = budgetKey prefix s' d' t' \<Longrightarrow> s = s'"
proof -
  assume "budgetKey prefix s d t = budgetKey prefix s' d' t'"
  then have eq: "s @ '':'' @ FormatInt 10 (timeUnix (timeTruncate t d)) =
      s' @ '':'' @ FormatInt 10 (timeUnix (timeTruncate t' d'))" by (simp add: budgetKey_def)
  have split: "dropWhile (\<lambda>c. c \<noteq> CHR '':'') (rev (x @ '':'' @ FormatInt 10 i)) = CHR '':'' # rev x" for x i
  proof -
    have "dropWhile (\<lambda>c. c \<noteq> CHR '':'') (rev (FormatInt 10 i) @ CHR '':'' # rev x) =
        dropWhile (\<lambda>c. c \<noteq> CHR '':'') (CHR '':'' # rev x)"
      using FormatInt_no_colon [of i] by (intro dropWhile_append2) auto
    then show ?thesis by simp
  qed
  have "CHR '':'' # rev s = CHR '':'' # rev s'" using arg_cong [OF eq, of "\<lambda>z. dropWhile (\<lambda>c. c \<noteq> CHR '':'') (rev z)"]
    unfolding split .
  then show "s = s'" by simp
qed

definition memBudget :: "budget_config \<Rightarrow> string \<Rightarrow> redis_world redis_budget" where
  "memBudget cfg prefix =
     \<lparr>rbClient = memRedis, rbConfig = cfg, rbKeyPrefix = prefix, rbNow = State (\<lambda>w. (rwNow w, w))\<rparr>"

text \<open>
  The steps of one window, with what was granted to a source and what it gave back: reservations and
  refunds by any worker for any source, the passing of time up to the end of the window, and a
  reservation whose answer was lost, which the worker does not count as granted.
\<close>

inductive budget_trace ::
  "budget_config \<Rightarrow> string \<Rightarrow> source_id \<Rightarrow> duration \<Rightarrow> gotime \<Rightarrow> redis_world \<Rightarrow> int \<Rightarrow> int \<Rightarrow> bool"
  for cfg prefix sid window start where
  begin_window: "timeTruncate (rwNow w) window = start \<Longrightarrow>
    liveCells w (budgetKey prefix sid window start) = None \<Longrightarrow>
    budget_trace cfg prefix sid window start w 0 0"
| granted: "budget_trace cfg prefix sid window start w g f \<Longrightarrow> 0 < n \<Longrightarrow>
    run_state (RedisBudget_Reserve (memBudget cfg prefix) sid n) w = (None, w') \<Longrightarrow>
    budget_trace cfg prefix sid window start w' (g + n) f"
| not_granted: "budget_trace cfg prefix sid window start w g f \<Longrightarrow>
    budget_trace cfg prefix sid window start
      (snd (run_state (RedisBudget_Reserve (memBudget cfg prefix) sid n) w)) g f"
| refunded: "budget_trace cfg prefix sid window start w g f \<Longrightarrow> 0 \<le> n \<Longrightarrow>
    budget_trace cfg prefix sid window start
      (snd (run_state (RedisBudget_Refund (memBudget cfg prefix) sid n) w)) g (f + n)"
| other_reserve: "budget_trace cfg prefix sid window start w g f \<Longrightarrow> other \<noteq> sid \<Longrightarrow>
    budget_trace cfg prefix sid window start
      (snd (run_state (RedisBudget_Reserve (memBudget cfg prefix) other n) w)) g f"
| other_refund: "budget_trace cfg prefix sid window start w g f \<Longrightarrow> other \<noteq> sid \<Longrightarrow>
    budget_trace cfg prefix sid window start
      (snd (run_state (RedisBudget_Refund (memBudget cfg prefix) other n) w)) g f"
| tick: "budget_trace cfg prefix sid window start w g f \<Longrightarrow> rwNow w \<le> t \<Longrightarrow>
    timeTruncate t window = start \<Longrightarrow>
    budget_trace cfg prefix sid window start (w\<lparr>rwNow := t\<rparr>) g f"

lemma timeTruncate_again: "timeTruncate (timeTruncate t d) d = timeTruncate t d"
  by (simp add: timeTruncate_def)

lemma timeTruncate_bounds: "0 < d \<Longrightarrow> timeTruncate t d \<le> t \<and> t < timeTruncate t d + d"
  using pos_mod_bound [of d t] pos_mod_sign [of d t] by (simp add: timeTruncate_def)

lemma budgetKey_window:
  "timeTruncate t d = start \<Longrightarrow> budgetKey prefix sid d t = budgetKey prefix sid d start"
  by (auto simp: budgetKey_def timeTruncate_again)

lemma milliseconds_covers: "0 < d \<Longrightarrow> d \<le> (milliseconds d + 1000) * 1000000"
  using div_mult_mod_eq [of d 1000000] pos_mod_bound [of 1000000 d] by (simp add: milliseconds_def)

text \<open>Running the two operations over the server.\<close>

lemma mem_reserve:
  assumes "0 < n" and "sid \<noteq> []" and "policyFor cfg sid = Some p"
  shows "run_state (RedisBudget_Reserve (memBudget cfg prefix) sid n) w =
    (case run_state (reserveScript memRedis (budgetKey prefix sid (bpWindow p) (rwNow w)) n (bpLimit p)
            (milliseconds (bpWindow p) + 1000)) w of
       (v, w') \<Rightarrow> (if v = - 1 then Some ErrBudgetExhausted else None, w'))"
  using assms
  by (simp add: RedisBudget_Reserve_def memBudget_def currentKey_def memRedis_def split: prod.split)

lemma mem_refund:
  assumes "0 < n" and "sid \<noteq> []" and "policyFor cfg sid = Some p"
  shows "run_state (RedisBudget_Refund (memBudget cfg prefix) sid n) w =
    (None, snd (run_state (refundScript memRedis (budgetKey prefix sid (bpWindow p) (rwNow w)) n) w))"
  using assms
  by (simp add: RedisBudget_Refund_def memBudget_def currentKey_def memRedis_def split: prod.split)

lemma mem_idle:
  "n \<le> 0 \<or> sid = [] \<or> policyFor cfg sid = None \<Longrightarrow>
     snd (run_state (RedisBudget_Reserve (memBudget cfg prefix) sid n) w) = w \<and>
     snd (run_state (RedisBudget_Refund (memBudget cfg prefix) sid n) w) = w"
  by (auto simp: RedisBudget_Reserve_def RedisBudget_Refund_def memBudget_def)

section \<open>The limit holds\<close>

definition window_inv ::
  "budget_policy \<Rightarrow> string \<Rightarrow> source_id \<Rightarrow> gotime \<Rightarrow> redis_world \<Rightarrow> int \<Rightarrow> int \<Rightarrow> bool" where
  "window_inv p prefix sid start w g f \<longleftrightarrow>
     timeTruncate (rwNow w) (bpWindow p) = start \<and>
     (case liveCells w (budgetKey prefix sid (bpWindow p) start) of
        None \<Rightarrow> g \<le> f
      | Some (v, e) \<Rightarrow> 0 < v \<and> v \<le> bpLimit p \<and> g - f \<le> v \<and>
          (\<exists>x. e = Some x \<and> start + bpWindow p \<le> x))"

lemma window_inv_reserve:
  assumes "window_inv p prefix sid start w g f" and "0 < n" and "sid \<noteq> []"
    and "policyFor cfg sid = Some p" and "0 < bpWindow p"
    and "run_state (RedisBudget_Reserve (memBudget cfg prefix) sid n) w = (r, w')"
  shows "window_inv p prefix sid start w' (if r = None then g + n else g) f"
proof -
  let ?k = "budgetKey prefix sid (bpWindow p) start"
  let ?ttl = "milliseconds (bpWindow p) + 1000"
  have now: "timeTruncate (rwNow w) (bpWindow p) = start" using assms(1) by (simp add: window_inv_def)
  have ttl: "0 < ?ttl" "start + bpWindow p \<le> rwNow w + ?ttl * 1000000"
    using milliseconds_covers [OF assms(5)] timeTruncate_bounds [OF assms(5), of "rwNow w"] now assms(5)
    by (auto simp: milliseconds_def)
  obtain v where run: "run_state (reserveScript memRedis ?k n (bpLimit p) ?ttl) w = (v, w')"
      and r: "r = (if v = - 1 then Some ErrBudgetExhausted else None)"
    using assms(6) unfolding mem_reserve [OF assms(2-4)] budgetKey_window [OF now]
    by (auto split: prod.splits)
  note eff = mem.reserve_script_run [OF run ttl(1)]
  have val: "0 \<le> mem.value_at w ?k"
    using assms(1) by (auto simp: window_inv_def mem.value_at_def orZero_def split: option.splits)
  show ?thesis
  proof (cases "mem.value_at w ?k + n > bpLimit p")
    case True
    then show ?thesis using eff r now assms(1) by (simp add: window_inv_def)
  next
    case False
    then have "r = None" using eff(2) r val assms(2) by auto
    then show ?thesis
      using False eff assms(1,2) now ttl
      by (auto simp: window_inv_def mem.value_at_def orZero_def split: option.splits)
  qed
qed

lemma window_inv_refund:
  assumes "window_inv p prefix sid start w g f" and "0 < n" and "sid \<noteq> []"
    and "policyFor cfg sid = Some p"
  shows "window_inv p prefix sid start
    (snd (run_state (RedisBudget_Refund (memBudget cfg prefix) sid n) w)) g (f + n)"
proof -
  let ?k = "budgetKey prefix sid (bpWindow p) start"
  have now: "timeTruncate (rwNow w) (bpWindow p) = start" using assms(1) by (simp add: window_inv_def)
  obtain v w' where run: "run_state (refundScript memRedis ?k n) w = (v, w')" by (rule prod.exhaust)
  have "snd (run_state (RedisBudget_Refund (memBudget cfg prefix) sid n) w) = w'"
    unfolding mem_refund [OF assms(2-4)] budgetKey_window [OF now] by (simp add: run)
  then show ?thesis
    using mem.refund_script_run [OF run] assms(1,2) now
    by (auto simp: window_inv_def mem.value_at_def orZero_def split: option.splits)
qed

text \<open>An operation on another source leaves the key alone.\<close>

lemma script_frame:
  "k \<noteq> k' \<Longrightarrow> rwKeys (snd (run_state (reserveScript memRedis k' n limit ttl) w)) k = rwKeys w k"
  "rwNow (snd (run_state (reserveScript memRedis k' n limit ttl) w)) = rwNow w"
  "k \<noteq> k' \<Longrightarrow> rwKeys (snd (run_state (refundScript memRedis k' n) w)) k = rwKeys w k"
  "rwNow (snd (run_state (refundScript memRedis k' n) w)) = rwNow w"
  by (auto simp: reserveScript_def refundScript_def memRedis_def memIncr_def memExpire_def memSet_def
      Let_def split: option.splits)

lemma other_source:
  fixes cfg :: budget_config and prefix :: string and other :: source_id and n :: int and w :: redis_world
  assumes "other \<noteq> sid"
  defines "reserved \<equiv> snd (run_state (RedisBudget_Reserve (memBudget cfg prefix) other n) w)"
    and "refunded \<equiv> snd (run_state (RedisBudget_Refund (memBudget cfg prefix) other n) w)"
  shows "rwKeys reserved (budgetKey prefix sid d t) = rwKeys w (budgetKey prefix sid d t) \<and>
    rwNow reserved = rwNow w \<and>
    rwKeys refunded (budgetKey prefix sid d t) = rwKeys w (budgetKey prefix sid d t) \<and>
    rwNow refunded = rwNow w"
proof (cases "n \<le> 0 \<or> other = [] \<or> policyFor cfg other = None")
  case True
  then show ?thesis using mem_idle [of n other cfg prefix w] by (simp add: reserved_def refunded_def)
next
  case False
  then obtain p where p: "0 < n" "other \<noteq> []" "policyFor cfg other = Some p" by force
  have key: "budgetKey prefix sid d t \<noteq> budgetKey prefix other d' t'" for d' t'
    using budgetKey_source assms(1) by metis
  show ?thesis
    unfolding reserved_def refunded_def mem_reserve [OF p] mem_refund [OF p]
    using script_frame(1,3) [OF key] by (simp add: case_prod_beta script_frame(2,4))
qed

lemma window_inv_cong:
  "rwKeys v (budgetKey prefix sid (bpWindow p) start) = rwKeys w (budgetKey prefix sid (bpWindow p) start) \<Longrightarrow>
   rwNow v = rwNow w \<Longrightarrow> window_inv p prefix sid start w g f \<Longrightarrow> window_inv p prefix sid start v g f"
proof -
  assume v: "rwKeys v (budgetKey prefix sid (bpWindow p) start) = rwKeys w (budgetKey prefix sid (bpWindow p) start)"
    "rwNow v = rwNow w" and inv: "window_inv p prefix sid start w g f"
  then have "liveCells v (budgetKey prefix sid (bpWindow p) start) =
      liveCells w (budgetKey prefix sid (bpWindow p) start)" by (simp only: liveCells_def)
  then show ?thesis using inv v(2) by (simp add: window_inv_def)
qed

lemma window_inv_tick:
  assumes "window_inv p prefix sid start w g f" and "0 < bpWindow p" and "rwNow w \<le> t"
    and "timeTruncate t (bpWindow p) = start"
  shows "window_inv p prefix sid start (w\<lparr>rwNow := t\<rparr>) g f"
  using assms timeTruncate_bounds [OF assms(2), of t]
  by (auto simp: window_inv_def liveCells_def split: option.splits if_splits)

lemma budget_trace_inv:
  assumes "policyFor cfg sid = Some p" and "0 < bpWindow p" and "sid \<noteq> []"
  shows "budget_trace cfg prefix sid (bpWindow p) start w g f \<Longrightarrow> window_inv p prefix sid start w g f"
proof (induction rule: budget_trace.induct)
  case (begin_window w)
  then show ?case by (simp add: window_inv_def)
next
  case (granted w g f n w')
  from window_inv_reserve [OF granted.IH granted.hyps(2) assms(3,1,2) granted.hyps(3)]
  show ?case by simp
next
  case (not_granted w g f n)
  show ?case
  proof (cases "0 < n")
    case True
    obtain r w' where run: "run_state (RedisBudget_Reserve (memBudget cfg prefix) sid n) w = (r, w')"
      by (rule prod.exhaust)
    from window_inv_reserve [OF not_granted.IH True assms(3,1,2) run]
    have "window_inv p prefix sid start w' (if r = None then g + n else g) f" .
    then have "window_inv p prefix sid start w' g f"
      using True by (auto simp: window_inv_def split: option.splits if_splits)
    then show ?thesis using run by simp
  qed (use not_granted mem_idle [of n sid cfg prefix w] in simp)
next
  case (refunded w g f n)
  then show ?case
    using window_inv_refund [OF refunded.IH _ assms(3,1)] mem_idle [of n sid cfg prefix w]
    by (cases "0 < n") auto
next
  case (other_reserve w g f other n)
  show ?case by (rule window_inv_cong [OF _ _ other_reserve.IH]) (use other_source [OF other_reserve.hyps(2)] in blast)+
next
  case (other_refund w g f other n)
  show ?case by (rule window_inv_cong [OF _ _ other_refund.IH]) (use other_source [OF other_refund.hyps(2)] in blast)+
next
  case (tick w g f t)
  then show ?case by (intro window_inv_tick [OF _ assms(2)])
qed


text \<open>
  A reservation is decided by the counter of the current window alone: it is refused
  with \<open>ErrBudgetExhausted\<close>, without effect, exactly when the counter and the request together
  exceed the limit, and otherwise that counter, and no other key, grows by the request.
\<close>

theorem reserve_decision:
  assumes "0 < n" and "sid \<noteq> []" and "policyFor cfg sid = Some p" and "0 < bpWindow p"
    and "k = budgetKey prefix sid (bpWindow p) (rwNow w)"
    and "used = orZero (map_option fst (liveCells w k))" and "0 \<le> used"
    and "run_state (RedisBudget_Reserve (memBudget cfg prefix) sid n) w = (r, w')"
  shows "if used + n > bpLimit p
    then r = Some ErrBudgetExhausted \<and> liveCells w' = liveCells w
    else r = None \<and> (\<exists>e. liveCells w' = (liveCells w)(k \<mapsto> (used + n, e)))"
proof -
  let ?ttl = "milliseconds (bpWindow p) + 1000"
  have ttl: "0 < ?ttl" using assms(4) by (simp add: milliseconds_def)
  obtain v where run: "run_state (reserveScript memRedis k n (bpLimit p) ?ttl) w = (v, w')"
      and r: "r = (if v = - 1 then Some ErrBudgetExhausted else None)"
    using assms(8) unfolding mem_reserve [OF assms(1-3)] assms(5) by (auto split: prod.splits)
  show ?thesis
    using mem.reserve_script_run(2) [OF run ttl] r assms(1,6,7) by (auto simp: mem.value_at_def)
qed

section \<open>A concrete window\<close>

definition demoPolicies :: budget_config where
  "demoPolicies = [(''rpc'', \<lparr>bpWindow = 3600000000000, bpLimit = 5\<rparr>)]"

definition demoRedis :: redis_world where
  "demoRedis = \<lparr>rwKeys = (\<lambda>_. None), rwNow = 7200000000001\<rparr>"

lemma demo_policy: "policyFor demoPolicies ''rpc'' = Some \<lparr>bpWindow = 3600000000000, bpLimit = 5\<rparr>"
  by (simp add: policyFor_def demoPolicies_def BudgetPolicy_IsZero_def)

lemma demo_used: "orZero (map_option fst (liveCells demoRedis k)) = 0"
  by (simp add: demoRedis_def liveCells_def orZero_def)

theorem reserve_decision_witness:
  "\<exists>w'. run_state (RedisBudget_Reserve (memBudget demoPolicies ''b:'') ''rpc'' 4) demoRedis = (None, w')"
proof -
  obtain r w' where run: "run_state (RedisBudget_Reserve (memBudget demoPolicies ''b:'') ''rpc'' 4) demoRedis = (r, w')"
    by (rule prod.exhaust)
  show ?thesis
    using reserve_decision [OF _ _ demo_policy _ refl demo_used [symmetric] _ run] run by simp
qed


section \<open>Edges of a policy\<close>

text \<open>Only a policy with both fields zero counts as absent: with a window but no limit every
  reservation is refused.\<close>

theorem zero_limit_refuses:
  assumes "policyFor cfg sid = Some p" and "0 < bpWindow p" and "bpLimit p = 0" and "0 < n" and "sid \<noteq> []"
    and "liveCells w (budgetKey prefix sid (bpWindow p) (rwNow w)) = None"
  shows "fst (run_state (RedisBudget_Reserve (memBudget cfg prefix) sid n) w) = Some ErrBudgetExhausted"
  unfolding mem_reserve [OF assms(4,5,1)] using assms(3,4,6)
  by (simp add: reserveScript_def memRedis_def orZero_def)

text \<open>A window of seven days does not start at a multiple of seven days since 1970: the key is
  pinned to Go's zero time.\<close>

theorem week_not_pinned_to_epoch:
  "timeUnix (timeTruncate 62135596800000000000 604800000000000) = - 259200"
  by (simp add: timeUnix_def timeTruncate_def)

end
