(* ===== verification/Base64.thy ===== *)
theory Base64
  imports Prelude
begin

text \<open>
  The standard base64 encoding (\<open>base64.StdEncoding\<close>), which \<open>encoding/json\<close> uses for byte slices and
  \<open>internal/secrets\<close> for the master key: three bytes as four digits, the last group padded with \<open>=\<close>;
  decoding skips line ends and, like the encoding that is not \<open>Strict\<close>, ignores the unused low bits of
  the last digit.
\<close>

definition b64Alphabet :: string where
  "b64Alphabet = ''ABCDEFGHIJKLMNOPQRSTUVWXYZabcdefghijklmnopqrstuvwxyz0123456789+/''"

definition b64Char :: "nat \<Rightarrow> char" where
  "b64Char n = b64Alphabet ! n"

definition b64Val :: "char \<Rightarrow> nat option" where
  "b64Val c = (let n = length (takeWhile (\<lambda>d. d \<noteq> c) b64Alphabet) in if n < 64 then Some n else None)"

fun base64Encode :: "byte list \<Rightarrow> string" where
  "base64Encode [] = []"
| "base64Encode [a] = [b64Char (unat a div 4), b64Char (unat a mod 4 * 16), CHR ''='', CHR ''='']"
| "base64Encode [a, b] =
     [b64Char (unat a div 4), b64Char (unat a mod 4 * 16 + unat b div 16),
      b64Char (unat b mod 16 * 4), CHR ''='']"
| "base64Encode (a # b # c # bs) =
     b64Char (unat a div 4) # b64Char (unat a mod 4 * 16 + unat b div 16) #
     b64Char (unat b mod 16 * 4 + unat c div 64) # b64Char (unat c mod 64) # base64Encode bs"

definition b64First :: "nat \<Rightarrow> nat \<Rightarrow> byte" where
  "b64First x y = word_of_nat (x * 4 + y div 16)"

definition b64Second :: "nat \<Rightarrow> nat \<Rightarrow> byte" where
  "b64Second y z = word_of_nat (y mod 16 * 16 + z div 4)"

definition b64Third :: "nat \<Rightarrow> nat \<Rightarrow> byte" where
  "b64Third z w = word_of_nat (z mod 4 * 64 + w)"

fun decodeQuanta :: "string \<Rightarrow> byte list option" where
  "decodeQuanta [] = Some []"
| "decodeQuanta (a # b # c # d # cs) =
     (case (b64Val a, b64Val b) of
        (Some x, Some y) \<Rightarrow>
          (if c = CHR ''='' then if d = CHR ''='' \<and> cs = [] then Some [b64First x y] else None
           else case b64Val c of
             None \<Rightarrow> None
           | Some z \<Rightarrow>
               if d = CHR ''='' then if cs = [] then Some [b64First x y, b64Second y z] else None
               else (case (b64Val d, decodeQuanta cs) of
                       (Some w, Some bs) \<Rightarrow> Some (b64First x y # b64Second y z # b64Third z w # bs)
                     | _ \<Rightarrow> None))
      | _ \<Rightarrow> None)"
| "decodeQuanta _ = None"

definition base64Decode :: "string \<Rightarrow> byte list option" where
  "base64Decode s = decodeQuanta (filter (\<lambda>c. c \<noteq> CHR 0x0A \<and> c \<noteq> CHR 0x0D) s)"

section \<open>Decoding what was encoded\<close>

lemma b64_table: "\<forall>n \<in> set [0..<64]. b64Val (b64Char n) = Some n \<and> b64Char n \<notin> {CHR ''='', CHR 0x0A, CHR 0x0D}"
  by code_simp

lemma b64Val_Char [simp]: "n < 64 \<Longrightarrow> b64Val (b64Char n) = Some n"
  using b64_table by simp

lemma b64Char_neq [simp]:
  "n < 64 \<Longrightarrow> b64Char n \<noteq> CHR ''=''" "n < 64 \<Longrightarrow> b64Char n \<noteq> CHR 0x0A" "n < 64 \<Longrightarrow> b64Char n \<noteq> CHR 0x0D"
  using b64_table by simp_all

lemma byte_digits [simp]:
  fixes a b c :: byte
  shows "unat a div 4 < 64" "unat a mod 4 * 16 < 64" "unat a mod 4 * 16 + unat b div 16 < 64"
    "unat b mod 16 * 4 < 64" "unat b mod 16 * 4 + unat c div 64 < 64" "unat c mod 64 < 64"
  using unat_byte_less [of a] unat_byte_less [of b] unat_byte_less [of c] by linarith+

lemma b64_bytes [simp]:
  fixes a b c :: byte
  shows "b64First (unat a div 4) (unat a mod 4 * 16) = a"
    "b64First (unat a div 4) (unat a mod 4 * 16 + unat b div 16) = a"
    "b64Second (unat a mod 4 * 16 + unat b div 16) (unat b mod 16 * 4) = b"
    "b64Second (unat a mod 4 * 16 + unat b div 16) (unat b mod 16 * 4 + unat c div 64) = b"
    "b64Third (unat b mod 16 * 4 + unat c div 64) (unat c mod 64) = c"
proof -
  have less: "unat b < 256" "unat c < 256" by (rule unat_byte_less)+
  have b: "(unat a mod 4 * 16 + unat b div 16) mod 16 = unat b div 16"
    "(unat a mod 4 * 16 + unat b div 16) div 16 = unat a mod 4"
    using less by (simp_all add: mod_simps)
  have c: "(unat b mod 16 * 4 + unat c div 64) div 4 = unat b mod 16"
    "(unat b mod 16 * 4 + unat c div 64) mod 4 = unat c div 64"
    using less by (simp_all add: mod_simps)
  have split: "word_of_nat (unat x div k) * word_of_nat k + word_of_nat (unat x mod k) = x" for x :: byte and k
    by (simp only: of_nat_mult [symmetric] of_nat_add [symmetric] div_mult_mod_eq of_nat_unat ucast_id)
  have d: "unat c div 64 mod 4 = unat c div 64" using less by simp
  show "b64First (unat a div 4) (unat a mod 4 * 16) = a"
    "b64First (unat a div 4) (unat a mod 4 * 16 + unat b div 16) = a"
    "b64Second (unat a mod 4 * 16 + unat b div 16) (unat b mod 16 * 4) = b"
    "b64Second (unat a mod 4 * 16 + unat b div 16) (unat b mod 16 * 4 + unat c div 64) = b"
    "b64Third (unat b mod 16 * 4 + unat c div 64) (unat c mod 64) = c"
    by (simp_all add: b64First_def b64Second_def b64Third_def b c d split [of a 4, simplified] split [of b 16, simplified] split [of c 64, simplified])
qed

lemma decodeQuanta_Encode: "decodeQuanta (base64Encode bs) = Some bs"
  by (induction bs rule: base64Encode.induct) simp_all

lemma filter_Encode: "filter (\<lambda>c. c \<noteq> CHR 0x0A \<and> c \<noteq> CHR 0x0D) (base64Encode bs) = base64Encode bs"
  by (induction bs rule: base64Encode.induct) simp_all

theorem base64_roundtrip [simp]: "base64Decode (base64Encode bs) = Some bs"
  by (simp only: base64Decode_def filter_Encode decodeQuanta_Encode)

lemma base64Encode_Nil [simp]: "base64Encode bs = [] \<longleftrightarrow> bs = []"
  by (cases bs rule: base64Encode.cases) simp_all

end
