(* ===== verification/Queue.thy ===== *)
theory Queue
  imports Mapper UseCases Base64
begin

text \<open>
  The job queue of \<open>internal/infrastructure/queue\<close>: task payloads (\<open>tasks.go\<close>), the dispatcher and the
  provider of periodic tasks (\<open>dispatcher.go\<close>), and the handlers of the worker (\<open>handlers.go\<close>). The
  queue itself (asynq on Redis) is an argument: what enqueueing a task does, and when a periodic task
  fires. A task body is a JSON tree, \<open>None\<close> for a body that is not JSON. The documents inside a payload
  are JSON texts; \<open>print\<close> and \<open>parse\<close> stand for the text form of a tree (\<open>json.Marshal\<close> and
  \<open>json.Unmarshal\<close>).
\<close>

section \<open>Payloads (\<open>tasks.go\<close>)\<close>

definition TaskTypeExecuteRun :: string where "TaskTypeExecuteRun = ''verification:execute_run''"
definition TaskTypeScheduledRun :: string where "TaskTypeScheduledRun = ''verification:scheduled_run''"
definition TaskTypePruneOldRuns :: string where "TaskTypePruneOldRuns = ''maintenance:prune_old_runs''"
definition QueueDefault :: string where "QueueDefault = ''default''"

record execute_run_payload =
  epRunID :: string

definition ExecuteRunPayload_Marshal :: "execute_run_payload \<Rightarrow> json" where
  "ExecuteRunPayload_Marshal p = JObj [(''run_id'', JStr (epRunID p))]"

text \<open>The fields of a struct from a task body; the error of \<open>json.Unmarshal\<close> is not looked into.\<close>

definition bodyObject :: "json option \<Rightarrow> (string \<times> json) list option" where
  "bodyObject body = Option.bind body asObject"

definition UnmarshalExecuteRunPayload :: "json option \<Rightarrow> app_error + execute_run_payload" where
  "UnmarshalExecuteRunPayload body =
     (case Option.bind (bodyObject body) (fieldOr [] decString ''run_id'') of
        None \<Rightarrow> Inl (Wrap ''queue: decode execute_run payload: '' (ErrNew ''json''))
      | Some i \<Rightarrow>
          if i = [] then Inl (ErrNew ''queue: execute_run payload missing run_id'')
          else Inr \<lparr>epRunID = i\<rparr>)"

text \<open>The three documents of a scheduled run are byte slices, the JSON texts \<open>persistence\<close> writes: a
  byte slice is a base64 string inside the payload, \<open>null\<close> when it is nil.\<close>

record scheduled_run_payload =
  sdChainID :: uint64
  sdStrategyKind :: string
  sdStrategyData :: "byte list"
  sdMetricKeys :: "string list"
  sdAddressPlansData :: "byte list"
  sdTokenPlansData :: "byte list"
  sdCronExpr :: string

definition encBytes :: "byte list \<Rightarrow> json" where
  "encBytes bs = (if bs = [] then JNull else JStr (base64Encode bs))"

definition omitBytes :: "string \<Rightarrow> byte list \<Rightarrow> (string \<times> json) list" where
  "omitBytes k bs = (if length bs = 0 then [] else [(k, encBytes bs)])"

definition decBytes :: "json \<Rightarrow> byte list option" where
  "decBytes j = (case j of JNull \<Rightarrow> Some [] | JStr s \<Rightarrow> base64Decode s | _ \<Rightarrow> None)"

definition ScheduledRunPayload_Marshal :: "scheduled_run_payload \<Rightarrow> json" where
  "ScheduledRunPayload_Marshal p =
     JObj ([(''chain_id'', encUint (sdChainID p)),
            (''strategy_kind'', JStr (sdStrategyKind p)),
            (''strategy_data'', encBytes (sdStrategyData p)),
            (''metric_keys'', encSlice JStr (sdMetricKeys p))] @
           omitBytes ''address_plans_data'' (sdAddressPlansData p) @
           omitBytes ''token_plans_data'' (sdTokenPlansData p) @
           [(''cron_expr'', JStr (sdCronExpr p))])"

definition decScheduledRunPayload ::
  "(string \<times> json) list \<Rightarrow> scheduled_run_payload option" where
  "decScheduledRunPayload obj =
     (case (fieldOr 0 decUint ''chain_id'' obj, fieldOr [] decString ''strategy_kind'' obj,
            fieldOr [] decBytes ''strategy_data'' obj,
            fieldOr [] (decSlice decString) ''metric_keys'' obj,
            fieldOr [] decBytes ''address_plans_data'' obj,
            fieldOr [] decBytes ''token_plans_data'' obj,
            fieldOr [] decString ''cron_expr'' obj) of
        (Some c, Some k, Some d, Some ks, Some a, Some t, Some e) \<Rightarrow>
          Some \<lparr>sdChainID = c, sdStrategyKind = k, sdStrategyData = d, sdMetricKeys = ks,
                sdAddressPlansData = a, sdTokenPlansData = t, sdCronExpr = e\<rparr>
      | _ \<Rightarrow> None)"

definition UnmarshalScheduledRunPayload ::
  "json option \<Rightarrow> app_error + scheduled_run_payload" where
  "UnmarshalScheduledRunPayload body =
     (case Option.bind (bodyObject body) (decScheduledRunPayload) of
        None \<Rightarrow> Inl (Wrap ''queue: decode scheduled_run payload: '' (ErrNew ''json''))
      | Some p \<Rightarrow>
          if sdChainID p = 0 then Inl (ErrNew ''queue: scheduled_run payload missing chain_id'')
          else if sdStrategyKind p = [] then Inl (ErrNew ''queue: scheduled_run payload missing strategy_kind'')
          else if length (sdMetricKeys p) = 0 then Inl (ErrNew ''queue: scheduled_run payload missing metric_keys'')
          else Inr p)"

record prune_old_runs_payload =
  ppDays :: int

definition PruneOldRunsPayload_Marshal :: "prune_old_runs_payload \<Rightarrow> json" where
  "PruneOldRunsPayload_Marshal p = JObj [(''days'', encInt64 (ppDays p))]"

definition UnmarshalPruneOldRunsPayload :: "json option \<Rightarrow> app_error + prune_old_runs_payload" where
  "UnmarshalPruneOldRunsPayload body =
     (case Option.bind (bodyObject body) (fieldOr 0 decInt64 ''days'') of
        None \<Rightarrow> Inl (Wrap ''queue: decode prune_old_runs payload: '' (ErrNew ''json''))
      | Some n \<Rightarrow>
          if n \<le> 0
          then Inl (ErrNew (''queue: prune_old_runs days must be > 0 (got '' @ FormatInt 10 n @ '')''))
          else Inr \<lparr>ppDays = n\<rparr>)"

section \<open>The dispatcher (\<open>dispatcher.go\<close>)\<close>

record enqueue_options =
  eoMaxRetry :: int
  eoTimeout :: duration
  eoRetention :: duration
  eoQueue :: string

definition defaultEnqueueOptions :: enqueue_options where
  "defaultEnqueueOptions =
     \<lparr>eoMaxRetry = 3, eoTimeout = 30 * 60 * 1000000000, eoRetention = 7 * 24 * 3600 * 1000000000,
      eoQueue = QueueDefault\<rparr>"

text \<open>A task with the options it is created with, and a periodic task.\<close>

record asynq_task =
  tkType :: string
  tkPayload :: json
  tkOptions :: enqueue_options

record periodic_task_config =
  pcCronspec :: string
  pcTask :: asynq_task

record retention_schedule =
  rtCronExpr :: string
  rtDays :: int

record 'w dispatcher =
  dpEnqueue :: "asynq_task \<Rightarrow> ('w, string option) state"
  dpSchedules :: "'w schedule_repository option"
  dpOpts :: enqueue_options
  dpClock :: "'w clock"
  dpRetention :: "retention_schedule option"

definition NewDispatcher ::
  "(asynq_task \<Rightarrow> ('w, string option) state) \<Rightarrow> 'w schedule_repository option \<Rightarrow> 'w clock \<Rightarrow> 'w dispatcher" where
  "NewDispatcher client schedules now =
     \<lparr>dpEnqueue = client, dpSchedules = schedules, dpOpts = defaultEnqueueOptions, dpClock = now,
      dpRetention = None\<rparr>"

definition WithOptions :: "enqueue_options \<Rightarrow> 'w dispatcher \<Rightarrow> 'w dispatcher" where
  "WithOptions o' d =
     (let opts = dpOpts d;
          opts = (if eoMaxRetry o' > 0 then opts\<lparr>eoMaxRetry := eoMaxRetry o'\<rparr> else opts);
          opts = (if eoTimeout o' > 0 then opts\<lparr>eoTimeout := eoTimeout o'\<rparr> else opts);
          opts = (if eoRetention o' > 0 then opts\<lparr>eoRetention := eoRetention o'\<rparr> else opts);
          opts = (if eoQueue o' \<noteq> [] then opts\<lparr>eoQueue := eoQueue o'\<rparr> else opts)
      in d\<lparr>dpOpts := opts\<rparr>)"

definition WithClock :: "'w clock option \<Rightarrow> 'w dispatcher \<Rightarrow> 'w dispatcher" where
  "WithClock now d = (case now of None \<Rightarrow> d | Some c \<Rightarrow> d\<lparr>dpClock := c\<rparr>)"

definition WithRetention :: "retention_schedule \<Rightarrow> 'w dispatcher \<Rightarrow> 'w dispatcher" where
  "WithRetention rs d =
     (if rtDays rs \<le> 0 then d
      else let rs = (if rtCronExpr rs = [] then rs\<lparr>rtCronExpr := ''0 3 * * *''\<rparr> else rs)
           in d\<lparr>dpRetention := Some rs\<rparr>)"

definition Dispatcher_EnqueueRunExecution ::
  "'w dispatcher \<Rightarrow> run_id \<Rightarrow> ('w, app_error option) state" where
  "Dispatcher_EnqueueRunExecution d i =
     do {
       res \<leftarrow> dpEnqueue d \<lparr>tkType = TaskTypeExecuteRun,
         tkPayload = ExecuteRunPayload_Marshal \<lparr>epRunID = i\<rparr>, tkOptions = dpOpts d\<rparr>;
       State_Monad.return
         (case res of
            Some e \<Rightarrow> Some (Wrap ''queue: enqueue execute_run: '' (ErrNew e))
          | None \<Rightarrow> None)
     }"

definition newJobID :: "byte list option \<Rightarrow> app_error + job_id" where
  "newJobID buf =
     (case buf of
        None \<Rightarrow> Inl (Wrap ''queue: generate job id: '' (ErrNew ''crypto/rand''))
      | Some bs \<Rightarrow> Inr (EncodeToString bs))"

definition Dispatcher_ScheduleRecurring ::
  "('w, byte list option) state \<Rightarrow> 'w context_err \<Rightarrow> 'w dispatcher \<Rightarrow> schedule \<Rightarrow> schedule_payload
   \<Rightarrow> ('w, app_error + job_id) state" where
  "Dispatcher_ScheduleRecurring rand ctxErr d sch payload =
     (if Schedule_IsZero sch
      then State_Monad.return (Inl (ErrNew ''queue: schedule_recurring: empty schedule''))
      else case dpSchedules d of
        None \<Rightarrow> State_Monad.return (Inl (ErrNew ''queue: schedule_recurring: no schedule repository wired''))
      | Some schedules \<Rightarrow>
          do {
            ctx \<leftarrow> ctxErr;
            (case ctx of
               Some err \<Rightarrow> State_Monad.return (Inl err)
             | None \<Rightarrow>
                 do {
                   buf \<leftarrow> rand;
                   (case newJobID buf of
                      Inl err \<Rightarrow> State_Monad.return (Inl err)
                    | Inr i \<Rightarrow>
                        do {
                          now \<leftarrow> dpClock d;
                          saved \<leftarrow> ScheduleRepo_Save schedules
                            \<lparr>srJobID = i, srChainID = spChainID payload, srSchedule = sch,
                             srStrategy = spStrategy payload, srMetrics = spMetrics payload,
                             srAddressPlans = spAddressPlans payload,
                             srTokenPlans = spTokenPlans payload, srCreatedAt = now, srActive = True\<rparr>;
                          State_Monad.return
                            (case saved of
                               Some err \<Rightarrow> Inl (Wrap ''queue: schedule_recurring save: '' err)
                             | None \<Rightarrow> Inr i)
                        })
                 })
          })"

definition Dispatcher_CancelScheduled :: "'w dispatcher \<Rightarrow> job_id \<Rightarrow> ('w, app_error option) state" where
  "Dispatcher_CancelScheduled d i =
     (case dpSchedules d of
        None \<Rightarrow> State_Monad.return (Some (ErrNew ''queue: cancel_scheduled: no schedule repository wired''))
      | Some schedules \<Rightarrow>
          do {
            res \<leftarrow> ScheduleRepo_Deactivate schedules i;
            State_Monad.return (map_option (Wrap ''queue: cancel_scheduled: '') res)
          })"

definition buildPruneOldRunsTask :: "int \<Rightarrow> enqueue_options \<Rightarrow> asynq_task" where
  "buildPruneOldRunsTask days opts =
     \<lparr>tkType = TaskTypePruneOldRuns, tkPayload = PruneOldRunsPayload_Marshal \<lparr>ppDays = days\<rparr>,
      tkOptions = opts\<rparr>"

definition buildScheduledRunTask ::
  "(string \<Rightarrow> byte list) \<Rightarrow> (json \<Rightarrow> byte list) \<Rightarrow> schedule_record \<Rightarrow> enqueue_options \<Rightarrow> app_error + asynq_task" where
  "buildScheduledRunTask keccak print r opts =
     (case marshalStrategy (srStrategy r) of
        Inl e \<Rightarrow> Inl (Wrap ''queue: build scheduled_run strategy: '' (ErrPersist e))
      | Inr stratData \<Rightarrow>
     (case marshalAddressPlans keccak (srAddressPlans r) of
        Inl e \<Rightarrow> Inl (Wrap ''queue: build scheduled_run address plans: '' (ErrPersist e))
      | Inr addressPlanData \<Rightarrow>
     (case marshalTokenPlans keccak (srTokenPlans r) of
        Inl e \<Rightarrow> Inl (Wrap ''queue: build scheduled_run token plans: '' (ErrPersist e))
      | Inr tokenPlanData \<Rightarrow>
          Inr \<lparr>tkType = TaskTypeScheduledRun,
               tkPayload = ScheduledRunPayload_Marshal
                 \<lparr>sdChainID = srChainID r, sdStrategyKind = Strategy_Kind (the (srStrategy r)),
                  sdStrategyData = print stratData, sdMetricKeys = map mKey (srMetrics r),
                  sdAddressPlansData = print addressPlanData, sdTokenPlansData = print tokenPlanData,
                  sdCronExpr = schCronExpr (srSchedule r)\<rparr>,
               tkOptions = opts\<rparr>)))"

text \<open>The loop of \<open>GetConfigs\<close>: a record that cannot be rendered is skipped.\<close>

fun renderConfigs ::
  "(string \<Rightarrow> byte list) \<Rightarrow> (json \<Rightarrow> byte list) \<Rightarrow> enqueue_options \<Rightarrow> schedule_record list
   \<Rightarrow> periodic_task_config list" where
  "renderConfigs keccak print opts [] = []"
| "renderConfigs keccak print opts (r # rs) =
     (case buildScheduledRunTask keccak print r opts of
        Inl _ \<Rightarrow> renderConfigs keccak print opts rs
      | Inr task \<Rightarrow>
          \<lparr>pcCronspec = schCronExpr (srSchedule r), pcTask = task\<rparr> # renderConfigs keccak print opts rs)"

definition GetConfigs ::
  "(string \<Rightarrow> byte list) \<Rightarrow> (json \<Rightarrow> byte list) \<Rightarrow> 'w dispatcher
   \<Rightarrow> ('w, app_error + periodic_task_config list) state" where
  "GetConfigs keccak print d =
     (case dpSchedules d of
        None \<Rightarrow> State_Monad.return (Inr [])
      | Some schedules \<Rightarrow>
          do {
            res \<leftarrow> ScheduleRepo_ListActive schedules;
            State_Monad.return
              (case res of
                 Inl err \<Rightarrow> Inl (Wrap ''queue: provider list_active: '' err)
               | Inr records \<Rightarrow>
                   Inr (renderConfigs keccak print (dpOpts d) records @
                        (case dpRetention d of
                           None \<Rightarrow> []
                         | Some rs \<Rightarrow> [\<lparr>pcCronspec = rtCronExpr rs,
                                       pcTask = buildPruneOldRunsTask (rtDays rs) (dpOpts d)\<rparr>])))
          })"

definition dispatcherPort ::
  "('w, byte list option) state \<Rightarrow> 'w context_err \<Rightarrow> 'w dispatcher \<Rightarrow> 'w job_dispatcher" where
  "dispatcherPort rand ctxErr d =
     \<lparr>EnqueueRunExecution = Dispatcher_EnqueueRunExecution d,
      ScheduleRecurring = Dispatcher_ScheduleRecurring rand ctxErr d,
      CancelScheduled = Dispatcher_CancelScheduled d\<rparr>"

section \<open>The handlers (\<open>handlers.go\<close>)\<close>

text \<open>\<open>asynq.SkipRetry\<close> is the error \<open>ErrSkipRetry\<close>: a task whose error wraps it is not retried.\<close>

record 'w handlers =
  hExecuteRun :: "run_id \<Rightarrow> ('w, app_error option outcome) state"
  hRuns :: "'w run_repository option"
  hEnqueuer :: "(run_id \<Rightarrow> ('w, app_error option) state) option"
  hClock :: "'w clock option"
  hPruner :: "(gotime \<Rightarrow> ('w, app_error + int) state) option"

definition HandleExecuteRun ::
  "'w handlers \<Rightarrow> json option \<Rightarrow> ('w, app_error option outcome) state" where
  "HandleExecuteRun h body =
     (case UnmarshalExecuteRunPayload body of
        Inl err \<Rightarrow> State_Monad.return (Returns (Some (WrapBoth err ErrSkipRetry)))
      | Inr p \<Rightarrow>
          do {
            res \<leftarrow> hExecuteRun h (epRunID p);
            State_Monad.return
              (case res of
                 Returns (Some err) \<Rightarrow>
                   if errorsIs err ErrRunNotFound then Returns (Some (WrapBoth err ErrSkipRetry))
                   else Returns (Some err)
               | _ \<Rightarrow> res)
          })"

text \<open>The metrics of a payload: the first key the catalog does not have is the error.\<close>

fun scheduledMetrics :: "string list \<Rightarrow> string + metric list" where
  "scheduledMetrics [] = Inr []"
| "scheduledMetrics (k # ks) =
     (case metricByKey k of
        None \<Rightarrow> Inl k
      | Some m \<Rightarrow> map_sum id ((#) m) (scheduledMetrics ks))"

text \<open>The plan documents: no bytes are no plans, bytes that are no JSON text are an error.\<close>

definition plansColumn ::
  "string \<Rightarrow> (byte list \<Rightarrow> json option) \<Rightarrow> (json option \<Rightarrow> persist_error + 'p list) \<Rightarrow> byte list
   \<Rightarrow> persist_error + 'p list" where
  "plansColumn what parse dec data =
     (if length data = 0 then Inr []
      else case parse data of
        None \<Rightarrow> Inl (PDecode what)
      | Some d \<Rightarrow> dec (Some d))"

text \<open>Everything a scheduled run is built from, decoded from its payload.\<close>

definition decodeScheduled ::
  "(string \<Rightarrow> byte list) \<Rightarrow> (byte list \<Rightarrow> json option) \<Rightarrow> scheduled_run_payload
   \<Rightarrow> app_error + sampling_strategy \<times> address_plan list \<times> token_plan list \<times> metric list" where
  "decodeScheduled keccak parse p =
     (case withData ''strategy'' [''fixed_list'', ''latest_n'', ''random'', ''sparse_steps'']
             unmarshalStrategy (sdStrategyKind p) (parse (sdStrategyData p)) of
        Inl e \<Rightarrow> Inl (WrapBoth (ErrPersist e) ErrSkipRetry)
      | Inr strategy \<Rightarrow>
     (case plansColumn ''address plans'' parse (unmarshalAddressPlans keccak) (sdAddressPlansData p) of
        Inl e \<Rightarrow> Inl (WrapBoth (ErrPersist e) ErrSkipRetry)
      | Inr addressPlans \<Rightarrow>
     (case plansColumn ''token plans'' parse (unmarshalTokenPlans keccak) (sdTokenPlansData p) of
        Inl e \<Rightarrow> Inl (WrapBoth (ErrPersist e) ErrSkipRetry)
      | Inr tokenPlans \<Rightarrow>
     (case scheduledMetrics (sdMetricKeys p) of
        Inl k \<Rightarrow> Inl (WrapQuoted ''scheduled_run: unknown metric key '' k '': '' ErrSkipRetry)
      | Inr metrics \<Rightarrow> Inr (strategy, addressPlans, tokenPlans, metrics)))))"

definition saveAndEnqueue ::
  "'w run_repository \<Rightarrow> (run_id \<Rightarrow> ('w, app_error option) state) \<Rightarrow> run \<Rightarrow> ('w, app_error option) state" where
  "saveAndEnqueue runs enqueuer r =
     do {
       saved \<leftarrow> RunRepo_Save runs r;
       (case saved of
          Some err \<Rightarrow> State_Monad.return (Some (Wrap ''scheduled_run: save run: '' err))
        | None \<Rightarrow>
            do {
              res \<leftarrow> enqueuer (runId r);
              State_Monad.return (map_option (Wrap ''scheduled_run: enqueue execute: '') res)
            })
     }"

definition scheduledRun ::
  "run_id \<Rightarrow> scheduled_run_payload \<Rightarrow> sampling_strategy \<Rightarrow> address_plan list \<Rightarrow> token_plan list
   \<Rightarrow> metric list \<Rightarrow> gotime \<Rightarrow> run_error + run" where
  "scheduledRun i p strategy addressPlans tokenPlans metrics now =
     (case NewRun i (sdChainID p) (Some strategy) metrics (Some (ScheduledTrigger (sdCronExpr p))) now
             (map Some addressPlans) of
        Inl e \<Rightarrow> Inl e
      | Inr r \<Rightarrow> if length tokenPlans > 0 then SetTokenPlans (map Some tokenPlans) r else Inr r)"

definition HandleScheduledRun ::
  "(string \<Rightarrow> byte list) \<Rightarrow> (byte list \<Rightarrow> json option) \<Rightarrow> ('w, byte list option) state \<Rightarrow> 'w handlers
   \<Rightarrow> json option \<Rightarrow> ('w, app_error option) state" where
  "HandleScheduledRun keccak parse rand h body =
     (case UnmarshalScheduledRunPayload body of
        Inl err \<Rightarrow> State_Monad.return (Some (WrapBoth err ErrSkipRetry))
      | Inr p \<Rightarrow>
          (case (hRuns h, hEnqueuer h, hClock h) of
             (Some runs, Some enqueuer, Some clock) \<Rightarrow>
               (case decodeScheduled keccak parse p of
                  Inl err \<Rightarrow> State_Monad.return (Some err)
                | Inr (strategy, addressPlans, tokenPlans, metrics) \<Rightarrow>
                    do {
                      buf \<leftarrow> rand;
                      (case NewRunID buf of
                         None \<Rightarrow> State_Monad.return (Some (Wrap ''scheduled_run: generate run id: ''
                           (Wrap ''new run id: '' (ErrNew ''crypto/rand''))))
                       | Some i \<Rightarrow>
                           do {
                             now \<leftarrow> clock;
                             (case scheduledRun i p strategy addressPlans tokenPlans metrics now of
                                Inl e \<Rightarrow> State_Monad.return (Some (WrapBoth (ErrDomain e) ErrSkipRetry))
                              | Inr r \<Rightarrow> saveAndEnqueue runs enqueuer r)
                           })
                    })
           | _ \<Rightarrow> State_Monad.return (Some (ErrNew ''scheduled_run: handler not fully wired''))))"

text \<open>\<open>addDays\<close> is \<open>time.Time.AddDate(0, 0, n)\<close>, which follows the calendar of the clock's location.\<close>

definition HandlePruneOldRuns ::
  "(gotime \<Rightarrow> int \<Rightarrow> gotime) \<Rightarrow> 'w handlers \<Rightarrow> json option \<Rightarrow> ('w, app_error option) state" where
  "HandlePruneOldRuns addDays h body =
     (case UnmarshalPruneOldRunsPayload body of
        Inl err \<Rightarrow> State_Monad.return (Some (WrapBoth err ErrSkipRetry))
      | Inr p \<Rightarrow>
          (case (hPruner h, hClock h) of
             (Some pruner, Some clock) \<Rightarrow>
               do {
                 now \<leftarrow> clock;
                 res \<leftarrow> pruner (addDays now (- ppDays p));
                 State_Monad.return
                   (case res of
                      Inl err \<Rightarrow> Some (Wrap ''prune_old_runs: '' err)
                    | Inr _ \<Rightarrow> None)
               }
           | _ \<Rightarrow> State_Monad.return (Some (ErrNew ''prune_old_runs: handler not fully wired''))))"

text \<open>\<open>Register\<close>: the handler of a task type.\<close>

definition handleTask ::
  "(string \<Rightarrow> byte list) \<Rightarrow> (byte list \<Rightarrow> json option) \<Rightarrow> ('w, byte list option) state
   \<Rightarrow> (gotime \<Rightarrow> int \<Rightarrow> gotime) \<Rightarrow> 'w handlers \<Rightarrow> asynq_task
   \<Rightarrow> ('w, app_error option outcome) state option" where
  "handleTask keccak parse rand addDays h t =
     (if tkType t = TaskTypeExecuteRun then Some (HandleExecuteRun h (Some (tkPayload t)))
      else if tkType t = TaskTypeScheduledRun then
        Some (do { e \<leftarrow> HandleScheduledRun keccak parse rand h (Some (tkPayload t)); State_Monad.return (Returns e) })
      else if tkType t = TaskTypePruneOldRuns then
        Some (do { e \<leftarrow> HandlePruneOldRuns addDays h (Some (tkPayload t)); State_Monad.return (Returns e) })
      else None)"

end
