(* ===== verification/QueueProps.thy ===== *)
theory QueueProps
  imports Queue UseCaseProps StoreProps "HOL-Library.Countable"
begin

text \<open>
  What the queue promises. A payload survives the queue; a schedule that was accepted is offered to the
  scheduler and, each time it fires, becomes a new pending run with the schedule's content, whose execution
  is enqueued; the locale \<open>job_queue\<close> states what is asked of asynq, of the clock and of the database, and
  is interpreted on the in-memory database with a queue beside it. The retry classes of the handlers, and
  two things they do not do, close the theory.
\<close>

section \<open>Payloads survive the queue\<close>

lemma decBytes_encBytes [json_rt]: "decBytes (encBytes bs) = Some bs"
  by (simp add: decBytes_def encBytes_def)

lemma execute_payload_roundtrip:
  "i \<noteq> [] \<Longrightarrow> UnmarshalExecuteRunPayload (Some (ExecuteRunPayload_Marshal \<lparr>epRunID = i\<rparr>)) = Inr \<lparr>epRunID = i\<rparr>"
  by (simp add: UnmarshalExecuteRunPayload_def ExecuteRunPayload_Marshal_def bodyObject_def fieldOr_def
      jget_Cons json_rt)

lemma prune_payload_roundtrip:
  "0 < n \<Longrightarrow> inInt64 n \<Longrightarrow>
     UnmarshalPruneOldRunsPayload (Some (PruneOldRunsPayload_Marshal \<lparr>ppDays = n\<rparr>)) = Inr \<lparr>ppDays = n\<rparr>"
  by (simp add: UnmarshalPruneOldRunsPayload_def PruneOldRunsPayload_Marshal_def bodyObject_def fieldOr_def
      jget_Cons json_rt)

lemma decScheduledRunPayload_Marshal:
  "Option.bind (bodyObject (Some (ScheduledRunPayload_Marshal p))) decScheduledRunPayload = Some p"
proof -
  have "decSlice decString (encSlice JStr ks) = Some ks" for ks
    by (rule decSlice_encSlice) (simp add: json_rt)
  then show ?thesis
    by (cases "sdAddressPlansData p = []"; cases "sdTokenPlansData p = []")
      (simp_all add: ScheduledRunPayload_Marshal_def bodyObject_def decScheduledRunPayload_def omitBytes_def
        fieldOr_def jget_Cons json_rt ToLower_def lowerChar_def)
qed

lemma scheduled_payload_roundtrip:
  assumes "sdChainID p \<noteq> 0" "sdStrategyKind p \<noteq> []" "sdMetricKeys p \<noteq> []"
  shows "UnmarshalScheduledRunPayload (Some (ScheduledRunPayload_Marshal p)) = Inr p"
  using assms by (simp add: UnmarshalScheduledRunPayload_def decScheduledRunPayload_Marshal)

section \<open>What a rendered schedule decodes to\<close>

text \<open>The records the storage can hold, and the input whose run a fire of the schedule builds.\<close>

definition storableRecord :: "schedule_record \<Rightarrow> bool" where
  "storableRecord s \<longleftrightarrow>
     srChainID s \<noteq> 0 \<and> srMetrics s \<noteq> [] \<and> set (srMetrics s) \<subseteq> set AllMetrics \<and>
     (\<exists>strat. srStrategy s = Some strat \<and> wfStrategy strat) \<and>
     (\<exists>as. srAddressPlans s = map Some as \<and> (\<forall>p \<in> set as. wfAddressPlan p)) \<and>
     (\<exists>ts. srTokenPlans s = map Some ts \<and> (\<forall>p \<in> set ts. wfTokenPlan p))"

definition recordInput :: "schedule_record \<Rightarrow> schedule_run_input" where
  "recordInput s =
     \<lparr>siID = [], siChainID = srChainID s, siStrategy = srStrategy s, siMetrics = srMetrics s,
      siTrigger = Some (ScheduledTrigger (schCronExpr (srSchedule s))), siSchedule = srSchedule s,
      siAddressPlans = srAddressPlans s, siTokenPlans = srTokenPlans s\<rparr>"

lemma scheduledMetrics_map: "set ms \<subseteq> set AllMetrics \<Longrightarrow> scheduledMetrics (map mKey ms) = Inr ms"
proof (induction ms)
  case (Cons m ms)
  then have "metricByKey (mKey m) = Some m" by (simp add: metricByKey_iff)
  with Cons show ?case by simp
qed simp

lemma scheduledMetrics_length: "scheduledMetrics ks = Inr ms \<Longrightarrow> length ms = length ks"
  by (induction ks arbitrary: ms) (auto simp: Inr_map_sum split: option.splits)

lemma Strategy_Kind_nonempty: "Strategy_Kind s \<noteq> []"
  by (cases s) simp_all

text \<open>The documents of a record, and that their text form (\<open>json.Marshal\<close>) is read back (\<open>json.Unmarshal\<close>).\<close>

definition recordDocs :: "(string \<Rightarrow> byte list) \<Rightarrow> schedule_record \<Rightarrow> json set" where
  "recordDocs keccak s =
     {j. marshalStrategy (srStrategy s) = Inr j \<or> marshalAddressPlans keccak (srAddressPlans s) = Inr j \<or>
         marshalTokenPlans keccak (srTokenPlans s) = Inr j}"

definition json_text :: "(json \<Rightarrow> byte list) \<Rightarrow> (byte list \<Rightarrow> json option) \<Rightarrow> json set \<Rightarrow> bool" where
  "json_text print parse J \<longleftrightarrow> (\<forall>j \<in> J. parse (print j) = Some j \<and> print j \<noteq> [])"

lemma plansColumn_print:
  "json_text print parse J \<Longrightarrow> j \<in> J \<Longrightarrow> plansColumn what parse dec (print j) = dec (Some j)"
  by (simp add: plansColumn_def json_text_def)

lemma buildScheduledRunTask_decodes:
  assumes "json_text print parse (recordDocs keccak s)" "storableRecord s"
  shows "\<exists>p strat as ts. buildScheduledRunTask keccak print s opts =
      Inr \<lparr>tkType = TaskTypeScheduledRun, tkPayload = ScheduledRunPayload_Marshal p, tkOptions = opts\<rparr> \<and>
    UnmarshalScheduledRunPayload (Some (ScheduledRunPayload_Marshal p)) = Inr p \<and>
    decodeScheduled keccak parse p = Inr (strat, as, ts, srMetrics s) \<and>
    (\<forall>i t. scheduledRun i p strat as ts (srMetrics s) t = buildRun (recordInput s) i t)"
proof -
  obtain strat as ts where s: "srStrategy s = Some strat" "srAddressPlans s = map Some as"
      "srTokenPlans s = map Some ts" and wf: "wfStrategy strat" "\<forall>p \<in> set as. wfAddressPlan p" "\<forall>p \<in> set ts. wfTokenPlan p"
    and ms: "srChainID s \<noteq> 0" "srMetrics s \<noteq> []" "set (srMetrics s) \<subseteq> set AllMetrics"
    using assms(2) by (auto simp: storableRecord_def)
  obtain js where js: "marshalStrategy (Some strat) = Inr js" "unmarshalStrategy (Strategy_Kind strat) js = Inr strat"
    using strategy_roundtrip [OF wf(1)] by blast
  obtain ja where ja: "marshalAddressPlans keccak (map Some as) = Inr ja" "unmarshalAddressPlans keccak (Some ja) = Inr as"
    using address_plans_roundtrip [OF wf(2)] by blast
  obtain jt where jt: "marshalTokenPlans keccak (map Some ts) = Inr jt" "unmarshalTokenPlans keccak (Some jt) = Inr ts"
    using token_plans_roundtrip [OF wf(3)] by blast
  have docs: "js \<in> recordDocs keccak s" "ja \<in> recordDocs keccak s" "jt \<in> recordDocs keccak s"
    using s js ja jt by (simp_all add: recordDocs_def)
  define p where "p = \<lparr>sdChainID = srChainID s, sdStrategyKind = Strategy_Kind strat, sdStrategyData = print js,
    sdMetricKeys = map mKey (srMetrics s), sdAddressPlansData = print ja, sdTokenPlansData = print jt,
    sdCronExpr = schCronExpr (srSchedule s)\<rparr>"
  have "buildScheduledRunTask keccak print s opts =
      Inr \<lparr>tkType = TaskTypeScheduledRun, tkPayload = ScheduledRunPayload_Marshal p, tkOptions = opts\<rparr>"
    by (simp add: buildScheduledRunTask_def s js ja jt p_def)
  moreover have "UnmarshalScheduledRunPayload (Some (ScheduledRunPayload_Marshal p)) = Inr p"
    by (rule scheduled_payload_roundtrip) (simp_all add: p_def ms Strategy_Kind_nonempty)
  moreover have "decodeScheduled keccak parse p = Inr (strat, as, ts, srMetrics s)"
    using js ja jt ms(3) docs assms(1) [unfolded json_text_def]
    by (simp add: decodeScheduled_def p_def withData_def plansColumn_print [OF assms(1)] scheduledMetrics_map)
  moreover have "scheduledRun i p strat as ts (srMetrics s) t = buildRun (recordInput s) i t" for i t
    by (simp add: scheduledRun_def buildRun_def recordInput_def p_def s split: sum.splits)
  ultimately show ?thesis by blast
qed

lemma firstNil_map_Some: "firstNil n (map Some ps) = None"
  by (simp add: firstNil_None)

lemma recordInput_builds:
  assumes "storableRecord s" "i \<noteq> []"
  shows "\<exists>r. buildRun (recordInput s) i t = Inr r"
proof -
  obtain strat as ts where "srStrategy s = Some strat" "srAddressPlans s = map Some as"
      "srTokenPlans s = map Some ts" "srChainID s \<noteq> 0" "srMetrics s \<noteq> []"
    using assms(1) by (auto simp: storableRecord_def)
  then show ?thesis
    using assms(2) by (simp add: buildRun_def recordInput_def NewRun_def SetTokenPlans_def firstNil_map_Some)
qed

lemma recordInput_storable: "storableRecord s \<Longrightarrow> storableInput (recordInput s)"
  by (auto simp: storableInput_def recordInput_def storableRecord_def)

lemma EncodeToString_Nil [simp]: "EncodeToString bs = [] \<longleftrightarrow> bs = []"
  by (cases bs) simp_all

section \<open>The queue as an interface\<close>

text \<open>
  The worker's surroundings: enqueueing appends the task or fails and leaves the queue as it was; nothing
  else writes the queue, and the clock, the random source and the queue write no runs. Saving a schedule
  writes no run.
\<close>

locale job_queue = run_clients db runRows dbTime clock keccak
  for db :: "'w gorm_db" and runRows and dbTime and clock :: "'w clock" and keccak +
  fixes client :: "asynq_task \<Rightarrow> ('w, string option) state"
    and queued :: "'w \<Rightarrow> asynq_task list"
    and rand :: "('w, byte list option) state"
  assumes client_ok: "run_state (client t) w = (None, w') \<Longrightarrow> queued w' = queued w @ [t]"
    and client_err: "run_state (client t) w = (Some e, w') \<Longrightarrow> queued w' = queued w"
    and client_keeps: "run_state (client t) w = (x, w') \<Longrightarrow> runRows w' = runRows w"
    and draw_keeps: "run_state rand w = (b, w') \<Longrightarrow> runRows w' = runRows w \<and> queued w' = queued w"
    and draw_bytes: "run_state rand w = (Some buf, w') \<Longrightarrow> length buf = 16"
    and tick_keeps: "run_state clock w = (n, w') \<Longrightarrow> queued w' = queued w \<and> n \<noteq> 0"
    and upsert_queue: "run_state (dbUpsertRun db m) w = (y, w') \<Longrightarrow> queued w' = queued w"
    and schedule_keeps: "run_state (dbUpsertSchedule db sm) w = (z, w') \<Longrightarrow> runRows w' = runRows w"
begin

lemma save_queue: "run_state (gormRunRepo_Save keccak db r) w = (x, w') \<Longrightarrow> queued w' = queued w"
  by (auto simp: gormRunRepo_Save_def split: sum.splits prod.splits dest: upsert_queue)

lemma enqueue_cases:
  assumes "dpEnqueue d = client" "run_state (Dispatcher_EnqueueRunExecution d i) w = (x, w')"
  shows "runRows w' = runRows w"
    and "x = None \<Longrightarrow> queued w' = queued w @ [\<lparr>tkType = TaskTypeExecuteRun,
      tkPayload = ExecuteRunPayload_Marshal \<lparr>epRunID = i\<rparr>, tkOptions = dpOpts d\<rparr>]"
    and "x = Some e \<Longrightarrow> queued w' = queued w \<and> \<not> errorsIs e ErrSkipRetry"
  using assms client_keeps client_ok client_err
  by (auto simp: Dispatcher_EnqueueRunExecution_def split: prod.splits option.splits)

lemma save_error:
  "run_state (gormRunRepo_Save keccak db r) w = (Some e, w') \<Longrightarrow> \<not> errorsIs e ErrSkipRetry"
  by (auto simp: gormRunRepo_Save_def split: sum.splits prod.splits)

lemma saveAndEnqueue_cases:
  assumes "run_state (saveAndEnqueue (NewRunRepo keccak db) (Dispatcher_EnqueueRunExecution d) r) w = (x, w')"
    and d: "dpEnqueue d = client" and r: "representable r" "runCreatedAt r \<noteq> 0" "runRows w (runId r) = None"
  shows "(x = None \<and> runsIn w' = (runsIn w)(runId r \<mapsto> storedRun dbTime r) \<and>
      queued w' = queued w @ [\<lparr>tkType = TaskTypeExecuteRun,
        tkPayload = ExecuteRunPayload_Marshal \<lparr>epRunID = runId r\<rparr>, tkOptions = dpOpts d\<rparr>]) \<or>
    (\<exists>e. x = Some e \<and> \<not> errorsIs e ErrSkipRetry \<and> queued w' = queued w \<and>
      (runRows w' = runRows w \<or> runsIn w' = (runsIn w)(runId r \<mapsto> storedRun dbTime r)))"
proof -
  obtain sv w1 where sv: "run_state (gormRunRepo_Save keccak db r) w = (sv, w1)" by (rule prod.exhaust)
  show ?thesis
  proof (cases sv)
    case (Some e)
    then show ?thesis
      using assms(1) sv repo_save_fails [of keccak r w e w1] save_queue [OF sv] save_error [of r w e w1]
      by (auto simp: saveAndEnqueue_def)
  next
    case None
    have saved: "runsIn w1 = (runsIn w)(runId r \<mapsto> storedRun dbTime r)"
      using repo_save_creates [of r w keccak w1] r sv None by simp
    obtain en w2 where en: "run_state (Dispatcher_EnqueueRunExecution d (runId r)) w1 = (en, w2)"
      by (rule prod.exhaust)
    have out: "x = map_option (Wrap ''scheduled_run: enqueue execute: '') en" "w' = w2"
      using assms(1) sv None en by (auto simp: saveAndEnqueue_def)
    note c = enqueue_cases [OF d en]
    show ?thesis using out c saved save_queue [OF sv] by (cases en) auto
  qed
qed

lemma fire_outcome:
  assumes "json_text print parse (recordDocs keccak s)" "storableRecord s" "dpEnqueue d = client"
    and "buildScheduledRunTask keccak print s opts = Inr task"
    and h: "hRuns h = Some (NewRunRepo keccak db)" "hEnqueuer h = Some (Dispatcher_EnqueueRunExecution d)"
      "hClock h = Some clock"
    and fresh: "\<And>buf v. run_state rand w = (Some buf, v) \<Longrightarrow> runRows w (EncodeToString buf) = None"
    and x: "run_state (HandleScheduledRun keccak parse rand h (Some (tkPayload task))) w = (x, w')"
  shows "(\<exists>i t r. x = None \<and> i \<noteq> [] \<and> runRows w i = None \<and> buildRun (recordInput s) i t = Inr r \<and>
      runsIn w' = (runsIn w)(i \<mapsto> storedRun dbTime r) \<and>
      queued w' = queued w @ [\<lparr>tkType = TaskTypeExecuteRun,
        tkPayload = ExecuteRunPayload_Marshal \<lparr>epRunID = i\<rparr>, tkOptions = dpOpts d\<rparr>]) \<or>
    (\<exists>e. x = Some e \<and> \<not> errorsIs e ErrSkipRetry \<and> queued w' = queued w \<and>
      (runRows w' = runRows w \<or>
       (\<exists>i t r. runRows w i = None \<and> buildRun (recordInput s) i t = Inr r \<and>
          runsIn w' = (runsIn w)(i \<mapsto> storedRun dbTime r))))"
proof -
  obtain p strat as ts where p: "tkPayload task = ScheduledRunPayload_Marshal p"
      "UnmarshalScheduledRunPayload (Some (ScheduledRunPayload_Marshal p)) = Inr p"
      "decodeScheduled keccak parse p = Inr (strat, as, ts, srMetrics s)"
      "\<And>i t. scheduledRun i p strat as ts (srMetrics s) t = buildRun (recordInput s) i t"
    using buildScheduledRunTask_decodes [OF assms(1,2), of opts] assms(4) by auto
  obtain buf w1 where buf: "run_state rand w = (buf, w1)" by (rule prod.exhaust)
  note k1 = draw_keeps [OF buf]
  show ?thesis
  proof (cases buf)
    case None
    then show ?thesis using x buf k1 by (auto simp: HandleScheduledRun_def p h NewRunID_def)
  next
    case (Some b)
    define i where "i = EncodeToString b"
    have i: "i \<noteq> []" "runRows w i = None"
      using draw_bytes [of w b w1] fresh [of b w1] buf Some by (auto simp: i_def)
    obtain t w2 where t: "run_state clock w1 = (t, w2)" by (rule prod.exhaust)
    note k2 = clock_keeps [OF t] tick_keeps [OF t]
    obtain r where r: "buildRun (recordInput s) i t = Inr r"
      using recordInput_builds [OF assms(2) i(1)] by blast
    from buildRun_fields [OF r] recordInput_storable [OF assms(2)] have f: "runId r = i" "runCreatedAt r = t" "representable r" by auto
    have "run_state (saveAndEnqueue (NewRunRepo keccak db) (Dispatcher_EnqueueRunExecution d) r) w2 = (x, w')"
      using x buf Some t r by (simp add: HandleScheduledRun_def p h NewRunID_def i_def)
    from saveAndEnqueue_cases [OF this assms(3) f(3)] f i r k1 k2 show ?thesis by metis
  qed
qed

end

text \<open>
  The server's side: the dispatcher is wired to the same queue, clock and database, whose schedules the
  clock, the random source and the context do not write.
\<close>

locale queue_server = job_queue db runRows dbTime clock keccak client queued rand
  + schedule_table db schedRows dbTime
  for db :: "'w gorm_db" and runRows and dbTime and clock :: "'w clock" and keccak and client and queued and rand
    and schedRows :: "'w \<Rightarrow> string \<rightharpoonup> schedule_model" +
  fixes d :: "'w dispatcher"
    and ctxErr :: "'w context_err"
    and loadLocation :: "string \<Rightarrow> string option"
  assumes wired_queue: "dpEnqueue d = client" and wired_clock: "dpClock d = clock"
    and wired_schedules: "dpSchedules d = Some (NewScheduleRepo keccak loadLocation db)"
    and ctx_runs: "run_state ctxErr w = (c, w') \<Longrightarrow> runRows w' = runRows w \<and> schedRows w' = schedRows w"
    and draw_schedules: "run_state rand w = (b, w') \<Longrightarrow> schedRows w' = schedRows w"
    and tick_schedules: "run_state clock w = (n, w') \<Longrightarrow> schedRows w' = schedRows w"
    and loaded_again: "loadLocation z = Some loc \<Longrightarrow> loadLocation loc = Some loc"
begin

lemma schedule_save_keeps:
  "run_state (gormScheduleRepo_Save keccak db s) w = (x, w') \<Longrightarrow> runRows w' = runRows w"
  by (auto simp: gormScheduleRepo_Save_def split: sum.splits prod.splits dest: schedule_keeps)

lemma recurring_keeps:
  assumes "run_state (Dispatcher_ScheduleRecurring rand ctxErr d sch pay) w = (j, w')"
  shows "runRows w' = runRows w"
  using assms ctx_runs draw_keeps clock_keeps schedule_save_keeps
  by (auto simp: Dispatcher_ScheduleRecurring_def wired_schedules wired_clock NewScheduleRepo_def
      split: if_splits option.splits sum.splits prod.splits)

end

sublocale queue_server \<subseteq> front: run_scheduler db runRows dbTime clock keccak "dispatcherPort rand ctxErr d" rand
proof (unfold_locales, goal_cases)
  case (1 i w e w')
  then show ?case using enqueue_cases(1) [OF wired_queue] by (simp add: dispatcherPort_def)
next
  case (2 sch p w j w')
  then show ?case using recurring_keeps by (simp add: dispatcherPort_def)
qed (use draw_keeps tick_keeps in auto)

text \<open>The record \<open>ScheduleRecurring\<close> saves.\<close>

definition acceptedRecord :: "job_id \<Rightarrow> schedule \<Rightarrow> schedule_payload \<Rightarrow> gotime \<Rightarrow> schedule_record" where
  "acceptedRecord j sch pay t =
     \<lparr>srJobID = j, srChainID = spChainID pay, srSchedule = sch, srStrategy = spStrategy pay,
      srMetrics = spMetrics pay, srAddressPlans = spAddressPlans pay, srTokenPlans = spTokenPlans pay,
      srCreatedAt = t, srActive = True\<rparr>"

lemma toScheduleModel_created:
  "toScheduleModel keccak (acceptedRecord j sch pay t) = Inr m \<Longrightarrow>
     toScheduleModel keccak (acceptedRecord j sch pay (dbTime t)) = Inr (storedSchedule dbTime m)"
  by (auto simp: toScheduleModel_def acceptedRecord_def storedSchedule_def split: sum.splits)

lemma acceptedRecord_stored:
  assumes "NewSchedule loadLocation cron tz = Inr sch" "storableRecord (acceptedRecord j sch pay t)"
    and "\<And>z loc. loadLocation z = Some loc \<Longrightarrow> loadLocation loc = Some loc"
    and "toScheduleModel keccak (acceptedRecord j sch pay t) = Inr m"
  shows "toScheduleRecord keccak loadLocation (storedSchedule dbTime m) = Inr (acceptedRecord j sch pay (dbTime t))"
proof -
  let ?s = "acceptedRecord j sch pay (dbTime t)"
  obtain strat as ts where *: "srStrategy ?s = Some strat" "wfStrategy strat" "set (srMetrics ?s) \<subseteq> set AllMetrics"
      "srAddressPlans ?s = map Some as" "\<forall>p \<in> set as. wfAddressPlan p"
      "srTokenPlans ?s = map Some ts" "\<forall>p \<in> set ts. wfTokenPlan p"
    using assms(2) by (auto simp: storableRecord_def acceptedRecord_def)
  have "NewSchedule loadLocation cron tz = Inr (srSchedule ?s)" using assms(1) by (simp add: acceptedRecord_def)
  from schedule_storage_roundtrip [OF this assms(3) *, where keccak = keccak] toScheduleModel_created [OF assms(4), of dbTime]
  show ?thesis by auto
qed

lemma renderConfigs_mem:
  assumes "s \<in> set ss" "buildScheduledRunTask keccak print s opts = Inr task"
  shows "\<lparr>pcCronspec = schCronExpr (srSchedule s), pcTask = task\<rparr> \<in> set (renderConfigs keccak print opts ss)"
  using assms by (induction ss) (auto split: sum.splits)

context queue_server
begin

lemma recurring_saved:
  assumes "run_state (Dispatcher_ScheduleRecurring rand ctxErr d sch pay) w = (Inr j, w1)"
    and fresh: "\<forall>c v buf v'. run_state ctxErr w = (c, v) \<and> run_state rand v = (Some buf, v') \<longrightarrow> schedRows w (EncodeToString buf) = None"
  shows "\<exists>t m. schedRows w j = None \<and> toScheduleModel keccak (acceptedRecord j sch pay t) = Inr m \<and>
    schedRows w1 = (schedRows w)(j \<mapsto> storedSchedule dbTime m)"
proof -
  obtain c v1 where c: "run_state ctxErr w = (c, v1)" by (rule prod.exhaust)
  obtain b v2 where b: "run_state rand v1 = (b, v2)" by (rule prod.exhaust)
  obtain t v3 where t: "run_state clock v2 = (t, v3)" by (rule prod.exhaust)
  have k: "schedRows v3 = schedRows w"
    using ctx_runs [OF c] draw_schedules [OF b] tick_schedules [OF t] by simp
  have "\<exists>bs. b = Some bs \<and> j = EncodeToString bs \<and>
      run_state (gormScheduleRepo_Save keccak db (acceptedRecord j sch pay t)) v3 = (None, w1)"
    using assms(1) c b t
    by (auto simp: Dispatcher_ScheduleRecurring_def wired_schedules wired_clock NewScheduleRepo_def newJobID_def
        acceptedRecord_def split: if_splits option.splits sum.splits prod.splits)
  then obtain bs where bs: "b = Some bs" "j = EncodeToString bs"
      and sv: "run_state (gormScheduleRepo_Save keccak db (acceptedRecord j sch pay t)) v3 = (None, w1)" by blast
  have free: "schedRows w j = None" using fresh c b bs by auto
  then show ?thesis
    using repo_schedule_save [OF sv] tick_keeps [OF t] by (auto simp: acceptedRecord_def k)
qed

lemma recurring_offered:
  assumes "run_state (Dispatcher_ScheduleRecurring rand ctxErr d sch pay) w = (Inr j, w1)"
    and "\<forall>c v buf v'. run_state ctxErr w = (c, v) \<and> run_state rand v = (Some buf, v') \<longrightarrow> schedRows w (EncodeToString buf) = None"
    and "NewSchedule loadLocation cron tz = Inr sch" and ok: "storableRecord (acceptedRecord [] sch pay 0)"
    and "run_state (GetConfigs keccak print d) w1 = (Inr cfgs, w2)" 
    and "json_text print parse (recordDocs keccak (acceptedRecord [] sch pay 0))"
  shows "\<exists>s task. storableRecord s \<and> recordInput s = recordInput (acceptedRecord [] sch pay 0) \<and>
    buildScheduledRunTask keccak print s (dpOpts d) = Inr task \<and>
    \<lparr>pcCronspec = schCronExpr sch, pcTask = task\<rparr> \<in> set cfgs"
proof -
  obtain t m where m: "toScheduleModel keccak (acceptedRecord j sch pay t) = Inr m"
      "schedRows w1 = (schedRows w)(j \<mapsto> storedSchedule dbTime m)"
    using recurring_saved [OF assms(1,2)] by blast
  have st: "storableRecord (acceptedRecord j' sch pay t')" for j' t'
    using ok by (simp add: storableRecord_def acceptedRecord_def)
  define s where "s = acceptedRecord j sch pay (dbTime t)"
  have s: "toScheduleRecord keccak loadLocation (storedSchedule dbTime m) = Inr s"
    unfolding s_def by (rule acceptedRecord_stored [OF assms(3) st loaded_again m(1)])
  have "smActive (storedSchedule dbTime m)"
    using m(1) by (auto simp: toScheduleModel_def acceptedRecord_def storedSchedule_def split: sum.splits)
  moreover obtain ss v where ss: "run_state (gormScheduleRepo_ListActive keccak loadLocation db) w1 = (Inr ss, v)"
      "set (renderConfigs keccak print (dpOpts d) ss) \<subseteq> set cfgs"
    using assms(5) by (auto simp: GetConfigs_def wired_schedules NewScheduleRepo_def split: sum.splits prod.splits)
  ultimately have "s \<in> set ss" using repo_list_active(1) [OF ss(1)] s m(2) by fastforce
  moreover obtain task where task: "buildScheduledRunTask keccak print s (dpOpts d) = Inr task"
    using buildScheduledRunTask_decodes [of print parse keccak s "dpOpts d"] assms(6) st
    by (auto simp: s_def acceptedRecord_def recordDocs_def)
  ultimately have "\<lparr>pcCronspec = schCronExpr sch, pcTask = task\<rparr> \<in> set cfgs"
    using renderConfigs_mem [of s ss keccak print "dpOpts d" task] ss(2) by (auto simp: s_def acceptedRecord_def)
  moreover have "recordInput s = recordInput (acceptedRecord [] sch pay 0)"
    by (simp add: recordInput_def s_def acceptedRecord_def)
  ultimately show ?thesis using task st unfolding s_def by blast
qed

end

section \<open>The in-memory database with a queue beside it\<close>

definition onFirst :: "('a, 'x) state \<Rightarrow> ('a \<times> 'b, 'x) state" where
  "onFirst m = State (\<lambda>(a, b). case run_state m a of (x, a') \<Rightarrow> (x, (a', b)))"

lemma onFirst_iff:
  "run_state (onFirst m) w = (x, w') \<longleftrightarrow> run_state m (fst w) = (x, fst w') \<and> snd w' = snd w"
  by (cases w; cases w') (auto simp: onFirst_def split: prod.splits)

definition besideDB :: "'a gorm_db \<Rightarrow> ('a \<times> 'b) gorm_db" where
  "besideDB db =
     \<lparr>dbUpsertRun = (\<lambda>m. onFirst (dbUpsertRun db m)), dbFirstRun = (\<lambda>i. onFirst (dbFirstRun db i)),
      dbCountRuns = (\<lambda>c. onFirst (dbCountRuns db c)), dbFindRuns = (\<lambda>q. onFirst (dbFindRuns db q)),
      dbDeleteRuns = (\<lambda>c. onFirst (dbDeleteRuns db c)), dbCreateDiff = (\<lambda>m. onFirst (dbCreateDiff db m)),
      dbFirstDiff = (\<lambda>k. onFirst (dbFirstDiff db k)), dbCountDiffs = (\<lambda>c. onFirst (dbCountDiffs db c)),
      dbFindDiffs = (\<lambda>q. onFirst (dbFindDiffs db q)), dbUpdateDiffs = (\<lambda>c u. onFirst (dbUpdateDiffs db c u)),
      dbUpsertSchedule = (\<lambda>m. onFirst (dbUpsertSchedule db m)),
      dbUpdateSchedules = (\<lambda>c u. onFirst (dbUpdateSchedules db c u)),
      dbFindSchedules = (\<lambda>q. onFirst (dbFindSchedules db q))\<rparr>"

lemma run_table_beside: "run_table db rows t \<Longrightarrow> run_table (besideDB db) (\<lambda>w. rows (fst w)) t"
  unfolding run_table_def by (simp add: besideDB_def onFirst_iff)

lemma schedule_table_beside: "schedule_table db rows t \<Longrightarrow> schedule_table (besideDB db) (\<lambda>w. rows (fst w)) t"
  unfolding schedule_table_def by (simp add: besideDB_def onFirst_iff)

type_synonym memory_queue = "memory \<times> asynq_task list"

definition mqDB :: "memory_queue gorm_db" where
  "mqDB = besideDB memDB"

definition mqClient :: "asynq_task \<Rightarrow> (memory_queue, string option) state" where
  "mqClient t = State (\<lambda>(m, q). (None, (m, q @ [t])))"

definition mqClock :: "memory_queue clock" where
  "mqClock = onFirst memTick"

definition mqRand :: "(memory_queue, byte list option) state" where
  "mqRand = State_Monad.return (Some (replicate 16 7))"

definition mqCtx :: "memory_queue context_err" where
  "mqCtx = State_Monad.return None"

definition mqDispatcher :: "memory_queue dispatcher" where
  "mqDispatcher = NewDispatcher mqClient (Some (NewScheduleRepo memKeccak onlyUTC mqDB)) mqClock"

lemma mq_tables:
  "run_table mqDB (\<lambda>w. runTable (fst w)) micros" "schedule_table mqDB (\<lambda>w. scheduleTable (fst w)) micros"
  unfolding mqDB_def
  by (rule run_table_beside schedule_table_beside, rule memory_runs.run_table_axioms memory_schedules.schedule_table_axioms)+

interpretation mq: queue_server mqDB "\<lambda>w. runTable (fst w)" micros mqClock memKeccak mqClient snd mqRand
  "\<lambda>w. scheduleTable (fst w)" mqDispatcher mqCtx onlyUTC
proof (intro queue_server.intro job_queue.intro run_clients.intro mq_tables, goal_cases)
  case 1
  then show ?case
    by unfold_locales (auto simp: mqClock_def onFirst_iff memTick_def runTable_def fun_eq_iff)
next
  case 2
  then show ?case
    by unfold_locales
      (auto simp: mqClient_def mqRand_def mqClock_def mqDB_def besideDB_def onFirst_iff memTick_def memDB_def runTable_def
        fun_eq_iff)
next
  case 3
  then show ?case
    by unfold_locales
      (auto simp: mqDispatcher_def NewDispatcher_def mqCtx_def mqRand_def mqClock_def onFirst_iff memTick_def
        scheduleTable_def onlyUTC_def fun_eq_iff split: if_splits)
qed

section \<open>A schedule fires\<close>


text \<open>A text form of documents: the number of a document, in unary.\<close>

instance json :: countable
  by countable_datatype

definition unaryPrint :: "json \<Rightarrow> byte list" where
  "unaryPrint j = replicate (Suc (to_nat j)) 0"

definition unaryParse :: "byte list \<Rightarrow> json option" where
  "unaryParse bs = (case length bs of 0 \<Rightarrow> None | Suc n \<Rightarrow> Some (from_nat n))"

lemma unary_text: "json_text unaryPrint unaryParse J"
  by (simp add: json_text_def unaryPrint_def unaryParse_def)

definition hourly :: schedule where
  "hourly = \<lparr>schCronExpr = ''0 * * * *'', schTimezone = Some ''UTC''\<rparr>"

definition mqPayload :: schedule_payload where
  "mqPayload = \<lparr>spChainID = 1, spMetrics = [MetricBlockHash], spStrategy = Some (LatestN 5), spAddressPlans = [],
     spTokenPlans = []\<rparr>"

definition mqStart :: memory_queue where
  "mqStart = (\<lparr>memRuns = [], memDiffs = [], memSchedules = [], memClock = 0\<rparr>, [])"

definition mqHandlers :: "memory_queue handlers" where
  "mqHandlers =
     \<lparr>hExecuteRun = (\<lambda>_. State_Monad.return (Returns None)), hRuns = Some (NewRunRepo memKeccak mqDB),
      hEnqueuer = Some (Dispatcher_EnqueueRunExecution mqDispatcher), hClock = Some mqClock, hPruner = None\<rparr>"

lemma mqPayload_storable: "storableRecord (acceptedRecord j hourly mqPayload t)"
  by (simp add: storableRecord_def acceptedRecord_def mqPayload_def AllMetrics_def)

lemma mqStart_recurring:
  "\<exists>j w1. run_state (Dispatcher_ScheduleRecurring mqRand mqCtx mqDispatcher hourly mqPayload) mqStart = (Inr j, w1)"
proof -
  have "\<exists>m. toScheduleModel memKeccak (acceptedRecord j hourly mqPayload t) = Inr m" for j t
    by (simp add: toScheduleModel_def acceptedRecord_def mqPayload_def marshalStrategy_def marshalAddressPlans_def
        marshalTokenPlans_def)
  then obtain m where "toScheduleModel memKeccak (acceptedRecord (EncodeToString (replicate 16 7)) hourly mqPayload 1000) = Inr m"
    by blast
  then show ?thesis
    by (auto simp: Dispatcher_ScheduleRecurring_def Schedule_IsZero_def hourly_def mqDispatcher_def NewDispatcher_def
        mqCtx_def mqRand_def newJobID_def mqClock_def onFirst_def memTick_def mqStart_def NewScheduleRepo_def
        gormScheduleRepo_Save_def acceptedRecord_def mqDB_def besideDB_def memDB_def)
qed

lemma decodeRows_total: "(\<And>m. m \<in> set ms \<Longrightarrow> \<exists>r. f m = Inr r) \<Longrightarrow> \<exists>rs. decodeRows f what ms = Inr rs"
proof (induction ms)
  case (Cons m ms)
  obtain r where "f m = Inr r" using Cons.prems [of m] by auto
  moreover obtain rs where "decodeRows f what ms = Inr rs" using Cons.IH Cons.prems by auto
  ultimately show ?case by simp
qed simp

lemma mqStart_fresh:
  "\<forall>c v buf v'. run_state mqCtx mqStart = (c, v) \<and> run_state mqRand v = (Some buf, v') \<longrightarrow>
     scheduleTable (fst mqStart) (EncodeToString buf) = None"
  by (simp add: mqStart_def scheduleTable_def)

lemma hourly_new: "NewSchedule onlyUTC ''0 * * * *'' ''UTC'' = Inr hourly"
  by code_simp

lemma mq_configs:
  assumes "run_state (Dispatcher_ScheduleRecurring mqRand mqCtx mqDispatcher hourly mqPayload) mqStart = (Inr j, w1)"
  shows "\<exists>cfgs w2. run_state (GetConfigs memKeccak print mqDispatcher) w1 = (Inr cfgs, w2)"
proof -
  obtain t m where m: "toScheduleModel memKeccak (acceptedRecord j hourly mqPayload t) = Inr m"
      "scheduleTable (fst w1) = (scheduleTable (fst mqStart))(j \<mapsto> storedSchedule micros m)"
    using mq.recurring_saved [OF assms mqStart_fresh] by blast
  have "toScheduleRecord memKeccak onlyUTC (storedSchedule micros m) = Inr (acceptedRecord j hourly mqPayload (micros t))"
    by (rule acceptedRecord_stored [OF hourly_new mqPayload_storable mq.loaded_again m(1)])
  moreover have "row = storedSchedule micros m" if "scheduleTable (fst w1) k = Some row" for k row
    using that unfolding m(2) by (simp add: mqStart_def scheduleTable_def split: if_splits)
  ultimately have "\<exists>r. toScheduleRecord memKeccak onlyUTC row = Inr r" if "scheduleTable (fst w1) k = Some row" for k row
    using that by blast
  then have "\<exists>rs. decodeRows (toScheduleRecord memKeccak onlyUTC) what
      (memFind scheduleColumn ks (scheduleTable (fst w1)) q) = Inr rs" for what ks q
    by (intro decodeRows_total) (blast dest: memFind_rows)
  note dec = this
  obtain a q where w1: "w1 = (a, q)" by (rule prod.exhaust)
  have "\<exists>rs. run_state (gormScheduleRepo_ListActive memKeccak onlyUTC mqDB) w1 = (Inr rs, w1)"
    using dec by (simp add: gormScheduleRepo_ListActive_def mqDB_def besideDB_def memDB_def onFirst_def w1)
  then obtain rs where "run_state (gormScheduleRepo_ListActive memKeccak onlyUTC mqDB) w1 = (Inr rs, w1)" ..
  then show ?thesis
    by (simp add: GetConfigs_def mqDispatcher_def NewDispatcher_def NewScheduleRepo_def)
qed


section \<open>Retry classes\<close>

text \<open>
  Property C11. The retry classes of a scheduled run, for a worker with all its ports, none of whose own errors is
  \<open>SkipRetry\<close>: an error is marked \<open>SkipRetry\<close> exactly when the payload is malformed, names no known
  strategy or plan, or names a metric outside the catalog; in that case nothing has happened to the world.
\<close>

theorem scheduled_run_retry:
  assumes "hRuns h = Some runs" and "hEnqueuer h = Some enqueuer" and "hClock h = Some clock"
    and "\<And>r v e v'. run_state (RunRepo_Save runs r) v = (Some e, v') \<Longrightarrow> \<not> errorsIs e ErrSkipRetry"
    and "\<And>i v e v'. run_state (enqueuer i) v = (Some e, v') \<Longrightarrow> \<not> errorsIs e ErrSkipRetry"
    and "\<And>v buf v'. run_state rand v = (Some buf, v') \<Longrightarrow> buf \<noteq> []"
    and "run_state (HandleScheduledRun keccak parse rand h body) w = (Some e, w')"
  shows "(errorsIs e ErrSkipRetry \<longleftrightarrow>
      (\<forall>p. UnmarshalScheduledRunPayload body = Inr p \<longrightarrow> (\<exists>err. decodeScheduled keccak parse p = Inl err))) \<and>
    (errorsIs e ErrSkipRetry \<longrightarrow> w' = w)"
proof (cases "UnmarshalScheduledRunPayload body")
  case (Inl err)
  then show ?thesis using assms(7) by (auto simp: HandleScheduledRun_def)
next
  case (Inr p)
  show ?thesis
  proof (cases "decodeScheduled keccak parse p")
    case (Inl err)
    then have "errorsIs err ErrSkipRetry"
      by (auto simp: decodeScheduled_def split: sum.splits)
    with Inl Inr show ?thesis using assms(1-3,7) by (auto simp: HandleScheduledRun_def)
  next
    case d: (Inr q)
    obtain strat as ts ms where q: "q = (strat, as, ts, ms)" by (rule prod_cases4)
    have "ms \<noteq> []" "sdChainID p \<noteq> 0"
      using d Inr by (auto simp: q decodeScheduled_def UnmarshalScheduledRunPayload_def
          split: sum.splits option.splits if_splits dest!: scheduledMetrics_length)
    then have build: "\<exists>r. scheduledRun i p strat as ts ms t = Inr r" if "i \<noteq> []" for i t
      using that by (simp add: scheduledRun_def NewRun_def SetTokenPlans_def firstNil_map_Some)
    have keep: "\<not> errorsIs e' ErrSkipRetry"
      if "run_state (saveAndEnqueue runs enqueuer r) v = (Some e', v')" for r v e' v'
      using that assms(4,5) by (fastforce simp: saveAndEnqueue_def split: prod.splits option.splits)
    obtain b w1 where b: "run_state rand w = (b, w1)" by (rule prod.exhaust)
    obtain t w2 where t: "run_state clock w1 = (t, w2)" by (rule prod.exhaust)
    have "\<not> errorsIs e ErrSkipRetry"
    proof (cases b)
      case None
      then show ?thesis using assms(1-3,7) Inr d q b by (auto simp: HandleScheduledRun_def NewRunID_def)
    next
      case (Some bs)
      then have "EncodeToString bs \<noteq> []" using assms(6) [of w bs w1] b by simp
      from build [OF this, of t] obtain r where "scheduledRun (EncodeToString bs) p strat as ts ms t = Inr r" ..
      then show ?thesis
        using assms(1-3,7) Inr d q b t Some keep [of r w2 e w'] by (simp add: HandleScheduledRun_def NewRunID_def)
    qed
    with Inr d show ?thesis by auto
  qed
qed

theorem scheduled_run_retry_witness:
  "\<exists>e w'. run_state (HandleScheduledRun memKeccak unaryParse mqRand mqHandlers None) mqStart = (Some e, w') \<and>
     errorsIs e ErrSkipRetry \<and> w' = mqStart"
proof -
  obtain e w' where e: "run_state (HandleScheduledRun memKeccak unaryParse mqRand mqHandlers None) mqStart = (Some e, w')"
    and bad: "UnmarshalScheduledRunPayload None \<noteq> Inr p" for p
    by (simp add: HandleScheduledRun_def UnmarshalScheduledRunPayload_def bodyObject_def)
  have h: "hRuns mqHandlers = Some (NewRunRepo memKeccak mqDB)"
    "hEnqueuer mqHandlers = Some (Dispatcher_EnqueueRunExecution mqDispatcher)" "hClock mqHandlers = Some mqClock"
    by (simp_all add: mqHandlers_def)
  have "\<not> errorsIs e' ErrSkipRetry"
    if "run_state (RunRepo_Save (NewRunRepo memKeccak mqDB) r) v = (Some e', v')" for r v e' v'
    using that mq.save_error by simp
  moreover have "\<not> errorsIs e' ErrSkipRetry"
    if "run_state (Dispatcher_EnqueueRunExecution mqDispatcher i) v = (Some e', v')" for i v e' v'
    using mq.enqueue_cases(3) [OF mq.wired_queue that refl] by blast
  moreover have "buf \<noteq> []" if "run_state mqRand v = (Some buf, v')" for v buf v'
    using that by (auto simp: mqRand_def)
  ultimately show ?thesis using scheduled_run_retry [OF h _ _ _ e] bad e by blast
qed


definition memHandlers :: "memory handlers" where
  "memHandlers =
     \<lparr>hExecuteRun = ExecuteRun_Execute memKeccak (\<lambda>_ _ _ _. 0) (ErrorText (\<lambda>_. [])) memCtx memUC,
      hRuns = None, hEnqueuer = None, hClock = Some memTick, hPruner = Some (gormRunRepo_PruneFinishedBefore memDB)\<rparr>"


section \<open>The retention sweep\<close>



section \<open>The timezone of a schedule\<close>

text \<open>
  The provider hands asynq only the cron expression: schedules that differ in nothing but their timezone
  are rendered to the same periodic tasks, so all of them fire in the scheduler's own timezone.
\<close>

theorem timezone_ignored:
  "renderConfigs keccak print opts (map (\<lambda>s. s\<lparr>srSchedule := (srSchedule s)\<lparr>schTimezone := z s\<rparr>\<rparr>) ss) =
     renderConfigs keccak print opts ss"
proof (induction ss)
  case (Cons s ss)
  have "buildScheduledRunTask keccak print (s\<lparr>srSchedule := (srSchedule s)\<lparr>schTimezone := z s\<rparr>\<rparr>) opts =
      buildScheduledRunTask keccak print s opts"
    by (simp add: buildScheduledRunTask_def cong: sum.case_cong)
  with Cons show ?case by (simp split: sum.splits)
qed simp

end
