(* ===== verification/Httpx.thy ===== *)
theory Httpx
  imports Source Serialize Float64
begin

text \<open>
  The HTTP client the adapters share (\<open>adapters/internal/httpx\<close>): the retry policy and its backoff
  (\<open>retry.go\<close>), and the client with its rate limit and retry loop (\<open>client.go\<close>). The network
  (\<open>http.Client.Do\<close>), the rate limiter of \<open>golang.org/x/time/rate\<close>, the caller's context, the waiting,
  the random number and the clock are computations over the world, collected in \<open>net_env\<close>.
\<close>

section \<open>Requests, responses and the environment\<close>

text \<open>The errors the code tells apart: those of the context, and all others.\<close>

datatype net_error =
    NetCanceled
  | NetDeadlineExceeded
  | NetError string
  | NetExhausted int net_error

fun isContextErr :: "net_error \<Rightarrow> bool" where
  "isContextErr NetCanceled \<longleftrightarrow> True"
| "isContextErr NetDeadlineExceeded \<longleftrightarrow> True"
| "isContextErr (NetError _) \<longleftrightarrow> False"
| "isContextErr (NetExhausted _ e) \<longleftrightarrow> isContextErr e"

text \<open>A body: a JSON text, one with further text behind it, a text that is not JSON, or a body that cannot
  be read, as one that was closed.\<close>

datatype http_body = BodyJSON json | BodyTrailing json | BodyText | BodyUnreadable

record http_reply =
  rpStatus :: int
  rpRetryAfter :: string
  rpBody :: http_body

text \<open>A request has no body (\<open>None\<close>) or a JSON body; \<open>hqGetBody\<close> is the hook that opens it again:
  \<open>None\<close> when nil, otherwise what calling it returns as an error.\<close>

record http_req =
  hqMethod :: string
  hqURL :: string
  hqBody :: "json option"
  hqGetBody :: "net_error option option"

type_synonym 'w http_client = "duration \<Rightarrow> http_req \<Rightarrow> ('w, net_error + http_reply) state"

record 'w net_env =
  neCtxErr :: "('w, net_error option) state"
  neSleep :: "duration \<Rightarrow> ('w, net_error option) state"
  neFloat64 :: "('w, rat) state"
  neNow :: "('w, gotime) state"
  neClient :: "'w http_client"
  neNewLimiter :: "rat \<Rightarrow> int \<Rightarrow> ('w, net_error option) state"
  neParseURL :: "string \<Rightarrow> bool"

section \<open>The retry policy (\<open>retry.go\<close>)\<close>

record retry_policy =
  rpMaxAttempts :: int
  rpBaseDelay :: duration
  rpMaxDelay :: duration
  rpRetryable :: "(int \<Rightarrow> net_error option \<Rightarrow> bool) option"

definition DefaultRetryable :: "int \<Rightarrow> net_error option \<Rightarrow> bool" where
  "DefaultRetryable status err =
     (case err of
        Some e \<Rightarrow> \<not> isContextErr e
      | None \<Rightarrow> status = 429 \<or> status = 500 \<or> status = 502 \<or> status = 503 \<or> status = 504)"

definition DefaultRetryPolicy :: retry_policy where
  "DefaultRetryPolicy =
     \<lparr>rpMaxAttempts = 4, rpBaseDelay = 200 * 1000000, rpMaxDelay = 5 * 1000000000,
      rpRetryable = Some DefaultRetryable\<rparr>"

definition PolicyRetryable :: "retry_policy \<Rightarrow> int \<Rightarrow> net_error option \<Rightarrow> bool" where
  "PolicyRetryable p status err =
     (case rpRetryable p of Some f \<Rightarrow> f status err | None \<Rightarrow> DefaultRetryable status err)"

text \<open>The doubling loop of \<open>BackoffDelay\<close>, which stops at the cap.\<close>

fun backoffLoop :: "nat \<Rightarrow> duration \<Rightarrow> duration \<Rightarrow> duration" where
  "backoffLoop 0 d maxDelay = d"
| "backoffLoop (Suc n) d maxDelay =
     (let d = wrap64 (d * 2) in if d > maxDelay then maxDelay else backoffLoop n d maxDelay)"

definition cappedDelay :: "retry_policy \<Rightarrow> nat \<Rightarrow> duration" where
  "cappedDelay p attempt =
     (let base = (if rpBaseDelay p \<le> 0 then rpBaseDelay DefaultRetryPolicy else rpBaseDelay p);
          maxDelay = (if rpMaxDelay p \<le> 0 then rpMaxDelay DefaultRetryPolicy else rpMaxDelay p);
          d = backoffLoop attempt base maxDelay
      in if d > maxDelay then maxDelay else d)"

text \<open>The jitter for a random number \<open>r\<close>. \<open>rand.Float64\<close> returns a multiple of \<open>2\<^sup>-\<^sup>5\<^sup>3\<close> below 1, so the
  shift and the scaling by powers of two are exact; the conversion of \<open>d\<close> and the product are rounded.\<close>

definition jitterOffset :: "rat \<Rightarrow> duration \<Rightarrow> duration" where
  "jitterOffset r d = truncRat (roundRat ((r - 1 / 2) * 2 * (roundRat (of_int d) / 4)))"

definition BackoffDelay :: "('w, rat) state \<Rightarrow> retry_policy \<Rightarrow> nat \<Rightarrow> ('w, duration) state" where
  "BackoffDelay float p attempt =
     do {
       r \<leftarrow> float;
       State_Monad.return (let d = cappedDelay p attempt in wrap64 (d + jitterOffset r d))
     }"

section \<open>The client (\<open>client.go\<close>)\<close>

record 'w hx_client =
  hxClient :: "'w http_client"
  hxTimeout :: duration
  hxLimiter :: "('w, net_error option) state option"
  hxRetry :: retry_policy

type_synonym 'w hx_option = "'w net_env \<Rightarrow> 'w hx_client \<Rightarrow> 'w hx_client"

definition WithHTTPClient :: "('w http_client \<times> duration) option \<Rightarrow> 'w hx_option" where
  "WithHTTPClient hc env c =
     (case hc of Some (t, d) \<Rightarrow> c\<lparr>hxClient := t, hxTimeout := d\<rparr> | None \<Rightarrow> c)"

definition WithTimeout :: "duration \<Rightarrow> 'w hx_option" where
  "WithTimeout d env c = (if d > 0 then c\<lparr>hxTimeout := d\<rparr> else c)"

definition WithRateLimit :: "rat \<Rightarrow> int \<Rightarrow> 'w hx_option" where
  "WithRateLimit rps burst env c =
     (if rps \<le> 0 then c
      else c\<lparr>hxLimiter := Some (neNewLimiter env rps (if burst < 1 then 1 else burst))\<rparr>)"

definition WithRetry :: "retry_policy \<Rightarrow> 'w hx_option" where
  "WithRetry p env c = (if rpMaxAttempts p \<ge> 1 then c\<lparr>hxRetry := p\<rparr> else c)"

definition httpx_New :: "'w net_env \<Rightarrow> 'w hx_option list \<Rightarrow> 'w hx_client" where
  "httpx_New env opts =
     fold (\<lambda>opt. opt env) opts
       \<lparr>hxClient = neClient env, hxTimeout = 30 * 1000000000, hxLimiter = None, hxRetry = DefaultRetryPolicy\<rparr>"

definition hasReplayableBody :: "http_req \<Rightarrow> bool" where
  "hasReplayableBody req \<longleftrightarrow> hqBody req \<noteq> None"

definition parseRetryAfter :: "string \<Rightarrow> duration" where
  "parseRetryAfter h =
     (if h = [] then 0
      else case ParseInt h of
        None \<Rightarrow> 0
      | Some n \<Rightarrow> if n < 0 then 0 else wrap64 (n * 1000000000))"

text \<open>What \<open>Do\<close> returns once it gives up: the last error, or the last response, whose body was drained and
  closed.\<close>

definition lastOutcome :: "int \<Rightarrow> net_error + http_reply \<Rightarrow> net_error + http_reply" where
  "lastOutcome attempts out =
     (case out of
        Inl e \<Rightarrow> Inl (NetExhausted attempts e)
      | Inr r \<Rightarrow> Inr (r\<lparr>rpBody := BodyUnreadable\<rparr>))"

definition retryDelay ::
  "'w net_env \<Rightarrow> 'w hx_client \<Rightarrow> nat \<Rightarrow> net_error + http_reply \<Rightarrow> ('w, duration) state" where
  "retryDelay env c attempt out =
     do {
       delay \<leftarrow> BackoffDelay (neFloat64 env) (hxRetry c) attempt;
       State_Monad.return
         (case out of
            Inr r \<Rightarrow> (let ra = parseRetryAfter (rpRetryAfter r) in if ra > delay then ra else delay)
          | Inl _ \<Rightarrow> delay)
     }"

text \<open>One round of the loop, \<open>next\<close> being the rounds after it, if any are left.\<close>

definition doAttempt ::
  "'w net_env \<Rightarrow> 'w hx_client \<Rightarrow> http_req \<Rightarrow> int \<Rightarrow> nat \<Rightarrow> ('w, net_error + http_reply) state option
   \<Rightarrow> ('w, net_error + http_reply) state" where
  "doAttempt env c req attempts attempt next =
     do {
       ctx \<leftarrow> neCtxErr env;
       (case ctx of
          Some e \<Rightarrow> State_Monad.return (Inl e)
        | None \<Rightarrow>
            do {
              held \<leftarrow> (case hxLimiter c of None \<Rightarrow> State_Monad.return None | Some wait \<Rightarrow> wait);
              (case (held, if attempt > 0 \<and> hasReplayableBody req then hqGetBody req else None) of
                 (Some e, _) \<Rightarrow> State_Monad.return (Inl e)
               | (None, Some (Some e)) \<Rightarrow> State_Monad.return (Inl (NetError ''httpx: rewind body''))
               | (None, _) \<Rightarrow>
                   do {
                     out \<leftarrow> hxClient c (hxTimeout c) req;
                     (if \<not> PolicyRetryable (hxRetry c) (case out of Inr r \<Rightarrow> rpStatus r | Inl _ \<Rightarrow> 0)
                             (case out of Inl e \<Rightarrow> Some e | Inr _ \<Rightarrow> None)
                      then State_Monad.return out
                      else case next of
                        None \<Rightarrow> State_Monad.return (lastOutcome attempts out)
                      | Some k \<Rightarrow>
                          if hasReplayableBody req \<and> hqGetBody req = None
                          then State_Monad.return (lastOutcome attempts out)
                          else do {
                            delay \<leftarrow> retryDelay env c attempt out;
                            woken \<leftarrow> neSleep env delay;
                            (case woken of Some e \<Rightarrow> State_Monad.return (Inl e) | None \<Rightarrow> k)
                          })
                   })
            })
     }"

text \<open>The loop, by the number of rounds that may follow the present one.\<close>

fun doLoop ::
  "'w net_env \<Rightarrow> 'w hx_client \<Rightarrow> http_req \<Rightarrow> int \<Rightarrow> nat \<Rightarrow> nat \<Rightarrow> ('w, net_error + http_reply) state" where
  "doLoop env c req attempts attempt 0 = doAttempt env c req attempts attempt None"
| "doLoop env c req attempts attempt (Suc n) =
     doAttempt env c req attempts attempt (Some (doLoop env c req attempts (Suc attempt) n))"

definition Client_Do ::
  "'w net_env \<Rightarrow> 'w hx_client \<Rightarrow> http_req option \<Rightarrow> ('w, net_error + http_reply) state" where
  "Client_Do env c req =
     (case req of
        None \<Rightarrow> State_Monad.return (Inl (NetError ''httpx: nil request''))
      | Some rq \<Rightarrow>
          (let attempts = (if rpMaxAttempts (hxRetry c) < 1 then 1 else rpMaxAttempts (hxRetry c))
           in doLoop env c rq attempts 0 (nat (attempts - 1))))"

end
