(* ===== verification/RpcAdapter.thy ===== *)
theory RpcAdapter
  imports Httpx
begin

text \<open>
  The JSON-RPC adapter (\<open>adapters/rpc\<close>): the call with its error classes (\<open>jsonrpc.go\<close>), the hex
  decoders (\<open>hex.go\<close>), construction and capabilities (\<open>adapter.go\<close>), and the fetch methods. The request
  counter of an adapter is a computation that returns the next number. An error is the sentinel of
  \<open>internal/source\<close> it wraps; \<open>ErrTransport\<close> stands for an error that wraps none of them.
\<close>

section \<open>The adapter (\<open>adapter.go\<close>)\<close>

definition rpc_ID :: source_id where "rpc_ID = ''rpc''"

record 'w rpc_adapter =
  raChainID :: chain_id
  raURL :: string
  raHC :: "'w hx_client"
  raArchive :: bool
  raDebugTrace :: bool
  raNextID :: "('w, uint64) state"

type_synonym 'w rpc_option = "'w rpc_adapter \<Rightarrow> 'w rpc_adapter"

definition WithArchive :: "bool \<Rightarrow> 'w rpc_option" where
  "WithArchive enabled a = a\<lparr>raArchive := enabled\<rparr>"

definition WithDebugTrace :: "bool \<Rightarrow> 'w rpc_option" where
  "WithDebugTrace enabled a = a\<lparr>raDebugTrace := enabled\<rparr>"

definition rpc_WithHTTPX :: "'w hx_client option \<Rightarrow> 'w rpc_option" where
  "rpc_WithHTTPX c a = (case c of Some hc \<Rightarrow> a\<lparr>raHC := hc\<rparr> | None \<Rightarrow> a)"

definition rpc_New ::
  "'w net_env \<Rightarrow> ('w, uint64) state \<Rightarrow> chain_id \<Rightarrow> string \<Rightarrow> 'w rpc_option list \<Rightarrow> string + 'w rpc_adapter" where
  "rpc_New env nextID cid url opts =
     (if cid = 0 then Inl ''rpc: chain id is required''
      else if url = [] then Inl ''rpc: url is required''
      else Inr (fold (\<lambda>opt. opt) opts
        \<lparr>raChainID = cid, raURL = url,
         raHC = httpx_New env [WithTimeout (30 * 1000000000), WithRateLimit 20 5],
         raArchive = False, raDebugTrace = False, raNextID = nextID\<rparr>))"

definition rpc_Supports :: "'w rpc_adapter \<Rightarrow> capability \<Rightarrow> bool" where
  "rpc_Supports a c =
     (if c \<in> set [CapBlockHash, CapBlockParentHash, CapBlockTimestamp, CapBlockTxCount, CapBlockGasUsed,
                  CapBlockStateRoot, CapBlockReceiptsRoot, CapBlockTransactionsRoot, CapBlockMiner] then True
      else if c \<in> set [CapBalanceAtLatest, CapNonceAtLatest, CapTxCountAtLatest] then True
      else if c \<in> set [CapBalanceAtBlock, CapNonceAtBlock] then raArchive a
      else if c = CapERC20BalanceAtLatest then True
      else if c \<in> set [CapInternalTxByTx, CapInternalTxByBlock] then raDebugTrace a
      else False)"

section \<open>Calls (\<open>jsonrpc.go\<close>)\<close>

definition rpcRequest :: "uint64 \<Rightarrow> string \<Rightarrow> json list \<Rightarrow> json" where
  "rpcRequest i meth params =
     JObj [(''jsonrpc'', JStr ''2.0''), (''id'', encUint i), (''method'', JStr meth),
           (''params'', if params = [] then JNull else JArr params)]"

record rpc_error =
  reCode :: int
  reMessage :: string

definition decRPCError :: "json \<Rightarrow> rpc_error option" where
  "decRPCError j =
     (case asObject j of
        None \<Rightarrow> None
      | Some obj \<Rightarrow>
          (case (fieldOr 0 decInt64 ''code'' obj, fieldOr [] decString ''message'' obj) of
             (Some c, Some m) \<Rightarrow> Some \<lparr>reCode = c, reMessage = m\<rparr>
           | _ \<Rightarrow> None))"

text \<open>The response: the raw result, \<open>None\<close> when the key is absent, and the error, if any.\<close>

definition decRPCResponse :: "json \<Rightarrow> (json option \<times> rpc_error option) option" where
  "decRPCResponse j =
     (case asObject j of
        None \<Rightarrow> None
      | Some obj \<Rightarrow>
          (case (fieldOr [] decString ''jsonrpc'' obj, fieldOr 0 decUint ''id'' obj,
                 fieldOr None (decPtr decRPCError) ''error'' obj) of
             (Some _, Some _, Some err) \<Rightarrow> Some (jget ''result'' obj, err)
           | _ \<Rightarrow> None))"

fun contextText :: "net_error \<Rightarrow> source_error" where
  "contextText NetCanceled = ErrTransport ''context canceled''"
| "contextText NetDeadlineExceeded = ErrTransport ''context deadline exceeded''"
| "contextText (NetError s) = ErrTransport s"
| "contextText (NetExhausted _ e) = contextText e"

definition classifyTransportErr :: "net_error \<Rightarrow> source_error" where
  "classifyTransportErr e = (if isContextErr e then contextText e else ErrSourceUnavailable)"

definition classifyHTTPStatus :: "int \<Rightarrow> source_error" where
  "classifyHTTPStatus status =
     (if status = 429 then ErrRateLimited
      else if status \<ge> 500 then ErrSourceUnavailable
      else ErrInvalidResponse)"

fun containsSub :: "string \<Rightarrow> string \<Rightarrow> bool" where
  "containsSub [] p \<longleftrightarrow> p = []"
| "containsSub (c # s) p \<longleftrightarrow> HasPrefix (c # s) p \<or> containsSub s p"

definition classifyRPCError :: "rpc_error \<Rightarrow> source_error" where
  "classifyRPCError e =
     (if reCode e = -32601 then ErrUnsupported
      else if reCode e = -32700 \<or> reCode e = -32600 \<or> reCode e = -32602 then ErrInvalidResponse
      else if reCode e = -32603 then ErrSourceUnavailable
      else if reCode e \<ge> -32099 \<and> reCode e \<le> -32000 then
        (if containsSub (ToLower (reMessage e)) ''rate limit'' then ErrRateLimited else ErrSourceUnavailable)
      else ErrInvalidResponse)"

text \<open>What \<open>callRPC\<close> makes of the outcome of the HTTP request, \<open>dec\<close> being the decoder of the result.\<close>

definition rpcOutcome :: "(json \<Rightarrow> 'a option) \<Rightarrow> net_error + http_reply \<Rightarrow> source_error + 'a" where
  "rpcOutcome dec out =
     (case out of
        Inl e \<Rightarrow> Inl (classifyTransportErr e)
      | Inr resp \<Rightarrow>
          if rpBody resp = BodyUnreadable then Inl (ErrTransport ''rpc: read body'')
          else if rpStatus resp \<ge> 400 then Inl (classifyHTTPStatus (rpStatus resp))
          else (case (case rpBody resp of BodyJSON j \<Rightarrow> decRPCResponse j | _ \<Rightarrow> None) of
                  None \<Rightarrow> Inl ErrInvalidResponse
                | Some (_, Some e) \<Rightarrow> Inl (classifyRPCError e)
                | Some (result, None) \<Rightarrow>
                    (case Option.bind result dec of None \<Rightarrow> Inl ErrInvalidResponse | Some x \<Rightarrow> Inr x)))"

definition callRPC ::
  "'w net_env \<Rightarrow> 'w rpc_adapter \<Rightarrow> string \<Rightarrow> (json \<Rightarrow> 'a option) \<Rightarrow> json list \<Rightarrow> ('w, source_error + 'a) state" where
  "callRPC env a meth dec params =
     do {
       i \<leftarrow> raNextID a;
       (if \<not> neParseURL env (raURL a) then State_Monad.return (Inl (ErrTransport ''rpc: build http request''))
        else do {
          out \<leftarrow> Client_Do env (raHC a) (Some
            \<lparr>hqMethod = ''POST'', hqURL = raURL a, hqBody = Some (rpcRequest i meth params),
             hqGetBody = Some None\<rparr>);
          State_Monad.return (rpcOutcome dec out)
        })
     }"

section \<open>Hex (\<open>hex.go\<close>)\<close>

definition trimHexPrefix :: "string \<Rightarrow> source_error + string" where
  "trimHexPrefix s =
     (if \<not> HasPrefix s ''0x'' \<and> \<not> HasPrefix s ''0X'' then Inl ErrInvalidResponse else Inr (drop 2 s))"

definition parseHexUint64 :: "string \<Rightarrow> source_error + uint64" where
  "parseHexUint64 s =
     (case trimHexPrefix s of
        Inl e \<Rightarrow> Inl e
      | Inr raw \<Rightarrow>
          if raw = [] then Inr 0
          else (case ParseUint 16 raw of None \<Rightarrow> Inl ErrInvalidResponse | Some n \<Rightarrow> Inr n))"

definition parseHexBigInt :: "string \<Rightarrow> source_error + int" where
  "parseHexBigInt s =
     (case trimHexPrefix s of
        Inl e \<Rightarrow> Inl e
      | Inr raw \<Rightarrow>
          if raw = [] then Inr 0
          else (case SetString 16 raw of None \<Rightarrow> Inl ErrInvalidResponse | Some v \<Rightarrow> Inr v))"

definition parseHash32 :: "string \<Rightarrow> source_error + hash32" where
  "parseHash32 s = (case NewHash32 s of Inl _ \<Rightarrow> Inl ErrInvalidResponse | Inr h \<Rightarrow> Inr h)"

definition parseAddress :: "(string \<Rightarrow> byte list) \<Rightarrow> string \<Rightarrow> source_error + address" where
  "parseAddress keccak s = (case NewAddress keccak s of Inl _ \<Rightarrow> Inl ErrInvalidResponse | Inr a \<Rightarrow> Inr a)"

definition hexBytes :: "string \<Rightarrow> source_error + byte list" where
  "hexBytes s =
     (let raw = (if HasPrefix s ''0x'' \<or> HasPrefix s ''0X'' then drop 2 s else s) in
      if raw = [] then Inr []
      else let raw = (if length raw mod 2 = 1 then CHR ''0'' # raw else raw) in
        (case hexDecode raw of None \<Rightarrow> Inl ErrInvalidResponse | Some b \<Rightarrow> Inr b))"

section \<open>Blocks (\<open>block.go\<close>)\<close>

record raw_block =
  rbNumber :: string
  rbHash :: string
  rbParentHash :: string
  rbStateRoot :: string
  rbTransactionsRoot :: string
  rbReceiptsRoot :: string
  rbMiner :: string
  rbGasUsed :: string
  rbTimestamp :: string
  rbTransactions :: "string list"

definition decRawBlock :: "json \<Rightarrow> raw_block option" where
  "decRawBlock j =
     (case asObject j of
        None \<Rightarrow> None
      | Some obj \<Rightarrow>
          (let str = (\<lambda>k. fieldOr [] decString k obj) in
           case (str ''number'', str ''hash'', str ''parentHash'', str ''stateRoot'', str ''transactionsRoot'',
                 str ''receiptsRoot'', str ''miner'', str ''gasUsed'', str ''timestamp'',
                 fieldOr [] (decSlice decString) ''transactions'' obj) of
             (Some n, Some h, Some p, Some sr, Some tr, Some rr, Some m, Some g, Some ts, Some txs) \<Rightarrow>
               Some \<lparr>rbNumber = n, rbHash = h, rbParentHash = p, rbStateRoot = sr, rbTransactionsRoot = tr,
                     rbReceiptsRoot = rr, rbMiner = m, rbGasUsed = g, rbTimestamp = ts, rbTransactions = txs\<rparr>
           | _ \<Rightarrow> None))"

text \<open>\<open>time.Unix(int64(ts), 0)\<close>: seconds since 1970, counted from the zero time with 64-bit wrap-around.\<close>

definition time_Unix :: "uint64 \<Rightarrow> gotime" where
  "time_Unix ts = wrap64 (sint ts + 62135596800) * 1000000000"

definition newBlockResult :: "source_id \<Rightarrow> block_number \<Rightarrow> gotime \<Rightarrow> block_result" where
  "newBlockResult i n now =
     \<lparr>brNumber = n, brHash = None, brParentHash = None, brTimestamp = None, brTxCount = None, brGasUsed = None,
      brStateRoot = None, brReceiptsRoot = None, brTransactionsRoot = None, brMiner = None, brSourceID = i,
      brFetchedAt = now, brRawResponse = []\<rparr>"

definition populateBlockHashes :: "raw_block \<Rightarrow> block_result \<Rightarrow> source_error + block_result" where
  "populateBlockHashes raw out =
     (case parseHash32 (rbHash raw) of Inl e \<Rightarrow> Inl e | Inr h \<Rightarrow>
     (case parseHash32 (rbParentHash raw) of Inl e \<Rightarrow> Inl e | Inr p \<Rightarrow>
     (case parseHash32 (rbStateRoot raw) of Inl e \<Rightarrow> Inl e | Inr sr \<Rightarrow>
     (case parseHash32 (rbReceiptsRoot raw) of Inl e \<Rightarrow> Inl e | Inr rr \<Rightarrow>
     (case parseHash32 (rbTransactionsRoot raw) of Inl e \<Rightarrow> Inl e | Inr tr \<Rightarrow>
        Inr (out\<lparr>brHash := Some h, brParentHash := Some p, brStateRoot := Some sr, brReceiptsRoot := Some rr,
                 brTransactionsRoot := Some tr\<rparr>))))))"

definition populateBlockScalars :: "raw_block \<Rightarrow> block_result \<Rightarrow> source_error + block_result" where
  "populateBlockScalars raw out =
     (case parseHexUint64 (rbGasUsed raw) of Inl e \<Rightarrow> Inl e | Inr gas \<Rightarrow>
     (case parseHexUint64 (rbTimestamp raw) of Inl e \<Rightarrow> Inl e | Inr ts \<Rightarrow>
        Inr (out\<lparr>brGasUsed := Some gas, brTimestamp := Some (time_Unix ts)\<rparr>)))"

definition populateBlockMiner ::
  "(string \<Rightarrow> byte list) \<Rightarrow> raw_block \<Rightarrow> block_result \<Rightarrow> source_error + block_result" where
  "populateBlockMiner keccak raw out =
     (case parseAddress keccak (rbMiner raw) of Inl e \<Rightarrow> Inl e | Inr m \<Rightarrow> Inr (out\<lparr>brMiner := Some m\<rparr>))"

definition rpcBlock ::
  "(string \<Rightarrow> byte list) \<Rightarrow> block_number \<Rightarrow> gotime \<Rightarrow> raw_block \<Rightarrow> source_error + block_result" where
  "rpcBlock keccak n now raw =
     (case populateBlockHashes raw (newBlockResult rpc_ID n now) of Inl e \<Rightarrow> Inl e | Inr out \<Rightarrow>
     (case populateBlockScalars raw out of Inl e \<Rightarrow> Inl e | Inr out \<Rightarrow>
     (case populateBlockMiner keccak raw out of Inl e \<Rightarrow> Inl e | Inr out \<Rightarrow>
        Inr (out\<lparr>brTxCount := Some (word_of_nat (length (rbTransactions raw)))\<rparr>))))"

definition rpc_FetchBlock ::
  "(string \<Rightarrow> byte list) \<Rightarrow> 'w net_env \<Rightarrow> 'w rpc_adapter \<Rightarrow> block_query \<Rightarrow> ('w, source_error + block_result) state" where
  "rpc_FetchBlock keccak env a q =
     do {
       res \<leftarrow> callRPC env a ''eth_getBlockByNumber'' (decPtr decRawBlock)
         [JStr (BlockNumber_Hex (bqNumber q)), JBool False];
       (case res of
          Inl e \<Rightarrow> State_Monad.return (Inl e)
        | Inr None \<Rightarrow> State_Monad.return (Inl ErrNotFound)
        | Inr (Some raw) \<Rightarrow>
            do {
              now \<leftarrow> neNow env;
              State_Monad.return (rpcBlock keccak (bqNumber q) now raw)
            })
     }"

section \<open>Accounts (\<open>address.go\<close>)\<close>

definition rpc_getBalance ::
  "(string \<Rightarrow> byte list) \<Rightarrow> 'w net_env \<Rightarrow> 'w rpc_adapter \<Rightarrow> address \<Rightarrow> string \<Rightarrow> ('w, source_error + int) state" where
  "rpc_getBalance keccak env a addr tag =
     do {
       res \<leftarrow> callRPC env a ''eth_getBalance'' decString [JStr (Address_Hex keccak addr), JStr tag];
       State_Monad.return (case res of Inl e \<Rightarrow> Inl e | Inr hex \<Rightarrow> parseHexBigInt hex)
     }"

definition rpc_getTransactionCount ::
  "(string \<Rightarrow> byte list) \<Rightarrow> 'w net_env \<Rightarrow> 'w rpc_adapter \<Rightarrow> address \<Rightarrow> string \<Rightarrow> ('w, source_error + uint64) state" where
  "rpc_getTransactionCount keccak env a addr tag =
     do {
       res \<leftarrow> callRPC env a ''eth_getTransactionCount'' decString [JStr (Address_Hex keccak addr), JStr tag];
       State_Monad.return (case res of Inl e \<Rightarrow> Inl e | Inr hex \<Rightarrow> parseHexUint64 hex)
     }"

text \<open>Two calls in sequence, the second only after the first has succeeded.\<close>

definition bothThen ::
  "('w, source_error + 'a) state \<Rightarrow> ('w, source_error + 'b) state \<Rightarrow> ('a \<Rightarrow> 'b \<Rightarrow> ('w, source_error + 'c) state)
   \<Rightarrow> ('w, source_error + 'c) state" where
  "bothThen m n k =
     do {
       x \<leftarrow> m;
       (case x of
          Inl e \<Rightarrow> State_Monad.return (Inl e)
        | Inr a \<Rightarrow>
            do {
              y \<leftarrow> n;
              (case y of Inl e \<Rightarrow> State_Monad.return (Inl e) | Inr b \<Rightarrow> k a b)
            })
     }"

definition numericAnchor :: "block_tag \<Rightarrow> block_number option" where
  "numericAnchor t = (if btKind t = BlockTagNumeric then Some (btNum t) else None)"

definition rpc_FetchAddressLatest ::
  "(string \<Rightarrow> byte list) \<Rightarrow> 'w net_env \<Rightarrow> 'w rpc_adapter \<Rightarrow> address_query
   \<Rightarrow> ('w, source_error + address_latest_result) state" where
  "rpc_FetchAddressLatest keccak env a q =
     (let tag = BlockTag_String (aqAnchor q) in
      bothThen (rpc_getBalance keccak env a (aqAddress q) tag) (rpc_getTransactionCount keccak env a (aqAddress q) tag)
        (\<lambda>bal nonce. do {
           now \<leftarrow> neNow env;
           State_Monad.return (Inr
             \<lparr>alBalance = Some bal, alNonce = Some nonce, alTxCount = Some nonce, alSourceID = rpc_ID,
              alFetchedAt = now, alReflectedBlock = numericAnchor (aqAnchor q), alRawResponse = []\<rparr>)
         }))"

definition rpc_FetchAddressAtBlock ::
  "(string \<Rightarrow> byte list) \<Rightarrow> 'w net_env \<Rightarrow> 'w rpc_adapter \<Rightarrow> address_at_block_query
   \<Rightarrow> ('w, source_error + address_at_block_result) state" where
  "rpc_FetchAddressAtBlock keccak env a q =
     (if \<not> raArchive a then State_Monad.return (Inl ErrUnsupported)
      else let tag = BlockNumber_Hex (aabqBlock q) in
      bothThen (rpc_getBalance keccak env a (aabqAddress q) tag)
        (rpc_getTransactionCount keccak env a (aabqAddress q) tag)
        (\<lambda>bal nonce. do {
           now \<leftarrow> neNow env;
           State_Monad.return (Inr
             \<lparr>aabBalance = Some bal, aabNonce = Some nonce, aabBlock = aabqBlock q, aabSourceID = rpc_ID,
              aabFetchedAt = now, aabReflectedBlock = Some (aabqBlock q), aabRawResponse = []\<rparr>)
         }))"

section \<open>Tokens (\<open>erc20.go\<close>)\<close>

definition balanceOfSelector :: string where "balanceOfSelector = ''70a08231''"

text \<open>The selector in the first four bytes of the buffer, the address in the last twenty.\<close>

definition encodeBalanceOf :: "address \<Rightarrow> source_error + string" where
  "encodeBalanceOf addr =
     (case hexDecode balanceOfSelector of
        None \<Rightarrow> Inl (ErrTransport ''rpc: encode selector'')
      | Some sel \<Rightarrow> Inr (''0x'' @ EncodeToString (sel @ replicate 12 0 @ addr)))"

definition SetBytes :: "byte list \<Rightarrow> int" where
  "SetBytes bs = foldl (\<lambda>n b. n * 256 + int (unat b)) 0 bs"

definition rpc_decodeUint256 :: "string \<Rightarrow> source_error + int" where
  "rpc_decodeUint256 s =
     (case hexBytes s of
        Inl e \<Rightarrow> Inl e
      | Inr b \<Rightarrow> if length b = 0 then Inl ErrInvalidResponse else Inr (SetBytes b))"

definition rpc_FetchERC20Balance ::
  "(string \<Rightarrow> byte list) \<Rightarrow> 'w net_env \<Rightarrow> 'w rpc_adapter \<Rightarrow> erc20_balance_query
   \<Rightarrow> ('w, source_error + erc20_balance_result) state" where
  "rpc_FetchERC20Balance keccak env a q =
     (if btKind (ebqAnchor q) = BlockTagNumeric \<and> \<not> raArchive a
      then State_Monad.return (Inl ErrUnsupported)
      else case encodeBalanceOf (ebqAddress q) of
        Inl e \<Rightarrow> State_Monad.return (Inl e)
      | Inr callData \<Rightarrow>
          do {
            res \<leftarrow> callRPC env a ''eth_call'' decString
              [JObj [(''data'', JStr callData), (''to'', JStr (Address_Hex keccak (ebqToken q)))],
               JStr (BlockTag_String (ebqAnchor q))];
            (case (case res of Inl e \<Rightarrow> Inl e | Inr retHex \<Rightarrow> rpc_decodeUint256 retHex) of
               Inl e \<Rightarrow> State_Monad.return (Inl e)
             | Inr bal \<Rightarrow>
                 do {
                   now \<leftarrow> neNow env;
                   State_Monad.return (Inr
                     \<lparr>ebBalance = Some bal, ebDecimals = 0, ebSymbol = [], ebSourceID = rpc_ID, ebFetchedAt = now,
                      ebReflectedBlock = numericAnchor (ebqAnchor q), ebRawResponse = []\<rparr>)
                 })
          })"

section \<open>Traces (\<open>trace.go\<close>)\<close>

datatype raw_call_frame =
  RawCallFrame (cfType: string) (cfFrom: string) (cfTo: string) (cfValue: string) (cfGasUsed: string)
    (cfError: string) (cfCalls: "raw_call_frame list")

lemma decAll_cong [fundef_cong]:
  "xs = ys \<Longrightarrow> (\<And>x. x \<in> set ys \<Longrightarrow> f x = g x) \<Longrightarrow> decAll f xs = decAll g ys"
proof (induction ys arbitrary: xs)
  case (Cons y ys)
  have "f y = g y" using Cons.prems by simp
  moreover have "decAll f ys = decAll g ys" using Cons.IH [of ys] Cons.prems by simp
  ultimately show ?case using Cons.prems(1) by (simp split: option.splits)
qed simp

text \<open>The elements of the array under a key, if there is one.\<close>

definition jarray :: "string \<Rightarrow> json \<Rightarrow> json list option" where
  "jarray k j =
     (case asObject j of
        None \<Rightarrow> None
      | Some obj \<Rightarrow>
          (case jget k obj of
             None \<Rightarrow> Some []
           | Some JNull \<Rightarrow> Some []
           | Some (JArr js) \<Rightarrow> Some js
           | Some _ \<Rightarrow> None))"

lemma find_mem: "find P xs = Some x \<Longrightarrow> x \<in> set xs"
  by (induction xs) (auto split: if_splits)

lemma jarray_size: "jarray k j = Some js \<Longrightarrow> x \<in> set js \<Longrightarrow> size x < size j"
proof -
  assume a: "jarray k j = Some js" and x: "x \<in> set js"
  then obtain obj where j: "j = JObj obj" and g: "jget k obj = Some (JArr js)"
    by (auto simp: jarray_def asObject_def jget_def split: option.splits json.splits)
  from g obtain n where "(n, JArr js) \<in> set obj"
    by (auto simp: jget_def dest!: find_mem)
  then have "size (JArr js) < size (JObj obj)"
    by (induction obj) auto
  moreover have "size x < size (JArr js)" using x by (induction js) auto
  ultimately show ?thesis using j by simp
qed

text \<open>The two gas fields that nothing reads (\<open>gas\<close>, \<open>input\<close>, \<open>output\<close> are strings as well) are decoded for
  their errors only.\<close>

function decCallFrame :: "json \<Rightarrow> raw_call_frame option" where
  "decCallFrame j =
     (case asObject j of
        None \<Rightarrow> None
      | Some obj \<Rightarrow>
          (let str = (\<lambda>k. fieldOr [] decString k obj) in
           case (str ''type'', str ''from'', str ''to'', str ''value'', str ''gas'', str ''gasUsed'', str ''input'',
                 str ''output'', str ''error'') of
             (Some ty, Some fr, Some to, Some v, Some _, Some gu, Some _, Some _, Some e) \<Rightarrow>
               (case jarray ''calls'' j of
                  None \<Rightarrow> None
                | Some js \<Rightarrow> map_option (RawCallFrame ty fr to v gu e) (decAll decCallFrame js))
           | _ \<Rightarrow> None))"
  by pat_completeness auto
termination
  by (relation "measure size") (auto dest: jarray_size)

definition decTraceItem :: "json \<Rightarrow> raw_call_frame option" where
  "decTraceItem j =
     (case asObject j of
        None \<Rightarrow> None
      | Some obj \<Rightarrow> fieldOr (RawCallFrame [] [] [] [] [] [] []) decCallFrame ''result'' obj)"

definition orZeroValue :: "'e + 'a \<Rightarrow> 'a \<Rightarrow> 'a" where
  "orZeroValue x z = (case x of Inl _ \<Rightarrow> z | Inr a \<Rightarrow> a)"

definition frameTx :: "(string \<Rightarrow> byte list) \<Rightarrow> raw_call_frame \<Rightarrow> internal_tx" where
  "frameTx keccak f =
     \<lparr>itFrom = orZeroValue (NewAddress keccak (cfFrom f)) zeroAddress,
      itTo = orZeroValue (NewAddress keccak (cfTo f)) zeroAddress,
      itValue = Some (if cfValue f = [] then 0 else orZeroValue (parseHexBigInt (cfValue f)) 0),
      itGasUsed = orZeroValue (parseHexUint64 (cfGasUsed f)) 0, itCallType = cfType f, itError = cfError f\<rparr>"

fun flattenCallFrame :: "(string \<Rightarrow> byte list) \<Rightarrow> raw_call_frame \<Rightarrow> internal_tx list \<Rightarrow> internal_tx list" where
  "flattenCallFrame keccak (RawCallFrame ty fr to v gu e calls) out =
     foldl (\<lambda>out f. flattenCallFrame keccak f out) (out @ [frameTx keccak (RawCallFrame ty fr to v gu e calls)]) calls"

definition callTracer :: json where
  "callTracer = JObj [(''tracer'', JStr ''callTracer'')]"

definition rpc_FetchInternalTxByTx ::
  "(string \<Rightarrow> byte list) \<Rightarrow> 'w net_env \<Rightarrow> 'w rpc_adapter \<Rightarrow> hash32 \<Rightarrow> ('w, source_error + internal_tx_result) state" where
  "rpc_FetchInternalTxByTx keccak env a h =
     (if \<not> raDebugTrace a then State_Monad.return (Inl ErrUnsupported)
      else do {
        res \<leftarrow> callRPC env a ''debug_traceTransaction'' decCallFrame [JStr (Hash32_Hex h), callTracer];
        (case res of
           Inl e \<Rightarrow> State_Monad.return (Inl e)
         | Inr frame \<Rightarrow>
             do {
               now \<leftarrow> neNow env;
               State_Monad.return (Inr
                 \<lparr>irTraces = flattenCallFrame keccak frame [], irSourceID = rpc_ID, irFetchedAt = now,
                  irReflectedBlock = None, irRawResponse = []\<rparr>)
             })
      })"

definition rpc_FetchInternalTxByBlock ::
  "(string \<Rightarrow> byte list) \<Rightarrow> 'w net_env \<Rightarrow> 'w rpc_adapter \<Rightarrow> block_number
   \<Rightarrow> ('w, source_error + internal_tx_result) state" where
  "rpc_FetchInternalTxByBlock keccak env a b =
     (if \<not> raDebugTrace a then State_Monad.return (Inl ErrUnsupported)
      else do {
        res \<leftarrow> callRPC env a ''debug_traceBlockByNumber'' (decSlice decTraceItem)
          [JStr (BlockNumber_Hex b), callTracer];
        (case res of
           Inl e \<Rightarrow> State_Monad.return (Inl e)
         | Inr items \<Rightarrow>
             do {
               now \<leftarrow> neNow env;
               State_Monad.return (Inr
                 \<lparr>irTraces = foldl (\<lambda>out f. flattenCallFrame keccak f out) [] items, irSourceID = rpc_ID,
                  irFetchedAt = now, irReflectedBlock = Some b, irRawResponse = []\<rparr>)
             })
      })"

section \<open>Heights (\<open>chainhead.go\<close>) and the source\<close>

definition rpc_Tip :: "'w net_env \<Rightarrow> 'w rpc_adapter \<Rightarrow> ('w, source_error + block_number) state" where
  "rpc_Tip env a =
     do {
       res \<leftarrow> callRPC env a ''eth_blockNumber'' decString [];
       State_Monad.return (case res of Inl e \<Rightarrow> Inl e | Inr raw \<Rightarrow> parseHexUint64 raw)
     }"

definition rpc_Finalized :: "'w net_env \<Rightarrow> 'w rpc_adapter \<Rightarrow> ('w, source_error + block_number) state" where
  "rpc_Finalized env a =
     do {
       res \<leftarrow> callRPC env a ''eth_getBlockByNumber'' (decPtr decRawBlock) [JStr ''finalized'', JBool False];
       State_Monad.return
         (case res of
            Inl e \<Rightarrow> Inl e
          | Inr None \<Rightarrow> Inl (ErrTransport ''rpc: finalized returned null'')
          | Inr (Some raw) \<Rightarrow> parseHexUint64 (rbNumber raw))
     }"

definition rpc_source :: "(string \<Rightarrow> byte list) \<Rightarrow> 'w net_env \<Rightarrow> 'w rpc_adapter \<Rightarrow> 'w source" where
  "rpc_source keccak env a =
     \<lparr>srcID = rpc_ID, srcChainID = raChainID a, Supports = rpc_Supports a,
      FetchBlock = rpc_FetchBlock keccak env a, FetchAddressLatest = rpc_FetchAddressLatest keccak env a,
      FetchAddressAtBlock = rpc_FetchAddressAtBlock keccak env a,
      FetchSnapshot = State_Monad.return (Inl ErrUnsupported),
      FetchERC20Balance = rpc_FetchERC20Balance keccak env a,
      FetchERC20Holdings = (\<lambda>_. State_Monad.return (Inl ErrUnsupported)),
      FetchInternalTxByTx = rpc_FetchInternalTxByTx keccak env a,
      FetchInternalTxByBlock = rpc_FetchInternalTxByBlock keccak env a\<rparr>"

end
