(* ===== verification/Ethscan.thy ===== *)
theory Ethscan
  imports RpcAdapter
begin

text \<open>
  The client for Etherscan-compatible endpoints (\<open>adapters/internal/ethscan/client.go\<close>), which the two
  explorer adapters share: the query string, the envelope with its \<open>status\<close>, \<open>message\<close> and \<open>result\<close>, the
  JSON-RPC proxy, and the classification of error messages.
\<close>

section \<open>Query strings (\<open>net/url\<close>)\<close>

definition unreservedChar :: "char \<Rightarrow> bool" where
  "unreservedChar c \<longleftrightarrow>
     (let n = of_char c :: nat in 48 \<le> n \<and> n \<le> 57 \<or> 65 \<le> n \<and> n \<le> 90 \<or> 97 \<le> n \<and> n \<le> 122) \<or>
     c \<in> set ''-_.~''"

definition upperHex :: "nat \<Rightarrow> char" where
  "upperHex n = ''0123456789ABCDEF'' ! n"

definition QueryEscape :: "string \<Rightarrow> string" where
  "QueryEscape s =
     concat (map (\<lambda>c. if unreservedChar c then [c]
       else if c = CHR '' '' then ''+''
       else let n = of_char c :: nat in [CHR ''%'', upperHex (n div 16), upperHex (n mod 16)]) s)"

definition Values_Set :: "string \<Rightarrow> string \<Rightarrow> (string, string) gomap \<Rightarrow> (string, string) gomap" where
  "Values_Set k v vs = filter (\<lambda>(n, _). n \<noteq> k) vs @ [(k, v)]"

fun bytesLess :: "string \<Rightarrow> string \<Rightarrow> bool" where
  "bytesLess s [] \<longleftrightarrow> False"
| "bytesLess [] (d # ds) \<longleftrightarrow> True"
| "bytesLess (c # cs) (d # ds) \<longleftrightarrow>
     (of_char c :: nat) < of_char d \<or> c = d \<and> bytesLess cs ds"

text \<open>\<open>Encode\<close> writes the pairs in the order of their keys (an insertion sort here).\<close>

fun insertPair :: "string \<times> string \<Rightarrow> (string, string) gomap \<Rightarrow> (string, string) gomap" where
  "insertPair p [] = [p]"
| "insertPair p (q # qs) = (if bytesLess (fst q) (fst p) then q # insertPair p qs else p # q # qs)"

definition Values_Encode :: "(string, string) gomap \<Rightarrow> string" where
  "Values_Encode vs = Join (map (\<lambda>(k, v). QueryEscape k @ ''='' @ QueryEscape v) (foldr insertPair vs [])) ''&''"

definition TrimRight :: "string \<Rightarrow> string \<Rightarrow> string" where
  "TrimRight s cutset = rev (dropWhile (\<lambda>c. c \<in> set cutset) (rev s))"

section \<open>The client\<close>

record 'w es_client =
  esBaseURL :: string
  esAPIKey :: string
  esHC :: "'w hx_client"

type_synonym 'w es_option = "'w es_client \<Rightarrow> 'w es_client"

definition WithAPIKey :: "string \<Rightarrow> 'w es_option" where
  "WithAPIKey key c = c\<lparr>esAPIKey := key\<rparr>"

definition es_WithHTTPX :: "'w hx_client option \<Rightarrow> 'w es_option" where
  "es_WithHTTPX hc c = (case hc of Some h \<Rightarrow> c\<lparr>esHC := h\<rparr> | None \<Rightarrow> c)"

definition es_New :: "'w net_env \<Rightarrow> string \<Rightarrow> 'w es_option list \<Rightarrow> 'w es_client" where
  "es_New env base opts =
     fold (\<lambda>opt. opt) opts
       \<lparr>esBaseURL = TrimRight base ''?&'', esAPIKey = [],
        esHC = httpx_New env [WithTimeout (15 * 1000000000), WithRateLimit 2 1]\<rparr>"

definition es_query :: "'w es_client \<Rightarrow> string \<Rightarrow> string \<Rightarrow> (string, string) gomap \<Rightarrow> string" where
  "es_query c modul action params =
     (let q = Values_Set ''action'' action (Values_Set ''module'' modul []);
          q = foldl (\<lambda>q (k, v). Values_Set k v q) q params;
          q = (if esAPIKey c \<noteq> [] then Values_Set ''apikey'' (esAPIKey c) q else q)
      in esBaseURL c @ ''?'' @ Values_Encode q)"

definition getRequest :: "string \<Rightarrow> http_req" where
  "getRequest url = \<lparr>hqMethod = ''GET'', hqURL = url, hqBody = None, hqGetBody = None\<rparr>"

record eth_envelope =
  evStatus :: string
  evMessage :: string
  evResult :: "json option"

definition decEthEnvelope :: "json \<Rightarrow> eth_envelope option" where
  "decEthEnvelope j =
     (case asObject j of
        None \<Rightarrow> None
      | Some obj \<Rightarrow>
          (case (fieldOr [] decString ''status'' obj, fieldOr [] decString ''message'' obj) of
             (Some st, Some m) \<Rightarrow> Some \<lparr>evStatus = st, evMessage = m, evResult = jget ''result'' obj\<rparr>
           | _ \<Rightarrow> None))"

definition isEmptyResultMessage :: "string \<Rightarrow> bool" where
  "isEmptyResultMessage msg \<longleftrightarrow>
     containsSub (ToLower msg) ''no transactions found'' \<or> containsSub (ToLower msg) ''no records found''"

definition classifyErrorMessage :: "json option \<Rightarrow> string \<Rightarrow> source_error" where
  "classifyErrorMessage rawResult message =
     (let detail = (case Option.bind rawResult decString of Some d \<Rightarrow> d | None \<Rightarrow> []);
          contains = (\<lambda>needles. \<exists>n \<in> set needles. containsSub (ToLower detail) n \<or> containsSub (ToLower message) n)
      in if contains [''missing or invalid action'', ''invalid action'', ''method not found''] then ErrUnsupported
         else if contains [''rate limit'', ''throttled'', ''too many requests''] then ErrRateLimited
         else ErrInvalidResponse)"

text \<open>The answer to \<open>Call\<close>: \<open>zero\<close> is the value of a destination that nothing was decoded into.\<close>

definition decodeResult :: "(json \<Rightarrow> 'a option) \<Rightarrow> json option \<Rightarrow> source_error + 'a" where
  "decodeResult dec result =
     (case Option.bind result dec of None \<Rightarrow> Inl ErrInvalidResponse | Some x \<Rightarrow> Inr x)"

definition callBody :: "'a \<Rightarrow> (json \<Rightarrow> 'a option) \<Rightarrow> http_body \<Rightarrow> source_error + 'a" where
  "callBody zero dec body =
     (case (case body of BodyJSON j \<Rightarrow> decEthEnvelope j | _ \<Rightarrow> None) of
        None \<Rightarrow> Inl ErrInvalidResponse
      | Some env \<Rightarrow>
          if evStatus env = ''1'' then decodeResult dec (evResult env)
          else if isEmptyResultMessage (evMessage env) then
            (if evResult env = None then Inr zero else decodeResult dec (evResult env))
          else Inl (classifyErrorMessage (evResult env) (evMessage env)))"

definition es_transportErr :: "net_error \<Rightarrow> source_error" where
  "es_transportErr e = (if isContextErr e then contextText e else ErrSourceUnavailable)"

definition es_statusErr :: "int \<Rightarrow> source_error option" where
  "es_statusErr status =
     (if status = 429 then Some ErrRateLimited
      else if status \<ge> 500 then Some ErrSourceUnavailable
      else if status \<ge> 400 then Some ErrInvalidResponse
      else None)"

text \<open>The two calls differ in how they read the body of an accepted response.\<close>

definition es_request ::
  "'w net_env \<Rightarrow> 'w es_client \<Rightarrow> string \<Rightarrow> (http_body \<Rightarrow> source_error + 'a) \<Rightarrow> ('w, source_error + 'a) state" where
  "es_request env c url decode =
     (if \<not> neParseURL env url then State_Monad.return (Inl (ErrTransport ''ethscan: build request''))
      else do {
        out \<leftarrow> Client_Do env (esHC c) (Some (getRequest url));
        State_Monad.return
          (case out of
             Inl e \<Rightarrow> Inl (es_transportErr e)
           | Inr resp \<Rightarrow>
               (case es_statusErr (rpStatus resp) of
                  Some e \<Rightarrow> Inl e
                | None \<Rightarrow> if rpBody resp = BodyUnreadable then Inl ErrInvalidResponse else decode (rpBody resp)))
      })"

definition es_Call ::
  "'w net_env \<Rightarrow> 'w es_client \<Rightarrow> string \<Rightarrow> string \<Rightarrow> (string, string) gomap \<Rightarrow> 'a \<Rightarrow> (json \<Rightarrow> 'a option)
   \<Rightarrow> ('w, source_error + 'a) state" where
  "es_Call env c modul action params zero dec =
     es_request env c (es_query c modul action params) (callBody zero dec)"

text \<open>A body of the proxy module: a JSON-RPC response when it has a \<open>jsonrpc\<close> field, the envelope otherwise.
  The error of decoding the envelope's result is returned as it is.\<close>

definition decProxyRPC :: "json \<Rightarrow> (string \<times> json option \<times> rpc_error option) option" where
  "decProxyRPC j =
     (case asObject j of
        None \<Rightarrow> None
      | Some obj \<Rightarrow>
          (case (fieldOr [] decString ''jsonrpc'' obj, fieldOr None (decPtr decRPCError) ''error'' obj) of
             (Some v, Some err) \<Rightarrow> Some (v, jget ''result'' obj, err)
           | _ \<Rightarrow> None))"

definition proxyEnvelope :: "(json \<Rightarrow> 'a option) \<Rightarrow> json \<Rightarrow> source_error + 'a" where
  "proxyEnvelope dec j =
     (case decEthEnvelope j of
        None \<Rightarrow> Inl ErrInvalidResponse
      | Some env \<Rightarrow>
          if evStatus env \<noteq> ''1'' then Inl (classifyErrorMessage (evResult env) (evMessage env))
          else (case Option.bind (evResult env) dec of
                  None \<Rightarrow> Inl (ErrTransport ''json'')
                | Some x \<Rightarrow> Inr x))"

definition decodeProxyBody :: "'a \<Rightarrow> (json \<Rightarrow> 'a option) \<Rightarrow> http_body \<Rightarrow> source_error + 'a" where
  "decodeProxyBody zero dec body =
     (case body of
        BodyJSON j \<Rightarrow>
          (case decProxyRPC j of
             Some (c # cs, result, err) \<Rightarrow>
               (case err of
                  Some e \<Rightarrow> Inl (if reCode e = -32601 then ErrUnsupported else ErrInvalidResponse)
                | None \<Rightarrow> if result = None then Inr zero else decodeResult dec result)
           | _ \<Rightarrow> proxyEnvelope dec j)
      | _ \<Rightarrow> Inl ErrInvalidResponse)"

definition es_CallProxy ::
  "'w net_env \<Rightarrow> 'w es_client \<Rightarrow> string \<Rightarrow> (string, string) gomap \<Rightarrow> 'a \<Rightarrow> (json \<Rightarrow> 'a option)
   \<Rightarrow> ('w, source_error + 'a) state" where
  "es_CallProxy env c meth params zero dec =
     es_request env c (es_query c ''proxy'' meth params) (decodeProxyBody zero dec)"

end
