(* ===== verification/Blockscout.thy ===== *)
theory Blockscout
  imports Ethscan
begin

text \<open>
  The Blockscout adapter (\<open>adapters/blockscout\<close>): the REST interface for balances, holdings, totals and
  internal transactions, and the JSON-RPC proxy for blocks, nonces and historical state.
\<close>

section \<open>The adapter (\<open>adapter.go\<close>, \<open>chain_map.go\<close>, \<open>rest.go\<close>)\<close>

definition blockscout_ID :: source_id where "blockscout_ID = ''blockscout''"

text \<open>The two clients are nil until \<open>New\<close> has wired them.\<close>

record 'w bs_adapter =
  bsChainID :: chain_id
  bsBase :: string
  bsHC :: "'w hx_client option"
  bsProxy :: "'w es_client option"

type_synonym 'w bs_option = "'w bs_adapter \<Rightarrow> 'w bs_adapter"

definition bs_WithBaseURL :: "string \<Rightarrow> 'w bs_option" where
  "bs_WithBaseURL url a = a\<lparr>bsBase := TrimRight url ''/''\<rparr>"

definition bs_WithHTTPX :: "'w net_env \<Rightarrow> 'w hx_client option \<Rightarrow> 'w bs_option" where
  "bs_WithHTTPX env hc a =
     (case hc of
        None \<Rightarrow> a
      | Some h \<Rightarrow> a\<lparr>bsHC := Some h, bsProxy := Some (es_New env (bsBase a @ ''/api'') [es_WithHTTPX (Some h)])\<rparr>)"

definition DefaultBaseURL :: "chain_id \<rightharpoonup> string" where
  "DefaultBaseURL = [OptimismMainnet \<mapsto> ''https://optimism.blockscout.com'',
                     EthereumMainnet \<mapsto> ''https://eth.blockscout.com'']"

definition bs_New :: "'w net_env \<Rightarrow> chain_id \<Rightarrow> 'w bs_option list \<Rightarrow> string + 'w bs_adapter" where
  "bs_New env cid opts =
     (if cid = 0 then Inl ''blockscout: chain id is required''
      else let a = \<lparr>bsChainID = cid,
                    bsBase = (case DefaultBaseURL cid of Some def \<Rightarrow> TrimRight def ''/'' | None \<Rightarrow> []),
                    bsHC = None, bsProxy = None\<rparr>;
               a = fold (\<lambda>opt. opt) opts a
           in if bsBase a = [] then Inl ''blockscout: no base URL for chain''
              else let hc = (case bsHC a of None \<Rightarrow> httpx_New env [] | Some h \<Rightarrow> h);
                       a = a\<lparr>bsHC := Some hc\<rparr>
                   in Inr (case bsProxy a of
                        None \<Rightarrow> a\<lparr>bsProxy := Some (es_New env (bsBase a @ ''/api'') [es_WithHTTPX (Some hc)])\<rparr>
                      | Some _ \<Rightarrow> a))"

definition bs_Supports :: "'w bs_adapter \<Rightarrow> capability \<Rightarrow> bool" where
  "bs_Supports a c =
     (if c \<in> set [CapBlockHash, CapBlockParentHash, CapBlockTimestamp, CapBlockTxCount, CapBlockGasUsed,
                  CapBlockMiner, CapBlockStateRoot, CapBlockReceiptsRoot, CapBlockTransactionsRoot] then True
      else if c \<in> set [CapBalanceAtLatest, CapNonceAtLatest, CapTxCountAtLatest, CapBalanceAtBlock,
                       CapNonceAtBlock] then True
      else if c \<in> set [CapERC20BalanceAtLatest, CapERC20HoldingsAtLatest] then True
      else if c = CapInternalTxByTx then True
      else if c = CapInternalTxByBlock then False
      else if c \<in> set [CapTotalAddressCount, CapTotalTxCount, CapTotalContractCount, CapERC20TokenCount] then True
      else False)"

definition restStatusErr :: "int \<Rightarrow> source_error option" where
  "restStatusErr status =
     (if status = 404 then Some ErrNotFound
      else if status = 429 then Some ErrRateLimited
      else if status \<ge> 500 then Some ErrSourceUnavailable
      else if status \<ge> 400 then Some ErrInvalidResponse
      else None)"

text \<open>\<open>json.Decoder\<close> reads the first value of a body and ignores what follows it.\<close>

definition bs_getJSON ::
  "'w net_env \<Rightarrow> 'w bs_adapter \<Rightarrow> string \<Rightarrow> (json \<Rightarrow> 'a option) \<Rightarrow> ('w, source_error + 'a) state" where
  "bs_getJSON env a path dec =
     (let u = bsBase a @ ''/api/v2'' @ path in
      if \<not> neParseURL env u then State_Monad.return (Inl (ErrTransport ''blockscout: build request''))
      else do {
        out \<leftarrow> Client_Do env (the (bsHC a)) (Some (getRequest u));
        State_Monad.return
          (case out of
             Inl e \<Rightarrow> Inl (es_transportErr e)
           | Inr resp \<Rightarrow>
               (case restStatusErr (rpStatus resp) of
                  Some e \<Rightarrow> Inl e
                | None \<Rightarrow>
                    decodeResult dec
                      (case rpBody resp of BodyJSON j \<Rightarrow> Some j | BodyTrailing j \<Rightarrow> Some j | _ \<Rightarrow> None)))
      })"

section \<open>Blocks (\<open>block.go\<close>)\<close>

definition bs_parseHash :: "string \<Rightarrow> source_error + hash32" where
  "bs_parseHash s = (case NewHash32 s of Inl _ \<Rightarrow> Inl ErrInvalidResponse | Inr h \<Rightarrow> Inr h)"

definition trim0x :: "string \<Rightarrow> source_error + string" where
  "trim0x s =
     (if length s < 2 \<or> take 2 s \<noteq> ''0x'' \<and> take 2 s \<noteq> ''0X'' then Inl ErrInvalidResponse else Inr (drop 2 s))"

definition bs_parseHexU64 :: "string \<Rightarrow> source_error + uint64" where
  "bs_parseHexU64 s =
     (case trim0x s of
        Inl e \<Rightarrow> Inl e
      | Inr raw \<Rightarrow>
          if raw = [] then Inr 0
          else (case ParseUint 16 raw of None \<Rightarrow> Inl ErrInvalidResponse | Some n \<Rightarrow> Inr n))"

definition bsBlock ::
  "(string \<Rightarrow> byte list) \<Rightarrow> block_number \<Rightarrow> gotime \<Rightarrow> raw_block \<Rightarrow> source_error + block_result" where
  "bsBlock keccak n now raw =
     (case bs_parseHash (rbHash raw) of Inl e \<Rightarrow> Inl e | Inr h \<Rightarrow>
     (case bs_parseHash (rbParentHash raw) of Inl e \<Rightarrow> Inl e | Inr p \<Rightarrow>
     (case bs_parseHash (rbStateRoot raw) of Inl e \<Rightarrow> Inl e | Inr st \<Rightarrow>
     (case bs_parseHash (rbReceiptsRoot raw) of Inl e \<Rightarrow> Inl e | Inr rr \<Rightarrow>
     (case bs_parseHash (rbTransactionsRoot raw) of Inl e \<Rightarrow> Inl e | Inr tr \<Rightarrow>
     (case NewAddress keccak (rbMiner raw) of Inl _ \<Rightarrow> Inl ErrInvalidResponse | Inr m \<Rightarrow>
     (case bs_parseHexU64 (rbGasUsed raw) of Inl e \<Rightarrow> Inl e | Inr gas \<Rightarrow>
     (case bs_parseHexU64 (rbTimestamp raw) of Inl e \<Rightarrow> Inl e | Inr ts \<Rightarrow>
        Inr ((newBlockResult blockscout_ID n now)
          \<lparr>brHash := Some h, brParentHash := Some p, brStateRoot := Some st, brReceiptsRoot := Some rr,
           brTransactionsRoot := Some tr, brMiner := Some m, brGasUsed := Some gas,
           brTimestamp := Some (time_Unix ts),
           brTxCount := Some (word_of_nat (length (rbTransactions raw)))\<rparr>)))))))))"

definition blockParams :: "block_query \<Rightarrow> (string, string) gomap" where
  "blockParams q = [(''tag'', BlockNumber_Hex (bqNumber q)), (''boolean'', ''false'')]"

definition bs_FetchBlock ::
  "(string \<Rightarrow> byte list) \<Rightarrow> 'w net_env \<Rightarrow> 'w bs_adapter \<Rightarrow> block_query \<Rightarrow> ('w, source_error + block_result) state" where
  "bs_FetchBlock keccak env a q =
     do {
       res \<leftarrow> es_CallProxy env (the (bsProxy a)) ''eth_getBlockByNumber'' (blockParams q) None (decPtr decRawBlock);
       (case res of
          Inl e \<Rightarrow> State_Monad.return (Inl e)
        | Inr None \<Rightarrow> State_Monad.return (Inl ErrNotFound)
        | Inr (Some raw) \<Rightarrow>
            do {
              now \<leftarrow> neNow env;
              State_Monad.return (bsBlock keccak (bqNumber q) now raw)
            })
     }"

section \<open>Accounts (\<open>address.go\<close>)\<close>

definition bs_parseHexBigInt :: "string \<Rightarrow> source_error + int" where
  "bs_parseHexBigInt s =
     (case trim0x s of
        Inl e \<Rightarrow> Inl e
      | Inr raw \<Rightarrow>
          if raw = [] then Inr 0
          else (case SetString 16 raw of None \<Rightarrow> Inl ErrInvalidResponse | Some v \<Rightarrow> Inr v))"

definition decRawAddress :: "json \<Rightarrow> (string \<times> uint64) option" where
  "decRawAddress j =
     (case asObject j of
        None \<Rightarrow> None
      | Some obj \<Rightarrow>
          (case (fieldOr [] decString ''coin_balance'' obj,
                 fieldOr 0 decUint ''block_number_balance_updated_at'' obj) of
             (Some b, Some n) \<Rightarrow> Some (b, n)
           | _ \<Rightarrow> None))"

definition bs_fetchBalanceREST ::
  "(string \<Rightarrow> byte list) \<Rightarrow> 'w net_env \<Rightarrow> 'w bs_adapter \<Rightarrow> address
   \<Rightarrow> ('w, source_error + int \<times> block_number option) state" where
  "bs_fetchBalanceREST keccak env a addr =
     do {
       res \<leftarrow> bs_getJSON env a (''/addresses/'' @ Address_Hex keccak addr) decRawAddress;
       State_Monad.return
         (case res of
            Inl e \<Rightarrow> Inl e
          | Inr (coin, updated) \<Rightarrow>
              (case SetString 10 coin of
                 None \<Rightarrow> Inl ErrInvalidResponse
               | Some bal \<Rightarrow> Inr (bal, if updated > 0 then Some updated else None)))
     }"

definition bs_fetchNonceProxy ::
  "(string \<Rightarrow> byte list) \<Rightarrow> 'w net_env \<Rightarrow> 'w bs_adapter \<Rightarrow> address \<Rightarrow> string \<Rightarrow> ('w, source_error + uint64) state" where
  "bs_fetchNonceProxy keccak env a addr tag =
     do {
       res \<leftarrow> es_CallProxy env (the (bsProxy a)) ''eth_getTransactionCount''
         [(''address'', Address_Hex keccak addr), (''tag'', tag)] [] decString;
       State_Monad.return (case res of Inl e \<Rightarrow> Inl e | Inr hex \<Rightarrow> bs_parseHexU64 hex)
     }"

definition bs_FetchAddressLatest ::
  "(string \<Rightarrow> byte list) \<Rightarrow> 'w net_env \<Rightarrow> 'w bs_adapter \<Rightarrow> address_query
   \<Rightarrow> ('w, source_error + address_latest_result) state" where
  "bs_FetchAddressLatest keccak env a q =
     bothThen (bs_fetchBalanceREST keccak env a (aqAddress q))
       (bs_fetchNonceProxy keccak env a (aqAddress q) (BlockTag_String (aqAnchor q)))
       (\<lambda>(bal, reflected) nonce. do {
          now \<leftarrow> neNow env;
          State_Monad.return (Inr
            \<lparr>alBalance = Some bal, alNonce = Some nonce, alTxCount = Some nonce, alSourceID = blockscout_ID,
             alFetchedAt = now, alReflectedBlock = reflected, alRawResponse = []\<rparr>)
        })"

definition bs_FetchAddressAtBlock ::
  "(string \<Rightarrow> byte list) \<Rightarrow> 'w net_env \<Rightarrow> 'w bs_adapter \<Rightarrow> address_at_block_query
   \<Rightarrow> ('w, source_error + address_at_block_result) state" where
  "bs_FetchAddressAtBlock keccak env a q =
     (let tag = BlockNumber_Hex (aabqBlock q) in
      bothThen
        (do {
           res \<leftarrow> es_CallProxy env (the (bsProxy a)) ''eth_getBalance''
             [(''address'', Address_Hex keccak (aabqAddress q)), (''tag'', tag)] [] decString;
           State_Monad.return (case res of Inl e \<Rightarrow> Inl e | Inr hex \<Rightarrow> bs_parseHexBigInt hex)
         })
        (bs_fetchNonceProxy keccak env a (aabqAddress q) tag)
        (\<lambda>bal nonce. do {
           now \<leftarrow> neNow env;
           State_Monad.return (Inr
             \<lparr>aabBalance = Some bal, aabNonce = Some nonce, aabBlock = aabqBlock q, aabSourceID = blockscout_ID,
              aabFetchedAt = now, aabReflectedBlock = Some (aabqBlock q), aabRawResponse = []\<rparr>)
         }))"

section \<open>Tokens (\<open>erc20.go\<close>)\<close>

definition bs_encodeBalanceOf :: "address \<Rightarrow> source_error + string" where
  "bs_encodeBalanceOf addr =
     (case hexDecode balanceOfSelector of
        None \<Rightarrow> Inl (ErrTransport ''encoding/hex'')
      | Some sel \<Rightarrow> Inr (''0x'' @ EncodeToString (sel @ replicate 12 0 @ addr)))"

definition bs_decodeUint256 :: "string \<Rightarrow> source_error + int" where
  "bs_decodeUint256 s =
     (case trim0x s of
        Inl e \<Rightarrow> Inl e
      | Inr raw \<Rightarrow>
          if raw = [] then Inl ErrInvalidResponse
          else (case SetString 16 raw of None \<Rightarrow> Inl ErrInvalidResponse | Some v \<Rightarrow> Inr v))"

definition bs_FetchERC20Balance ::
  "(string \<Rightarrow> byte list) \<Rightarrow> 'w net_env \<Rightarrow> 'w bs_adapter \<Rightarrow> erc20_balance_query
   \<Rightarrow> ('w, source_error + erc20_balance_result) state" where
  "bs_FetchERC20Balance keccak env a q =
     (case bs_encodeBalanceOf (ebqAddress q) of
        Inl e \<Rightarrow> State_Monad.return (Inl e)
      | Inr data \<Rightarrow>
          do {
            res \<leftarrow> es_CallProxy env (the (bsProxy a)) ''eth_call''
              [(''to'', Address_Hex keccak (ebqToken q)), (''data'', data),
               (''tag'', BlockTag_String (ebqAnchor q))] [] decString;
            (case (case res of Inl e \<Rightarrow> Inl e | Inr retHex \<Rightarrow> bs_decodeUint256 retHex) of
               Inl e \<Rightarrow> State_Monad.return (Inl e)
             | Inr bal \<Rightarrow>
                 do {
                   now \<leftarrow> neNow env;
                   State_Monad.return (Inr
                     \<lparr>ebBalance = Some bal, ebDecimals = 0, ebSymbol = [], ebSourceID = blockscout_ID,
                      ebFetchedAt = now, ebReflectedBlock = numericAnchor (ebqAnchor q), ebRawResponse = []\<rparr>)
                 })
          })"

record raw_token_holding =
  rtAddressHash :: string
  rtName :: string
  rtSymbol :: string
  rtDecimals :: string
  rtType :: string
  rtReputation :: string
  rtIsScam :: bool
  rtValue :: string

definition decBool :: "json \<Rightarrow> bool option" where
  "decBool j = (case j of JBool b \<Rightarrow> Some b | JNull \<Rightarrow> Some False | _ \<Rightarrow> None)"

definition decRawToken :: "json \<Rightarrow> raw_token_holding option" where
  "decRawToken j =
     (case asObject j of
        None \<Rightarrow> None
      | Some obj \<Rightarrow>
          (let str = (\<lambda>k. fieldOr [] decString k obj) in
           case (str ''address_hash'', str ''name'', str ''symbol'', str ''decimals'', str ''type'', str ''reputation'',
                 fieldOr False decBool ''is_scam'' obj) of
             (Some h, Some n, Some sy, Some d, Some ty, Some r, Some sc) \<Rightarrow>
               Some \<lparr>rtAddressHash = h, rtName = n, rtSymbol = sy, rtDecimals = d, rtType = ty, rtReputation = r,
                     rtIsScam = sc, rtValue = []\<rparr>
           | _ \<Rightarrow> None))"

definition noToken :: raw_token_holding where
  "noToken = \<lparr>rtAddressHash = [], rtName = [], rtSymbol = [], rtDecimals = [], rtType = [], rtReputation = [],
     rtIsScam = False, rtValue = []\<rparr>"

definition decRawTokenHolding :: "json \<Rightarrow> raw_token_holding option" where
  "decRawTokenHolding j =
     (case asObject j of
        None \<Rightarrow> None
      | Some obj \<Rightarrow>
          (case (fieldOr noToken decRawToken ''token'' obj, fieldOr [] decString ''value'' obj) of
             (Some t, Some v) \<Rightarrow> Some (t\<lparr>rtValue := v\<rparr>)
           | _ \<Rightarrow> None))"

text \<open>The number \<open>strconv.ParseUint(s, 10, bits)\<close> returns beside its error: 0 for a syntax error, the largest
  number for one that does not fit, whichever the scan meets first.\<close>

fun parseUintScan :: "nat \<Rightarrow> nat \<Rightarrow> string \<Rightarrow> nat" where
  "parseUintScan maxVal n [] = n"
| "parseUintScan maxVal n (c # cs) =
     (case digitVal c of
        None \<Rightarrow> 0
      | Some d \<Rightarrow>
          if d \<ge> 10 then 0
          else if n * 10 + d > maxVal then maxVal
          else parseUintScan maxVal (n * 10 + d) cs)"

definition parseUintValue :: "nat \<Rightarrow> string \<Rightarrow> nat" where
  "parseUintValue bits s = parseUintScan (2 ^ bits - 1) 0 s"

text \<open>The loop over the holdings: spam, other token types and entries that do not parse are skipped.\<close>

definition bs_token :: "(string \<Rightarrow> byte list) \<Rightarrow> raw_token_holding \<Rightarrow> token_holding option" where
  "bs_token keccak t =
     (if rtIsScam t \<or> rtReputation t \<noteq> [] \<and> rtReputation t \<noteq> ''ok'' then None
      else if rtType t \<noteq> [] \<and> rtType t \<noteq> ''ERC-20'' then None
      else case NewAddress keccak (rtAddressHash t) of
        Inl _ \<Rightarrow> None
      | Inr addr \<Rightarrow>
          (case SetString 10 (rtValue t) of
             None \<Rightarrow> None
           | Some bal \<Rightarrow> Some
               \<lparr>thContract = addr, thName = rtName t, thSymbol = rtSymbol t,
                thDecimals = word_of_nat (parseUintValue 8 (rtDecimals t)), thBalance = Some bal\<rparr>))"

definition bs_FetchERC20Holdings ::
  "(string \<Rightarrow> byte list) \<Rightarrow> 'w net_env \<Rightarrow> 'w bs_adapter \<Rightarrow> erc20_holdings_query
   \<Rightarrow> ('w, source_error + erc20_holdings_result) state" where
  "bs_FetchERC20Holdings keccak env a q =
     (if btKind (ehqAnchor q) = BlockTagNumeric then State_Monad.return (Inl ErrUnsupported)
      else bothThen (bs_fetchBalanceREST keccak env a (ehqAddress q))
        (bs_getJSON env a (''/addresses/'' @ Address_Hex keccak (ehqAddress q) @ ''/token-balances'')
           (decSlice decRawTokenHolding))
        (\<lambda>(_, reflected) raw. do {
           now \<leftarrow> neNow env;
           State_Monad.return (Inr
             \<lparr>ehTokens = List.map_filter (bs_token keccak) raw, ehSourceID = blockscout_ID, ehFetchedAt = now,
              ehReflectedBlock = reflected, ehRawResponse = []\<rparr>)
         }))"

section \<open>Totals (\<open>snapshot.go\<close>)\<close>

definition parseDecimalU64 :: "string \<Rightarrow> uint64 option" where
  "parseDecimalU64 s = (if s = [] then None else ParseUint 10 s)"

definition decRawStats :: "json \<Rightarrow> (string \<times> string) option" where
  "decRawStats j =
     (case asObject j of
        None \<Rightarrow> None
      | Some obj \<Rightarrow>
          (case (fieldOr [] decString ''total_blocks'' obj, fieldOr [] decString ''total_addresses'' obj,
                 fieldOr [] decString ''total_transactions'' obj) of
             (Some _, Some ad, Some tx) \<Rightarrow> Some (ad, tx)
           | _ \<Rightarrow> None))"

definition bs_FetchSnapshot ::
  "'w net_env \<Rightarrow> 'w bs_adapter \<Rightarrow> ('w, source_error + snapshot_result) state" where
  "bs_FetchSnapshot env a =
     do {
       res \<leftarrow> bs_getJSON env a ''/stats'' decRawStats;
       (case res of
          Inl e \<Rightarrow> State_Monad.return (Inl e)
        | Inr (ad, tx) \<Rightarrow>
            do {
              now \<leftarrow> neNow env;
              State_Monad.return (Inr
                \<lparr>snTotalAddressCount = parseDecimalU64 ad, snTotalTxCount = parseDecimalU64 tx,
                 snTotalContractCount = None, snERC20TokenCount = None, snSnapshotAt = 0,
                 snSourceID = blockscout_ID, snFetchedAt = now, snReflectedBlock = None, snRawResponse = []\<rparr>)
            })
     }"

section \<open>Traces (\<open>trace.go\<close>) and the source\<close>

record raw_internal_item =
  riBlockNumber :: uint64
  riType :: string
  riValue :: string
  riGasLimit :: string
  riError :: string
  riFrom :: string
  riTo :: string

definition decHashField :: "json \<Rightarrow> string option" where
  "decHashField j = Option.bind (asObject j) (fieldOr [] decString ''hash'')"

definition decRawInternalItem :: "json \<Rightarrow> raw_internal_item option" where
  "decRawInternalItem j =
     (case asObject j of
        None \<Rightarrow> None
      | Some obj \<Rightarrow>
          (let str = (\<lambda>k. fieldOr [] decString k obj) in
           case (fieldOr 0 decUint ''block_number'' obj, str ''type'', str ''value'', str ''gas_limit'', str ''error'',
                 fieldOr [] decHashField ''from'' obj, fieldOr [] decHashField ''to'' obj) of
             (Some n, Some ty, Some v, Some g, Some e, Some fr, Some to) \<Rightarrow>
               Some \<lparr>riBlockNumber = n, riType = ty, riValue = v, riGasLimit = g, riError = e, riFrom = fr,
                     riTo = to\<rparr>
           | _ \<Rightarrow> None))"

definition decRawInternalPage :: "json \<Rightarrow> raw_internal_item list option" where
  "decRawInternalPage j = Option.bind (asObject j) (fieldOr [] (decSlice decRawInternalItem) ''items'')"

definition bs_internalTx :: "(string \<Rightarrow> byte list) \<Rightarrow> raw_internal_item \<Rightarrow> internal_tx" where
  "bs_internalTx keccak it =
     \<lparr>itFrom = orZeroValue (NewAddress keccak (riFrom it)) zeroAddress,
      itTo = orZeroValue (NewAddress keccak (riTo it)) zeroAddress,
      itValue = Some (if riValue it \<noteq> [] then (case SetString 10 (riValue it) of Some v \<Rightarrow> v | None \<Rightarrow> 0) else 0),
      itGasUsed = (case parseDecimalU64 (riGasLimit it) of Some g \<Rightarrow> g | None \<Rightarrow> 0),
      itCallType = riType it, itError = riError it\<rparr>"

definition bs_FetchInternalTxByTx ::
  "(string \<Rightarrow> byte list) \<Rightarrow> 'w net_env \<Rightarrow> 'w bs_adapter \<Rightarrow> hash32 \<Rightarrow> ('w, source_error + internal_tx_result) state" where
  "bs_FetchInternalTxByTx keccak env a h =
     do {
       res \<leftarrow> bs_getJSON env a (''/transactions/'' @ Hash32_Hex h @ ''/internal-transactions'') decRawInternalPage;
       (case res of
          Inl e \<Rightarrow> State_Monad.return (Inl e)
        | Inr items \<Rightarrow>
            do {
              now \<leftarrow> neNow env;
              State_Monad.return (Inr
                \<lparr>irTraces = map (bs_internalTx keccak) items, irSourceID = blockscout_ID, irFetchedAt = now,
                 irReflectedBlock = find (\<lambda>n. n > 0) (map riBlockNumber items), irRawResponse = []\<rparr>)
            })
     }"

definition bs_source :: "(string \<Rightarrow> byte list) \<Rightarrow> 'w net_env \<Rightarrow> 'w bs_adapter \<Rightarrow> 'w source" where
  "bs_source keccak env a =
     \<lparr>srcID = blockscout_ID, srcChainID = bsChainID a, Supports = bs_Supports a,
      FetchBlock = bs_FetchBlock keccak env a, FetchAddressLatest = bs_FetchAddressLatest keccak env a,
      FetchAddressAtBlock = bs_FetchAddressAtBlock keccak env a, FetchSnapshot = bs_FetchSnapshot env a,
      FetchERC20Balance = bs_FetchERC20Balance keccak env a,
      FetchERC20Holdings = bs_FetchERC20Holdings keccak env a,
      FetchInternalTxByTx = bs_FetchInternalTxByTx keccak env a,
      FetchInternalTxByBlock = (\<lambda>_. State_Monad.return (Inl ErrUnsupported))\<rparr>"

end
