(* ===== verification/Routescan.thy ===== *)
theory Routescan
  imports Blockscout
begin

text \<open>
  The Routescan adapter (\<open>adapters/routescan\<close>), on the Etherscan-compatible interface: the account module
  for balances, holdings and internal transactions, the proxy module for blocks and nonces.
\<close>

definition routescan_ID :: source_id where "routescan_ID = ''routescan''"

record 'w rs_adapter =
  rsChainID :: chain_id
  rsClient :: "'w es_client"

type_synonym 'w rs_option = "'w rs_adapter \<Rightarrow> 'w rs_adapter"

definition BaseURL :: "chain_id \<Rightarrow> string" where
  "BaseURL i = ''https://api.routescan.io/v2/network/mainnet/evm/'' @ FormatNat 10 (unat i) @ ''/etherscan/api''"

definition sharedHTTPX :: "'w net_env \<Rightarrow> 'w hx_client" where
  "sharedHTTPX env = httpx_New env [WithTimeout (15 * 1000000000), WithRateLimit 2 1]"

definition rs_WithBaseURL :: "'w net_env \<Rightarrow> string \<Rightarrow> 'w rs_option" where
  "rs_WithBaseURL env url a = a\<lparr>rsClient := es_New env url [es_WithHTTPX (Some (sharedHTTPX env))]\<rparr>"

definition rs_WithHTTPX :: "'w net_env \<Rightarrow> 'w hx_client option \<Rightarrow> 'w rs_option" where
  "rs_WithHTTPX env hc a = a\<lparr>rsClient := es_New env (BaseURL (rsChainID a)) [es_WithHTTPX hc]\<rparr>"

definition rs_New :: "'w net_env \<Rightarrow> chain_id \<Rightarrow> 'w rs_option list \<Rightarrow> string + 'w rs_adapter" where
  "rs_New env cid opts =
     (if cid = 0 then Inl ''routescan: chain id is required''
      else Inr (fold (\<lambda>opt. opt) opts
        \<lparr>rsChainID = cid, rsClient = es_New env (BaseURL cid) [es_WithHTTPX (Some (sharedHTTPX env))]\<rparr>))"

definition rs_Supports :: "'w rs_adapter \<Rightarrow> capability \<Rightarrow> bool" where
  "rs_Supports a c =
     (if c \<in> set [CapBlockHash, CapBlockParentHash, CapBlockTimestamp, CapBlockTxCount, CapBlockGasUsed,
                  CapBlockStateRoot, CapBlockReceiptsRoot, CapBlockTransactionsRoot, CapBlockMiner] then True
      else if c \<in> set [CapBalanceAtLatest, CapNonceAtLatest, CapTxCountAtLatest, CapBalanceAtBlock,
                       CapNonceAtBlock] then True
      else if c \<in> set [CapERC20BalanceAtLatest, CapERC20HoldingsAtLatest] then True
      else if c \<in> set [CapInternalTxByTx, CapInternalTxByBlock] then True
      else False)"

section \<open>Blocks\<close>

definition rs_parseHash :: "string \<Rightarrow> source_error + hash32" where
  "rs_parseHash s = (case NewHash32 s of Inl _ \<Rightarrow> Inl ErrInvalidResponse | Inr h \<Rightarrow> Inr h)"

text \<open>The error of \<open>strconv.ParseUint\<close> is returned as it is.\<close>

definition rs_parseHexU64 :: "string \<Rightarrow> source_error + uint64" where
  "rs_parseHexU64 s =
     (if length s < 2 \<or> take 2 s \<noteq> ''0x'' \<and> take 2 s \<noteq> ''0X'' then Inl ErrInvalidResponse
      else let raw = drop 2 s in
        if raw = [] then Inr 0
        else (case ParseUint 16 raw of None \<Rightarrow> Inl (ErrTransport ''strconv.ParseUint'') | Some n \<Rightarrow> Inr n))"

definition rsBlock ::
  "(string \<Rightarrow> byte list) \<Rightarrow> block_number \<Rightarrow> gotime \<Rightarrow> raw_block \<Rightarrow> source_error + block_result" where
  "rsBlock keccak n now raw =
     (case rs_parseHash (rbHash raw) of Inl e \<Rightarrow> Inl e | Inr h \<Rightarrow>
     (case rs_parseHash (rbParentHash raw) of Inl e \<Rightarrow> Inl e | Inr p \<Rightarrow>
     (case rs_parseHash (rbStateRoot raw) of Inl e \<Rightarrow> Inl e | Inr st \<Rightarrow>
     (case rs_parseHash (rbReceiptsRoot raw) of Inl e \<Rightarrow> Inl e | Inr rr \<Rightarrow>
     (case rs_parseHash (rbTransactionsRoot raw) of Inl e \<Rightarrow> Inl e | Inr tr \<Rightarrow>
     (case NewAddress keccak (rbMiner raw) of Inl _ \<Rightarrow> Inl ErrInvalidResponse | Inr m \<Rightarrow>
     (case rs_parseHexU64 (rbGasUsed raw) of Inl e \<Rightarrow> Inl e | Inr gas \<Rightarrow>
     (case rs_parseHexU64 (rbTimestamp raw) of Inl e \<Rightarrow> Inl e | Inr ts \<Rightarrow>
        Inr ((newBlockResult routescan_ID n now)
          \<lparr>brHash := Some h, brParentHash := Some p, brStateRoot := Some st, brReceiptsRoot := Some rr,
           brTransactionsRoot := Some tr, brMiner := Some m, brGasUsed := Some gas,
           brTimestamp := Some (time_Unix ts),
           brTxCount := Some (word_of_nat (length (rbTransactions raw)))\<rparr>)))))))))"

definition rs_FetchBlock ::
  "(string \<Rightarrow> byte list) \<Rightarrow> 'w net_env \<Rightarrow> 'w rs_adapter \<Rightarrow> block_query \<Rightarrow> ('w, source_error + block_result) state" where
  "rs_FetchBlock keccak env a q =
     do {
       res \<leftarrow> es_CallProxy env (rsClient a) ''eth_getBlockByNumber'' (blockParams q) None (decPtr decRawBlock);
       (case res of
          Inl e \<Rightarrow> State_Monad.return (Inl e)
        | Inr None \<Rightarrow> State_Monad.return (Inl ErrNotFound)
        | Inr (Some raw) \<Rightarrow>
            do {
              now \<leftarrow> neNow env;
              State_Monad.return (rsBlock keccak (bqNumber q) now raw)
            })
     }"

section \<open>Accounts\<close>

text \<open>A decimal number in the result of an account action.\<close>

definition rs_callDecimal ::
  "'w net_env \<Rightarrow> 'w rs_adapter \<Rightarrow> string \<Rightarrow> (string, string) gomap \<Rightarrow> ('w, source_error + int) state" where
  "rs_callDecimal env a action params =
     do {
       res \<leftarrow> es_Call env (rsClient a) ''account'' action params [] decString;
       State_Monad.return
         (case res of
            Inl e \<Rightarrow> Inl e
          | Inr s \<Rightarrow> (case SetString 10 s of None \<Rightarrow> Inl ErrInvalidResponse | Some v \<Rightarrow> Inr v))
     }"

definition rs_fetchNonceProxy ::
  "(string \<Rightarrow> byte list) \<Rightarrow> 'w net_env \<Rightarrow> 'w rs_adapter \<Rightarrow> address \<Rightarrow> string \<Rightarrow> ('w, source_error + uint64) state" where
  "rs_fetchNonceProxy keccak env a addr tag =
     do {
       res \<leftarrow> es_CallProxy env (rsClient a) ''eth_getTransactionCount''
         [(''address'', Address_Hex keccak addr), (''tag'', tag)] [] decString;
       State_Monad.return (case res of Inl e \<Rightarrow> Inl e | Inr hex \<Rightarrow> rs_parseHexU64 hex)
     }"

definition rs_FetchAddressLatest ::
  "(string \<Rightarrow> byte list) \<Rightarrow> 'w net_env \<Rightarrow> 'w rs_adapter \<Rightarrow> address_query
   \<Rightarrow> ('w, source_error + address_latest_result) state" where
  "rs_FetchAddressLatest keccak env a q =
     bothThen
       (rs_callDecimal env a ''balance''
          [(''address'', Address_Hex keccak (aqAddress q)), (''tag'', BlockTag_String (aqAnchor q))])
       (rs_fetchNonceProxy keccak env a (aqAddress q) (BlockTag_String (aqAnchor q)))
       (\<lambda>bal nonce. do {
          now \<leftarrow> neNow env;
          State_Monad.return (Inr
            \<lparr>alBalance = Some bal, alNonce = Some nonce, alTxCount = Some nonce, alSourceID = routescan_ID,
             alFetchedAt = now, alReflectedBlock = None, alRawResponse = []\<rparr>)
        })"

definition rs_FetchAddressAtBlock ::
  "(string \<Rightarrow> byte list) \<Rightarrow> 'w net_env \<Rightarrow> 'w rs_adapter \<Rightarrow> address_at_block_query
   \<Rightarrow> ('w, source_error + address_at_block_result) state" where
  "rs_FetchAddressAtBlock keccak env a q =
     bothThen
       (rs_callDecimal env a ''balancehistory''
          [(''address'', Address_Hex keccak (aabqAddress q)), (''blockno'', FormatNat 10 (unat (aabqBlock q)))])
       (rs_fetchNonceProxy keccak env a (aabqAddress q) (BlockNumber_Hex (aabqBlock q)))
       (\<lambda>bal nonce. do {
          now \<leftarrow> neNow env;
          State_Monad.return (Inr
            \<lparr>aabBalance = Some bal, aabNonce = Some nonce, aabBlock = aabqBlock q, aabSourceID = routescan_ID,
             aabFetchedAt = now, aabReflectedBlock = Some (aabqBlock q), aabRawResponse = []\<rparr>)
        })"

section \<open>Tokens\<close>

definition rs_FetchERC20Balance ::
  "(string \<Rightarrow> byte list) \<Rightarrow> 'w net_env \<Rightarrow> 'w rs_adapter \<Rightarrow> erc20_balance_query
   \<Rightarrow> ('w, source_error + erc20_balance_result) state" where
  "rs_FetchERC20Balance keccak env a q =
     (if btKind (ebqAnchor q) = BlockTagNumeric then State_Monad.return (Inl ErrUnsupported)
      else do {
        res \<leftarrow> rs_callDecimal env a ''tokenbalance''
          [(''contractaddress'', Address_Hex keccak (ebqToken q)), (''address'', Address_Hex keccak (ebqAddress q)),
           (''tag'', ''latest'')];
        (case res of
           Inl e \<Rightarrow> State_Monad.return (Inl e)
         | Inr bal \<Rightarrow>
             do {
               now \<leftarrow> neNow env;
               State_Monad.return (Inr
                 \<lparr>ebBalance = Some bal, ebDecimals = 0, ebSymbol = [], ebSourceID = routescan_ID,
                  ebFetchedAt = now, ebReflectedBlock = None, ebRawResponse = []\<rparr>)
             })
      })"

record rs_token_holding =
  rhTokenAddress :: string
  rhTokenName :: string
  rhTokenSymbol :: string
  rhTokenQuantity :: string
  rhTokenDivisor :: string

definition decRsTokenHolding :: "json \<Rightarrow> rs_token_holding option" where
  "decRsTokenHolding j =
     (case asObject j of
        None \<Rightarrow> None
      | Some obj \<Rightarrow>
          (let str = (\<lambda>k. fieldOr [] decString k obj) in
           case (str ''TokenAddress'', str ''TokenName'', str ''TokenSymbol'', str ''TokenQuantity'', str ''TokenDivisor'') of
             (Some ad, Some n, Some sy, Some q, Some d) \<Rightarrow>
               Some \<lparr>rhTokenAddress = ad, rhTokenName = n, rhTokenSymbol = sy, rhTokenQuantity = q,
                     rhTokenDivisor = d\<rparr>
           | _ \<Rightarrow> None))"

definition rs_token :: "(string \<Rightarrow> byte list) \<Rightarrow> rs_token_holding \<Rightarrow> token_holding option" where
  "rs_token keccak t =
     (case NewAddress keccak (rhTokenAddress t) of
        Inl _ \<Rightarrow> None
      | Inr addr \<Rightarrow>
          (case SetString 10 (rhTokenQuantity t) of
             None \<Rightarrow> None
           | Some bal \<Rightarrow> Some
               \<lparr>thContract = addr, thName = rhTokenName t, thSymbol = rhTokenSymbol t,
                thDecimals = word_of_nat (parseUintValue 8 (rhTokenDivisor t)), thBalance = Some bal\<rparr>))"

definition rs_FetchERC20Holdings ::
  "(string \<Rightarrow> byte list) \<Rightarrow> 'w net_env \<Rightarrow> 'w rs_adapter \<Rightarrow> erc20_holdings_query
   \<Rightarrow> ('w, source_error + erc20_holdings_result) state" where
  "rs_FetchERC20Holdings keccak env a q =
     (if btKind (ehqAnchor q) = BlockTagNumeric then State_Monad.return (Inl ErrUnsupported)
      else do {
        res \<leftarrow> es_Call env (rsClient a) ''account'' ''addresstokenbalance''
          [(''address'', Address_Hex keccak (ehqAddress q)), (''page'', ''1''), (''offset'', ''100'')] []
          (decSlice decRsTokenHolding);
        (case res of
           Inl e \<Rightarrow> State_Monad.return (Inl e)
         | Inr raw \<Rightarrow>
             do {
               now \<leftarrow> neNow env;
               State_Monad.return (Inr
                 \<lparr>ehTokens = List.map_filter (rs_token keccak) raw, ehSourceID = routescan_ID, ehFetchedAt = now,
                  ehReflectedBlock = None, ehRawResponse = []\<rparr>)
             })
      })"

section \<open>Internal transactions and the source\<close>

record rs_internal =
  rnBlockNumber :: string
  rnFrom :: string
  rnTo :: string
  rnValue :: string
  rnGasUsed :: string
  rnType :: string
  rnIsError :: string
  rnErrorCode :: string

definition decRsInternal :: "json \<Rightarrow> rs_internal option" where
  "decRsInternal j =
     (case asObject j of
        None \<Rightarrow> None
      | Some obj \<Rightarrow>
          (let str = (\<lambda>k. fieldOr [] decString k obj) in
           case (str ''blockNumber'', str ''from'', str ''to'', str ''value'', str ''gas'', str ''gasUsed'', str ''type'',
                 str ''isError'', str ''errCode'', str ''contractAddress'') of
             (Some n, Some fr, Some to, Some v, Some _, Some g, Some ty, Some ie, Some ec, Some _) \<Rightarrow>
               Some \<lparr>rnBlockNumber = n, rnFrom = fr, rnTo = to, rnValue = v, rnGasUsed = g, rnType = ty,
                     rnIsError = ie, rnErrorCode = ec\<rparr>
           | _ \<Rightarrow> None))"

definition toInternalTx :: "(string \<Rightarrow> byte list) \<Rightarrow> rs_internal \<Rightarrow> internal_tx" where
  "toInternalTx keccak it =
     \<lparr>itFrom = orZeroValue (NewAddress keccak (rnFrom it)) zeroAddress,
      itTo = orZeroValue (NewAddress keccak (rnTo it)) zeroAddress,
      itValue = Some (case SetString 10 (rnValue it) of Some v \<Rightarrow> v | None \<Rightarrow> 0),
      itGasUsed = word_of_nat (parseUintValue 64 (rnGasUsed it)), itCallType = rnType it,
      itError = (if rnIsError it = ''1'' then if rnErrorCode it = [] then ''execution reverted'' else rnErrorCode it
                 else [])\<rparr>"

definition toInternalTxSlice :: "(string \<Rightarrow> byte list) \<Rightarrow> rs_internal list \<Rightarrow> internal_tx list" where
  "toInternalTxSlice keccak raw = map (toInternalTx keccak) raw"

fun firstBlockNumber :: "rs_internal list \<Rightarrow> block_number option" where
  "firstBlockNumber [] = None"
| "firstBlockNumber (it # its) =
     (case ParseUint 10 (rnBlockNumber it) of Some n \<Rightarrow> Some n | None \<Rightarrow> firstBlockNumber its)"

definition rs_fetchInternal ::
  "(string \<Rightarrow> byte list) \<Rightarrow> 'w net_env \<Rightarrow> 'w rs_adapter \<Rightarrow> (string, string) gomap
   \<Rightarrow> (rs_internal list \<Rightarrow> block_number option) \<Rightarrow> ('w, source_error + internal_tx_result) state" where
  "rs_fetchInternal keccak env a params reflected =
     do {
       res \<leftarrow> es_Call env (rsClient a) ''account'' ''txlistinternal'' params [] (decSlice decRsInternal);
       (case res of
          Inl e \<Rightarrow> State_Monad.return (Inl e)
        | Inr raw \<Rightarrow>
            do {
              now \<leftarrow> neNow env;
              State_Monad.return (Inr
                \<lparr>irTraces = toInternalTxSlice keccak raw, irSourceID = routescan_ID, irFetchedAt = now,
                 irReflectedBlock = reflected raw, irRawResponse = []\<rparr>)
            })
     }"

definition rs_FetchInternalTxByTx ::
  "(string \<Rightarrow> byte list) \<Rightarrow> 'w net_env \<Rightarrow> 'w rs_adapter \<Rightarrow> hash32 \<Rightarrow> ('w, source_error + internal_tx_result) state" where
  "rs_FetchInternalTxByTx keccak env a h =
     rs_fetchInternal keccak env a [(''txhash'', Hash32_Hex h)] firstBlockNumber"

definition rs_FetchInternalTxByBlock ::
  "(string \<Rightarrow> byte list) \<Rightarrow> 'w net_env \<Rightarrow> 'w rs_adapter \<Rightarrow> block_number
   \<Rightarrow> ('w, source_error + internal_tx_result) state" where
  "rs_FetchInternalTxByBlock keccak env a b =
     (let block = FormatNat 10 (unat b) in
      rs_fetchInternal keccak env a [(''startblock'', block), (''endblock'', block)] (\<lambda>_. Some b))"

definition rs_source :: "(string \<Rightarrow> byte list) \<Rightarrow> 'w net_env \<Rightarrow> 'w rs_adapter \<Rightarrow> 'w source" where
  "rs_source keccak env a =
     \<lparr>srcID = routescan_ID, srcChainID = rsChainID a, Supports = rs_Supports a,
      FetchBlock = rs_FetchBlock keccak env a, FetchAddressLatest = rs_FetchAddressLatest keccak env a,
      FetchAddressAtBlock = rs_FetchAddressAtBlock keccak env a,
      FetchSnapshot = State_Monad.return (Inl ErrUnsupported),
      FetchERC20Balance = rs_FetchERC20Balance keccak env a,
      FetchERC20Holdings = rs_FetchERC20Holdings keccak env a,
      FetchInternalTxByTx = rs_FetchInternalTxByTx keccak env a,
      FetchInternalTxByBlock = rs_FetchInternalTxByBlock keccak env a\<rparr>"

end
