(* ===== verification/Gateway.thy ===== *)
theory Gateway
  imports Persistence Base64 Routescan
begin

text \<open>
  From a configured source to an adapter: the source configurations and their repository
  (\<open>internal/application/ports.go\<close>, \<open>internal/infrastructure/persistence/source_repository.go\<close>), the cipher
  for their credentials (\<open>internal/secrets\<close>), the registry and the gateway
  (\<open>internal/infrastructure/gateway\<close>), the chain head, and the stubs
  (\<open>internal/infrastructure/stubs\<close>). AES-GCM, the statements of the database on the table \<open>sources\<close> and the
  text of a \<open>float64\<close> are arguments.
\<close>

section \<open>Configurations (\<open>ports.go\<close>)\<close>

record source_config =
  scID :: string
  scChainID :: chain_id
  scType :: string
  scEndpoint :: string
  scSecretCiphertext :: "byte list"
  scSecretNonce :: "byte list"
  scOptions :: "(string, json) gomap option"
  scEnabled :: bool
  scCreatedAt :: gotime
  scUpdatedAt :: gotime

definition HasSecret :: "source_config \<Rightarrow> bool" where
  "HasSecret s \<longleftrightarrow> length (scSecretCiphertext s) > 0 \<and> length (scSecretNonce s) > 0"

record 'w source_config_repository =
  SrcRepo_Save :: "source_config \<Rightarrow> ('w, app_error option) state"
  SrcRepo_FindByID :: "string \<Rightarrow> ('w, app_error + source_config) state"
  SrcRepo_ListByChain :: "chain_id \<Rightarrow> bool \<Rightarrow> ('w, app_error + source_config list) state"
  SrcRepo_Delete :: "string \<Rightarrow> ('w, app_error option) state"

section \<open>The repository (\<open>source_repository.go\<close>)\<close>

record source_model =
  soID :: string
  soChainID :: uint64
  soType :: string
  soEndpoint :: string
  soSecretCiphertext :: "byte list"
  soSecretNonce :: "byte list"
  soOptions :: "json option"
  soEnabled :: bool
  soCreatedAt :: gotime
  soUpdatedAt :: gotime

record 'w source_db =
  dbUpsertSource :: "source_model \<Rightarrow> ('w, db_error option) state"
  dbFirstSource :: "string \<Rightarrow> ('w, db_error + source_model) state"
  dbFindSources :: "db_query \<Rightarrow> ('w, db_error + source_model list) state"
  dbDeleteSources :: "cond list \<Rightarrow> ('w, db_error + int) state"

text \<open>A JSON value read into an \<open>any\<close>: a number becomes a \<open>float64\<close>, of which \<open>floatText\<close> gives the text that is
  written back, or an error when it is out of range; of equal keys the last one stays.\<close>

fun decPairs :: "(json \<Rightarrow> json option) \<Rightarrow> (string \<times> json) list \<Rightarrow> (string \<times> json) list option" where
  "decPairs f [] = Some []"
| "decPairs f ((k, v) # ps) =
     (case (f v, decPairs f ps) of
        (Some v', Some ps') \<Rightarrow> Some (if k \<in> fst ` set ps' then ps' else (k, v') # ps')
      | _ \<Rightarrow> None)"

lemma decPairs_cong [fundef_cong]:
  "ps = qs \<Longrightarrow> (\<And>k v. (k, v) \<in> set qs \<Longrightarrow> f v = g v) \<Longrightarrow> decPairs f ps = decPairs g qs"
proof (induction qs arbitrary: ps)
  case (Cons q qs)
  obtain k v where q: "q = (k, v)" by (rule prod.exhaust)
  have "f v = g v" using Cons.prems(2) [of k v] q by simp
  moreover have "decPairs f qs = decPairs g qs" by (rule Cons.IH) (use Cons.prems(2) in auto)
  ultimately show ?case using Cons.prems(1) q by simp
qed simp

lemma size_pairs: "(k, v) \<in> set ps \<Longrightarrow> size (v :: json) < Suc (size_list (size_prod (\<lambda>x. 0) size) ps)"
  by (induction ps) auto

function decAny :: "(string \<Rightarrow> string option) \<Rightarrow> json \<Rightarrow> json option" where
  "decAny floatText (JNum lit) = map_option JNum (floatText lit)"
| "decAny floatText (JArr js) = map_option JArr (decAll (decAny floatText) js)"
| "decAny floatText (JObj ps) = map_option JObj (decPairs (decAny floatText) ps)"
| "decAny floatText JNull = Some JNull"
| "decAny floatText (JBool b) = Some (JBool b)"
| "decAny floatText (JStr s) = Some (JStr s)"
  by pat_completeness auto
termination
  by (relation "measure (size \<circ> snd)") (auto simp: less_Suc_eq_le dest: size_pairs size_list_estimation' [of _ _ _ size])

definition toSourceModel :: "source_config \<Rightarrow> source_model" where
  "toSourceModel s =
     \<lparr>soID = scID s, soChainID = scChainID s, soType = scType s, soEndpoint = scEndpoint s,
      soSecretCiphertext = scSecretCiphertext s, soSecretNonce = scSecretNonce s,
      soOptions = Some (JObj (case scOptions s of None \<Rightarrow> [] | Some o' \<Rightarrow> o')),
      soEnabled = scEnabled s, soCreatedAt = scCreatedAt s, soUpdatedAt = scUpdatedAt s\<rparr>"

definition decOptions :: "(string \<Rightarrow> string option) \<Rightarrow> json option \<Rightarrow> (string, json) gomap option" where
  "decOptions floatText data =
     (case data of
        None \<Rightarrow> Some []
      | Some JNull \<Rightarrow> Some []
      | Some (JObj o') \<Rightarrow> decPairs (decAny floatText) o'
      | Some _ \<Rightarrow> None)"

definition toSourceConfig :: "(string \<Rightarrow> string option) \<Rightarrow> source_model \<Rightarrow> persist_error + source_config" where
  "toSourceConfig floatText m =
     (case decOptions floatText (soOptions m) of
        None \<Rightarrow> Inl (PDecode ''options'')
      | Some opts \<Rightarrow> Inr
          \<lparr>scID = soID m, scChainID = soChainID m, scType = soType m, scEndpoint = soEndpoint m,
           scSecretCiphertext = soSecretCiphertext m, scSecretNonce = soSecretNonce m, scOptions = Some opts,
           scEnabled = soEnabled m, scCreatedAt = soCreatedAt m, scUpdatedAt = soUpdatedAt m\<rparr>)"

definition isUniqueViolation :: "db_error \<Rightarrow> string \<Rightarrow> bool" where
  "isUniqueViolation err constr =
     (case err of UniqueViolation name \<Rightarrow> containsSub name constr | _ \<Rightarrow> False)"

definition SourceRepo_Save :: "'w source_db \<Rightarrow> source_config \<Rightarrow> ('w, app_error option) state" where
  "SourceRepo_Save db s =
     do {
       res \<leftarrow> dbUpsertSource db (toSourceModel s);
       State_Monad.return
         (case res of
            None \<Rightarrow> None
          | Some e \<Rightarrow>
              if isUniqueViolation e ''sources_type_chain_unique'' then Some ErrDuplicateSource
              else Some (Wrap ''source repo save: '' (ErrDB e)))
     }"

definition SourceRepo_FindByID ::
  "(string \<Rightarrow> string option) \<Rightarrow> 'w source_db \<Rightarrow> string \<Rightarrow> ('w, app_error + source_config) state" where
  "SourceRepo_FindByID floatText db i =
     do {
       res \<leftarrow> dbFirstSource db i;
       State_Monad.return
         (case res of
            Inl ErrRecordNotFound \<Rightarrow> Inl ErrSourceNotFound
          | Inl e \<Rightarrow> Inl (Wrap ''source repo find: '' (ErrDB e))
          | Inr m \<Rightarrow> map_sum (\<lambda>e. Wrap ''source repo find decode: '' (ErrPersist e)) id (toSourceConfig floatText m))
     }"

definition chainQuery :: "chain_id \<Rightarrow> bool \<Rightarrow> db_query" where
  "chainQuery cid enabledOnly =
     \<lparr>qWhere = ColEq ''chain_id'' (DBInt (int (unat cid))) #
        (if enabledOnly then [ColEq ''enabled'' (DBBool True)] else []),
      qOrder = [(''type'', False)], qLimit = None, qOffset = None\<rparr>"

definition SourceRepo_ListByChain ::
  "(string \<Rightarrow> string option) \<Rightarrow> 'w source_db \<Rightarrow> chain_id \<Rightarrow> bool \<Rightarrow> ('w, app_error + source_config list) state" where
  "SourceRepo_ListByChain floatText db cid enabledOnly =
     do {
       res \<leftarrow> dbFindSources db (chainQuery cid enabledOnly);
       State_Monad.return
         (case res of
            Inl e \<Rightarrow> Inl (Wrap ''source repo list: '' (ErrDB e))
          | Inr rows \<Rightarrow> decodeRows (toSourceConfig floatText) ''source repo list decode: '' rows)
     }"

definition SourceRepo_Delete :: "'w source_db \<Rightarrow> string \<Rightarrow> ('w, app_error option) state" where
  "SourceRepo_Delete db i =
     do {
       res \<leftarrow> dbDeleteSources db [ColEq ''id'' (DBStr i)];
       State_Monad.return
         (case res of Inl e \<Rightarrow> Some (Wrap ''source repo delete: '' (ErrDB e)) | Inr _ \<Rightarrow> None)
     }"

definition NewSourceRepo :: "(string \<Rightarrow> string option) \<Rightarrow> 'w source_db \<Rightarrow> 'w source_config_repository" where
  "NewSourceRepo floatText db =
     \<lparr>SrcRepo_Save = SourceRepo_Save db, SrcRepo_FindByID = SourceRepo_FindByID floatText db,
      SrcRepo_ListByChain = SourceRepo_ListByChain floatText db, SrcRepo_Delete = SourceRepo_Delete db\<rparr>"

section \<open>Secrets (\<open>secrets.go\<close>)\<close>

text \<open>An AEAD: its nonce size, and sealing and opening with a nonce. \<open>newGCM\<close> stands for \<open>aes.NewCipher\<close> and
  \<open>cipher.NewGCM\<close>, which accept every key of 32 bytes.\<close>

record aead =
  NonceSize :: nat
  Seal :: "byte list \<Rightarrow> byte list \<Rightarrow> byte list"
  Open :: "byte list \<Rightarrow> byte list \<Rightarrow> byte list option"

definition keyBytes :: nat where "keyBytes = 32"

definition NewCipher :: "(byte list \<Rightarrow> aead) \<Rightarrow> byte list \<Rightarrow> string + aead" where
  "NewCipher newGCM key =
     (if length key \<noteq> keyBytes then Inl ''secrets: key must be 32 bytes'' else Inr (newGCM key))"

definition secrets_Load :: "(byte list \<Rightarrow> aead) \<Rightarrow> (string \<Rightarrow> string) \<Rightarrow> string + aead" where
  "secrets_Load newGCM getenv =
     (let raw = getenv ''CSW_SECRET_KEY'' in
      if raw = [] then Inl ''secrets: CSW_SECRET_KEY is not set''
      else case base64Decode raw of
        None \<Rightarrow> Inl ''secrets: CSW_SECRET_KEY is not valid base64''
      | Some key \<Rightarrow> NewCipher newGCM key)"

text \<open>\<open>rand n\<close> are \<open>n\<close> random bytes, or \<open>None\<close> when the random source fails.\<close>

definition Cipher_Encrypt :: "(nat \<Rightarrow> byte list option) \<Rightarrow> aead \<Rightarrow> byte list \<Rightarrow> string + byte list \<times> byte list" where
  "Cipher_Encrypt rand c plaintext =
     (if length plaintext = 0 then Inl ''secrets: refuse to encrypt empty plaintext''
      else case rand (NonceSize c) of
        None \<Rightarrow> Inl ''secrets: rand nonce''
      | Some nonce \<Rightarrow> Inr (Seal c nonce plaintext, nonce))"

definition Cipher_Decrypt :: "aead \<Rightarrow> byte list \<Rightarrow> byte list \<Rightarrow> string + byte list" where
  "Cipher_Decrypt c ciphertext nonce =
     (if length nonce \<noteq> NonceSize c then Inl ''secrets: nonce has the wrong size''
      else case Open c nonce ciphertext of
        None \<Rightarrow> Inl ''secrets: decrypt''
      | Some plain \<Rightarrow> Inr plain)"

section \<open>The registry (\<open>factory.go\<close>)\<close>

definition TypeRPC :: string where "TypeRPC = ''rpc''"
definition TypeBlockscout :: string where "TypeBlockscout = ''blockscout''"
definition TypeRoutescan :: string where "TypeRoutescan = ''routescan''"

definition ErrUnknownType :: app_error where "ErrUnknownType = ErrNew ''gateway: unknown adapter type''"

type_synonym 'w factory_func = "source_config \<Rightarrow> byte list option \<Rightarrow> string + 'w source"
type_synonym 'w registry = "string \<rightharpoonup> 'w factory_func"

definition optionTrue :: "string \<Rightarrow> source_config \<Rightarrow> bool" where
  "optionTrue k cfg = (case scOptions cfg of None \<Rightarrow> False | Some o' \<Rightarrow> map_of o' k = Some (JBool True))"

definition rpcOptions :: "source_config \<Rightarrow> 'w rpc_option list" where
  "rpcOptions cfg = (if optionTrue ''archive'' cfg then [WithArchive True] else [])"

definition rpcFactory :: "(string \<Rightarrow> byte list) \<Rightarrow> 'w net_env \<Rightarrow> ('w, uint64) state \<Rightarrow> 'w factory_func" where
  "rpcFactory keccak env nextID cfg apiKey =
     map_sum id (rpc_source keccak env) (rpc_New env nextID (scChainID cfg) (scEndpoint cfg) (rpcOptions cfg))"

definition blockscoutFactory :: "(string \<Rightarrow> byte list) \<Rightarrow> 'w net_env \<Rightarrow> 'w factory_func" where
  "blockscoutFactory keccak env cfg apiKey =
     map_sum id (bs_source keccak env)
       (bs_New env (scChainID cfg) (if scEndpoint cfg \<noteq> [] then [bs_WithBaseURL (scEndpoint cfg)] else []))"

definition routescanFactory :: "(string \<Rightarrow> byte list) \<Rightarrow> 'w net_env \<Rightarrow> 'w factory_func" where
  "routescanFactory keccak env cfg apiKey =
     map_sum id (rs_source keccak env)
       (rs_New env (scChainID cfg) (if scEndpoint cfg \<noteq> [] then [rs_WithBaseURL env (scEndpoint cfg)] else []))"

definition DefaultRegistry :: "(string \<Rightarrow> byte list) \<Rightarrow> 'w net_env \<Rightarrow> ('w, uint64) state \<Rightarrow> 'w registry" where
  "DefaultRegistry keccak env nextID =
     [TypeRPC \<mapsto> rpcFactory keccak env nextID, TypeBlockscout \<mapsto> blockscoutFactory keccak env,
      TypeRoutescan \<mapsto> routescanFactory keccak env]"

definition Registry_Add :: "string \<Rightarrow> 'w factory_func \<Rightarrow> 'w registry \<Rightarrow> 'w registry" where
  "Registry_Add kind f r = r(kind \<mapsto> f)"

definition aliasedSource :: "'w source \<Rightarrow> source_id \<Rightarrow> 'w source" where
  "aliasedSource s i = s\<lparr>srcID := i\<rparr>"

definition Registry_Build ::
  "'w registry \<Rightarrow> source_config \<Rightarrow> byte list option \<Rightarrow> app_error + 'w source" where
  "Registry_Build r cfg apiKey =
     (case r (scType cfg) of
        None \<Rightarrow> Inl (WrapSuffix ErrUnknownType ('': '' @ scType cfg))
      | Some f \<Rightarrow>
          (case f cfg apiKey of
             Inl e \<Rightarrow> Inl (WrapQuoted ''gateway: build '' (scID cfg) '': '' (ErrNew e))
           | Inr s \<Rightarrow> Inr (aliasedSource s (scID cfg))))"

section \<open>The gateway (\<open>gateway.go\<close>)\<close>

record 'w db_gateway =
  gwRepo :: "'w source_config_repository"
  gwCipher :: "aead option"
  gwRegistry :: "'w registry"

definition NewDBGateway ::
  "'w registry \<Rightarrow> 'w source_config_repository \<Rightarrow> aead option \<Rightarrow> 'w registry option \<Rightarrow> 'w db_gateway" where
  "NewDBGateway defaultRegistry repo cipher reg =
     \<lparr>gwRepo = repo, gwCipher = cipher,
      gwRegistry = (case reg of None \<Rightarrow> defaultRegistry | Some r \<Rightarrow> r)\<rparr>"

definition DBGateway_build :: "'w db_gateway \<Rightarrow> source_config \<Rightarrow> app_error + 'w source" where
  "DBGateway_build g cfg =
     (if HasSecret cfg then
        (case gwCipher g of
           None \<Rightarrow> Inl (ErrQuoted ''gateway: source '' (scID cfg) '' has encrypted secret but cipher is nil'')
         | Some c \<Rightarrow>
             (case Cipher_Decrypt c (scSecretCiphertext cfg) (scSecretNonce cfg) of
                Inl e \<Rightarrow> Inl (WrapQuoted ''gateway: decrypt '' (scID cfg) '': '' (ErrNew e))
              | Inr pk \<Rightarrow> Registry_Build (gwRegistry g) cfg (Some pk)))
      else Registry_Build (gwRegistry g) cfg None)"

fun buildAll :: "'w db_gateway \<Rightarrow> source_config list \<Rightarrow> app_error + 'w source list" where
  "buildAll g [] = Inr []"
| "buildAll g (cfg # cfgs) =
     (case DBGateway_build g cfg of
        Inl e \<Rightarrow> Inl e
      | Inr s \<Rightarrow> map_sum id ((#) s) (buildAll g cfgs))"

definition DBGateway_ForChain :: "'w db_gateway \<Rightarrow> chain_id \<Rightarrow> ('w, app_error + 'w source list) state" where
  "DBGateway_ForChain g cid =
     do {
       res \<leftarrow> SrcRepo_ListByChain (gwRepo g) cid True;
       State_Monad.return
         (case res of
            Inl e \<Rightarrow> Inl (Wrap (''gateway: list by chain '' @ FormatNat 10 (unat cid) @ '': '') e)
          | Inr rows \<Rightarrow> buildAll g rows)
     }"

definition DBGateway_Get :: "'w db_gateway \<Rightarrow> source_id \<Rightarrow> ('w, app_error + 'w source) state" where
  "DBGateway_Get g i =
     do {
       res \<leftarrow> SrcRepo_FindByID (gwRepo g) i;
       State_Monad.return
         (case res of
            Inl e \<Rightarrow>
              if errorsIs e ErrSourceNotFound then Inl e
              else Inl (WrapQuoted ''gateway: find '' i '': '' e)
          | Inr cfg \<Rightarrow> DBGateway_build g cfg)
     }"

definition gatewayPort :: "'w db_gateway \<Rightarrow> 'w source_gateway" where
  "gatewayPort g = \<lparr>Gateway_ForChain = DBGateway_ForChain g, Gateway_Get = DBGateway_Get g\<rparr>"

section \<open>The chain head (\<open>chainhead.go\<close>)\<close>

definition ErrNoRPCSource :: app_error where
  "ErrNoRPCSource = ErrNew ''chainhead: no enabled rpc source for chain''"

definition firstRPC ::
  "'w net_env \<Rightarrow> ('w, uint64) state \<Rightarrow> chain_id \<Rightarrow> source_config list \<Rightarrow> app_error + 'w rpc_adapter" where
  "firstRPC env nextID cid rows =
     (case find (\<lambda>cfg. scType cfg = TypeRPC) rows of
        None \<Rightarrow> Inl (WrapSuffix ErrNoRPCSource ('': chain '' @ FormatNat 10 (unat cid)))
      | Some cfg \<Rightarrow>
          (case rpc_New env nextID (scChainID cfg) (scEndpoint cfg) (rpcOptions cfg) of
             Inl e \<Rightarrow> Inl (WrapQuoted ''chainhead: build rpc '' (scID cfg) '': '' (ErrNew e))
           | Inr a \<Rightarrow> Inr a))"

definition adapterFor ::
  "'w net_env \<Rightarrow> ('w, uint64) state \<Rightarrow> 'w source_config_repository \<Rightarrow> chain_id
   \<Rightarrow> ('w, app_error + 'w rpc_adapter) state" where
  "adapterFor env nextID repo cid =
     do {
       res \<leftarrow> SrcRepo_ListByChain repo cid True;
       State_Monad.return
         (case res of
            Inl e \<Rightarrow> Inl (Wrap (''chainhead: list by chain '' @ FormatNat 10 (unat cid) @ '': '') e)
          | Inr rows \<Rightarrow> firstRPC env nextID cid rows)
     }"

definition headCall ::
  "('w rpc_adapter \<Rightarrow> ('w, source_error + block_number) state) \<Rightarrow> 'w net_env \<Rightarrow> ('w, uint64) state
   \<Rightarrow> 'w source_config_repository \<Rightarrow> chain_id \<Rightarrow> ('w, app_error + block_number) state" where
  "headCall ask env nextID repo cid =
     do {
       found \<leftarrow> adapterFor env nextID repo cid;
       (case found of
          Inl e \<Rightarrow> State_Monad.return (Inl e)
        | Inr a \<Rightarrow>
            do {
              res \<leftarrow> ask a;
              State_Monad.return (map_sum ErrFetch id res)
            })
     }"

definition RPCChainHead_Tip where
  "RPCChainHead_Tip env = headCall (rpc_Tip env) env"

definition RPCChainHead_Finalized where
  "RPCChainHead_Finalized env = headCall (rpc_Finalized env) env"

definition NewRPCChainHead ::
  "'w net_env \<Rightarrow> ('w, uint64) state \<Rightarrow> 'w source_config_repository \<Rightarrow> 'w chain_head" where
  "NewRPCChainHead env nextID repo =
     \<lparr>ChainHead_Tip = RPCChainHead_Tip env nextID repo, ChainHead_Finalized = RPCChainHead_Finalized env nextID repo\<rparr>"

section \<open>Stubs (\<open>stubs.go\<close>)\<close>

definition NullGateway :: "'w source_gateway" where
  "NullGateway =
     \<lparr>Gateway_ForChain = (\<lambda>_. State_Monad.return (Inr [])),
      Gateway_Get = (\<lambda>i. State_Monad.return (Inl (ErrQuoted ''no sources configured for '' i [])))\<rparr>"

definition NullChainHead :: "'w chain_head" where
  "NullChainHead =
     \<lparr>ChainHead_Tip = (\<lambda>_. State_Monad.return (Inl (ErrNew ''chain head not configured''))),
      ChainHead_Finalized = (\<lambda>_. State_Monad.return (Inl (ErrNew ''chain head not configured'')))\<rparr>"

definition SystemClock :: "'w net_env \<Rightarrow> 'w clock" where
  "SystemClock env = neNow env"

end
