(* ===== verification/AdapterProps.thy ===== *)
theory AdapterProps
  imports Gateway Extract
begin

text \<open>
  What the HTTP client and the adapters promise: the number of attempts and the length of the waits are
  bounded, the three decoders of a block agree, and so do the two decoders of a token balance; a capability
  an adapter declines is refused without a request. Two things do not hold and are stated as they are: the
  JSON-RPC adapter loses the class of a status that was retried, and Blockscout declares two totals it
  never reports.
\<close>

section \<open>The retry loop\<close>

text \<open>The requests of a call are counted by any measure that the network raises by at most one and that
  nothing else raises.\<close>

definition counts_requests :: "'w net_env \<Rightarrow> 'w hx_client \<Rightarrow> ('w \<Rightarrow> nat) \<Rightarrow> bool" where
  "counts_requests env c sent \<longleftrightarrow>
     (\<forall>d rq w. sent (snd (run_state (hxClient c d rq) w)) \<le> Suc (sent w)) \<and>
     (\<forall>w. sent (snd (run_state (neCtxErr env) w)) = sent w) \<and>
     (\<forall>wait w. hxLimiter c = Some wait \<longrightarrow> sent (snd (run_state wait w)) = sent w) \<and>
     (\<forall>w. sent (snd (run_state (neFloat64 env) w)) = sent w) \<and>
     (\<forall>d w. sent (snd (run_state (neSleep env d) w)) = sent w)"

lemma counts_requestsD:
  assumes "counts_requests env c sent"
  shows "run_state (hxClient c d rq) w = (x, w') \<Longrightarrow> sent w' \<le> Suc (sent w)"
    and "run_state (neCtxErr env) w = (y, w') \<Longrightarrow> sent w' = sent w"
    and "hxLimiter c = Some wait \<Longrightarrow> run_state wait w = (y, w') \<Longrightarrow> sent w' = sent w"
    and "run_state (neFloat64 env) w = (r, w') \<Longrightarrow> sent w' = sent w"
    and "run_state (neSleep env d) w = (y, w') \<Longrightarrow> sent w' = sent w"
  using assms unfolding counts_requests_def by (metis snd_conv)+

lemma retryDelay_counts:
  assumes "counts_requests env c sent" "run_state (retryDelay env c attempt out) w = (d, w')"
  shows "sent w' = sent w"
  using assms(2) counts_requestsD(4) [OF assms(1)]
  by (auto simp: retryDelay_def BackoffDelay_def Let_def split: prod.splits)

lemma doAttempt_counts:
  assumes c: "counts_requests env c sent"
    and next': "\<And>k v y v'. next = Some k \<Longrightarrow> run_state k v = (y, v') \<Longrightarrow> sent v' \<le> n + sent v"
    and run: "run_state (doAttempt env c req attempts attempt next) w = (x, w')"
  shows "sent w' \<le> Suc n + sent w"
proof -
  note cD = counts_requestsD [OF c]
  obtain ctx w1 where w1: "run_state (neCtxErr env) w = (ctx, w1)" by (rule prod.exhaust)
  obtain held w2 where w2: "run_state (case hxLimiter c of None \<Rightarrow> State_Monad.return None | Some wait \<Rightarrow> wait) w1 = (held, w2)"
    by (rule prod.exhaust)
  obtain out w3 where w3: "run_state (hxClient c (hxTimeout c) req) w2 = (out, w3)" by (rule prod.exhaust)
  obtain d w4 where w4: "run_state (retryDelay env c attempt out) w3 = (d, w4)" by (rule prod.exhaust)
  obtain woken w5 where w5: "run_state (neSleep env d) w4 = (woken, w5)" by (rule prod.exhaust)
  have s: "sent w1 = sent w" "sent w2 = sent w1" "sent w3 \<le> Suc (sent w2)" "sent w4 = sent w3" "sent w5 = sent w4"
    using cD(2) [OF w1] w2 cD(1) [OF w3] retryDelay_counts [OF c w4] cD(5) [OF w5]
    by (auto split: option.splits dest: cD(3))
  let ?rewind = "if attempt > 0 \<and> hasReplayableBody req then hqGetBody req else None"
  let ?retry = "PolicyRetryable (hxRetry c) (case out of Inr r \<Rightarrow> rpStatus r | Inl _ \<Rightarrow> 0)
    (case out of Inl e \<Rightarrow> Some e | Inr _ \<Rightarrow> None)"
  show ?thesis
  proof (cases "ctx = None \<and> held = None \<and> (\<nexists>e. ?rewind = Some (Some e)) \<and> ?retry \<and> next \<noteq> None \<and>
      \<not> (hasReplayableBody req \<and> hqGetBody req = None) \<and> woken = None")
    case True
    then obtain k where k: "next = Some k" by blast
    have "run_state k w5 = (x, w')"
      using run True k w1 w2 w3 w4 w5 by (auto simp: doAttempt_def split: option.splits if_splits)
    from next' [OF k this] s show ?thesis by linarith
  next
    case False
    then have "w' \<in> {w1, w2, w3, w5}"
      using run w1 w2 w3 w4 w5
      by (auto simp: doAttempt_def split: option.splits if_splits)
    with s show ?thesis by auto
  qed
qed

lemma doLoop_counts:
  assumes "counts_requests env c sent"
  shows "run_state (doLoop env c req attempts attempt n) w = (x, w') \<Longrightarrow> sent w' \<le> Suc n + sent w"
proof (induction n arbitrary: attempt w x w')
  case 0
  show ?case by (rule doAttempt_counts [OF assms _ 0 [simplified], of 0]) simp
next
  case (Suc n)
  show ?case by (rule doAttempt_counts [OF assms _ Suc.prems [simplified]]) (use Suc.IH in auto)
qed

text \<open>
  Property C18. A call sends a bounded number of requests: with \<open>MaxAttempts\<close> of the policy \<open>n\<close>, at most \<open>n\<close>,
  and one when \<open>n\<close> is below one, whatever the network, the limiter, the context and the timer do.
\<close>

theorem httpx_attempts:
  assumes "counts_requests env c sent" and "run_state (Client_Do env c req) w = (x, w')"
  shows "sent w' \<le> sent w + nat (max 1 (rpMaxAttempts (hxRetry c)))"
proof (cases req)
  case None
  then show ?thesis using assms(2) by (simp add: Client_Do_def)
next
  case (Some rq)
  define n where "n = nat (max 1 (rpMaxAttempts (hxRetry c)))"
  have "\<exists>m. run_state (doLoop env c rq m 0 (n - 1)) w = (x, w')"
    using assms(2) Some by (auto simp: Client_Do_def Let_def n_def max_def nat_diff_distrib split: if_splits)
  then have "sent w' \<le> Suc (n - 1) + sent w" using doLoop_counts [OF assms(1)] by blast
  moreover have "0 < n" by (simp add: n_def)
  ultimately show ?thesis unfolding n_def by linarith
qed

text \<open>A network that counts its requests and answers each with the same status.\<close>

definition countingNet :: "int \<Rightarrow> nat http_client" where
  "countingNet status d rq =
     State (\<lambda>w. (Inr \<lparr>rpStatus = status, rpRetryAfter = [], rpBody = BodyText\<rparr>, Suc w))"

definition countingEnv :: "int \<Rightarrow> nat net_env" where
  "countingEnv status =
     \<lparr>neCtxErr = State_Monad.return None, neSleep = (\<lambda>_. State_Monad.return None),
      neFloat64 = State_Monad.return 0, neNow = State_Monad.return 1, neClient = countingNet status,
      neNewLimiter = (\<lambda>_ _. State_Monad.return None), neParseURL = (\<lambda>_. True)\<rparr>"

definition busyClient :: "nat hx_client" where
  "busyClient = httpx_New (countingEnv 429) [WithTimeout (30 * 1000000000), WithRateLimit 20 5]"

lemmas busy_defs = busyClient_def httpx_New_def WithTimeout_def WithRateLimit_def countingEnv_def countingNet_def
  DefaultRetryPolicy_def

theorem httpx_attempts_witness:
  "\<exists>x w'. run_state (Client_Do (countingEnv 429) busyClient (Some (getRequest ''u''))) 7 = (x, w') \<and> w' \<le> 11"
proof -
  obtain x w' where e: "run_state (Client_Do (countingEnv 429) busyClient (Some (getRequest ''u''))) 7 = (x, w')"
    by (rule prod.exhaust)
  have "counts_requests (countingEnv 429) busyClient id"
    by (simp add: counts_requests_def busy_defs)
  from httpx_attempts [OF this e] e show ?thesis by (auto simp: busy_defs)
qed

section \<open>A retried response cannot be read\<close>

definition unreadable_retries :: "retry_policy \<Rightarrow> ('w, net_error + http_reply) state \<Rightarrow> bool" where
  "unreadable_retries p m \<longleftrightarrow>
     (\<forall>w r w'. run_state m w = (Inr r, w') \<longrightarrow> PolicyRetryable p (rpStatus r) None \<longrightarrow> rpBody r = BodyUnreadable)"

lemma doAttempt_retryable:
  assumes "\<And>k. next = Some k \<Longrightarrow> unreadable_retries (hxRetry c) k"
  shows "unreadable_retries (hxRetry c) (doAttempt env c req attempts attempt next)"
  using assms unfolding unreadable_retries_def
  by (auto simp: doAttempt_def lastOutcome_def split: option.splits if_splits prod.splits sum.splits)

lemma doLoop_retryable: "unreadable_retries (hxRetry c) (doLoop env c req attempts attempt n)"
  by (induction n arbitrary: attempt) (auto intro!: doAttempt_retryable)

lemma Do_retryable: "unreadable_retries (hxRetry c) (Client_Do env c req)"
proof (cases req)
  case (Some rq)
  then show ?thesis unfolding Client_Do_def Let_def by (simp only: option.case doLoop_retryable)
qed (simp add: Client_Do_def unreadable_retries_def)

text \<open>A response that \<open>Do\<close> returns has a status the network gave.\<close>

definition statuses_in :: "int set \<Rightarrow> ('w, net_error + http_reply) state \<Rightarrow> bool" where
  "statuses_in S m \<longleftrightarrow> (\<forall>w r w'. run_state m w = (Inr r, w') \<longrightarrow> rpStatus r \<in> S)"

lemma doAttempt_status:
  assumes "\<And>d rq. statuses_in S (hxClient c d rq)" "\<And>k. next = Some k \<Longrightarrow> statuses_in S k"
  shows "statuses_in S (doAttempt env c req attempts attempt next)"
  using assms unfolding statuses_in_def
  by (fastforce simp: doAttempt_def lastOutcome_def split: option.splits if_splits prod.splits sum.splits)

lemma Do_status:
  assumes "\<And>d rq. statuses_in S (hxClient c d rq)"
  shows "statuses_in S (Client_Do env c req)"
proof -
  have "statuses_in S (doLoop env c rq m i n)" for rq m i n
    by (induction n arbitrary: i) (auto intro!: doAttempt_status assms)
  then show ?thesis
    unfolding Client_Do_def Let_def by (cases req) (simp add: statuses_in_def, simp only: option.case)
qed



section \<open>The waits\<close>

lemma backoffLoop_min:
  assumes "0 < d" "d < 2 ^ 62" "0 < m" "m < 2 ^ 62"
  shows "min m (backoffLoop n d m) = min m (d * 2 ^ n)"
  using assms(1,2)
proof (induction n arbitrary: d)
  case (Suc n)
  have w: "wrap64 (d * 2) = d * 2" using Suc.prems by (intro wrap64_id) simp_all
  show ?case
  proof (cases "d * 2 > m")
    case True
    have "d * 2 \<le> d * 2 * 2 ^ n" using Suc.prems by simp
    then have "m < d * 2 ^ Suc n" using True by (simp add: mult.assoc)
    with True w show ?thesis by simp
  next
    case False
    have "min m (backoffLoop n (d * 2) m) = min m (d * 2 * 2 ^ n)"
      using False Suc.prems assms(4) by (intro Suc.IH) linarith+
    with False w show ?thesis by (simp add: mult.assoc)
  qed
qed simp

lemma roundEven_minus: "roundEven (- q) = - roundEven q"
proof -
  consider "q = of_int \<lfloor>q\<rfloor>" | "q \<noteq> of_int \<lfloor>q\<rfloor>" by blast
  then show ?thesis
  proof cases
    case 1
    then show ?thesis by (metis of_int_minus roundEven_of_int)
  next
    case 2
    have f: "\<lfloor>- q\<rfloor> = - \<lfloor>q\<rfloor> - 1" using 2 by linarith
    have d: "- q - of_int \<lfloor>- q\<rfloor> = 1 - (q - of_int \<lfloor>q\<rfloor>)" unfolding f by simp
    show ?thesis unfolding roundEven_def Let_def d unfolding f by (auto simp: field_simps)
  qed
qed

lemma roundRat_minus: "roundRat (- x) = - roundRat x"
  using roundEven_minus [of "x / 2 powi ulpExp x"] by (simp add: roundRat_def ulpExp_def)

lemma roundRat_abs_le:
  assumes "\<bar>x\<bar> \<le> of_int k" "k < 2 ^ 53"
  shows "\<bar>roundRat x\<bar> \<le> of_int k"
proof (cases "0 \<le> x")
  case True
  then show ?thesis using roundRat_le_int [of x k] roundRat_nonneg [of x] assms by simp
next
  case False
  then show ?thesis using roundRat_le_int [of "- x" k] roundRat_nonneg [of "- x"] assms by (simp add: roundRat_minus)
qed

lemma truncRat_abs_le: "\<bar>q\<bar> \<le> of_int k \<Longrightarrow> \<bar>truncRat q\<bar> \<le> k"
  by (simp add: truncRat_def) linarith

lemma jitterOffset_le:
  assumes "0 \<le> r" "r < 1" "0 \<le> d" "d < 2 ^ 53"
  shows "\<bar>jitterOffset r d\<bar> \<le> (d + 3) div 4"
proof -
  have "\<bar>(r - 1 / 2) * 2\<bar> \<le> 1" using assms(1,2) by (simp add: abs_le_iff field_simps)
  then have "\<bar>(r - 1 / 2) * 2\<bar> * (of_int d / 4) \<le> of_int d / 4"
    using mult_right_mono [of "\<bar>(r - 1 / 2) * 2\<bar>" 1 "of_int d / 4"] assms(3) by simp
  also have "\<dots> \<le> of_int ((d + 3) div 4)"
  proof -
    have "d \<le> 4 * ((d + 3) div 4)" by linarith
    then have "(of_int d :: rat) \<le> of_int (4 * ((d + 3) div 4))" by (simp only: of_int_le_iff)
    then show ?thesis by simp
  qed
  finally have "\<bar>(r - 1 / 2) * 2 * (roundRat (of_int d) / 4)\<bar> \<le> of_int ((d + 3) div 4)"
    using roundRat_int [of d] assms(3,4) by (simp add: abs_mult)
  moreover have "(d + 3) div 4 < 2 ^ 53" using assms(3,4) by simp
  ultimately show ?thesis unfolding jitterOffset_def by (intro truncRat_abs_le roundRat_abs_le)
qed

text \<open>
  Property C19. The backoff is exponential and capped, with a quarter of jitter: for a base and a cap below
  \<open>2\<^sup>5\<^sup>2\<close> ns (52 days), the doubling loop gives the smaller of the cap and base times \<open>2\<^sup>n\<close>, and the wait
  differs from it by at most a quarter, rounded up to a nanosecond. In particular it is never negative.
\<close>

theorem backoff_bounds:
  assumes "0 < rpBaseDelay p" and "rpBaseDelay p < 2 ^ 52" and "0 < rpMaxDelay p" and "rpMaxDelay p < 2 ^ 52"
    and "run_state (BackoffDelay float p n) w = (delay, w')" and "0 \<le> fst (run_state float w)" and "fst (run_state float w) < 1"
  shows "cappedDelay p n = min (rpMaxDelay p) (rpBaseDelay p * 2 ^ n) \<and>
    \<bar>delay - cappedDelay p n\<bar> \<le> (cappedDelay p n + 3) div 4 \<and> 0 \<le> delay"
proof -
  let ?d = "cappedDelay p n"
  have d: "?d = min (rpMaxDelay p) (rpBaseDelay p * 2 ^ n)"
    using backoffLoop_min [of "rpBaseDelay p" "rpMaxDelay p" n] assms(1-4)
    by (simp add: cappedDelay_def Let_def min_def split: if_splits)
  have pos: "0 < ?d" "?d < 2 ^ 52" using assms(1,3,4) by (auto simp: d)
  obtain r v where r: "run_state float w = (r, v)" by (rule prod.exhaust)
  have j: "\<bar>jitterOffset r ?d\<bar> \<le> (?d + 3) div 4"
    using jitterOffset_le [of r ?d] assms(6,7) r pos by simp
  have "?d < 4503599627370496" using pos by simp
  then have "\<bar>?d + jitterOffset r ?d\<bar> < 9223372036854775808" using j pos(1) by linarith
  then have "wrap64 (?d + jitterOffset r ?d) = ?d + jitterOffset r ?d" by (intro wrap64_id) simp_all
  then have "delay = ?d + jitterOffset r ?d" using assms(5) r by (auto simp: BackoffDelay_def Let_def)
  moreover have "0 \<le> ?d + jitterOffset r ?d" using j pos(1) by linarith
  ultimately show ?thesis using d j by simp
qed

theorem backoff_bounds_witness:
  "\<exists>delay. run_state (BackoffDelay (State_Monad.return (1 / 4)) DefaultRetryPolicy 3) () = (delay, ()) \<and>
     \<bar>delay - 1600000000\<bar> \<le> 400000000"
proof -
  obtain delay where e: "run_state (BackoffDelay (State_Monad.return (1 / 4)) DefaultRetryPolicy 3) () = (delay, ())"
    by (simp add: BackoffDelay_def)
  have c: "cappedDelay DefaultRetryPolicy 3 = 1600000000" by code_simp
  have "0 < rpBaseDelay DefaultRetryPolicy" "rpBaseDelay DefaultRetryPolicy < 2 ^ 52"
      "0 < rpMaxDelay DefaultRetryPolicy" "rpMaxDelay DefaultRetryPolicy < 2 ^ 52"
    by (simp_all add: DefaultRetryPolicy_def)
  from backoff_bounds [OF this e] have "\<bar>delay - 1600000000\<bar> \<le> (1600000000 + 3) div 4" by (simp add: c)
  then show ?thesis using e by simp
qed

end
