(* ===== verification/DecoderProps.thy ===== *)
theory DecoderProps
  imports Gateway Execute
begin

text \<open>
  What the three adapters report, put beside the engine that compares them: the decoders of a block agree on
  every response, and so do the decoders of a token balance; what an adapter fetches has every field the
  engine extracts; a call tree is flattened in the order of its calls; and a capability an adapter
  declines is refused without a request.
\<close>

section \<open>The decoders of a block\<close>

lemma trim0x_eq: "trim0x s = trimHexPrefix s"
proof -
  have "HasPrefix s [c, d] \<longleftrightarrow> \<not> length s < 2 \<and> take 2 s = [c, d]" for c d
    by (cases s; cases "tl s") (auto simp: HasPrefix_def)
  then show ?thesis by (auto simp: trim0x_def trimHexPrefix_def)
qed

lemma bs_parseHexU64_eq: "bs_parseHexU64 = parseHexUint64"
  by (simp add: fun_eq_iff bs_parseHexU64_def parseHexUint64_def trim0x_eq)

lemma bs_parseHash_eq: "bs_parseHash = parseHash32"
  by (simp add: fun_eq_iff bs_parseHash_def parseHash32_def)

lemma rs_parseHash_eq: "rs_parseHash = parseHash32"
  by (simp add: fun_eq_iff rs_parseHash_def parseHash32_def)

lemma rs_parseHexU64_eq: "rs_parseHexU64 s = Inr n \<longleftrightarrow> parseHexUint64 s = Inr n"
  by (auto simp: rs_parseHexU64_def bs_parseHexU64_eq [symmetric] bs_parseHexU64_def trim0x_def Let_def
      split: option.splits if_splits)

lemmas decoder_defs = rpcBlock_def populateBlockHashes_def populateBlockScalars_def populateBlockMiner_def
  parseAddress_def newBlockResult_def

lemma bsBlock_rpcBlock:
  "bsBlock keccak n now raw = Inr b \<longleftrightarrow>
     (\<exists>b0. rpcBlock keccak n now raw = Inr b0 \<and> b = b0\<lparr>brSourceID := blockscout_ID\<rparr>)"
  by (auto simp: bsBlock_def decoder_defs bs_parseHash_eq bs_parseHexU64_eq split: sum.splits)

lemma rsBlock_rpcBlock:
  "rsBlock keccak n now raw = Inr b \<longleftrightarrow>
     (\<exists>b0. rpcBlock keccak n now raw = Inr b0 \<and> b = b0\<lparr>brSourceID := routescan_ID\<rparr>)"
proof -
  have "rs_parseHexU64 s = Inl e \<Longrightarrow> parseHexUint64 s = Inr m \<Longrightarrow> False" for s e m
    using rs_parseHexU64_eq [of s m] by simp
  then show ?thesis
    by (auto simp: rsBlock_def decoder_defs rs_parseHash_eq rs_parseHexU64_eq split: sum.splits)
qed

text \<open>The block capabilities, in the order of \<open>source/capability.go\<close>.\<close>

definition blockCapabilities :: "capability list" where
  "blockCapabilities = [CapBlockHash, CapBlockParentHash, CapBlockTimestamp, CapBlockTxCount, CapBlockGasUsed,
     CapBlockStateRoot, CapBlockReceiptsRoot, CapBlockTransactionsRoot, CapBlockMiner]"

lemma rpcBlock_Inr:
  assumes "rpcBlock keccak n now raw = Inr b"
  obtains h p sr rr tr gas ts m where
    "b = \<lparr>brNumber = n, brHash = Some h, brParentHash = Some p, brTimestamp = Some ts,
      brTxCount = Some (word_of_nat (length (rbTransactions raw))), brGasUsed = Some gas, brStateRoot = Some sr,
      brReceiptsRoot = Some rr, brTransactionsRoot = Some tr, brMiner = Some m, brSourceID = rpc_ID,
      brFetchedAt = now, brRawResponse = []\<rparr>"
  using assms by (auto simp: decoder_defs split: sum.splits)

lemma rpcBlock_fields:
  assumes "rpcBlock keccak n now raw = Inr b"
  shows "brNumber b = n" and "c \<in> set blockCapabilities \<Longrightarrow> extractBlockField keccak c b \<noteq> None"
  by (rule rpcBlock_Inr [OF assms]; auto simp: blockCapabilities_def extractBlockField_def cap_defs)+

lemma extractBlockField_sourceID [simp]:
  "extractBlockField keccak c (b\<lparr>brSourceID := i\<rparr>) = extractBlockField keccak c b"
  by (simp add: extractBlockField_def)

lemma parse_errors:
  "parseHash32 s = Inl e \<Longrightarrow> e = ErrInvalidResponse" "parseHexUint64 s = Inl e \<Longrightarrow> e = ErrInvalidResponse"
  by (auto simp: parseHash32_def parseHexUint64_def trimHexPrefix_def split: sum.splits option.splits if_splits)

lemma rpcBlock_error: "rpcBlock keccak n now raw = Inl e \<Longrightarrow> e = ErrInvalidResponse"
  by (auto simp: decoder_defs split: sum.splits dest: parse_errors)

lemma bsBlock_error: "bsBlock keccak n now raw = Inl e \<Longrightarrow> e = ErrInvalidResponse"
  by (auto simp: bsBlock_def bs_parseHash_eq bs_parseHexU64_eq split: sum.splits dest: parse_errors)

text \<open>
  Property C16. Three decoders, one block: for every response the Blockscout decoder gives what the JSON-RPC decoder
  gives, the same error included, and the Routescan decoder accepts the same responses with the same fields;
  the results differ in the source id only. So two sources that see the same block have the same
  canonical value for every capability.
\<close>

theorem block_decoders_agree:
  "bsBlock keccak n now raw = map_sum id (\<lambda>b. b\<lparr>brSourceID := blockscout_ID\<rparr>) (rpcBlock keccak n now raw) \<and>
   (rsBlock keccak n now raw = Inr b \<longleftrightarrow>
      rpcBlock keccak n now raw = Inr (b\<lparr>brSourceID := rpc_ID\<rparr>) \<and> brSourceID b = routescan_ID) \<and>
   extractBlockField keccak c (b\<lparr>brSourceID := i\<rparr>) = extractBlockField keccak c b"
proof (intro conjI)
  show "bsBlock keccak n now raw = map_sum id (\<lambda>b. b\<lparr>brSourceID := blockscout_ID\<rparr>) (rpcBlock keccak n now raw)"
  proof (cases "rpcBlock keccak n now raw")
    case (Inl e)
    with bsBlock_rpcBlock obtain e' where e': "bsBlock keccak n now raw = Inl e'"
      by (metis Inl_Inr_False obj_sumE)
    show ?thesis using Inl e' rpcBlock_error [OF Inl] bsBlock_error [OF e'] by simp
  next
    case (Inr b0)
    then show ?thesis by (simp add: bsBlock_rpcBlock)
  qed
next
  show "rsBlock keccak n now raw = Inr b \<longleftrightarrow>
      rpcBlock keccak n now raw = Inr (b\<lparr>brSourceID := rpc_ID\<rparr>) \<and> brSourceID b = routescan_ID"
  proof -
    have "brSourceID b0 = rpc_ID" if "rpcBlock keccak n now raw = Inr b0" for b0
      by (rule rpcBlock_Inr [OF that]) simp
    then have "b0\<lparr>brSourceID := rpc_ID\<rparr> = b0" if "rpcBlock keccak n now raw = Inr b0" for b0
      using that by (metis block_result.surjective block_result.update_convs(11))
    then show ?thesis by (auto simp: rsBlock_rpcBlock)
  qed
qed simp

text \<open>Hashes and addresses are lists of bytes here; in the code they are arrays of 32 and 20 bytes.\<close>

definition typedBlock :: "block_result \<Rightarrow> bool" where
  "typedBlock b \<longleftrightarrow>
     pred_option wfHash32 (brHash b) \<and> pred_option wfHash32 (brParentHash b) \<and> pred_option wfHash32 (brStateRoot b) \<and>
     pred_option wfHash32 (brReceiptsRoot b) \<and> pred_option wfHash32 (brTransactionsRoot b) \<and>
     pred_option wfAddress (brMiner b)"

lemma NewAddress_wf: "NewAddress keccak s = Inr a \<Longrightarrow> wfAddress a"
  using hexDecode_length [of "drop 2 s" a] by (auto simp: NewAddress_iff wfAddress_def)

lemma NewHash32_wf: "NewHash32 s = Inr h \<Longrightarrow> wfHash32 h"
  by (auto simp: NewHash32_def wfHash32_def Let_def ToLower_def split: if_splits option.splits dest!: hexDecode_length)

lemma rpcBlock_typed: "rpcBlock keccak n now raw = Inr b \<Longrightarrow> typedBlock b"
  by (auto simp: decoder_defs typedBlock_def parseHash32_def split: sum.splits dest: NewHash32_wf NewAddress_wf)

lemma typedBlock_sourceID [simp]: "typedBlock (b\<lparr>brSourceID := i\<rparr>) \<longleftrightarrow> typedBlock b"
  by (simp add: typedBlock_def)

text \<open>
  Property C17. What a decoder accepts is well-typed and complete: on every response of a node or an explorer, the
  JSON-RPC and the Blockscout decoder return \<open>ErrInvalidResponse\<close> or a block with the number asked for, hashes
  of 32 bytes, a miner of 20 bytes and a value for every block capability, under their own source id; the Routescan decoder
  returns such a block or an error.
\<close>

theorem block_results_typed:
  "(case rpcBlock keccak n now raw of Inl e \<Rightarrow> e = ErrInvalidResponse
    | Inr b \<Rightarrow> typedBlock b \<and> brNumber b = n \<and> brSourceID b = rpc_ID \<and>
        list_all (\<lambda>c. extractBlockField keccak c b \<noteq> None) blockCapabilities) \<and>
   (case bsBlock keccak n now raw of Inl e \<Rightarrow> e = ErrInvalidResponse
    | Inr b \<Rightarrow> typedBlock b \<and> brNumber b = n \<and> brSourceID b = blockscout_ID \<and>
        list_all (\<lambda>c. extractBlockField keccak c b \<noteq> None) blockCapabilities) \<and>
   (case rsBlock keccak n now raw of Inl e \<Rightarrow> True
    | Inr b \<Rightarrow> typedBlock b \<and> brNumber b = n \<and> brSourceID b = routescan_ID \<and>
        list_all (\<lambda>c. extractBlockField keccak c b \<noteq> None) blockCapabilities)"
proof -
  have ok: "typedBlock b \<and> brNumber b = n \<and> brSourceID b = rpc_ID \<and>
      list_all (\<lambda>c. extractBlockField keccak c b \<noteq> None) blockCapabilities" if "rpcBlock keccak n now raw = Inr b" for b
  proof -
    have "brSourceID b = rpc_ID" by (rule rpcBlock_Inr [OF that]) simp
    then show ?thesis using rpcBlock_typed [OF that] rpcBlock_fields [OF that] by (auto simp: list_all_iff)
  qed
  let ?fine = "\<lambda>i b. typedBlock b \<and> brNumber b = n \<and> brSourceID b = i \<and>
      list_all (\<lambda>c. extractBlockField keccak c b \<noteq> None) blockCapabilities"
  have bs: "?fine blockscout_ID b" if "bsBlock keccak n now raw = Inr b" for b
    using that ok unfolding bsBlock_rpcBlock by auto
  have rs: "?fine routescan_ID b" if "rsBlock keccak n now raw = Inr b" for b
    using that ok unfolding rsBlock_rpcBlock by auto
  show ?thesis
  proof (intro conjI)
    show "case rpcBlock keccak n now raw of Inl e \<Rightarrow> e = ErrInvalidResponse | Inr b \<Rightarrow> ?fine rpc_ID b"
      using ok rpcBlock_error by (cases "rpcBlock keccak n now raw") simp_all
    show "case bsBlock keccak n now raw of Inl e \<Rightarrow> e = ErrInvalidResponse | Inr b \<Rightarrow> ?fine blockscout_ID b"
      using bs bsBlock_error by (cases "bsBlock keccak n now raw") simp_all
    show "case rsBlock keccak n now raw of Inl e \<Rightarrow> True | Inr b \<Rightarrow> ?fine routescan_ID b"
      using rs by (cases "rsBlock keccak n now raw") simp_all
  qed
qed

section \<open>The decoders of a token balance\<close>

lemma parseDigits_hexDecode:
  "even (length s) \<Longrightarrow>
   parseDigits 16 n s = map_option (foldl (\<lambda>n b. n * 256 + unat b) n) (hexDecode s)"
proof (induction s arbitrary: n rule: hexDecode.induct)
  case (3 c d cs)
  have "unat (16 * word_of_nat h + word_of_nat l :: byte) = 16 * h + l" if "h < 16" "l < 16" for h l
  proof -
    have "unat (word_of_nat (16 * h + l) :: byte) = 16 * h + l" by (rule unat_byte_of_nat) (use that in simp)
    then show ?thesis by simp
  qed
  with 3 show ?case by (auto simp: hexVal_def algebra_simps split: option.splits)
qed simp_all

lemma SetBytes_nat: "SetBytes bs = int (foldl (\<lambda>n b. n * 256 + unat b) 0 bs)"
proof -
  have "foldl (\<lambda>n b. n * 256 + int (unat b)) (int m) bs = int (foldl (\<lambda>n b. n * 256 + unat b) m bs)" for m
  proof (induction bs arbitrary: m)
    case (Cons b bs)
    from Cons.IH [of "m * 256 + unat b"] show ?case by simp
  qed simp
  from this [of 0] show ?thesis by (simp add: SetBytes_def)
qed

lemma padded_digits:
  "parseDigits 16 0 raw =
     map_option (foldl (\<lambda>n b. n * 256 + unat b) 0) (hexDecode (if odd (length raw) then CHR ''0'' # raw else raw))"
proof -
  let ?p = "if odd (length raw) then CHR ''0'' # raw else raw"
  have "digitVal (CHR ''0'') = Some 0" by (simp add: digitVal_def)
  then have "parseDigits 16 0 raw = parseDigits 16 0 ?p" by simp
  also have "\<dots> = map_option (foldl (\<lambda>n b. n * 256 + unat b) 0) (hexDecode ?p)"
    by (rule parseDigits_hexDecode) simp
  finally show ?thesis .
qed

text \<open>\<open>hexBytes\<close> and \<open>big.Int.SetString\<close> read the same number from hex digits without a sign.\<close>

lemma hexBytes_digits:
  assumes "raw \<noteq> []" "HasPrefix s ''0x'' \<or> HasPrefix s ''0X''" "drop 2 s = raw"
  shows "hexBytes s = (case parseDigits 16 0 raw of None \<Rightarrow> Inl ErrInvalidResponse
      | Some _ \<Rightarrow> Inr (the (hexDecode (if odd (length raw) then CHR ''0'' # raw else raw))))"
proof -
  have "hexBytes s = (case hexDecode (if odd (length raw) then CHR ''0'' # raw else raw) of
      None \<Rightarrow> Inl ErrInvalidResponse | Some b \<Rightarrow> Inr b)"
    using assms by (auto simp: hexBytes_def Let_def odd_iff_mod_2_eq_one)
  then show ?thesis by (simp add: padded_digits split: option.splits)
qed

lemma decodeUint256_digits:
  assumes "HasPrefix s ''0x'' \<or> HasPrefix s ''0X''" "drop 2 s \<noteq> []"
  shows "rpc_decodeUint256 s =
    (case parseDigits 16 0 (drop 2 s) of None \<Rightarrow> Inl ErrInvalidResponse | Some v \<Rightarrow> Inr (int v))"
proof -
  let ?raw = "drop 2 s"
  let ?p = "if odd (length ?raw) then CHR ''0'' # ?raw else ?raw"
  have d: "parseDigits 16 0 ?raw = map_option (foldl (\<lambda>n b. n * 256 + unat b) 0) (hexDecode ?p)"
    by (rule padded_digits)
  have ne: "bs \<noteq> []" if "hexDecode ?p = Some bs" for bs
    using hexDecode_length [OF that] assms(2) by (auto split: if_splits)
  show ?thesis
    using assms(2) ne
    by (auto simp: rpc_decodeUint256_def hexBytes_digits [OF assms(2,1) refl] d SetBytes_nat split: option.splits)
qed

text \<open>
  Two decoders, one balance: a \<open>balanceOf\<close> result that starts with \<open>0x\<close> and has no sign is read by the
  byte-wise decoder of the JSON-RPC adapter and by the decoder of the Blockscout adapter as the same
  number, or refused by both with \<open>ErrInvalidResponse\<close>; the number written back in hex is accepted again.
\<close>

theorem uint256_decoders_agree:
  assumes "HasPrefix s ''0x'' \<or> HasPrefix s ''0X''" and "take 1 (drop 2 s) \<notin> {''-'', ''+''}"
  shows "rpc_decodeUint256 s = bs_decodeUint256 s \<and>
    (\<forall>e. rpc_decodeUint256 s = Inl e \<longrightarrow> e = ErrInvalidResponse) \<and>
    (\<forall>v. rpc_decodeUint256 s = Inr v \<longrightarrow> 0 \<le> v \<and> rpc_decodeUint256 (''0x'' @ FormatNat 16 (nat v)) = Inr v)"
proof (cases "drop 2 s")
  case Nil
  then show ?thesis
    using assms(1) by (auto simp: rpc_decodeUint256_def hexBytes_def bs_decodeUint256_def trim0x_eq trimHexPrefix_def)
next
  case (Cons c cs)
  then have ne: "drop 2 s \<noteq> []" by simp
  have b: "bs_decodeUint256 s = (case parseDigits 16 0 (drop 2 s) of None \<Rightarrow> Inl ErrInvalidResponse | Some v \<Rightarrow> Inr (int v))"
    using assms Cons by (simp add: bs_decodeUint256_def trim0x_eq trimHexPrefix_def SetString_def split: option.splits)
  have "rpc_decodeUint256 (''0x'' @ FormatNat 16 m) = Inr (int m)" for m
    using decodeUint256_digits [of "''0x'' @ FormatNat 16 m"] by (simp add: HasPrefix_def parseDigits_FormatNat)
  with b decodeUint256_digits [OF assms(1) ne] show ?thesis by (auto split: option.splits)
qed

theorem uint256_decoders_agree_witness:
  "rpc_decodeUint256 ''0x0a5'' = Inr 165 \<and> bs_decodeUint256 ''0x0a5'' = Inr 165"
proof -
  have "bs_decodeUint256 ''0x0a5'' = Inr 165" by code_simp
  moreover have "rpc_decodeUint256 ''0x0a5'' = bs_decodeUint256 ''0x0a5''"
    using uint256_decoders_agree [of "''0x0a5''"] by (simp add: HasPrefix_def)
  ultimately show ?thesis by simp
qed

text \<open>The two do not agree on everything: only one of them takes a sign, and only the other takes a
  string without the prefix. A balance below zero is accepted as one.\<close>

lemma uint256_sign: "bs_decodeUint256 ''0x-1'' = Inr (- 1)" "rpc_decodeUint256 ''0x-1'' = Inl ErrInvalidResponse"
  by code_simp+

lemma balance_sign: "parseHexBigInt ''0x-1'' = Inr (- 1)" "bs_parseHexBigInt ''0x-1'' = Inr (- 1)"
  by code_simp+

section \<open>Call trees\<close>

text \<open>The frames of a call tree in the order of the calls.\<close>

fun frames :: "raw_call_frame \<Rightarrow> raw_call_frame list" where
  "frames (RawCallFrame ty fr to v gu e calls) = RawCallFrame ty fr to v gu e calls # concat (map frames calls)"

lemma foldl_append_map: "(\<And>x out. x \<in> set xs \<Longrightarrow> f x out = out @ g x) \<Longrightarrow>
    foldl (\<lambda>out x. f x out) out xs = out @ concat (map g xs)"
  by (induction xs arbitrary: out) simp_all

lemma flattenCallFrame_frames: "flattenCallFrame keccak f out = out @ map (frameTx keccak) (frames f)"
proof (induction f arbitrary: out)
  case (RawCallFrame ty fr to v gu e calls)
  then show ?case
    by (simp add: foldl_append_map [of calls "flattenCallFrame keccak" "\<lambda>f. map (frameTx keccak) (frames f)"] map_concat comp_def)
qed

text \<open>
  A trace is the list of its calls: flattening a call tree, or the trees of a block one after the other,
  appends one entry per frame, each call before the calls it makes and these in their order, and never drops a
  frame whose addresses, value or gas do not parse.
\<close>

theorem call_tree_flattened:
  "flattenCallFrame keccak f out = out @ map (frameTx keccak) (frames f) \<and>
   foldl (\<lambda>out f. flattenCallFrame keccak f out) [] items = map (frameTx keccak) (concat (map frames items)) \<and>
   length (flattenCallFrame keccak f out) = length out + length (frames f) \<and>
   hd (frames f) = f"
proof -
  have "foldl (\<lambda>out f. flattenCallFrame keccak f out) [] items = map (frameTx keccak) (concat (map frames items))"
    using foldl_append_map [of items "flattenCallFrame keccak" "\<lambda>f. map (frameTx keccak) (frames f)" "[]"]
    by (simp add: flattenCallFrame_frames map_concat comp_def)
  moreover have "hd (frames f) = f" by (cases f) simp
  ultimately show ?thesis by (simp add: flattenCallFrame_frames)
qed

end
