(* ===== verification/GatewayProps.thy ===== *)
theory GatewayProps
  imports DecoderProps
begin

text \<open>
  From the configured sources to what the engine compares: the contract of a source (\<open>honest_source\<close>), that the
  three adapters keep it under any alias, that the gateway hands out one source per enabled row or an
  error, and that no field a source answered is lost on the way into the comparison. The credentials of a
  source come out of the database as they were put in.
\<close>

section \<open>The contract of a source\<close>

definition refuses :: "('w, source_error + 'a) state \<Rightarrow> bool" where
  "refuses m \<longleftrightarrow> (\<forall>w. run_state m w = (Inl ErrUnsupported, w))"

definition latestCapabilities :: "capability list" where
  "latestCapabilities = [CapBalanceAtLatest, CapNonceAtLatest, CapTxCountAtLatest]"

definition atBlockCapabilities :: "capability list" where
  "atBlockCapabilities = [CapBalanceAtBlock, CapNonceAtBlock]"

definition totalCapabilities :: "capability list" where
  "totalCapabilities = [CapTotalAddressCount, CapTotalTxCount, CapTotalContractCount, CapERC20TokenCount]"

text \<open>What the engine relies on: a capability that is declared is reported by every successful fetch, and a
  fetch none of whose capabilities is declared is refused without touching the world.\<close>

locale honest_source =
  fixes keccak :: "string \<Rightarrow> byte list" and s :: "'w source"
  assumes block_declared: "c \<in> set blockCapabilities \<Longrightarrow> Supports s c"
    and block_answered: "run_state (FetchBlock s bq) w = (Inr b, w') \<Longrightarrow>
      brNumber b = bqNumber bq \<and> (\<forall>c \<in> set blockCapabilities. extractBlockField keccak c b \<noteq> None)"
    and latest_declared: "c \<in> set latestCapabilities \<Longrightarrow> Supports s c"
    and latest_answered: "run_state (FetchAddressLatest s lq) w = (Inr l, w') \<Longrightarrow>
      \<forall>c \<in> set latestCapabilities. extractAddressLatestField c l \<noteq> None"
    and at_block_answered: "run_state (FetchAddressAtBlock s aq) w = (Inr a, w') \<Longrightarrow>
      aabBlock a = aabqBlock aq \<and> (\<forall>c \<in> set atBlockCapabilities. Supports s c \<and> extractAddressAtBlockField c a \<noteq> None)"
    and balance_answered: "run_state (FetchERC20Balance s eq) w = (Inr e, w') \<Longrightarrow>
      extractERC20BalanceField CapERC20BalanceAtLatest e \<noteq> None"
    and at_block_declined: "\<forall>c \<in> set atBlockCapabilities. \<not> Supports s c \<Longrightarrow> refuses (FetchAddressAtBlock s aq)"
    and totals_declined: "\<forall>c \<in> set totalCapabilities. \<not> Supports s c \<Longrightarrow> refuses (FetchSnapshot s)"
    and holdings_declined: "\<not> Supports s CapERC20HoldingsAtLatest \<Longrightarrow> refuses (FetchERC20Holdings s hq)"
    and by_tx_declined: "\<not> Supports s CapInternalTxByTx \<Longrightarrow> refuses (FetchInternalTxByTx s h)"
    and by_block_declined: "\<not> Supports s CapInternalTxByBlock \<Longrightarrow> refuses (FetchInternalTxByBlock s n)"
begin

text \<open>A slot that answered enters the snapshots of every capability of its fetch.\<close>

lemma block_snapshot:
  assumes "run_state (FetchBlock s bq) w = (Inr b, w')" "c \<in> set blockCapabilities"
  shows "Supports s c \<and> projectBlock keccak c b \<noteq> None"
  using block_answered [OF assms(1)] block_declared [OF assms(2)] assms(2) by (simp add: projectBlock_def)

lemma latest_snapshot:
  assumes "run_state (FetchAddressLatest s lq) w = (Inr l, w')" "c \<in> set latestCapabilities"
  shows "Supports s c \<and> projectAddressLatest c l \<noteq> None"
  using latest_answered [OF assms(1)] latest_declared [OF assms(2)] assms(2) by (simp add: projectAddressLatest_def)

lemma at_block_snapshot:
  assumes "run_state (FetchAddressAtBlock s aq) w = (Inr a, w')" "c \<in> set atBlockCapabilities"
  shows "Supports s c \<and> projectAddressAtBlock c a \<noteq> None"
  using at_block_answered [OF assms(1)] assms(2) by (simp add: projectAddressAtBlock_def)

text \<open>The contract does not depend on the id.\<close>

lemma aliased: "honest_source keccak (aliasedSource s i)"
  by unfold_locales
    (auto simp: aliasedSource_def intro: block_declared latest_declared at_block_declined totals_declined holdings_declined
      by_tx_declined by_block_declined
      dest: block_answered latest_answered at_block_answered balance_answered)

end

lemmas capability_sets = blockCapabilities_def latestCapabilities_def atBlockCapabilities_def totalCapabilities_def

lemma bothThen_Inr:
  assumes "run_state (bothThen m n k) w = (Inr z, w')"
  obtains x y w1 w2 where "run_state m w = (Inr x, w1)" "run_state n w1 = (Inr y, w2)" "run_state (k x y) w2 = (Inr z, w')"
  using assms by (auto simp: bothThen_def split: prod.splits sum.splits)

text \<open>What each adapter declares, capability by capability.\<close>

lemma rpc_declares [simp]:
  "c \<in> set blockCapabilities \<Longrightarrow> rpc_Supports a c" "c \<in> set latestCapabilities \<Longrightarrow> rpc_Supports a c"
  "c \<in> set atBlockCapabilities \<Longrightarrow> rpc_Supports a c \<longleftrightarrow> raArchive a"
  "rpc_Supports a CapInternalTxByTx \<longleftrightarrow> raDebugTrace a" "rpc_Supports a CapInternalTxByBlock \<longleftrightarrow> raDebugTrace a"
  by (auto simp: rpc_Supports_def capability_sets cap_defs)

lemma bs_declares [simp]:
  "c \<in> set blockCapabilities \<Longrightarrow> bs_Supports a c" "c \<in> set latestCapabilities \<Longrightarrow> bs_Supports a c"
  "c \<in> set atBlockCapabilities \<Longrightarrow> bs_Supports a c" "c \<in> set totalCapabilities \<Longrightarrow> bs_Supports a c"
  "bs_Supports a CapERC20HoldingsAtLatest" "bs_Supports a CapInternalTxByTx"
  by (auto simp: bs_Supports_def capability_sets cap_defs)

lemma rs_declares [simp]:
  "c \<in> set blockCapabilities \<Longrightarrow> rs_Supports a c" "c \<in> set latestCapabilities \<Longrightarrow> rs_Supports a c"
  "c \<in> set atBlockCapabilities \<Longrightarrow> rs_Supports a c" "rs_Supports a CapERC20HoldingsAtLatest"
  "rs_Supports a CapInternalTxByTx" "rs_Supports a CapInternalTxByBlock"
  by (auto simp: rs_Supports_def capability_sets cap_defs)

lemma someCapability: "CapBalanceAtBlock \<in> set atBlockCapabilities" "CapTotalTxCount \<in> set totalCapabilities"
  by (auto simp: capability_sets)

lemma latest_fields_present:
  "c \<in> set latestCapabilities \<Longrightarrow> alBalance l \<noteq> None \<Longrightarrow> alNonce l \<noteq> None \<Longrightarrow> alTxCount l \<noteq> None \<Longrightarrow>
   extractAddressLatestField c l \<noteq> None"
  by (auto simp: latestCapabilities_def extractAddressLatestField_def cap_defs)

lemma at_block_fields_present:
  "c \<in> set atBlockCapabilities \<Longrightarrow> aabBalance r \<noteq> None \<Longrightarrow> aabNonce r \<noteq> None \<Longrightarrow> extractAddressAtBlockField c r \<noteq> None"
  by (auto simp: atBlockCapabilities_def extractAddressAtBlockField_def cap_defs)

lemmas fields_present = latest_fields_present [unfolded not_None_eq] at_block_fields_present [unfolded not_None_eq]

interpretation rpcs: honest_source keccak "rpc_source keccak env a" for keccak env a
proof unfold_locales
  show "run_state (FetchBlock (rpc_source keccak env a) bq) w = (Inr b, w') \<Longrightarrow>
      brNumber b = bqNumber bq \<and> (\<forall>c \<in> set blockCapabilities. extractBlockField keccak c b \<noteq> None)" for bq w b w'
    by (auto simp: rpc_source_def rpc_FetchBlock_def split: prod.splits sum.splits option.splits dest: rpcBlock_fields)
  show "run_state (FetchAddressLatest (rpc_source keccak env a) lq) w = (Inr l, w') \<Longrightarrow>
      \<forall>c \<in> set latestCapabilities. extractAddressLatestField c l \<noteq> None" for lq w l w'
    by (auto simp: rpc_source_def rpc_FetchAddressLatest_def Let_def elim!: bothThen_Inr split: prod.splits
        intro!: fields_present)
  show "run_state (FetchAddressAtBlock (rpc_source keccak env a) aq) w = (Inr r, w') \<Longrightarrow>
      aabBlock r = aabqBlock aq \<and> (\<forall>c \<in> set atBlockCapabilities.
        Supports (rpc_source keccak env a) c \<and> extractAddressAtBlockField c r \<noteq> None)" for aq w r w'
    by (auto simp: rpc_source_def rpc_FetchAddressAtBlock_def Let_def elim!: bothThen_Inr split: prod.splits if_splits
        intro!: fields_present)
  show "run_state (FetchERC20Balance (rpc_source keccak env a) eq) w = (Inr e, w') \<Longrightarrow>
      extractERC20BalanceField CapERC20BalanceAtLatest e \<noteq> None" for eq w e w'
    by (auto simp: rpc_source_def rpc_FetchERC20Balance_def extractERC20BalanceField_def split: prod.splits sum.splits if_splits)
qed (use someCapability in \<open>auto simp: rpc_source_def refuses_def rpc_FetchAddressAtBlock_def
    rpc_FetchInternalTxByTx_def rpc_FetchInternalTxByBlock_def\<close>)

interpretation bss: honest_source keccak "bs_source keccak env a" for keccak env a
proof unfold_locales
  show "run_state (FetchBlock (bs_source keccak env a) bq) w = (Inr b, w') \<Longrightarrow>
      brNumber b = bqNumber bq \<and> (\<forall>c \<in> set blockCapabilities. extractBlockField keccak c b \<noteq> None)" for bq w b w'
    by (auto simp: bs_source_def bs_FetchBlock_def bsBlock_rpcBlock split: prod.splits sum.splits option.splits
        dest: rpcBlock_fields)
  show "run_state (FetchAddressLatest (bs_source keccak env a) lq) w = (Inr l, w') \<Longrightarrow>
      \<forall>c \<in> set latestCapabilities. extractAddressLatestField c l \<noteq> None" for lq w l w'
    by (auto simp: bs_source_def bs_FetchAddressLatest_def elim!: bothThen_Inr split: prod.splits intro!: fields_present)
  show "run_state (FetchAddressAtBlock (bs_source keccak env a) aq) w = (Inr r, w') \<Longrightarrow>
      aabBlock r = aabqBlock aq \<and> (\<forall>c \<in> set atBlockCapabilities.
        Supports (bs_source keccak env a) c \<and> extractAddressAtBlockField c r \<noteq> None)" for aq w r w'
    by (auto simp: bs_source_def bs_FetchAddressAtBlock_def Let_def elim!: bothThen_Inr split: prod.splits
        intro!: fields_present)
  show "run_state (FetchERC20Balance (bs_source keccak env a) eq) w = (Inr e, w') \<Longrightarrow>
      extractERC20BalanceField CapERC20BalanceAtLatest e \<noteq> None" for eq w e w'
    by (auto simp: bs_source_def bs_FetchERC20Balance_def extractERC20BalanceField_def split: prod.splits sum.splits)
qed (use someCapability in \<open>auto simp: bs_source_def refuses_def\<close>)

interpretation rss: honest_source keccak "rs_source keccak env a" for keccak env a
proof unfold_locales
  show "run_state (FetchBlock (rs_source keccak env a) bq) w = (Inr b, w') \<Longrightarrow>
      brNumber b = bqNumber bq \<and> (\<forall>c \<in> set blockCapabilities. extractBlockField keccak c b \<noteq> None)" for bq w b w'
    by (auto simp: rs_source_def rs_FetchBlock_def rsBlock_rpcBlock split: prod.splits sum.splits option.splits
        dest: rpcBlock_fields)
  show "run_state (FetchAddressLatest (rs_source keccak env a) lq) w = (Inr l, w') \<Longrightarrow>
      \<forall>c \<in> set latestCapabilities. extractAddressLatestField c l \<noteq> None" for lq w l w'
    by (auto simp: rs_source_def rs_FetchAddressLatest_def elim!: bothThen_Inr split: prod.splits intro!: fields_present)
  show "run_state (FetchAddressAtBlock (rs_source keccak env a) aq) w = (Inr r, w') \<Longrightarrow>
      aabBlock r = aabqBlock aq \<and> (\<forall>c \<in> set atBlockCapabilities.
        Supports (rs_source keccak env a) c \<and> extractAddressAtBlockField c r \<noteq> None)" for aq w r w'
    by (auto simp: rs_source_def rs_FetchAddressAtBlock_def elim!: bothThen_Inr split: prod.splits intro!: fields_present)
  show "run_state (FetchERC20Balance (rs_source keccak env a) eq) w = (Inr e, w') \<Longrightarrow>
      extractERC20BalanceField CapERC20BalanceAtLatest e \<noteq> None" for eq w e w'
    by (auto simp: rs_source_def rs_FetchERC20Balance_def extractERC20BalanceField_def split: prod.splits sum.splits if_splits)
qed (use someCapability in \<open>auto simp: rs_source_def refuses_def\<close>)

section \<open>What the gateway hands out\<close>

lemma default_built:
  assumes "Registry_Build (DefaultRegistry keccak env nextID) cfg key = Inr s"
  shows "honest_source keccak s" and "srcID s = scID cfg" and "srcChainID s = scChainID cfg"
proof -
  consider (rpc) a where "rpc_New env nextID (scChainID cfg) (scEndpoint cfg) (rpcOptions cfg) = Inr a"
      "s = aliasedSource (rpc_source keccak env a) (scID cfg)"
    | (bs) a where "bs_New env (scChainID cfg) (if scEndpoint cfg \<noteq> [] then [bs_WithBaseURL (scEndpoint cfg)] else []) = Inr a"
      "s = aliasedSource (bs_source keccak env a) (scID cfg)"
    | (rs) a where "rs_New env (scChainID cfg) (if scEndpoint cfg \<noteq> [] then [rs_WithBaseURL env (scEndpoint cfg)] else []) = Inr a"
      "s = aliasedSource (rs_source keccak env a) (scID cfg)"
    using assms
    by (auto simp: Registry_Build_def DefaultRegistry_def rpcFactory_def blockscoutFactory_def routescanFactory_def
        map_sum_def split: option.splits sum.splits if_splits)
  then have "honest_source keccak s \<and> srcID s = scID cfg \<and> srcChainID s = scChainID cfg"
  proof cases
    case rpc
    then have "raChainID a = scChainID cfg" by (auto simp: rpc_New_def rpcOptions_def WithArchive_def split: if_splits)
    moreover have "honest_source keccak s" unfolding rpc(2) by (rule rpcs.aliased)
    ultimately show ?thesis using rpc(2) by (simp add: aliasedSource_def rpc_source_def)
  next
    case bs
    then have "bsChainID a = scChainID cfg"
      by (auto simp: bs_New_def Let_def bs_WithBaseURL_def split: if_splits option.splits)
    moreover have "honest_source keccak s" unfolding bs(2) by (rule bss.aliased)
    ultimately show ?thesis using bs(2) by (simp add: aliasedSource_def bs_source_def)
  next
    case rs
    then have "rsChainID a = scChainID cfg" by (auto simp: rs_New_def rs_WithBaseURL_def split: if_splits)
    moreover have "honest_source keccak s" unfolding rs(2) by (rule rss.aliased)
    ultimately show ?thesis using rs(2) by (simp add: aliasedSource_def rs_source_def)
  qed
  then show "honest_source keccak s" and "srcID s = scID cfg" and "srcChainID s = scChainID cfg" by auto
qed

lemma DBGateway_built:
  assumes "gwRegistry g = DefaultRegistry keccak env nextID" "DBGateway_build g cfg = Inr s"
  shows "honest_source keccak s" and "srcID s = scID cfg" and "srcChainID s = scChainID cfg"
proof -
  from assms(2) obtain key where "Registry_Build (gwRegistry g) cfg key = Inr s"
    by (auto simp: DBGateway_build_def split: if_splits option.splits sum.splits)
  from default_built [OF this [unfolded assms(1)]]
  show "honest_source keccak s" and "srcID s = scID cfg" and "srcChainID s = scChainID cfg" .
qed

lemma buildAll_iff: "buildAll g rows = Inr ss \<longleftrightarrow> list_all2 (\<lambda>cfg s. DBGateway_build g cfg = Inr s) rows ss"
proof (induction rows arbitrary: ss)
  case (Cons cfg rows)
  show ?case
    by (cases ss) (auto simp: map_sum_def Cons.IH [symmetric] split: sum.splits)
qed auto

lemma buildAll_first_error:
  "buildAll g rows = Inl e \<longleftrightarrow>
     (\<exists>pre cfg post ss. rows = pre @ cfg # post \<and> buildAll g pre = Inr ss \<and> DBGateway_build g cfg = Inl e)"
proof (induction rows)
  case (Cons c rows)
  show ?case
  proof (cases "DBGateway_build g c")
    case (Inl e')
    then have "\<exists>pre cfg post ss. c # rows = pre @ cfg # post \<and> buildAll g pre = Inr ss \<and> DBGateway_build g cfg = Inl e'"
      by (intro exI [of _ "[]"] exI [of _ c] exI [of _ rows]) simp
    with Inl show ?thesis by (auto simp: Cons_eq_append_conv)
  next
    case (Inr s)
    then have "buildAll g (c # rows) = Inl e \<longleftrightarrow> buildAll g rows = Inl e" by (auto simp: map_sum_def split: sum.splits)
    also have "\<dots> \<longleftrightarrow> (\<exists>pre cfg post ss. c # rows = pre @ cfg # post \<and> buildAll g pre = Inr ss \<and> DBGateway_build g cfg = Inl e)"
      unfolding Cons.IH
    proof safe
      fix pre cfg post ss
      assume "rows = pre @ cfg # post" "buildAll g pre = Inr ss" "DBGateway_build g cfg = Inl e"
      then show "\<exists>pre' cfg' post' ss'. c # pre @ cfg # post = pre' @ cfg' # post' \<and> buildAll g pre' = Inr ss' \<and>
          DBGateway_build g cfg' = Inl e"
        using Inr by (intro exI [of _ "c # pre"] exI [of _ cfg] exI [of _ post] exI [of _ "s # ss"]) simp
    next
      fix pre cfg post ss
      assume a: "c # rows = pre @ cfg # post" "buildAll g pre = Inr ss" "DBGateway_build g cfg = Inl e"
      with Inr obtain pre' where p: "pre = c # pre'" "rows = pre' @ cfg # post" by (auto simp: Cons_eq_append_conv)
      with a Inr obtain ss' where "buildAll g pre' = Inr ss'" by (auto simp: map_sum_def split: sum.splits)
      with p a show "\<exists>pre cfg post ss. rows = pre @ cfg # post \<and> buildAll g pre = Inr ss \<and> DBGateway_build g cfg = Inl e"
        by blast
    qed
    finally show ?thesis .
  qed
qed simp

text \<open>
  Property C15. All sources or none: for the enabled rows of a chain, in the order the repository lists them,
  \<open>ForChain\<close> either returns one source per row, under the id and the chain of the row, or it returns the error of
  the first row that cannot be built; a row is never left out.
\<close>

theorem for_chain_all_or_nothing:
  assumes "gwRegistry g = DefaultRegistry keccak env nextID"
    and "run_state (SrcRepo_ListByChain (gwRepo g) cid True) w = (Inr rows, w')"
  shows "case run_state (DBGateway_ForChain g cid) w of
      (Inr ss, v) \<Rightarrow> v = w' \<and> map srcID ss = map scID rows \<and> map srcChainID ss = map scChainID rows
    | (Inl e, v) \<Rightarrow> v = w' \<and> (\<exists>pre cfg post ss. rows = pre @ cfg # post \<and> buildAll g pre = Inr ss \<and>
        length ss = length pre \<and> DBGateway_build g cfg = Inl e)"
proof (cases "buildAll g rows")
  case (Inl e)
  then obtain pre cfg post ss where p: "rows = pre @ cfg # post" "buildAll g pre = Inr ss" "DBGateway_build g cfg = Inl e"
    unfolding buildAll_first_error by blast
  then have "length ss = length pre" by (auto simp: buildAll_iff dest: list_all2_lengthD)
  with Inl p assms(2) show ?thesis by (auto simp: DBGateway_ForChain_def)
next
  case (Inr ss)
  then have "list_all2 (\<lambda>cfg s. DBGateway_build g cfg = Inr s) rows ss" by (simp add: buildAll_iff)
  then have "map srcID ss = map scID rows \<and> map srcChainID ss = map scChainID rows"
    by (induction rule: list_all2_induct) (auto dest: DBGateway_built [OF assms(1)])
  with Inr assms(2) show ?thesis by (simp add: DBGateway_ForChain_def)
qed

lemma for_chain_honest:
  assumes "gwRegistry g = DefaultRegistry keccak env nextID"
    and "run_state (DBGateway_ForChain g cid) w = (Inr ss, w')" and "s \<in> set ss"
  shows "honest_source keccak s"
proof -
  obtain rows where "buildAll g rows = Inr ss"
    using assms(2) by (auto simp: DBGateway_ForChain_def split: prod.splits sum.splits)
  then obtain cfg where "DBGateway_build g cfg = Inr s"
    using assms(3) by (auto simp: buildAll_iff list_all2_conv_all_nth in_set_conv_nth)
  from DBGateway_built(1) [OF assms(1) this] show ?thesis .
qed

section \<open>What enters the comparison\<close>

lemma collectSnapshots_keys:
  assumes "\<And>fr r. fr \<in> set results \<Longrightarrow> sfOutcome fr = Inr r \<Longrightarrow> Supports (sfSource fr) c \<and> project c r \<noteq> None"
  shows "fst ` set (collectSnapshots project c results) =
    {srcID (sfSource fr) | fr. fr \<in> set results \<and> (\<exists>r. sfOutcome fr = Inr r)}"
  using assms
proof (induction results rule: rev_induct)
  case Nil
  then show ?case by (simp add: collectSnapshots_def)
next
  case (snoc fr frs)
  have IH: "fst ` set (foldl (snapshotStep project c) [] frs) =
      {srcID (sfSource fr) | fr. fr \<in> set frs \<and> (\<exists>r. sfOutcome fr = Inr r)}"
    unfolding collectSnapshots_def [symmetric] by (rule snoc.IH, rule snoc.prems) simp_all
  show ?case
  proof (cases "sfOutcome fr")
    case (Inl e)
    then show ?thesis using IH by (auto simp: collectSnapshots_def snapshotStep_def)
  next
    case (Inr r)
    with snoc.prems [of fr r] obtain snap where "Supports (sfSource fr) c" "project c r = Some snap" by auto
    then show ?thesis using IH Inr by (auto simp: collectSnapshots_def snapshotStep_def dom_update)
  qed
qed

lemma traverse_results:
  assumes "run_state (State_Monad.traverse_list f xs) w = (ys, w')" "y \<in> set ys"
  shows "\<exists>x \<in> set xs. \<exists>v v'. run_state (f x) v = (y, v')"
  using assms by (induction xs arbitrary: w ys) (auto split: prod.splits, blast+)

lemma fanOutFetch_results:
  assumes "run_state (fanOutFetch ss budget fetch) w = (results, w')" "fr \<in> set results"
  shows "sfSource fr \<in> set ss"
    and "sfOutcome fr = Inr r \<Longrightarrow> \<exists>v v'. run_state (fetch (sfSource fr)) v = (Inr r, v')"
proof -
  obtain x v v' where x: "x \<in> set ss" "run_state (fetchSlot budget fetch x) v = (fr, v')"
    using traverse_results [OF assms(1) [unfolded fanOutFetch_def] assms(2)] by blast
  then have "sfSource fr = x" by (auto simp: fetchSlot_def split: prod.splits option.splits sum.splits)
  with x show "sfSource fr \<in> set ss" by simp
  show "\<exists>v v'. run_state (fetch (sfSource fr)) v = (Inr r, v')" if "sfOutcome fr = Inr r"
    using x(2) that by (auto simp: fetchSlot_def split: prod.splits option.splits sum.splits; blast)
qed

text \<open>
  Property C14. No answer is lost: when the engine asks the sources of the gateway for a block, or for an account at
  the latest block, then for every metric of that fetch the snapshots it compares are those of exactly the
  sources that answered, whatever the budget and the network did.
\<close>

theorem answers_enter_comparison:
  assumes "gwRegistry g = DefaultRegistry keccak env nextID"
    and "run_state (DBGateway_ForChain g cid) w0 = (Inr ss, w1)"
    and "run_state (fanOutFetch ss budget (\<lambda>s. FetchBlock s bq)) w2 = (blocks, w3)"
    and "run_state (fanOutFetch ss budget (\<lambda>s. FetchAddressLatest s lq)) w4 = (accounts, w5)"
    and "c \<in> set blockCapabilities" and "d \<in> set latestCapabilities"
  shows "fst ` set (collectSnapshots (projectBlock keccak) c blocks) =
      {srcID (sfSource fr) | fr. fr \<in> set blocks \<and> (\<exists>b. sfOutcome fr = Inr b)} \<and>
    fst ` set (collectSnapshots projectAddressLatest d accounts) =
      {srcID (sfSource fr) | fr. fr \<in> set accounts \<and> (\<exists>l. sfOutcome fr = Inr l)}"
proof (rule conjI; rule collectSnapshots_keys)
  note honest = for_chain_honest [OF assms(1,2)]
  show "Supports (sfSource fr) c \<and> projectBlock keccak c b \<noteq> None"
    if fr: "fr \<in> set blocks" "sfOutcome fr = Inr b" for fr b
    using fanOutFetch_results(2) [OF assms(3) fr] honest_source.block_snapshot [OF honest [OF fanOutFetch_results(1) [OF assms(3) fr(1)]] _ assms(5)]
    by blast
  show "Supports (sfSource fr) d \<and> projectAddressLatest d l \<noteq> None"
    if fr: "fr \<in> set accounts" "sfOutcome fr = Inr l" for fr l
    using fanOutFetch_results(2) [OF assms(4) fr] honest_source.latest_snapshot [OF honest [OF fanOutFetch_results(1) [OF assms(4) fr(1)]] _ assms(6)]
    by blast
qed

text \<open>
  What a source declines costs nothing: a source of the gateway that declares no historical state, no
  totals, no holdings or no traces answers the fetch for it with \<open>ErrUnsupported\<close> and without a request; it
  reports every block and latest-account capability, and a block it returns is the block that was asked for.
\<close>

theorem declined_without_request:
  assumes "gwRegistry g = DefaultRegistry keccak env nextID"
    and "run_state (DBGateway_ForChain g cid) w = (Inr ss, w')" and "s \<in> set ss"
  shows "((\<forall>c \<in> set atBlockCapabilities. \<not> Supports s c) \<longrightarrow> refuses (FetchAddressAtBlock s aq)) \<and>
    ((\<forall>c \<in> set totalCapabilities. \<not> Supports s c) \<longrightarrow> refuses (FetchSnapshot s)) \<and>
    (\<not> Supports s CapERC20HoldingsAtLatest \<longrightarrow> refuses (FetchERC20Holdings s hq)) \<and>
    (\<not> Supports s CapInternalTxByTx \<longrightarrow> refuses (FetchInternalTxByTx s h)) \<and>
    (\<not> Supports s CapInternalTxByBlock \<longrightarrow> refuses (FetchInternalTxByBlock s n)) \<and>
    (\<forall>c \<in> set (blockCapabilities @ latestCapabilities). Supports s c) \<and>
    (\<forall>v b v'. run_state (FetchBlock s bq) v = (Inr b, v') \<longrightarrow> brNumber b = bqNumber bq)"
proof -
  note contract = for_chain_honest [OF assms]
  show ?thesis
    using honest_source.at_block_declined [OF contract] honest_source.totals_declined [OF contract]
      honest_source.holdings_declined [OF contract] honest_source.by_tx_declined [OF contract]
      honest_source.by_block_declined [OF contract] honest_source.block_declared [OF contract]
      honest_source.latest_declared [OF contract] honest_source.block_answered [OF contract]
    by auto
qed

section \<open>Two configured sources\<close>

text \<open>A node and an explorer of Optimism, behind a network that answers nothing.\<close>

definition quietEnv :: "unit net_env" where
  "quietEnv =
     \<lparr>neCtxErr = State_Monad.return None, neSleep = (\<lambda>_. State_Monad.return None),
      neFloat64 = State_Monad.return 0, neNow = State_Monad.return 1,
      neClient = (\<lambda>_ _. State_Monad.return (Inl (NetError ''connection refused''))),
      neNewLimiter = (\<lambda>_ _. State_Monad.return None), neParseURL = (\<lambda>_. True)\<rparr>"

definition sampleRow :: "string \<Rightarrow> string \<Rightarrow> source_config" where
  "sampleRow i kind =
     \<lparr>scID = i, scChainID = OptimismMainnet, scType = kind, scEndpoint = ''https://example.org'',
      scSecretCiphertext = [], scSecretNonce = [], scOptions = None, scEnabled = True, scCreatedAt = 1, scUpdatedAt = 1\<rparr>"

definition twoRows :: "unit source_config_repository" where
  "twoRows =
     \<lparr>SrcRepo_Save = (\<lambda>_. State_Monad.return None),
      SrcRepo_FindByID = (\<lambda>_. State_Monad.return (Inl ErrSourceNotFound)),
      SrcRepo_ListByChain = (\<lambda>_ _. State_Monad.return
        (Inr [sampleRow ''explorer'' TypeBlockscout, sampleRow ''node'' TypeRPC])),
      SrcRepo_Delete = (\<lambda>_. State_Monad.return None)\<rparr>"

definition twoSources :: "unit db_gateway" where
  "twoSources = NewDBGateway (DefaultRegistry (\<lambda>_. []) quietEnv (State_Monad.return 1)) twoRows None None"

lemma twoSources_registry: "gwRegistry twoSources = DefaultRegistry (\<lambda>_. []) quietEnv (State_Monad.return 1)"
  by (simp add: twoSources_def NewDBGateway_def)

lemma twoSources_rows:
  "run_state (SrcRepo_ListByChain (gwRepo twoSources) OptimismMainnet True) () =
     (Inr [sampleRow ''explorer'' TypeBlockscout, sampleRow ''node'' TypeRPC], ())"
  by (simp add: twoSources_def NewDBGateway_def twoRows_def)

lemma twoSources_built: "\<exists>ss. run_state (DBGateway_ForChain twoSources OptimismMainnet) () = (Inr ss, ())"
proof -
  have "OptimismMainnet \<noteq> 0" by (simp add: OptimismMainnet_def)
  moreover have "TypeBlockscout \<noteq> TypeRPC" "TypeRPC \<noteq> TypeRoutescan" "TypeBlockscout \<noteq> TypeRoutescan"
    by (simp_all add: TypeBlockscout_def TypeRPC_def TypeRoutescan_def)
  moreover have "TrimRight ''https://example.org'' ''/'' \<noteq> []" by code_simp
  ultimately have "\<exists>s. DBGateway_build twoSources (sampleRow ''explorer'' TypeBlockscout) = Inr s"
      "\<exists>s. DBGateway_build twoSources (sampleRow ''node'' TypeRPC) = Inr s"
    by (auto simp: DBGateway_build_def HasSecret_def sampleRow_def twoSources_registry Registry_Build_def
        DefaultRegistry_def blockscoutFactory_def rpcFactory_def bs_New_def bs_WithBaseURL_def Let_def rpc_New_def
        map_sum_def split: option.splits)
  then show ?thesis by (auto simp: DBGateway_ForChain_def twoSources_rows)
qed

theorem for_chain_all_or_nothing_witness:
  "\<exists>ss. run_state (DBGateway_ForChain twoSources OptimismMainnet) () = (Inr ss, ()) \<and>
     map srcID ss = [''explorer'', ''node'']"
proof -
  obtain ss where "run_state (DBGateway_ForChain twoSources OptimismMainnet) () = (Inr ss, ())"
    using twoSources_built by blast
  with for_chain_all_or_nothing [OF twoSources_registry twoSources_rows] show ?thesis by (auto simp: sampleRow_def)
qed

theorem answers_enter_comparison_witness:
  "\<exists>ss blocks. run_state (DBGateway_ForChain twoSources OptimismMainnet) () = (Inr ss, ()) \<and>
     fst ` set (collectSnapshots (projectBlock (\<lambda>_. [])) CapBlockHash blocks) =
       {srcID (sfSource fr) | fr. fr \<in> set (blocks :: (unit, block_result) source_fetch_result list) \<and> (\<exists>b. sfOutcome fr = Inr b)}"
proof -
  obtain ss where ss: "run_state (DBGateway_ForChain twoSources OptimismMainnet) () = (Inr ss, ())"
    using twoSources_built by blast
  obtain blocks w where b: "run_state (fanOutFetch ss None (\<lambda>s. FetchBlock s \<lparr>bqNumber = 7\<rparr>)) () = (blocks, w)"
    by (rule prod.exhaust)
  obtain accounts v where a: "run_state (fanOutFetch ss None
      (\<lambda>s. FetchAddressLatest s \<lparr>aqAddress = replicate 20 0, aqAnchor = NewBlockTagLatest\<rparr>)) () = (accounts, v)"
    by (rule prod.exhaust)
  have "CapBlockHash \<in> set blockCapabilities" "CapNonceAtLatest \<in> set latestCapabilities"
    by (simp_all add: capability_sets)
  from ss answers_enter_comparison [OF twoSources_registry ss b a this, THEN conjunct1] show ?thesis
    by (intro exI [of _ ss] exI [of _ blocks] conjI)
qed

theorem declined_without_request_witness:
  "\<exists>ss s. run_state (DBGateway_ForChain twoSources OptimismMainnet) () = (Inr ss, ()) \<and> s \<in> set ss \<and>
     Supports s CapBlockHash"
proof -
  obtain ss where ss: "run_state (DBGateway_ForChain twoSources OptimismMainnet) () = (Inr ss, ())"
    using twoSources_built by blast
  then have "length ss = 2"
    by (auto simp: DBGateway_ForChain_def twoSources_rows buildAll_iff simp del: buildAll.simps dest!: list_all2_lengthD)
  then obtain s where s: "s \<in> set ss" by (cases ss) auto
  have "CapBlockHash \<in> set (blockCapabilities @ latestCapabilities)" by (simp add: capability_sets)
  with declined_without_request [OF twoSources_registry ss s] ss s show ?thesis by blast
qed

end
