(* ===== verification/SourceStore.thy ===== *)
theory SourceStore
  imports Gateway
begin

text \<open>
  The table of configured sources. The locale \<open>source_table\<close> states what the statements of the repository do to it:
  the primary key, the constraint on type and chain of \<open>migrations/007_sources.up.sql\<close>, timestamps
  that gorm may replace and a \<open>jsonb\<close> column that keeps the members of an object but not their order. The
  repository is then a directory of configurations by id, and the credentials of a source reach its adapter.
\<close>

section \<open>The table\<close>

definition sourceColumn :: "string \<Rightarrow> source_model \<Rightarrow> db_value option" where
  "sourceColumn c m =
     (if c = ''id'' then Some (DBStr (soID m))
      else if c = ''chain_id'' then Some (DBInt (int (unat (soChainID m))))
      else if c = ''type'' then Some (DBStr (soType m))
      else if c = ''enabled'' then Some (DBBool (soEnabled m))
      else None)"

definition sameOptions :: "(string, json) gomap option \<Rightarrow> (string, json) gomap option \<Rightarrow> bool" where
  "sameOptions = rel_option (\<lambda>o' o''. map_of o' = map_of o'')"

definition storedSource :: "(string \<Rightarrow> string option) \<Rightarrow> source_model \<Rightarrow> source_model \<Rightarrow> bool" where
  "storedSource floatText m m' \<longleftrightarrow>
     (\<exists>o' c u. m' = m\<lparr>soOptions := o', soCreatedAt := c, soUpdatedAt := u\<rparr> \<and>
        sameOptions (decOptions floatText o') (decOptions floatText (soOptions m)))"

text \<open>The rows of a query; their order is by a text column and hence up to the collation of the database.\<close>

definition selectedRows :: "(string \<rightharpoonup> source_model) \<Rightarrow> db_query \<Rightarrow> source_model list \<Rightarrow> bool" where
  "selectedRows rows q ms \<longleftrightarrow>
     (\<exists>ks. distinct ks \<and> set ks = {k. \<exists>m. rows k = Some m \<and> selects id sourceColumn (qWhere q) m} \<and>
        ms = page q (map (\<lambda>k. the (rows k)) ks))"

text \<open>Two rows with the same type and chain.\<close>

definition clash :: "source_model \<Rightarrow> source_model \<Rightarrow> bool" where
  "clash m n \<longleftrightarrow> soID m \<noteq> soID n \<and> soType m = soType n \<and> soChainID m = soChainID n"

text \<open>The configurations the rows hold, and the equality of configurations the directory keeps.\<close>

definition directory :: "(string \<Rightarrow> string option) \<Rightarrow> (string \<rightharpoonup> source_model) \<Rightarrow> string \<rightharpoonup> source_config" where
  "directory floatText rows i =
     Option.bind (rows i) (\<lambda>m. case toSourceConfig floatText m of Inl _ \<Rightarrow> None | Inr c \<Rightarrow> Some c)"

definition sameConfig :: "(string \<Rightarrow> string option) \<Rightarrow> source_config \<Rightarrow> source_config \<Rightarrow> bool" where
  "sameConfig floatText c c' \<longleftrightarrow>
     (\<exists>o' a u. c' = c\<lparr>scOptions := Some o', scCreatedAt := a, scUpdatedAt := u\<rparr> \<and>
        sameOptions (Some o') (decOptions floatText (soOptions (toSourceModel c))))"

locale source_table =
  fixes db :: "'w source_db" and tab :: "'w \<Rightarrow> string \<rightharpoonup> source_model" and floatText :: "string \<Rightarrow> string option"
  assumes keyed: "tab w i = Some m \<Longrightarrow> soID m = i"
    and upsert_ok: "run_state (dbUpsertSource db m) w = (None, w') \<Longrightarrow>
      (\<forall>n \<in> ran (tab w). \<not> clash n m) \<and> (\<exists>m'. storedSource floatText m m' \<and> tab w' = (tab w)(soID m \<mapsto> m'))"
    and upsert_error: "run_state (dbUpsertSource db m) w = (Some e, w') \<Longrightarrow>
      tab w' = tab w \<and>
      (isUniqueViolation e ''sources_type_chain_unique'' \<longrightarrow> (\<exists>n \<in> ran (tab w). clash n m))"
    and first_row: "run_state (dbFirstSource db i) w = (res, w') \<Longrightarrow>
      tab w' = tab w \<and> (res = Inl ErrRecordNotFound \<longrightarrow> tab w i = None) \<and> (\<forall>m. res = Inr m \<longrightarrow> tab w i = Some m)"
    and find_rows: "run_state (dbFindSources db q) w = (sel, w') \<Longrightarrow>
      tab w' = tab w \<and> (\<forall>rows. sel = Inr rows \<longrightarrow> selectedRows (tab w) q rows)"
    and delete_rows: "run_state (dbDeleteSources db conds) w = (Inr k, w') \<Longrightarrow>
      tab w' = tab w |` {i. \<exists>m. tab w i = Some m \<and> \<not> selects id sourceColumn conds m}"
begin

abbreviation dir :: "'w \<Rightarrow> string \<rightharpoonup> source_config" where
  "dir w \<equiv> directory floatText (tab w)"

lemma saved:
  assumes "run_state (SourceRepo_Save db c) w = (None, w')"
    and "decOptions floatText (soOptions (toSourceModel c)) = Some opts"
  shows "\<exists>c'. sameConfig floatText c c' \<and> dir w' = (dir w)(scID c \<mapsto> c')"
proof -
  let ?m = "toSourceModel c"
  have "run_state (dbUpsertSource db ?m) w = (None, w')"
    using assms(1) by (auto simp: SourceRepo_Save_def split: prod.splits option.splits if_splits)
  then obtain m' where m': "storedSource floatText ?m m'" "tab w' = (tab w)(soID ?m \<mapsto> m')" using upsert_ok by blast
  then obtain o' a u where o: "m' = ?m\<lparr>soOptions := o', soCreatedAt := a, soUpdatedAt := u\<rparr>"
      "sameOptions (decOptions floatText o') (Some opts)"
    using assms(2) by (auto simp: storedSource_def)
  then obtain d where d: "decOptions floatText o' = Some d" "map_of d = map_of opts"
    by (auto simp: sameOptions_def option_rel_Some2)
  let ?c = "c\<lparr>scOptions := Some d, scCreatedAt := a, scUpdatedAt := u\<rparr>"
  have "toSourceConfig floatText m' = Inr ?c" using o(1) d(1) by (simp add: toSourceConfig_def toSourceModel_def)
  then have "dir w' = (dir w)(scID c \<mapsto> ?c)"
    using m'(2) by (auto simp: directory_def fun_eq_iff toSourceModel_def)
  moreover have "sameConfig floatText c ?c" using assms(2) d(2) by (auto simp: sameConfig_def sameOptions_def)
  ultimately show ?thesis by blast
qed

lemma save_failed:
  assumes "run_state (SourceRepo_Save db c) w = (Some e, w')"
  shows "tab w' = tab w"
    and "e = ErrDuplicateSource \<Longrightarrow> \<exists>n \<in> ran (tab w). soID n \<noteq> scID c \<and> soType n = scType c \<and> soChainID n = scChainID c"
proof -
  obtain de where "run_state (dbUpsertSource db (toSourceModel c)) w = (Some de, w')"
      and de: "e = ErrDuplicateSource \<Longrightarrow> isUniqueViolation de ''sources_type_chain_unique''"
    using assms by (auto simp: SourceRepo_Save_def split: prod.splits option.splits if_splits)
  note err = upsert_error [OF this(1)]
  then show "tab w' = tab w" by simp
  show "\<exists>n \<in> ran (tab w). soID n \<noteq> scID c \<and> soType n = scType c \<and> soChainID n = scChainID c"
    if "e = ErrDuplicateSource"
    using err de [OF that] by (auto simp: clash_def toSourceModel_def)
qed

lemma found:
  assumes "run_state (SourceRepo_FindByID floatText db i) w = (res, w')"
  shows "tab w' = tab w" and "res = Inr c \<Longrightarrow> dir w i = Some c" and "res = Inl ErrSourceNotFound \<Longrightarrow> dir w i = None"
proof -
  obtain r v where r: "run_state (dbFirstSource db i) w = (r, v)" by (rule prod.exhaust)
  note law = first_row [OF r]
  show "tab w' = tab w" "res = Inr c \<Longrightarrow> dir w i = Some c" "res = Inl ErrSourceNotFound \<Longrightarrow> dir w i = None"
    using assms r law
    by (auto simp: SourceRepo_FindByID_def directory_def map_sum_def split: sum.splits db_error.splits)
qed

lemma listed:
  assumes "run_state (SourceRepo_ListByChain floatText db cid enabledOnly) w = (Inr cs, w')"
  shows "tab w' = tab w" and "distinct (map scID cs)"
    and "set cs = {c. \<exists>i. dir w i = Some c \<and> scChainID c = cid \<and> (enabledOnly \<longrightarrow> scEnabled c)}"
proof -
  let ?q = "chainQuery cid enabledOnly"
  obtain rows where r: "run_state (dbFindSources db ?q) w = (Inr rows, w')"
      and d: "decodeRows (toSourceConfig floatText) ''source repo list decode: '' rows = Inr cs"
    using assms by (auto simp: SourceRepo_ListByChain_def split: prod.splits sum.splits)
  from find_rows [OF r] show "tab w' = tab w" by simp
  from find_rows [OF r] obtain ks where ks: "distinct ks" "rows = map (\<lambda>k. the (tab w k)) ks"
      "set ks = {k. \<exists>m. tab w k = Some m \<and> selects id sourceColumn (qWhere ?q) m}"
    by (auto simp: selectedRows_def chainQuery_def page_def)
  have sel: "selects id sourceColumn (qWhere ?q) m \<longleftrightarrow> soChainID m = cid \<and> (enabledOnly \<longrightarrow> soEnabled m)" for m
    by (auto simp: selects_def chainQuery_def sourceColumn_def dbParam_def word_uint_eq_iff)
  have cs: "list_all2 (\<lambda>m c. toSourceConfig floatText m = Inr c) rows cs"
    using d by (induction rows arbitrary: cs) (auto simp: map_sum_def split: sum.splits)
  have fields: "scID c = soID m" "scChainID c = soChainID m" "scEnabled c = soEnabled m"
    if "toSourceConfig floatText m = Inr c" for m c
    using that by (auto simp: toSourceConfig_def split: option.splits)
  have "map scID cs = map soID rows" using cs by (induction rule: list_all2_induct) (auto dest: fields)
  also have "\<dots> = ks" unfolding ks(2) using ks(3) keyed by (force intro: map_idI)
  finally show "distinct (map scID cs)" using ks(1) by simp
  have mem: "c \<in> set cs \<longleftrightarrow> (\<exists>m \<in> set rows. toSourceConfig floatText m = Inr c)" for c
    using cs by (induction rule: list_all2_induct) auto
  have rows: "m \<in> set rows \<longleftrightarrow> (\<exists>i. tab w i = Some m) \<and> soChainID m = cid \<and> (enabledOnly \<longrightarrow> soEnabled m)" for m
    unfolding ks(2) using ks(3) by (force simp: sel)
  have entry: "dir w i = Some c \<longleftrightarrow> (\<exists>m. tab w i = Some m \<and> toSourceConfig floatText m = Inr c)" for i c
    by (cases "tab w i") (auto simp: directory_def split: sum.splits)
  show "set cs = {c. \<exists>i. dir w i = Some c \<and> scChainID c = cid \<and> (enabledOnly \<longrightarrow> scEnabled c)}"
  proof (intro set_eqI iffI; unfold mem mem_Collect_eq)
    fix c
    assume "\<exists>m \<in> set rows. toSourceConfig floatText m = Inr c"
    then obtain m i where "tab w i = Some m" "soChainID m = cid" "enabledOnly \<longrightarrow> soEnabled m" "toSourceConfig floatText m = Inr c"
      using rows by blast
    then show "\<exists>i. dir w i = Some c \<and> scChainID c = cid \<and> (enabledOnly \<longrightarrow> scEnabled c)"
      using fields by (intro exI [of _ i]) (auto simp: entry)
  next
    fix c
    assume "\<exists>i. dir w i = Some c \<and> scChainID c = cid \<and> (enabledOnly \<longrightarrow> scEnabled c)"
    then obtain i m where "tab w i = Some m" "toSourceConfig floatText m = Inr c" "scChainID c = cid" "enabledOnly \<longrightarrow> scEnabled c"
      unfolding entry by blast
    then show "\<exists>m \<in> set rows. toSourceConfig floatText m = Inr c"
      using fields by (intro bexI [of _ m]) (auto simp: rows)
  qed
qed

lemma deleted:
  assumes "run_state (SourceRepo_Delete db i) w = (None, w')"
  shows "tab w' = (tab w)(i := None)"
proof -
  let ?c = "[ColEq ''id'' (DBStr i)]"
  obtain k where "run_state (dbDeleteSources db ?c) w = (Inr k, w')"
    using assms by (auto simp: SourceRepo_Delete_def split: prod.splits sum.splits)
  from delete_rows [OF this] show ?thesis
    using keyed by (auto simp: fun_eq_iff restrict_map_def selects_def sourceColumn_def dbParam_def)
qed

text \<open>No two rows share their type and chain, and \<open>Save\<close> keeps it so.\<close>

lemma save_unique:
  assumes "\<forall>m \<in> ran (tab w). \<forall>n \<in> ran (tab w). \<not> clash m n" "run_state (SourceRepo_Save db c) w = (res, w')"
  shows "\<forall>m \<in> ran (tab w'). \<forall>n \<in> ran (tab w'). \<not> clash m n"
proof (cases res)
  case (Some e)
  then show ?thesis using save_failed(1) assms by simp
next
  case None
  let ?m = "toSourceModel c"
  have "run_state (dbUpsertSource db ?m) w = (None, w')"
    using assms(2) None by (auto simp: SourceRepo_Save_def split: prod.splits option.splits if_splits)
  from upsert_ok [OF this] obtain m' where m': "\<forall>n \<in> ran (tab w). \<not> clash n ?m" "storedSource floatText ?m m'"
      "tab w' = (tab w)(soID ?m \<mapsto> m')"
    by blast
  then have old: "\<not> clash n m' \<and> \<not> clash m' n" if "n \<in> ran (tab w)" for n
    using that by (auto simp: storedSource_def clash_def)
  have self: "\<not> clash m' m'" by (simp add: clash_def)
  have "ran (tab w') \<subseteq> insert m' (ran (tab w))" unfolding m'(3) by (auto simp: ran_def)
  then have "m = m' \<or> m \<in> ran (tab w)" if "m \<in> ran (tab w')" for m using that by blast
  then show ?thesis using assms(1) old self by metis
qed

end

section \<open>A table in memory\<close>

type_synonym source_rows = "(string \<times> source_model) list"

definition memSourceTable :: "source_rows \<Rightarrow> string \<rightharpoonup> source_model" where
  "memSourceTable w i = map_option (\<lambda>m. m\<lparr>soID := i\<rparr>) (map_of w i)"

definition memSelected :: "source_rows \<Rightarrow> cond list \<Rightarrow> string list" where
  "memSelected w conds =
     filter (\<lambda>i. selects id sourceColumn conds (the (memSourceTable w i))) (remdups (map fst w))"

text \<open>The only order the repository asks for is by type; the rows are compared by the code points.\<close>

definition typeOrder :: "source_rows \<Rightarrow> string \<Rightarrow> nat list" where
  "typeOrder w i = map of_char (soType (the (memSourceTable w i)))"

definition memSourceDB :: "source_rows source_db" where
  "memSourceDB =
     \<lparr>dbUpsertSource = (\<lambda>m. State (\<lambda>w.
        if \<exists>i \<in> set (map fst w). clash (the (memSourceTable w i)) m
        then (Some (UniqueViolation ''sources_type_chain_unique''), w)
        else (None, AList.update (soID m) m w))),
      dbFirstSource = (\<lambda>i. State (\<lambda>w.
        (case memSourceTable w i of None \<Rightarrow> Inl ErrRecordNotFound | Some m \<Rightarrow> Inr m, w))),
      dbFindSources = (\<lambda>q. State (\<lambda>w.
        (Inr (page q (map (\<lambda>i. the (memSourceTable w i)) (sort_key (typeOrder w) (memSelected w (qWhere q))))), w))),
      dbDeleteSources = (\<lambda>conds. State (\<lambda>w.
        (Inr (int (length (memSelected w conds))), filter (\<lambda>(i, _). i \<notin> set (memSelected w conds)) w)))\<rparr>"

lemma memSourceTable_keyed: "memSourceTable w i = Some m \<Longrightarrow> soID m = i"
  by (auto simp: memSourceTable_def)

lemma memSourceTable_mem: "i \<in> fst ` set w \<longleftrightarrow> (\<exists>m. memSourceTable w i = Some m)"
  using map_of_eq_None_iff [of w i] by (cases "map_of w i") (auto simp: memSourceTable_def)

lemma set_memSelected:
  "i \<in> set (memSelected w conds) \<longleftrightarrow> (\<exists>m. memSourceTable w i = Some m \<and> selects id sourceColumn conds m)"
  by (auto simp: memSelected_def memSourceTable_mem)

lemma memSource_clash:
  "(\<exists>i \<in> set (map fst w). clash (the (memSourceTable w i)) m) \<longleftrightarrow> (\<exists>n \<in> ran (memSourceTable w). clash n m)"
proof -
  have "set (map fst w) = dom (memSourceTable w)" using memSourceTable_mem [of _ w] by (simp add: dom_def set_eq_iff)
  moreover have "(\<exists>i \<in> dom t. clash (the (t i)) m) \<longleftrightarrow> (\<exists>n \<in> ran t. clash n m)" for t :: "string \<rightharpoonup> source_model"
    by (auto simp: dom_def ran_def)
  ultimately show ?thesis by simp
qed

lemma memSourceTable_update:
  "memSourceTable (AList.update (soID m) m w) = (memSourceTable w)(soID m \<mapsto> m)"
  by (simp add: memSourceTable_def update_conv' fun_eq_iff)

lemma memSourceTable_delete:
  "memSourceTable (filter (\<lambda>(i, _). i \<notin> S) w) = memSourceTable w |` (- S)"
proof -
  have "map_of (filter (\<lambda>(i, _). i \<notin> S) w) i = (if i \<in> S then None else map_of w i)" for i
    by (induction w) auto
  then show ?thesis by (simp add: memSourceTable_def fun_eq_iff restrict_map_def)
qed

interpretation ms: source_table memSourceDB memSourceTable floatText for floatText
proof (unfold_locales, goal_cases)
  case (1 w i m)
  then show ?case by (rule memSourceTable_keyed)
next
  case (2 m w w')
  have "storedSource floatText m m"
    unfolding storedSource_def sameOptions_def
    by (rule exI [of _ "soOptions m"], rule exI [of _ "soCreatedAt m"], rule exI [of _ "soUpdatedAt m"])
      (simp add: option.rel_refl)
  with 2 memSource_clash [of w m] show ?case
    by (auto simp: memSourceDB_def memSourceTable_update split: if_splits)
next
  case (3 m w e w')
  with memSource_clash [of w m] show ?case by (auto simp: memSourceDB_def split: if_splits)
next
  case (4 i w res w')
  then show ?case by (auto simp: memSourceDB_def split: option.splits)
next
  case (5 q w sel w')
  let ?ks = "sort_key (typeOrder w) (memSelected w (qWhere q))"
  have "distinct ?ks" by (simp add: memSelected_def)
  moreover have "set ?ks = {k. \<exists>m. memSourceTable w k = Some m \<and> selects id sourceColumn (qWhere q) m}"
    by (auto simp: set_memSelected)
  ultimately show ?case using 5 by (auto simp: memSourceDB_def selectedRows_def intro!: exI [of _ ?ks])
next
  case (6 conds w k w')
  then have "memSourceTable w' = memSourceTable w |` (- set (memSelected w conds))"
    by (simp add: memSourceDB_def) (metis memSourceTable_delete)
  then show ?case by (auto simp: restrict_map_def fun_eq_iff set_memSelected)
qed

section \<open>The directory\<close>


section \<open>Credentials\<close>

lemma memSource_found:
  "directory floatText (memSourceTable w) i = Some c \<Longrightarrow>
   run_state (SourceRepo_FindByID floatText memSourceDB i) w = (Inr c, w)"
  by (cases "memSourceTable w i") (auto simp: directory_def SourceRepo_FindByID_def memSourceDB_def split: sum.splits)


text \<open>A cipher that appends a byte and a source that is saved with it.\<close>

definition plainGCM :: "byte list \<Rightarrow> aead" where
  "plainGCM key = \<lparr>NonceSize = 2, Seal = (\<lambda>nonce p. p @ [7]), Open = (\<lambda>nonce c. Some (butlast c))\<rparr>"

definition keyedSource :: source_config where
  "keyedSource =
     \<lparr>scID = ''routescan-10'', scChainID = OptimismMainnet, scType = TypeRoutescan, scEndpoint = [],
      scSecretCiphertext = [1, 2, 3, 7], scSecretNonce = [0, 0], scOptions = None, scEnabled = True,
      scCreatedAt = 1, scUpdatedAt = 1\<rparr>"

lemma keyedSource_saved:
  "run_state (SourceRepo_Save memSourceDB keyedSource) [] = (None, [(''routescan-10'', toSourceModel keyedSource)])"
  "decOptions Some (soOptions (toSourceModel keyedSource)) = Some []"
  by (simp_all add: SourceRepo_Save_def memSourceDB_def keyedSource_def toSourceModel_def decOptions_def)



end
