(* ===== verification/ApiDto.thy ===== *)
theory ApiDto
  imports UseCases Gateway
begin

text \<open>
  The wire shapes of the HTTP API (\<open>internal/infrastructure/httpapi/dto\<close>) and their conversions to and from the
  application layer. Requests arrive here decoded and validated against their schema by huma; a nil
  pointer is \<open>None\<close>. \<open>loadLocation\<close> is the time-zone database.
\<close>

section \<open>Mapping errors\<close>

datatype map_error =
    MapText string
  | MapUnknown string string
  | MapRange string range_error
  | MapSchedule schedule_error
  | MapAddress string nat addr_error
  | MapIndexed string nat map_error

section \<open>Sampling (\<open>run.go\<close>)\<close>

record fixed_list_in =
  fiNumbers :: "uint64 list"

record latest_n_in =
  liN :: uint64

record random_in =
  riStart :: uint64
  riEnd :: uint64
  riCount :: uint64
  riSeed :: int

record sparse_steps_in =
  siStart :: uint64
  siEnd :: uint64
  siStep :: uint64

record sampling_input =
  smKind :: string
  smFixedList :: "fixed_list_in option"
  smLatestN :: "latest_n_in option"
  smRandom :: "random_in option"
  smSparseSteps :: "sparse_steps_in option"

definition SamplingInput_ToDomain :: "sampling_input \<Rightarrow> map_error + sampling_strategy" where
  "SamplingInput_ToDomain s =
     (if smKind s = ''fixed_list'' then
        (case smFixedList s of
           None \<Rightarrow> Inl (MapText ''sampling: fixed_list body is missing'')
         | Some f \<Rightarrow> Inr (FixedList (fiNumbers f)))
      else if smKind s = ''latest_n'' then
        (case smLatestN s of
           None \<Rightarrow> Inl (MapText ''sampling: latest_n body is missing'')
         | Some l \<Rightarrow> Inr (LatestN (liN l)))
      else if smKind s = ''random'' then
        (case smRandom s of
           None \<Rightarrow> Inl (MapText ''sampling: random body is missing'')
         | Some r \<Rightarrow>
             (case NewBlockRange (riStart r) (riEnd r) of
                Inl e \<Rightarrow> Inl (MapRange ''sampling: random range: '' e)
              | Inr rng \<Rightarrow> Inr (Random rng (riCount r) (riSeed r))))
      else if smKind s = ''sparse_steps'' then
        (case smSparseSteps s of
           None \<Rightarrow> Inl (MapText ''sampling: sparse_steps body is missing'')
         | Some p \<Rightarrow>
             (case NewBlockRange (siStart p) (siEnd p) of
                Inl e \<Rightarrow> Inl (MapRange ''sampling: sparse_steps range: '' e)
              | Inr rng \<Rightarrow> Inr (SparseSteps rng (siStep p))))
      else Inl (MapUnknown ''sampling: unknown kind '' (smKind s)))"

section \<open>Triggers and schedules (\<open>run.go\<close>)\<close>

record trigger_input =
  tgKind :: string
  tgUser :: string
  tgCronExpr :: string
  tgRealtimeBlock :: uint64

definition TriggerInput_ToDomain :: "trigger_input \<Rightarrow> map_error + trigger" where
  "TriggerInput_ToDomain t =
     (if tgKind t = ''manual'' then Inr (ManualTrigger (tgUser t))
      else if tgKind t = ''scheduled'' then Inr (ScheduledTrigger (tgCronExpr t))
      else if tgKind t = ''realtime'' then Inr (RealtimeTrigger (tgRealtimeBlock t))
      else Inl (MapUnknown ''trigger: unknown kind '' (tgKind t)))"

record schedule_input =
  scnCronExpr :: string
  scnTimezone :: string

definition zeroSchedule :: schedule where
  "zeroSchedule = \<lparr>schCronExpr = [], schTimezone = None\<rparr>"

definition ScheduleInput_ToDomain ::
  "(string \<Rightarrow> string option) \<Rightarrow> schedule_input \<Rightarrow> map_error + schedule" where
  "ScheduleInput_ToDomain loadLocation s =
     (if scnCronExpr s = [] then Inr zeroSchedule
      else map_sum MapSchedule id (NewSchedule loadLocation (scnCronExpr s) (scnTimezone s)))"

section \<open>Plans (\<open>run.go\<close>)\<close>

record known_addresses_in =
  knAddresses :: "string list"

record top_n_holders_in =
  toN :: uint64

record random_addresses_in =
  rnCount :: uint64
  rnSeed :: int

record recently_active_in =
  rcnRecentBlocks :: uint64
  rcnCount :: uint64
  rcnSeed :: int

record address_plan_input =
  apKind :: string
  apKnown :: "known_addresses_in option"
  apTopN :: "top_n_holders_in option"
  apRandom :: "random_addresses_in option"
  apRecentlyActive :: "recently_active_in option"

text \<open>The loop over the texts of a list: the first that is no address fails it, with its index.\<close>

fun parseAddresses ::
  "(string \<Rightarrow> byte list) \<Rightarrow> string \<Rightarrow> nat \<Rightarrow> string list \<Rightarrow> map_error + address list" where
  "parseAddresses keccak what i [] = Inr []"
| "parseAddresses keccak what i (s # ss) =
     (case NewAddress keccak s of
        Inl e \<Rightarrow> Inl (MapAddress what i e)
      | Inr a \<Rightarrow> map_sum id ((#) a) (parseAddresses keccak what (Suc i) ss))"

definition AddressPlanInput_ToDomain ::
  "(string \<Rightarrow> byte list) \<Rightarrow> address_plan_input \<Rightarrow> map_error + address_plan" where
  "AddressPlanInput_ToDomain keccak p =
     (if apKind p = ''known'' then
        (case apKnown p of
           None \<Rightarrow> Inl (MapText ''address_plan: known body missing'')
         | Some k \<Rightarrow> map_sum id KnownAddresses (parseAddresses keccak ''address_plan.known'' 0 (knAddresses k)))
      else if apKind p = ''top_n'' then
        (case apTopN p of
           None \<Rightarrow> Inl (MapText ''address_plan: top_n body missing'')
         | Some t \<Rightarrow> Inr (TopNHolders (toN t)))
      else if apKind p = ''random'' then
        (case apRandom p of
           None \<Rightarrow> Inl (MapText ''address_plan: random body missing'')
         | Some r \<Rightarrow> Inr (RandomAddresses (rnCount r) (rnSeed r)))
      else if apKind p = ''recently_active'' then
        (case apRecentlyActive p of
           None \<Rightarrow> Inl (MapText ''address_plan: recently_active body missing'')
         | Some r \<Rightarrow> Inr (RecentlyActive (rcnRecentBlocks r) (rcnCount r) (rcnSeed r)))
      else Inl (MapUnknown ''address_plan: unknown kind '' (apKind p)))"

record known_tokens_in =
  knTokens :: "string list"

record token_plan_input =
  tpKind :: string
  tpKnown :: "known_tokens_in option"

definition TokenPlanInput_ToDomain ::
  "(string \<Rightarrow> byte list) \<Rightarrow> token_plan_input \<Rightarrow> map_error + token_plan" where
  "TokenPlanInput_ToDomain keccak p =
     (if tpKind p = ''known_tokens'' then
        (case tpKnown p of
           None \<Rightarrow> Inl (MapText ''token_plan: known body missing'')
         | Some k \<Rightarrow> map_sum id KnownTokens (parseAddresses keccak ''token_plan.known'' 0 (knTokens k)))
      else Inl (MapUnknown ''token_plan: unknown kind '' (tpKind p)))"

fun ResolveMetrics :: "string list \<Rightarrow> map_error + metric list" where
  "ResolveMetrics [] = Inr []"
| "ResolveMetrics (k # ks) =
     (case metricByKey k of
        None \<Rightarrow> Inl (MapUnknown ''metrics: unknown key '' k)
      | Some m \<Rightarrow> map_sum id ((#) m) (ResolveMetrics ks))"

text \<open>The two loops over plans are alike: the error of a plan is prefixed with its index.\<close>

fun resolvePlans :: "string \<Rightarrow> ('p \<Rightarrow> map_error + 'q) \<Rightarrow> nat \<Rightarrow> 'p list \<Rightarrow> map_error + 'q list" where
  "resolvePlans what conv i [] = Inr []"
| "resolvePlans what conv i (p # ps) =
     (case conv p of
        Inl e \<Rightarrow> Inl (MapIndexed what i e)
      | Inr q \<Rightarrow> map_sum id ((#) q) (resolvePlans what conv (Suc i) ps))"

definition ResolveAddressPlans ::
  "(string \<Rightarrow> byte list) \<Rightarrow> address_plan_input list \<Rightarrow> map_error + address_plan list" where
  "ResolveAddressPlans keccak inputs = resolvePlans ''address_plans'' (AddressPlanInput_ToDomain keccak) 0 inputs"

definition ResolveTokenPlans ::
  "(string \<Rightarrow> byte list) \<Rightarrow> token_plan_input list \<Rightarrow> map_error + token_plan list" where
  "ResolveTokenPlans keccak inputs = resolvePlans ''token_plans'' (TokenPlanInput_ToDomain keccak) 0 inputs"

section \<open>Requests (\<open>run.go\<close>, \<open>schedule.go\<close>)\<close>

record create_run_request =
  crChainID :: uint64
  crMetrics :: "string list"
  crSampling :: sampling_input
  crTrigger :: trigger_input
  crSchedule :: "schedule_input option"
  crAddressPlans :: "address_plan_input list"
  crTokenPlans :: "token_plan_input list"

definition CreateRunRequest_ToUseCase ::
  "(string \<Rightarrow> byte list) \<Rightarrow> (string \<Rightarrow> string option) \<Rightarrow> create_run_request \<Rightarrow> map_error + schedule_run_input" where
  "CreateRunRequest_ToUseCase keccak loadLocation r =
     (case SamplingInput_ToDomain (crSampling r) of Inl e \<Rightarrow> Inl e | Inr strategy \<Rightarrow>
     (case TriggerInput_ToDomain (crTrigger r) of Inl e \<Rightarrow> Inl e | Inr trig \<Rightarrow>
     (case ResolveMetrics (crMetrics r) of Inl e \<Rightarrow> Inl e | Inr metrics \<Rightarrow>
     (case (case crSchedule r of None \<Rightarrow> Inr zeroSchedule | Some s \<Rightarrow> ScheduleInput_ToDomain loadLocation s) of
        Inl e \<Rightarrow> Inl e
      | Inr sched \<Rightarrow>
     (case ResolveAddressPlans keccak (crAddressPlans r) of Inl e \<Rightarrow> Inl e | Inr plans \<Rightarrow>
     (case ResolveTokenPlans keccak (crTokenPlans r) of Inl e \<Rightarrow> Inl e | Inr tokens \<Rightarrow>
        Inr \<lparr>siID = [], siChainID = crChainID r, siStrategy = Some strategy, siMetrics = metrics,
             siTrigger = Some trig, siSchedule = sched, siAddressPlans = map Some plans,
             siTokenPlans = map Some tokens\<rparr>))))))"

record create_schedule_request =
  csChainID :: uint64
  csMetrics :: "string list"
  csSampling :: sampling_input
  csSchedule :: schedule_input
  csAddressPlans :: "address_plan_input list"
  csTokenPlans :: "token_plan_input list"

section \<open>Views of runs (\<open>run.go\<close>)\<close>

record subject_out =
  soKind :: string
  soBlock :: "uint64 option"
  soAddress :: "string option"
  soToken :: "string option"
  soName :: string

record run_summary_in =
  rsvAnchorBlock :: "uint64 option"
  rsvSubjects :: "subject_out list"
  rsvSourcesUsed :: "string list"
  rsvComparisonsCount :: int

text \<open>A list that is omitted when it is empty is nil then.\<close>

definition omitEmpty :: "'a list \<Rightarrow> 'a list option" where
  "omitEmpty xs = (if xs = [] then None else Some xs)"

record run_view =
  rvID :: string
  rvChainID :: uint64
  rvStatus :: string
  rvStrategyKind :: string
  rvMetrics :: "string list"
  rvTriggerKind :: string
  rvAddressPlanKinds :: "string list option"
  rvTokenPlanKinds :: "string list option"
  rvCreatedAt :: gotime
  rvStartedAt :: "gotime option"
  rvFinishedAt :: "gotime option"
  rvErrorMessage :: string
  rvSummary :: "run_summary_in option"

definition summaryToWire :: "(string \<Rightarrow> byte list) \<Rightarrow> run_summary \<Rightarrow> run_summary_in" where
  "summaryToWire keccak s =
     \<lparr>rsvAnchorBlock = rsAnchorBlock s,
      rsvSubjects = map (\<lambda>subj. \<lparr>soKind = sbKind subj, soBlock = sbBlock subj,
        soAddress = map_option (Address_Hex keccak) (sbAddress subj),
        soToken = map_option (Address_Hex keccak) (sbToken subj), soName = sbName subj\<rparr>) (rsSubjects s),
      rsvSourcesUsed = rsSourcesUsed s, rsvComparisonsCount = rsComparisonsCount s\<rparr>"

definition ToRunView :: "(string \<Rightarrow> byte list) \<Rightarrow> run \<Rightarrow> run_view" where
  "ToRunView keccak r =
     \<lparr>rvID = runId r, rvChainID = runChainID r, rvStatus = runStatus r, rvStrategyKind = Strategy_Kind (runStrategy r),
      rvMetrics = map mKey (runMetrics r), rvTriggerKind = Trigger_Kind (runTrigger r),
      rvAddressPlanKinds = omitEmpty (map AddressPlan_Kind (runAddressPlans r)),
      rvTokenPlanKinds = omitEmpty (map TokenPlan_Kind (runTokenPlans r)),
      rvCreatedAt = runCreatedAt r, rvStartedAt = runStartedAt r, rvFinishedAt = runFinishedAt r,
      rvErrorMessage = runErrorMsg r,
      rvSummary = (let s = Run_Summary r in if \<not> RunSummary_IsZero s then Some (summaryToWire keccak s) else None)\<rparr>"

record 'v list_response =
  lrItems :: "'v list"
  lrTotal :: int
  lrLimit :: int
  lrOffset :: int

record create_run_response =
  crrRunID :: string
  crrJobID :: "string option"

section \<open>Views of diffs (\<open>diff.go\<close>)\<close>

record value_snapshot_view =
  vvSourceID :: string
  vvRaw :: string
  vvFetchedAt :: gotime
  vvReflectedBlock :: "uint64 option"

record subject_view =
  svType :: string
  svAddress :: "string option"

record diff_view =
  dvID :: string
  dvRunID :: string
  dvMetricKey :: string
  dvMetricCategory :: string
  dvBlock :: uint64
  dvSubject :: subject_view
  dvValues :: "value_snapshot_view list"
  dvDetectedAt :: gotime
  dvSeverity :: string
  dvTrustedSources :: "string list"
  dvResolved :: bool
  dvResolvedAt :: "gotime option"
  dvTier :: string
  dvAnchorBlock :: uint64
  dvSamplingSeed :: "int option"

definition snapshotView :: "source_id \<times> value_snapshot \<Rightarrow> value_snapshot_view" where
  "snapshotView = (\<lambda>(sid, v).
     \<lparr>vvSourceID = sid, vvRaw = vsRaw v, vvFetchedAt = vsFetchedAt v, vvReflectedBlock = vsReflectedBlock v\<rparr>)"

definition sortSnapshotsBySource :: "value_snapshot_view list \<Rightarrow> value_snapshot_view list" where
  "sortSnapshotsBySource vs = sort_key vvSourceID vs"

definition ToDiffView :: "(string \<Rightarrow> byte list) \<Rightarrow> diff_id \<Rightarrow> diff_record \<Rightarrow> diff_view" where
  "ToDiffView keccak i rec =
     (let d = drDiscrepancy rec in
      \<lparr>dvID = i, dvRunID = dRunID d, dvMetricKey = mKey (dMetric d), dvMetricCategory = mCategory (dMetric d),
       dvBlock = dBlock d,
       dvSubject = \<lparr>svType = dsType (dSubject d), svAddress = map_option (Address_Hex keccak) (dsAddress (dSubject d))\<rparr>,
       dvValues = sortSnapshotsBySource (map snapshotView (dValues d)), dvDetectedAt = dDetectedAt d,
       dvSeverity = jSeverity (drJudgement rec), dvTrustedSources = jTrustedSources (drJudgement rec),
       dvResolved = drResolved rec, dvResolvedAt = drResolvedAt rec, dvTier = Tier_String (drTier rec),
       dvAnchorBlock = drAnchorBlock rec, dvSamplingSeed = drSamplingSeed rec\<rparr>)"

record replay_diff_response =
  rpOriginalDiffID :: string
  rpResolved :: bool
  rpNewDiffID :: "string option"

definition ToReplayDiffResponse :: "replay_result \<Rightarrow> replay_diff_response" where
  "ToReplayDiffResponse r =
     \<lparr>rpOriginalDiffID = rrOriginalDiffID r, rpResolved = rrResolved r, rpNewDiffID = rrNewDiffID r\<rparr>"

definition ParseSeverity :: "string \<Rightarrow> map_error + severity option" where
  "ParseSeverity s =
     (if s = [] then Inr None
      else if s = SevCritical \<or> s = SevWarning \<or> s = SevInfo then Inr (Some s)
      else Inl (MapText (''unknown severity: '' @ s)))"

section \<open>Views of schedules (\<open>schedule.go\<close>)\<close>

record create_schedule_response =
  csrJobID :: string
  csrRunID :: string

record schedule_view =
  sdvJobID :: string
  sdvChainID :: uint64
  sdvCronExpr :: string
  sdvTimezone :: string
  sdvStrategyKind :: string
  sdvMetricKeys :: "string list"
  sdvAddressPlanKinds :: "string list option"
  sdvTokenPlanKinds :: "string list option"
  sdvCreatedAt :: gotime
  sdvActive :: bool

text \<open>A nil strategy or plan makes the call of its method \<open>Kind\<close> panic, which is \<open>None\<close> here.\<close>

definition ToScheduleView :: "schedule_record \<Rightarrow> schedule_view option" where
  "ToScheduleView rec =
     (if None \<in> set (srAddressPlans rec) \<or> None \<in> set (srTokenPlans rec) then None
      else case srStrategy rec of
        None \<Rightarrow> None
      | Some strat \<Rightarrow> Some
          \<lparr>sdvJobID = srJobID rec, sdvChainID = srChainID rec, sdvCronExpr = schCronExpr (srSchedule rec),
           sdvTimezone = (case schTimezone (srSchedule rec) of None \<Rightarrow> [] | Some loc \<Rightarrow> loc),
           sdvStrategyKind = Strategy_Kind strat, sdvMetricKeys = map mKey (srMetrics rec),
           sdvAddressPlanKinds = omitEmpty (map (AddressPlan_Kind \<circ> the) (srAddressPlans rec)),
           sdvTokenPlanKinds = omitEmpty (map (TokenPlan_Kind \<circ> the) (srTokenPlans rec)),
           sdvCreatedAt = srCreatedAt rec, sdvActive = srActive rec\<rparr>)"

section \<open>Sources (\<open>source.go\<close>)\<close>

record capability_view =
  cvName :: string
  cvTier :: string

record source_capability_matrix =
  cmID :: string
  cmChainID :: uint64
  cmCapabilities :: "capability_view list"

definition ToSourceCapabilityMatrix :: "'w source \<Rightarrow> source_capability_matrix" where
  "ToSourceCapabilityMatrix s =
     \<lparr>cmID = srcID s, cmChainID = srcChainID s,
      cmCapabilities = map (\<lambda>c. \<lparr>cvName = c, cvTier = Tier_String (Capability_Tier c)\<rparr>)
        (filter (Supports s) AllCapabilities)\<rparr>"

record source_config_view =
  scvID :: string
  scvType :: string
  scvChainID :: uint64
  scvEndpoint :: string
  scvOptions :: "(string, json) gomap"
  scvHasSecret :: bool
  scvEnabled :: bool
  scvCreatedAt :: gotime
  scvUpdatedAt :: gotime

definition ToSourceConfigView :: "source_config \<Rightarrow> source_config_view" where
  "ToSourceConfigView cfg =
     \<lparr>scvID = scID cfg, scvType = scType cfg, scvChainID = scChainID cfg, scvEndpoint = scEndpoint cfg,
      scvOptions = (case scOptions cfg of None \<Rightarrow> [] | Some o' \<Rightarrow> o'), scvHasSecret = HasSecret cfg,
      scvEnabled = scEnabled cfg, scvCreatedAt = scCreatedAt cfg, scvUpdatedAt = scUpdatedAt cfg\<rparr>"

record create_source_request =
  cqType :: string
  cqChainID :: uint64
  cqEndpoint :: string
  cqAPIKey :: string
  cqOptions :: "(string, json) gomap option"
  cqEnabled :: "bool option"

record update_source_request =
  uqEndpoint :: "string option"
  uqAPIKey :: "string option"
  uqClearSecret :: bool
  uqOptions :: "(string, json) gomap option"
  uqEnabled :: "bool option"

section \<open>Lists and chains (\<open>schedule.go\<close>, \<open>source.go\<close>, \<open>chain.go\<close>)\<close>

text \<open>The bodies of lists that are not paged.\<close>

record 'v items_response =
  irItems :: "'v list"
  irTotal :: int

record chain_view =
  chvID :: uint64
  chvSlug :: string
  chvDisplayName :: string

end
