(* ===== verification/ApiRoutes.thy ===== *)
theory ApiRoutes
  imports ApiDto
begin

text \<open>
  The handlers of the HTTP API (\<open>internal/infrastructure/httpapi/routes\<close>), what they register, and the
  middleware around them (\<open>server.go\<close>, \<open>middleware.go\<close>). chi, which finds the operation of a request, and huma,
  which decodes the request into the input type of the operation and writes the response, are outside the
  repository: an operation is registered here with its handler on decoded inputs, and the router is an argument of the
  server. The system's random source, time zones, time and Keccak are arguments as well.
\<close>

section \<open>Errors (\<open>errors.go\<close>)\<close>

datatype http_cause = CauseMap map_error | CauseApp app_error | CauseText string

record http_error =
  heStatus :: nat
  heCause :: http_cause

definition BadRequest :: "http_cause \<Rightarrow> http_error" where
  "BadRequest c = \<lparr>heStatus = 400, heCause = c\<rparr>"

definition MapError :: "app_error \<Rightarrow> http_error" where
  "MapError err =
     \<lparr>heStatus =
        (if errorsIs err ErrRunNotFound then 404
         else if errorsIs err ErrDiffNotFound then 404
         else if errorsIs err ErrDuplicateRun then 409
         else if errorsIs err ErrInvalidRun then 400
         else if errorsIs err ErrBudgetExhausted then 429
         else if errorsIs err ErrSourceNotFound then 404
         else if errorsIs err ErrDuplicateSource then 409
         else 500),
      heCause = CauseApp err\<rparr>"

section \<open>Runs (\<open>runs.go\<close>)\<close>

record 'w api_env =
  aeKeccak :: "string \<Rightarrow> byte list"
  aeLoadLocation :: "string \<Rightarrow> string option"
  aeRand :: "('w, byte list option) state"
  aeEntropy :: "('w, nat \<Rightarrow> byte list option) state"
  aeNow :: "'w clock"

record 'w runs_deps =
  rdpSchedule :: "'w schedule_run option"
  rdpQuery :: "'w run_repository"
  rdpCancel :: "'w cancel_run option"

definition createRun ::
  "'w api_env \<Rightarrow> 'w schedule_run \<Rightarrow> create_run_request \<Rightarrow> ('w, http_error + create_run_response) state" where
  "createRun env uc body =
     (case CreateRunRequest_ToUseCase (aeKeccak env) (aeLoadLocation env) body of
        Inl e \<Rightarrow> State_Monad.return (Inl (BadRequest (CauseMap e)))
      | Inr ucInput \<Rightarrow>
          do {
            result \<leftarrow> ScheduleRun_Execute (aeRand env) uc ucInput;
            State_Monad.return
              (case result of
                 Inl e \<Rightarrow> Inl (MapError e)
               | Inr res \<Rightarrow> Inr \<lparr>crrRunID = resRunID res, crrJobID = resJobID res\<rparr>)
          })"

definition getRun :: "'w api_env \<Rightarrow> 'w run_repository \<Rightarrow> string \<Rightarrow> ('w, http_error + run_view) state" where
  "getRun env runs i =
     do {
       res \<leftarrow> QueryRuns_Get runs i;
       State_Monad.return (map_sum MapError (ToRunView (aeKeccak env)) res)
     }"

record list_runs_input =
  lruChainID :: uint64
  lruStatus :: string
  lruLimit :: int
  lruOffset :: int

definition listRunsFilter :: "list_runs_input \<Rightarrow> run_filter" where
  "listRunsFilter inp =
     \<lparr>rfChainID = (if lruChainID inp \<noteq> 0 then Some (lruChainID inp) else None),
      rfStatus = (if lruStatus inp \<noteq> [] then Some (lruStatus inp) else None), rfCreatedAt = None,
      rfLimit = lruLimit inp, rfOffset = lruOffset inp\<rparr>"

definition listRuns ::
  "'w api_env \<Rightarrow> 'w run_repository \<Rightarrow> list_runs_input \<Rightarrow> ('w, http_error + run_view list_response) state" where
  "listRuns env runs inp =
     (let filt = listRunsFilter inp in
      do {
        res \<leftarrow> QueryRuns_List runs filt;
        State_Monad.return
          (case res of
             Inl e \<Rightarrow> Inl (MapError e)
           | Inr (rs, n) \<Rightarrow> Inr \<lparr>lrItems = map (ToRunView (aeKeccak env)) rs, lrTotal = n,
                lrLimit = rfLimit filt, lrOffset = rfOffset filt\<rparr>)
      })"

definition cancelRun :: "'w cancel_run \<Rightarrow> string \<Rightarrow> ('w, http_error + unit) state" where
  "cancelRun uc i =
     do {
       err \<leftarrow> CancelRun_Execute uc i;
       State_Monad.return (case err of Some e \<Rightarrow> Inl (MapError e) | None \<Rightarrow> Inr ())
     }"

section \<open>Schedules (\<open>schedules.go\<close>)\<close>

record 'w schedules_deps =
  sdpSchedule :: "'w schedule_run option"
  sdpQuery :: "'w schedule_repository"
  sdpDispatcher :: "(job_id \<Rightarrow> ('w, app_error option) state) option"

definition scheduleRequestToUseCase ::
  "'w api_env \<Rightarrow> create_schedule_request \<Rightarrow> map_error + schedule_run_input" where
  "scheduleRequestToUseCase env r =
     (case SamplingInput_ToDomain (csSampling r) of Inl e \<Rightarrow> Inl e | Inr strategy \<Rightarrow>
     (case ScheduleInput_ToDomain (aeLoadLocation env) (csSchedule r) of Inl e \<Rightarrow> Inl e | Inr sched \<Rightarrow>
      if Schedule_IsZero sched then Inl (MapText ''schedule.cron_expr is required'')
      else
     (case ResolveMetrics (csMetrics r) of Inl e \<Rightarrow> Inl e | Inr metrics \<Rightarrow>
     (case ResolveAddressPlans (aeKeccak env) (csAddressPlans r) of Inl e \<Rightarrow> Inl e | Inr plans \<Rightarrow>
     (case ResolveTokenPlans (aeKeccak env) (csTokenPlans r) of Inl e \<Rightarrow> Inl e | Inr tokens \<Rightarrow>
        Inr \<lparr>siID = [], siChainID = csChainID r, siStrategy = Some strategy, siMetrics = metrics,
             siTrigger = Some (ScheduledTrigger (schCronExpr sched)), siSchedule = sched,
             siAddressPlans = map Some plans, siTokenPlans = map Some tokens\<rparr>)))))"

definition createSchedule ::
  "'w api_env \<Rightarrow> 'w schedule_run \<Rightarrow> create_schedule_request \<Rightarrow> ('w, http_error + create_schedule_response) state" where
  "createSchedule env uc body =
     (case scheduleRequestToUseCase env body of
        Inl e \<Rightarrow> State_Monad.return (Inl (BadRequest (CauseMap e)))
      | Inr ucInput \<Rightarrow>
          do {
            result \<leftarrow> ScheduleRun_Execute (aeRand env) uc ucInput;
            State_Monad.return
              (case result of
                 Inl e \<Rightarrow> Inl (MapError e)
               | Inr res \<Rightarrow>
                   (case resJobID res of
                      None \<Rightarrow> Inl \<lparr>heStatus = 500, heCause = CauseText ''schedule create: job id not returned''\<rparr>
                    | Some job \<Rightarrow> Inr \<lparr>csrJobID = job, csrRunID = resRunID res\<rparr>))
          })"

text \<open>\<open>None\<close> is a panic, of \<open>ToScheduleView\<close>.\<close>

definition listSchedules ::
  "'w schedule_repository \<Rightarrow> ('w, (http_error + schedule_view items_response) option) state" where
  "listSchedules schedules =
     do {
       res \<leftarrow> QuerySchedules_ListActive schedules;
       State_Monad.return
         (case res of
            Inl e \<Rightarrow> Some (Inl (MapError e))
          | Inr records \<Rightarrow>
              map_option (\<lambda>items. Inr \<lparr>irItems = items, irTotal = int (length items)\<rparr>)
                (those (map ToScheduleView records)))
     }"

definition cancelSchedule ::
  "(job_id \<Rightarrow> ('w, app_error option) state) \<Rightarrow> string \<Rightarrow> ('w, http_error + unit) state" where
  "cancelSchedule cancelScheduled i =
     do {
       err \<leftarrow> cancelScheduled i;
       State_Monad.return (case err of Some e \<Rightarrow> Inl (MapError e) | None \<Rightarrow> Inr ())
     }"

section \<open>Diffs (\<open>diffs.go\<close>)\<close>

record 'w diffs_deps =
  ddpQuery :: "'w diff_repository"
  ddpReplay :: "'w replay_diff option"

definition getDiff :: "'w api_env \<Rightarrow> 'w diff_repository \<Rightarrow> string \<Rightarrow> ('w, http_error + diff_view) state" where
  "getDiff env repo i =
     do {
       res \<leftarrow> QueryDiffs_Get repo i;
       State_Monad.return (map_sum MapError (\<lambda>rec. ToDiffView (aeKeccak env) (drID rec) rec) res)
     }"

record list_diffs_input =
  ldiRunID :: string
  ldiMetricKey :: string
  ldiSeverity :: string
  ldiResolved :: string
  ldiLimit :: int
  ldiOffset :: int

definition parseResolved :: "string \<Rightarrow> http_cause + bool option" where
  "parseResolved s =
     (if s = [] then Inr None
      else if s = ''true'' then Inr (Some True)
      else if s = ''false'' then Inr (Some False)
      else Inl (CauseText (''resolved must be 'true' or 'false'' @ [CHR 0x27])))"

definition listDiffsFilter :: "list_diffs_input \<Rightarrow> http_cause + diff_filter" where
  "listDiffsFilter inp =
     (case (if ldiSeverity inp \<noteq> [] then ParseSeverity (ldiSeverity inp) else Inr None) of
        Inl e \<Rightarrow> Inl (CauseMap e)
      | Inr sev \<Rightarrow>
          (case parseResolved (ldiResolved inp) of
             Inl e \<Rightarrow> Inl e
           | Inr resolved \<Rightarrow>
               Inr \<lparr>dfRunID = (if ldiRunID inp \<noteq> [] then Some (ldiRunID inp) else None),
                    dfMetricKey = (if ldiMetricKey inp \<noteq> [] then Some (ldiMetricKey inp) else None),
                    dfSeverity = sev, dfResolved = resolved, dfBlockRange = None,
                    dfLimit = ldiLimit inp, dfOffset = ldiOffset inp\<rparr>))"

definition listDiffs ::
  "'w api_env \<Rightarrow> 'w diff_repository \<Rightarrow> list_diffs_input \<Rightarrow> ('w, http_error + diff_view list_response) state" where
  "listDiffs env repo inp =
     (case listDiffsFilter inp of
        Inl e \<Rightarrow> State_Monad.return (Inl (BadRequest e))
      | Inr filt \<Rightarrow>
          do {
            res \<leftarrow> QueryDiffs_List repo filt;
            State_Monad.return
              (case res of
                 Inl e \<Rightarrow> Inl (MapError e)
               | Inr (recs, n) \<Rightarrow> Inr \<lparr>lrItems = map (\<lambda>rec. ToDiffView (aeKeccak env) (drID rec) rec) recs, lrTotal = n,
                    lrLimit = dfLimit filt, lrOffset = dfOffset filt\<rparr>)
          })"

definition getRunDiffs ::
  "'w api_env \<Rightarrow> 'w diff_repository \<Rightarrow> string \<Rightarrow> ('w, http_error + diff_view list_response) state" where
  "getRunDiffs env repo i =
     do {
       res \<leftarrow> QueryDiffs_ByRun repo i;
       State_Monad.return
         (case res of
            Inl e \<Rightarrow> Inl (MapError e)
          | Inr recs \<Rightarrow> Inr \<lparr>lrItems = map (\<lambda>rec. ToDiffView (aeKeccak env) (drID rec) rec) recs,
               lrTotal = int (length recs), lrLimit = 0, lrOffset = 0\<rparr>)
     }"

definition replayDiff :: "'w api_env \<Rightarrow> 'w replay_diff \<Rightarrow> string \<Rightarrow> ('w, http_error + replay_diff_response) state" where
  "replayDiff env uc i =
     do {
       res \<leftarrow> ReplayDiff_Execute (aeKeccak env) uc i;
       State_Monad.return (map_sum MapError ToReplayDiffResponse res)
     }"

section \<open>Sources (\<open>sources.go\<close>)\<close>

record 'w sources_deps =
  sodRepo :: "'w source_config_repository option"
  sodGateway :: "'w source_gateway option"
  sodCipher :: "aead option"
  sodClock :: "'w clock option"
  sodTypes :: "string list"

definition clockOrNow :: "'w api_env \<Rightarrow> 'w clock option \<Rightarrow> 'w clock" where
  "clockOrNow env c = (case c of None \<Rightarrow> aeNow env | Some clk \<Rightarrow> clk)"

definition stringBytes :: "string \<Rightarrow> byte list" where
  "stringBytes s = map (\<lambda>c. word_of_nat (of_char c)) s"

definition sourceKey :: "string \<Rightarrow> uint64 \<Rightarrow> string" where
  "sourceKey kind cid = kind @ ''-'' @ FormatNat 10 (unat cid)"

text \<open>The encryption of a given API key, shared by the two writers.\<close>

definition sealKey ::
  "(nat \<Rightarrow> byte list option) \<Rightarrow> aead option \<Rightarrow> string \<Rightarrow> source_config \<Rightarrow> string + source_config" where
  "sealKey rand cipher apiKey cfg =
     (case cipher of
        None \<Rightarrow> Inl ''api_key supplied but server has no CSW_SECRET_KEY configured''
      | Some c \<Rightarrow>
          (case Cipher_Encrypt rand c (stringBytes apiKey) of
             Inl e \<Rightarrow> Inl (''encrypt api_key: '' @ e)
           | Inr (ct, nonce) \<Rightarrow> Inr (cfg\<lparr>scSecretCiphertext := ct, scSecretNonce := nonce\<rparr>)))"

definition buildCreateConfig ::
  "(nat \<Rightarrow> byte list option) \<Rightarrow> aead option \<Rightarrow> gotime \<Rightarrow> create_source_request \<Rightarrow> string + source_config" where
  "buildCreateConfig rand cipher now body =
     (if cqType body = [] then Inl ''type is required''
      else if cqChainID body = 0 then Inl ''chain_id is required''
      else
        let cfg = \<lparr>scID = sourceKey (cqType body) (cqChainID body), scChainID = cqChainID body, scType = cqType body,
              scEndpoint = cqEndpoint body, scSecretCiphertext = [], scSecretNonce = [], scOptions = cqOptions body,
              scEnabled = (case cqEnabled body of None \<Rightarrow> True | Some b \<Rightarrow> b), scCreatedAt = now, scUpdatedAt = now\<rparr>
        in if cqAPIKey body \<noteq> [] then sealKey rand cipher (cqAPIKey body) cfg else Inr cfg)"

definition applyUpdate ::
  "(nat \<Rightarrow> byte list option) \<Rightarrow> aead option \<Rightarrow> gotime \<Rightarrow> update_source_request \<Rightarrow> source_config
   \<Rightarrow> string + source_config" where
  "applyUpdate rand cipher now body current =
     (let c1 = (case uqEndpoint body of None \<Rightarrow> current | Some e \<Rightarrow> current\<lparr>scEndpoint := e\<rparr>);
          c2 = (case uqOptions body of None \<Rightarrow> c1 | Some opts \<Rightarrow> c1\<lparr>scOptions := Some opts\<rparr>);
          c3 = (case uqEnabled body of None \<Rightarrow> c2 | Some b \<Rightarrow> c2\<lparr>scEnabled := b\<rparr>)
      in map_sum id (\<lambda>c. c\<lparr>scUpdatedAt := now\<rparr>)
        (if uqClearSecret body then Inr (c3\<lparr>scSecretCiphertext := [], scSecretNonce := []\<rparr>)
         else case uqAPIKey body of
           None \<Rightarrow> Inr c3
         | Some key \<Rightarrow> if key \<noteq> [] then sealKey rand cipher key c3 else Inr c3))"

definition listSources ::
  "'w source_config_repository \<Rightarrow> uint64 \<Rightarrow> ('w, http_error + source_config_view items_response) state" where
  "listSources repo cid =
     do {
       res \<leftarrow> SrcRepo_ListByChain repo cid False;
       State_Monad.return
         (map_sum MapError (\<lambda>rows. \<lparr>irItems = map ToSourceConfigView rows, irTotal = int (length rows)\<rparr>) res)
     }"

definition getSource :: "'w source_config_repository \<Rightarrow> string \<Rightarrow> ('w, http_error + source_config_view) state" where
  "getSource repo i =
     do {
       res \<leftarrow> SrcRepo_FindByID repo i;
       State_Monad.return (map_sum MapError ToSourceConfigView res)
     }"

definition saveConfig ::
  "'w source_config_repository \<Rightarrow> string + source_config \<Rightarrow> ('w, http_error + source_config_view) state" where
  "saveConfig repo built =
     (case built of
        Inl e \<Rightarrow> State_Monad.return (Inl (BadRequest (CauseText e)))
      | Inr cfg \<Rightarrow>
          do {
            err \<leftarrow> SrcRepo_Save repo cfg;
            State_Monad.return (case err of Some e \<Rightarrow> Inl (MapError e) | None \<Rightarrow> Inr (ToSourceConfigView cfg))
          })"

definition createSource ::
  "'w api_env \<Rightarrow> 'w source_config_repository \<Rightarrow> 'w sources_deps \<Rightarrow> create_source_request
   \<Rightarrow> ('w, http_error + source_config_view) state" where
  "createSource env repo d body =
     do {
       now \<leftarrow> clockOrNow env (sodClock d);
       rand \<leftarrow> aeEntropy env;
       saveConfig repo (buildCreateConfig rand (sodCipher d) now body)
     }"

definition updateSource ::
  "'w api_env \<Rightarrow> 'w source_config_repository \<Rightarrow> 'w sources_deps \<Rightarrow> string \<Rightarrow> update_source_request
   \<Rightarrow> ('w, http_error + source_config_view) state" where
  "updateSource env repo d i body =
     do {
       res \<leftarrow> SrcRepo_FindByID repo i;
       (case res of
          Inl e \<Rightarrow> State_Monad.return (Inl (MapError e))
        | Inr existing \<Rightarrow>
            do {
              now \<leftarrow> clockOrNow env (sodClock d);
              rand \<leftarrow> aeEntropy env;
              saveConfig repo (applyUpdate rand (sodCipher d) now body existing)
            })
     }"

definition deleteSource :: "'w source_config_repository \<Rightarrow> string \<Rightarrow> ('w, http_error + unit) state" where
  "deleteSource repo i =
     do {
       err \<leftarrow> SrcRepo_Delete repo i;
       State_Monad.return (case err of Some e \<Rightarrow> Inl (MapError e) | None \<Rightarrow> Inr ())
     }"

definition sourceCapabilities ::
  "'w source_gateway \<Rightarrow> string \<Rightarrow> ('w, http_error + source_capability_matrix) state" where
  "sourceCapabilities gw i =
     do {
       res \<leftarrow> Gateway_Get gw i;
       State_Monad.return (map_sum MapError ToSourceCapabilityMatrix res)
     }"

section \<open>Chains and health (\<open>chains.go\<close>, \<open>health.go\<close>)\<close>

definition listChains :: "chain_view list \<Rightarrow> chain_view items_response" where
  "listChains catalog = \<lparr>irItems = catalog, irTotal = int (length catalog)\<rparr>"

text \<open>A readiness check returns the text of its error.\<close>

definition healthReady :: "('w, string option) state option \<Rightarrow> ('w, http_error + string) state" where
  "healthReady readiness =
     (case readiness of
        None \<Rightarrow> State_Monad.return (Inr ''ok'')
      | Some check \<Rightarrow>
          do {
            err \<leftarrow> check;
            State_Monad.return
              (case err of Some e \<Rightarrow> Inl \<lparr>heStatus = 503, heCause = CauseText e\<rparr> | None \<Rightarrow> Inr ''ok'')
          })"

section \<open>Registration (\<open>Register...\<close>, \<open>mountAPI\<close>)\<close>

datatype api_input =
    InNone
  | InID string
  | InCreateRun create_run_request
  | InListRuns list_runs_input
  | InCreateSchedule create_schedule_request
  | InListDiffs list_diffs_input
  | InListSources uint64
  | InCreateSource create_source_request
  | InUpdateSource string update_source_request

datatype api_body =
    OutNone
  | OutHealth string
  | OutRunCreated create_run_response
  | OutRun run_view
  | OutRuns "run_view list_response"
  | OutDiff diff_view
  | OutDiffs "diff_view list_response"
  | OutReplay replay_diff_response
  | OutScheduleCreated create_schedule_response
  | OutSchedules "schedule_view items_response"
  | OutSource source_config_view
  | OutSources "source_config_view items_response"
  | OutCapabilities source_capability_matrix
  | OutTypes "string list"
  | OutChains "chain_view items_response"

record operation =
  opID :: string
  opMethod :: string
  opPath :: string
  opDefaultStatus :: nat

record 'w route =
  rtOp :: operation
  rtHandle :: "api_input \<Rightarrow> ('w, (http_error + api_body) option) state"

text \<open>A handler has its own input type; one sum type stands for all of them here, and an input of another
  operation's type, which huma never passes on, is refused as huma refuses a request it cannot decode.\<close>

definition unprocessable :: "('w, (http_error + api_body) option) state" where
  "unprocessable = State_Monad.return (Some (Inl \<lparr>heStatus = 422, heCause = CauseText ''validation failed''\<rparr>))"

definition answers :: "('a \<Rightarrow> api_body) \<Rightarrow> ('w, http_error + 'a) state \<Rightarrow> ('w, (http_error + api_body) option) state" where
  "answers out m = do { res \<leftarrow> m; State_Monad.return (Some (map_sum id out res)) }"

definition onID ::
  "(string \<Rightarrow> ('w, (http_error + api_body) option) state) \<Rightarrow> api_input \<Rightarrow> ('w, (http_error + api_body) option) state" where
  "onID h inp = (case inp of InID i \<Rightarrow> h i | _ \<Rightarrow> unprocessable)"

definition mkRoute ::
  "string \<Rightarrow> string \<Rightarrow> string \<Rightarrow> nat \<Rightarrow> (api_input \<Rightarrow> ('w, (http_error + api_body) option) state) \<Rightarrow> 'w route" where
  "mkRoute i meth path status h =
     \<lparr>rtOp = \<lparr>opID = i, opMethod = meth, opPath = path, opDefaultStatus = status\<rparr>, rtHandle = h\<rparr>"

definition RegisterHealth :: "('w, string option) state option \<Rightarrow> 'w route list" where
  "RegisterHealth readiness =
     [mkRoute ''health-live'' ''GET'' ''/healthz'' 200 (\<lambda>_. State_Monad.return (Some (Inr (OutHealth ''ok'')))),
      mkRoute ''health-ready'' ''GET'' ''/readyz'' 200 (\<lambda>_. answers OutHealth (healthReady readiness))]"

definition RegisterRuns :: "'w api_env \<Rightarrow> 'w runs_deps \<Rightarrow> 'w route list" where
  "RegisterRuns env d =
     (case rdpSchedule d of
        None \<Rightarrow> []
      | Some uc \<Rightarrow>
          [mkRoute ''create-run'' ''POST'' ''/runs'' 201
             (\<lambda>inp. case inp of InCreateRun body \<Rightarrow> answers OutRunCreated (createRun env uc body) | _ \<Rightarrow> unprocessable)]) @
     [mkRoute ''get-run'' ''GET'' ''/runs/{id}'' 200 (onID (\<lambda>i. answers OutRun (getRun env (rdpQuery d) i))),
      mkRoute ''list-runs'' ''GET'' ''/runs'' 200
        (\<lambda>inp. case inp of InListRuns q \<Rightarrow> answers OutRuns (listRuns env (rdpQuery d) q) | _ \<Rightarrow> unprocessable)] @
     (case rdpCancel d of
        None \<Rightarrow> []
      | Some uc \<Rightarrow>
          [mkRoute ''cancel-run'' ''POST'' ''/runs/{id}/cancel'' 204 (onID (\<lambda>i. answers (\<lambda>_. OutNone) (cancelRun uc i)))])"

definition RegisterDiffs :: "'w api_env \<Rightarrow> 'w diffs_deps \<Rightarrow> 'w route list" where
  "RegisterDiffs env d =
     [mkRoute ''get-diff'' ''GET'' ''/diffs/{id}'' 200 (onID (\<lambda>i. answers OutDiff (getDiff env (ddpQuery d) i))),
      mkRoute ''list-diffs'' ''GET'' ''/diffs'' 200
        (\<lambda>inp. case inp of InListDiffs q \<Rightarrow> answers OutDiffs (listDiffs env (ddpQuery d) q) | _ \<Rightarrow> unprocessable),
      mkRoute ''get-run-diffs'' ''GET'' ''/runs/{id}/diffs'' 200
        (onID (\<lambda>i. answers OutDiffs (getRunDiffs env (ddpQuery d) i)))] @
     (case ddpReplay d of
        None \<Rightarrow> []
      | Some uc \<Rightarrow>
          [mkRoute ''replay-diff'' ''POST'' ''/diffs/{id}/replay'' 200 (onID (\<lambda>i. answers OutReplay (replayDiff env uc i)))])"

definition RegisterSchedules :: "'w api_env \<Rightarrow> 'w schedules_deps \<Rightarrow> 'w route list" where
  "RegisterSchedules env d =
     (case sdpSchedule d of
        None \<Rightarrow> []
      | Some uc \<Rightarrow>
          [mkRoute ''create-schedule'' ''POST'' ''/schedules'' 201
             (\<lambda>inp. case inp of
                InCreateSchedule body \<Rightarrow> answers OutScheduleCreated (createSchedule env uc body) | _ \<Rightarrow> unprocessable)]) @
     [mkRoute ''list-schedules'' ''GET'' ''/schedules'' 200
        (\<lambda>_. do {
           res \<leftarrow> listSchedules (sdpQuery d);
           State_Monad.return (map_option (map_sum id OutSchedules) res)
         })] @
     (case sdpDispatcher d of
        None \<Rightarrow> []
      | Some cancel \<Rightarrow>
          [mkRoute ''cancel-schedule'' ''DELETE'' ''/schedules/{id}'' 204
             (onID (\<lambda>i. answers (\<lambda>_. OutNone) (cancelSchedule cancel i)))])"

definition registerSourceTypes :: "string list \<Rightarrow> 'w route list" where
  "registerSourceTypes types =
     [mkRoute ''list-source-types'' ''GET'' ''/sources/types'' 200 (\<lambda>_. State_Monad.return (Some (Inr (OutTypes types))))]"

definition registerSourceCRUD ::
  "'w api_env \<Rightarrow> 'w source_config_repository \<Rightarrow> 'w sources_deps \<Rightarrow> 'w route list" where
  "registerSourceCRUD env repo d =
     [mkRoute ''list-sources'' ''GET'' ''/sources'' 200
        (\<lambda>inp. case inp of InListSources cid \<Rightarrow> answers OutSources (listSources repo cid) | _ \<Rightarrow> unprocessable),
      mkRoute ''get-source'' ''GET'' ''/sources/{id}'' 200 (onID (\<lambda>i. answers OutSource (getSource repo i))),
      mkRoute ''create-source'' ''POST'' ''/sources'' 201
        (\<lambda>inp. case inp of InCreateSource body \<Rightarrow> answers OutSource (createSource env repo d body) | _ \<Rightarrow> unprocessable),
      mkRoute ''update-source'' ''PUT'' ''/sources/{id}'' 200
        (\<lambda>inp. case inp of InUpdateSource i body \<Rightarrow> answers OutSource (updateSource env repo d i body) | _ \<Rightarrow> unprocessable),
      mkRoute ''delete-source'' ''DELETE'' ''/sources/{id}'' 204
        (onID (\<lambda>i. answers (\<lambda>_. OutNone) (deleteSource repo i)))]"

definition registerSourceCapabilities :: "'w source_gateway \<Rightarrow> 'w route list" where
  "registerSourceCapabilities gw =
     [mkRoute ''get-source-capabilities'' ''GET'' ''/sources/{id}/capabilities'' 200
        (onID (\<lambda>i. answers OutCapabilities (sourceCapabilities gw i)))]"

definition RegisterSources :: "'w api_env \<Rightarrow> 'w sources_deps \<Rightarrow> 'w route list" where
  "RegisterSources env d =
     (case sodRepo d of None \<Rightarrow> [] | Some repo \<Rightarrow> registerSourceCRUD env repo d) @
     (case sodGateway d of None \<Rightarrow> [] | Some gw \<Rightarrow> registerSourceCapabilities gw) @
     (if 0 < length (sodTypes d) then registerSourceTypes (sodTypes d) else [])"

definition RegisterChains :: "chain_view list \<Rightarrow> 'w route list" where
  "RegisterChains catalog =
     [mkRoute ''list-chains'' ''GET'' ''/chains'' 200 (\<lambda>_. State_Monad.return (Some (Inr (OutChains (listChains catalog)))))]"

record 'w api_deps =
  depHealth :: "('w, string option) state option"
  depRuns :: "'w runs_deps"
  depDiffs :: "'w diffs_deps"
  depSchedules :: "'w schedules_deps"
  depSources :: "'w sources_deps"
  depChains :: "chain_view list"

definition mountAPI :: "'w api_env \<Rightarrow> 'w api_deps \<Rightarrow> 'w route list" where
  "mountAPI env deps =
     RegisterHealth (depHealth deps) @ RegisterRuns env (depRuns deps) @ RegisterDiffs env (depDiffs deps) @
     RegisterSchedules env (depSchedules deps) @ RegisterSources env (depSources deps) @ RegisterChains (depChains deps)"

section \<open>The server (\<open>server.go\<close>, \<open>middleware.go\<close>)\<close>

text \<open>A request after routing: method, path pattern, the header \<open>X-Request-ID\<close> (empty when it is missing) and the
  decoded input. A handler of the server returns \<open>None\<close> when it panics.\<close>

record server_request =
  svqMethod :: string
  svqPath :: string
  svqRequestID :: string
  svqInput :: api_input

record server_response =
  svpStatus :: nat
  svpRequestID :: string
  svpBody :: "http_cause + api_body"

type_synonym 'w server_handler = "server_request \<Rightarrow> ('w, server_response option) state"

definition newRequestID :: "('w, byte list option) state \<Rightarrow> 'w clock \<Rightarrow> ('w, string) state" where
  "newRequestID rand clk =
     do {
       buf \<leftarrow> rand;
       (case buf of
          None \<Rightarrow> do { now \<leftarrow> clk; State_Monad.return (''req-'' @ FormatInt 10 now) }
        | Some b \<Rightarrow> State_Monad.return (EncodeToString b))
     }"

text \<open>The id is put in the context of the request, and in the header of the response before the handler runs.\<close>

definition requestIDMiddleware :: "('w, byte list option) state \<Rightarrow> 'w clock \<Rightarrow> 'w server_handler \<Rightarrow> 'w server_handler" where
  "requestIDMiddleware rand clk handler r =
     do {
       i \<leftarrow> (if svqRequestID r = [] then newRequestID rand clk else State_Monad.return (svqRequestID r));
       out \<leftarrow> handler (r\<lparr>svqRequestID := i\<rparr>);
       State_Monad.return (map_option (\<lambda>p. p\<lparr>svpRequestID := i\<rparr>) out)
     }"

record log_entry =
  leMethod :: string
  lePath :: string
  leStatus :: nat
  leRequestID :: string
  leDurationMS :: int

datatype log_line = RequestLine log_entry | PanicLine

text \<open>A panic of the handler passes through, so that nothing is logged here then.\<close>

definition loggingMiddleware ::
  "'w clock \<Rightarrow> (log_line \<Rightarrow> ('w, unit) state) option \<Rightarrow> 'w server_handler \<Rightarrow> 'w server_handler" where
  "loggingMiddleware clk logger handler r =
     (case logger of
        None \<Rightarrow> handler r
      | Some emit \<Rightarrow>
          do {
            start \<leftarrow> clk;
            out \<leftarrow> handler r;
            (case out of
               None \<Rightarrow> State_Monad.return None
             | Some p \<Rightarrow>
                 do {
                   now \<leftarrow> clk;
                   _ \<leftarrow> emit (RequestLine \<lparr>leMethod = svqMethod r, lePath = svqPath r, leStatus = svpStatus p,
                          leRequestID = svqRequestID r, leDurationMS = (now - start) div 1000000\<rparr>);
                   State_Monad.return (Some p)
                 })
          })"

definition recoverMiddleware :: "(log_line \<Rightarrow> ('w, unit) state) option \<Rightarrow> 'w server_handler \<Rightarrow> 'w server_handler" where
  "recoverMiddleware logger handler r =
     do {
       out \<leftarrow> handler r;
       (case out of
          Some p \<Rightarrow> State_Monad.return (Some p)
        | None \<Rightarrow>
            do {
              _ \<leftarrow> (case logger of None \<Rightarrow> State_Monad.return () | Some emit \<Rightarrow> emit PanicLine);
              State_Monad.return (Some \<lparr>svpStatus = 500, svpRequestID = [], svpBody = Inl (CauseText ''internal server error'')\<rparr>)
            })
     }"

text \<open>How a response shows the result of a handler: the error with its status, or the body with the default status of the
  operation.\<close>

definition toResponse :: "operation \<Rightarrow> http_error + api_body \<Rightarrow> server_response" where
  "toResponse oper res =
     (case res of
        Inl e \<Rightarrow> \<lparr>svpStatus = heStatus e, svpRequestID = [], svpBody = Inl (heCause e)\<rparr>
      | Inr b \<Rightarrow> \<lparr>svpStatus = opDefaultStatus oper, svpRequestID = [], svpBody = Inr b\<rparr>)"

definition corsMethods :: "string list" where
  "corsMethods = [''GET'', ''POST'', ''DELETE'', ''OPTIONS'']"

text \<open>\<open>mux\<close> is the router of chi with the operations registered by huma.\<close>

definition NewServer ::
  "'w api_env \<Rightarrow> ('w route list \<Rightarrow> 'w server_handler) \<Rightarrow> (log_line \<Rightarrow> ('w, unit) state) option \<Rightarrow> 'w api_deps
   \<Rightarrow> 'w server_handler" where
  "NewServer env mux logger deps =
     requestIDMiddleware (aeRand env) (aeNow env)
       (recoverMiddleware logger (loggingMiddleware (aeNow env) logger (mux (mountAPI env deps))))"

end
