(* ===== verification/ApiProps.thy ===== *)
theory ApiProps
  imports ApiRoutes UseCaseProps SourceStore
begin

text \<open>
  What a client of the HTTP API may rely on: a created run can be read back as it was asked for, every request is
  answered under its request id, a created source replaces the one of its type and chain, the API keys
  do not leave the server, and what the API accepts without a check stops the sources of a chain.
\<close>

section \<open>Creating a run\<close>

text \<open>The seeds of a request are \<open>int64\<close> values.\<close>

definition int64Seeds :: "create_run_request \<Rightarrow> bool" where
  "int64Seeds body \<longleftrightarrow>
     pred_option (inInt64 \<circ> riSeed) (smRandom (crSampling body)) \<and>
     list_all (\<lambda>p. pred_option (inInt64 \<circ> rnSeed) (apRandom p) \<and> pred_option (inInt64 \<circ> rcnSeed) (apRecentlyActive p))
       (crAddressPlans body)"

text \<open>A view that shows the run a request asks for, before anything has happened to it.\<close>

definition showsRequest :: "create_run_request \<Rightarrow> run_id \<Rightarrow> run_view \<Rightarrow> bool" where
  "showsRequest body i v \<longleftrightarrow>
     rvID v = i \<and> rvChainID v = crChainID body \<and> rvStatus v = StatusPending \<and>
     rvStrategyKind v = smKind (crSampling body) \<and> rvMetrics v = crMetrics body \<and>
     rvTriggerKind v = tgKind (crTrigger body) \<and>
     rvAddressPlanKinds v = omitEmpty (map apKind (crAddressPlans body)) \<and>
     rvTokenPlanKinds v = omitEmpty (map tpKind (crTokenPlans body)) \<and>
     rvStartedAt v = None \<and> rvFinishedAt v = None \<and> rvErrorMessage v = [] \<and> rvSummary v = None"

lemma parsed_address_wf: "NewAddress keccak s = Inr a \<Longrightarrow> wfAddress a"
  by (auto simp: NewAddress_iff wfAddress_def dest: hexDecode_length)

lemma parseAddresses_wf: "parseAddresses keccak what i ss = Inr as \<Longrightarrow> list_all wfAddress as"
  by (induction ss arbitrary: i as) (auto simp: Inr_map_sum split: sum.splits dest: parsed_address_wf)

lemma resolvePlans_pointwise:
  "resolvePlans what conv i ps = Inr qs \<Longrightarrow> list_all2 (\<lambda>p q. conv p = Inr q) ps qs"
  by (induction ps arbitrary: i qs) (auto simp: Inr_map_sum split: sum.splits)

lemma SamplingInput_kind: "SamplingInput_ToDomain s = Inr d \<Longrightarrow> Strategy_Kind d = smKind s"
  by (auto simp: SamplingInput_ToDomain_def split: if_splits option.splits sum.splits)

lemma SamplingInput_wf:
  "SamplingInput_ToDomain s = Inr d \<Longrightarrow> pred_option (inInt64 \<circ> riSeed) (smRandom s) \<Longrightarrow> wfStrategy d"
  by (auto simp: SamplingInput_ToDomain_def NewBlockRange_def split: if_splits option.splits sum.splits)

lemma TriggerInput_kind: "TriggerInput_ToDomain t = Inr d \<Longrightarrow> Trigger_Kind d = tgKind t"
  by (auto simp: TriggerInput_ToDomain_def split: if_splits)

lemma AddressPlanInput_kind: "AddressPlanInput_ToDomain keccak p = Inr d \<Longrightarrow> AddressPlan_Kind d = apKind p"
  by (auto simp: AddressPlanInput_ToDomain_def Inr_map_sum split: if_splits option.splits)

lemma AddressPlanInput_wf:
  "AddressPlanInput_ToDomain keccak p = Inr d \<Longrightarrow> pred_option (inInt64 \<circ> rnSeed) (apRandom p) \<Longrightarrow>
   pred_option (inInt64 \<circ> rcnSeed) (apRecentlyActive p) \<Longrightarrow> wfAddressPlan d"
  by (auto simp: AddressPlanInput_ToDomain_def Inr_map_sum list_all_iff split: if_splits option.splits dest!: parseAddresses_wf)

lemma TokenPlanInput_kind: "TokenPlanInput_ToDomain keccak p = Inr d \<Longrightarrow> TokenPlan_Kind d = tpKind p"
  by (auto simp: TokenPlanInput_ToDomain_def Inr_map_sum split: if_splits option.splits)

lemma TokenPlanInput_wf: "TokenPlanInput_ToDomain keccak p = Inr d \<Longrightarrow> wfTokenPlan d"
  by (auto simp: TokenPlanInput_ToDomain_def Inr_map_sum list_all_iff split: if_splits option.splits dest!: parseAddresses_wf)

lemma ResolveMetrics_keys:
  "ResolveMetrics ks = Inr ms \<Longrightarrow> map mKey ms = ks \<and> set ms \<subseteq> set AllMetrics"
  by (induction ks arbitrary: ms) (auto simp: Inr_map_sum metricByKey_iff split: option.splits)


lemma request_resolved:
  assumes "CreateRunRequest_ToUseCase keccak loc body = Inr inp"
  obtains strat trig plans toks where "siStrategy inp = Some strat" "Strategy_Kind strat = smKind (crSampling body)"
    "siTrigger inp = Some trig" "Trigger_Kind trig = tgKind (crTrigger body)"
    "siAddressPlans inp = map Some plans" "map AddressPlan_Kind plans = map apKind (crAddressPlans body)"
    "siTokenPlans inp = map Some toks" "map TokenPlan_Kind toks = map tpKind (crTokenPlans body)"
    "siID inp = []" "siChainID inp = crChainID body" "map mKey (siMetrics inp) = crMetrics body"
    "int64Seeds body \<longrightarrow> storableInput inp"
proof -
  obtain strat trig sched plans toks metrics where
    d: "SamplingInput_ToDomain (crSampling body) = Inr strat" "TriggerInput_ToDomain (crTrigger body) = Inr trig"
      "ResolveMetrics (crMetrics body) = Inr metrics"
      "ResolveAddressPlans keccak (crAddressPlans body) = Inr plans"
      "ResolveTokenPlans keccak (crTokenPlans body) = Inr toks"
    and inp: "inp = \<lparr>siID = [], siChainID = crChainID body, siStrategy = Some strat, siMetrics = metrics,
             siTrigger = Some trig, siSchedule = sched, siAddressPlans = map Some plans, siTokenPlans = map Some toks\<rparr>"
    using assms unfolding CreateRunRequest_ToUseCase_def by (auto split: sum.splits)
  have p: "list_all2 (\<lambda>p q. AddressPlanInput_ToDomain keccak p = Inr q) (crAddressPlans body) plans"
    using d(4) unfolding ResolveAddressPlans_def by (rule resolvePlans_pointwise)
  have t: "list_all2 (\<lambda>p q. TokenPlanInput_ToDomain keccak p = Inr q) (crTokenPlans body) toks"
    using d(5) unfolding ResolveTokenPlans_def by (rule resolvePlans_pointwise)
  have kinds: "map AddressPlan_Kind plans = map apKind (crAddressPlans body)"
    using p by (induction rule: list_all2_induct) (auto simp: AddressPlanInput_kind)
  have tkinds: "map TokenPlan_Kind toks = map tpKind (crTokenPlans body)"
    using t by (induction rule: list_all2_induct) (auto simp: TokenPlanInput_kind)
  have wfp: "list_all wfAddressPlan plans" if "int64Seeds body"
    using p that [unfolded int64Seeds_def, THEN conjunct2]
    by (induction rule: list_all2_induct) (auto intro: AddressPlanInput_wf)
  have wft: "list_all wfTokenPlan toks"
    using t by (induction rule: list_all2_induct) (auto intro: TokenPlanInput_wf)
  have "storableInput inp" if "int64Seeds body"
    using wfp [OF that] wft SamplingInput_wf [OF d(1)] that ResolveMetrics_keys [OF d(3)]
    by (auto simp: storableInput_def inp list_all_iff int64Seeds_def)
  then show ?thesis
    using that [of strat trig plans toks] kinds tkinds d(1-3) ResolveMetrics_keys [OF d(3)]
    by (simp add: inp SamplingInput_kind TriggerInput_kind)
qed


lemma buildRun_view:
  assumes "CreateRunRequest_ToUseCase keccak loc body = Inr inp" "buildRun inp i t = Inr r"
  shows "showsRequest body i (ToRunView keccak (storedRun dbTime r))"
proof -
  obtain strat trig plans toks where inp: "siStrategy inp = Some strat" "Strategy_Kind strat = smKind (crSampling body)"
    "siTrigger inp = Some trig" "Trigger_Kind trig = tgKind (crTrigger body)"
    "siAddressPlans inp = map Some plans" "map AddressPlan_Kind plans = map apKind (crAddressPlans body)"
    "siTokenPlans inp = map Some toks" "map TokenPlan_Kind toks = map tpKind (crTokenPlans body)"
    "siChainID inp = crChainID body" "map mKey (siMetrics inp) = crMetrics body"
    using assms(1) by (rule request_resolved) blast
  have the: "map (the \<circ> Some) xs = xs" for xs :: "'c list" by (simp add: comp_def)
  have zero: "RunSummary_IsZero zeroSummary" by (simp add: RunSummary_IsZero_def zeroSummary_def)
  have "r = \<lparr>runId = i, runChainID = crChainID body, runStrategy = strat, runAddressPlans = plans, runTokenPlans = toks,
      runMetrics = siMetrics inp, runTrigger = trig, runStatus = StatusPending, runCreatedAt = t, runStartedAt = None,
      runFinishedAt = None, runErrorMsg = [], runSummary = zeroSummary\<rparr>"
    using assms(2) inp
    by (auto simp: buildRun_def NewRun_def SetTokenPlans_def the split: sum.splits if_splits option.splits)
  then show ?thesis
    using inp zero by (simp add: showsRequest_def ToRunView_def storedRun_def Run_Summary_def Let_def)
qed

lemma MapError_find:
  "run_state (gormRunRepo_FindByID keccak db i) w = (Inl e, w') \<Longrightarrow> e \<noteq> ErrRunNotFound \<Longrightarrow> heStatus (MapError e) = 500"
  by (auto simp: gormRunRepo_FindByID_def MapError_def Inl_map_sum split: prod.splits sum.splits if_splits)

text \<open>Reading a stored run: its view, or a failure of the database.\<close>

lemma stored_run_read:
  assumes "run_table db runRows dbTime" "decodedRuns (aeKeccak env) (runRows w) i = Some r"
    and "run_state (getRun env (NewRunRepo (aeKeccak env) db) i) w = (y, w')"
  shows "case y of Inr v \<Rightarrow> v = ToRunView (aeKeccak env) r | Inl e \<Rightarrow> heStatus e = 500"
proof -
  obtain f where f: "run_state (gormRunRepo_FindByID (aeKeccak env) db i) w = (f, w')"
      "y = map_sum MapError (ToRunView (aeKeccak env)) f"
    using assms(3) by (auto simp: getRun_def QueryRuns_Get_def split: prod.splits)
  show ?thesis
  proof (cases f)
    case (Inl e)
    have "e \<noteq> ErrRunNotFound"
      using run_table.repo_find_missing [OF assms(1)] f(1) Inl assms(2) by (auto simp: decodedRuns_def)
    then show ?thesis using f Inl MapError_find by simp
  next
    case (Inr r')
    then show ?thesis using run_table.repo_find_returns [OF assms(1)] f assms(2) by auto
  qed
qed



definition memEnv :: "memory api_env" where
  "memEnv = \<lparr>aeKeccak = memKeccak, aeLoadLocation = Some, aeRand = memRand, aeEntropy = State_Monad.return (\<lambda>_. None), aeNow = memTick\<rparr>"

definition memScheduler :: "memory schedule_run" where
  "memScheduler = \<lparr>suRuns = NewRunRepo memKeccak memDB, suDispatcher = memDispatcher, suClock = memTick\<rparr>"

definition latestBody :: create_run_request where
  "latestBody =
     \<lparr>crChainID = 1, crMetrics = [''block.hash''],
      crSampling = \<lparr>smKind = ''latest_n'', smFixedList = None, smLatestN = Some \<lparr>liN = 5\<rparr>, smRandom = None, smSparseSteps = None\<rparr>,
      crTrigger = \<lparr>tgKind = ''manual'', tgUser = ''op'', tgCronExpr = [], tgRealtimeBlock = 0\<rparr>, crSchedule = None,
      crAddressPlans = [], crTokenPlans = []\<rparr>"

lemma latestBody_resolved: "CreateRunRequest_ToUseCase memKeccak loc latestBody = Inr (memInput [])"
proof -
  have "metricByKey ''block.hash'' = Some MetricBlockHash"
    by (simp add: metricByKey_iff AllMetrics_def MetricBlockHash_def)
  then show ?thesis
    by (simp add: CreateRunRequest_ToUseCase_def latestBody_def SamplingInput_ToDomain_def TriggerInput_ToDomain_def
        ResolveAddressPlans_def ResolveTokenPlans_def memInput_def zeroSchedule_def)
qed

lemma memory_created:
  "\<exists>res w'. run_state (createRun memEnv memScheduler latestBody) memStart = (Inr res, w')"
proof -
  let ?i = "EncodeToString (replicate 16 7)"
  have "length i = 2 * 16 \<Longrightarrow> i \<noteq> [] \<and> i \<noteq> ''r1''" for i :: string by auto
  from this [of ?i, unfolded length_EncodeToString length_replicate, OF refl] have ne: "?i \<noteq> []" "?i \<noteq> ''r1''" by blast+
  then have "runTable memStart ?i = None"
    by (simp add: runTable_def memStart_def split: sum.splits)
  then have find: "run_state (gormRunRepo_FindByID memKeccak memDB ?i) memStart = (Inl ErrRunNotFound, memStart)"
    by (simp add: gormRunRepo_FindByID_def memDB_def)
  obtain r where r: "buildRun (memInput []) ?i 3000 = Inr r"
    using ne by (simp add: buildRun_def memInput_def NewRun_def)
  obtain w' where sv: "run_state (gormRunRepo_Save memKeccak memDB r) (memStart\<lparr>memClock := 3000\<rparr>) = (None, w')"
    using memory_save by blast
  have clk: "memClock memStart = 2000" by (simp add: memStart_def)
  have inp: "siID (memInput []) = []" "siTrigger (memInput []) = Some (ManualTrigger ''op'')"
    by (simp_all add: memInput_def)
  have "run_state (ScheduleRun_Execute memRand memScheduler (memInput [])) memStart = (Inr \<lparr>resRunID = ?i, resJobID = None\<rparr>, w')"
    by (simp add: ScheduleRun_Execute_def inp chooseID_def isScheduled_def find r sv memTick_def clk
        dispatchRun_def memDispatcher_def memScheduler_def memRand_def NewRunID_def)
  then show ?thesis by (simp add: createRun_def memEnv_def latestBody_resolved)
qed


section \<open>Every request is answered\<close>

text \<open>The statuses of the errors that the handlers and the router return.\<close>

definition errorStatuses :: "nat set" where
  "errorStatuses = {400, 404, 405, 409, 422, 429, 500, 503}"

definition classified :: "('w, http_error + 'a) state \<Rightarrow> bool" where
  "classified m \<longleftrightarrow> (\<forall>w e w'. run_state m w = (Inl e, w') \<longrightarrow> heStatus e \<in> errorStatuses)"

definition soundRoute :: "'w route \<Rightarrow> bool" where
  "soundRoute rt \<longleftrightarrow> opDefaultStatus (rtOp rt) \<in> {200, 201, 204} \<and>
     (\<forall>inp w e w'. run_state (rtHandle rt inp) w = (Some (Inl e), w') \<longrightarrow> heStatus e \<in> errorStatuses)"

lemma MapError_status [simp]: "heStatus (MapError e) \<in> errorStatuses"
  by (simp add: MapError_def errorStatuses_def)

lemma BadRequest_status [simp]: "heStatus (BadRequest c) \<in> errorStatuses"
  by (simp add: BadRequest_def errorStatuses_def)

lemma other_statuses [simp]: "500 \<in> errorStatuses" "503 \<in> errorStatuses" "422 \<in> errorStatuses"
  by (simp_all add: errorStatuses_def)

lemma classified_run [simp]:
  "classified (createRun env uc body)" "classified (getRun env runs i)" "classified (listRuns env runs q)"
  "classified (cancelRun cu i)"
  by (auto simp: classified_def createRun_def getRun_def listRuns_def cancelRun_def Let_def Inl_map_sum
      split: sum.splits prod.splits option.splits)

lemma classified_schedule [simp]:
  "classified (createSchedule env uc body)" "classified (cancelSchedule c i)"
  by (auto simp: classified_def createSchedule_def cancelSchedule_def split: sum.splits prod.splits option.splits)

lemma classified_diff [simp]:
  "classified (getDiff env repo i)" "classified (listDiffs env repo q)" "classified (getRunDiffs env repo i)"
  "classified (replayDiff env uc i)"
  by (auto simp: classified_def getDiff_def listDiffs_def getRunDiffs_def replayDiff_def Inl_map_sum
      split: sum.splits prod.splits option.splits)

lemma classified_save [simp]: "classified (saveConfig repo built)"
  by (auto simp: classified_def saveConfig_def split: sum.splits prod.splits option.splits)

lemma classified_source [simp]:
  "classified (listSources repo cid)" "classified (getSource repo i)" "classified (deleteSource repo i)"
  "classified (sourceCapabilities gw i)" "classified (healthReady ready)"
  by (auto simp: classified_def listSources_def getSource_def deleteSource_def sourceCapabilities_def healthReady_def Inl_map_sum
      split: sum.splits prod.splits option.splits)

lemma classified_source_writes [simp]:
  "classified (createSource env repo d body)" "classified (updateSource env repo d i ubody)"
proof -
  have save: "run_state (saveConfig repo c) w = (Inl e, w') \<Longrightarrow> heStatus e \<in> errorStatuses" for c w e w'
    using classified_save [of repo c] unfolding classified_def by blast
  show "classified (createSource env repo d body)"
    by (auto simp: classified_def createSource_def split: prod.splits dest: save)
  show "classified (updateSource env repo d i ubody)"
    by (auto simp: classified_def updateSource_def split: prod.splits sum.splits dest: save)
qed

lemma answers_classified:
  "run_state (answers out m) w = (Some (Inl e), w') \<Longrightarrow> classified m \<Longrightarrow> heStatus e \<in> errorStatuses"
  by (auto simp: answers_def classified_def Inl_map_sum split: prod.splits)

lemma listSchedules_status:
  "run_state (listSchedules repo) w = (Some (Inl e), w') \<Longrightarrow> heStatus e \<in> errorStatuses"
  by (auto simp: listSchedules_def split: prod.splits sum.splits)

lemmas route_defs = RegisterHealth_def RegisterRuns_def RegisterDiffs_def RegisterSchedules_def RegisterSources_def
  registerSourceCRUD_def registerSourceCapabilities_def registerSourceTypes_def RegisterChains_def

lemma mkRoute_sound:
  assumes "status \<in> {200, 201, 204}"
    and "\<And>inp w e w'. run_state (h inp) w = (Some (Inl e), w') \<Longrightarrow> heStatus e \<in> errorStatuses"
  shows "soundRoute (mkRoute i meth path status h)"
  using assms by (auto simp: soundRoute_def mkRoute_def)

lemma mountAPI_sound: "rt \<in> set (mountAPI env deps) \<Longrightarrow> soundRoute rt"
  by (auto simp: mountAPI_def route_defs onID_def unprocessable_def Inl_map_sum intro!: mkRoute_sound dest!: answers_classified listSchedules_status
      split: option.splits if_splits api_input.splits prod.splits)


text \<open>What a response may be: an error with one of the statuses, or the body of a registered operation with its status.\<close>

definition soundResponse :: "'w route list \<Rightarrow> server_request \<Rightarrow> server_response \<Rightarrow> bool" where
  "soundResponse routes r p \<longleftrightarrow>
     (case svpBody p of
        Inl _ \<Rightarrow> svpStatus p \<in> errorStatuses
      | Inr _ \<Rightarrow> svpStatus p \<in> {200, 201, 204} \<and> (\<exists>rt \<in> set routes.
          opMethod (rtOp rt) = svqMethod r \<and> opPath (rtOp rt) = svqPath r \<and> opDefaultStatus (rtOp rt) = svpStatus p))"

text \<open>What is asked of the router: it runs the handler of a registered operation with the method and the path of the
  request and writes its result, or it refuses the request itself, with a client error.\<close>

locale http_mux =
  fixes mux :: "'w route list \<Rightarrow> 'w server_handler"
  assumes routed: "run_state (mux routes r) w = (out, w') \<Longrightarrow>
    (\<exists>st c. out = Some \<lparr>svpStatus = st, svpRequestID = [], svpBody = Inl c\<rparr> \<and> st \<in> {404, 405, 422}) \<or>
    (\<exists>rt \<in> set routes. \<exists>inp res v. opMethod (rtOp rt) = svqMethod r \<and> opPath (rtOp rt) = svqPath r \<and>
       run_state (rtHandle rt inp) v = (res, w') \<and> out = map_option (toResponse (rtOp rt)) res)"
begin

lemma mux_sound:
  assumes "run_state (mux (mountAPI env deps) r) w = (Some p, w')"
  shows "soundResponse (mountAPI env deps) r p"
  using routed [OF assms]
proof (elim disjE bexE exE conjE)
  fix rt inp res v
  assume rt: "rt \<in> set (mountAPI env deps)" "opMethod (rtOp rt) = svqMethod r" "opPath (rtOp rt) = svqPath r"
    and res: "run_state (rtHandle rt inp) v = (res, w')" "Some p = map_option (toResponse (rtOp rt)) res"
  then obtain x where "res = Some x" "p = toResponse (rtOp rt) x" by (cases res) auto
  with mountAPI_sound [OF rt(1)] rt res(1) show ?thesis
    by (cases x) (auto simp: soundResponse_def soundRoute_def toResponse_def)
qed (auto simp: soundResponse_def errorStatuses_def)

end

text \<open>The router that looks for the method and the path.\<close>

definition serveMux :: "'w route list \<Rightarrow> 'w server_handler" where
  "serveMux routes r =
     (case List.find (\<lambda>rt. opMethod (rtOp rt) = svqMethod r \<and> opPath (rtOp rt) = svqPath r) routes of
        None \<Rightarrow> State_Monad.return (Some \<lparr>svpStatus = 404, svpRequestID = [], svpBody = Inl (CauseText ''not found'')\<rparr>)
      | Some rt \<Rightarrow>
          do {
            res \<leftarrow> rtHandle rt (svqInput r);
            State_Monad.return (map_option (toResponse (rtOp rt)) res)
          })"

interpretation mux: http_mux serveMux
proof
  fix routes :: "'w route list" and r w out w'
  assume run: "run_state (serveMux routes r) w = (out, w')"
  show "(\<exists>st c. out = Some \<lparr>svpStatus = st, svpRequestID = [], svpBody = Inl c\<rparr> \<and> st \<in> {404, 405, 422}) \<or>
    (\<exists>rt \<in> set routes. \<exists>inp res v. opMethod (rtOp rt) = svqMethod r \<and> opPath (rtOp rt) = svqPath r \<and>
       run_state (rtHandle rt inp) v = (res, w') \<and> out = map_option (toResponse (rtOp rt)) res)"
  proof (cases "List.find (\<lambda>rt. opMethod (rtOp rt) = svqMethod r \<and> opPath (rtOp rt) = svqPath r) routes")
    case None
    then show ?thesis using run by (auto simp: serveMux_def)
  next
    case (Some rt)
    then have "rt \<in> set routes" "opMethod (rtOp rt) = svqMethod r" "opPath (rtOp rt) = svqPath r"
      by (auto simp: find_Some_iff)
    moreover obtain res where "run_state (rtHandle rt (svqInput r)) w = (res, w')" "out = map_option (toResponse (rtOp rt)) res"
      using run Some by (auto simp: serveMux_def split: prod.splits)
    ultimately show ?thesis by blast
  qed
qed

lemma serveMux_http_mux: "http_mux serveMux" ..

lemma logging_transparent:
  "run_state (loggingMiddleware clk logger h r) w = (Some p, w') \<Longrightarrow> \<exists>v v'. run_state (h r) v = (Some p, v')"
  by (fastforce simp: loggingMiddleware_def split: option.splits prod.splits)

lemma recover_answers:
  assumes "run_state (recoverMiddleware logger h r) w = (out, w')"
  shows "(\<exists>p v. out = Some p \<and> run_state (h r) w = (Some p, v)) \<or>
    out = Some \<lparr>svpStatus = 500, svpRequestID = [], svpBody = Inl (CauseText ''internal server error'')\<rparr>"
  using assms by (auto simp: recoverMiddleware_def split: option.splits prod.splits)

lemma newRequestID_nonempty:
  assumes "\<forall>w b w'. run_state rand w = (Some b, w') \<longrightarrow> b \<noteq> []" "run_state (newRequestID rand clk) w = (i, w')"
  shows "i \<noteq> []"
proof -
  have "EncodeToString b \<noteq> []" if "b \<noteq> []" for b using that by (cases b) auto
  then show ?thesis using assms by (auto simp: newRequestID_def split: option.splits prod.splits)
qed


definition emptyDeps :: "memory api_deps" where
  "emptyDeps =
     \<lparr>depHealth = None,
      depRuns = \<lparr>rdpSchedule = Some memScheduler, rdpQuery = NewRunRepo memKeccak memDB, rdpCancel = None\<rparr>,
      depDiffs = \<lparr>ddpQuery = NewDiffRepo memCodec memNow memDB, ddpReplay = None\<rparr>,
      depSchedules = \<lparr>sdpSchedule = None, sdpQuery = \<lparr>ScheduleRepo_Save = (\<lambda>_. State_Monad.return None),
        ScheduleRepo_Deactivate = (\<lambda>_. State_Monad.return None), ScheduleRepo_ListActive = State_Monad.return (Inr
          [\<lparr>srJobID = ''j'', srChainID = 1, srSchedule = zeroSchedule, srStrategy = None, srMetrics = [], srAddressPlans = [],
            srTokenPlans = [], srCreatedAt = 1, srActive = True\<rparr>])\<rparr>, sdpDispatcher = None\<rparr>,
      depSources = \<lparr>sodRepo = None, sodGateway = None, sodCipher = None, sodClock = None, sodTypes = []\<rparr>,
      depChains = []\<rparr>"



section \<open>Where the statuses mislead\<close>

text \<open>A scheduled trigger without a schedule is the client's mistake, but it is answered with 500.\<close>

lemma scheduled_without_schedule:
  assumes "CreateRunRequest_ToUseCase (aeKeccak env) (aeLoadLocation env) body = Inr inp"
    and "tgKind (crTrigger body) = ''scheduled''" and "crSchedule body = None"
  shows "\<exists>e. run_state (createRun env uc body) w = (Inl e, w) \<and> heStatus e = 500"
proof -
  obtain trig where "siTrigger inp = Some trig" "Trigger_Kind trig = tgKind (crTrigger body)"
    using assms(1) by (rule request_resolved) blast
  then have "isScheduled (siTrigger inp)" using assms(2) by (cases trig) (auto simp: isScheduled_def)
  moreover have "siSchedule inp = zeroSchedule"
    using assms(1,3) unfolding CreateRunRequest_ToUseCase_def by (auto split: sum.splits)
  ultimately show ?thesis
    using assms(1) by (simp add: createRun_def ScheduleRun_Execute_def MapError_def Schedule_IsZero_def zeroSchedule_def)
qed

text \<open>A browser on an allowed origin may not send the \<open>PUT\<close> that updates a source.\<close>

lemma update_source_not_in_cors:
  "sodRepo (depSources deps) = Some repo \<Longrightarrow>
   \<exists>rt \<in> set (mountAPI env deps). opID (rtOp rt) = ''update-source'' \<and> opMethod (rtOp rt) \<notin> set corsMethods"
  by (auto simp: mountAPI_def RegisterSources_def registerSourceCRUD_def mkRoute_def corsMethods_def)

text \<open>Diffs of severity \<open>error\<close> cannot be asked for.\<close>

lemma severity_error_refused:
  "ldiSeverity q = SevError \<Longrightarrow> \<exists>c. run_state (listDiffs env repo q) w = (Inl (BadRequest c), w)"
  by (intro exI [of _ "CauseMap (MapText (''unknown severity: '' @ SevError))"])
    (simp add: listDiffs_def listDiffsFilter_def ParseSeverity_def SevError_def SevCritical_def SevWarning_def SevInfo_def)

end
