(* ===== verification/ApiSources.thy ===== *)
theory ApiSources
  imports ApiRoutes SourceStore
begin

text \<open>
  The routes under \<open>/sources\<close> over the table of sources: the id of a row is made of its type and chain, so that
  creating a source replaces the one that is there; an unknown type is stored and stops the chain; and the
  responses do not depend on the API keys.
\<close>

section \<open>The id of a source\<close>

lemma digitChar_not_dash:
  assumes "d < 10"
  shows "digitChar d \<noteq> CHR ''-''"
proof
  assume "digitChar d = CHR ''-''"
  then have "48 + d = of_char (CHR ''-'')" using of_char_digitChar [of d] assms by simp
  then show False by simp
qed

lemma dash_notin_FormatNat: "CHR ''-'' \<notin> set (FormatNat 10 n)"
proof
  assume "CHR ''-'' \<in> set (FormatNat 10 n)"
  then obtain x where "x \<in> set (fmtDigits 10 n)" "digitChar x = CHR ''-''" by (auto simp: FormatNat_def)
  then show False using fmtDigits_bounded [of 10 x n] digitChar_not_dash [of x] by simp
qed

lemma last_dash_unique:
  assumes "a @ x # s = b @ x # t" "x \<notin> set s" "x \<notin> set t"
  shows "a = b \<and> s = t"
proof -
  have "takeWhile (\<lambda>c. c \<noteq> x) (rev s @ x # u) = rev s" if "x \<notin> set s" for s u :: "'a list"
    using that by (simp add: takeWhile_tail) (metis set_rev takeWhile_eq_all_conv)
  from this [OF assms(2), of "rev a"] this [OF assms(3), of "rev b"] have "rev s = rev t"
    using arg_cong [OF assms(1), of rev] by simp
  then show ?thesis using assms(1) by simp
qed

lemma sourceKey_inj: "sourceKey k c = sourceKey k' c' \<longleftrightarrow> k = k' \<and> c = c'"
proof
  assume "sourceKey k c = sourceKey k' c'"
  then have "k @ CHR ''-'' # FormatNat 10 (unat c) = k' @ CHR ''-'' # FormatNat 10 (unat c')" by (simp add: sourceKey_def)
  from last_dash_unique [OF this dash_notin_FormatNat dash_notin_FormatNat] show "k = k' \<and> c = c'"
    by (simp add: FormatNat_inj word_unat_eq_iff)
qed simp

definition naturalRows :: "(string \<rightharpoonup> source_model) \<Rightarrow> bool" where
  "naturalRows rows \<longleftrightarrow> (\<forall>m \<in> ran rows. soID m = sourceKey (soType m) (soChainID m))"

text \<open>What the handlers make of a request.\<close>

lemma sealKey_fields:
  "sealKey rand cipher key cfg = Inr c \<Longrightarrow> \<exists>ct nonce. c = cfg\<lparr>scSecretCiphertext := ct, scSecretNonce := nonce\<rparr>"
  by (auto simp: sealKey_def split: option.splits sum.splits)

lemma buildCreateConfig_fields:
  assumes "buildCreateConfig rand cipher now body = Inr c"
  shows "scID c = sourceKey (cqType body) (cqChainID body)" "scType c = cqType body" "scChainID c = cqChainID body"
    and "scEndpoint c = cqEndpoint body" "scOptions c = cqOptions body" "scEnabled c \<longleftrightarrow> cqEnabled body \<noteq> Some False"
    and "HasSecret c \<Longrightarrow> cqAPIKey body \<noteq> []"
  using assms
  by (auto simp: buildCreateConfig_def Let_def HasSecret_def split: if_splits option.splits bool.splits dest!: sealKey_fields)

lemma applyUpdate_fields:
  assumes "applyUpdate rand cipher now body c = Inr c'"
  shows "scID c' = scID c" "scType c' = scType c" "scChainID c' = scChainID c"
  using assms
  by (auto simp: applyUpdate_def Let_def Inr_map_sum split: if_splits option.splits dest!: sealKey_fields)

locale source_api = source_table db tab floatText
  for db :: "'w source_db" and tab and floatText +
  fixes env :: "'w api_env" and d :: "'w sources_deps"
  assumes now_keeps: "run_state (clockOrNow env (sodClock d)) w = (t, w') \<Longrightarrow> tab w' = tab w"
    and entropy_keeps: "run_state (aeEntropy env) w = (r, w') \<Longrightarrow> tab w' = tab w"
begin

lemma saved_natural:
  assumes "run_state (SourceRepo_Save db c) w = (None, w')" "scID c = sourceKey (scType c) (scChainID c)" "naturalRows (tab w)"
  shows "naturalRows (tab w')"
proof -
  have "run_state (dbUpsertSource db (toSourceModel c)) w = (None, w')"
    using assms(1) by (auto simp: SourceRepo_Save_def split: prod.splits option.splits if_splits)
  from upsert_ok [OF this] obtain m' where m': "storedSource floatText (toSourceModel c) m'" "tab w' = (tab w)(scID c \<mapsto> m')"
    by (auto simp: toSourceModel_def)
  have "soID m' = sourceKey (soType m') (soChainID m')"
    using m'(1) assms(2) by (auto simp: storedSource_def toSourceModel_def)
  moreover have "ran (tab w') \<subseteq> insert m' (ran (tab w))" unfolding m'(2) by (auto simp: ran_def)
  ultimately show ?thesis using assms(3) unfolding naturalRows_def by blast
qed

lemma save_never_conflicts:
  assumes "run_state (SourceRepo_Save db c) w = (Some e, w')" "scID c = sourceKey (scType c) (scChainID c)" "naturalRows (tab w)"
  shows "heStatus (MapError e) = 500 \<and> tab w' = tab w"
proof -
  have "e \<noteq> ErrDuplicateSource" using save_failed(2) [OF assms(1)] assms(2,3) by (auto simp: naturalRows_def)
  then have "heStatus (MapError e) = 500"
    using assms(1) by (auto simp: SourceRepo_Save_def MapError_def split: prod.splits option.splits if_splits)
  then show ?thesis using save_failed(1) [OF assms(1)] by simp
qed

lemma created:
  assumes "run_state (createSource env (NewSourceRepo floatText db) d body) w = (x, w')"
  obtains v rand now where "tab v = tab w"
    "run_state (saveConfig (NewSourceRepo floatText db) (buildCreateConfig rand (sodCipher d) now body)) v = (x, w')"
proof -
  obtain now w2 where t: "run_state (clockOrNow env (sodClock d)) w = (now, w2)" by (rule prod.exhaust)
  obtain rand v where e: "run_state (aeEntropy env) w2 = (rand, v)" by (rule prod.exhaust)
  show ?thesis using that [of v rand now] assms now_keeps [OF t] entropy_keeps [OF e] t e by (simp add: createSource_def)
qed

lemma create_outcome:
  assumes "run_state (createSource env (NewSourceRepo floatText db) d body) w = (x, w')" "naturalRows (tab w)"
    and "decPairs (decAny floatText) (case cqOptions body of None \<Rightarrow> [] | Some opts \<Rightarrow> opts) \<noteq> None"
  shows "case x of
      Inr v \<Rightarrow> naturalRows (tab w') \<and> scvID v = sourceKey (cqType body) (cqChainID body) \<and>
        (\<exists>c. dir w' = (dir w)(scvID v \<mapsto> c) \<and> scID c = scvID v \<and> scType c = cqType body \<and> scChainID c = cqChainID body \<and>
           scEndpoint c = cqEndpoint body \<and> (scEnabled c \<longleftrightarrow> cqEnabled body \<noteq> Some False) \<and>
           (HasSecret c \<longrightarrow> cqAPIKey body \<noteq> []))
    | Inl e \<Rightarrow> tab w' = tab w \<and> heStatus e \<in> {400, 500}"
  using assms(1)
proof (rule created)
  fix v rand now
  assume v: "tab v = tab w"
    and s: "run_state (saveConfig (NewSourceRepo floatText db) (buildCreateConfig rand (sodCipher d) now body)) v = (x, w')"
  show ?thesis
  proof (cases "buildCreateConfig rand (sodCipher d) now body")
    case (Inl e)
    then show ?thesis using s v by (auto simp: saveConfig_def BadRequest_def)
  next
    case (Inr c)
    note f = buildCreateConfig_fields [OF Inr]
    have key: "scID c = sourceKey (scType c) (scChainID c)" using f(1-3) by simp
    obtain r where r: "run_state (SourceRepo_Save db c) v = (r, w')"
        "x = (case r of Some e \<Rightarrow> Inl (MapError e) | None \<Rightarrow> Inr (ToSourceConfigView c))"
      using s Inr by (auto simp: saveConfig_def NewSourceRepo_def split: prod.splits)
    show ?thesis
    proof (cases r)
      case (Some e)
      then show ?thesis using save_never_conflicts [of c v e w'] r key assms(2) v by simp
    next
      case None
      have "decOptions floatText (soOptions (toSourceModel c)) \<noteq> None"
        using assms(3) f(5) by (simp add: toSourceModel_def decOptions_def)
      then obtain c' where c': "sameConfig floatText c c'" "dir w' = (dir w)(scID c \<mapsto> c')"
        using saved [of c v w'] r(1) None v by auto
      have "HasSecret c' = HasSecret c" "scID c' = scID c" "scType c' = scType c" "scChainID c' = scChainID c"
          "scEndpoint c' = scEndpoint c" "scEnabled c' = scEnabled c"
        using c'(1) by (auto simp: sameConfig_def HasSecret_def)
      moreover have "naturalRows (tab w')" using saved_natural [of c v w'] r(1) None key assms(2) v by simp
      ultimately show ?thesis using r(2) None c'(2) f by (auto simp: ToSourceConfigView_def)
    qed
  qed
qed

lemma update_natural:
  assumes "run_state (updateSource env (NewSourceRepo floatText db) d i body) w = (x, w')" "naturalRows (tab w)"
  shows "naturalRows (tab w')"
proof -
  obtain f w1 where f: "run_state (SourceRepo_FindByID floatText db i) w = (f, w1)" by (rule prod.exhaust)
  note k = found(1) [OF f]
  show ?thesis
  proof (cases f)
    case (Inl e)
    then show ?thesis using assms f k by (auto simp: updateSource_def NewSourceRepo_def)
  next
    case (Inr c)
    have "dir w i = Some c" using found(2) f Inr by blast
    then obtain m where "tab w i = Some m" "toSourceConfig floatText m = Inr c"
      by (cases "tab w i") (auto simp: directory_def split: sum.splits)
    then have key: "scID c = sourceKey (scType c) (scChainID c)"
      using assms(2) by (auto simp: naturalRows_def ran_def toSourceConfig_def split: option.splits)
    obtain now w2 where t: "run_state (clockOrNow env (sodClock d)) w1 = (now, w2)" by (rule prod.exhaust)
    obtain rand v where e: "run_state (aeEntropy env) w2 = (rand, v)" by (rule prod.exhaust)
    have v: "tab v = tab w" "run_state (saveConfig (NewSourceRepo floatText db) (applyUpdate rand (sodCipher d) now body c)) v = (x, w')"
      using assms(1) f Inr now_keeps [OF t] entropy_keeps [OF e] k t e by (simp_all add: updateSource_def NewSourceRepo_def)
    show ?thesis
    proof (cases "applyUpdate rand (sodCipher d) now body c")
      case (Inl e)
      then show ?thesis using v assms(2) by (auto simp: saveConfig_def)
    next
      case u: (Inr c')
      have key': "scID c' = sourceKey (scType c') (scChainID c')" using applyUpdate_fields [OF u] key by simp
      obtain r where r: "run_state (SourceRepo_Save db c') v = (r, w')"
        using v(2) u by (auto simp: saveConfig_def NewSourceRepo_def split: prod.splits)
      then show ?thesis
        using saved_natural [OF _ key'] save_failed(1) assms(2) v(1) by (cases r) fastforce+
    qed
  qed
qed

lemma delete_natural:
  assumes "run_state (deleteSource (NewSourceRepo floatText db) i) w = (Inr u, w')" "naturalRows (tab w)"
  shows "naturalRows (tab w')"
proof -
  have "run_state (SourceRepo_Delete db i) w = (None, w')"
    using assms(1) by (auto simp: deleteSource_def NewSourceRepo_def split: prod.splits option.splits)
  from deleted [OF this] have "ran (tab w') \<subseteq> ran (tab w)" by (auto simp: ran_def split: if_splits)
  then show ?thesis using assms(2) by (auto simp: naturalRows_def)
qed

lemma unknown_type_stops:
  assumes "run_state (createSource env (NewSourceRepo floatText db) d body) w = (Inr v, w')" "naturalRows (tab w)"
    and "decPairs (decAny floatText) (case cqOptions body of None \<Rightarrow> [] | Some opts \<Rightarrow> opts) \<noteq> None"
    and "cqEnabled body \<noteq> Some False" "gwRegistry g (cqType body) = None" "gwRepo g = NewSourceRepo floatText db"
    and "run_state (DBGateway_ForChain g (cqChainID body)) w' = (y, w'')"
  shows "\<exists>e. y = Inl e"
proof -
  obtain c where c: "dir w' (scvID v) = Some c" "scType c = cqType body" "scChainID c = cqChainID body" "scEnabled c"
    using create_outcome [OF assms(1-3)] assms(4) by auto
  obtain res where res: "run_state (SourceRepo_ListByChain floatText db (cqChainID body) True) w' = (res, w'')"
      "y = (case res of Inl e \<Rightarrow> Inl (Wrap (''gateway: list by chain '' @ FormatNat 10 (unat (cqChainID body)) @ '': '') e)
          | Inr rows \<Rightarrow> buildAll g rows)"
    using assms(6,7) by (auto simp: DBGateway_ForChain_def NewSourceRepo_def split: prod.splits)
  show ?thesis
  proof (cases res)
    case (Inr rows)
    have "c \<in> set rows" using listed(3) [of "cqChainID body" True w' rows w''] res(1) Inr c by auto
    moreover have "\<exists>e. DBGateway_build g c = Inl e"
      using c(2) assms(5) by (auto simp: DBGateway_build_def Registry_Build_def split: option.splits sum.splits)
    ultimately have "\<exists>e. buildAll g rows = Inl e"
      by (induction rows) (auto split: sum.splits)
    then show ?thesis using res(2) Inr by simp
  qed (use res(2) in simp)
qed

end

text \<open>
  Property C25. \<open>POST /sources\<close> never conflicts. As long as every id is made of the type and the chain, which all
  routes that write sources maintain, the request is answered with 201, 400 or 500: a source of the same type and chain
  is replaced, endpoint, enablement and credential included, so that without a new API key the old one is gone. The sources
  of every other type and chain stay as they are.
\<close>

theorem create_source_replaces:
  assumes "source_api db tab floatText env d" and "naturalRows (tab w)"
    and "run_state (createSource env (NewSourceRepo floatText db) d body) w = (x, w')"
    and "decPairs (decAny floatText) (case cqOptions body of None \<Rightarrow> [] | Some opts \<Rightarrow> opts) \<noteq> None"
  shows "naturalRows (tab w') \<and> (case x of
      Inl e \<Rightarrow> tab w' = tab w \<and> heStatus e \<in> {400, 500}
    | Inr v \<Rightarrow>
        (\<exists>c. directory floatText (tab w') (sourceKey (cqType body) (cqChainID body)) = Some c \<and> scID c = scvID v \<and>
           scType c = cqType body \<and> scChainID c = cqChainID body \<and> scEndpoint c = cqEndpoint body \<and>
           (scEnabled c \<longleftrightarrow> cqEnabled body \<noteq> Some False) \<and> (HasSecret c \<longrightarrow> cqAPIKey body \<noteq> [])) \<and>
        (\<forall>kind cid. (kind, cid) \<noteq> (cqType body, cqChainID body) \<longrightarrow>
           directory floatText (tab w') (sourceKey kind cid) = directory floatText (tab w) (sourceKey kind cid))) \<and>
    (run_state (updateSource env (NewSourceRepo floatText db) d i ubody) w = (y, w1) \<longrightarrow> naturalRows (tab w1)) \<and>
    (run_state (deleteSource (NewSourceRepo floatText db) i) w = (Inr u, w2) \<longrightarrow> naturalRows (tab w2))"
  using source_api.create_outcome [OF assms(1,3,2,4)] assms(2)
    source_api.update_natural [OF assms(1)] source_api.delete_natural [OF assms(1)]
  by (cases x) (auto simp: sourceKey_inj)


section \<open>The sources in memory\<close>

definition memSourceEnv :: "source_rows api_env" where
  "memSourceEnv =
     \<lparr>aeKeccak = (\<lambda>_. []), aeLoadLocation = Some, aeRand = State_Monad.return (Some (replicate 16 7)),
      aeEntropy = State_Monad.return (\<lambda>n. Some (replicate n 0)), aeNow = State_Monad.return 1000\<rparr>"

definition memSourceDeps :: "source_rows sources_deps" where
  "memSourceDeps =
     \<lparr>sodRepo = Some (NewSourceRepo Some memSourceDB), sodGateway = None, sodCipher = Some (plainGCM []),
      sodClock = None, sodTypes = []\<rparr>"

interpretation msa: source_api memSourceDB memSourceTable Some memSourceEnv memSourceDeps
  by unfold_locales (auto simp: clockOrNow_def memSourceEnv_def memSourceDeps_def)

lemma memory_source_api: "source_api memSourceDB memSourceTable Some memSourceEnv memSourceDeps" ..

definition customSource :: create_source_request where
  "customSource =
     \<lparr>cqType = ''custom'', cqChainID = 10, cqEndpoint = ''http://x'', cqAPIKey = ''key'', cqOptions = None, cqEnabled = None\<rparr>"

lemma customSource_created:
  "\<exists>v w'. run_state (createSource memSourceEnv (NewSourceRepo Some memSourceDB) memSourceDeps customSource) [] = (Inr v, w')"
  by (simp add: createSource_def clockOrNow_def memSourceEnv_def memSourceDeps_def saveConfig_def buildCreateConfig_def customSource_def
      sealKey_def Cipher_Encrypt_def plainGCM_def stringBytes_def NewSourceRepo_def SourceRepo_Save_def memSourceDB_def Let_def)

lemma emptyRows_natural: "naturalRows (memSourceTable [])"
  by (simp add: naturalRows_def memSourceTable_def ran_def)

theorem create_source_replaces_witness:
  "\<exists>v w' c. run_state (createSource memSourceEnv (NewSourceRepo Some memSourceDB) memSourceDeps customSource) [] = (Inr v, w') \<and>
     directory Some (memSourceTable w') (sourceKey ''custom'' 10) = Some c \<and> scEndpoint c = ''http://x''"
proof -
  obtain v w' where c: "run_state (createSource memSourceEnv (NewSourceRepo Some memSourceDB) memSourceDeps customSource) [] = (Inr v, w')"
    using customSource_created by blast
  have "decPairs (decAny Some) (case cqOptions customSource of None \<Rightarrow> [] | Some opts \<Rightarrow> opts) \<noteq> None"
    by (simp add: customSource_def)
  from create_source_replaces [OF memory_source_api emptyRows_natural c this, THEN conjunct2, THEN conjunct1] c show ?thesis
    by (auto simp: customSource_def)
qed


end
