(* ===== verification/ApiSecrets.thy ===== *)
theory ApiSecrets
  imports ApiSources
begin

text \<open>
  The API keys do not leave the server: the results of the operations that read and write sources are the same for
  any two histories of calls that differ in the texts of the API keys only. The proof relates the two
  executions step by step (\<open>blind\<close>).
\<close>

section \<open>Two executions\<close>

text \<open>From related states, two computations give related results and related states.\<close>

definition blind ::
  "('w \<Rightarrow> 'w \<Rightarrow> bool) \<Rightarrow> ('a \<Rightarrow> 'b \<Rightarrow> bool) \<Rightarrow> ('w, 'a) state \<Rightarrow> ('w, 'b) state \<Rightarrow> bool" where
  "blind lo R m n \<longleftrightarrow> (\<forall>w v. lo w v \<longrightarrow> rel_prod R lo (run_state m w) (run_state n v))"

lemma blind_return [intro]: "R x y \<Longrightarrow> blind lo R (State_Monad.return x) (State_Monad.return y)"
  by (simp add: blind_def)

lemma blind_bind:
  assumes "blind lo R m n" "\<And>x y. R x y \<Longrightarrow> blind lo S (f x) (g y)"
  shows "blind lo S (State_Monad.bind m f) (State_Monad.bind n g)"
  unfolding blind_def
proof (intro allI impI)
  fix w v
  assume "lo w v"
  then have "rel_prod R lo (run_state m w) (run_state n v)" using assms(1) by (simp add: blind_def)
  moreover obtain x w' where x: "run_state m w = (x, w')" by (rule prod.exhaust)
  moreover obtain y v' where y: "run_state n v = (y, v')" by (rule prod.exhaust)
  ultimately have "R x y" "lo w' v'" by simp_all
  then show "rel_prod S lo (run_state (State_Monad.bind m f) w) (run_state (State_Monad.bind n g) v)"
    using assms(2) x y by (simp add: blind_def)
qed

lemma blind_map:
  "blind lo R m n \<Longrightarrow> (\<And>x y. R x y \<Longrightarrow> S (f x) (g y)) \<Longrightarrow>
   blind lo S (do { x \<leftarrow> m; State_Monad.return (f x) }) (do { y \<leftarrow> n; State_Monad.return (g y) })"
  by (erule blind_bind) auto

section \<open>What may differ\<close>

definition lowModel :: "source_model \<Rightarrow> source_model \<Rightarrow> bool" where
  "lowModel m n \<longleftrightarrow>
     m\<lparr>soSecretCiphertext := [], soSecretNonce := []\<rparr> = n\<lparr>soSecretCiphertext := [], soSecretNonce := []\<rparr> \<and>
     (soSecretCiphertext m = [] \<longleftrightarrow> soSecretCiphertext n = []) \<and> (soSecretNonce m = [] \<longleftrightarrow> soSecretNonce n = [])"

definition lowConfig :: "source_config \<Rightarrow> source_config \<Rightarrow> bool" where
  "lowConfig c c' \<longleftrightarrow>
     c\<lparr>scSecretCiphertext := [], scSecretNonce := []\<rparr> = c'\<lparr>scSecretCiphertext := [], scSecretNonce := []\<rparr> \<and>
     (scSecretCiphertext c = [] \<longleftrightarrow> scSecretCiphertext c' = []) \<and> (scSecretNonce c = [] \<longleftrightarrow> scSecretNonce c' = [])"

text \<open>Requests that differ in the texts of their API keys, but not in whether there is one.\<close>

definition lowKey :: "string option \<Rightarrow> string option \<Rightarrow> bool" where
  "lowKey = rel_option (\<lambda>k k'. k = [] \<longleftrightarrow> k' = [])"

fun lowInput :: "api_input \<Rightarrow> api_input \<Rightarrow> bool" where
  "lowInput (InCreateSource b) (InCreateSource b') \<longleftrightarrow>
     b\<lparr>cqAPIKey := []\<rparr> = b'\<lparr>cqAPIKey := []\<rparr> \<and> (cqAPIKey b = [] \<longleftrightarrow> cqAPIKey b' = [])"
| "lowInput (InUpdateSource i b) (InUpdateSource i' b') \<longleftrightarrow>
     i = i' \<and> b\<lparr>uqAPIKey := None\<rparr> = b'\<lparr>uqAPIKey := None\<rparr> \<and> lowKey (uqAPIKey b) (uqAPIKey b')"
| "lowInput inp inp' \<longleftrightarrow> inp = inp'"

text \<open>A call of an operation, by its id, with its decoded input.\<close>

type_synonym api_call = "string \<times> api_input"

definition lowCall :: "api_call \<Rightarrow> api_call \<Rightarrow> bool" where
  "lowCall = rel_prod (=) lowInput"

definition callOperation :: "'w route list \<Rightarrow> api_call \<Rightarrow> ('w, (http_error + api_body) option) state" where
  "callOperation routes = (\<lambda>(i, inp).
     case List.find (\<lambda>rt. opID (rtOp rt) = i) routes of
       None \<Rightarrow> State_Monad.return None
     | Some rt \<Rightarrow> rtHandle rt inp)"

fun callAll :: "'w route list \<Rightarrow> api_call list \<Rightarrow> ('w, (http_error + api_body) option list) state" where
  "callAll routes [] = State_Monad.return []"
| "callAll routes (c # cs) =
     do { p \<leftarrow> callOperation routes c; ps \<leftarrow> callAll routes cs; State_Monad.return (p # ps) }"

text \<open>The fields of two configurations that differ in secrets only.\<close>

lemma lowConfig_fields:
  assumes "lowConfig c c'"
  shows "scID c = scID c'" "scChainID c = scChainID c'" "scType c = scType c'" "scEndpoint c = scEndpoint c'"
    and "scOptions c = scOptions c'" "scEnabled c = scEnabled c'" "scCreatedAt c = scCreatedAt c'"
    and "scUpdatedAt c = scUpdatedAt c'" "HasSecret c = HasSecret c'"
  using assms by (cases c; cases c'; simp add: lowConfig_def HasSecret_def; blast)+

lemma lowModel_fields:
  assumes "lowModel m n"
  shows "soID m = soID n" "soChainID m = soChainID n" "soType m = soType n" "soEnabled m = soEnabled n"
    and "soOptions m = soOptions n"
  using assms by (cases m; cases n; simp add: lowModel_def)+

lemma lowModel_refl [simp]: "lowModel m m"
  by (simp add: lowModel_def)

lemma toSourceModel_low: "lowConfig c c' \<Longrightarrow> lowModel (toSourceModel c) (toSourceModel c')"
  by (cases c; cases c') (simp add: lowConfig_def lowModel_def toSourceModel_def)

lemma toSourceConfig_low:
  "lowModel m n \<Longrightarrow> rel_sum (=) lowConfig (toSourceConfig floatText m) (toSourceConfig floatText n)"
  by (cases m; cases n) (auto simp: lowConfig_def lowModel_def toSourceConfig_def split: option.splits)

lemma view_low: "lowConfig c c' \<Longrightarrow> ToSourceConfigView c = ToSourceConfigView c'"
  by (simp add: ToSourceConfigView_def lowConfig_fields [of c c'] cong: option.case_cong)


section \<open>The routes\<close>

text \<open>Sealing gives a ciphertext, which is never empty: AES-GCM appends its tag.\<close>

definition sealsVisibly :: "aead option \<Rightarrow> bool" where
  "sealsVisibly cipher \<longleftrightarrow> pred_option (\<lambda>c. \<forall>nonce p. Seal c nonce p \<noteq> []) cipher"

lemma sealKey_low:
  assumes "sealsVisibly cipher" "key \<noteq> []" "key' \<noteq> []" "lowConfig c c'"
  shows "rel_sum (=) lowConfig (sealKey rand cipher key c) (sealKey rand cipher key' c')"
  using assms by (cases c; cases c') (auto simp: sealKey_def sealsVisibly_def Cipher_Encrypt_def stringBytes_def lowConfig_def split: option.splits)

lemma lowConfig_refl [simp]: "lowConfig c c"
  by (simp add: lowConfig_def)

lemma buildCreateConfig_low:
  assumes "sealsVisibly cipher" "lowInput (InCreateSource b) (InCreateSource b')"
  shows "rel_sum (=) lowConfig (buildCreateConfig rand cipher now b) (buildCreateConfig rand cipher now b')"
  using assms by (cases b; cases b') (auto simp: buildCreateConfig_def Let_def intro!: sealKey_low)

lemma lowConfig_touch:
  assumes "lowConfig c c'"
  shows "lowConfig (case o1 of None \<Rightarrow> c | Some e \<Rightarrow> c\<lparr>scEndpoint := e\<rparr>) (case o1 of None \<Rightarrow> c' | Some e \<Rightarrow> c'\<lparr>scEndpoint := e\<rparr>)"
    and "lowConfig (case o2 of None \<Rightarrow> c | Some e \<Rightarrow> c\<lparr>scOptions := Some e\<rparr>) (case o2 of None \<Rightarrow> c' | Some e \<Rightarrow> c'\<lparr>scOptions := Some e\<rparr>)"
    and "lowConfig (case o3 of None \<Rightarrow> c | Some e \<Rightarrow> c\<lparr>scEnabled := e\<rparr>) (case o3 of None \<Rightarrow> c' | Some e \<Rightarrow> c'\<lparr>scEnabled := e\<rparr>)"
    and "lowConfig (c\<lparr>scUpdatedAt := t\<rparr>) (c'\<lparr>scUpdatedAt := t\<rparr>)"
    and "lowConfig (c\<lparr>scSecretCiphertext := [], scSecretNonce := []\<rparr>) (c'\<lparr>scSecretCiphertext := [], scSecretNonce := []\<rparr>)"
  using assms by (cases c; cases c'; auto simp: lowConfig_def split: option.splits)+

lemma applyUpdate_low:
  assumes "sealsVisibly cipher" "lowInput (InUpdateSource i b) (InUpdateSource i' b')" "lowConfig c c'"
  shows "rel_sum (=) lowConfig (applyUpdate rand cipher now b c) (applyUpdate rand cipher now b' c')"
proof -
  have b: "uqEndpoint b = uqEndpoint b'" "uqClearSecret b = uqClearSecret b'" "uqOptions b = uqOptions b'"
      "uqEnabled b = uqEnabled b'" "lowKey (uqAPIKey b) (uqAPIKey b')"
    using assms(2) by (cases b; cases b'; simp)+
  let ?t = "\<lambda>c. case uqEnabled b' of None \<Rightarrow> (case uqOptions b' of None \<Rightarrow> (case uqEndpoint b' of None \<Rightarrow> c | Some e \<Rightarrow> c\<lparr>scEndpoint := e\<rparr>)
    | Some opts \<Rightarrow> (case uqEndpoint b' of None \<Rightarrow> c | Some e \<Rightarrow> c\<lparr>scEndpoint := e\<rparr>)\<lparr>scOptions := Some opts\<rparr>)
    | Some x \<Rightarrow> (case uqOptions b' of None \<Rightarrow> (case uqEndpoint b' of None \<Rightarrow> c | Some e \<Rightarrow> c\<lparr>scEndpoint := e\<rparr>)
    | Some opts \<Rightarrow> (case uqEndpoint b' of None \<Rightarrow> c | Some e \<Rightarrow> c\<lparr>scEndpoint := e\<rparr>)\<lparr>scOptions := Some opts\<rparr>)\<lparr>scEnabled := x\<rparr>"
  have t: "lowConfig (?t c) (?t c')" by (intro lowConfig_touch assms(3))
  have "rel_sum (=) lowConfig (case uqAPIKey b of None \<Rightarrow> Inr (?t c) | Some key \<Rightarrow> if key \<noteq> [] then sealKey rand cipher key (?t c) else Inr (?t c))
      (case uqAPIKey b' of None \<Rightarrow> Inr (?t c') | Some key \<Rightarrow> if key \<noteq> [] then sealKey rand cipher key (?t c') else Inr (?t c'))"
    using b(5) t sealKey_low [OF assms(1) _ _ t] by (auto simp: lowKey_def split: option.splits)
  then show ?thesis
    using t unfolding applyUpdate_def Let_def b(1-4)
    by (auto simp: rel_sum.simps sum.rel_map intro: lowConfig_touch elim!: sum.rel_mono_strong)
qed

text \<open>What is asked of the database: its statements look at the secrets neither to select rows nor to order
  them, so that tables that differ in secrets stay such.\<close>

locale blind_store =
  fixes db :: "'w source_db" and lo :: "'w \<Rightarrow> 'w \<Rightarrow> bool"
  assumes upsert_blind: "lowModel m n \<Longrightarrow> blind lo (=) (dbUpsertSource db m) (dbUpsertSource db n)"
    and first_blind: "blind lo (rel_sum (=) lowModel) (dbFirstSource db i) (dbFirstSource db i)"
    and rows_blind: "blind lo (rel_sum (=) (list_all2 lowModel)) (dbFindSources db q) (dbFindSources db q)"
    and delete_blind: "blind lo (=) (dbDeleteSources db conds) (dbDeleteSources db conds)"
begin

lemma save_blind: "lowConfig c c' \<Longrightarrow> blind lo (=) (SourceRepo_Save db c) (SourceRepo_Save db c')"
  unfolding SourceRepo_Save_def by (rule blind_map [OF upsert_blind [OF toSourceModel_low]]) simp_all

lemma find_blind: "blind lo (rel_sum (=) lowConfig) (SourceRepo_FindByID floatText db i) (SourceRepo_FindByID floatText db i)"
  unfolding SourceRepo_FindByID_def
  by (rule blind_map [OF first_blind])
    (auto elim!: rel_sum.cases simp: sum.rel_map split: db_error.splits intro: sum.rel_mono_strong [OF toSourceConfig_low])

lemma decode_blind:
  "list_all2 lowModel ms ns \<Longrightarrow> rel_sum (=) (list_all2 lowConfig) (decodeRows (toSourceConfig floatText) what ms)
     (decodeRows (toSourceConfig floatText) what ns)"
proof (induction rule: list_all2_induct)
  case (Cons m ms n ns)
  from toSourceConfig_low [OF Cons(1), of floatText] Cons(3) show ?case
    by (auto elim!: rel_sum.cases simp: sum.rel_map)
qed simp

lemma list_blind: "blind lo (rel_sum (=) (list_all2 lowConfig)) (SourceRepo_ListByChain floatText db cid b) (SourceRepo_ListByChain floatText db cid b)"
  unfolding SourceRepo_ListByChain_def
  by (rule blind_map [OF rows_blind]) (auto elim!: rel_sum.cases intro: decode_blind)

lemma remove_blind: "blind lo (=) (SourceRepo_Delete db i) (SourceRepo_Delete db i)"
  unfolding SourceRepo_Delete_def by (rule blind_map [OF delete_blind]) simp

lemma saveConfig_blind:
  assumes "rel_sum (=) lowConfig x y"
  shows "blind lo (=) (saveConfig (NewSourceRepo floatText db) x) (saveConfig (NewSourceRepo floatText db) y)"
  using assms
proof (cases rule: rel_sum.cases)
  case (2 c c')
  then show ?thesis
    unfolding saveConfig_def NewSourceRepo_def
    by (auto intro!: blind_map [OF save_blind] split: option.splits simp: view_low)
qed (auto simp: saveConfig_def)

end

text \<open>The server around it: its clock and its random source do not look at the table either.\<close>

locale blind_api = blind_store db lo
  for db :: "'w source_db" and lo +
  fixes env :: "'w api_env" and d :: "'w sources_deps"
  assumes now_blind: "blind lo (=) (clockOrNow env (sodClock d)) (clockOrNow env (sodClock d))"
    and entropy_blind: "blind lo (=) (aeEntropy env) (aeEntropy env)"
    and visible: "sealsVisibly (sodCipher d)"
begin

lemma create_blind:
  assumes "lowInput (InCreateSource b) (InCreateSource b')"
  shows "blind lo (=) (createSource env (NewSourceRepo floatText db) d b) (createSource env (NewSourceRepo floatText db) d b')"
  unfolding createSource_def
  by (rule blind_bind [OF now_blind], simp, rule blind_bind [OF entropy_blind], simp,
      rule saveConfig_blind [OF buildCreateConfig_low [OF visible assms]])

lemma update_blind:
  assumes "lowInput (InUpdateSource i b) (InUpdateSource i' b')"
  shows "blind lo (=) (updateSource env (NewSourceRepo floatText db) d i b) (updateSource env (NewSourceRepo floatText db) d i' b')"
proof -
  have i: "i' = i" using assms by simp
  have writes: "blind lo (=)
      (do { now \<leftarrow> clockOrNow env (sodClock d); rand \<leftarrow> aeEntropy env;
            saveConfig (NewSourceRepo floatText db) (applyUpdate rand (sodCipher d) now b c) })
      (do { now \<leftarrow> clockOrNow env (sodClock d); rand \<leftarrow> aeEntropy env;
            saveConfig (NewSourceRepo floatText db) (applyUpdate rand (sodCipher d) now b' c') })"
    if "lowConfig c c'" for c c'
    by (rule blind_bind [OF now_blind], simp, rule blind_bind [OF entropy_blind], simp,
        rule saveConfig_blind [OF applyUpdate_low [OF visible assms that]])
  show ?thesis
    unfolding updateSource_def i
    by (rule blind_bind [where R = "rel_sum (=) lowConfig"])
      (auto simp: NewSourceRepo_def find_blind elim!: rel_sum.cases intro: writes [unfolded NewSourceRepo_def])
qed

lemma answers_blind: "blind lo (=) m n \<Longrightarrow> blind lo (=) (answers out m) (answers out n)"
  unfolding answers_def by (erule blind_map) simp

lemma reads_blind:
  "blind lo (=) (listSources (NewSourceRepo floatText db) cid) (listSources (NewSourceRepo floatText db) cid)"
  "blind lo (=) (getSource (NewSourceRepo floatText db) i) (getSource (NewSourceRepo floatText db) i)"
  "blind lo (=) (deleteSource (NewSourceRepo floatText db) i) (deleteSource (NewSourceRepo floatText db) i)"
proof -
  have views: "map ToSourceConfigView cs = map ToSourceConfigView cs' \<and> length cs = length cs'" if "list_all2 lowConfig cs cs'" for cs cs'
    using that by (induction rule: list_all2_induct) (auto dest: view_low)
  show "blind lo (=) (listSources (NewSourceRepo floatText db) cid) (listSources (NewSourceRepo floatText db) cid)"
    unfolding listSources_def by (rule blind_map [where R = "rel_sum (=) (list_all2 lowConfig)"])
      (auto simp: NewSourceRepo_def list_blind elim!: rel_sum.cases dest!: views)
  show "blind lo (=) (getSource (NewSourceRepo floatText db) i) (getSource (NewSourceRepo floatText db) i)"
    unfolding getSource_def by (rule blind_map [where R = "rel_sum (=) lowConfig"])
      (auto simp: NewSourceRepo_def find_blind elim!: rel_sum.cases dest: view_low)
  show "blind lo (=) (deleteSource (NewSourceRepo floatText db) i) (deleteSource (NewSourceRepo floatText db) i)"
    unfolding deleteSource_def by (rule blind_map [where R = "(=)"]) (simp_all add: NewSourceRepo_def remove_blind)
qed

lemma unprocessable_blind: "blind lo (=) unprocessable unprocessable"
  unfolding unprocessable_def by auto

lemma route_blind:
  assumes "rt \<in> set (registerSourceCRUD env (NewSourceRepo floatText db) d)" "lowInput inp inp'"
  shows "blind lo (=) (rtHandle rt inp) (rtHandle rt inp')"
  using assms
  by (cases inp; cases inp')
    (auto simp del: lowInput.simps(1,2) simp: registerSourceCRUD_def mkRoute_def onID_def
      intro!: unprocessable_blind answers_blind create_blind update_blind reads_blind)

lemma call_blind:
  assumes "lowCall c c'"
  shows "blind lo (=) (callOperation (registerSourceCRUD env (NewSourceRepo floatText db) d) c)
    (callOperation (registerSourceCRUD env (NewSourceRepo floatText db) d) c')"
proof -
  let ?rs = "registerSourceCRUD env (NewSourceRepo floatText db) d"
  obtain i inp inp' where c: "c = (i, inp)" "c' = (i, inp')" "lowInput inp inp'"
    using assms unfolding lowCall_def by (cases rule: rel_prod.cases) simp
  show ?thesis
  proof (cases "List.find (\<lambda>rt. opID (rtOp rt) = i) ?rs")
    case (Some rt)
    then have "rt \<in> set ?rs" by (auto simp: find_Some_iff)
    from route_blind [OF this c(3)] show ?thesis using Some c by (simp add: callOperation_def)
  qed (use c in \<open>auto simp: callOperation_def\<close>)
qed

lemma calls_blind:
  assumes "list_all2 lowCall cs cs'"
  shows "blind lo (=) (callAll (registerSourceCRUD env (NewSourceRepo floatText db) d) cs)
    (callAll (registerSourceCRUD env (NewSourceRepo floatText db) d) cs')"
  using assms
proof (induction rule: list_all2_induct)
  case (Cons c cs c' cs')
  then show ?case by (auto intro!: blind_bind [OF call_blind [OF Cons(1)]] blind_bind [OF Cons(3)])
qed auto

end

text \<open>
  Property C27. The API keys are confidential: of two histories of calls of the operations that list, read, create, update
  and delete sources, which differ in the texts of the API keys only, every result is the same. It is assumed that
  the statements of the database do not depend on the stored ciphertexts and that sealing gives a non-empty
  ciphertext.
\<close>

theorem api_keys_confidential:
  assumes "blind_api db lo env d" and "lo w v" and "list_all2 lowCall cs cs'"
  shows "fst (run_state (callAll (registerSourceCRUD env (NewSourceRepo floatText db) d) cs) w) =
    fst (run_state (callAll (registerSourceCRUD env (NewSourceRepo floatText db) d) cs') v)"
proof -
  let ?rs = "registerSourceCRUD env (NewSourceRepo floatText db) d"
  have "rel_prod (=) lo (run_state (callAll ?rs cs) w) (run_state (callAll ?rs cs') v)"
    using blind_api.calls_blind [OF assms(1,3)] assms(2) unfolding blind_def by blast
  then show ?thesis by (cases rule: rel_prod.cases) simp
qed

section \<open>The table in memory\<close>

definition lowRows :: "source_rows \<Rightarrow> source_rows \<Rightarrow> bool" where
  "lowRows = list_all2 (rel_prod (=) lowModel)"

lemma lowRows_keys: "lowRows w v \<Longrightarrow> map fst v = map fst w"
  unfolding lowRows_def by (induction rule: list_all2_induct) auto

lemma lowModel_id: "lowModel m n \<Longrightarrow> lowModel (m\<lparr>soID := i\<rparr>) (n\<lparr>soID := i\<rparr>)"
  by (cases m; cases n) (simp add: lowModel_def)

lemma lowRows_lookup: "lowRows w v \<Longrightarrow> rel_option lowModel (memSourceTable w i) (memSourceTable v i)"
  unfolding lowRows_def
  by (induction rule: list_all2_induct) (auto simp: memSourceTable_def intro: lowModel_id)

lemma lowRows_column:
  assumes "lowRows w v"
  shows "sourceColumn col (the (memSourceTable w i)) = sourceColumn col (the (memSourceTable v i))"
    and "soType (the (memSourceTable w i)) = soType (the (memSourceTable v i))"
    and "lowModel m n \<Longrightarrow> clash (the (memSourceTable w i)) m = clash (the (memSourceTable v i)) n"
proof -
  have *: "sourceColumn col x = sourceColumn col y \<and> soType x = soType y \<and> clash x m' = clash y n'"
    if "lowModel x y" "lowModel m' n'" for x y m' n'
    using lowModel_fields [OF that(1)] lowModel_fields [OF that(2)] by (simp add: sourceColumn_def clash_def)
  have "memSourceTable w i = memSourceTable v i \<or> lowModel (the (memSourceTable w i)) (the (memSourceTable v i))"
    using lowRows_lookup [OF assms, of i] by (auto elim: option.rel_cases)
  then have "lowModel (the (memSourceTable w i)) (the (memSourceTable v i))" by auto
  from * [OF this] show "sourceColumn col (the (memSourceTable w i)) = sourceColumn col (the (memSourceTable v i))"
    "soType (the (memSourceTable w i)) = soType (the (memSourceTable v i))"
    "lowModel m n \<Longrightarrow> clash (the (memSourceTable w i)) m = clash (the (memSourceTable v i)) n"
    using lowModel_refl by blast+
qed

lemma lowRows_clash:
  assumes "lowRows w v" "lowModel m n"
  shows "(\<exists>i \<in> set (map fst v). clash (the (memSourceTable v i)) n) \<longleftrightarrow> (\<exists>i \<in> set (map fst w). clash (the (memSourceTable w i)) m)"
  unfolding lowRows_keys [OF assms(1)] using lowRows_column(3) [OF assms] by blast

lemma lowRows_selects:
  "lowRows w v \<Longrightarrow> selects id sourceColumn conds (the (memSourceTable w i)) = selects id sourceColumn conds (the (memSourceTable v i))"
  unfolding selects_def
proof (intro list.pred_cong refl)
  fix c
  assume "lowRows w v"
  then show "holds id sourceColumn c (the (memSourceTable w i)) = holds id sourceColumn c (the (memSourceTable v i))"
    by (cases c) (simp_all add: lowRows_column(1))
qed

lemma lowRows_selected: "lowRows w v \<Longrightarrow> memSelected v conds = memSelected w conds"
  by (simp add: memSelected_def lowRows_keys lowRows_selects [of w v])

lemma lowRows_order: "lowRows w v \<Longrightarrow> typeOrder v = typeOrder w"
  by (simp add: typeOrder_def fun_eq_iff lowRows_column(2) [of w v])

lemma lowRows_update: "lowRows w v \<Longrightarrow> lowModel m n \<Longrightarrow> lowRows (AList.update i m w) (AList.update i n v)"
  unfolding lowRows_def by (induction rule: list_all2_induct) auto

lemma lowRows_filter: "lowRows w v \<Longrightarrow> lowRows (filter (\<lambda>(i, _). P i) w) (filter (\<lambda>(i, _). P i) v)"
  unfolding lowRows_def by (induction rule: list_all2_induct) auto

lemma page_all2: "list_all2 R xs ys \<Longrightarrow> list_all2 R (page q xs) (page q ys)"
  by (auto simp: page_def Let_def split: option.splits)

interpretation msb: blind_store memSourceDB lowRows
proof
  fix m n :: source_model and i q conds
  show "blind lowRows (=) (dbUpsertSource memSourceDB m) (dbUpsertSource memSourceDB n)" if "lowModel m n"
  proof (unfold blind_def, intro allI impI)
    fix w v
    assume l: "lowRows w v"
    show "rel_prod (=) lowRows (run_state (dbUpsertSource memSourceDB m) w) (run_state (dbUpsertSource memSourceDB n) v)"
      unfolding memSourceDB_def source_db.simps state.sel lowRows_clash [OF l that]
      using l lowRows_update [OF l that] lowModel_fields(1) [OF that] by (simp only: if_split) simp
  qed
  show "blind lowRows (rel_sum (=) lowModel) (dbFirstSource memSourceDB i) (dbFirstSource memSourceDB i)"
    unfolding blind_def memSourceDB_def
  proof (simp, intro allI impI)
    fix w v
    assume "lowRows w v"
    from lowRows_lookup [OF this, of i] show "rel_sum (=) lowModel
        (case memSourceTable w i of None \<Rightarrow> Inl ErrRecordNotFound | Some m \<Rightarrow> Inr m)
        (case memSourceTable v i of None \<Rightarrow> Inl ErrRecordNotFound | Some m \<Rightarrow> Inr m)"
      by (cases rule: option.rel_cases) auto
  qed
  show "blind lowRows (rel_sum (=) (list_all2 lowModel)) (dbFindSources memSourceDB q) (dbFindSources memSourceDB q)"
    unfolding blind_def memSourceDB_def
  proof (simp, intro allI impI page_all2)
    fix w v
    assume l: "lowRows w v"
    let ?ks = "sort_key (typeOrder w) (memSelected w (qWhere q))"
    have "lowModel (the (memSourceTable w i)) (the (memSourceTable v i))" if "i \<in> set ?ks" for i
      using lowRows_lookup [OF l, of i] that by (auto simp: set_memSelected option_rel_Some1)
    then show "list_all2 lowModel (map (\<lambda>i. the (memSourceTable w i)) ?ks)
        (map (\<lambda>i. the (memSourceTable v i)) (sort_key (typeOrder v) (memSelected v (qWhere q))))"
      unfolding lowRows_order [OF l] lowRows_selected [OF l] list.rel_map by (rule list.rel_refl_strong)
  qed
  show "blind lowRows (=) (dbDeleteSources memSourceDB conds) (dbDeleteSources memSourceDB conds)"
    unfolding blind_def memSourceDB_def by (auto simp: lowRows_selected lowRows_filter)
qed

interpretation msp: blind_api memSourceDB lowRows memSourceEnv memSourceDeps
  by unfold_locales
    (auto simp: blind_def clockOrNow_def memSourceEnv_def memSourceDeps_def sealsVisibly_def plainGCM_def)

lemma memory_blind_api: "blind_api memSourceDB lowRows memSourceEnv memSourceDeps" ..

definition keyHistory :: "string \<Rightarrow> api_call list" where
  "keyHistory key = [(''create-source'', InCreateSource (customSource\<lparr>cqAPIKey := key\<rparr>)), (''get-source'', InID ''custom-10'')]"

theorem api_keys_confidential_witness:
  "fst (run_state (callAll (registerSourceCRUD memSourceEnv (NewSourceRepo Some memSourceDB) memSourceDeps) (keyHistory ''a'')) []) =
   fst (run_state (callAll (registerSourceCRUD memSourceEnv (NewSourceRepo Some memSourceDB) memSourceDeps) (keyHistory ''b'')) [])"
proof (rule api_keys_confidential [OF memory_blind_api])
  show "lowRows [] []" by (simp add: lowRows_def)
  show "list_all2 lowCall (keyHistory ''a'') (keyHistory ''b'')"
    by (simp add: keyHistory_def lowCall_def customSource_def)
qed

end
