(* ===== verification/FakeStores.thy ===== *)
theory FakeStores
  imports Ports
begin

text \<open>
  The in-memory ports that the tests of the use cases run against (\<open>internal/application/testsupport\<close>). A fake that
  keeps pointers is modelled with the objects they point to, so that what is shared stays shared; the mutexes make
  every method one step.
\<close>

section \<open>Runs (\<open>fake_run_repo.go\<close>)\<close>

text \<open>Runs live in a heap and the repository keeps their addresses: \<open>Save\<close> stores the pointer it is given, and
  \<open>FindByID\<close> hands out the stored pointer.\<close>

type_synonym addr = nat

record run_heap =
  hpRuns :: "run list"
  hpByID :: "(run_id, addr) gomap"
  hpSaveErr :: "app_error option"

definition NewFakeRunRepo :: run_heap where
  "NewFakeRunRepo = \<lparr>hpRuns = [], hpByID = [], hpSaveErr = None\<rparr>"

text \<open>A new object, as the constructor of a run allocates one, and a method that changes a run in place.\<close>

definition allocRun :: "run \<Rightarrow> (run_heap, addr) state" where
  "allocRun r = State (\<lambda>h. (length (hpRuns h), h\<lparr>hpRuns := hpRuns h @ [r]\<rparr>))"

definition mutateRun :: "(run \<Rightarrow> run_error + run) \<Rightarrow> addr \<Rightarrow> (run_heap, run_error option) state" where
  "mutateRun method p = State (\<lambda>h.
     case method (hpRuns h ! p) of
       Inl e \<Rightarrow> (Some e, h)
     | Inr r \<Rightarrow> (None, h\<lparr>hpRuns := (hpRuns h)[p := r]\<rparr>))"

definition FakeRunRepo_Save :: "addr \<Rightarrow> (run_heap, app_error option) state" where
  "FakeRunRepo_Save p = State (\<lambda>h.
     case hpSaveErr h of
       Some e \<Rightarrow> (Some e, h)
     | None \<Rightarrow> (None, h\<lparr>hpByID := AList.update (runId (hpRuns h ! p)) p (hpByID h)\<rparr>))"

definition FakeRunRepo_FindByID :: "run_id \<Rightarrow> (run_heap, app_error + addr) state" where
  "FakeRunRepo_FindByID i = State (\<lambda>h.
     (case map_of (hpByID h) i of None \<Rightarrow> Inl ErrRunNotFound | Some p \<Rightarrow> Inr p, h))"

definition keepsRun :: "run_filter \<Rightarrow> run \<Rightarrow> bool" where
  "keepsRun flt r \<longleftrightarrow>
     (case rfChainID flt of None \<Rightarrow> True | Some c \<Rightarrow> runChainID r = c) \<and>
     (case rfStatus flt of None \<Rightarrow> True | Some st \<Rightarrow> runStatus r = st) \<and>
     (case rfCreatedAt flt of None \<Rightarrow> True | Some t \<Rightarrow> \<not> (runCreatedAt r < trFrom t \<or> runCreatedAt r > trTo t))"

text \<open>The page of a listing. A negative offset makes Go's slice expression panic, which is \<open>None\<close>; \<open>sort.Slice\<close> leaves
  equal keys in any order, here in that of the visit of the map.\<close>

definition pageOf :: "int \<Rightarrow> int \<Rightarrow> 'a list \<Rightarrow> 'a list option" where
  "pageOf offset limit xs =
     (if offset > int (length xs) then Some []
      else if offset < 0 then None
      else let rest = drop (nat offset) xs
           in Some (if limit > 0 \<and> limit < int (length rest) then take (nat limit) rest else rest))"

definition FakeRunRepo_List :: "run_filter \<Rightarrow> (run_heap, (addr list \<times> int) option) state" where
  "FakeRunRepo_List flt = State (\<lambda>h.
     (let out = sort_key (\<lambda>p. - runCreatedAt (hpRuns h ! p))
            (filter (\<lambda>p. keepsRun flt (hpRuns h ! p)) (map snd (hpByID h)))
      in map_option (\<lambda>ps. (ps, int (length out))) (pageOf (rfOffset flt) (rfLimit flt) out), h))"

definition FakeRunRepo_Count :: "run_heap \<Rightarrow> int" where
  "FakeRunRepo_Count h = int (length (hpByID h))"

section \<open>Diffs (\<open>fake_diff_repo.go\<close>)\<close>

text \<open>The records are objects that the list and the map by id share; a pointer is a position of the list.\<close>

record fake_diffs =
  fdSeq :: int
  fdByID :: "(diff_id, addr) gomap"
  fdByRun :: "(run_id, diff_id list) gomap"
  fdRecs :: "diff_record list"

definition NewFakeDiffRepo :: fake_diffs where
  "NewFakeDiffRepo = \<lparr>fdSeq = 0, fdByID = [], fdByRun = [], fdRecs = []\<rparr>"

definition idsOfRun :: "fake_diffs \<Rightarrow> run_id \<Rightarrow> diff_id list" where
  "idsOfRun f i = (case map_of (fdByRun f) i of None \<Rightarrow> [] | Some ids \<Rightarrow> ids)"

definition FakeDiffRepo_Save ::
  "discrepancy \<Rightarrow> judgement \<Rightarrow> save_diff_meta \<Rightarrow> (fake_diffs, app_error + diff_id) state" where
  "FakeDiffRepo_Save d j meta = State (\<lambda>f.
     let n = fdSeq f + 1; i = ''fake-'' @ FormatInt 10 n;
         rec = \<lparr>drID = i, drDiscrepancy = d, drJudgement = j, drResolved = False, drResolvedAt = None,
                drTier = sdTier meta, drAnchorBlock = sdAnchorBlock meta, drSamplingSeed = sdSamplingSeed meta\<rparr>
     in (Inr i, f\<lparr>fdSeq := n, fdByID := AList.update i (length (fdRecs f)) (fdByID f),
                  fdByRun := AList.update (dRunID d) (idsOfRun f (dRunID d) @ [i]) (fdByRun f),
                  fdRecs := fdRecs f @ [rec]\<rparr>))"

text \<open>An id that the map does not know gives a nil pointer, whose dereference panics: \<open>None\<close>.\<close>

definition recordAt :: "fake_diffs \<Rightarrow> diff_id \<Rightarrow> diff_record option" where
  "recordAt f i = map_option (\<lambda>p. fdRecs f ! p) (map_of (fdByID f) i)"

definition FakeDiffRepo_FindByRun :: "run_id \<Rightarrow> (fake_diffs, diff_record list option) state" where
  "FakeDiffRepo_FindByRun i = State (\<lambda>f. (those (map (recordAt f) (idsOfRun f i)), f))"

definition FakeDiffRepo_FindByID :: "diff_id \<Rightarrow> (fake_diffs, app_error + diff_record) state" where
  "FakeDiffRepo_FindByID i = State (\<lambda>f.
     (case recordAt f i of None \<Rightarrow> Inl ErrDiffNotFound | Some rec \<Rightarrow> Inr rec, f))"

definition keepsDiff :: "diff_filter \<Rightarrow> diff_record \<Rightarrow> bool" where
  "keepsDiff flt r \<longleftrightarrow>
     (case dfRunID flt of None \<Rightarrow> True | Some i \<Rightarrow> dRunID (drDiscrepancy r) = i) \<and>
     (case dfMetricKey flt of None \<Rightarrow> True | Some k \<Rightarrow> mKey (dMetric (drDiscrepancy r)) = k) \<and>
     (case dfSeverity flt of None \<Rightarrow> True | Some sv \<Rightarrow> jSeverity (drJudgement r) = sv) \<and>
     (case dfResolved flt of None \<Rightarrow> True | Some b \<Rightarrow> drResolved r = b) \<and>
     (case dfBlockRange flt of None \<Rightarrow> True | Some rng \<Rightarrow> BlockRange_Contains rng (dBlock (drDiscrepancy r)))"

definition FakeDiffRepo_List :: "diff_filter \<Rightarrow> (fake_diffs, (diff_record list \<times> int) option) state" where
  "FakeDiffRepo_List flt = State (\<lambda>f.
     (let out = sort_key (\<lambda>r. - dDetectedAt (drDiscrepancy r)) (filter (keepsDiff flt) (fdRecs f))
      in map_option (\<lambda>rs. (rs, int (length out))) (pageOf (dfOffset flt) (dfLimit flt) out), f))"

definition FakeDiffRepo_MarkResolved :: "diff_id \<Rightarrow> gotime \<Rightarrow> (fake_diffs, app_error option) state" where
  "FakeDiffRepo_MarkResolved i t = State (\<lambda>f.
     case map_of (fdByID f) i of
       None \<Rightarrow> (Some ErrDiffNotFound, f)
     | Some p \<Rightarrow> (None, f\<lparr>fdRecs := (fdRecs f)[p := (fdRecs f ! p)\<lparr>drResolved := True, drResolvedAt := Some t\<rparr>]\<rparr>))"

definition FakeDiffRepo_Count :: "fake_diffs \<Rightarrow> int" where
  "FakeDiffRepo_Count f = int (length (fdRecs f))"

section \<open>Schedules (\<open>fake_schedule_repo.go\<close>)\<close>

record fake_schedules =
  fsByID :: "(job_id, schedule_record) gomap"
  fsSaveErr :: "app_error option"

definition NewFakeScheduleRepo :: fake_schedules where
  "NewFakeScheduleRepo = \<lparr>fsByID = [], fsSaveErr = None\<rparr>"

definition FakeScheduleRepo_Save :: "schedule_record \<Rightarrow> (fake_schedules, app_error option) state" where
  "FakeScheduleRepo_Save s = State (\<lambda>f.
     case fsSaveErr f of
       Some e \<Rightarrow> (Some e, f)
     | None \<Rightarrow> (None, f\<lparr>fsByID := AList.update (srJobID s) s (fsByID f)\<rparr>))"

definition FakeScheduleRepo_Deactivate :: "job_id \<Rightarrow> (fake_schedules, app_error option) state" where
  "FakeScheduleRepo_Deactivate i = State (\<lambda>f.
     (None, case map_of (fsByID f) i of
        None \<Rightarrow> f
      | Some rec \<Rightarrow> f\<lparr>fsByID := AList.update i (rec\<lparr>srActive := False\<rparr>) (fsByID f)\<rparr>))"

definition FakeScheduleRepo_ListActive :: "(fake_schedules, app_error + schedule_record list) state" where
  "FakeScheduleRepo_ListActive = State (\<lambda>f.
     (Inr (sort_key srCreatedAt (filter srActive (map snd (fsByID f)))), f))"

definition FakeScheduleRepo_Count :: "fake_schedules \<Rightarrow> int" where
  "FakeScheduleRepo_Count f = int (length (fsByID f))"

definition fakeScheduleRepo :: "fake_schedules schedule_repository" where
  "fakeScheduleRepo =
     \<lparr>ScheduleRepo_Save = FakeScheduleRepo_Save, ScheduleRepo_Deactivate = FakeScheduleRepo_Deactivate,
      ScheduleRepo_ListActive = FakeScheduleRepo_ListActive\<rparr>"

section \<open>Dispatching (\<open>fake_dispatcher.go\<close>)\<close>

record enqueued_run =
  eqRunID :: run_id

record scheduled_job =
  sjJobID :: job_id
  sjSchedule :: schedule
  sjPayload :: schedule_payload
  sjCancel :: bool

record fake_dispatcher =
  fpEnqueued :: "enqueued_run list"
  fpScheduled :: "(job_id, scheduled_job) gomap"
  fpSeq :: int
  fpEnqueueErr :: "app_error option"

definition NewFakeDispatcher :: fake_dispatcher where
  "NewFakeDispatcher = \<lparr>fpEnqueued = [], fpScheduled = [], fpSeq = 0, fpEnqueueErr = None\<rparr>"

definition FakeDispatcher_EnqueueRunExecution :: "run_id \<Rightarrow> (fake_dispatcher, app_error option) state" where
  "FakeDispatcher_EnqueueRunExecution i = State (\<lambda>f.
     case fpEnqueueErr f of
       Some e \<Rightarrow> (Some e, f)
     | None \<Rightarrow> (None, f\<lparr>fpEnqueued := fpEnqueued f @ [\<lparr>eqRunID = i\<rparr>]\<rparr>))"

definition FakeDispatcher_ScheduleRecurring ::
  "schedule \<Rightarrow> schedule_payload \<Rightarrow> (fake_dispatcher, app_error + job_id) state" where
  "FakeDispatcher_ScheduleRecurring s p = State (\<lambda>f.
     let n = fpSeq f + 1; i = ''job-'' @ FormatInt 10 n
     in (Inr i, f\<lparr>fpSeq := n, fpScheduled := AList.update i
          \<lparr>sjJobID = i, sjSchedule = s, sjPayload = p, sjCancel = False\<rparr> (fpScheduled f)\<rparr>))"

definition FakeDispatcher_CancelScheduled :: "job_id \<Rightarrow> (fake_dispatcher, app_error option) state" where
  "FakeDispatcher_CancelScheduled i = State (\<lambda>f.
     case map_of (fpScheduled f) i of
       None \<Rightarrow> (Some (ErrNew ''fake dispatcher: unknown job id''), f)
     | Some j \<Rightarrow> (None, f\<lparr>fpScheduled := AList.update i (j\<lparr>sjCancel := True\<rparr>) (fpScheduled f)\<rparr>))"

definition FakeDispatcher_Enqueued :: "fake_dispatcher \<Rightarrow> enqueued_run list" where
  "FakeDispatcher_Enqueued f = fpEnqueued f"

definition FakeDispatcher_Scheduled :: "fake_dispatcher \<Rightarrow> scheduled_job list" where
  "FakeDispatcher_Scheduled f = map snd (fpScheduled f)"

definition fakeDispatcher :: "fake_dispatcher job_dispatcher" where
  "fakeDispatcher =
     \<lparr>EnqueueRunExecution = FakeDispatcher_EnqueueRunExecution, ScheduleRecurring = FakeDispatcher_ScheduleRecurring,
      CancelScheduled = FakeDispatcher_CancelScheduled\<rparr>"

section \<open>The rate-limit budget (\<open>fake_rate_limit.go\<close>)\<close>

record fake_budget =
  fbBudgets :: "source_id \<Rightarrow> int"
  fbUsage :: "source_id \<Rightarrow> int"

text \<open>A missing entry of a map of integers is 0.\<close>

definition NewFakeRateLimitBudget :: "(source_id, int) gomap \<Rightarrow> fake_budget" where
  "NewFakeRateLimitBudget initial =
     \<lparr>fbBudgets = (\<lambda>k. case map_of initial k of None \<Rightarrow> 0 | Some v \<Rightarrow> v), fbUsage = (\<lambda>_. 0)\<rparr>"

definition FakeBudget_Reserve :: "source_id \<Rightarrow> int \<Rightarrow> (fake_budget, app_error option) state" where
  "FakeBudget_Reserve sid n = State (\<lambda>f.
     if fbBudgets f sid - fbUsage f sid < n then (Some ErrBudgetExhausted, f)
     else (None, f\<lparr>fbUsage := (fbUsage f)(sid := fbUsage f sid + n)\<rparr>))"

definition FakeBudget_Refund :: "source_id \<Rightarrow> int \<Rightarrow> (fake_budget, app_error option) state" where
  "FakeBudget_Refund sid n = State (\<lambda>f.
     (None, f\<lparr>fbUsage := (fbUsage f)(sid := (if fbUsage f sid - n < 0 then 0 else fbUsage f sid - n))\<rparr>))"

definition FakeBudget_Remaining :: "fake_budget \<Rightarrow> source_id \<Rightarrow> int" where
  "FakeBudget_Remaining f sid = fbBudgets f sid - fbUsage f sid"

definition fakeBudget :: "fake_budget rate_limit_budget" where
  "fakeBudget = \<lparr>Budget_Reserve = FakeBudget_Reserve, Budget_Refund = FakeBudget_Refund\<rparr>"

section \<open>Chain head, clock, gateway and samplers\<close>

record fake_chain_head =
  fhTips :: "(chain_id, block_number) gomap"
  fhFin :: "(chain_id, block_number) gomap"

definition NewFakeChainHead :: fake_chain_head where
  "NewFakeChainHead = \<lparr>fhTips = [], fhFin = []\<rparr>"

definition FakeChainHead_SetTip :: "chain_id \<Rightarrow> block_number \<Rightarrow> fake_chain_head \<Rightarrow> fake_chain_head" where
  "FakeChainHead_SetTip cid n f = f\<lparr>fhTips := AList.update cid n (fhTips f)\<rparr>"

definition FakeChainHead_SetFinalized :: "chain_id \<Rightarrow> block_number \<Rightarrow> fake_chain_head \<Rightarrow> fake_chain_head" where
  "FakeChainHead_SetFinalized cid n f = f\<lparr>fhFin := AList.update cid n (fhFin f)\<rparr>"

definition FakeChainHead_Tip :: "chain_id \<Rightarrow> (fake_chain_head, app_error + block_number) state" where
  "FakeChainHead_Tip cid = State (\<lambda>f.
     (case map_of (fhTips f) cid of
        None \<Rightarrow> Inl (ErrNew (''fake chain head: no tip configured for '' @ ChainID_String cid))
      | Some n \<Rightarrow> Inr n, f))"

definition FakeChainHead_Finalized :: "chain_id \<Rightarrow> (fake_chain_head, app_error + block_number) state" where
  "FakeChainHead_Finalized cid = State (\<lambda>f.
     (case map_of (fhFin f) cid of
        None \<Rightarrow> Inl (ErrNew (''fake chain head: no finalized block configured for '' @ ChainID_String cid))
      | Some n \<Rightarrow> Inr n, f))"

definition FakeClock_Now :: "(gotime, gotime) state" where
  "FakeClock_Now = State (\<lambda>t. (t, t))"

definition FakeClock_Advance :: "duration \<Rightarrow> gotime \<Rightarrow> gotime" where
  "FakeClock_Advance d t = t + d"

definition FakeClock_Set :: "gotime \<Rightarrow> gotime \<Rightarrow> gotime" where
  "FakeClock_Set t _ = t"

record 'w fake_gateway =
  fgByChain :: "(chain_id, 'w source list) gomap"
  fgByID :: "(source_id, 'w source) gomap"

definition NewFakeSourceGateway :: "'w fake_gateway" where
  "NewFakeSourceGateway = \<lparr>fgByChain = [], fgByID = []\<rparr>"

definition sourcesOf :: "'w fake_gateway \<Rightarrow> chain_id \<Rightarrow> 'w source list" where
  "sourcesOf f cid = (case map_of (fgByChain f) cid of None \<Rightarrow> [] | Some ss \<Rightarrow> ss)"

definition FakeSourceGateway_Register :: "'w source \<Rightarrow> 'w fake_gateway \<Rightarrow> 'w fake_gateway" where
  "FakeSourceGateway_Register src f =
     f\<lparr>fgByChain := AList.update (srcChainID src) (sourcesOf f (srcChainID src) @ [src]) (fgByChain f),
       fgByID := AList.update (srcID src) src (fgByID f)\<rparr>"

definition FakeSourceGateway_ForChain :: "'w fake_gateway \<Rightarrow> chain_id \<Rightarrow> app_error + 'w source list" where
  "FakeSourceGateway_ForChain f cid = Inr (sourcesOf f cid)"

definition FakeSourceGateway_Get :: "'w fake_gateway \<Rightarrow> source_id \<Rightarrow> app_error + 'w source" where
  "FakeSourceGateway_Get f i =
     (case map_of (fgByID f) i of
        None \<Rightarrow> Inl (ErrQuoted ''fake source gateway: unknown source '' i [])
      | Some s \<Rightarrow> Inr s)"

record sampler_call =
  scChain :: chain_id
  scKind :: string
  scAt :: block_number

record fake_sampler =
  smResults :: "(string, address list) gomap"
  smErr :: "app_error option"
  smCalls :: "sampler_call list"

definition NewFakeAddressSampler :: fake_sampler where
  "NewFakeAddressSampler = \<lparr>smResults = [], smErr = None, smCalls = []\<rparr>"

definition NewFakeTokenSampler :: fake_sampler where
  "NewFakeTokenSampler = \<lparr>smResults = [], smErr = None, smCalls = []\<rparr>"

definition sampleByKind :: "chain_id \<Rightarrow> string \<Rightarrow> block_number \<Rightarrow> (fake_sampler, app_error + address list) state" where
  "sampleByKind cid kind b = State (\<lambda>f.
     let f' = f\<lparr>smCalls := smCalls f @ [\<lparr>scChain = cid, scKind = kind, scAt = b\<rparr>]\<rparr>
     in (case smErr f of
           Some e \<Rightarrow> Inl e
         | None \<Rightarrow> Inr (case map_of (smResults f) kind of None \<Rightarrow> [] | Some as \<Rightarrow> as), f'))"

definition FakeAddressSampler_Sample :: "fake_sampler address_sampler" where
  "FakeAddressSampler_Sample cid plan b = sampleByKind cid (AddressPlan_Kind plan) b"

definition FakeTokenSampler_Sample :: "fake_sampler token_sampler" where
  "FakeTokenSampler_Sample cid plan b = sampleByKind cid (TokenPlan_Kind plan) b"

end
