(* ===== verification/FakeSource.thy ===== *)
theory FakeSource
  imports Source "HOL-Library.State_Monad"
begin

text \<open>
  The configurable source that the tests of the repository run against (\<open>internal/source/fake\<close>): it records
  every call and answers from handlers and canned responses. Handlers, and the context of a call, act on the rest
  of the world, which is of arbitrary type; the mutex makes every access one step.
\<close>

section \<open>The state (\<open>fake.go\<close>)\<close>

datatype call_args =
    ArgBlock block_query
  | ArgAddress address_query
  | ArgAtBlock address_at_block_query
  | ArgSnapshot
  | ArgBalance erc20_balance_query
  | ArgHoldings erc20_holdings_query
  | ArgTx hash32
  | ArgTxBlock block_number

record fake_call =
  fcMethod :: string
  fcArgs :: call_args

text \<open>A canned response is a result with an error, which the caller looks at first.\<close>

type_synonym 'r fetch_envelope = "'r \<times> source_error option"
type_synonym ('x, 'q, 'r) fetch_handler = "'q \<Rightarrow> ('x, source_error + 'r) state"

record 'x fake_source =
  fkID :: source_id
  fkChainID :: chain_id
  fkCaps :: "(capability, bool) gomap"
  fkStaticBlock :: "block_result fetch_envelope option"
  fkStaticAddressLatest :: "address_latest_result fetch_envelope option"
  fkStaticAddressAtBlock :: "address_at_block_result fetch_envelope option"
  fkStaticSnapshot :: "snapshot_result fetch_envelope option"
  fkStaticERC20Balance :: "erc20_balance_result fetch_envelope option"
  fkStaticERC20Holdings :: "erc20_holdings_result fetch_envelope option"
  fkStaticInternalTxByTx :: "internal_tx_result fetch_envelope option"
  fkStaticInternalTxByBlock :: "internal_tx_result fetch_envelope option"
  fkBlockHandler :: "('x, block_query, block_result) fetch_handler option"
  fkAddressLatestHandler :: "('x, address_query, address_latest_result) fetch_handler option"
  fkAddressAtBlockHandler :: "('x, address_at_block_query, address_at_block_result) fetch_handler option"
  fkSnapshotHandler :: "('x, unit, snapshot_result) fetch_handler option"
  fkERC20BalanceHandler :: "('x, erc20_balance_query, erc20_balance_result) fetch_handler option"
  fkERC20HoldingsHandler :: "('x, erc20_holdings_query, erc20_holdings_result) fetch_handler option"
  fkInternalTxByTxHandler :: "('x, hash32, internal_tx_result) fetch_handler option"
  fkInternalTxByBlockHandler :: "('x, block_number, internal_tx_result) fetch_handler option"
  fkCalls :: "fake_call list"

type_synonym 'x fake_option = "'x fake_source \<Rightarrow> 'x fake_source"

definition fake_WithCapabilities :: "capability list \<Rightarrow> 'x fake_option" where
  "fake_WithCapabilities caps s = s\<lparr>fkCaps := foldl (\<lambda>m c. AList.update c True m) (fkCaps s) caps\<rparr>"

definition fake_New :: "source_id \<Rightarrow> chain_id \<Rightarrow> 'x fake_option list \<Rightarrow> 'x fake_source" where
  "fake_New i cid opts =
     foldl (\<lambda>s opt. opt s)
       \<lparr>fkID = i, fkChainID = cid, fkCaps = [], fkStaticBlock = None, fkStaticAddressLatest = None,
        fkStaticAddressAtBlock = None, fkStaticSnapshot = None, fkStaticERC20Balance = None,
        fkStaticERC20Holdings = None, fkStaticInternalTxByTx = None, fkStaticInternalTxByBlock = None,
        fkBlockHandler = None, fkAddressLatestHandler = None, fkAddressAtBlockHandler = None,
        fkSnapshotHandler = None, fkERC20BalanceHandler = None, fkERC20HoldingsHandler = None,
        fkInternalTxByTxHandler = None, fkInternalTxByBlockHandler = None, fkCalls = []\<rparr> opts"

definition fake_Supports :: "'x fake_source \<Rightarrow> capability \<Rightarrow> bool" where
  "fake_Supports s c \<longleftrightarrow> map_of (fkCaps s) c = Some True"

section \<open>Fetching\<close>

text \<open>The eight methods have one shape: the context decides first, then the handler, then the canned response.\<close>

definition recordCall :: "string \<Rightarrow> call_args \<Rightarrow> 'x fake_source \<Rightarrow> 'x fake_source" where
  "recordCall meth args s = s\<lparr>fkCalls := fkCalls s @ [\<lparr>fcMethod = meth, fcArgs = args\<rparr>]\<rparr>"

definition respond ::
  "('x, source_error option) state \<Rightarrow> ('x, 'q, 'r) fetch_handler option \<Rightarrow> 'r fetch_envelope option \<Rightarrow> 'q
   \<Rightarrow> ('x, source_error + 'r) state" where
  "respond ctxErr h env q =
     do {
       e \<leftarrow> ctxErr;
       (case e of
          Some err \<Rightarrow> State_Monad.return (Inl err)
        | None \<Rightarrow>
            (case h of
               Some f \<Rightarrow> f q
             | None \<Rightarrow> State_Monad.return
                 (case env of
                    Some (r, err) \<Rightarrow> (case err of None \<Rightarrow> Inr r | Some e' \<Rightarrow> Inl e')
                  | None \<Rightarrow> Inl ErrUnsupported)))
     }"

definition fake_fetch ::
  "string \<Rightarrow> ('q \<Rightarrow> call_args) \<Rightarrow> ('x fake_source \<Rightarrow> ('x, 'q, 'r) fetch_handler option)
   \<Rightarrow> ('x fake_source \<Rightarrow> 'r fetch_envelope option) \<Rightarrow> ('x, source_error option) state \<Rightarrow> 'q
   \<Rightarrow> ('x fake_source \<times> 'x, source_error + 'r) state" where
  "fake_fetch meth arg handler static ctxErr q = State (\<lambda>(s, x).
     let s' = recordCall meth (arg q) s; (res, x') = run_state (respond ctxErr (handler s') (static s') q) x
     in (res, (s', x')))"

definition fake_FetchBlock where
  "fake_FetchBlock = fake_fetch ''FetchBlock'' ArgBlock fkBlockHandler fkStaticBlock"

definition fake_FetchAddressLatest where
  "fake_FetchAddressLatest = fake_fetch ''FetchAddressLatest'' ArgAddress fkAddressLatestHandler fkStaticAddressLatest"

definition fake_FetchAddressAtBlock where
  "fake_FetchAddressAtBlock = fake_fetch ''FetchAddressAtBlock'' ArgAtBlock fkAddressAtBlockHandler fkStaticAddressAtBlock"

definition fake_FetchSnapshot where
  "fake_FetchSnapshot = fake_fetch ''FetchSnapshot'' (\<lambda>_. ArgSnapshot) fkSnapshotHandler fkStaticSnapshot"

definition fake_FetchERC20Balance where
  "fake_FetchERC20Balance = fake_fetch ''FetchERC20Balance'' ArgBalance fkERC20BalanceHandler fkStaticERC20Balance"

definition fake_FetchERC20Holdings where
  "fake_FetchERC20Holdings = fake_fetch ''FetchERC20Holdings'' ArgHoldings fkERC20HoldingsHandler fkStaticERC20Holdings"

definition fake_FetchInternalTxByTx where
  "fake_FetchInternalTxByTx = fake_fetch ''FetchInternalTxByTx'' ArgTx fkInternalTxByTxHandler fkStaticInternalTxByTx"

definition fake_FetchInternalTxByBlock where
  "fake_FetchInternalTxByBlock =
     fake_fetch ''FetchInternalTxByBlock'' ArgTxBlock fkInternalTxByBlockHandler fkStaticInternalTxByBlock"

text \<open>The fake as a source; id, chain and capabilities do not change after construction.\<close>

definition fakeSource :: "'x fake_source \<Rightarrow> ('x, source_error option) state \<Rightarrow> ('x fake_source \<times> 'x) source" where
  "fakeSource s ctxErr =
     \<lparr>srcID = fkID s, srcChainID = fkChainID s, Supports = fake_Supports s,
      FetchBlock = fake_FetchBlock ctxErr, FetchAddressLatest = fake_FetchAddressLatest ctxErr,
      FetchAddressAtBlock = fake_FetchAddressAtBlock ctxErr, FetchSnapshot = fake_FetchSnapshot ctxErr (),
      FetchERC20Balance = fake_FetchERC20Balance ctxErr, FetchERC20Holdings = fake_FetchERC20Holdings ctxErr,
      FetchInternalTxByTx = fake_FetchInternalTxByTx ctxErr, FetchInternalTxByBlock = fake_FetchInternalTxByBlock ctxErr\<rparr>"

section \<open>Configuration\<close>

definition SetBlockResponse :: "block_result \<Rightarrow> source_error option \<Rightarrow> 'x fake_source \<Rightarrow> 'x fake_source" where
  "SetBlockResponse r err s = s\<lparr>fkStaticBlock := Some (r, err)\<rparr>"

definition SetAddressLatestResponse ::
  "address_latest_result \<Rightarrow> source_error option \<Rightarrow> 'x fake_source \<Rightarrow> 'x fake_source" where
  "SetAddressLatestResponse r err s = s\<lparr>fkStaticAddressLatest := Some (r, err)\<rparr>"

definition SetAddressAtBlockResponse ::
  "address_at_block_result \<Rightarrow> source_error option \<Rightarrow> 'x fake_source \<Rightarrow> 'x fake_source" where
  "SetAddressAtBlockResponse r err s = s\<lparr>fkStaticAddressAtBlock := Some (r, err)\<rparr>"

definition SetSnapshotResponse ::
  "snapshot_result \<Rightarrow> source_error option \<Rightarrow> 'x fake_source \<Rightarrow> 'x fake_source" where
  "SetSnapshotResponse r err s = s\<lparr>fkStaticSnapshot := Some (r, err)\<rparr>"

definition SetERC20BalanceResponse ::
  "erc20_balance_result \<Rightarrow> source_error option \<Rightarrow> 'x fake_source \<Rightarrow> 'x fake_source" where
  "SetERC20BalanceResponse r err s = s\<lparr>fkStaticERC20Balance := Some (r, err)\<rparr>"

definition SetERC20HoldingsResponse ::
  "erc20_holdings_result \<Rightarrow> source_error option \<Rightarrow> 'x fake_source \<Rightarrow> 'x fake_source" where
  "SetERC20HoldingsResponse r err s = s\<lparr>fkStaticERC20Holdings := Some (r, err)\<rparr>"

definition SetInternalTxByTxResponse ::
  "internal_tx_result \<Rightarrow> source_error option \<Rightarrow> 'x fake_source \<Rightarrow> 'x fake_source" where
  "SetInternalTxByTxResponse r err s = s\<lparr>fkStaticInternalTxByTx := Some (r, err)\<rparr>"

definition SetInternalTxByBlockResponse ::
  "internal_tx_result \<Rightarrow> source_error option \<Rightarrow> 'x fake_source \<Rightarrow> 'x fake_source" where
  "SetInternalTxByBlockResponse r err s = s\<lparr>fkStaticInternalTxByBlock := Some (r, err)\<rparr>"

definition SetBlockHandler ::
  "('x, block_query, block_result) fetch_handler option \<Rightarrow> 'x fake_source \<Rightarrow> 'x fake_source" where
  "SetBlockHandler fn s = s\<lparr>fkBlockHandler := fn\<rparr>"

definition SetAddressLatestHandler ::
  "('x, address_query, address_latest_result) fetch_handler option \<Rightarrow> 'x fake_source \<Rightarrow> 'x fake_source" where
  "SetAddressLatestHandler fn s = s\<lparr>fkAddressLatestHandler := fn\<rparr>"

definition SetAddressAtBlockHandler ::
  "('x, address_at_block_query, address_at_block_result) fetch_handler option \<Rightarrow> 'x fake_source \<Rightarrow> 'x fake_source" where
  "SetAddressAtBlockHandler fn s = s\<lparr>fkAddressAtBlockHandler := fn\<rparr>"

definition SetSnapshotHandler ::
  "('x, unit, snapshot_result) fetch_handler option \<Rightarrow> 'x fake_source \<Rightarrow> 'x fake_source" where
  "SetSnapshotHandler fn s = s\<lparr>fkSnapshotHandler := fn\<rparr>"

definition SetERC20BalanceHandler ::
  "('x, erc20_balance_query, erc20_balance_result) fetch_handler option \<Rightarrow> 'x fake_source \<Rightarrow> 'x fake_source" where
  "SetERC20BalanceHandler fn s = s\<lparr>fkERC20BalanceHandler := fn\<rparr>"

definition SetERC20HoldingsHandler ::
  "('x, erc20_holdings_query, erc20_holdings_result) fetch_handler option \<Rightarrow> 'x fake_source \<Rightarrow> 'x fake_source" where
  "SetERC20HoldingsHandler fn s = s\<lparr>fkERC20HoldingsHandler := fn\<rparr>"

definition SetInternalTxByTxHandler ::
  "('x, hash32, internal_tx_result) fetch_handler option \<Rightarrow> 'x fake_source \<Rightarrow> 'x fake_source" where
  "SetInternalTxByTxHandler fn s = s\<lparr>fkInternalTxByTxHandler := fn\<rparr>"

definition SetInternalTxByBlockHandler ::
  "('x, block_number, internal_tx_result) fetch_handler option \<Rightarrow> 'x fake_source \<Rightarrow> 'x fake_source" where
  "SetInternalTxByBlockHandler fn s = s\<lparr>fkInternalTxByBlockHandler := fn\<rparr>"

definition fake_Calls :: "'x fake_source \<Rightarrow> fake_call list" where
  "fake_Calls s = fkCalls s"

definition fake_Reset :: "'x fake_source \<Rightarrow> 'x fake_source" where
  "fake_Reset s =
     s\<lparr>fkCalls := [], fkStaticBlock := None, fkStaticAddressLatest := None, fkStaticAddressAtBlock := None,
       fkStaticSnapshot := None, fkStaticERC20Balance := None, fkStaticERC20Holdings := None,
       fkStaticInternalTxByTx := None, fkStaticInternalTxByBlock := None, fkBlockHandler := None,
       fkAddressLatestHandler := None, fkAddressAtBlockHandler := None, fkSnapshotHandler := None,
       fkERC20BalanceHandler := None, fkERC20HoldingsHandler := None, fkInternalTxByTxHandler := None,
       fkInternalTxByBlockHandler := None\<rparr>"

end
