(* ===== verification/FakeProps.thy ===== *)
theory FakeProps
  imports FakeStores FakeSource BudgetProps
begin

text \<open>
  How far the fakes stand for what they replace: the fake diff repository is consistent, the fake budget
  simulates the budget in Redis within a window, the fake source answers and records as configured, and the fake
  run repository shares its runs with its callers.
\<close>

section \<open>The fake source\<close>

text \<open>What the tests rely on: one call is recorded per fetch, whatever the answer, and nothing else of the fake changes.\<close>

lemma fake_fetch_run:
  assumes "run_state (fake_fetch meth arg handler static ctxErr q) (s, x) = (res, s', x')"
  shows "s' = recordCall meth (arg q) s"
    and "run_state (respond ctxErr (handler (recordCall meth (arg q) s)) (static (recordCall meth (arg q) s)) q) x = (res, x')"
  using assms by (auto simp: fake_fetch_def Let_def split: prod.splits)

lemma respond_order:
  assumes "run_state ctxErr x = (c, x1)" and "run_state (respond ctxErr h env q) x = (res, x')"
  shows "c = Some e \<Longrightarrow> res = Inl e \<and> x' = x1"
    and "c = None \<Longrightarrow> h = Some f \<Longrightarrow> (res, x') = run_state (f q) x1"
    and "c = None \<Longrightarrow> h = None \<Longrightarrow> env = Some (r, None) \<Longrightarrow> res = Inr r \<and> x' = x1"
    and "c = None \<Longrightarrow> h = None \<Longrightarrow> env = Some (r, Some e) \<Longrightarrow> res = Inl e \<and> x' = x1"
    and "c = None \<Longrightarrow> h = None \<Longrightarrow> env = None \<Longrightarrow> res = Inl ErrUnsupported \<and> x' = x1"
  using assms by (auto simp: respond_def)

lemma fake_Supports_New:
  "fake_Supports (fake_New i cid [fake_WithCapabilities caps]) c \<longleftrightarrow> c \<in> set caps"
proof -
  have "map_of (foldl (\<lambda>m c. AList.update c True m) m caps) c = (if c \<in> set caps then Some True else map_of m c)" for m
    by (induction caps arbitrary: m) (auto simp: update_conv')
  from this [of "[]"] show ?thesis by (simp add: fake_Supports_def fake_New_def fake_WithCapabilities_def)
qed

text \<open>After \<open>Reset\<close> every fetch is refused, and the capabilities are the same as before.\<close>

lemma fake_Reset_refuses:
  assumes "run_state ctxErr x = (None, x1)"
  shows "run_state (FetchBlock (fakeSource s ctxErr) bq) (fake_Reset s, x) =
      (Inl ErrUnsupported, recordCall ''FetchBlock'' (ArgBlock bq) (fake_Reset s), x1)"
    and "fake_Supports (fake_Reset s) = fake_Supports s"
  using assms
  by (simp_all add: fakeSource_def fake_FetchBlock_def fake_fetch_def respond_def fake_Reset_def recordCall_def
      fake_Supports_def fun_eq_iff)

section \<open>The fake diff repository\<close>

definition fakeDiffID :: "nat \<Rightarrow> diff_id" where
  "fakeDiffID k = ''fake-'' @ FormatInt 10 (int k + 1)"

definition consistentDiffs :: "fake_diffs \<Rightarrow> bool" where
  "consistentDiffs f \<longleftrightarrow>
     fdSeq f = int (length (fdRecs f)) \<and>
     (\<forall>k < length (fdRecs f). drID (fdRecs f ! k) = fakeDiffID k) \<and>
     (\<forall>i p. map_of (fdByID f) i = Some p \<longleftrightarrow> p < length (fdRecs f) \<and> i = fakeDiffID p) \<and>
     (\<forall>r. idsOfRun f r = map drID (filter (\<lambda>rec. dRunID (drDiscrepancy rec) = r) (fdRecs f)))"

inductive fake_diffs_reachable :: "fake_diffs \<Rightarrow> bool" where
  "fake_diffs_reachable NewFakeDiffRepo"
| "fake_diffs_reachable f \<Longrightarrow> fake_diffs_reachable (snd (run_state (FakeDiffRepo_Save d j meta) f))"
| "fake_diffs_reachable f \<Longrightarrow> fake_diffs_reachable (snd (run_state (FakeDiffRepo_MarkResolved i t) f))"

lemma fakeDiffID_inj [simp]: "fakeDiffID j = fakeDiffID k \<longleftrightarrow> j = k"
  by (auto simp: fakeDiffID_def FormatInt_inj)

lemma save_consistent:
  assumes "consistentDiffs f"
  shows "consistentDiffs (snd (run_state (FakeDiffRepo_Save d j meta) f))"
proof -
  let ?f = "snd (run_state (FakeDiffRepo_Save d j meta) f)" and ?n = "length (fdRecs f)"
  have i: "''fake-'' @ FormatInt 10 (fdSeq f + 1) = fakeDiffID ?n" using assms by (simp add: consistentDiffs_def fakeDiffID_def)
  have len: "length (fdRecs ?f) = Suc ?n" by (simp add: FakeDiffRepo_Save_def Let_def)
  have "fdSeq ?f = int (length (fdRecs ?f))" using assms by (simp add: consistentDiffs_def FakeDiffRepo_Save_def Let_def)
  moreover have "drID (fdRecs ?f ! k) = fakeDiffID k" if "k < length (fdRecs ?f)" for k
    using that assms i len by (auto simp: consistentDiffs_def FakeDiffRepo_Save_def Let_def nth_append less_Suc_eq)
  moreover have "map_of (fdByID ?f) x = Some p \<longleftrightarrow> p < length (fdRecs ?f) \<and> x = fakeDiffID p" for x p
    using assms i len unfolding consistentDiffs_def
    by (auto simp: FakeDiffRepo_Save_def Let_def update_conv' less_Suc_eq)
  moreover have "idsOfRun ?f r = map drID (filter (\<lambda>rec. dRunID (drDiscrepancy rec) = r) (fdRecs ?f))" for r
    using assms i by (auto simp: consistentDiffs_def FakeDiffRepo_Save_def Let_def idsOfRun_def update_conv')
  ultimately show ?thesis unfolding consistentDiffs_def by blast
qed

lemma filter_list_update:
  assumes "p < length xs" "P y = P (xs ! p)" "f y = f (xs ! p)"
  shows "map f (filter P (xs[p := y])) = map f (filter P xs)"
  using assms by (induction xs arbitrary: p) (auto split: nat.splits simp: nth_Cons)

lemma resolve_consistent:
  assumes "consistentDiffs f"
  shows "consistentDiffs (snd (run_state (FakeDiffRepo_MarkResolved i t) f))"
proof (cases "map_of (fdByID f) i")
  case (Some p)
  let ?r = "(fdRecs f ! p)\<lparr>drResolved := True, drResolvedAt := Some t\<rparr>"
  have p: "p < length (fdRecs f)" using assms Some by (auto simp: consistentDiffs_def)
  have "map drID (filter (\<lambda>rec. dRunID (drDiscrepancy rec) = x) ((fdRecs f)[p := ?r])) =
      map drID (filter (\<lambda>rec. dRunID (drDiscrepancy rec) = x) (fdRecs f))" for x
    using p by (intro filter_list_update) simp_all
  moreover have "snd (run_state (FakeDiffRepo_MarkResolved i t) f) = f\<lparr>fdRecs := (fdRecs f)[p := ?r]\<rparr>"
    using Some by (simp add: FakeDiffRepo_MarkResolved_def)
  ultimately show ?thesis
    using assms p by (simp add: consistentDiffs_def idsOfRun_def nth_list_update)
qed (use assms in \<open>simp add: FakeDiffRepo_MarkResolved_def\<close>)

lemma fake_diffs_consistent: "fake_diffs_reachable f \<Longrightarrow> consistentDiffs f"
proof (induction rule: fake_diffs_reachable.induct)
  case 1
  then show ?case by (simp add: consistentDiffs_def NewFakeDiffRepo_def idsOfRun_def)
qed (simp_all only: save_consistent resolve_consistent)

text \<open>Whatever was saved and resolved, the lookups never meet a nil pointer, the three indexes agree, and a record
  that is resolved by its id is resolved in every listing.\<close>

lemma recordAt_nth:
  assumes "consistentDiffs f" "k < length (fdRecs f)"
  shows "recordAt f (drID (fdRecs f ! k)) = Some (fdRecs f ! k)"
  using assms by (simp add: consistentDiffs_def recordAt_def)

lemma recordAt_all:
  assumes "consistentDiffs f" "set rs \<subseteq> set (fdRecs f)"
  shows "those (map (recordAt f) (map drID rs)) = Some rs"
  using assms(2)
proof (induction rs)
  case (Cons r rs)
  then obtain k where "k < length (fdRecs f)" "r = fdRecs f ! k" by (auto simp: in_set_conv_nth)
  then show ?case using Cons recordAt_nth [OF assms(1)] by simp
qed simp

theorem fake_diffs_lookup:
  assumes "fake_diffs_reachable f"
  shows "run_state (FakeDiffRepo_FindByRun r) f = (Some (filter (\<lambda>rec. dRunID (drDiscrepancy rec) = r) (fdRecs f)), f) \<and>
    list_all (\<lambda>rec. run_state (FakeDiffRepo_FindByID (drID rec)) f = (Inr rec, f)) (fdRecs f) \<and>
    distinct (map drID (fdRecs f))"
proof -
  have c: "consistentDiffs f" using fake_diffs_consistent [OF assms] .
  have "idsOfRun f r = map drID (filter (\<lambda>rec. dRunID (drDiscrepancy rec) = r) (fdRecs f))"
    using c unfolding consistentDiffs_def by blast
  then have "run_state (FakeDiffRepo_FindByRun r) f = (Some (filter (\<lambda>rec. dRunID (drDiscrepancy rec) = r) (fdRecs f)), f)"
    using recordAt_all [OF c, of "filter (\<lambda>rec. dRunID (drDiscrepancy rec) = r) (fdRecs f)"]
    by (auto simp: FakeDiffRepo_FindByRun_def)
  moreover have "list_all (\<lambda>rec. run_state (FakeDiffRepo_FindByID (drID rec)) f = (Inr rec, f)) (fdRecs f)"
    using recordAt_nth [OF c] by (simp add: list_all_length FakeDiffRepo_FindByID_def)
  moreover have "distinct (map drID (fdRecs f))"
    using c by (simp add: distinct_conv_nth consistentDiffs_def)
  ultimately show ?thesis by simp
qed

section \<open>The fake run repository shares its runs\<close>

text \<open>A change through a pointer that \<open>FindByID\<close> returned is stored at once, although nothing was saved.\<close>

theorem fake_run_shared:
  assumes "run_state (FakeRunRepo_FindByID i) h = (Inr p, h)" and "p < length (hpRuns h)"
    and "method (hpRuns h ! p) = Inr r" and "run_state (mutateRun method p) h = (e, h')"
  shows "e = None \<and> run_state (FakeRunRepo_FindByID i) h' = (Inr p, h') \<and> hpRuns h' ! p = r"
  using assms by (auto simp: FakeRunRepo_FindByID_def mutateRun_def split: option.splits)

section \<open>The fake budget\<close>

text \<open>The counter of the current window in Redis, and when the fake shows the same budget.\<close>

definition usedIn :: "redis_world \<Rightarrow> string \<Rightarrow> source_id \<Rightarrow> duration \<Rightarrow> int" where
  "usedIn w prefix sid window = orZero (map_option fst (liveCells w (budgetKey prefix sid window (rwNow w))))"

definition budgetShown :: "budget_policy \<Rightarrow> string \<Rightarrow> source_id \<Rightarrow> fake_budget \<Rightarrow> redis_world \<Rightarrow> bool" where
  "budgetShown p prefix sid f w \<longleftrightarrow>
     fbBudgets f sid = bpLimit p \<and> fbUsage f sid = usedIn w prefix sid (bpWindow p) \<and> 0 \<le> fbUsage f sid"

lemma reserve_simulated:
  assumes "0 < n" "sid \<noteq> []" "policyFor cfg sid = Some p" "0 < bpWindow p" "budgetShown p prefix sid f w"
    and "run_state (RedisBudget_Reserve (memBudget cfg prefix) sid n) w = (r, w')"
    and "run_state (FakeBudget_Reserve sid n) f = (r', f')"
  shows "r' = r \<and> budgetShown p prefix sid f' w'"
proof -
  let ?k = "budgetKey prefix sid (bpWindow p) (rwNow w)" and ?ttl = "milliseconds (bpWindow p) + 1000"
  have ttl: "0 < ?ttl" using assms(4) by (simp add: milliseconds_def)
  obtain v where run: "run_state (reserveScript memRedis ?k n (bpLimit p) ?ttl) w = (v, w')"
      and r: "r = (if v = - 1 then Some ErrBudgetExhausted else None)"
    using assms(6) unfolding mem_reserve [OF assms(1-3)] by (auto split: prod.splits)
  note eff = mem.reserve_script_run [OF run ttl]
  have used: "mem.value_at w ?k = fbUsage f sid" "0 \<le> fbUsage f sid" "fbBudgets f sid = bpLimit p"
    using assms(5) by (simp_all add: budgetShown_def usedIn_def mem.value_at_def)
  show ?thesis
  proof (cases "fbUsage f sid + n > bpLimit p")
    case True
    then have "r = Some ErrBudgetExhausted" "liveCells w' = liveCells w" "rwNow w' = rwNow w"
      using eff r used by auto
    with True show ?thesis using assms(5,7) used by (auto simp: FakeBudget_Reserve_def budgetShown_def usedIn_def)
  next
    case False
    then have "r = None" "usedIn w' prefix sid (bpWindow p) = fbUsage f sid + n"
      using eff r used assms(1) by (auto simp: usedIn_def orZero_def)
    with False show ?thesis using assms(1,5,7) used by (auto simp: FakeBudget_Reserve_def budgetShown_def)
  qed
qed

lemma refund_simulated:
  assumes "0 < n" "sid \<noteq> []" "policyFor cfg sid = Some p" "budgetShown p prefix sid f w"
    and "run_state (RedisBudget_Refund (memBudget cfg prefix) sid n) w = (r, w')"
    and "run_state (FakeBudget_Refund sid n) f = (r', f')"
  shows "r' = r \<and> budgetShown p prefix sid f' w'"
proof -
  let ?k = "budgetKey prefix sid (bpWindow p) (rwNow w)"
  obtain v where run: "run_state (refundScript memRedis ?k n) w = (v, w')" and r: "r = None"
    using assms(5) unfolding mem_refund [OF assms(1-3)] by (auto split: prod.splits) (metis prod.collapse)
  note eff = mem.refund_script_run [OF run]
  have used: "mem.value_at w ?k = fbUsage f sid" "fbBudgets f sid = bpLimit p"
    using assms(4) by (simp_all add: budgetShown_def usedIn_def mem.value_at_def)
  have "usedIn w' prefix sid (bpWindow p) = (if fbUsage f sid - n < 0 then 0 else fbUsage f sid - n)"
    using eff used by (auto simp: usedIn_def orZero_def)
  then show ?thesis using assms(6) r used by (auto simp: FakeBudget_Refund_def budgetShown_def)
qed

text \<open>Operations of the two budgets side by side.\<close>

datatype budget_op = ReserveOp int | RefundOp int

fun runBudget :: "'w rate_limit_budget \<Rightarrow> source_id \<Rightarrow> budget_op list \<Rightarrow> ('w, app_error option list) state" where
  "runBudget b sid [] = State_Monad.return []"
| "runBudget b sid (op # ops) =
     do {
       e \<leftarrow> (case op of ReserveOp n \<Rightarrow> Budget_Reserve b sid n | RefundOp n \<Rightarrow> Budget_Refund b sid n);
       es \<leftarrow> runBudget b sid ops;
       State_Monad.return (e # es)
     }"

fun amount :: "budget_op \<Rightarrow> int" where
  "amount (ReserveOp n) = n"
| "amount (RefundOp n) = n"

text \<open>
  The fake budget answers as the budget in Redis does: for a source with a policy, seeded with its limit, any
  sequence of reservations and refunds of positive amounts within one window has the same answers.
\<close>

theorem fake_budget_simulates:
  assumes "sid \<noteq> []" and "policyFor cfg sid = Some p" and "0 < bpWindow p"
    and "list_all (\<lambda>op. 0 < amount op) ops" and "budgetShown p prefix sid f w"
  shows "fst (run_state (runBudget fakeBudget sid ops) f) =
    fst (run_state (runBudget (redisBudgetPort (memBudget cfg prefix)) sid ops) w)"
  using assms(4,5)
proof (induction ops arbitrary: f w)
  case (Cons op ops)
  let ?b = "redisBudgetPort (memBudget cfg prefix)"
  obtain n where n: "op = ReserveOp n \<or> op = RefundOp n" "0 < n" using Cons.prems(1) by (cases op) auto
  obtain r w' where r: "run_state (case op of ReserveOp n \<Rightarrow> Budget_Reserve ?b sid n | RefundOp n \<Rightarrow> Budget_Refund ?b sid n) w = (r, w')"
    by (rule prod.exhaust)
  obtain r' f' where r': "run_state (case op of ReserveOp n \<Rightarrow> Budget_Reserve fakeBudget sid n | RefundOp n \<Rightarrow> Budget_Refund fakeBudget sid n) f = (r', f')"
    by (rule prod.exhaust)
  have "r' = r \<and> budgetShown p prefix sid f' w'"
    using n(1)
  proof
    assume "op = ReserveOp n"
    then show ?thesis
      using r r' reserve_simulated [OF n(2) assms(1-3) Cons.prems(2)] by (simp add: redisBudgetPort_def fakeBudget_def)
  next
    assume "op = RefundOp n"
    then show ?thesis
      using r r' refund_simulated [OF n(2) assms(1,2) Cons.prems(2)] by (simp add: redisBudgetPort_def fakeBudget_def)
  qed
  then show ?case using Cons r r' by (simp add: split_beta)
qed simp

text \<open>For a source without a policy the two differ: Redis grants everything, the fake nothing.\<close>

lemma fake_budget_unseeded:
  assumes "0 < n" "sid \<noteq> []" "policyFor cfg sid = None" "map_of initial sid = None"
  shows "fst (run_state (RedisBudget_Reserve (memBudget cfg prefix) sid n) w) = None"
    and "fst (run_state (FakeBudget_Reserve sid n) (NewFakeRateLimitBudget initial)) = Some ErrBudgetExhausted"
  using assms by (simp_all add: RedisBudget_Reserve_def memBudget_def FakeBudget_Reserve_def NewFakeRateLimitBudget_def)

end
