(* ===== verification/Observability.thy ===== *)
theory Observability
  imports Ports
begin

text \<open>
  The structured logger of \<open>internal/observability/logger.go\<close>: its options, the correlation ids carried in a context and
  the handler that adds them to every record. The handlers of \<open>log/slog\<close> are modelled by the line they write.
\<close>

section \<open>Handlers of \<open>log/slog\<close>\<close>

text \<open>The zero attribute is ignored by every handler. A line has a level, a message and fields, which groups nest.\<close>

datatype log_attr = ZeroAttr | StringAttr string string

datatype log_field = LogField string string | LogGroup string "log_field list"

record slog_record =
  srLevel :: int
  srMessage :: string
  srAttrs :: "log_attr list"

record slog_line =
  lnFormat :: string
  lnSource :: bool
  lnLevel :: int
  lnMessage :: string
  lnFields :: "log_field list"

definition slogDebug :: int where "slogDebug = -4"
definition slogInfo :: int where "slogInfo = 0"
definition slogWarn :: int where "slogWarn = 4"
definition slogError :: int where "slogError = 8"

text \<open>A handler of the library: its options, the attributes at the top and the open groups with theirs, outermost first.\<close>

record std_handler =
  shFormat :: string
  shLevel :: int
  shAddSource :: bool
  shAttrs :: "log_attr list"
  shGroups :: "(string \<times> log_attr list) list"

fun shown :: "log_attr list \<Rightarrow> log_field list" where
  "shown [] = []"
| "shown (ZeroAttr # as) = shown as"
| "shown (StringAttr k v # as) = LogField k v # shown as"

text \<open>The attributes of a record belong to the innermost group; a group without fields is left out.\<close>

fun openFields :: "(string \<times> log_attr list) list \<Rightarrow> log_attr list \<Rightarrow> log_field list" where
  "openFields [] rs = shown rs"
| "openFields ((g, as) # gs) rs =
     (let inner = shown as @ openFields gs rs in if inner = [] then [] else [LogGroup g inner])"

definition stdHandle :: "std_handler \<Rightarrow> slog_record \<Rightarrow> slog_line" where
  "stdHandle h r =
     \<lparr>lnFormat = shFormat h, lnSource = shAddSource h, lnLevel = srLevel r, lnMessage = srMessage r,
      lnFields = shown (shAttrs h) @ openFields (shGroups h) (srAttrs r)\<rparr>"

fun addInnermost :: "log_attr list \<Rightarrow> (string \<times> log_attr list) list \<Rightarrow> (string \<times> log_attr list) list" where
  "addInnermost as [] = []"
| "addInnermost as [(g, bs)] = [(g, bs @ as)]"
| "addInnermost as (x # y # gs) = x # addInnermost as (y # gs)"

definition stdWithAttrs :: "log_attr list \<Rightarrow> std_handler \<Rightarrow> std_handler" where
  "stdWithAttrs as h =
     (if shGroups h = [] then h\<lparr>shAttrs := shAttrs h @ as\<rparr>
      else h\<lparr>shGroups := addInnermost as (shGroups h)\<rparr>)"

definition stdWithGroup :: "string \<Rightarrow> std_handler \<Rightarrow> std_handler" where
  "stdWithGroup g h = (if g = [] then h else h\<lparr>shGroups := shGroups h @ [(g, [])]\<rparr>)"

section \<open>The wrapping handler\<close>

datatype slog_handler = StdHandler std_handler | AttrHandler slog_handler "log_attr list"

definition newAttrHandler :: "slog_handler \<Rightarrow> log_attr list \<Rightarrow> slog_handler" where
  "newAttrHandler h attrs = AttrHandler h attrs"

fun attr_Enabled :: "slog_handler \<Rightarrow> int \<Rightarrow> bool" where
  "attr_Enabled (StdHandler h) lvl = (lvl \<ge> shLevel h)"
| "attr_Enabled (AttrHandler h attrs) lvl = attr_Enabled h lvl"

fun attr_Handle :: "slog_handler \<Rightarrow> slog_record \<Rightarrow> slog_line" where
  "attr_Handle (StdHandler h) r = stdHandle h r"
| "attr_Handle (AttrHandler h attrs) r = attr_Handle h (r\<lparr>srAttrs := srAttrs r @ attrs\<rparr>)"

fun attr_WithAttrs :: "log_attr list \<Rightarrow> slog_handler \<Rightarrow> slog_handler" where
  "attr_WithAttrs as (StdHandler h) = StdHandler (stdWithAttrs as h)"
| "attr_WithAttrs as (AttrHandler h attrs) = AttrHandler (attr_WithAttrs as h) (attrs @ as)"

fun attr_WithGroup :: "string \<Rightarrow> slog_handler \<Rightarrow> slog_handler" where
  "attr_WithGroup g (StdHandler h) = StdHandler (stdWithGroup g h)"
| "attr_WithGroup g (AttrHandler h attrs) = AttrHandler (attr_WithGroup g h) attrs"

section \<open>The logger\<close>

definition FormatJSON :: string where "FormatJSON = ''json''"
definition FormatText :: string where "FormatText = ''text''"
definition LevelDebug :: string where "LevelDebug = ''debug''"
definition LevelInfo :: string where "LevelInfo = ''info''"
definition LevelWarn :: string where "LevelWarn = ''warn''"
definition LevelError :: string where "LevelError = ''error''"

lemmas log_names = FormatJSON_def FormatText_def LevelDebug_def LevelInfo_def LevelWarn_def LevelError_def
lemmas slog_levels = slogDebug_def slogInfo_def slogWarn_def slogError_def

text \<open>The writer is named; \<open>None\<close> falls back to the standard error.\<close>

record logger_options =
  loLevel :: string
  loFormat :: string
  loWriter :: "string option"
  loAddSource :: bool

definition parseLevel :: "string \<Rightarrow> int" where
  "parseLevel l =
     (let s = ToLower l in
      if s = LevelDebug then slogDebug
      else if s = LevelWarn then slogWarn
      else if s = LevelError then slogError
      else slogInfo)"

definition normalizeFormat :: "string \<Rightarrow> string" where
  "normalizeFormat f = (if ToLower f = FormatText then FormatText else FormatJSON)"

definition NewLogger :: "logger_options \<Rightarrow> string \<times> slog_handler" where
  "NewLogger opts =
     (case loWriter opts of None \<Rightarrow> ''stderr'' | Some w \<Rightarrow> w,
      StdHandler \<lparr>shFormat = normalizeFormat (loFormat opts), shLevel = parseLevel (loLevel opts),
        shAddSource = loAddSource opts, shAttrs = [], shGroups = []\<rparr>)"

text \<open>Contexts, of which only the value under the key of this package matters. A nil context is \<open>None\<close>, and
  \<open>context.WithValue\<close> panics on it.\<close>

record ctx_fields =
  cfRequestID :: string
  cfRunID :: string
  cfSourceID :: string

type_synonym log_ctx = "ctx_fields option"

definition fieldsFromCtx :: "log_ctx option \<Rightarrow> ctx_fields" where
  "fieldsFromCtx ctx =
     (case ctx of
        Some (Some f) \<Rightarrow> f
      | _ \<Rightarrow> \<lparr>cfRequestID = [], cfRunID = [], cfSourceID = []\<rparr>)"

definition ctxWithValue :: "log_ctx option \<Rightarrow> ctx_fields \<Rightarrow> string + log_ctx" where
  "ctxWithValue ctx f =
     (case ctx of None \<Rightarrow> Inl ''cannot create context from nil parent'' | Some _ \<Rightarrow> Inr (Some f))"

definition WithRequestID :: "log_ctx option \<Rightarrow> string \<Rightarrow> string + log_ctx" where
  "WithRequestID ctx i = ctxWithValue ctx ((fieldsFromCtx ctx)\<lparr>cfRequestID := i\<rparr>)"

definition WithRunID :: "log_ctx option \<Rightarrow> string \<Rightarrow> string + log_ctx" where
  "WithRunID ctx i = ctxWithValue ctx ((fieldsFromCtx ctx)\<lparr>cfRunID := i\<rparr>)"

definition WithSourceID :: "log_ctx option \<Rightarrow> string \<Rightarrow> string + log_ctx" where
  "WithSourceID ctx i = ctxWithValue ctx ((fieldsFromCtx ctx)\<lparr>cfSourceID := i\<rparr>)"

definition LoggerFromContext :: "slog_handler \<Rightarrow> log_ctx option \<Rightarrow> slog_handler option \<Rightarrow> slog_handler" where
  "LoggerFromContext deflt ctx base =
     (let h = (case base of None \<Rightarrow> deflt | Some b \<Rightarrow> b);
          f = fieldsFromCtx ctx;
          attrs = (if cfRequestID f \<noteq> [] then [StringAttr ''request_id'' (cfRequestID f)] else []) @
                  (if cfRunID f \<noteq> [] then [StringAttr ''run_id'' (cfRunID f)] else []) @
                  (if cfSourceID f \<noteq> [] then [StringAttr ''source_id'' (cfSourceID f)] else [])
      in if length attrs = 0 then h else newAttrHandler h attrs)"

definition ErrAttr :: "string option \<Rightarrow> log_attr" where
  "ErrAttr err = (case err of None \<Rightarrow> ZeroAttr | Some e \<Rightarrow> StringAttr ''error'' e)"

section \<open>What is written\<close>

lemma shown_append [simp]: "shown (as @ bs) = shown as @ shown bs"
  by (induction as rule: shown.induct) auto

text \<open>The levels and formats the configuration accepts are kept; anything else logs at the level info, as JSON.\<close>

lemma parseLevel_accepted:
  "parseLevel l = (if ToLower l = LevelDebug then -4 else if ToLower l = LevelWarn then 4
     else if ToLower l = LevelError then 8 else 0)"
  by (simp add: parseLevel_def slog_levels Let_def)

text \<open>A logger made from a context drops no line the base would write, and adds the ids of the context to the innermost
  group that is open.\<close>

lemma LoggerFromContext_Enabled: "attr_Enabled (LoggerFromContext deflt ctx (Some h)) lvl = attr_Enabled h lvl"
  by (simp add: LoggerFromContext_def newAttrHandler_def Let_def)

lemma correlation_fields:
  assumes "WithRequestID (Some c) i = Inr c1" "WithRunID (Some c1) j = Inr c2" "i \<noteq> []" "j \<noteq> []"
    and "shGroups h = []" "cfSourceID (fieldsFromCtx (Some c)) = []"
  shows "lnFields (attr_Handle (LoggerFromContext deflt (Some c2) (Some (StdHandler h))) r) =
      lnFields (attr_Handle (StdHandler h) r) @ [LogField ''request_id'' i, LogField ''run_id'' j]"
  using assms
  by (auto simp: WithRequestID_def WithRunID_def ctxWithValue_def LoggerFromContext_def fieldsFromCtx_def newAttrHandler_def
      stdHandle_def Let_def)

text \<open>\<open>With\<close> on such a logger: its attributes are written twice, because they go to the inner handler and are
  added to the record as well.\<close>

lemma with_attrs_twice:
  assumes "shGroups h = []"
  shows "mset (lnFields (attr_Handle (attr_WithAttrs as (newAttrHandler (StdHandler h) ids)) r)) =
      mset (lnFields (attr_Handle (newAttrHandler (attr_WithAttrs as (StdHandler h)) ids) r)) + mset (shown as)"
  using assms by (simp add: newAttrHandler_def stdWithAttrs_def stdHandle_def)

text \<open>After \<open>WithGroup\<close> the ids are inside the group, no longer at the top where a search for them would look.\<close>

lemma ids_move_into_group:
  assumes "shGroups h = []" "g \<noteq> []" "shown ids \<noteq> []"
  shows "lnFields (attr_Handle (attr_WithGroup g (newAttrHandler (StdHandler h) ids)) r) =
      shown (shAttrs h) @ [LogGroup g (shown (srAttrs r) @ shown ids)]"
  using assms by (simp add: newAttrHandler_def stdWithGroup_def stdHandle_def)

end
