(* ===== verification/Config.thy ===== *)
theory Config
  imports Observability
begin

text \<open>
  The configuration (\<open>internal/config/config.go\<close>): the tree of settings, the three layers it is loaded from and its
  validation. koanf, which parses and merges the layers, is an argument, as are the file system and the environment.
\<close>

section \<open>The tree\<close>

record server_config =
  svAddr :: string
  svCORSOrigins :: "string list"
  svReadTimeout :: duration
  svWriteTimeout :: duration
  svShutdownGrace :: duration

record worker_config =
  wkConcurrency :: int
  wkHealthAddr :: string
  wkShutdownGrace :: duration

record log_config =
  lcLevel :: string
  lcFormat :: string

record chain_config =
  ccID :: uint64
  ccSlug :: string
  ccDisplayName :: string

record rpc_adapter_config =
  rcfEnabled :: bool
  rcfEndpoints :: "(uint64, string) gomap"
  rcfArchive :: bool
  rcfRateLimitRPS :: int
  rcfTimeout :: duration
  rcfMaxRetries :: int

record blockscout_adapter_config =
  bcfEnabled :: bool
  bcfEndpoints :: "(uint64, string) gomap"
  bcfRateLimitRPS :: int
  bcfTimeout :: duration
  bcfMaxRetries :: int

record etherscan_adapter_config =
  ecfEnabled :: bool
  ecfBaseURL :: string
  ecfAPIKey :: string
  ecfRateLimitRPS :: int
  ecfTimeout :: duration
  ecfMaxRetries :: int

record adapters_config =
  adRPC :: rpc_adapter_config
  adBlockscout :: blockscout_adapter_config
  adEtherscan :: etherscan_adapter_config

record verification_config =
  vcMaxConcurrentPerSource :: int
  vcDefaultTimeout :: duration

record retention_config =
  rcRunsDays :: int
  rcCronExpr :: string

record config =
  cfgServer :: server_config
  cfgWorker :: worker_config
  cfgLog :: log_config
  cfgChains :: "chain_config list"
  cfgAdapters :: adapters_config
  cfgVerification :: verification_config
  cfgRawResponsePersist :: bool
  cfgRetention :: retention_config

section \<open>Names of environment variables\<close>

definition EnvPrefix :: string where "EnvPrefix = ''CSW_''"
definition EnvPathSep :: string where "EnvPathSep = ''__''"
definition DefaultLocalFile :: string where "DefaultLocalFile = ''configs/config.local.yaml''"

definition TrimPrefix :: "string \<Rightarrow> string \<Rightarrow> string" where
  "TrimPrefix s pre = (if HasPrefix s pre then drop (length pre) s else s)"

text \<open>\<open>strings.ReplaceAll\<close> for a string to replace that is not empty: the matches from left to right.\<close>

function ReplaceAll :: "string \<Rightarrow> string \<Rightarrow> string \<Rightarrow> string" where
  "ReplaceAll [] old new = []"
| "ReplaceAll (c # cs) old new =
     (if old \<noteq> [] \<and> HasPrefix (c # cs) old
      then new @ ReplaceAll (drop (length old) (c # cs)) old new
      else c # ReplaceAll cs old new)"
  by pat_completeness auto
termination
  by (relation "measure (\<lambda>(s, _, _). length s)") auto

text \<open>Names of variables are ASCII, so \<open>ToLower\<close> lowers every letter of them.\<close>

definition envKeyToPath :: "string \<Rightarrow> string" where
  "envKeyToPath name = ReplaceAll (ToLower (TrimPrefix name EnvPrefix)) EnvPathSep ''.''"

section \<open>Validation\<close>

datatype config_invalid =
    AddrEmpty
  | ChainsEmpty
  | ChainIDZero nat
  | ChainSlugEmpty nat
  | ChainDuplicate nat uint64
  | LevelUnknown string
  | FormatUnknown string
  | EtherscanKeyMissing

fun checkChains :: "nat \<Rightarrow> uint64 list \<Rightarrow> chain_config list \<Rightarrow> config_invalid option" where
  "checkChains i seen [] = None"
| "checkChains i seen (ch # chs) =
     (if ccID ch = 0 then Some (ChainIDZero i)
      else if ccSlug ch = [] then Some (ChainSlugEmpty i)
      else if ccID ch \<in> set seen then Some (ChainDuplicate i (ccID ch))
      else checkChains (Suc i) (ccID ch # seen) chs)"

definition Config_Validate :: "config \<Rightarrow> config_invalid option" where
  "Config_Validate c =
     (if svAddr (cfgServer c) = [] then Some AddrEmpty
      else if length (cfgChains c) = 0 then Some ChainsEmpty
      else case checkChains 0 [] (cfgChains c) of
        Some e \<Rightarrow> Some e
      | None \<Rightarrow>
          if lcLevel (cfgLog c) \<notin> {''debug'', ''info'', ''warn'', ''error''} then Some (LevelUnknown (lcLevel (cfgLog c)))
          else if lcFormat (cfgLog c) \<notin> {''json'', ''text''} then Some (FormatUnknown (lcFormat (cfgLog c)))
          else if ecfEnabled (adEtherscan (cfgAdapters c)) \<and> ecfAPIKey (adEtherscan (cfgAdapters c)) = []
          then Some EtherscanKeyMissing
          else None)"

section \<open>Loading\<close>

text \<open>koanf with its providers: an empty tree, merging a YAML text, a YAML file, or the environment variables with a
  prefix under the paths a function gives, and decoding the tree. \<open>os.Stat\<close> finds a file, finds none, or fails.\<close>

record 'k koanf =
  kNew :: 'k
  kLoadYAML :: "string \<Rightarrow> 'k \<Rightarrow> string + 'k"
  kLoadFile :: "string \<Rightarrow> 'k \<Rightarrow> string + 'k"
  kLoadEnv :: "string \<Rightarrow> string \<Rightarrow> (string \<Rightarrow> string) \<Rightarrow> 'k \<Rightarrow> string + 'k"
  kUnmarshal :: "'k \<Rightarrow> string + config"

datatype stat_result = StatFound | StatMissing | StatFailed string

datatype config_error =
    DefaultsError string
  | LocalError string string
  | StatError string string
  | EnvError string
  | UnmarshalError string
  | InvalidConfig config_invalid

definition loadLocal ::
  "'k koanf \<Rightarrow> (string \<Rightarrow> stat_result) \<Rightarrow> string \<Rightarrow> 'k \<Rightarrow> config_error + 'k" where
  "loadLocal K stat path k =
     (case stat path of
        StatFound \<Rightarrow> map_sum (LocalError path) id (kLoadFile K path k)
      | StatMissing \<Rightarrow> Inr k
      | StatFailed e \<Rightarrow> Inl (StatError path e))"

definition Config_Load ::
  "'k koanf \<Rightarrow> (string \<Rightarrow> stat_result) \<Rightarrow> string \<Rightarrow> string option \<Rightarrow> config_error + config" where
  "Config_Load K stat defaultYAML opts =
     (case kLoadYAML K defaultYAML (kNew K) of
        Inl e \<Rightarrow> Inl (DefaultsError e)
      | Inr k1 \<Rightarrow>
     (let localPath = (case opts of None \<Rightarrow> [] | Some p \<Rightarrow> p);
          localPath = (if localPath = [] then DefaultLocalFile else localPath)
      in case loadLocal K stat localPath k1 of
        Inl e \<Rightarrow> Inl e
      | Inr k2 \<Rightarrow>
     (case kLoadEnv K EnvPrefix ''.'' envKeyToPath k2 of
        Inl e \<Rightarrow> Inl (EnvError e)
      | Inr k3 \<Rightarrow>
     (case kUnmarshal K k3 of
        Inl e \<Rightarrow> Inl (UnmarshalError e)
      | Inr cfg \<Rightarrow>
     (case Config_Validate cfg of
        Some e \<Rightarrow> Inl (InvalidConfig e)
      | None \<Rightarrow> Inr cfg)))))"

section \<open>What validation and loading give\<close>

lemma checkChains_None:
  "checkChains i seen chs = None \<longleftrightarrow>
     (\<forall>ch \<in> set chs. ccID ch \<noteq> 0 \<and> ccSlug ch \<noteq> []) \<and> distinct (map ccID chs) \<and> set seen \<inter> ccID ` set chs = {}"
  by (induction i seen chs rule: checkChains.induct) auto

text \<open>What a valid configuration is.\<close>

definition validConfig :: "config \<Rightarrow> bool" where
  "validConfig c \<longleftrightarrow>
     svAddr (cfgServer c) \<noteq> [] \<and> cfgChains c \<noteq> [] \<and> (\<forall>ch \<in> set (cfgChains c). ccID ch \<noteq> 0 \<and> ccSlug ch \<noteq> []) \<and>
     distinct (map ccID (cfgChains c)) \<and> lcLevel (cfgLog c) \<in> {LevelDebug, LevelInfo, LevelWarn, LevelError} \<and>
     lcFormat (cfgLog c) \<in> {FormatJSON, FormatText} \<and>
     (ecfEnabled (adEtherscan (cfgAdapters c)) \<longrightarrow> ecfAPIKey (adEtherscan (cfgAdapters c)) \<noteq> [])"

lemma Config_Validate_iff: "Config_Validate c = None \<longleftrightarrow> validConfig c"
proof (cases "checkChains 0 [] (cfgChains c)")
  case None
  then show ?thesis using checkChains_None [of 0 "[]" "cfgChains c"]
    by (auto simp: Config_Validate_def validConfig_def log_names)
next
  case (Some e)
  then show ?thesis using checkChains_None [of 0 "[]" "cfgChains c"] by (auto simp: Config_Validate_def validConfig_def)
qed

lemma loadLocal_missing: "stat path = StatMissing \<Longrightarrow> loadLocal K stat path k = Inr k"
  by (simp add: loadLocal_def)

lemma Config_Load_valid: "Config_Load K stat defaultYAML opts = Inr cfg \<Longrightarrow> validConfig cfg"
  by (auto simp: Config_Load_def Let_def Config_Validate_iff split: sum.splits option.splits)

text \<open>A segment of a path: no separator inside, and no underscore at its end, where it would be read as part of the
  separator that follows.\<close>

fun pathSegment :: "string \<Rightarrow> bool" where
  "pathSegment [] = True"
| "pathSegment [c] = (c \<noteq> CHR ''_'')"
| "pathSegment (c # d # s) = ((c \<noteq> CHR ''_'' \<or> d \<noteq> CHR ''_'') \<and> pathSegment (d # s))"

lemma lowerChar_underscore [simp]: "lowerChar c = CHR ''_'' \<longleftrightarrow> c = CHR ''_''"
proof
  assume low: "lowerChar c = CHR ''_''"
  show "c = CHR ''_''"
  proof (rule ccontr)
    assume "c \<noteq> CHR ''_''"
    then have "lowerChar c \<noteq> c" using low by auto
    then have bounds: "65 \<le> (of_char c :: nat)" "(of_char c :: nat) \<le> 90" and "lowerChar c = char_of (of_char c + 32 :: nat)"
      by (auto simp: lowerChar_def Let_def split: if_splits)
    then have "of_char (lowerChar c) = (of_char c + 32 :: nat)" by simp
    then have "(95 :: nat) = of_char c + 32" unfolding low by simp
    then show False using bounds by simp
  qed
qed (simp add: lowerChar_def)

lemma pathSegment_ToLower [simp]: "pathSegment (ToLower s) = pathSegment s"
  by (induction s rule: pathSegment.induct) (auto simp: ToLower_def)

lemma ReplaceAll_segment:
  "pathSegment s \<Longrightarrow> ReplaceAll s ''__'' new = s"
  "pathSegment s \<Longrightarrow> ReplaceAll (s @ ''__'' @ t) ''__'' new = s @ new @ ReplaceAll t ''__'' new"
  by (induction s rule: pathSegment.induct) (auto simp: HasPrefix_def)

lemma ReplaceAll_Join:
  "(\<forall>s \<in> set segs. pathSegment s) \<Longrightarrow> ReplaceAll (Join segs ''__'') ''__'' new = Join segs new"
  by (induction segs "''__''" rule: Join.induct) (simp_all add: ReplaceAll_segment ReplaceAll_segment(2) [simplified])

lemma ToLower_Join: "ToLower (Join segs ''__'') = Join (map ToLower segs) ''__''"
  by (induction segs "''__''" rule: Join.induct) (auto simp: ToLower_def lowerChar_def)

lemma env_paths:
  assumes "\<forall>s \<in> set segs. pathSegment s"
  shows "envKeyToPath (EnvPrefix @ Join segs EnvPathSep) = Join (map ToLower segs) ''.''"
  using assms
  by (simp add: envKeyToPath_def TrimPrefix_def EnvPrefix_def EnvPathSep_def HasPrefix_def ToLower_Join ReplaceAll_Join)

text \<open>The variables the server and the worker are documented to read name other settings than \<open>server.addr\<close>,
  \<open>server.cors_origins\<close> and \<open>worker.health_addr\<close>.\<close>

lemma documented_names_miss:
  "envKeyToPath ''CSW_SERVER_ADDR'' = ''server_addr''" "envKeyToPath ''CSW_SERVER__ADDR'' = ''server.addr''"
  "envKeyToPath ''CSW_WORKER_HEALTH_ADDR'' = ''worker_health_addr''"
  by code_simp+

end
