(* ===== verification/Runtime.thy ===== *)
theory Runtime
  imports Queue Observability
begin

text \<open>
  The runtime around the queue and the database: opening and probing the database
  (\<open>internal/infrastructure/persistence/db.go\<close>), the periodic scheduler, the health server and the logging of tasks
  (\<open>scheduler.go\<close>, \<open>health.go\<close>, \<open>middleware.go\<close> of \<open>internal/infrastructure/queue\<close>). gorm, \<open>database/sql\<close>, asynq
  and the network are arguments.
\<close>

section \<open>The database handle (\<open>db.go\<close>)\<close>

record ('w, 'd, 'q) gorm_lib =
  gmOpen :: "string \<Rightarrow> ('w, string + 'd) state"
  gmDB :: "'d \<Rightarrow> ('w, string + 'q) state"
  sqlSetMaxOpenConns :: "'q \<Rightarrow> int \<Rightarrow> ('w, unit) state"
  sqlSetMaxIdleConns :: "'q \<Rightarrow> int \<Rightarrow> ('w, unit) state"
  sqlSetConnMaxLifetime :: "'q \<Rightarrow> duration \<Rightarrow> ('w, unit) state"
  sqlClose :: "'q \<Rightarrow> ('w, string option) state"
  sqlPing :: "'q \<Rightarrow> ('w, string option) state"

definition OpenDB :: "('w, 'd, 'q) gorm_lib \<Rightarrow> string \<Rightarrow> ('w, app_error + 'd) state" where
  "OpenDB G dsn =
     do {
       opened \<leftarrow> gmOpen G dsn;
       (case opened of
          Inl e \<Rightarrow> State_Monad.return (Inl (Wrap ''persistence: open gorm: '' (ErrNew e)))
        | Inr db \<Rightarrow>
            do {
              unwrapped \<leftarrow> gmDB G db;
              (case unwrapped of
                 Inl e \<Rightarrow> State_Monad.return (Inl (Wrap ''persistence: unwrap sql.DB: '' (ErrNew e)))
               | Inr sqlDB \<Rightarrow>
                   do {
                     _ \<leftarrow> sqlSetMaxOpenConns G sqlDB 25;
                     _ \<leftarrow> sqlSetMaxIdleConns G sqlDB 5;
                     _ \<leftarrow> sqlSetConnMaxLifetime G sqlDB (30 * 60 * 1000000000);
                     State_Monad.return (Inr db)
                   })
            })
     }"

definition DB_Close :: "('w, 'd, 'q) gorm_lib \<Rightarrow> 'd \<Rightarrow> ('w, string option) state" where
  "DB_Close G db =
     do {
       unwrapped \<leftarrow> gmDB G db;
       (case unwrapped of
          Inl e \<Rightarrow> State_Monad.return (Some e)
        | Inr sqlDB \<Rightarrow> sqlClose G sqlDB)
     }"

definition DB_Ping :: "('w, 'd, 'q) gorm_lib \<Rightarrow> 'd option \<Rightarrow> ('w, app_error option) state" where
  "DB_Ping G handle =
     (case handle of
        None \<Rightarrow> State_Monad.return (Some (ErrNew ''persistence: nil gorm.DB''))
      | Some db \<Rightarrow>
          do {
            unwrapped \<leftarrow> gmDB G db;
            (case unwrapped of
               Inl e \<Rightarrow> State_Monad.return (Some (Wrap ''persistence: unwrap sql.DB: '' (ErrNew e)))
             | Inr sqlDB \<Rightarrow>
                 do {
                   res \<leftarrow> sqlPing G sqlDB;
                   State_Monad.return (map_option ErrNew res)
                 })
          })"

section \<open>The scheduler (\<open>scheduler.go\<close>)\<close>

text \<open>asynq's manager of periodic tasks: built from the provider of their configurations and an interval.\<close>

record 'w task_manager =
  tmStart :: "('w, string option) state"
  tmShutdown :: "('w, unit) state"

type_synonym 'w config_provider = "('w, app_error + periodic_task_config list) state"

definition NewScheduler ::
  "('w config_provider \<Rightarrow> duration \<Rightarrow> string + 'w task_manager) \<Rightarrow> 'w config_provider option \<Rightarrow> duration
   \<Rightarrow> app_error + 'w task_manager" where
  "NewScheduler newManager provider syncInterval =
     (case provider of
        None \<Rightarrow> Inl (ErrNew ''queue: scheduler: nil config provider'')
      | Some p \<Rightarrow>
          let interval = (if syncInterval \<le> 0 then 10 * 1000000000 else syncInterval) in
          map_sum (\<lambda>e. Wrap ''queue: new periodic task manager: '' (ErrNew e)) id (newManager p interval))"

definition Scheduler_Start :: "'w task_manager \<Rightarrow> ('w, app_error option) state" where
  "Scheduler_Start m =
     do {
       res \<leftarrow> tmStart m;
       State_Monad.return (map_option (\<lambda>e. Wrap ''queue: start scheduler: '' (ErrNew e)) res)
     }"

definition Scheduler_Shutdown :: "'w task_manager \<Rightarrow> ('w, unit) state" where
  "Scheduler_Shutdown m = tmShutdown m"

section \<open>The health server (\<open>health.go\<close>)\<close>

text \<open>The inspector of asynq and the HTTP server, by the calls made on them. The listener is the address it is bound to.\<close>

record 'w inspector =
  inQueues :: "('w, string + string list) state"
  inClose :: "('w, string option) state"

record 'w health_server =
  hsAddr :: string
  hsInspector :: "'w inspector option"
  hsShutdownSrv :: "('w, string option) state option"
  hsListener :: "string option"

definition NewHealthServer :: "string \<Rightarrow> 'w inspector \<Rightarrow> 'w health_server" where
  "NewHealthServer addr insp = \<lparr>hsAddr = addr, hsInspector = Some insp, hsShutdownSrv = None, hsListener = None\<rparr>"

definition Health_Addr :: "'w health_server \<Rightarrow> string" where
  "Health_Addr h = (case hsListener h of None \<Rightarrow> hsAddr h | Some a \<Rightarrow> a)"

definition Health_healthz :: "nat \<times> string" where
  "Health_healthz = (200, ''ok'')"

definition Health_readyz :: "'w inspector \<Rightarrow> ('w, nat \<times> string) state" where
  "Health_readyz insp =
     do {
       res \<leftarrow> inQueues insp;
       State_Monad.return
         (case res of
            Inl e \<Rightarrow> (503, ''redis unreachable: '' @ e)
          | Inr _ \<Rightarrow> (200, ''ready''))
     }"

text \<open>\<open>serve\<close> starts an HTTP server with the two handlers on the listener and returns how to shut it down.\<close>

definition Health_Start ::
  "(string \<Rightarrow> ('w, string + string) state)
   \<Rightarrow> (string \<Rightarrow> (string \<Rightarrow> ('w, nat \<times> string) state option) \<Rightarrow> ('w, ('w, string option) state) state)
   \<Rightarrow> 'w inspector \<Rightarrow> 'w health_server \<Rightarrow> ('w, app_error + 'w health_server) state" where
  "Health_Start listen serve insp h =
     do {
       bound \<leftarrow> listen (hsAddr h);
       (case bound of
          Inl e \<Rightarrow> State_Monad.return (Inl (WrapQuoted ''queue: health listen '' (hsAddr h) '': '' (ErrNew e)))
        | Inr ln \<Rightarrow>
            do {
              stop \<leftarrow> serve ln
                [''/healthz'' \<mapsto> State_Monad.return Health_healthz, ''/readyz'' \<mapsto> Health_readyz insp];
              State_Monad.return (Inr (h\<lparr>hsListener := Some ln, hsShutdownSrv := Some stop\<rparr>))
            })
     }"

text \<open>The first error is reported, and the inspector is closed in any case.\<close>

definition Health_Shutdown :: "'w health_server \<Rightarrow> ('w, string option) state" where
  "Health_Shutdown h =
     do {
       srvErr \<leftarrow> (case hsShutdownSrv h of None \<Rightarrow> State_Monad.return None | Some stop \<Rightarrow> stop);
       inspErr \<leftarrow> (case hsInspector h of None \<Rightarrow> State_Monad.return None | Some insp \<Rightarrow> inClose insp);
       State_Monad.return (case srvErr of Some e \<Rightarrow> Some e | None \<Rightarrow> inspErr)
     }"

section \<open>Logging of tasks (\<open>middleware.go\<close>)\<close>

type_synonym 'w task_handler = "asynq_task \<Rightarrow> ('w, app_error option outcome) state"

text \<open>\<open>emit\<close> writes a record; \<open>text\<close> is the text of an error. A handler that does not return logs nothing.\<close>

definition taskRecord :: "(app_error \<Rightarrow> string) \<Rightarrow> string \<Rightarrow> int \<Rightarrow> app_error option \<Rightarrow> slog_record" where
  "taskRecord text kind ms err =
     (let common = [StringAttr ''task_type'' kind, StringAttr ''duration_ms'' (FormatInt 10 ms)] in
      case err of
        Some e \<Rightarrow> \<lparr>srLevel = slogWarn, srMessage = ''asynq task error'', srAttrs = common @ [StringAttr ''err'' (text e)]\<rparr>
      | None \<Rightarrow> \<lparr>srLevel = slogInfo, srMessage = ''asynq task ok'', srAttrs = common\<rparr>)"

definition LoggingMiddleware ::
  "(app_error \<Rightarrow> string) \<Rightarrow> 'w clock \<Rightarrow> (slog_record \<Rightarrow> ('w, unit) state) option \<Rightarrow> 'w task_handler \<Rightarrow> 'w task_handler" where
  "LoggingMiddleware text clk logger handler t =
     (case logger of
        None \<Rightarrow> handler t
      | Some emit \<Rightarrow>
          do {
            start \<leftarrow> clk;
            res \<leftarrow> handler t;
            (case res of
               Diverges \<Rightarrow> State_Monad.return Diverges
             | Returns err \<Rightarrow>
                 do {
                   now \<leftarrow> clk;
                   _ \<leftarrow> emit (taskRecord text (tkType t) (milliseconds (now - start)) err);
                   State_Monad.return (Returns err)
                 })
          })"

section \<open>What they do\<close>

text \<open>The middleware changes neither what the handler sees of the world nor what it returns, as long as the clock and
  the logger leave the part \<open>part\<close> of the world alone that the handler works on.\<close>

lemma middleware_transparent:
  assumes clk: "\<And>w t w'. run_state clk w = (t, w') \<Longrightarrow> part w' = part w"
    and emit: "\<And>f r w w'. logger = Some f \<Longrightarrow> run_state (f r) w = ((), w') \<Longrightarrow> part w' = part w"
    and res: "run_state (LoggingMiddleware text clk logger handler t) w = (out, w')"
  shows "\<exists>v v'. part v = part w \<and> run_state (handler t) v = (out, v') \<and> part w' = part v'"
proof (cases logger)
  case None
  then show ?thesis using res by (auto simp: LoggingMiddleware_def)
next
  case (Some f)
  obtain s v where s: "run_state clk w = (s, v)" by (rule prod.exhaust)
  obtain o' v' where h: "run_state (handler t) v = (o', v')" by (rule prod.exhaust)
  have "o' = out \<and> part w' = part v'"
  proof (cases o')
    case Diverges
    then show ?thesis using res Some s h by (simp add: LoggingMiddleware_def)
  next
    case (Returns err)
    obtain n u where n: "run_state clk v' = (n, u)" by (rule prod.exhaust)
    obtain x u' where e: "run_state (f (taskRecord text (tkType t) (milliseconds (n - s)) err)) u = (x, u')"
      by (rule prod.exhaust)
    show ?thesis using res Some s h n e Returns clk [OF n] emit [OF Some, of _ u u'] by (simp add: LoggingMiddleware_def)
  qed
  then show ?thesis using clk [OF s] h by blast
qed

text \<open>Liveness does not depend on Redis, readiness does.\<close>

lemma readyz_status:
  "run_state (Health_readyz insp) w = (out, w') \<Longrightarrow>
   fst out = (case fst (run_state (inQueues insp) w) of Inl _ \<Rightarrow> 503 | Inr _ \<Rightarrow> 200)"
  by (auto simp: Health_readyz_def split: prod.splits sum.splits)

text \<open>A shutdown without error has stopped the server and then closed the inspector.\<close>

lemma shutdown_first_error:
  assumes "run_state (Health_Shutdown h) w = (None, w')" "hsShutdownSrv h = Some stop" "hsInspector h = Some insp"
  shows "\<exists>v. run_state stop w = (None, v) \<and> run_state (inClose insp) v = (None, w')"
  using assms by (auto simp: Health_Shutdown_def split: prod.splits option.splits)

end
