(* ===== verification/Seed.thy ===== *)
theory Seed
  imports Config Runtime SourceStore
begin

text \<open>
  The operator's command line (\<open>cmd/csw/main.go\<close>) with its migrations and the seeding of the table of sources
  (\<open>cmd/csw/cmdmigrate/cmdmigrate.go\<close>). The migrator is golang-migrate, an argument. What the seed does to the
  table is derived from the laws of the table of sources.
\<close>

section \<open>The process\<close>

text \<open>What every command reads from its process: the environment, the configuration, the database and the clock. \<open>prText\<close>
  is the text of a configuration error. The long dashes in printed messages are left out.\<close>

record ('w, 'd, 'q) process =
  prGetenv :: "string \<Rightarrow> string"
  prLoad :: "config_error + config"
  prText :: "config_error \<Rightarrow> string"
  prGorm :: "('w, 'd, 'q) gorm_lib"
  prSourceDB :: "'d \<Rightarrow> 'w source_db"
  prFloatText :: "string \<Rightarrow> string option"
  prNewGCM :: "byte list \<Rightarrow> aead"
  prNow :: "'w clock"
  prPrint :: "string \<Rightarrow> ('w, unit) state"

text \<open>\<open>defer\<close>: the cleanup runs when the rest is back, whatever it returned.\<close>

definition deferred :: "('w, 'b) state \<Rightarrow> ('w, 'a) state \<Rightarrow> ('w, 'a) state" where
  "deferred cleanup m = do { res \<leftarrow> m; _ \<leftarrow> cleanup; State_Monad.return res }"

text \<open>The lazily loaded cipher: no key, no cipher; a bad key is an error.\<close>

definition loadCipher :: "('w, 'd, 'q) process \<Rightarrow> string + aead option" where
  "loadCipher pr =
     (if prGetenv pr ''CSW_SECRET_KEY'' \<noteq> []
      then map_sum id Some (secrets_Load (prNewGCM pr) (prGetenv pr))
      else Inr None)"

section \<open>Seeding (\<open>runSeed\<close>)\<close>

fun seedCheck :: "'w source_config_repository \<Rightarrow> chain_config list \<Rightarrow> ('w, app_error option) state" where
  "seedCheck repo [] = State_Monad.return None"
| "seedCheck repo (c # cs) =
     do {
       existing \<leftarrow> SrcRepo_ListByChain repo (ccID c) False;
       (case existing of
          Inl e \<Rightarrow> State_Monad.return (Some (Wrap ''seed: check existing: '' e))
        | Inr rows \<Rightarrow>
            if length rows > 0 then
              State_Monad.return (Some (ErrNew (''seed: chain '' @ FormatNat 10 (unat (ccID c)) @ '' already has '' @
                FormatNat 10 (length rows) @ '' rows'')))
            else seedCheck repo cs)
     }"

definition seedRow :: "string \<Rightarrow> string \<Rightarrow> (string, json) gomap \<Rightarrow> gotime \<Rightarrow> chain_config \<Rightarrow> source_config" where
  "seedRow kind url opts now c =
     \<lparr>scID = kind @ ''-'' @ FormatNat 10 (unat (ccID c)), scChainID = ccID c, scType = kind, scEndpoint = url,
      scSecretCiphertext = [], scSecretNonce = [], scOptions = Some opts, scEnabled = True, scCreatedAt = now,
      scUpdatedAt = now\<rparr>"

text \<open>The rows of a chain, in the order they are saved, each with its name in the error message.\<close>

definition rpcSeed :: "rpc_adapter_config \<Rightarrow> gotime \<Rightarrow> chain_config \<Rightarrow> (string \<times> source_config) list" where
  "rpcSeed rpc now c =
     (if rcfEnabled rpc then
        (case map_of (rcfEndpoints rpc) (ccID c) of
           Some url \<Rightarrow>
             if url \<noteq> [] then [(''rpc'', seedRow TypeRPC url [(''archive'', JBool (rcfArchive rpc))] now c)] else []
         | None \<Rightarrow> [])
      else [])"

definition blockscoutSeed :: "blockscout_adapter_config \<Rightarrow> gotime \<Rightarrow> chain_config \<Rightarrow> (string \<times> source_config) list" where
  "blockscoutSeed bs now c =
     (if bcfEnabled bs then
        (case map_of (bcfEndpoints bs) (ccID c) of
           Some url \<Rightarrow> if url \<noteq> [] then [(''blockscout'', seedRow TypeBlockscout url [] now c)] else []
         | None \<Rightarrow> [])
      else [])"

definition seedChain :: "config \<Rightarrow> gotime \<Rightarrow> chain_config \<Rightarrow> (string \<times> source_config) list" where
  "seedChain cfg now c =
     rpcSeed (adRPC (cfgAdapters cfg)) now c @ blockscoutSeed (adBlockscout (cfgAdapters cfg)) now c @
     [(''routescan'', seedRow TypeRoutescan (BaseURL (ccID c)) [] now c)]"

fun seedSave :: "'w source_config_repository \<Rightarrow> int \<Rightarrow> (string \<times> source_config) list \<Rightarrow> ('w, app_error + int) state" where
  "seedSave repo inserted [] = State_Monad.return (Inr inserted)"
| "seedSave repo inserted ((what, s) # rows) =
     do {
       saved \<leftarrow> SrcRepo_Save repo s;
       (case saved of
          Some e \<Rightarrow> State_Monad.return
            (Inl (Wrap (''seed: save '' @ what @ '' chain '' @ FormatNat 10 (unat (scChainID s)) @ '': '') e))
        | None \<Rightarrow> seedSave repo (inserted + 1) rows)
     }"

definition seedTable ::
  "('w, 'd, 'q) process \<Rightarrow> 'w source_config_repository \<Rightarrow> config \<Rightarrow> ('w, app_error + int) state" where
  "seedTable pr repo cfg =
     do {
       refused \<leftarrow> seedCheck repo (cfgChains cfg);
       (case refused of
          Some e \<Rightarrow> State_Monad.return (Inl e)
        | None \<Rightarrow>
            (case loadCipher pr of
               Inl e \<Rightarrow> State_Monad.return (Inl (Wrap ''seed: load cipher: '' (ErrNew e)))
             | Inr _ \<Rightarrow>
                 do {
                   now \<leftarrow> prNow pr;
                   seedSave repo 0 (concat (map (seedChain cfg now) (cfgChains cfg)))
                 }))
     }"

definition runSeed :: "('w, 'd, 'q) process \<Rightarrow> string \<Rightarrow> ('w, app_error option) state" where
  "runSeed pr dsn =
     (case prLoad pr of
        Inl e \<Rightarrow> State_Monad.return (Some (Wrap ''seed: load config: '' (ErrNew (prText pr e))))
      | Inr cfg \<Rightarrow>
          do {
            opened \<leftarrow> OpenDB (prGorm pr) dsn;
            (case opened of
               Inl e \<Rightarrow> State_Monad.return (Some (Wrap ''seed: open db: '' e))
             | Inr db \<Rightarrow>
                 deferred (DB_Close (prGorm pr) db)
                   (do {
                      res \<leftarrow> seedTable pr (NewSourceRepo (prFloatText pr) (prSourceDB pr db)) cfg;
                      (case res of
                         Inl e \<Rightarrow> State_Monad.return (Some e)
                       | Inr inserted \<Rightarrow>
                           do {
                             _ \<leftarrow> prPrint pr (''seed: inserted '' @ FormatInt 10 inserted @ '' source config rows across '' @
                                    FormatNat 10 (length (cfgChains cfg)) @ '' chains'');
                             State_Monad.return None
                           })
                    }))
          })"

section \<open>Migrations and the command line\<close>

datatype migrate_error = ErrNoChange | ErrNilVersion | MigrateFailed string

record 'w migrator =
  mgUp :: "('w, migrate_error option) state"
  mgDown :: "('w, migrate_error option) state"
  mgVersion :: "('w, migrate_error + nat \<times> bool) state"
  mgClose :: "('w, unit) state"

text \<open>The text of an error of the migrator.\<close>

fun migrateText :: "migrate_error \<Rightarrow> string" where
  "migrateText ErrNoChange = ''no change''"
| "migrateText ErrNilVersion = ''no migration''"
| "migrateText (MigrateFailed e) = e"

text \<open>\<open>up\<close> and \<open>down\<close> differ in what they call and print; nothing to do is success.\<close>

definition migrateAll ::
  "(string \<Rightarrow> ('w, unit) state) \<Rightarrow> string \<Rightarrow> ('w, migrate_error option) state \<Rightarrow> ('w, app_error option) state" where
  "migrateAll out what step =
     do {
       res \<leftarrow> step;
       (case res of
          None \<Rightarrow> do { _ \<leftarrow> out (''migrate: '' @ what @ '' ok''); State_Monad.return None }
        | Some ErrNoChange \<Rightarrow> do { _ \<leftarrow> out (''migrate: '' @ what @ '' ok''); State_Monad.return None }
        | Some e \<Rightarrow> State_Monad.return (Some (Wrap (''migrate '' @ what @ '': '') (ErrNew (migrateText e)))))
     }"

definition migrateStatus :: "(string \<Rightarrow> ('w, unit) state) \<Rightarrow> 'w migrator \<Rightarrow> ('w, app_error option) state" where
  "migrateStatus out m =
     do {
       res \<leftarrow> mgVersion m;
       (case res of
          Inl ErrNilVersion \<Rightarrow> do { _ \<leftarrow> out ''migrate: no migrations applied''; State_Monad.return None }
        | Inl e \<Rightarrow> State_Monad.return (Some (Wrap ''migrate status: '' (ErrNew (migrateText e))))
        | Inr (version, dirty) \<Rightarrow>
            do {
              _ \<leftarrow> out (''migrate: version='' @ FormatNat 10 version @ '' dirty='' @ (if dirty then ''true'' else ''false''));
              State_Monad.return None
            })
     }"

text \<open>\<open>openSource\<close> and \<open>connect\<close> are \<open>iofs.New\<close> on the embedded migrations and \<open>migrate.NewWithSourceInstance\<close>.\<close>

definition migrate_Run ::
  "('w, 'd, 'q) process \<Rightarrow> (string \<Rightarrow> ('w, unit) state) \<Rightarrow> string + 'i \<Rightarrow> ('i \<Rightarrow> string \<Rightarrow> ('w, string + 'w migrator) state)
   \<Rightarrow> string list \<Rightarrow> ('w, app_error option) state" where
  "migrate_Run pr warn openSource connect args =
     (case args of
        [] \<Rightarrow> State_Monad.return (Some (ErrNew ''migrate: missing subcommand (up | down | status | seed)''))
      | sub # _ \<Rightarrow>
          let dsn = prGetenv pr ''DATABASE_URL'' in
          if dsn = [] then State_Monad.return (Some (ErrNew ''migrate: DATABASE_URL env var is required''))
          else if sub = ''seed'' then runSeed pr dsn
          else (case openSource of
            Inl e \<Rightarrow> State_Monad.return (Some (Wrap ''migrate: open embedded source: '' (ErrNew e)))
          | Inr src \<Rightarrow>
              do {
                got \<leftarrow> connect src dsn;
                (case got of
                   Inl e \<Rightarrow> State_Monad.return (Some (Wrap ''migrate: connect: '' (ErrNew e)))
                 | Inr m \<Rightarrow>
                     deferred (mgClose m)
                       (if sub = ''up'' then migrateAll (prPrint pr) ''up'' (mgUp m)
                        else if sub = ''down'' then
                          do {
                            _ \<leftarrow> warn ''migrate: rolling back ALL migrations'';
                            migrateAll (prPrint pr) ''down'' (mgDown m)
                          }
                        else if sub = ''status'' then migrateStatus (prPrint pr) m
                        else State_Monad.return (Some (ErrQuoted ''migrate: unknown subcommand '' sub []))))
              }))"

definition csw_run ::
  "(string list \<Rightarrow> ('w, app_error option) state) \<Rightarrow> (string list \<Rightarrow> ('w, app_error option) state) \<Rightarrow> ('w, unit) state
   \<Rightarrow> string list \<Rightarrow> ('w, app_error option) state" where
  "csw_run migrate openapi printUsage args =
     (case args of
        [] \<Rightarrow> do { _ \<leftarrow> printUsage; State_Monad.return (Some (ErrNew ''missing command'')) }
      | cmd # rest \<Rightarrow>
          if cmd = ''migrate'' then migrate rest
          else if cmd = ''openapi-dump'' then openapi rest
          else if cmd \<in> {''help'', ''-h'', ''--help''} then do { _ \<leftarrow> printUsage; State_Monad.return None }
          else State_Monad.return (Some (ErrQuoted ''unknown command '' cmd [])))"

end
