(* ===== verification/SeedProps.thy ===== *)
theory SeedProps
  imports Seed ApiSources
begin

text \<open>
  What \<open>csw migrate seed\<close> does to the table of sources, for every database that keeps the laws of the table: which
  rows it stores, that it never touches a row, and that it runs once, even after it stopped half way.
\<close>

section \<open>The rows\<close>

definition seedRows :: "config \<Rightarrow> gotime \<Rightarrow> source_config list" where
  "seedRows cfg now = map snd (concat (map (seedChain cfg now) (cfgChains cfg)))"

lemma seedRow_key: "scID (seedRow kind url opts now c) = sourceKey kind (ccID c)"
  by (simp add: seedRow_def sourceKey_def)

lemma seed_cases:
  "rpcSeed rpc now c = [] \<or> (\<exists>url. rpcSeed rpc now c = [(''rpc'', seedRow TypeRPC url [(''archive'', JBool (rcfArchive rpc))] now c)])"
  "blockscoutSeed bs now c = [] \<or> (\<exists>url. blockscoutSeed bs now c = [(''blockscout'', seedRow TypeBlockscout url [] now c)])"
  by (auto simp: rpcSeed_def blockscoutSeed_def split: option.splits)

lemma seedChain_row:
  assumes "(what, s) \<in> set (seedChain cfg now c)"
  shows "scChainID s = ccID c" "scID s = sourceKey (scType s) (ccID c)" "decOptions floatText (soOptions (toSourceModel s)) \<noteq> None"
    and "\<not> HasSecret s"
proof -
  obtain kind url opts where s: "s = seedRow kind url opts now c" "opts = [] \<or> (\<exists>b. opts = [(''archive'', JBool b)])"
    using assms seed_cases(1) [of "adRPC (cfgAdapters cfg)" now c] seed_cases(2) [of "adBlockscout (cfgAdapters cfg)" now c]
    by (auto simp: seedChain_def)
  then show "scChainID s = ccID c" "scID s = sourceKey (scType s) (ccID c)" "\<not> HasSecret s"
    by (simp_all add: seedRow_def sourceKey_def HasSecret_def)
  show "decOptions floatText (soOptions (toSourceModel s)) \<noteq> None"
    using s by (auto simp: seedRow_def toSourceModel_def decOptions_def)
qed

lemma seedChain_routescan: "(''routescan'', seedRow TypeRoutescan (BaseURL (ccID c)) [] now c) \<in> set (seedChain cfg now c)"
  by (simp add: seedChain_def)

lemma seedChain_distinct: "distinct (map (scID \<circ> snd) (seedChain cfg now c))"
proof -
  have "distinct (map (scType \<circ> snd) (seedChain cfg now c))"
    using seed_cases(1) [of "adRPC (cfgAdapters cfg)" now c] seed_cases(2) [of "adBlockscout (cfgAdapters cfg)" now c]
    by (auto simp: seedChain_def seedRow_def TypeRPC_def TypeBlockscout_def TypeRoutescan_def)
  moreover have "map (scID \<circ> snd) (seedChain cfg now c) = map (\<lambda>k. sourceKey k (ccID c)) (map (scType \<circ> snd) (seedChain cfg now c))"
    using seedChain_row(2) [of _ _ cfg now c] by (auto simp: comp_def)
  ultimately show ?thesis by (simp add: distinct_map inj_on_def sourceKey_inj del: map_map)
qed

lemma seedRows_distinct:
  assumes "distinct (map ccID cs)"
  shows "distinct (map (scID \<circ> snd) (concat (map (seedChain cfg now) cs)))"
  using assms
proof (induction cs)
  case (Cons c cs)
  have "scID (snd x) \<noteq> scID (snd y)"
    if "x \<in> set (seedChain cfg now c)" "d \<in> set cs" "y \<in> set (seedChain cfg now d)" for x y d
    using seedChain_row(2) [of "fst x" "snd x" cfg now c] seedChain_row(2) [of "fst y" "snd y" cfg now d] that Cons.prems
    by (simp add: sourceKey_inj) (metis image_eqI)
  then have "(scID \<circ> snd) ` set (seedChain cfg now c) \<inter> (scID \<circ> snd) ` set (concat (map (seedChain cfg now) cs)) = {}"
    by fastforce
  then show ?case using Cons seedChain_distinct [of cfg now c] by (simp add: comp_def)
qed simp

section \<open>The table\<close>

context source_table
begin

abbreviation sourceRepo :: "'w source_config_repository" where
  "sourceRepo \<equiv> NewSourceRepo floatText db"

lemma list_rows:
  assumes "run_state (SourceRepo_ListByChain floatText db cid False) w = (res, w')"
  shows "tab w' = tab w" and "res = Inr [] \<longleftrightarrow> (\<forall>m \<in> ran (tab w). soChainID m \<noteq> cid) \<and> (\<exists>cs. res = Inr cs)"
proof -
  let ?q = "chainQuery cid False"
  obtain sel v where s: "run_state (dbFindSources db ?q) w = (sel, v)" by (rule prod.exhaust)
  note law = find_rows [OF s]
  show "tab w' = tab w" using assms s law by (simp add: SourceRepo_ListByChain_def)
  show "res = Inr [] \<longleftrightarrow> (\<forall>m \<in> ran (tab w). soChainID m \<noteq> cid) \<and> (\<exists>cs. res = Inr cs)"
  proof (cases sel)
    case (Inl e)
    then show ?thesis using assms s by (auto simp: SourceRepo_ListByChain_def)
  next
    case (Inr rows)
    then have res: "res = decodeRows (toSourceConfig floatText) ''source repo list decode: '' rows"
      using assms s by (simp add: SourceRepo_ListByChain_def)
    have len: "length cs = length rows" if "res = Inr cs" for cs
      using that unfolding res by (induction rows arbitrary: cs) (auto simp: map_sum_def split: sum.splits)
    obtain ks where ks: "rows = map (\<lambda>k. the (tab w k)) ks"
        "set ks = {k. \<exists>m. tab w k = Some m \<and> selects id sourceColumn (qWhere ?q) m}"
      using law Inr by (auto simp: selectedRows_def chainQuery_def page_def)
    have "selects id sourceColumn (qWhere ?q) m \<longleftrightarrow> soChainID m = cid" for m
      by (auto simp: selects_def chainQuery_def sourceColumn_def dbParam_def word_uint_eq_iff)
    then have "rows = [] \<longleftrightarrow> (\<forall>m \<in> ran (tab w). soChainID m \<noteq> cid)"
      using ks set_empty [of ks] by (auto simp: ran_def)
    then show ?thesis using len by (cases res) (auto simp: res)
  qed
qed

lemma seed_check:
  assumes "run_state (seedCheck sourceRepo cs) w = (res, w')"
  shows "tab w' = tab w \<and> (res = None \<longrightarrow> (\<forall>m \<in> ran (tab w). soChainID m \<notin> ccID ` set cs))"
  using assms
proof (induction cs arbitrary: w)
  case (Cons c cs)
  obtain l v where l: "run_state (SourceRepo_ListByChain floatText db (ccID c) False) w = (l, v)" by (rule prod.exhaust)
  note here = list_rows [OF l]
  show ?case
  proof (cases "l = Inr []")
    case True
    then have "run_state (seedCheck sourceRepo cs) v = (res, w')" using Cons.prems l by (simp add: NewSourceRepo_def)
    from Cons.IH [OF this] show ?thesis using here True by auto
  next
    case False
    then show ?thesis using Cons.prems l here(1) by (cases l) (auto simp: NewSourceRepo_def split: if_splits)
  qed
qed simp

lemma save_row:
  assumes "run_state (SourceRepo_Save db c) w = (None, w')"
  shows "\<exists>m. storedSource floatText (toSourceModel c) m \<and> tab w' = (tab w)(scID c \<mapsto> m)"
proof -
  have "run_state (dbUpsertSource db (toSourceModel c)) w = (None, w')"
    using assms by (auto simp: SourceRepo_Save_def split: prod.splits option.splits if_splits)
  from upsert_ok [OF this] show ?thesis by (auto simp: toSourceModel_def)
qed

lemma seed_save:
  assumes "run_state (seedSave sourceRepo n rows) w = (res, w')"
  shows "\<exists>ms. list_all2 (\<lambda>(_, s) m. storedSource floatText (toSourceModel s) m) (take (length ms) rows) ms \<and>
      tab w' = (tab w)(map (scID \<circ> snd) (take (length ms) rows) [\<mapsto>] ms) \<and>
      (if length ms = length rows then res = Inr (n + int (length rows)) else \<exists>e. res = Inl e)"
  using assms
proof (induction rows arbitrary: n w)
  case Nil
  then show ?case by (intro exI [of _ "[]"]) simp
next
  case (Cons x rows)
  obtain what s where x: "x = (what, s)" by (rule prod.exhaust)
  obtain r v where r: "run_state (SourceRepo_Save db s) w = (r, v)" by (rule prod.exhaust)
  show ?case
  proof (cases r)
    case (Some e)
    then have "tab w' = tab w" "\<exists>e. res = Inl e"
      using Cons.prems x r save_failed(1) [of s w e v] by (auto simp: NewSourceRepo_def)
    then show ?thesis by (intro exI [of _ "[]"]) simp
  next
    case None
    from save_row [OF r [unfolded None]] obtain m where m: "storedSource floatText (toSourceModel s) m" "tab v = (tab w)(scID s \<mapsto> m)"
      by blast
    have "run_state (seedSave sourceRepo (n + 1) rows) v = (res, w')"
      using Cons.prems x r None by (simp add: NewSourceRepo_def)
    from Cons.IH [OF this] obtain ms where
      "list_all2 (\<lambda>(_, s) m. storedSource floatText (toSourceModel s) m) (take (length ms) rows) ms"
      "tab w' = (tab v)(map (scID \<circ> snd) (take (length ms) rows) [\<mapsto>] ms)"
      "if length ms = length rows then res = Inr (n + 1 + int (length rows)) else \<exists>e. res = Inl e"
      by blast
    then show ?thesis using m x by (intro exI [of _ "m # ms"]) (simp add: comp_def add.assoc split: if_splits)
  qed
qed

text \<open>The whole seed: a refusal changes nothing; otherwise no configured chain has a row yet, and the rows saved are a prefix
  of the rows of the configuration, all of them when there is no error.\<close>

lemma seed_table:
  assumes "run_state (seedTable pr sourceRepo cfg) w = (res, w')"
    and clock: "\<And>v t v'. run_state (prNow pr) v = (t, v') \<Longrightarrow> tab v' = tab v"
  obtains (refused) e where "res = Inl e" "tab w' = tab w"
  | (seeded) now ms where "\<forall>m \<in> ran (tab w). soChainID m \<notin> ccID ` set (cfgChains cfg)"
      "list_all2 (\<lambda>s m. storedSource floatText (toSourceModel s) m) (take (length ms) (seedRows cfg now)) ms"
      "tab w' = (tab w)(map scID (take (length ms) (seedRows cfg now)) [\<mapsto>] ms)"
      "if length ms = length (seedRows cfg now) then res = Inr (int (length (seedRows cfg now))) else \<exists>e. res = Inl e"
proof -
  obtain c v where c: "run_state (seedCheck sourceRepo (cfgChains cfg)) w = (c, v)" by (rule prod.exhaust)
  note check = seed_check [OF c]
  show ?thesis
  proof (cases "c = None \<and> (\<exists>k. loadCipher pr = Inr k)")
    case False
    have "\<exists>e. res = Inl e" "w' = v" using assms(1) c False by (auto simp: seedTable_def split: option.splits sum.splits)
    then show ?thesis using refused check by blast
  next
    case True
    obtain now u where n: "run_state (prNow pr) v = (now, u)" by (rule prod.exhaust)
    have "run_state (seedSave sourceRepo 0 (concat (map (seedChain cfg now) (cfgChains cfg)))) u = (res, w')"
      using assms(1) c True n by (auto simp: seedTable_def)
    from seed_save [OF this] obtain ms where ms:
      "list_all2 (\<lambda>(_, s) m. storedSource floatText (toSourceModel s) m)
         (take (length ms) (concat (map (seedChain cfg now) (cfgChains cfg)))) ms"
      "tab w' = (tab u)(map (scID \<circ> snd) (take (length ms) (concat (map (seedChain cfg now) (cfgChains cfg)))) [\<mapsto>] ms)"
      "if length ms = length (seedRows cfg now) then res = Inr (int (length (seedRows cfg now))) else \<exists>e. res = Inl e"
      by (auto simp: seedRows_def simp del: length_concat)
    show ?thesis
    proof (rule seeded)
      show "list_all2 (\<lambda>s m. storedSource floatText (toSourceModel s) m) (take (length ms) (seedRows cfg now)) ms"
        using ms(1) by (simp add: seedRows_def take_map list_all2_map1 case_prod_unfold)
      show "tab w' = (tab w)(map scID (take (length ms) (seedRows cfg now)) [\<mapsto>] ms)"
        using ms(2) clock [OF n] check by (simp add: seedRows_def take_map comp_def)
    qed (use check True ms(3) in auto)
  qed
qed

lemma seed_refused:
  assumes "run_state (seedTable pr sourceRepo cfg) w = (res, w')" "m \<in> ran (tab w)" "soChainID m \<in> ccID ` set (cfgChains cfg)"
  shows "(\<exists>e. res = Inl e) \<and> tab w' = tab w"
proof -
  obtain c v where c: "run_state (seedCheck sourceRepo (cfgChains cfg)) w = (c, v)" by (rule prod.exhaust)
  then have "c \<noteq> None" "tab v = tab w" using seed_check [OF c] assms(2,3) by auto
  then show ?thesis using assms(1) c by (auto simp: seedTable_def)
qed

end

text \<open>A row stored for a configuration is read back as this configuration.\<close>

lemma stored_config:
  assumes "storedSource floatText (toSourceModel c) m" "decOptions floatText (soOptions (toSourceModel c)) \<noteq> None"
  shows "\<exists>c'. toSourceConfig floatText m = Inr c' \<and> sameConfig floatText c c'"
proof -
  obtain opts where opts: "decOptions floatText (soOptions (toSourceModel c)) = Some opts" using assms(2) by blast
  obtain o' a u where o: "m = (toSourceModel c)\<lparr>soOptions := o', soCreatedAt := a, soUpdatedAt := u\<rparr>"
      "sameOptions (decOptions floatText o') (Some opts)"
    using assms(1) opts by (auto simp: storedSource_def)
  then obtain d where d: "decOptions floatText o' = Some d" "map_of d = map_of opts"
    by (auto simp: sameOptions_def option_rel_Some2)
  let ?c = "c\<lparr>scOptions := Some d, scCreatedAt := a, scUpdatedAt := u\<rparr>"
  have "toSourceConfig floatText m = Inr ?c" using o(1) d(1) by (simp add: toSourceConfig_def toSourceModel_def)
  moreover have "sameConfig floatText c ?c" using opts d(2) by (auto simp: sameConfig_def sameOptions_def)
  ultimately show ?thesis by blast
qed

lemma seedRows_row:
  assumes "s \<in> set (seedRows cfg now)"
  shows "scChainID s \<in> ccID ` set (cfgChains cfg)" "scID s = sourceKey (scType s) (scChainID s)"
    "decOptions floatText (soOptions (toSourceModel s)) \<noteq> None"
proof -
  obtain what c where c: "c \<in> set (cfgChains cfg)" "(what, s) \<in> set (seedChain cfg now c)"
    using assms by (auto simp: seedRows_def)
  from seedChain_row [OF c(2)] c(1) show "scChainID s \<in> ccID ` set (cfgChains cfg)" "scID s = sourceKey (scType s) (scChainID s)"
    "decOptions floatText (soOptions (toSourceModel s)) \<noteq> None" by simp_all
qed

lemma upds_stored:
  assumes "list_all2 P rows ms" "distinct (map f rows)" "s \<in> set rows"
  shows "\<exists>m. P s m \<and> (t(map f rows [\<mapsto>] ms)) (f s) = Some m"
  using assms
proof (induction arbitrary: t rule: list_all2_induct)
  case (Cons x xs y ys)
  show ?case
  proof (cases "s = x")
    case True
    then show ?thesis using Cons by (auto simp: map_upds_apply_nontin)
  next
    case False
    then show ?thesis using Cons.IH [of "t(f x \<mapsto> y)"] Cons.prems by (simp del: fun_upd_apply)
  qed
qed simp

text \<open>The table after a prefix of the rows is saved.\<close>

lemma seeded_table:
  assumes "validConfig cfg" "naturalRows t" "\<forall>m \<in> ran t. soChainID m \<notin> ccID ` set (cfgChains cfg)" "\<forall>i m. t i = Some m \<longrightarrow> soID m = i"
    and ms: "list_all2 (\<lambda>s m. storedSource floatText (toSourceModel s) m) (take k (seedRows cfg now)) ms"
    and t': "t' = t(map scID (take k (seedRows cfg now)) [\<mapsto>] ms)"
  shows "t \<subseteq>\<^sub>m t'" "dom t' = dom t \<union> scID ` set (take k (seedRows cfg now))"
    and "s \<in> set (take k (seedRows cfg now)) \<Longrightarrow> scID s \<notin> dom t \<and>
      (\<exists>m c. t' (scID s) = Some m \<and> soChainID m \<in> ccID ` set (cfgChains cfg) \<and> soID m = sourceKey (soType m) (soChainID m) \<and>
        toSourceConfig floatText m = Inr c \<and> sameConfig floatText s c)"
proof -
  let ?rows = "take k (seedRows cfg now)"
  have dist: "distinct (map scID ?rows)"
    using assms(1) seedRows_distinct [of "cfgChains cfg" cfg now]
    by (simp add: seedRows_def take_map [symmetric] distinct_take validConfig_def)
  have fresh: "scID s \<notin> dom t" if "s \<in> set ?rows" for s
  proof
    assume "scID s \<in> dom t"
    then obtain m where m: "t (scID s) = Some m" by blast
    then have "soID m = scID s" "soID m = sourceKey (soType m) (soChainID m)" "soChainID m \<notin> ccID ` set (cfgChains cfg)"
      using assms(2-4) ranI [of t "scID s" m] by (auto simp: naturalRows_def)
    then show False using seedRows_row(1,2) [OF in_set_takeD [OF that]] by (simp add: sourceKey_inj)
  qed
  have "t' i = t i" if "i \<in> dom t" for i
  proof -
    have "i \<notin> set (map scID ?rows)" using fresh that by auto
    from map_upds_apply_nontin [OF this] show ?thesis unfolding t' .
  qed
  then show "t \<subseteq>\<^sub>m t'" by (simp add: map_le_def)
  show "dom t' = dom t \<union> scID ` set ?rows" unfolding t' using list_all2_lengthD [OF ms] by (auto simp: dom_map_upds)
  show "scID s \<notin> dom t \<and>
      (\<exists>m c. t' (scID s) = Some m \<and> soChainID m \<in> ccID ` set (cfgChains cfg) \<and> soID m = sourceKey (soType m) (soChainID m) \<and>
        toSourceConfig floatText m = Inr c \<and> sameConfig floatText s c)" if s: "s \<in> set ?rows"
  proof -
    note row = seedRows_row(1,2) [OF in_set_takeD [OF that]] seedRows_row(3) [OF in_set_takeD [OF that], of floatText]
    obtain m where m: "storedSource floatText (toSourceModel s) m" "t' (scID s) = Some m"
      using upds_stored [OF ms dist s, of t] t' by blast
    have "soChainID m = scChainID s" "soID m = scID s" "soType m = scType s"
      using m(1) by (auto simp: storedSource_def toSourceModel_def)
    then show ?thesis using fresh [OF that] m(2) row(1,2) stored_config [OF m(1) row(3)] by auto
  qed
qed

section \<open>Seeding once\<close>


text \<open>Seeding an empty table with one chain and an RPC endpoint for it.\<close>

definition demoConfig :: config where
  "demoConfig =
     \<lparr>cfgServer = \<lparr>svAddr = '':8080'', svCORSOrigins = [], svReadTimeout = 0, svWriteTimeout = 0, svShutdownGrace = 0\<rparr>,
      cfgWorker = \<lparr>wkConcurrency = 10, wkHealthAddr = '':8081'', wkShutdownGrace = 0\<rparr>,
      cfgLog = \<lparr>lcLevel = ''info'', lcFormat = ''json''\<rparr>,
      cfgChains = [\<lparr>ccID = 10, ccSlug = ''optimism'', ccDisplayName = ''Optimism''\<rparr>],
      cfgAdapters =
        \<lparr>adRPC = \<lparr>rcfEnabled = True, rcfEndpoints = [(10, ''https://rpc'')], rcfArchive = False, rcfRateLimitRPS = 10,
                  rcfTimeout = 0, rcfMaxRetries = 3\<rparr>,
         adBlockscout = \<lparr>bcfEnabled = False, bcfEndpoints = [], bcfRateLimitRPS = 2, bcfTimeout = 0, bcfMaxRetries = 3\<rparr>,
         adEtherscan = \<lparr>ecfEnabled = False, ecfBaseURL = [], ecfAPIKey = [], ecfRateLimitRPS = 5, ecfTimeout = 0,
                        ecfMaxRetries = 3\<rparr>\<rparr>,
      cfgVerification = \<lparr>vcMaxConcurrentPerSource = 5, vcDefaultTimeout = 0\<rparr>, cfgRawResponsePersist = False,
      cfgRetention = \<lparr>rcRunsDays = 14, rcCronExpr = ''0 3 * * *''\<rparr>\<rparr>"

definition demoProcess :: "(source_rows, unit, unit) process" where
  "demoProcess =
     \<lparr>prGetenv = (\<lambda>_. []), prLoad = Inr demoConfig, prText = (\<lambda>_. []),
      prGorm = \<lparr>gmOpen = (\<lambda>_. State_Monad.return (Inr ())), gmDB = (\<lambda>_. State_Monad.return (Inr ())),
        sqlSetMaxOpenConns = (\<lambda>_ _. State_Monad.return ()), sqlSetMaxIdleConns = (\<lambda>_ _. State_Monad.return ()),
        sqlSetConnMaxLifetime = (\<lambda>_ _. State_Monad.return ()), sqlClose = (\<lambda>_. State_Monad.return None),
        sqlPing = (\<lambda>_. State_Monad.return None)\<rparr>,
      prSourceDB = (\<lambda>_. memSourceDB), prFloatText = Some, prNewGCM = plainGCM, prNow = State_Monad.return 1000,
      prPrint = (\<lambda>_. State_Monad.return ())\<rparr>"

lemma demo_valid: "validConfig demoConfig"
  by (simp add: validConfig_def demoConfig_def log_names)

lemma demo_seeded: "fst (run_state (seedTable demoProcess (NewSourceRepo Some memSourceDB) demoConfig) []) = Inr 2"
  by code_simp

text \<open>Only the configured chains are checked: a table with a row for another chain is seeded.\<close>

definition otherChainRow :: source_config where
  "otherChainRow = seedRow ''rpc'' ''https://other'' [] 0 \<lparr>ccID = 5, ccSlug = ''goerli'', ccDisplayName = ''Goerli''\<rparr>"

lemma seed_ignores_other_chains:
  "fst (run_state (seedTable demoProcess (NewSourceRepo Some memSourceDB) demoConfig)
     [(scID otherChainRow, toSourceModel otherChainRow)]) = Inr 2"
  by code_simp


end
