(* ===== verification/Wiring.thy ===== *)
theory Wiring
  imports Seed ApiRoutes
begin

text \<open>
  How the processes put the components together: the HTTP server (\<open>cmd/csw-server/main.go\<close>), the worker
  (\<open>cmd/csw-worker/main.go\<close>) and the export of the OpenAPI document (\<open>cmd/csw/cmdopenapi\<close>,
  \<open>internal/infrastructure/httpapi/openapi.go\<close>). The listener, asynq, the network and the text of a document are arguments.
\<close>

section \<open>Shared by the processes\<close>

text \<open>What a process needs beyond the database of sources: the statements of the database, Redis, the network of the
  adapters, randomness and the texts of errors.\<close>

datatype redis_opt = RedisClientOpt string | OtherRedisOpt

record ('w, 'd) runtime_env =
  reDB :: "'d \<Rightarrow> 'w gorm_db"
  reCodec :: time_codec
  reKeccak :: "string \<Rightarrow> byte list"
  reLoadLocation :: "string \<Rightarrow> string option"
  reNet :: "'w net_env"
  reNextID :: "('w, uint64) state"
  reParseRedisURI :: "string \<Rightarrow> string + redis_opt"
  reClient :: "redis_opt \<Rightarrow> asynq_task \<Rightarrow> ('w, string option) state"
  reDial :: "string \<Rightarrow> ('w, string + ('w, string option) state) state"
  reRand :: "('w, byte list option) state"
  reCtxErr :: "'w context_err"
  reErrText :: "app_error \<Rightarrow> string"

definition envOrDefault :: "(string \<Rightarrow> string) \<Rightarrow> string \<Rightarrow> string \<Rightarrow> string" where
  "envOrDefault getenv key fallback = (let v = getenv key in if v \<noteq> [] then v else fallback)"

text \<open>The default build has no private adapters.\<close>

definition registerPrivateAdapters :: "'w registry \<Rightarrow> 'w registry" where
  "registerPrivateAdapters reg = reg"

definition processRegistry :: "('w, 'd) runtime_env \<Rightarrow> 'w registry" where
  "processRegistry re = registerPrivateAdapters (DefaultRegistry (reKeccak re) (reNet re) (reNextID re))"

section \<open>The server (\<open>cmd/csw-server/main.go\<close>)\<close>

definition chainCatalog :: "config \<Rightarrow> chain_view list" where
  "chainCatalog cfg = map (\<lambda>c. \<lparr>chvID = ccID c, chvSlug = ccSlug c, chvDisplayName = ccDisplayName c\<rparr>) (cfgChains cfg)"

definition pingRedis :: "('w, 'd) runtime_env \<Rightarrow> redis_opt \<Rightarrow> ('w, string option) state" where
  "pingRedis re opt =
     (case opt of
        OtherRedisOpt \<Rightarrow> State_Monad.return (Some ''unsupported redis opt'')
      | RedisClientOpt addr \<Rightarrow>
          do {
            conn \<leftarrow> reDial re addr;
            (case conn of
               Inl e \<Rightarrow> State_Monad.return (Some e)
             | Inr close \<Rightarrow> close)
          })"

definition readinessProbe ::
  "('w, 'd, 'q) gorm_lib \<Rightarrow> ('w, 'd) runtime_env \<Rightarrow> 'd option \<Rightarrow> redis_opt \<Rightarrow> ('w, string option) state" where
  "readinessProbe G re db opt =
     do {
       pg \<leftarrow> DB_Ping G db;
       (case pg of
          Some e \<Rightarrow> State_Monad.return (Some (''postgres: '' @ reErrText re e))
        | None \<Rightarrow>
            do {
              rd \<leftarrow> pingRedis re opt;
              State_Monad.return (map_option (\<lambda>e. ''redis: '' @ e) rd)
            })
     }"

text \<open>\<open>visited\<close> is the order in which the registry is ranged over.\<close>

definition registryKeys :: "string list \<Rightarrow> string list" where
  "registryKeys visited = sort_key (map of_char :: string \<Rightarrow> nat list) visited"

fun splitOn :: "char \<Rightarrow> string \<Rightarrow> string list" where
  "splitOn sep [] = [[]]"
| "splitOn sep (c # cs) =
     (if c = sep then [] # splitOn sep cs
      else case splitOn sep cs of
        [] \<Rightarrow> [[c]]
      | p # ps \<Rightarrow> (c # p) # ps)"

definition splitNonEmpty :: "string \<Rightarrow> string list" where
  "splitNonEmpty s = (if s = [] then [] else filter (\<lambda>p. p \<noteq> []) (splitOn CHR '','' s))"

definition buildDeps ::
  "('w, 'd, 'q) process \<Rightarrow> ('w, 'd) runtime_env \<Rightarrow> string list \<Rightarrow> 'd \<Rightarrow> redis_opt \<Rightarrow> aead option \<Rightarrow> config \<Rightarrow> 'w api_deps" where
  "buildDeps pr re visited db opt cipher cfg =
     (let runs = NewRunRepo (reKeccak re) (reDB re db);
          diffs = NewDiffRepo (reCodec re) (prNow pr) (reDB re db);
          schedules = NewScheduleRepo (reKeccak re) (reLoadLocation re) (reDB re db);
          sourcesRepo = NewSourceRepo (prFloatText pr) (prSourceDB pr db);
          clock = SystemClock (reNet re);
          disp = dispatcherPort (reRand re) (reCtxErr re) (NewDispatcher (reClient re opt) (Some schedules) (prNow pr));
          reg = processRegistry re;
          dbGateway = gatewayPort (NewDBGateway (DefaultRegistry (reKeccak re) (reNet re) (reNextID re)) sourcesRepo cipher (Some reg));
          schedule = \<lparr>suRuns = runs, suDispatcher = disp, suClock = clock\<rparr>;
          cancel = \<lparr>cuRuns = runs, cuClock = clock\<rparr>;
          replay = \<lparr>rdDiffs = diffs, rdSources = dbGateway, rdClock = clock, rdPolicy = DefaultPolicy_Judge [],
            rdTolerance = Some (DefaultToleranceResolver_For None)\<rparr>
      in \<lparr>depHealth = Some (readinessProbe (prGorm pr) re (Some db) opt),
          depRuns = \<lparr>rdpSchedule = Some schedule, rdpQuery = runs, rdpCancel = Some cancel\<rparr>,
          depDiffs = \<lparr>ddpQuery = diffs, ddpReplay = Some replay\<rparr>,
          depSchedules = \<lparr>sdpSchedule = Some schedule, sdpQuery = schedules, sdpDispatcher = Some (CancelScheduled disp)\<rparr>,
          depSources = \<lparr>sodRepo = Some sourcesRepo, sodGateway = Some dbGateway, sodCipher = cipher, sodClock = Some clock,
            sodTypes = registryKeys visited\<rparr>,
          depChains = chainCatalog cfg\<rparr>)"

text \<open>The settings the listener gets. \<open>serve\<close> listens until the listener fails (\<open>Some\<close> error) or the process is asked
  to stop (\<open>None\<close>), \<open>shutdown\<close> drains it.\<close>

record http_config =
  hcAddr :: string
  hcCORSOrigins :: "string list"
  hcReadTimeout :: duration
  hcWriteTimeout :: duration

definition serverConfig :: "(string \<Rightarrow> string) \<Rightarrow> http_config" where
  "serverConfig getenv =
     \<lparr>hcAddr = envOrDefault getenv ''CSW_SERVER_ADDR'' '':8080'',
      hcCORSOrigins = splitNonEmpty (getenv ''CSW_SERVER_CORS_ORIGINS''),
      hcReadTimeout = 30 * 1000000000, hcWriteTimeout = 30 * 1000000000\<rparr>"

definition server_run ::
  "('w, 'd, 'q) process \<Rightarrow> ('w, 'd) runtime_env \<Rightarrow> string list
   \<Rightarrow> (http_config \<Rightarrow> 'w api_deps \<Rightarrow> ('w, string option) state) \<Rightarrow> ('w, string option) state
   \<Rightarrow> ('w, app_error option) state" where
  "server_run pr re visited serve shutdown =
     (case prLoad pr of
        Inl e \<Rightarrow> State_Monad.return (Some (Wrap ''load config: '' (ErrNew (prText pr e))))
      | Inr cfg \<Rightarrow>
     (let dbURL = prGetenv pr ''DATABASE_URL''; redisURL = prGetenv pr ''REDIS_URL'' in
      if dbURL = [] then State_Monad.return (Some (ErrNew ''DATABASE_URL env var is required''))
      else if redisURL = [] then State_Monad.return (Some (ErrNew ''REDIS_URL env var is required''))
      else case reParseRedisURI re redisURL of
        Inl e \<Rightarrow> State_Monad.return (Some (Wrap ''parse REDIS_URL: '' (ErrNew e)))
      | Inr opt \<Rightarrow>
          do {
            opened \<leftarrow> OpenDB (prGorm pr) dbURL;
            (case opened of
               Inl e \<Rightarrow> State_Monad.return (Some e)
             | Inr db \<Rightarrow>
                 deferred (DB_Close (prGorm pr) db)
                   (case loadCipher pr of
                      Inl e \<Rightarrow> State_Monad.return (Some (Wrap ''load secret key: '' (ErrNew e)))
                    | Inr cipher \<Rightarrow>
                        do {
                          ended \<leftarrow> serve (serverConfig (prGetenv pr)) (buildDeps pr re visited db opt cipher cfg);
                          (case ended of
                             Some e \<Rightarrow> State_Monad.return (Some (Wrap ''http server: '' (ErrNew e)))
                           | None \<Rightarrow> do { _ \<leftarrow> shutdown; State_Monad.return None })
                        }))
          }))"

section \<open>The worker (\<open>cmd/csw-worker/main.go\<close>)\<close>

text \<open>\<open>strconv.Atoi\<close>: a decimal number with an optional sign that fits 64 bits.\<close>

definition Atoi :: "string \<Rightarrow> int option" where
  "Atoi s =
     (let (neg, digits) =
        (case s of c # cs \<Rightarrow> if c = CHR ''-'' then (True, cs) else if c = CHR ''+'' then (False, cs) else (False, s) | [] \<Rightarrow> (False, []))
      in case (if digits = [] then None else parseDigits 10 0 digits) of
        None \<Rightarrow> None
      | Some n \<Rightarrow> let i = (if neg then - int n else int n) in if - (2 ^ 63) \<le> i \<and> i < 2 ^ 63 then Some i else None)"

definition envOrDefaultInt :: "(string \<Rightarrow> string) \<Rightarrow> string \<Rightarrow> int \<Rightarrow> int" where
  "envOrDefaultInt getenv key def =
     (let v = getenv key in if v \<noteq> [] then (case Atoi v of Some n \<Rightarrow> n | None \<Rightarrow> def) else def)"

text \<open>The engine of the worker. \<open>Tolerance\<close>, \<open>Addresses\<close>, \<open>Tokens\<close> and \<open>Budget\<close> are left nil.\<close>

definition workerExec ::
  "('w, 'd, 'q) process \<Rightarrow> ('w, 'd) runtime_env \<Rightarrow> 'd \<Rightarrow> aead option \<Rightarrow> 'w execute_run" where
  "workerExec pr re db cipher =
     (let sourcesRepo = NewSourceRepo (prFloatText pr) (prSourceDB pr db);
          deflt = DefaultRegistry (reKeccak re) (reNet re) (reNextID re)
      in \<lparr>erRuns = NewRunRepo (reKeccak re) (reDB re db),
          erDiffs = NewDiffRepo (reCodec re) (prNow pr) (reDB re db),
          erSources = gatewayPort (NewDBGateway deflt sourcesRepo cipher (Some (processRegistry re))),
          erChainHead = NewRPCChainHead (reNet re) (reNextID re) sourcesRepo,
          erClock = SystemClock (reNet re), erPolicy = DefaultPolicy_Judge [],
          erTolerance = None, erAddresses = None, erTokens = None, erBudget = None\<rparr>)"

definition workerDispatcher ::
  "('w, 'd, 'q) process \<Rightarrow> ('w, 'd) runtime_env \<Rightarrow> 'd \<Rightarrow> redis_opt \<Rightarrow> config \<Rightarrow> 'w dispatcher" where
  "workerDispatcher pr re db opt cfg =
     WithRetention \<lparr>rtCronExpr = rcCronExpr (cfgRetention cfg), rtDays = rcRunsDays (cfgRetention cfg)\<rparr>
       (NewDispatcher (reClient re opt) (Some (NewScheduleRepo (reKeccak re) (reLoadLocation re) (reDB re db))) (prNow pr))"

definition workerHandlers ::
  "('w, 'd, 'q) process \<Rightarrow> ('w, 'd) runtime_env \<Rightarrow> pcg \<Rightarrow> 'd \<Rightarrow> redis_opt \<Rightarrow> aead option \<Rightarrow> config \<Rightarrow> 'w handlers" where
  "workerHandlers pr re rng db opt cipher cfg =
     \<lparr>hExecuteRun = ExecuteRun_Execute (reKeccak re) rng (reErrText re) (reCtxErr re) (workerExec pr re db cipher),
      hRuns = Some (NewRunRepo (reKeccak re) (reDB re db)),
      hEnqueuer = Some (Dispatcher_EnqueueRunExecution (workerDispatcher pr re db opt cfg)),
      hClock = Some (SystemClock (reNet re)),
      hPruner = Some (gormRunRepo_PruneFinishedBefore (reDB re db))\<rparr>"

text \<open>The log of asynq, forwarded to the logger of the worker.\<close>

datatype asynq_level = AsynqDebug | AsynqInfo | AsynqWarn | AsynqError | AsynqFatal

fun slogAsynqAdapter :: "asynq_level \<Rightarrow> string \<Rightarrow> slog_record" where
  "slogAsynqAdapter AsynqDebug msg = \<lparr>srLevel = slogDebug, srMessage = msg, srAttrs = []\<rparr>"
| "slogAsynqAdapter AsynqInfo msg = \<lparr>srLevel = slogInfo, srMessage = msg, srAttrs = []\<rparr>"
| "slogAsynqAdapter AsynqWarn msg = \<lparr>srLevel = slogWarn, srMessage = msg, srAttrs = []\<rparr>"
| "slogAsynqAdapter AsynqError msg = \<lparr>srLevel = slogError, srMessage = msg, srAttrs = []\<rparr>"
| "slogAsynqAdapter AsynqFatal msg = \<lparr>srLevel = slogError, srMessage = ''fatal: '' @ msg, srAttrs = []\<rparr>"

text \<open>How serving ends: the process is asked to stop, or the server of asynq returns, with an error or without.\<close>

datatype serve_end = StopSignal | ServerReturned "string option"

text \<open>What asynq and the network give the worker: the multiplexer of tasks with a middleware, the server, the manager
  of periodic tasks, the inspector and the listener.\<close>

record 'w worker_lib =
  wlMux :: "('w task_handler \<Rightarrow> 'w task_handler) \<Rightarrow> (asynq_task \<Rightarrow> ('w, app_error option outcome) state option) \<Rightarrow> 'w task_handler"
  wlServe :: "int \<Rightarrow> (string \<times> int) list \<Rightarrow> (asynq_level \<Rightarrow> string \<Rightarrow> slog_record) \<Rightarrow> 'w task_handler \<Rightarrow> ('w, serve_end) state"
  wlShutdown :: "('w, unit) state"
  wlManager :: "'w config_provider \<Rightarrow> duration \<Rightarrow> string + 'w task_manager"
  wlInspector :: "'w inspector"
  wlListen :: "string \<Rightarrow> ('w, string + string) state"
  wlServeHealth :: "string \<Rightarrow> (string \<Rightarrow> ('w, nat \<times> string) state option) \<Rightarrow> ('w, ('w, string option) state) state"
  wlClientClose :: "('w, unit) state"
  wlLog :: "slog_record \<Rightarrow> ('w, unit) state"
  wlPrint :: "json \<Rightarrow> byte list"
  wlParse :: "byte list \<Rightarrow> json option"
  wlAddDays :: "gotime \<Rightarrow> int \<Rightarrow> gotime"

definition runScheduler ::
  "'w worker_lib \<Rightarrow> 'w config_provider \<Rightarrow> ('w, app_error option) state \<Rightarrow> ('w, app_error option) state" where
  "runScheduler L provider rest =
     (case NewScheduler (wlManager L) (Some provider) 0 of
        Inl e \<Rightarrow> State_Monad.return (Some (Wrap ''new scheduler: '' e))
      | Inr m \<Rightarrow>
          do {
            started \<leftarrow> Scheduler_Start m;
            (case started of
               Some e \<Rightarrow> State_Monad.return (Some (Wrap ''start scheduler: '' e))
             | None \<Rightarrow> deferred (Scheduler_Shutdown m) rest)
          })"

definition runHealth ::
  "'w worker_lib \<Rightarrow> (string \<Rightarrow> string) \<Rightarrow> ('w, app_error option) state \<Rightarrow> ('w, app_error option) state" where
  "runHealth L getenv rest =
     do {
       started \<leftarrow> Health_Start (wlListen L) (wlServeHealth L) (wlInspector L)
         (NewHealthServer (envOrDefault getenv ''CSW_WORKER_HEALTH_ADDR'' '':8081'') (wlInspector L));
       (case started of
          Inl e \<Rightarrow> State_Monad.return (Some e)
        | Inr h \<Rightarrow> deferred (Health_Shutdown h) rest)
     }"

definition serveTasks :: "'w worker_lib \<Rightarrow> (string \<Rightarrow> string) \<Rightarrow> 'w task_handler \<Rightarrow> ('w, app_error option) state" where
  "serveTasks L getenv mux =
     do {
       ended \<leftarrow> wlServe L (envOrDefaultInt getenv ''CSW_WORKER_CONCURRENCY'' 10) [(QueueDefault, 5)] slogAsynqAdapter mux;
       (case ended of
          ServerReturned err \<Rightarrow>
            State_Monad.return (Some (Wrap ''asynq server: '' (ErrNew (case err of Some e \<Rightarrow> e | None \<Rightarrow> ''%!w(<nil>)''))))
        | StopSignal \<Rightarrow> do { _ \<leftarrow> wlShutdown L; State_Monad.return None })
     }"

definition worker_run ::
  "('w, 'd, 'q) process \<Rightarrow> ('w, 'd) runtime_env \<Rightarrow> pcg \<Rightarrow> 'w worker_lib \<Rightarrow> ('w, app_error option) state" where
  "worker_run pr re rng L =
     (case prLoad pr of
        Inl e \<Rightarrow> State_Monad.return (Some (Wrap ''load config: '' (ErrNew (prText pr e))))
      | Inr cfg \<Rightarrow>
     (let redisURL = prGetenv pr ''REDIS_URL''; dbURL = prGetenv pr ''DATABASE_URL'' in
      if redisURL = [] then State_Monad.return (Some (ErrNew ''REDIS_URL env var is required''))
      else if dbURL = [] then State_Monad.return (Some (ErrNew ''DATABASE_URL env var is required''))
      else case reParseRedisURI re redisURL of
        Inl e \<Rightarrow> State_Monad.return (Some (Wrap ''parse REDIS_URL: '' (ErrNew e)))
      | Inr opt \<Rightarrow>
          do {
            opened \<leftarrow> OpenDB (prGorm pr) dbURL;
            (case opened of
               Inl e \<Rightarrow> State_Monad.return (Some e)
             | Inr db \<Rightarrow>
                 deferred (DB_Close (prGorm pr) db)
                   (case loadCipher pr of
                      Inl e \<Rightarrow> State_Monad.return (Some (Wrap ''load secret key: '' (ErrNew e)))
                    | Inr cipher \<Rightarrow>
                        let disp = workerDispatcher pr re db opt cfg;
                            mux = wlMux L (LoggingMiddleware (reErrText re) (prNow pr) (Some (wlLog L)))
                              (handleTask (reKeccak re) (wlParse L) (reRand re) (wlAddDays L)
                                 (workerHandlers pr re rng db opt cipher cfg))
                        in deferred (wlClientClose L)
                             (runHealth L (prGetenv pr)
                                (runScheduler L (GetConfigs (reKeccak re) (wlPrint L) disp)
                                   (serveTasks L (prGetenv pr) mux)))))
          }))"

section \<open>The OpenAPI document (\<open>cmdopenapi.go\<close>, \<open>openapi.go\<close>)\<close>

definition errNoop :: app_error where "errNoop = ErrNew ''openapi-dump: stub dep invoked''"

definition noopRunRepo :: "'w run_repository" where
  "noopRunRepo =
     \<lparr>RunRepo_Save = (\<lambda>_. State_Monad.return (Some errNoop)), RunRepo_FindByID = (\<lambda>_. State_Monad.return (Inl errNoop)),
      RunRepo_List = (\<lambda>_. State_Monad.return (Inl errNoop))\<rparr>"

definition noopDiffRepo :: "'w diff_repository" where
  "noopDiffRepo =
     \<lparr>DiffRepo_Save = (\<lambda>_ _ _. State_Monad.return (Inl errNoop)), DiffRepo_FindByRun = (\<lambda>_. State_Monad.return (Inl errNoop)),
      DiffRepo_FindByID = (\<lambda>_. State_Monad.return (Inl errNoop)), DiffRepo_List = (\<lambda>_. State_Monad.return (Inl errNoop)),
      DiffRepo_MarkResolved = (\<lambda>_ _. State_Monad.return (Some errNoop))\<rparr>"

definition noopScheduleRepo :: "'w schedule_repository" where
  "noopScheduleRepo =
     \<lparr>ScheduleRepo_Save = (\<lambda>_. State_Monad.return (Some errNoop)),
      ScheduleRepo_Deactivate = (\<lambda>_. State_Monad.return (Some errNoop)),
      ScheduleRepo_ListActive = State_Monad.return (Inl errNoop)\<rparr>"

definition noopSourceRepo :: "'w source_config_repository" where
  "noopSourceRepo =
     \<lparr>SrcRepo_Save = (\<lambda>_. State_Monad.return (Some errNoop)), SrcRepo_FindByID = (\<lambda>_. State_Monad.return (Inl errNoop)),
      SrcRepo_ListByChain = (\<lambda>_ _. State_Monad.return (Inl errNoop)),
      SrcRepo_Delete = (\<lambda>_. State_Monad.return (Some errNoop))\<rparr>"

definition noopDispatcher :: "'w job_dispatcher" where
  "noopDispatcher =
     \<lparr>EnqueueRunExecution = (\<lambda>_. State_Monad.return (Some errNoop)),
      ScheduleRecurring = (\<lambda>_ _. State_Monad.return (Inl errNoop)),
      CancelScheduled = (\<lambda>_. State_Monad.return (Some errNoop))\<rparr>"

definition stubChainCatalog :: "chain_view list" where
  "stubChainCatalog = [\<lparr>chvID = 10, chvSlug = ''optimism'', chvDisplayName = ''Optimism''\<rparr>]"

definition specDeps :: "'w net_env \<Rightarrow> 'w api_deps" where
  "specDeps net =
     (let clock = SystemClock net;
          schedule = \<lparr>suRuns = noopRunRepo, suDispatcher = noopDispatcher, suClock = clock\<rparr>
      in \<lparr>depHealth = None,
          depRuns = \<lparr>rdpSchedule = Some schedule, rdpQuery = noopRunRepo,
            rdpCancel = Some \<lparr>cuRuns = noopRunRepo, cuClock = clock\<rparr>\<rparr>,
          depDiffs = \<lparr>ddpQuery = noopDiffRepo, ddpReplay = Some
            \<lparr>rdDiffs = noopDiffRepo, rdSources = NullGateway, rdClock = clock, rdPolicy = DefaultPolicy_Judge [],
             rdTolerance = Some (DefaultToleranceResolver_For None)\<rparr>\<rparr>,
          depSchedules = \<lparr>sdpSchedule = Some schedule, sdpQuery = noopScheduleRepo,
            sdpDispatcher = Some (CancelScheduled noopDispatcher)\<rparr>,
          depSources = \<lparr>sodRepo = Some noopSourceRepo, sodGateway = Some NullGateway, sodCipher = None, sodClock = Some clock,
            sodTypes = [''blockscout'', ''routescan'', ''rpc'']\<rparr>,
          depChains = stubChainCatalog\<rparr>)"

text \<open>\<open>document\<close> renders the registered operations as JSON or YAML.\<close>

definition OpenAPIJSON ::
  "(operation list \<Rightarrow> string + string) \<Rightarrow> 'w api_env \<Rightarrow> 'w api_deps \<Rightarrow> app_error + string" where
  "OpenAPIJSON document env deps =
     map_sum (\<lambda>e. Wrap ''openapi: marshal json: '' (ErrNew e)) id (document (map rtOp (mountAPI env deps)))"

definition OpenAPIYAML ::
  "(operation list \<Rightarrow> string + string) \<Rightarrow> 'w api_env \<Rightarrow> 'w api_deps \<Rightarrow> app_error + string" where
  "OpenAPIYAML document env deps =
     map_sum (\<lambda>e. Wrap ''openapi: marshal yaml: '' (ErrNew e)) id (document (map rtOp (mountAPI env deps)))"

text \<open>\<open>flags\<close> parses the arguments into format and output; the document goes to the standard output or to a file.\<close>

definition openapi_Run ::
  "(string list \<Rightarrow> string + string \<times> string) \<Rightarrow> (operation list \<Rightarrow> string + string) \<Rightarrow> (operation list \<Rightarrow> string + string)
   \<Rightarrow> (string \<Rightarrow> ('w, string option) state) \<Rightarrow> (string \<Rightarrow> string \<Rightarrow> ('w, string option) state)
   \<Rightarrow> 'w api_env \<Rightarrow> 'w net_env \<Rightarrow> string list \<Rightarrow> ('w, app_error option) state" where
  "openapi_Run flags json yaml stdout writeFile env net args =
     (case flags args of
        Inl e \<Rightarrow> State_Monad.return (Some (Wrap ''openapi-dump: parse flags: '' (ErrNew e)))
      | Inr (format, output) \<Rightarrow>
          (if format \<noteq> ''json'' \<and> format \<noteq> ''yaml''
           then State_Monad.return (Some (ErrQuoted ''openapi-dump: unknown format '' format []))
           else case (if format = ''json'' then OpenAPIJSON json env (specDeps net) else OpenAPIYAML yaml env (specDeps net)) of
             Inl e \<Rightarrow> State_Monad.return (Some e)
           | Inr data \<Rightarrow>
               if length data = 0 then State_Monad.return (Some (ErrNew ''openapi-dump: empty spec''))
               else if output = [] then
                 do {
                   res \<leftarrow> stdout data;
                   (case res of
                      Some e \<Rightarrow> State_Monad.return (Some (Wrap ''openapi-dump: write stdout: '' (ErrNew e)))
                    | None \<Rightarrow> do { _ \<leftarrow> stdout [CHR 0x0A]; State_Monad.return None })
                 }
               else
                 do {
                   res \<leftarrow> writeFile output data;
                   State_Monad.return (map_option (\<lambda>e. Wrap ''openapi-dump: write file: '' (ErrNew e)) res)
                 }))"

end
