(* ===== verification/WiringProps.thy ===== *)
theory WiringProps
  imports Wiring
begin

text \<open>
  What the processes do once they are put together: the operations the server registers against the document that is
  exported, and what the engine of the worker verifies.
\<close>

section \<open>The document and the server\<close>

lemma processRegistry_dom: "dom (processRegistry re) = {TypeRPC, TypeBlockscout, TypeRoutescan}"
  by (auto simp: processRegistry_def registerPrivateAdapters_def DefaultRegistry_def)

text \<open>The types are listed in the same order, however the registry is visited.\<close>

lemma registryKeys_default:
  assumes "distinct visited" "set visited = dom (processRegistry re)"
  shows "registryKeys visited = [''blockscout'', ''routescan'', ''rpc'']"
proof -
  let ?key = "map of_char :: string \<Rightarrow> nat list" and ?l = "[''blockscout'', ''routescan'', ''rpc'']"
  have inj: "inj_on ?key A" for A by (rule inj_on_subset [of _ UNIV]) (simp_all add: inj_map inj_on_def)
  have "mset visited = mset ?l"
    by (rule set_eq_iff_mset_eq_distinct [THEN iffD1])
      (use assms in \<open>auto simp: processRegistry_dom TypeRPC_def TypeBlockscout_def TypeRoutescan_def\<close>)
  then have "sort_key ?key visited = sort_key ?key ?l" using inj by (rule sort_key_mset_cong)
  also have "\<dots> = ?l" by code_simp
  finally show ?thesis by (simp add: registryKeys_def)
qed

text \<open>
  Property C29. The exported document describes the server: the operations registered for the export, over stubs, are those
  the server registers over its repositories, one for one and in the same order, and the adapter types it lists are those of the
  server's registry, in whatever order this map is visited. No two operations share method and path.
\<close>

theorem openapi_describes_server:
  assumes "distinct visited" "set visited = dom (processRegistry re)"
  shows "map rtOp (mountAPI env (specDeps net)) = map rtOp (mountAPI env' (buildDeps pr re visited db opt cipher cfg)) \<and>
    sodTypes (depSources (specDeps net)) = sodTypes (depSources (buildDeps pr re visited db opt cipher cfg)) \<and>
    distinct (map (\<lambda>r. (opMethod (rtOp r), opPath (rtOp r))) (mountAPI env' (buildDeps pr re visited db opt cipher cfg)))"
  by (simp add: registryKeys_default [OF assms] specDeps_def buildDeps_def Let_def mountAPI_def RegisterHealth_def RegisterRuns_def
      RegisterDiffs_def RegisterSchedules_def RegisterSources_def registerSourceCRUD_def registerSourceCapabilities_def
      registerSourceTypes_def RegisterChains_def mkRoute_def)

theorem openapi_describes_server_witness:
  "\<forall>env net env' pr re db opt cipher cfg.
     map rtOp (mountAPI env (specDeps net)) =
     map rtOp (mountAPI env' (buildDeps pr re [''rpc'', ''routescan'', ''blockscout''] db opt cipher cfg))"
proof (intro allI, goal_cases)
  case (1 env net env' pr re db opt cipher cfg)
  have "set [''rpc'', ''routescan'', ''blockscout''] = dom (processRegistry re)"
    by (auto simp: processRegistry_dom TypeRPC_def TypeBlockscout_def TypeRoutescan_def)
  then show ?case using openapi_describes_server [of "[''rpc'', ''routescan'', ''blockscout'']" re env net env' pr db opt cipher cfg]
    by simp
qed

section \<open>What the worker verifies\<close>

lemma compareAndSave_run:
  assumes "runId r = runId r'"
  shows "compareAndSave uc r res ms results subj block anchor kind project =
    compareAndSave uc r' res ms results subj block anchor kind project"
  by (induction ms) (simp_all only: compareAndSave.simps assms)

lemma filterByCategory_idem [simp]: "filterByCategory (filterByCategory ms c) c = filterByCategory ms c"
  by (simp add: filterByCategory_def)

text \<open>The run reduced to its block metrics.\<close>

definition blocksOnly :: "run \<Rightarrow> run" where
  "blocksOnly r = r\<lparr>runMetrics := filterByCategory (runMetrics r) CatBlockImmutable, runAddressPlans := [], runTokenPlans := []\<rparr>"

definition withSummaryOf :: "run \<Rightarrow> (app_error + run) outcome \<Rightarrow> (app_error + run) outcome" where
  "withSummaryOf r res =
     (case res of
        Returns (Inr r') \<Rightarrow> Returns (Inr (r\<lparr>runSummary := runSummary r'\<rparr>))
      | _ \<Rightarrow> res)"

lemma case_sum_return: "case_sum (\<lambda>e. State_Monad.return (Inl e)) (\<lambda>a. State_Monad.return (Inr a)) = State_Monad.return"
  by (simp add: fun_eq_iff split: sum.splits)

lemma passes_without_samplers:
  assumes "erAddresses uc = None"
  shows "passes [runBlockPass keccak ctxErr uc r rc, runAddressLatestPass ctxErr uc r rc, runAddressAtBlockPass ctxErr uc r rc,
      runERC20HoldingsLatestPass keccak ctxErr uc r rc, runERC20BalanceLatestPass ctxErr uc r rc] acc =
    runBlockPass keccak ctxErr uc r rc acc"
proof -
  have "runAddressLatestPass ctxErr uc r rc a = State_Monad.return (Inr a)"
    "runAddressAtBlockPass ctxErr uc r rc a = State_Monad.return (Inr a)"
    "runERC20HoldingsLatestPass keccak ctxErr uc r rc a = State_Monad.return (Inr a)"
    "runERC20BalanceLatestPass ctxErr uc r rc a = State_Monad.return (Inr a)" for a
    using assms by (auto simp: runAddressLatestPass_def runAddressAtBlockPass_def runERC20HoldingsLatestPass_def
        runERC20BalanceLatestPass_def split: list.splits)
  then have "passes [runAddressLatestPass ctxErr uc r rc, runAddressAtBlockPass ctxErr uc r rc,
      runERC20HoldingsLatestPass keccak ctxErr uc r rc, runERC20BalanceLatestPass ctxErr uc r rc] = (\<lambda>a. State_Monad.return (Inr a))"
    by (simp add: fun_eq_iff)
  then show ?thesis
    by (simp del: passes.simps(2) add: passes.simps(2) [of "runBlockPass keccak ctxErr uc r rc"] case_sum_return)
qed

lemma compareAndSave_blocksOnly [simp]:
  "compareAndSave uc (blocksOnly r) res ms results subj block anchor kind project =
   compareAndSave uc r res ms results subj block anchor kind project"
  by (rule compareAndSave_run) (simp add: blocksOnly_def)

lemma runBlockPass_blocksOnly:
  "runBlockPass keccak ctxErr uc (blocksOnly r)
     (rc\<lparr>rcMetrics := filterByCategory (rcMetrics rc) CatBlockImmutable, rcAddressPlans := [], rcTokenPlans := []\<rparr>) =
   runBlockPass keccak ctxErr uc r rc"
  by (simp add: runBlockPass_def fun_eq_iff Let_def)

lemma RecordSummary_blocksOnly:
  "(case RecordSummary s r of Inl _ \<Rightarrow> r | Inr r' \<Rightarrow> r') =
   r\<lparr>runSummary := runSummary (case RecordSummary s (blocksOnly r) of Inl _ \<Rightarrow> blocksOnly r | Inr r' \<Rightarrow> r')\<rparr>"
  by (simp add: RecordSummary_def blocksOnly_def split: option.splits)

lemma executeInner_blocksOnly:
  assumes "erAddresses uc = None"
  shows "executeInner keccak rng ctxErr uc r =
    do { res \<leftarrow> executeInner keccak rng ctxErr uc (blocksOnly r); State_Monad.return (withSummaryOf r res) }"
proof (rule state_ext)
  fix w
  have same: "runChainID (blocksOnly r) = runChainID r" "runStrategy (blocksOnly r) = runStrategy r"
      "runMetrics (blocksOnly r) = filterByCategory (runMetrics r) CatBlockImmutable" "runAddressPlans (blocksOnly r) = []"
      "runTokenPlans (blocksOnly r) = []"
    by (simp_all add: blocksOnly_def)
  have block: "runBlockPass keccak ctxErr uc (blocksOnly r) \<lparr>rcSources = ss, rcMetrics = filterByCategory (runMetrics r) CatBlockImmutable,
      rcAddressPlans = [], rcTokenPlans = [], rcResolver = res, rcBlocks = bs, rcAnchor = an\<rparr> =
    runBlockPass keccak ctxErr uc r \<lparr>rcSources = ss, rcMetrics = runMetrics r, rcAddressPlans = runAddressPlans r,
      rcTokenPlans = runTokenPlans r, rcResolver = res, rcBlocks = bs, rcAnchor = an\<rparr>" for ss res bs an
    using runBlockPass_blocksOnly [of keccak ctxErr uc r "\<lparr>rcSources = ss, rcMetrics = runMetrics r,
      rcAddressPlans = runAddressPlans r, rcTokenPlans = runTokenPlans r, rcResolver = res, rcBlocks = bs, rcAnchor = an\<rparr>"]
    by simp
  show "run_state (executeInner keccak rng ctxErr uc r) w =
      run_state (do { res \<leftarrow> executeInner keccak rng ctxErr uc (blocksOnly r); State_Monad.return (withSummaryOf r res) }) w"
    unfolding executeInner_def passes_without_samplers [OF assms] same
    by (simp add: withSummaryOf_def Let_def block RecordSummary_blocksOnly [of r] split: prod.splits sum.splits option.splits)
qed

lemma workerExec_samplers: "erAddresses (workerExec pr re db cipher) = None" "erBudget (workerExec pr re db cipher) = None"
  by (simp_all add: workerExec_def Let_def)

text \<open>
  Property C28. The worker is wired without samplers, so it verifies blocks only: executing any run has exactly the effects and
  the summary of executing the same run without its address and token plans and with its block metrics alone. Metrics of
  addresses and tokens, which the API accepts with their plans, are never compared, and no error says so.
\<close>

theorem worker_verifies_blocks_only:
  "executeInner keccak rng ctxErr (workerExec pr re db cipher) r =
   do {
     res \<leftarrow> executeInner keccak rng ctxErr (workerExec pr re db cipher) (blocksOnly r);
     State_Monad.return (withSummaryOf r res)
   }"
  by (rule executeInner_blocksOnly [OF workerExec_samplers(1)])

text \<open>A run over metrics of addresses and tokens alone ends without an error, a subject or a comparison.\<close>

lemma address_run_compares_nothing:
  assumes "run_state (executeInner keccak rng ctxErr (workerExec pr re db cipher) r) w = (Returns (Inr r'), w')"
    and "filterByCategory (runMetrics r) CatBlockImmutable = []"
  shows "runSummary r' = runSummary r \<or> rsComparisonsCount (runSummary r') = 0 \<and> rsSubjects (runSummary r') = []"
  using assms unfolding executeInner_def passes_without_samplers [OF workerExec_samplers(1)]
  by (auto simp: runBlockPass_def Let_def RecordSummary_def buildSummary_def setAnchor_def setSourcesFrom_def zeroAccumulator_def copySummary_def
      split: prod.splits sum.splits option.splits if_splits)

text \<open>The retention of the configuration reaches the scheduler: one task for the sweep, and none when it is switched off.\<close>

lemma worker_retention:
  "dpRetention (workerDispatcher pr re db opt cfg) =
   (if rcRunsDays (cfgRetention cfg) \<le> 0 then None
    else Some \<lparr>rtCronExpr = (if rcCronExpr (cfgRetention cfg) = [] then ''0 3 * * *'' else rcCronExpr (cfgRetention cfg)),
               rtDays = rcRunsDays (cfgRetention cfg)\<rparr>)"
  by (simp add: workerDispatcher_def WithRetention_def NewDispatcher_def Let_def)

text \<open>When the server of asynq returns without an error, the worker still reports one.\<close>

lemma clean_return_is_error:
  "run_state (wlServe L (envOrDefaultInt getenv ''CSW_WORKER_CONCURRENCY'' 10) [(QueueDefault, 5)] slogAsynqAdapter mux) w =
     (ServerReturned None, w') \<Longrightarrow> \<exists>e. run_state (serveTasks L getenv mux) w = (Some e, w')"
  by (simp add: serveTasks_def)

text \<open>The origins the server allows: the parts between the commas, without the empty ones.\<close>

lemma splitOn_Join: "(\<forall>p \<in> set ps. sep \<notin> set p) \<Longrightarrow> ps \<noteq> [] \<Longrightarrow> splitOn sep (Join ps [sep]) = ps"
proof (induction ps "[sep]" rule: Join.induct)
  case (3 x y ys)
  have "splitOn sep (x @ sep # s) = x # splitOn sep s" if "sep \<notin> set x" for x s using that by (induction x) auto
  then show ?case using 3 by simp
next
  case (2 x)
  have "splitOn sep x = [x]" if "sep \<notin> set x" for x using that by (induction x) auto
  then show ?case using 2 by simp
qed simp

end
